(* ===== verification/Prelude.thy ===== *)
theory Prelude
  imports Main
begin

text \<open>
  What every component shares: Python's exceptions as values, the result type
  \<open>exn + 'a\<close> with its sequencing operators, and generic facts about them.  A Python
  statement that may raise is a value of type \<open>'a res\<close>; \<open>bindR\<close> runs the next
  statement only when the previous one returned, as the interpreter does.
\<close>

subsection \<open>Exceptions\<close>

text \<open>
  One constructor per exception class that the modelled code raises or catches.  The
  string is the message of the \<open>raise\<close> statement (the stable reason code for the
  reason-carrying classes); \<open>SystemExit\<close> carries the printed reason and the exit
  status of the command-line helpers.
\<close>

datatype errno = ENOENT | EEXIST | ENOTDIR | ELOOP | EISDIR | ENOTEMPTY | EPERM | EACCES | EIO

datatype exn =
    TypeError string
  | ValueError string
  | KeyError
  | AssertionError
  | RuntimeError string
  | UnicodeEncodeError
  | UnicodeDecodeError
  | JSONDecodeError
  | OSError errno
  | BlockingIOError
  | JournalError string
  | JournalConflict string
  | JournalSecurityError string
  | JournalCorrupt string
  | StateError string
  | ConfigurationError string
  | FirewallSourceOperationError "nat list" int
  | Stage05Error string
  | BackupError string
  | ApiKeyOperationError string int
  | SystemExit string int

text \<open>The \<open>except\<close> clauses catch by class, subclasses included.\<close>

fun is_value_error :: "exn \<Rightarrow> bool" where
  "is_value_error (ValueError _) = True"
| "is_value_error UnicodeEncodeError = True"
| "is_value_error UnicodeDecodeError = True"
| "is_value_error JSONDecodeError = True"
| "is_value_error (ConfigurationError _) = True"
| "is_value_error (BackupError _) = True"
| "is_value_error _ = False"

fun is_type_error :: "exn \<Rightarrow> bool" where
  "is_type_error (TypeError _) = True"
| "is_type_error _ = False"

fun is_journal_error :: "exn \<Rightarrow> bool" where
  "is_journal_error (JournalError _) = True"
| "is_journal_error (JournalConflict _) = True"
| "is_journal_error (JournalSecurityError _) = True"
| "is_journal_error (JournalCorrupt _) = True"
| "is_journal_error _ = False"

fun is_os_error :: "exn \<Rightarrow> bool" where
  "is_os_error (OSError _) = True"
| "is_os_error BlockingIOError = True"
| "is_os_error _ = False"

subsection \<open>Results\<close>

type_synonym 'a res = "exn + 'a"

definition bindR :: "'a res \<Rightarrow> ('a \<Rightarrow> 'b res) \<Rightarrow> 'b res" where
  "bindR m f = (case m of Inl e \<Rightarrow> Inl e | Inr x \<Rightarrow> f x)"

definition thenR :: "unit res \<Rightarrow> 'b res \<Rightarrow> 'b res" where
  "thenR m k = (case m of Inl e \<Rightarrow> Inl e | Inr _ \<Rightarrow> k)"

text \<open>\<open>raise_if c e\<close> is \<open>if c: raise e\<close>.\<close>

definition raise_if :: "bool \<Rightarrow> exn \<Rightarrow> unit res" where
  "raise_if c e = (if c then Inl e else Inr ())"

text \<open>\<open>try_except p m h\<close> runs the handler on the exceptions that \<open>p\<close> selects.\<close>

definition try_except :: "(exn \<Rightarrow> bool) \<Rightarrow> 'a res \<Rightarrow> (exn \<Rightarrow> 'a res) \<Rightarrow> 'a res" where
  "try_except p m h = (case m of Inl e \<Rightarrow> (if p e then h e else Inl e) | Inr x \<Rightarrow> Inr x)"

text \<open>A loop that checks each item in order and stops at the first exception.\<close>

fun forR :: "'a list \<Rightarrow> ('a \<Rightarrow> unit res) \<Rightarrow> unit res" where
  "forR [] f = Inr ()"
| "forR (x # xs) f = thenR (f x) (forR xs f)"

text \<open>A comprehension \<open>[f(x) for x in xs]\<close> whose body may raise.\<close>

fun mapR :: "('a \<Rightarrow> 'b res) \<Rightarrow> 'a list \<Rightarrow> 'b list res" where
  "mapR f [] = Inr []"
| "mapR f (x # xs) = bindR (f x) (\<lambda>y. bindR (mapR f xs) (\<lambda>ys. Inr (y # ys)))"

lemma bindR_simps [simp]:
  "bindR (Inl e) f = Inl e"
  "bindR (Inr x) f = f x"
  by (simp_all add: bindR_def)

lemma thenR_simps [simp]:
  "thenR (Inl e) k = Inl e"
  "thenR (Inr u) k = k"
  by (simp_all add: thenR_def)

lemma raise_if_simps [simp]:
  "raise_if True e = Inl e"
  "raise_if False e = Inr ()"
  by (simp_all add: raise_if_def)

lemma try_except_simps [simp]:
  "try_except p (Inr x) h = Inr x"
  "try_except p (Inl e) h = (if p e then h e else Inl e)"
  by (simp_all add: try_except_def)

lemma bindR_eq_Inr [simp]: "bindR m f = Inr y \<longleftrightarrow> (\<exists>x. m = Inr x \<and> f x = Inr y)"
  by (cases m) auto

lemma thenR_eq_Inr [simp]: "thenR m k = Inr y \<longleftrightarrow> m = Inr () \<and> k = Inr y"
  by (cases m) auto

lemma raise_if_eq_Inr [simp]: "raise_if c e = Inr u \<longleftrightarrow> \<not> c"
  by (simp add: raise_if_def)

lemma raise_if_eq_Inl [simp]: "raise_if c e = Inl e' \<longleftrightarrow> c \<and> e' = e"
  by (auto simp: raise_if_def)

lemma bindR_eq_Inl: "bindR m f = Inl e \<longleftrightarrow> m = Inl e \<or> (\<exists>x. m = Inr x \<and> f x = Inl e)"
  by (cases m) auto

lemma thenR_eq_Inl: "thenR m k = Inl e \<longleftrightarrow> m = Inl e \<or> (m = Inr () \<and> k = Inl e)"
  by (cases m) auto

lemma try_except_eq_Inr [simp]:
  "try_except p m h = Inr y \<longleftrightarrow> m = Inr y \<or> (\<exists>e. m = Inl e \<and> p e \<and> h e = Inr y)"
  by (cases m) auto

lemma try_except_eq_Inl:
  "try_except p m h = Inl x \<longleftrightarrow> (\<exists>e. m = Inl e \<and> (if p e then h e = Inl x else x = e))"
  by (cases m) auto

lemma forR_eq_Inr [simp]: "forR xs f = Inr u \<longleftrightarrow> (\<forall>x \<in> set xs. f x = Inr ())"
  by (induction xs) auto

lemma forR_eq_InlD: "forR xs f = Inl e \<Longrightarrow> \<exists>x \<in> set xs. f x = Inl e"
  by (induction xs) (auto simp: thenR_eq_Inl)

lemma mapR_eq_Inr: "mapR f xs = Inr ys \<longleftrightarrow> list_all2 (\<lambda>x y. f x = Inr y) xs ys"
  by (induction xs arbitrary: ys) (auto simp: list_all2_Cons1)

lemma mapR_mem: "mapR f xs = Inr ys \<Longrightarrow> y \<in> set ys \<Longrightarrow> \<exists>x \<in> set xs. f x = Inr y"
  by (induction xs arbitrary: ys) auto

lemma mapR_length: "mapR f xs = Inr ys \<Longrightarrow> length ys = length xs"
  by (auto simp: mapR_eq_Inr list_all2_lengthD)

lemma mapR_Inr_map: "(\<And>x. x \<in> set xs \<Longrightarrow> f x = Inr (g x)) \<Longrightarrow> mapR f xs = Inr (map g xs)"
  by (induction xs) auto

lemma mapR_eq_InlD: "mapR f xs = Inl e \<Longrightarrow> \<exists>x \<in> set xs. f x = Inl e"
  by (induction xs) (auto simp: bindR_eq_Inl)

subsection \<open>Lists\<close>

text \<open>\<open>xs\<close> occurs in \<open>ys\<close> as a contiguous block: Python's \<open>xs in ys\<close> on strings.\<close>

fun starts_with :: "'a list \<Rightarrow> 'a list \<Rightarrow> bool" where
  "starts_with [] ys = True"
| "starts_with (x # xs) [] = False"
| "starts_with (x # xs) (y # ys) = (x = y \<and> starts_with xs ys)"

text \<open>\<open>search p xs\<close>: some suffix of \<open>xs\<close>, the empty one included, satisfies \<open>p\<close>.\<close>

fun search :: "('a list \<Rightarrow> bool) \<Rightarrow> 'a list \<Rightarrow> bool" where
  "search p [] = p []"
| "search p (x # xs) = (p (x # xs) \<or> search p xs)"

definition is_substring :: "'a list \<Rightarrow> 'a list \<Rightarrow> bool" where
  "is_substring xs ys = search (starts_with xs) ys"

lemma starts_with_iff: "starts_with xs ys \<longleftrightarrow> (\<exists>zs. ys = xs @ zs)"
  by (induction xs ys rule: starts_with.induct) auto

lemma starts_with_append [simp]: "starts_with xs (xs @ ys)"
  by (auto simp: starts_with_iff)

lemma search_iff: "search p xs \<longleftrightarrow> (\<exists>us vs. xs = us @ vs \<and> p vs)"
proof (induction xs)
  case Nil
  then show ?case by simp
next
  case (Cons x xs)
  show ?case
  proof
    assume "search p (x # xs)"
    then consider "p (x # xs)" | "search p xs" by auto
    then show "\<exists>us vs. x # xs = us @ vs \<and> p vs"
    proof cases
      case 1
      then have "x # xs = [] @ (x # xs) \<and> p (x # xs)" by simp
      then show ?thesis by blast
    next
      case 2
      with Cons.IH obtain us vs where "xs = us @ vs" "p vs" by blast
      then have "x # xs = (x # us) @ vs \<and> p vs" by simp
      then show ?thesis by blast
    qed
  next
    assume "\<exists>us vs. x # xs = us @ vs \<and> p vs"
    then obtain us vs where eq: "x # xs = us @ vs" and "p vs" by blast
    then show "search p (x # xs)"
      using Cons.IH by (cases us) auto
  qed
qed

lemma is_substring_iff: "is_substring xs ys \<longleftrightarrow> (\<exists>us vs. ys = us @ xs @ vs)"
  by (auto simp: is_substring_def search_iff starts_with_iff)

lemma distinct_map_fst_map_of: "distinct (map fst xs) \<Longrightarrow> (k, v) \<in> set xs \<Longrightarrow> map_of xs k = Some v"
  by simp

end
