(* ===== verification/Py_Text.thy ===== *)
theory Py_Text
  imports Prelude "HOL-Library.List_Lexorder"
begin

text \<open>
  Python strings and bytes.  A \<open>str\<close> is the list of its code points (lone surrogates
  included, as \<open>os.fsdecode\<close> and JSON escapes produce them), \<open>bytes\<close> a list of
  numbers below 256.  The order on strings is the lexicographic order of code points, which
  is Python's.  The standard-library functions the modelled code calls are here: UTF-8
  encoding and decoding, percent decoding, case-insensitive matching, line splitting.
\<close>

type_synonym pystr = "nat list"
type_synonym bytes = "nat list"

definition lit :: "string \<Rightarrow> pystr" where
  "lit s = map of_char s"

lemma inj_of_char_nat: "inj (of_char :: char \<Rightarrow> nat)"
  by (metis char_of_char injI)

lemma lit_eq_iff [simp]: "lit s = lit t \<longleftrightarrow> s = t"
  by (simp add: lit_def inj_map_eq_map inj_of_char_nat)

lemma lit_Nil [simp]: "lit [] = []"
  by (simp add: lit_def)

lemma lit_eq_Nil [simp]: "lit s = [] \<longleftrightarrow> s = []"
  by (simp add: lit_def)

lemma lit_append: "lit (s @ t) = lit s @ lit t"
  by (simp add: lit_def)

lemma length_lit [simp]: "length (lit s) = length s"
  by (simp add: lit_def)

lemma inj_lit: "inj lit"
  by (rule injI) simp

subsection \<open>Character classes\<close>

definition in_range :: "nat \<Rightarrow> nat \<Rightarrow> nat \<Rightarrow> bool" where
  "in_range lo hi c = (lo \<le> c \<and> c \<le> hi)"

definition is_lower_az :: "nat \<Rightarrow> bool" where "is_lower_az c = in_range 97 122 c"
definition is_upper_az :: "nat \<Rightarrow> bool" where "is_upper_az c = in_range 65 90 c"
definition is_digit09 :: "nat \<Rightarrow> bool" where "is_digit09 c = in_range 48 57 c"
definition is_lower_hex :: "nat \<Rightarrow> bool" where "is_lower_hex c = (is_digit09 c \<or> in_range 97 102 c)"
definition is_hex :: "nat \<Rightarrow> bool" where "is_hex c = (is_lower_hex c \<or> in_range 65 70 c)"

lemmas char_class_defs =
  in_range_def is_lower_az_def is_upper_az_def is_digit09_def is_lower_hex_def is_hex_def

text \<open>The class \<open>[\x00-\x1f\x7f-\x9f]\<close>.\<close>

definition is_c0_c1 :: "nat \<Rightarrow> bool" where
  "is_c0_c1 c = (c \<le> 31 \<or> in_range 127 159 c)"

text \<open>Unicode category \<open>Cf\<close> (format characters), from the Unicode 15.1 tables.\<close>

definition is_cf :: "nat \<Rightarrow> bool" where
  "is_cf c = (c = 0xad \<or> in_range 0x600 0x605 c \<or> c = 0x61c \<or> c = 0x6dd \<or> c = 0x70f
     \<or> in_range 0x890 0x891 c \<or> c = 0x8e2 \<or> c = 0x180e \<or> in_range 0x200b 0x200f c
     \<or> in_range 0x202a 0x202e c \<or> in_range 0x2060 0x2064 c \<or> in_range 0x2066 0x206f c
     \<or> c = 0xfeff \<or> in_range 0xfff9 0xfffb c \<or> c = 0x110bd \<or> c = 0x110cd
     \<or> in_range 0x13430 0x1343f c \<or> in_range 0x1bca0 0x1bca3 c
     \<or> in_range 0x1d173 0x1d17a c \<or> c = 0xe0001 \<or> in_range 0xe0020 0xe007f c)"

text \<open>\<open>str.isspace\<close>, which is also the class \<open>\s\<close> of a \<open>str\<close> pattern.\<close>

definition is_space :: "nat \<Rightarrow> bool" where
  "is_space c = (in_range 9 13 c \<or> in_range 28 32 c \<or> c = 0x85 \<or> c = 0xa0 \<or> c = 0x1680
     \<or> in_range 0x2000 0x200a c \<or> c = 0x2028 \<or> c = 0x2029 \<or> c = 0x202f \<or> c = 0x205f
     \<or> c = 0x3000)"

definition is_surrogate :: "nat \<Rightarrow> bool" where
  "is_surrogate c = in_range 0xd800 0xdfff c"

subsection \<open>UTF-8\<close>

definition utf8_char :: "nat \<Rightarrow> bytes" where
  "utf8_char c =
     (if c < 0x80 then [c]
      else if c < 0x800 then [0xc0 + c div 64, 0x80 + c mod 64]
      else if c < 0x10000 then [0xe0 + c div 4096, 0x80 + (c div 64) mod 64, 0x80 + c mod 64]
      else [0xf0 + c div 262144, 0x80 + (c div 4096) mod 64, 0x80 + (c div 64) mod 64,
            0x80 + c mod 64])"

definition encode_utf8 :: "pystr \<Rightarrow> bytes res" where
  "encode_utf8 s = (if list_ex is_surrogate s then Inl UnicodeEncodeError
                    else Inr (concat (map utf8_char s)))"

definition is_cont :: "nat \<Rightarrow> bool" where
  "is_cont b = in_range 0x80 0xbf b"

text \<open>
  One step of the decoder after the lead byte \<open>b\<close>: the code point and the bytes that
  remain, or \<open>None\<close> for an ill-formed sequence, of which the longest valid prefix is
  dropped.
\<close>

fun utf8_tail :: "nat \<Rightarrow> (nat \<Rightarrow> bool) list \<Rightarrow> bytes \<Rightarrow> nat option \<times> bytes" where
  "utf8_tail acc [] bs = (Some acc, bs)"
| "utf8_tail acc (p # ps) [] = (None, [])"
| "utf8_tail acc (p # ps) (b # bs) =
     (if p b then utf8_tail (acc * 64 + b mod 64) ps bs else (None, b # bs))"

definition utf8_next :: "nat \<Rightarrow> bytes \<Rightarrow> nat option \<times> bytes" where
  "utf8_next b bs =
     (if b < 0x80 then (Some b, bs)
      else if in_range 0xc2 0xdf b then utf8_tail (b - 0xc0) [is_cont] bs
      else if b = 0xe0 then utf8_tail 0 [in_range 0xa0 0xbf, is_cont] bs
      else if b = 0xed then utf8_tail 13 [in_range 0x80 0x9f, is_cont] bs
      else if in_range 0xe1 0xef b then utf8_tail (b - 0xe0) [is_cont, is_cont] bs
      else if b = 0xf0 then utf8_tail 0 [in_range 0x90 0xbf, is_cont, is_cont] bs
      else if in_range 0xf1 0xf3 b then utf8_tail (b - 0xf0) [is_cont, is_cont, is_cont] bs
      else if b = 0xf4 then utf8_tail 4 [in_range 0x80 0x8f, is_cont, is_cont] bs
      else (None, bs))"

lemma length_utf8_tail: "length (snd (utf8_tail acc ps bs)) \<le> length bs"
  by (induction acc ps bs rule: utf8_tail.induct) auto

lemma length_utf8_next: "length (snd (utf8_next b bs)) \<le> length bs"
  by (simp add: utf8_next_def length_utf8_tail)

text \<open>\<open>bytes.decode("utf-8", errors="replace")\<close> and \<open>errors="strict"\<close>.\<close>

function decode_replace :: "bytes \<Rightarrow> pystr" where
  "decode_replace [] = []"
| "decode_replace (b # bs) =
     (case utf8_next b bs of
        (None, rest) \<Rightarrow> 0xfffd # decode_replace rest
      | (Some c, rest) \<Rightarrow> c # decode_replace rest)"
  by pat_completeness auto
termination
  by (relation "measure length")
     (auto simp: less_Suc_eq_le dest: arg_cong [where f = snd],
      (metis length_utf8_next snd_conv)+)

function decode_strict :: "bytes \<Rightarrow> pystr res" where
  "decode_strict [] = Inr []"
| "decode_strict (b # bs) =
     (case utf8_next b bs of
        (None, rest) \<Rightarrow> Inl UnicodeDecodeError
      | (Some c, rest) \<Rightarrow> bindR (decode_strict rest) (\<lambda>cs. Inr (c # cs)))"
  by pat_completeness auto
termination
  by (relation "measure length")
     (auto simp: less_Suc_eq_le, (metis length_utf8_next snd_conv)+)

text \<open>\<open>bytes.decode("ascii")\<close> and \<open>str.encode("ascii")\<close>.\<close>

definition is_ascii :: "nat list \<Rightarrow> bool" where
  "is_ascii s = list_all (\<lambda>c. c < 128) s"

definition decode_ascii :: "bytes \<Rightarrow> pystr res" where
  "decode_ascii bs = (if is_ascii bs then Inr bs else Inl UnicodeDecodeError)"

lemma decode_strict_ascii: "is_ascii bs \<Longrightarrow> decode_strict bs = Inr bs"
  by (induction bs) (auto simp: is_ascii_def utf8_next_def)

lemma decode_replace_ascii: "is_ascii bs \<Longrightarrow> decode_replace bs = bs"
  by (induction bs) (auto simp: is_ascii_def utf8_next_def)

lemma is_ascii_simps [simp]:
  "is_ascii []"
  "is_ascii (c # s) \<longleftrightarrow> c < 128 \<and> is_ascii s"
  "is_ascii (s @ t) \<longleftrightarrow> is_ascii s \<and> is_ascii t"
  by (auto simp: is_ascii_def)

lemma encode_utf8_ascii: "is_ascii s \<Longrightarrow> encode_utf8 s = Inr s"
proof -
  assume a: "is_ascii s"
  then have "\<not> list_ex is_surrogate s"
    by (induction s) (auto simp: is_surrogate_def in_range_def)
  moreover from a have "concat (map utf8_char s) = s"
    by (induction s) (auto simp: utf8_char_def)
  ultimately show ?thesis by (simp add: encode_utf8_def)
qed

subsection \<open>Percent decoding (\<open>urllib.parse.unquote\<close>)\<close>

definition hex_val :: "nat \<Rightarrow> nat" where
  "hex_val c = (if is_digit09 c then c - 48 else if in_range 97 102 c then c - 87 else c - 55)"

lemma hex_val_bound: "is_hex c \<Longrightarrow> hex_val c < 16"
  by (auto simp: hex_val_def char_class_defs)

fun unquote_to_bytes :: "pystr \<Rightarrow> bytes" where
  "unquote_to_bytes (c # h # l # s) =
     (if c = 37 \<and> is_hex h \<and> is_hex l then (16 * hex_val h + hex_val l) # unquote_to_bytes s
      else c # unquote_to_bytes (h # l # s))"
| "unquote_to_bytes [c] = [c]"
| "unquote_to_bytes [c, h] = [c, h]"
| "unquote_to_bytes [] = []"

text \<open>
  The maximal ASCII runs are percent-decoded to bytes and those bytes read as UTF-8; other
  characters stay.
\<close>

function unquote :: "pystr \<Rightarrow> pystr" where
  "unquote [] = []"
| "unquote (c # s) =
     (if c < 128
      then decode_replace (unquote_to_bytes (takeWhile (\<lambda>x. x < 128) (c # s)))
           @ unquote (dropWhile (\<lambda>x. x < 128) (c # s))
      else c # unquote s)"
  by pat_completeness auto
termination
  by (relation "measure length") (auto simp: less_Suc_eq_le length_dropWhile_le)

text \<open>Text without a percent sign is unchanged.\<close>

lemma unquote_to_bytes_plain: "37 \<notin> set s \<Longrightarrow> unquote_to_bytes s = s"
  by (induction s rule: unquote_to_bytes.induct) auto

lemma is_ascii_takeWhile: "is_ascii (takeWhile (\<lambda>x. x < 128) s)"
  by (auto simp: is_ascii_def list_all_iff dest: set_takeWhileD)

lemma unquote_plain: "37 \<notin> set s \<Longrightarrow> unquote s = s"
proof (induction s rule: unquote.induct)
  case 1
  then show ?case by simp
next
  case (2 c s)
  show ?case
  proof (cases "c < 128")
    case True
    let ?run = "takeWhile (\<lambda>x. x < 128) (c # s)" and ?rest = "dropWhile (\<lambda>x. x < 128) (c # s)"
    have "37 \<notin> set ?run" "37 \<notin> set ?rest"
      using "2.prems" by (auto dest: set_takeWhileD set_dropWhileD)
    then have "unquote ?rest = ?rest" "decode_replace (unquote_to_bytes ?run) = ?run"
      using "2.IH"(1) True
      by (simp_all add: unquote_to_bytes_plain decode_replace_ascii is_ascii_takeWhile
            del: takeWhile.simps dropWhile.simps)
    with True have "unquote (c # s) = ?run @ ?rest"
      by (simp del: takeWhile.simps dropWhile.simps)
    then show ?thesis by (simp only: takeWhile_dropWhile_id)
  next
    case False
    with "2" show ?thesis by simp
  qed
qed

text \<open>
  \<open>for _ in range(n): next = unquote(decoded); if next == decoded: break; decoded = next\<close>
\<close>

fun unquote_loop :: "nat \<Rightarrow> pystr \<Rightarrow> pystr" where
  "unquote_loop 0 decoded = decoded"
| "unquote_loop (Suc n) decoded =
     (let next_value = unquote decoded
      in if next_value = decoded then decoded else unquote_loop n next_value)"

lemma unquote_loop_2: "unquote_loop 2 s = unquote (unquote s)"
  by (simp add: numeral_2_eq_2 Let_def)

lemma unquote_loop_plain: "37 \<notin> set s \<Longrightarrow> unquote_loop n s = s"
  by (cases n) (simp_all add: unquote_plain)

subsection \<open>Patterns\<close>

text \<open>
  A letter of a pattern compiled with \<open>re.IGNORECASE\<close>: besides the two ASCII cases,
  Python folds U+017F to s, U+212A to k, U+0130 and U+0131 to i.  The pattern character
  \<open>p\<close> is lower case or not a letter.
\<close>

definition ci_match :: "nat \<Rightarrow> nat \<Rightarrow> bool" where
  "ci_match p c = (c = p \<or> (is_lower_az p \<and> c + 32 = p) \<or> (p = 115 \<and> c = 0x17f)
     \<or> (p = 107 \<and> c = 0x212a) \<or> (p = 105 \<and> (c = 0x130 \<or> c = 0x131)))"

text \<open>The rest of \<open>s\<close> after the word \<open>w\<close>, matched without regard to case.\<close>

fun ci_prefix :: "pystr \<Rightarrow> pystr \<Rightarrow> pystr option" where
  "ci_prefix [] s = Some s"
| "ci_prefix (p # w) [] = None"
| "ci_prefix (p # w) (c # s) = (if ci_match p c then ci_prefix w s else None)"

text \<open>\<open>\s*[:=]\<close> at the start of \<open>s\<close>.\<close>

definition assignment_sign :: "pystr \<Rightarrow> bool" where
  "assignment_sign s = (case dropWhile is_space s of [] \<Rightarrow> False | c # _ \<Rightarrow> c = 58 \<or> c = 61)"

definition assignment_at :: "pystr list \<Rightarrow> pystr \<Rightarrow> bool" where
  "assignment_at ws s =
     list_ex (\<lambda>w. case ci_prefix w s of None \<Rightarrow> False | Some r \<Rightarrow> assignment_sign r) ws"

text \<open>\<open>"-----BEGIN " in s.upper()\<close>: the letters of the marker have the upper-case sources
  themselves, their lower-case forms and, for I, the dotless i; no expansion of
  \<open>str.upper\<close> produces two adjacent letters of the marker.\<close>

definition upper_match :: "nat \<Rightarrow> nat \<Rightarrow> bool" where
  "upper_match p c = (c = p \<or> (is_upper_az p \<and> c = p + 32) \<or> (p = 73 \<and> c = 0x131))"

fun upper_prefix :: "pystr \<Rightarrow> pystr \<Rightarrow> bool" where
  "upper_prefix [] s = True"
| "upper_prefix (p # w) [] = False"
| "upper_prefix (p # w) (c # s) = (upper_match p c \<and> upper_prefix w s)"

definition has_begin_marker :: "pystr \<Rightarrow> bool" where
  "has_begin_marker s = search (upper_prefix (lit ''-----BEGIN '')) s"

text \<open>\<open>[head][tail]{lo,hi}\<close> under \<open>fullmatch\<close>.\<close>

definition full_class :: "(nat \<Rightarrow> bool) \<Rightarrow> (nat \<Rightarrow> bool) \<Rightarrow> nat \<Rightarrow> nat \<Rightarrow> pystr \<Rightarrow> bool" where
  "full_class hd_ok tl_ok lo hi s =
     (case s of [] \<Rightarrow> False
      | c # cs \<Rightarrow> hd_ok c \<and> list_all tl_ok cs \<and> lo \<le> length cs \<and> length cs \<le> hi)"

definition all_of_length :: "(nat \<Rightarrow> bool) \<Rightarrow> nat \<Rightarrow> pystr \<Rightarrow> bool" where
  "all_of_length ok n s = (length s = n \<and> list_all ok s)"

subsection \<open>Splitting and stripping\<close>

definition is_line_break :: "nat \<Rightarrow> bool" where
  "is_line_break c = (in_range 10 13 c \<or> in_range 28 30 c \<or> c = 0x85 \<or> c = 0x2028 \<or> c = 0x2029)"

text \<open>\<open>str.splitlines()\<close>; CR LF counts as one break, and a final break ends the last line.\<close>

fun splitlines_from :: "pystr \<Rightarrow> pystr \<Rightarrow> pystr list" where
  "splitlines_from acc [] = (if acc = [] then [] else [rev acc])"
| "splitlines_from acc [c] = (if is_line_break c then [rev acc] else [rev (c # acc)])"
| "splitlines_from acc (c # d # s) =
     (if is_line_break c
      then rev acc # splitlines_from [] (if c = 13 \<and> d = 10 then s else d # s)
      else splitlines_from (c # acc) (d # s))"

definition splitlines :: "pystr \<Rightarrow> pystr list" where
  "splitlines s = splitlines_from [] s"

text \<open>\<open>s.split(sep, 1)\<close> for a one-character separator that occurs in \<open>s\<close>: the parts
  before and after the first occurrence.\<close>

definition split_once :: "nat \<Rightarrow> pystr \<Rightarrow> (pystr \<times> pystr) option" where
  "split_once sep s =
     (if sep \<in> set s
      then Some (takeWhile (\<lambda>c. c \<noteq> sep) s, tl (dropWhile (\<lambda>c. c \<noteq> sep) s)) else None)"

text \<open>\<open>s.split(sep)\<close> for a one-character separator.\<close>

fun split_on :: "nat \<Rightarrow> pystr \<Rightarrow> pystr list" where
  "split_on sep [] = [[]]"
| "split_on sep (c # s) =
     (if c = sep then [] # split_on sep s
      else (case split_on sep s of [] \<Rightarrow> [[c]] | w # ws \<Rightarrow> (c # w) # ws))"

text \<open>\<open>s.split()\<close>: the maximal runs without white space.\<close>

function split_space :: "pystr \<Rightarrow> pystr list" where
  "split_space s =
     (let t = dropWhile is_space s
      in if t = [] then []
         else takeWhile (\<lambda>c. \<not> is_space c) t # split_space (dropWhile (\<lambda>c. \<not> is_space c) t))"
  by pat_completeness auto
termination
proof (relation "measure length", simp)
  fix s x
  assume "x = dropWhile is_space s" "x \<noteq> []"
  then obtain c cs where "x = c # cs" "\<not> is_space c"
    by (metis dropWhile_eq_Cons_conv list.exhaust)
  then have "length (dropWhile (\<lambda>c. \<not> is_space c) x) < length x"
    by (simp add: less_Suc_eq_le length_dropWhile_le)
  moreover have "length x \<le> length s"
    using \<open>x = dropWhile is_space s\<close> by (simp add: length_dropWhile_le)
  ultimately show "(dropWhile (\<lambda>c. \<not> is_space c) x, s) \<in> measure length" by simp
qed

declare split_space.simps [simp del]

definition strip :: "pystr \<Rightarrow> pystr" where
  "strip s = rev (dropWhile is_space (rev (dropWhile is_space s)))"

definition rstrip_char :: "nat \<Rightarrow> pystr \<Rightarrow> pystr" where
  "rstrip_char c s = rev (dropWhile (\<lambda>x. x = c) (rev s))"

definition ends_with :: "pystr \<Rightarrow> pystr \<Rightarrow> bool" where
  "ends_with suf s = starts_with (rev suf) (rev s)"

fun join :: "pystr \<Rightarrow> pystr list \<Rightarrow> pystr" where
  "join sep [] = []"
| "join sep [w] = w"
| "join sep (w # v # ws) = w @ sep @ join sep (v # ws)"

lemma split_on_nonempty [simp]: "split_on sep s \<noteq> []"
  by (induction s) (auto split: list.splits)

lemma join_split_on: "join [sep] (split_on sep s) = s"
proof (induction s)
  case Nil
  show ?case by simp
next
  case (Cons c s)
  obtain w ws where sp: "split_on sep s = w # ws"
    using split_on_nonempty by (metis list.exhaust)
  with Cons show ?case by (cases ws) auto
qed

text \<open>Decimal digits of an integer (\<open>str(n)\<close>, \<open>int(s)\<close>).\<close>

fun nat_digits :: "nat \<Rightarrow> pystr" where
  "nat_digits n = (if n < 10 then [48 + n] else nat_digits (n div 10) @ [48 + n mod 10])"

declare nat_digits.simps [simp del]

definition int_str :: "int \<Rightarrow> pystr" where
  "int_str i = (if i < 0 then 45 # nat_digits (nat (- i)) else nat_digits (nat i))"

fun digits_val :: "nat \<Rightarrow> pystr \<Rightarrow> nat" where
  "digits_val acc [] = acc"
| "digits_val acc (c # s) = digits_val (10 * acc + (c - 48)) s"

lemma digits_val_append: "digits_val acc (s @ t) = digits_val (digits_val acc s) t"
  by (induction acc s rule: digits_val.induct) auto

lemma digits_val_nat_digits: "digits_val 0 (nat_digits n) = n"
proof (induction n rule: nat_digits.induct)
  case (1 n)
  then show ?case
    by (cases "n < 10") (simp_all add: nat_digits.simps [of n] digits_val_append)
qed

lemma nat_digits_digits: "list_all is_digit09 (nat_digits n)"
proof (induction n rule: nat_digits.induct)
  case (1 n)
  then show ?case
    by (cases "n < 10") (simp_all add: nat_digits.simps [of n] char_class_defs)
qed

lemma nat_digits_nonempty [simp]: "nat_digits n \<noteq> []"
  by (simp add: nat_digits.simps [of n])

lemma nat_digits_hd: "0 < n \<Longrightarrow> hd (nat_digits n) \<noteq> 48"
proof (induction n rule: nat_digits.induct)
  case (1 n)
  then show ?case
    by (cases "n < 10") (simp_all add: nat_digits.simps [of n] hd_append)
qed

subsection \<open>What percent decoding keeps\<close>

text \<open>
  A character that is neither the percent sign nor a hexadecimal digit cannot be part of an
  escape: decoding works independently on its two sides and keeps it.  So a control
  character, a slash or a path component that is visible before decoding is still visible
  after it.
\<close>

definition barrier :: "nat \<Rightarrow> bool" where
  "barrier c = (c \<noteq> 37 \<and> \<not> is_hex c)"

lemma unquote_to_bytes_barrier:
  "barrier c \<Longrightarrow> unquote_to_bytes (s @ c # t) = unquote_to_bytes s @ c # unquote_to_bytes t"
proof (induction s rule: unquote_to_bytes.induct)
  case (1 d h l s)
  then show ?case by simp
next
  case (2 d)
  have "unquote_to_bytes (c # t) = c # unquote_to_bytes t"
    using "2.prems" by (cases t rule: unquote_to_bytes.cases) (auto simp: barrier_def)
  then show ?case using "2.prems" by (cases t) (auto simp: barrier_def)
next
  case (3 d h)
  have "unquote_to_bytes (c # t) = c # unquote_to_bytes t"
    using "3.prems" by (cases t rule: unquote_to_bytes.cases) (auto simp: barrier_def)
  moreover have "unquote_to_bytes (h # c # t) = h # unquote_to_bytes (c # t)"
    using "3.prems" by (cases t) (auto simp: barrier_def)
  ultimately show ?case using "3.prems" by (auto simp: barrier_def)
next
  case 4
  then show ?case by (cases t rule: unquote_to_bytes.cases) (auto simp: barrier_def)
qed

lemma utf8_tail_ascii:
  "list_all (\<lambda>p. \<not> p b) ps \<Longrightarrow>
     utf8_tail acc ps (bs @ b # cs) = (fst (utf8_tail acc ps bs), snd (utf8_tail acc ps bs) @ b # cs)"
  by (induction acc ps bs rule: utf8_tail.induct) auto

lemma utf8_next_ascii:
  "b < 128 \<Longrightarrow> utf8_next a (bs @ b # cs) = (fst (utf8_next a bs), snd (utf8_next a bs) @ b # cs)"
  by (auto simp: utf8_next_def utf8_tail_ascii is_cont_def in_range_def)

lemma decode_replace_barrier:
  "b < 128 \<Longrightarrow> decode_replace (bs @ b # cs) = decode_replace bs @ b # decode_replace cs"
proof (induction bs rule: decode_replace.induct)
  case 1
  then show ?case by (simp add: utf8_next_def)
next
  case (2 a bs)
  then show ?case
    by (cases "utf8_next a bs") (auto simp: utf8_next_ascii split: option.splits)
qed

abbreviation ascii_run :: "pystr \<Rightarrow> pystr" where
  "ascii_run s \<equiv> takeWhile (\<lambda>x. x < 128) s"

abbreviation after_run :: "pystr \<Rightarrow> pystr" where
  "after_run s \<equiv> dropWhile (\<lambda>x. x < 128) s"

lemma unquote_run:
  "unquote s = decode_replace (unquote_to_bytes (ascii_run s)) @ unquote (after_run s)"
  by (cases s) auto

lemma unquote_barrier_Cons:
  assumes "barrier c"
  shows "unquote (c # t) = c # unquote t"
proof (cases "c < 128")
  case True
  then have "unquote (c # t) = decode_replace (unquote_to_bytes ([] @ c # ascii_run t)) @ unquote (after_run t)"
    by (subst unquote_run) simp
  also have "\<dots> = c # decode_replace (unquote_to_bytes (ascii_run t)) @ unquote (after_run t)"
    using decode_replace_barrier [OF True, of "[]"]
    by (simp only: unquote_to_bytes_barrier [OF assms]) simp
  finally show ?thesis by (simp add: unquote_run [of t])
qed simp

text \<open>
  Percent decoding works independently on the two sides of a character that cannot be part
  of an escape; the character itself stays.
\<close>

lemma unquote_barrier:
  assumes "barrier c"
  shows "unquote (s @ c # t) = unquote s @ c # unquote t"
proof (induction s rule: unquote.induct)
  case 1
  show ?case using unquote_barrier_Cons [OF assms] by simp
next
  case (2 d s)
  show ?case
  proof (cases "d < 128")
    case False
    with 2 show ?thesis by simp
  next
    case d: True
    show ?thesis
    proof (cases "after_run (d # s) = []")
      case False
      then have "ascii_run ((d # s) @ c # t) = ascii_run (d # s)"
          "after_run ((d # s) @ c # t) = after_run (d # s) @ c # t"
        by (auto simp: takeWhile_append dropWhile_append simp del: takeWhile.simps dropWhile.simps append.simps)
      then show ?thesis
        using "2.IH"(1) [OF d] unquote_run [of "(d # s) @ c # t"] unquote_run [of "d # s"]
        by (simp del: takeWhile.simps dropWhile.simps unquote.simps)
    next
      case True
      then have all: "\<forall>x \<in> set (d # s). x < 128" by (simp only: dropWhile_eq_Nil_conv)
      then have run: "ascii_run ((d # s) @ u) = (d # s) @ ascii_run u"
          "after_run ((d # s) @ u) = after_run u" for u
        by (auto simp: takeWhile_append2 dropWhile_append2)
      have ds: "unquote (d # s) = decode_replace (unquote_to_bytes (d # s))"
        using unquote_run [of "d # s"] run [of "[]"] by (simp del: unquote.simps(2))
      show ?thesis
      proof (cases "c < 128")
        case c: True
        have "unquote ((d # s) @ c # t) =
            decode_replace (unquote_to_bytes ((d # s) @ c # ascii_run t)) @ unquote (after_run t)"
          using c by (subst unquote_run) (simp add: run del: append.simps)
        then show ?thesis
          unfolding unquote_to_bytes_barrier [OF assms] decode_replace_barrier [OF c] ds
          by (simp add: unquote_run [of t])
      next
        case False
        then show ?thesis
          using unquote_barrier_Cons [OF assms, of t] ds
          by (subst unquote_run) (simp add: run del: append.simps unquote.simps)
      qed
    qed
  qed
qed

lemma barrier_survives: "barrier c \<Longrightarrow> c \<in> set s \<Longrightarrow> c \<in> set (unquote s)"
  by (metis in_set_conv_decomp unquote_barrier)

lemma pair_survives:
  assumes "barrier c" "is_substring [c, c] s"
  shows "is_substring [c, c] (unquote s)"
proof -
  from assms(2) obtain u v where s: "s = u @ c # c # v"
    by (auto simp: is_substring_iff)
  have "unquote s = unquote u @ [c, c] @ unquote v"
    unfolding s using unquote_barrier [OF assms(1), of u "c # v"] unquote_barrier_Cons [OF assms(1), of v]
    by simp
  then show ?thesis unfolding is_substring_iff by blast
qed

lemma split_on_append:
  "split_on sep (s @ sep # t) = split_on sep s @ split_on sep t"
  by (induction s) (auto split: list.splits)

lemma split_on_join:
  "ws \<noteq> [] \<Longrightarrow> split_on sep (join [sep] ws) = concat (map (split_on sep) ws)"
  by (induction "[sep]" ws rule: join.induct) (auto simp: split_on_append)

lemma unquote_join:
  "barrier c \<Longrightarrow> unquote (join [c] ws) = join [c] (map unquote ws)"
  by (induction "[c]" ws rule: join.induct) (simp_all add: unquote_barrier del: unquote.simps(2))

lemma component_survives:
  assumes "barrier sep" "w \<in> set (split_on sep s)" "37 \<notin> set w" "sep \<notin> set w"
  shows "w \<in> set (split_on sep (unquote s))"
proof -
  have "unquote s = join [sep] (map unquote (split_on sep s))"
    using unquote_join [OF assms(1), of "split_on sep s"] by (simp add: join_split_on)
  moreover have "map unquote (split_on sep s) \<noteq> []" by simp
  ultimately have "split_on sep (unquote s) = concat (map (split_on sep) (map unquote (split_on sep s)))"
    using split_on_join by metis
  moreover have "split_on sep w = [w]" using assms(4) by (induction w) auto
  ultimately show ?thesis
    using assms(2) unquote_plain [OF assms(3)] by force
qed

text \<open>The text mode of \<open>read_text\<close> turns every line end into a line feed.\<close>

fun universal_newlines :: "pystr \<Rightarrow> pystr" where
  "universal_newlines [] = []"
| "universal_newlines [c] = (if c = 13 then [10] else [c])"
| "universal_newlines (c # d # s) =
     (if c = 13 then 10 # universal_newlines (if d = 10 then s else d # s) else c # universal_newlines (d # s))"

lemma universal_newlines_plain: "13 \<notin> set s \<Longrightarrow> universal_newlines s = s"
  by (induction s rule: universal_newlines.induct) auto

end
