(* ===== verification/Json.thy ===== *)
theory Json
  imports Py_Text "HOL-Library.AList" "HOL-Library.Multiset"
begin

text \<open>
  JSON as the standard library reads and writes it: \<open>json.dumps\<close> with sorted keys, the
  separators \<open>(",", ":")\<close> and ASCII output, and \<open>json.loads\<close> with its extensions (NaN
  and the infinities, lone surrogates, repeated keys, the digit limit of \<open>int\<close>).  A
  dict is an association list in insertion order.  The main fact is the round trip: reading a
  printed value gives it back with its keys sorted.
\<close>

text \<open>A float keeps its source text: the modelled code only tells it from an \<open>int\<close>.\<close>

datatype json =
    JNull
  | JBool bool
  | JInt int
  | JFloat pystr
  | JStr pystr
  | JArr "json list"
  | JObj "(pystr \<times> json) list"

type_synonym json_dict = "(pystr \<times> json) list"

subsection \<open>Writing\<close>

definition hex_digit :: "nat \<Rightarrow> nat" where
  "hex_digit n = (if n < 10 then 48 + n else 87 + n)"

definition u_escape :: "nat \<Rightarrow> pystr" where
  "u_escape u = [92, 117, hex_digit (u div 4096 mod 16), hex_digit (u div 256 mod 16),
                 hex_digit (u div 16 mod 16), hex_digit (u mod 16)]"

definition esc_char :: "nat \<Rightarrow> pystr" where
  "esc_char c =
     (if c = 34 then [92, 34] else if c = 92 then [92, 92]
      else if c = 10 then [92, 110] else if c = 13 then [92, 114]
      else if c = 9 then [92, 116] else if c = 12 then [92, 102]
      else if c = 8 then [92, 98]
      else if in_range 32 126 c then [c]
      else if c < 0x10000 then u_escape c
      else u_escape (0xd800 + (c - 0x10000) div 1024) @ u_escape (0xdc00 + (c - 0x10000) mod 1024))"

definition quoted :: "pystr \<Rightarrow> pystr" where
  "quoted s = 34 # concat (map esc_char s) @ [34]"

definition member_text :: "pystr \<times> pystr \<Rightarrow> pystr" where
  "member_text kt = quoted (fst kt) @ 58 # snd kt"

primrec dumps :: "json \<Rightarrow> pystr" where
  "dumps JNull = lit ''null''"
| "dumps (JBool b) = (if b then lit ''true'' else lit ''false'')"
| "dumps (JInt i) = int_str i"
| "dumps (JFloat t) = t"
| "dumps (JStr s) = quoted s"
| "dumps (JArr vs) = 91 # join [44] (map dumps vs) @ [93]"
| "dumps (JObj kvs) =
     123 # join [44] (map member_text (sort_key fst (map (map_prod id dumps) kvs))) @ [125]"

subsection \<open>Reading\<close>

definition is_ws :: "nat \<Rightarrow> bool" where
  "is_ws c = (c = 32 \<or> c = 9 \<or> c = 10 \<or> c = 13)"

definition skip_ws :: "pystr \<Rightarrow> pystr" where
  "skip_ws s = dropWhile is_ws s"

fun hex4 :: "pystr \<Rightarrow> (nat \<times> pystr) option" where
  "hex4 (a # b # c # d # r) =
     (if is_hex a \<and> is_hex b \<and> is_hex c \<and> is_hex d
      then Some (((hex_val a * 16 + hex_val b) * 16 + hex_val c) * 16 + hex_val d, r)
      else None)"
| "hex4 _ = None"

definition simple_escape :: "nat \<Rightarrow> nat option" where
  "simple_escape e =
     (if e = 34 then Some 34 else if e = 92 then Some 92 else if e = 47 then Some 47
      else if e = 98 then Some 8 else if e = 102 then Some 12 else if e = 110 then Some 10
      else if e = 114 then Some 13 else if e = 116 then Some 9 else None)"

text \<open>The character after \<open>\u\<close>; a high surrogate takes a following low one with it.\<close>

definition unicode_escape :: "pystr \<Rightarrow> (nat \<times> pystr) res" where
  "unicode_escape s =
     (case hex4 s of
        None \<Rightarrow> Inl JSONDecodeError
      | Some (u, r) \<Rightarrow>
          (if in_range 0xd800 0xdbff u \<and> starts_with [92, 117] r
           then (case hex4 (drop 2 r) of
                   None \<Rightarrow> Inl JSONDecodeError
                 | Some (l, r') \<Rightarrow>
                     (if in_range 0xdc00 0xdfff l
                      then Inr (0x10000 + (u - 0xd800) * 1024 + (l - 0xdc00), r')
                      else Inr (u, r)))
           else Inr (u, r)))"

text \<open>One character of a string literal; \<open>None\<close> is the closing quote.\<close>

definition next_char :: "pystr \<Rightarrow> (nat option \<times> pystr) res" where
  "next_char s =
     (case s of
        [] \<Rightarrow> Inl JSONDecodeError
      | c # r \<Rightarrow>
          (if c = 34 then Inr (None, r)
           else if c < 32 then Inl JSONDecodeError
           else if c \<noteq> 92 then Inr (Some c, r)
           else (case r of
                   [] \<Rightarrow> Inl JSONDecodeError
                 | e # r' \<Rightarrow>
                     (if e = 117 then map_sum id (map_prod Some id) (unicode_escape r')
                      else (case simple_escape e of
                              None \<Rightarrow> Inl JSONDecodeError
                            | Some x \<Rightarrow> Inr (Some x, r'))))))"

lemma hex4_length: "hex4 s = Some (u, r) \<Longrightarrow> length r < length s"
  by (induction s rule: hex4.induct) (auto split: if_splits)

lemma unicode_escape_length: "unicode_escape s = Inr (u, r) \<Longrightarrow> length r < length s"
  by (auto simp: unicode_escape_def split: option.splits if_splits dest!: hex4_length)

lemma next_char_length: "next_char s = Inr (x, r) \<Longrightarrow> length r < length s"
  by (auto simp: next_char_def map_sum_def split: list.splits if_splits option.splits sum.splits
      dest: unicode_escape_length)

function parse_str :: "pystr \<Rightarrow> (pystr \<times> pystr) res" where
  "parse_str s =
     (case next_char s of
        Inl e \<Rightarrow> Inl e
      | Inr (None, r) \<Rightarrow> Inr ([], r)
      | Inr (Some c, r) \<Rightarrow> bindR (parse_str r) (\<lambda>(cs, r'). Inr (c # cs, r')))"
  by pat_completeness auto
termination
  by (relation "measure length") (auto dest: next_char_length)

declare parse_str.simps [simp del]

definition int_limit :: nat where
  "int_limit = 4300"

text \<open>An optional fraction and exponent: the text consumed and the rest.\<close>

definition frac_part :: "pystr \<Rightarrow> pystr \<times> pystr" where
  "frac_part s =
     (case s of
        c # d # r \<Rightarrow> (if c = 46 \<and> is_digit09 d
                      then (c # takeWhile is_digit09 (d # r), dropWhile is_digit09 (d # r))
                      else ([], s))
      | _ \<Rightarrow> ([], s))"

definition exp_part :: "pystr \<Rightarrow> pystr \<times> pystr" where
  "exp_part s =
     (case s of
        c # r \<Rightarrow>
          (if c = 101 \<or> c = 69
           then (let (sg, r1) = (case r of x # y \<Rightarrow> if x = 43 \<or> x = 45 then ([x], y) else ([], r)
                                  | [] \<Rightarrow> ([], r))
                 in if r1 \<noteq> [] \<and> is_digit09 (hd r1)
                    then (c # sg @ takeWhile is_digit09 r1, dropWhile is_digit09 r1)
                    else ([], s))
           else ([], s))
      | [] \<Rightarrow> ([], s))"

text \<open>The digits of a number: a single zero, or a run that starts with a nonzero digit.\<close>

definition int_part :: "pystr \<Rightarrow> (pystr \<times> pystr) option" where
  "int_part s =
     (case s of
        [] \<Rightarrow> None
      | c # r \<Rightarrow> (if c = 48 then Some ([48], r)
                  else if is_digit09 c then Some (takeWhile is_digit09 s, dropWhile is_digit09 s)
                  else None))"

definition parse_number :: "pystr \<Rightarrow> (json \<times> pystr) res" where
  "parse_number s =
     (let (neg, body) = (case s of c # r \<Rightarrow> if c = 45 then (True, r) else (False, s)
                          | [] \<Rightarrow> (False, s))
      in case int_part body of
           None \<Rightarrow> Inl JSONDecodeError
         | Some (ds, r1) \<Rightarrow>
             (let (fr, r2) = frac_part r1; (ex, r3) = exp_part r2
              in if fr \<noteq> [] \<or> ex \<noteq> [] then Inr (JFloat ((if neg then [45] else []) @ ds @ fr @ ex), r3)
                 else if int_limit < length ds then Inl (ValueError ''int digit limit'')
                 else Inr (JInt (if neg then - int (digits_val 0 ds) else int (digits_val 0 ds)), r3)))"

text \<open>The literal words, each tried in turn.\<close>

definition constants :: "(pystr \<times> json) list" where
  "constants =
     [(lit ''null'', JNull), (lit ''true'', JBool True), (lit ''false'', JBool False),
      (lit ''NaN'', JFloat (lit ''NaN'')), (lit ''Infinity'', JFloat (lit ''Infinity'')),
      (lit ''-Infinity'', JFloat (lit ''-Infinity''))]"

definition parse_atom :: "pystr \<Rightarrow> (json \<times> pystr) res" where
  "parse_atom s =
     (case find (\<lambda>(w, v). starts_with w s) constants of
        Some (w, v) \<Rightarrow> Inr (v, drop (length w) s)
      | None \<Rightarrow> parse_number s)"

text \<open>Assigning the parsed pairs one after another: a repeated key keeps its place and
  takes the later value.\<close>

definition dict_of :: "json_dict \<Rightarrow> json_dict" where
  "dict_of kvs = fold (\<lambda>(k, v). AList.update k v) kvs []"

definition out_of_fuel :: exn where
  "out_of_fuel = RuntimeError ''out of fuel''"

fun parse_value :: "nat \<Rightarrow> pystr \<Rightarrow> (json \<times> pystr) res"
  and parse_items :: "nat \<Rightarrow> pystr \<Rightarrow> (json list \<times> pystr) res"
  and parse_members :: "nat \<Rightarrow> pystr \<Rightarrow> (json_dict \<times> pystr) res" where
  "parse_value 0 s = Inl out_of_fuel"
| "parse_value (Suc f) s =
     (case s of
        [] \<Rightarrow> Inl JSONDecodeError
      | c # r \<Rightarrow>
          (if c = 34 then bindR (parse_str r) (\<lambda>(t, r'). Inr (JStr t, r'))
           else if c = 91
           then (if starts_with [93] (skip_ws r) then Inr (JArr [], tl (skip_ws r))
                 else bindR (parse_items f (skip_ws r)) (\<lambda>(vs, r'). Inr (JArr vs, r')))
           else if c = 123
           then (if starts_with [125] (skip_ws r) then Inr (JObj [], tl (skip_ws r))
                 else bindR (parse_members f (skip_ws r)) (\<lambda>(kvs, r'). Inr (JObj (dict_of kvs), r')))
           else parse_atom s))"
| "parse_items 0 s = Inl out_of_fuel"
| "parse_items (Suc f) s =
     bindR (parse_value f s) (\<lambda>(v, r).
       case skip_ws r of
         [] \<Rightarrow> Inl JSONDecodeError
       | c # r' \<Rightarrow>
           (if c = 44 then bindR (parse_items f (skip_ws r')) (\<lambda>(vs, r''). Inr (v # vs, r''))
            else if c = 93 then Inr ([v], r') else Inl JSONDecodeError))"
| "parse_members 0 s = Inl out_of_fuel"
| "parse_members (Suc f) s =
     (case s of
        [] \<Rightarrow> Inl JSONDecodeError
      | q # s1 \<Rightarrow>
          (if q \<noteq> 34 then Inl JSONDecodeError
           else bindR (parse_str s1) (\<lambda>(k, s2).
             case skip_ws s2 of
               [] \<Rightarrow> Inl JSONDecodeError
             | d # s3 \<Rightarrow>
                 (if d \<noteq> 58 then Inl JSONDecodeError
                  else bindR (parse_value f (skip_ws s3)) (\<lambda>(v, r).
                    case skip_ws r of
                      [] \<Rightarrow> Inl JSONDecodeError
                    | c # r' \<Rightarrow>
                        (if c = 44
                         then bindR (parse_members f (skip_ws r')) (\<lambda>(kvs, r''). Inr ((k, v) # kvs, r''))
                         else if c = 125 then Inr ([(k, v)], r') else Inl JSONDecodeError))))))"

definition loads :: "pystr \<Rightarrow> json res" where
  "loads s =
     bindR (parse_value (Suc (2 * length s)) (skip_ws s)) (\<lambda>(v, r).
       if skip_ws r = [] then Inr v else Inl JSONDecodeError)"

subsection \<open>Reading back what was written\<close>

text \<open>The values that print and read back: encodable text, distinct keys, no floats.\<close>

definition scalar_char :: "nat \<Rightarrow> bool" where
  "scalar_char c = (c < 0x110000 \<and> \<not> is_surrogate c)"

definition scalar_text :: "pystr \<Rightarrow> bool" where
  "scalar_text s = list_all scalar_char s"

primrec json_ok :: "json \<Rightarrow> bool" where
  "json_ok JNull = True"
| "json_ok (JBool b) = True"
| "json_ok (JInt i) = (length (nat_digits (nat \<bar>i\<bar>)) \<le> int_limit)"
| "json_ok (JFloat t) = False"
| "json_ok (JStr s) = scalar_text s"
| "json_ok (JArr vs) = list_all id (map json_ok vs)"
| "json_ok (JObj kvs) =
     (distinct (map fst kvs) \<and> list_all (scalar_text \<circ> fst) kvs
      \<and> list_all snd (map (map_prod id json_ok) kvs))"

text \<open>The same value with the keys of every object in order.\<close>

primrec canon :: "json \<Rightarrow> json" where
  "canon JNull = JNull"
| "canon (JBool b) = JBool b"
| "canon (JInt i) = JInt i"
| "canon (JFloat t) = JFloat t"
| "canon (JStr s) = JStr s"
| "canon (JArr vs) = JArr (map canon vs)"
| "canon (JObj kvs) = JObj (sort_key fst (map (map_prod id canon) kvs))"

lemma hex_digit_simps [simp]:
  "n < 16 \<Longrightarrow> is_hex (hex_digit n)"
  "n < 16 \<Longrightarrow> hex_val (hex_digit n) = n"
  by (auto simp: hex_digit_def hex_val_def char_class_defs)

lemma four_hex: "u < 65536 \<Longrightarrow>
    ((u div 4096 mod 16 * 16 + u div 256 mod 16) * 16 + u div 16 mod 16) * 16 + u mod 16 = (u::nat)"
proof -
  assume u: "u < 65536"
  define a b c where "a = u div 16" and "b = a div 16" and "c = b div 16"
  have d: "u div 256 = b" "u div 4096 = c"
    by (simp_all add: a_def b_def c_def div_mult2_eq [symmetric])
  have "c < 16" using u by (simp add: a_def b_def c_def div_mult2_eq [symmetric])
  moreover have "u = a * 16 + u mod 16" "a = b * 16 + a mod 16" "b = c * 16 + b mod 16"
    by (simp_all add: a_def b_def c_def)
  ultimately show ?thesis unfolding d a_def [symmetric] by simp
qed

lemma hex4_u_escape: "u < 65536 \<Longrightarrow> hex4 (drop 2 (u_escape u) @ r) = Some (u, r)"
  using four_hex [of u] by (simp add: u_escape_def)

lemma u_escape_conv: "u_escape u = 92 # 117 # drop 2 (u_escape u)"
  by (simp add: u_escape_def)

lemma unicode_escape_bmp:
  "u < 65536 \<Longrightarrow> \<not> in_range 0xd800 0xdbff u \<Longrightarrow>
     unicode_escape (drop 2 (u_escape u) @ r) = Inr (u, r)"
  by (simp add: unicode_escape_def hex4_u_escape)

lemma unicode_escape_pair:
  assumes "in_range 0xd800 0xdbff u" "in_range 0xdc00 0xdfff l"
  shows "unicode_escape (drop 2 (u_escape u) @ u_escape l @ r)
         = Inr (0x10000 + (u - 0xd800) * 1024 + (l - 0xdc00), r)"
proof -
  have "u < 65536" "l < 65536" using assms by (auto simp: in_range_def)
  moreover have "starts_with [92, 117] (u_escape l @ r)"
    by (subst u_escape_conv) simp
  ultimately show ?thesis
    using assms hex4_u_escape [of l r]
    by (simp add: unicode_escape_def hex4_u_escape) (simp add: u_escape_def)
qed

lemma next_char_esc:
  assumes "scalar_char c"
  shows "next_char (esc_char c @ r) = Inr (Some c, r)"
proof -
  consider (named) "c \<in> {34, 92, 10, 13, 9, 12, 8}"
    | (plain) "c \<notin> {34, 92, 10, 13, 9, 12, 8}" "in_range 32 126 c"
    | (bmp) "c \<notin> {34, 92, 10, 13, 9, 12, 8}" "\<not> in_range 32 126 c" "c < 0x10000"
    | (astral) "c \<notin> {34, 92, 10, 13, 9, 12, 8}" "\<not> in_range 32 126 c" "0x10000 \<le> c"
    by fastforce
  then show ?thesis
  proof cases
    case named
    then show ?thesis
      by (auto simp: esc_char_def next_char_def simple_escape_def)
  next
    case plain
    then show ?thesis by (auto simp: esc_char_def next_char_def in_range_def)
  next
    case bmp
    then have "unicode_escape (drop 2 (u_escape c) @ r) = Inr (c, r)"
      using assms by (intro unicode_escape_bmp)
        (auto simp: scalar_char_def is_surrogate_def in_range_def)
    with bmp show ?thesis
      by (simp add: esc_char_def) (subst u_escape_conv, simp add: next_char_def)
  next
    case astral
    let ?u = "0xd800 + (c - 0x10000) div 1024" and ?l = "0xdc00 + (c - 0x10000) mod 1024"
    have c: "c < 0x110000" using assms by (simp add: scalar_char_def)
    have "(c - 0x10000) div 1024 < 1024" using c by auto
    then have r1: "in_range 0xd800 0xdbff ?u" "in_range 0xdc00 0xdfff ?l"
      by (auto simp: in_range_def)
    have "0x10000 + (?u - 0xd800) * 1024 + (?l - 0xdc00) = c"
      using astral by (simp add: mult.commute)
    then have "unicode_escape (drop 2 (u_escape ?u) @ u_escape ?l @ r) = Inr (c, r)"
      using unicode_escape_pair [OF r1, of r] by simp
    with astral show ?thesis
      by (simp add: esc_char_def) (subst u_escape_conv, simp add: next_char_def)
  qed
qed

lemma parse_str_quoted: "scalar_text s \<Longrightarrow> parse_str (concat (map esc_char s) @ 34 # r) = Inr (s, r)"
proof (induction s)
  case Nil
  then show ?case by (simp add: parse_str.simps [of "34 # r"] next_char_def)
next
  case (Cons c s)
  then have "parse_str (concat (map esc_char s) @ 34 # r) = Inr (s, r)" "scalar_char c"
    by (simp_all add: scalar_text_def)
  then show ?case
    by (subst parse_str.simps) (simp add: next_char_esc)
qed

text \<open>What may follow a value in a printed document.\<close>

definition delim :: "pystr \<Rightarrow> bool" where
  "delim s = (case s of [] \<Rightarrow> True | c # _ \<Rightarrow> c = 44 \<or> c = 93 \<or> c = 125 \<or> c = 10)"

lemma takeWhile_digits:
  "list_all is_digit09 ds \<Longrightarrow> delim r \<Longrightarrow>
     takeWhile is_digit09 (ds @ r) = ds \<and> dropWhile is_digit09 (ds @ r) = r"
  by (induction ds) (auto simp: delim_def char_class_defs split: list.splits)

lemma int_part_digits:
  assumes "delim r"
  shows "int_part (nat_digits n @ r) = Some (nat_digits n, r)"
proof (cases "n = 0")
  case True
  then show ?thesis by (simp add: int_part_def nat_digits.simps [of 0])
next
  case False
  obtain d ds where nd: "nat_digits n = d # ds"
    using nat_digits_nonempty by (metis list.exhaust)
  moreover have "d \<noteq> 48" using nat_digits_hd [of n] False nd by simp
  moreover have "list_all is_digit09 (d # ds)" using nat_digits_digits [of n] nd by simp
  ultimately show ?thesis
    using takeWhile_digits [OF nat_digits_digits [of n] assms]
    by (simp add: int_part_def)
qed

lemma frac_exp_delim: "delim r \<Longrightarrow> frac_part r = ([], r) \<and> exp_part r = ([], r)"
  by (auto simp: delim_def frac_part_def exp_part_def split: list.splits)

lemma hd_nat_digits: "nat_digits n = d # ds \<Longrightarrow> is_digit09 d"
  using nat_digits_digits [of n] by simp

lemma parse_number_int:
  assumes "delim r" "length (nat_digits (nat \<bar>i\<bar>)) \<le> int_limit"
  shows "parse_number (int_str i @ r) = Inr (JInt i, r)"
proof (cases "i < 0")
  case True
  then show ?thesis
    using assms by (simp add: parse_number_def int_str_def int_part_digits frac_exp_delim
        digits_val_nat_digits)
next
  case False
  obtain d ds where nd: "nat_digits (nat i) = d # ds"
    using nat_digits_nonempty by (metis list.exhaust)
  then have "d \<noteq> 45" using hd_nat_digits [OF nd] by (auto simp: char_class_defs)
  then have "(case nat_digits (nat i) @ r of [] \<Rightarrow> (False, nat_digits (nat i) @ r)
      | c # r' \<Rightarrow> if c = 45 then (True, r') else (False, nat_digits (nat i) @ r))
      = (False, nat_digits (nat i) @ r)"
    by (simp add: nd)
  then show ?thesis
    using assms False by (simp add: parse_number_def int_str_def int_part_digits frac_exp_delim
        digits_val_nat_digits)
qed

lemma int_str_conv: "\<exists>c cs. int_str i = c # cs \<and> (is_digit09 c \<or> c = 45 \<and> cs \<noteq> [] \<and> is_digit09 (hd cs))"
proof -
  obtain d ds where "nat_digits (nat \<bar>i\<bar>) = d # ds"
    using nat_digits_nonempty by (metis list.exhaust)
  then show ?thesis
    using hd_nat_digits by (cases "i < 0") (auto simp: int_str_def)
qed

lemma lit_words:
  "lit ''null'' = [110, 117, 108, 108]"
  "lit ''true'' = [116, 114, 117, 101]"
  "lit ''false'' = [102, 97, 108, 115, 101]"
  "lit ''NaN'' = [78, 97, 78]"
  "lit ''Infinity'' = [73, 110, 102, 105, 110, 105, 116, 121]"
  "lit ''-Infinity'' = [45, 73, 110, 102, 105, 110, 105, 116, 121]"
  by (simp_all add: lit_def)

lemma parse_atom_int:
  assumes "delim r" "length (nat_digits (nat \<bar>i\<bar>)) \<le> int_limit"
  shows "parse_atom (int_str i @ r) = Inr (JInt i, r)"
proof -
  obtain c cs where ci: "int_str i = c # cs"
    and c: "is_digit09 c \<or> c = 45 \<and> cs \<noteq> [] \<and> is_digit09 (hd cs)"
    using int_str_conv by blast
  have "c \<notin> {110, 116, 102, 78, 73}" "c = 45 \<longrightarrow> cs \<noteq> [] \<and> hd cs \<noteq> 73"
    using c by (auto simp: is_digit09_def in_range_def)
  then have "find (\<lambda>(w, v). starts_with w (int_str i @ r)) constants = None"
    unfolding ci by (cases cs) (auto simp: constants_def lit_words)
  then show ?thesis by (simp add: parse_atom_def parse_number_int assms)
qed

lemma parse_atom_words:
  "parse_atom (lit ''null'' @ r) = Inr (JNull, r)"
  "parse_atom (lit ''true'' @ r) = Inr (JBool True, r)"
  "parse_atom (lit ''false'' @ r) = Inr (JBool False, r)"
  by (simp_all add: parse_atom_def constants_def lit_words)

text \<open>Members in key order, printed and read back.\<close>

lemma insort_key_map_prod:
  "insort_key fst (map_prod id g x) (map (map_prod id g) xs) = map (map_prod id g) (insort_key fst x xs)"
  by (induction xs) (auto simp: map_prod_def split: prod.splits)

lemma sort_key_map_prod:
  "sort_key fst (map (map_prod id g) xs) = map (map_prod id g) (sort_key fst xs)"
  by (induction xs) (simp_all add: insort_key_map_prod [unfolded id_def] id_def)

lemma dict_of_distinct_aux:
  "distinct (map fst (acc @ kvs)) \<Longrightarrow> fold (\<lambda>(k, v). AList.update k v) kvs acc = acc @ kvs"
proof (induction kvs arbitrary: acc)
  case Nil
  then show ?case by simp
next
  case (Cons kv kvs)
  obtain k v where kv: "kv = (k, v)" by (cases kv)
  have "AList.update k v acc = acc @ [(k, v)]"
    using Cons.prems kv by (induction acc) auto
  with Cons kv show ?case by (simp add: Cons.IH [of "acc @ [(k, v)]"])
qed

lemma dict_of_distinct: "distinct (map fst kvs) \<Longrightarrow> dict_of kvs = kvs"
  by (simp add: dict_of_def dict_of_distinct_aux [of "[]", simplified])

lemma distinct_sort_key_fst: "distinct (map fst kvs) \<Longrightarrow> distinct (map fst (sort_key fst kvs))"
  by (metis mset_map mset_sort mset_eq_imp_distinct_iff)

lemma dumps_head:
  assumes "json_ok v"
  shows "\<exists>c s. dumps v = c # s \<and> \<not> is_ws c \<and> c \<noteq> 93 \<and> c \<noteq> 125"
proof (cases v)
  case (JInt i)
  then show ?thesis using int_str_conv [of i] by (auto simp: is_ws_def char_class_defs)
qed (use assms in \<open>auto simp: lit_words is_ws_def quoted_def\<close>)

lemma skip_ws_punct [simp]:
  "skip_ws (44 # s) = 44 # s" "skip_ws (58 # s) = 58 # s" "skip_ws (34 # s) = 34 # s"
  "skip_ws (93 # s) = 93 # s" "skip_ws (125 # s) = 125 # s"
  by (simp_all add: skip_ws_def is_ws_def)

lemma skip_ws_dumps: "json_ok v \<Longrightarrow> skip_ws (dumps v @ r) = dumps v @ r"
  using dumps_head [of v] by (auto simp: skip_ws_def)

definition reads_back :: "json \<Rightarrow> bool" where
  "reads_back v = (\<forall>f r. 2 * length (dumps v) < f \<longrightarrow> delim r \<longrightarrow>
     parse_value f (dumps v @ r) = Inr (canon v, r))"

lemma reads_backD:
  "reads_back v \<Longrightarrow> 2 * length (dumps v) < f \<Longrightarrow> delim r \<Longrightarrow>
     parse_value f (dumps v @ r) = Inr (canon v, r)"
  by (simp add: reads_back_def)

lemma reads_backI:
  "(\<And>g r. 2 * length (dumps v) \<le> g \<Longrightarrow> delim r \<Longrightarrow>
      parse_value (Suc g) (dumps v @ r) = Inr (canon v, r)) \<Longrightarrow> reads_back v"
  unfolding reads_back_def by (metis Suc_le_eq less_Suc_eq_le not0_implies_Suc not_less0)

lemma parse_items_join:
  assumes "vs \<noteq> []" "\<And>v. v \<in> set vs \<Longrightarrow> json_ok v \<and> reads_back v"
    and "2 * length (join [44] (map dumps vs)) + 1 < f"
  shows "parse_items f (join [44] (map dumps vs) @ 93 # r) = Inr (map canon vs, r)"
  using assms
proof (induction vs arbitrary: f)
  case Nil
  then show ?case by simp
next
  case (Cons v vs)
  then obtain g where f: "f = Suc g" by (cases f) auto
  have v: "reads_back v" using Cons.prems by simp
  show ?case
  proof (cases vs)
    case Nil
    with Cons.prems f have "parse_value g (dumps v @ 93 # r) = Inr (canon v, 93 # r)"
      by (intro reads_backD [OF v]) (simp_all add: delim_def)
    with Nil f show ?thesis by simp
  next
    case (Cons w ws)
    let ?tl = "join [44] (map dumps vs)"
    have j: "join [44] (map dumps (v # vs)) = dumps v @ 44 # ?tl"
      using Cons by simp
    have len: "2 * length ?tl + 1 < g" using Cons.prems(3) f j by simp
    then have tl: "parse_items g (?tl @ 93 # r) = Inr (map canon vs, r)"
      using Cons.prems(2) Cons by (intro Cons.IH) auto
    have "skip_ws (?tl @ 93 # r) = ?tl @ 93 # r"
    proof -
      have "json_ok w" using Cons.prems(2) Cons by simp
      moreover have "\<exists>t. ?tl = dumps w @ t" using Cons by (cases ws) auto
      ultimately show ?thesis by (auto simp: skip_ws_dumps)
    qed
    moreover have "parse_value g (dumps v @ 44 # ?tl @ 93 # r) = Inr (canon v, 44 # ?tl @ 93 # r)"
      using Cons.prems(3) f j by (intro reads_backD [OF v]) (simp_all add: delim_def)
    ultimately show ?thesis
      unfolding j f using tl by simp
  qed
qed

lemma parse_members_join:
  assumes "kvs \<noteq> []" "\<And>k v. (k, v) \<in> set kvs \<Longrightarrow> scalar_text k \<and> json_ok v \<and> reads_back v"
    and "2 * length (join [44] (map member_text (map (map_prod id dumps) kvs))) < f"
  shows "parse_members f (join [44] (map member_text (map (map_prod id dumps) kvs)) @ 125 # r)
         = Inr (map (map_prod id canon) kvs, r)"
  using assms
proof (induction kvs arbitrary: f)
  case Nil
  then show ?case by simp
next
  case (Cons kv kvs)
  then obtain g where f: "f = Suc g" by (cases f) auto
  obtain k v where kv: "kv = (k, v)" by (cases kv)
  have k: "scalar_text k" and v: "reads_back v" "json_ok v" using Cons.prems kv by auto
  have m: "member_text (map_prod id dumps kv) = 34 # concat (map esc_char k) @ 34 # 58 # dumps v"
    by (simp add: kv member_text_def quoted_def)
  show ?case
  proof (cases kvs)
    case Nil
    have "2 * length (dumps v) < g"
      using Cons.prems(3) f Nil m unfolding list.map join.simps by simp
    then have "parse_value g (dumps v @ 125 # r) = Inr (canon v, 125 # r)"
      by (intro reads_backD [OF v(1)]) (simp_all add: delim_def)
    with Nil f m k v show ?thesis
      by (simp add: parse_str_quoted skip_ws_dumps kv)
  next
    case (Cons w ws)
    let ?tl = "join [44] (map member_text (map (map_prod id dumps) kvs))"
    have j: "join [44] (map member_text (map (map_prod id dumps) (kv # kvs)))
        = 34 # concat (map esc_char k) @ 34 # 58 # dumps v @ 44 # ?tl"
      using Cons m by simp
    have len: "2 * length ?tl < g" using Cons.prems(3) unfolding f j by simp
    have tl: "parse_members g (?tl @ 125 # r) = Inr (map (map_prod id canon) kvs, r)"
      by (rule Cons.IH [OF _ _ len]) (use Cons.prems(2) Cons in auto)
    have "skip_ws (?tl @ 125 # r) = ?tl @ 125 # r"
      using Cons by (cases ws) (simp_all add: member_text_def quoted_def skip_ws_def is_ws_def)
    moreover have "parse_value g (dumps v @ 44 # ?tl @ 125 # r) = Inr (canon v, 44 # ?tl @ 125 # r)"
      using Cons.prems(3) unfolding f j by (intro reads_backD [OF v(1)]) (simp_all add: delim_def)
    ultimately show ?thesis
      unfolding j f using tl k v
      by (simp add: parse_str_quoted skip_ws_dumps kv id_def)
  qed
qed

lemma parse_value_dumps: "json_ok v \<Longrightarrow> reads_back v"
proof (induction v)
  case (JInt i)
  show ?case
  proof (rule reads_backI)
    fix g r
    assume r: "delim r"
    obtain c cs where c: "int_str i = c # cs" "is_digit09 c \<or> c = 45" using int_str_conv by blast
    then have "c \<noteq> 34 \<and> c \<noteq> 91 \<and> c \<noteq> 123" by (auto simp: char_class_defs)
    then show "parse_value (Suc g) (dumps (JInt i) @ r) = Inr (canon (JInt i), r)"
      using parse_atom_int [OF r, of i] JInt c by simp
  qed
next
  case (JStr s)
  show ?case
  proof (rule reads_backI)
    fix g r
    show "parse_value (Suc g) (dumps (JStr s) @ r) = Inr (canon (JStr s), r)"
      using JStr by (simp add: quoted_def parse_str_quoted)
  qed
next
  case (JArr vs)
  show ?case
  proof (rule reads_backI)
    fix g r
    assume f: "2 * length (dumps (JArr vs)) \<le> g"
    have vs: "v \<in> set vs \<Longrightarrow> json_ok v \<and> reads_back v" for v
      using JArr by (auto simp: list_all_iff)
    show "parse_value (Suc g) (dumps (JArr vs) @ r) = Inr (canon (JArr vs), r)"
    proof (cases vs)
      case Nil
      then show ?thesis by simp
    next
      case (Cons w ws)
      let ?t = "join [44] (map dumps vs)"
      obtain t where t: "?t = dumps w @ t" using Cons by (cases ws) auto
      obtain c s where c: "dumps w = c # s" "\<not> is_ws c" "c \<noteq> 93"
        using dumps_head vs Cons by fastforce
      have "skip_ws (?t @ 93 # r) = ?t @ 93 # r" "\<not> starts_with [93] (?t @ 93 # r)"
        using c t by (simp_all add: skip_ws_def)
      moreover have "parse_items g (?t @ 93 # r) = Inr (map canon vs, r)"
        using Cons vs f by (intro parse_items_join) auto
      ultimately show ?thesis by simp
    qed
  qed
next
  case (JObj kvs)
  show ?case
  proof (rule reads_backI)
    fix g r
    assume f: "2 * length (dumps (JObj kvs)) \<le> g"
    let ?kvs = "sort_key fst kvs"
    have kvs: "(k, v) \<in> set ?kvs \<Longrightarrow> scalar_text k \<and> json_ok v \<and> reads_back v" for k v
      using JObj by (fastforce simp: list_all_iff)
    let ?t = "join [44] (map member_text (map (map_prod id dumps) ?kvs))"
    have d: "dumps (JObj kvs) = 123 # ?t @ [125]"
      unfolding dumps.simps sort_key_map_prod ..
    show "parse_value (Suc g) (dumps (JObj kvs) @ r) = Inr (canon (JObj kvs), r)"
    proof (cases kvs)
      case Nil
      then show ?thesis by simp
    next
      case (Cons w ws)
      then obtain k v ks where ks: "?kvs = (k, v) # ks"
        by (metis list.exhaust old.prod.exhaust set_empty set_sort list.distinct(1))
      then have "\<exists>t. ?t = 34 # t"
        by (cases ks) (simp_all add: member_text_def quoted_def)
      then have "skip_ws (?t @ 125 # r) = ?t @ 125 # r" "\<not> starts_with [125] (?t @ 125 # r)"
        by auto
      moreover have "2 * length ?t < g" using f unfolding d by simp
      then have "parse_members g (?t @ 125 # r) = Inr (map (map_prod id canon) ?kvs, r)"
        by (rule parse_members_join [rotated 2]) (use ks kvs in auto)
      moreover have "dict_of (map (map_prod id canon) ?kvs) = map (map_prod id canon) ?kvs"
        using JObj.prems distinct_sort_key_fst [of kvs]
        by (intro dict_of_distinct) (simp add: comp_def)
      ultimately show ?thesis
        unfolding d by (simp add: sort_key_map_prod)
    qed
  qed
qed (auto intro!: reads_backI simp: lit_words parse_atom_words [unfolded lit_words, simplified])

lemma loads_dumps_ws:
  assumes v: "json_ok v" and r: "delim r" "skip_ws r = []"
  shows "loads (dumps v @ r) = Inr (canon v)"
proof -
  have "parse_value (Suc (2 * length (dumps v @ r))) (dumps v @ r) = Inr (canon v, r)"
    using parse_value_dumps [OF v] by (rule reads_backD) (simp_all add: r)
  then show ?thesis
    using skip_ws_dumps [OF v, of r] r by (simp add: loads_def)
qed

theorem loads_dumps: "json_ok v \<Longrightarrow> loads (dumps v) = Inr (canon v)"
  using loads_dumps_ws [of v "[]"] by (simp add: delim_def skip_ws_def)

theorem loads_dumps_line: "json_ok v \<Longrightarrow> loads (dumps v @ [10]) = Inr (canon v)"
  by (rule loads_dumps_ws) (simp_all add: delim_def skip_ws_def is_ws_def)

lemma is_ascii_quoted: "is_ascii (quoted s)"
proof -
  have "n < 16 \<Longrightarrow> hex_digit n < 128" for n
    by (simp add: hex_digit_def)
  then have "is_ascii (u_escape u)" for u
    by (simp add: u_escape_def)
  then have "is_ascii (esc_char c)" for c
    by (auto simp: esc_char_def in_range_def)
  then have "is_ascii (concat (map esc_char s))" by (induction s) auto
  then show ?thesis by (simp add: quoted_def)
qed

lemma is_ascii_join: "is_ascii sep \<Longrightarrow> list_all is_ascii ws \<Longrightarrow> is_ascii (join sep ws)"
  by (induction sep ws rule: join.induct) auto

lemma is_ascii_nat_digits: "is_ascii (nat_digits n)"
  using nat_digits_digits [of n]
  by (auto simp: is_ascii_def list_all_iff char_class_defs)

lemma is_ascii_dumps: "json_ok v \<Longrightarrow> is_ascii (dumps v)"
proof (induction v)
  case (JArr vs)
  then have "list_all is_ascii (map dumps vs)" by (auto simp: list_all_iff)
  then show ?case by (simp add: is_ascii_join)
next
  case (JObj kvs)
  have "list_all is_ascii (map member_text (map (map_prod id dumps) kvs))"
    using JObj by (fastforce simp: list_all_iff member_text_def is_ascii_quoted)
  then have "list_all is_ascii (map member_text (sort_key fst (map (map_prod id dumps) kvs)))"
    by (simp add: list_all_iff)
  then show ?case by (simp add: is_ascii_join)
qed (simp_all add: lit_words int_str_def is_ascii_nat_digits is_ascii_quoted)

subsection \<open>A bound on the length of printed text\<close>

primrec weight :: "json \<Rightarrow> nat" where
  "weight JNull = 4"
| "weight (JBool b) = 5"
| "weight (JInt i) = length (int_str i)"
| "weight (JFloat t) = length t"
| "weight (JStr s) = 2 + 12 * length s"
| "weight (JArr vs) = 2 + sum_list (map Suc (map weight vs))"
| "weight (JObj kvs) =
     2 + sum_list (map (\<lambda>(k, n). 4 + 12 * length k + n) (map (map_prod id weight) kvs))"

lemma length_quoted: "length (quoted s) \<le> 2 + 12 * length s"
proof -
  have esc: "length (esc_char c) \<le> 12" for c by (simp add: esc_char_def u_escape_def)
  have "length (concat (map esc_char s)) \<le> 12 * length s"
  proof (induction s)
    case (Cons c s)
    then show ?case using esc [of c] by simp
  qed simp
  then show ?thesis by (simp add: quoted_def)
qed

lemma length_join: "length (join [c] ws) \<le> sum_list (map (Suc \<circ> length) ws)"
  by (induction "[c]" ws rule: join.induct) auto

lemma sum_list_sort_key: "sum_list (map f (sort_key k xs)) = (sum_list (map f xs) :: nat)"
  by (metis mset_map mset_sort sum_mset_sum_list)

lemma length_dumps: "length (dumps v) \<le> weight v"
proof (induction v)
  case (JStr s)
  then show ?case using length_quoted [of s] by simp
next
  case (JArr vs)
  then have "sum_list (map (Suc \<circ> length) (map dumps vs)) \<le> sum_list (map Suc (map weight vs))"
    by (induction vs) (auto simp: add_mono)
  then show ?case using length_join [of 44 "map dumps vs"] by simp
next
  case (JObj kvs)
  let ?mt = "\<lambda>kt. Suc (length (member_text kt))"
  have mt: "?mt kt \<le> 4 + 12 * length (fst kt) + length (snd kt)" for kt
    using length_quoted [of "fst kt"] by (simp add: member_text_def)
  have "sum_list (map ?mt (map (map_prod id dumps) kvs))
      \<le> sum_list (map (\<lambda>(k, n). 4 + 12 * length k + n) (map (map_prod id weight) kvs))"
    using JObj
  proof (induction kvs)
    case (Cons kv kvs)
    obtain k v where kv: "kv = (k, v)" by (cases kv)
    have "length (dumps v) \<le> weight v" using Cons.prems kv by fastforce
    then have "?mt (k, dumps v) \<le> 4 + 12 * length k + weight v" using mt [of "(k, dumps v)"] by simp
    moreover have "sum_list (map ?mt (map (map_prod id dumps) kvs))
      \<le> sum_list (map (\<lambda>(k, n). 4 + 12 * length k + n) (map (map_prod id weight) kvs))"
      using Cons.IH Cons.prems by (meson list.set_intros(2))
    ultimately show ?case using kv by (simp add: id_def)
  qed simp
  moreover have "sum_list (map (Suc \<circ> length) (map member_text (sort_key fst (map (map_prod id dumps) kvs))))
      = sum_list (map ?mt (map (map_prod id dumps) kvs))"
    using sum_list_sort_key [of ?mt fst "map (map_prod id dumps) kvs"] by (simp add: comp_def)
  ultimately show ?case
    using length_join [of 44 "map member_text (sort_key fst (map (map_prod id dumps) kvs))"] by simp
qed (simp_all add: lit_words)

subsection \<open>Reading always settles\<close>

text \<open>
  The fuel \<open>2 * length s + 1\<close> of \<open>loads\<close> is enough for every text: a result is a value and
  a shorter rest, or an exception of the \<open>ValueError\<close> family, never the end of the fuel.
\<close>

definition settles :: "pystr \<Rightarrow> ('a \<times> pystr) res \<Rightarrow> bool" where
  "settles s x = (case x of Inl e \<Rightarrow> is_value_error e | Inr (_, r) \<Rightarrow> length r < length s)"

lemma settles_simps [simp]:
  "settles s (Inl e) = is_value_error e"
  "settles s (Inr (v, r)) = (length r < length s)"
  by (simp_all add: settles_def)

lemma settles_bind:
  "settles s m \<Longrightarrow> (\<And>v r. m = Inr (v, r) \<Longrightarrow> length r < length s \<Longrightarrow> settles t (f (v, r)))
    \<Longrightarrow> settles t (bindR m f)"
  by (cases m) auto

lemma settles_mono: "settles s m \<Longrightarrow> length s \<le> length t \<Longrightarrow> settles t m"
  by (auto simp: settles_def split: sum.splits)

lemma skip_ws_length: "length (skip_ws s) \<le> length s"
  by (simp add: skip_ws_def length_dropWhile_le)

lemma skip_ws_Cons_length: "skip_ws s = c # r \<Longrightarrow> length r < length s"
  using skip_ws_length [of s] by simp

lemma next_char_error: "next_char s = Inl e \<Longrightarrow> e = JSONDecodeError"
  by (auto simp: next_char_def unicode_escape_def map_sum_def
      split: list.splits if_splits option.splits sum.splits)

lemma settles_parse_str: "settles s (parse_str s)"
proof (induction s rule: parse_str.induct)
  case (1 s)
  show ?case
  proof (cases "next_char s")
    case (Inl e)
    then show ?thesis using next_char_error [OF Inl] by (simp add: parse_str.simps [of s])
  next
    case (Inr p)
    obtain x r where p: "p = (x, r)" by (cases p)
    have len: "length r < length s" using Inr p next_char_length by blast
    show ?thesis
    proof (cases x)
      case None
      then show ?thesis using Inr p len by (simp add: parse_str.simps [of s])
    next
      case (Some c)
      then have "settles r (parse_str r)" using "1" Inr p by simp
      then show ?thesis
        using Inr p Some len
        by (simp add: parse_str.simps [of s]) (erule settles_bind, simp)
    qed
  qed
qed

lemma dropWhile_length_Suc: "length (dropWhile P s) < Suc (length s)"
  by (simp add: less_Suc_eq_le length_dropWhile_le)

lemma frac_part_length: "frac_part s = (t, r) \<Longrightarrow> length r \<le> length s"
  using length_dropWhile_le [of is_digit09]
  by (fastforce simp: frac_part_def split: list.splits if_splits intro: le_SucI)

lemma exp_part_length: "exp_part s = (t, r) \<Longrightarrow> length r \<le> length s"
  using length_dropWhile_le [of is_digit09]
  by (fastforce simp: exp_part_def Let_def split: list.splits if_splits prod.splits intro: le_SucI order_trans)

lemma int_part_length: "int_part s = Some (t, r) \<Longrightarrow> length r < length s"
  by (auto simp: int_part_def dropWhile_length_Suc split: list.splits if_splits)

lemma settles_parse_number: "settles s (parse_number s)"
proof -
  obtain neg body where nb:
      "(case s of c # r \<Rightarrow> if c = 45 then (True, r) else (False, s) | [] \<Rightarrow> (False, s)) = (neg, body)"
    by fastforce
  then have body: "length body \<le> length s" by (auto split: list.splits if_splits)
  show ?thesis
  proof (cases "int_part body")
    case None
    then show ?thesis by (simp add: parse_number_def nb)
  next
    case (Some p)
    obtain ds r1 where p: "p = (ds, r1)" by (cases p)
    obtain fr r2 where fr: "frac_part r1 = (fr, r2)" by (cases "frac_part r1")
    obtain ex r3 where ex: "exp_part r2 = (ex, r3)" by (cases "exp_part r2")
    have "length r3 < length s"
      using int_part_length [OF Some [unfolded p]] frac_part_length [OF fr] exp_part_length [OF ex] body
      by linarith
    then show ?thesis
      using Some p fr ex by (simp add: parse_number_def nb)
  qed
qed

lemma settles_parse_atom: "settles s (parse_atom s)"
proof (cases "find (\<lambda>(w, v). starts_with w s) constants")
  case None
  then show ?thesis by (simp add: parse_atom_def settles_parse_number)
next
  case (Some p)
  obtain w v where p: "p = (w, v)" by (cases p)
  then have "(w, v) \<in> set constants" "starts_with w s"
    using Some nth_mem by (fastforce simp: find_Some_iff)+
  moreover have "\<forall>p \<in> set constants. fst p \<noteq> []"
    by (simp add: constants_def)
  ultimately have "w \<noteq> []" "length w \<le> length s"
    by (auto simp: starts_with_iff)
  then have "length (drop (length w) s) < length s"
    by (metis add_diff_inverse_nat length_drop length_greater_0_conv less_add_same_cancel2 not_less)
  then show ?thesis using Some p by (simp add: parse_atom_def)
qed

lemma settles_parse:
  "2 * length s < f \<Longrightarrow> settles s (parse_value f s)"
  "2 * length s + 1 < f \<Longrightarrow> settles s (parse_items f s)"
  "2 * length s < f \<Longrightarrow> settles s (parse_members f s)"
proof (induction f s and f s and f s rule: parse_value_parse_items_parse_members.induct)
  case (2 f s)
  show ?case
  proof (cases s)
    case (Cons c r)
    have skip: "length (skip_ws r) \<le> length r" by (rule skip_ws_length)
    consider "c = 34" | "c = 91" | "c = 123" | "c \<notin> {34, 91, 123}" by blast
    then show ?thesis
    proof cases
      case 1
      then show ?thesis
        using Cons settles_bind [OF settles_parse_str [of r], of s "\<lambda>(t, r'). Inr (JStr t, r')"] by simp
    next
      case 2
      have "settles s (bindR (parse_items f (skip_ws r)) (\<lambda>(vs, r'). Inr (JArr vs, r')))"
        if "\<not> starts_with [93] (skip_ws r)"
      proof (rule settles_bind)
        show "settles (skip_ws r) (parse_items f (skip_ws r))"
          using "2.IH"(1) [OF Cons] "2.prems" Cons 2 that skip by simp
      qed (use skip Cons in simp)
      then show ?thesis using Cons 2 skip by auto
    next
      case 3
      have "settles s (bindR (parse_members f (skip_ws r)) (\<lambda>(vs, r'). Inr (JObj (dict_of vs), r')))"
        if "\<not> starts_with [125] (skip_ws r)"
      proof (rule settles_bind)
        show "settles (skip_ws r) (parse_members f (skip_ws r))"
          using "2.IH"(2) [OF Cons] "2.prems" Cons 3 that skip by simp
      qed (use skip Cons in simp)
      then show ?thesis using Cons 3 skip by auto
    next
      case 4
      then show ?thesis using Cons settles_parse_atom [of s] by simp
    qed
  qed simp
next
  case (4 f s)
  have v: "settles s (parse_value f s)" using "4.IH"(1) "4.prems" by simp
  show ?case
    unfolding parse_items.simps
  proof (rule settles_bind [OF v], simp, goal_cases)
    case (1 v r)
    show ?case
    proof (cases "skip_ws r")
      case (Cons c r')
      have len: "length r' < length r" by (rule skip_ws_Cons_length [OF Cons])
      have "settles s (bindR (parse_items f (skip_ws r')) (\<lambda>(vs, r''). Inr (v # vs, r'')))" if "c = 44"
      proof (rule settles_bind)
        show "settles (skip_ws r') (parse_items f (skip_ws r'))"
          using "4.IH"(2) [OF Cons that] "4.prems" 1 len skip_ws_length [of r'] by simp
      qed (use 1 len skip_ws_length [of r'] in simp)
      then show ?thesis using Cons 1 len by simp
    qed simp
  qed
next
  case (6 f s)
  show ?case
  proof (cases s)
    case (Cons q s1)
    show ?thesis
    proof (cases "q = 34")
      case True
      have "settles s (bindR (parse_str s1) (\<lambda>(k, s2).
             case skip_ws s2 of
               [] \<Rightarrow> Inl JSONDecodeError
             | d # s3 \<Rightarrow>
                 (if d \<noteq> 58 then Inl JSONDecodeError
                  else bindR (parse_value f (skip_ws s3)) (\<lambda>(v, r).
                    case skip_ws r of
                      [] \<Rightarrow> Inl JSONDecodeError
                    | c # r' \<Rightarrow>
                        (if c = 44
                         then bindR (parse_members f (skip_ws r')) (\<lambda>(kvs, r''). Inr ((k, v) # kvs, r''))
                         else if c = 125 then Inr ([(k, v)], r') else Inl JSONDecodeError)))))"
      proof (rule settles_bind [OF settles_parse_str], simp, goal_cases)
        case (1 k s2)
        show ?case
        proof (cases "skip_ws s2")
          case s3: (Cons d s3)
          note len3 = skip_ws_Cons_length [OF s3]
          show ?thesis
          proof (cases "d = 58")
            case d: True
            have v: "settles (skip_ws s3) (parse_value f (skip_ws s3))"
              using "6.IH"(1) [OF Cons _ s3] True d "6.prems" Cons 1 len3 skip_ws_length [of s3]
              by simp
            show ?thesis
              unfolding s3 list.case d
              apply simp
            proof (rule settles_bind [OF v], simp, goal_cases)
              case (1 v r)
              note r1 = this
              show ?case
              proof (cases "skip_ws r")
                case r: (Cons c r')
                note len = skip_ws_Cons_length [OF r]
                have "settles s (bindR (parse_members f (skip_ws r')) (\<lambda>(kvs, r''). Inr ((k, v) # kvs, r'')))"
                  if "c = 44"
                proof (rule settles_bind)
                  show "settles (skip_ws r') (parse_members f (skip_ws r'))"
                    using "6.IH"(2) [OF Cons _ s3 _ r that] True d "6.prems" Cons
                      \<open>length s2 < length s1\<close> r1 len len3 skip_ws_length [of r'] skip_ws_length [of s3]
                    by simp
                qed (use Cons \<open>length s2 < length s1\<close> r1 len len3 skip_ws_length [of r'] skip_ws_length [of s3] in simp)
                then show ?thesis
                  using r r1 len len3 \<open>length s2 < length s1\<close> Cons skip_ws_length [of s3] by simp
              qed simp
            qed
          qed (simp add: s3)
        qed simp
      qed
      then show ?thesis using Cons True by simp
    qed (simp add: Cons)
  qed simp
qed simp_all
lemma loads_error:
  assumes "loads s = Inl e"
  shows "is_value_error e"
proof -
  have "settles (skip_ws s) (parse_value (Suc (2 * length s)) (skip_ws s))"
    using skip_ws_length [of s] by (intro settles_parse(1)) simp
  then show ?thesis
    using assms by (auto simp: loads_def bindR_eq_Inl settles_def split: if_splits)
qed

subsection \<open>Code points stay in range\<close>

text \<open>Every \<open>str\<close> is made of code points below \<open>0x110000\<close>; decoding and reading keep that.\<close>

definition is_pystr :: "pystr \<Rightarrow> bool" where
  "is_pystr s = list_all (\<lambda>c. c < 0x110000) s"

lemma is_pystr_simps [simp]:
  "is_pystr []"
  "is_pystr (c # s) \<longleftrightarrow> c < 0x110000 \<and> is_pystr s"
  "is_pystr (s @ t) \<longleftrightarrow> is_pystr s \<and> is_pystr t"
  by (simp_all add: is_pystr_def)

lemma utf8_tail_bound:
  "utf8_tail acc ps bs = (Some c, r) \<Longrightarrow> c < (acc + 1) * 64 ^ length ps"
proof (induction acc ps bs rule: utf8_tail.induct)
  case (3 acc p ps b bs)
  then have "c < (acc * 64 + b mod 64 + 1) * 64 ^ length ps" by (simp split: if_splits)
  also have "\<dots> \<le> ((acc + 1) * 64) * 64 ^ length ps"
    by (intro mult_right_mono) auto
  also have "\<dots> = (acc + 1) * 64 ^ length (p # ps)" by (simp add: algebra_simps)
  finally show ?case .
qed auto

lemma utf8_next_bound:
  assumes "utf8_next b bs = (Some c, r)"
  shows "c < 0x110000"
proof -
  have f4: "c < 0x110000" if "utf8_tail 4 [in_range 0x80 0x8f, is_cont, is_cont] bs = (Some c, r)"
  proof (cases bs)
    case (Cons x xs)
    have x: "in_range 0x80 0x8f x" using that unfolding Cons utf8_tail.simps by (metis prod.inject option.distinct(1))
    then have t: "utf8_tail (4 * 64 + x mod 64) [is_cont, is_cont] xs = (Some c, r)"
      using that unfolding Cons utf8_tail.simps by (simp only: if_True)
    have "x mod 64 < 16"
    proof -
      obtain k where "x = k + 2 * 64" "k < 16" using x by (auto simp: in_range_def le_iff_add)
      moreover have "(k + 2 * 64) mod 64 = k mod 64" by (rule mod_mult_self1)
      ultimately show ?thesis by simp
    qed
    moreover have "c < (4 * 64 + x mod 64 + 1) * 64 ^ 2"
      using utf8_tail_bound [OF t] by simp
    ultimately show ?thesis by simp
  qed (use that in simp)
  have t1: "c < 0x110000" if "utf8_tail acc [p] bs = (Some c, r)" "acc < 64" for acc p
    using utf8_tail_bound [OF that(1)] that(2) by simp
  have t2: "c < 0x110000" if "utf8_tail acc [p, q] bs = (Some c, r)" "acc < 16" for acc p q
    using utf8_tail_bound [OF that(1)] that(2) by simp
  have t3: "c < 0x110000" if "utf8_tail acc [p, q, q'] bs = (Some c, r)" "acc < 4" for acc p q q'
    using utf8_tail_bound [OF that(1)] that(2) by simp
  have r: "in_range 0xc2 0xdf b \<Longrightarrow> b - 0xc0 < 64" "in_range 0xe1 0xef b \<Longrightarrow> b - 0xe0 < 16"
      "in_range 0xf1 0xf3 b \<Longrightarrow> b - 0xf0 < 4"
    by (auto simp: in_range_def)
  show ?thesis
    using assms unfolding utf8_next_def
    by (auto split: if_splits intro: f4 t1 [OF _ r(1)] t2 [OF _ r(2)] t3 [OF _ r(3)]
        dest: t2 [where acc = 0, simplified] t2 [where acc = 13, simplified] t3 [where acc = 0, simplified])
qed

lemma decode_strict_pystr: "decode_strict bs = Inr s \<Longrightarrow> is_pystr s"
  by (induction bs arbitrary: s rule: decode_strict.induct)
     (auto split: prod.splits option.splits dest: utf8_next_bound)

primrec json_pystr :: "json \<Rightarrow> bool" where
  "json_pystr JNull = True"
| "json_pystr (JBool b) = True"
| "json_pystr (JInt i) = True"
| "json_pystr (JFloat t) = True"
| "json_pystr (JStr s) = is_pystr s"
| "json_pystr (JArr vs) = list_all id (map json_pystr vs)"
| "json_pystr (JObj kvs) =
     (list_all (is_pystr \<circ> fst) kvs \<and> list_all snd (map (map_prod id json_pystr) kvs))"

definition kvs_pystr :: "json_dict \<Rightarrow> bool" where
  "kvs_pystr kvs = list_all (\<lambda>(k, v). is_pystr k \<and> json_pystr v) kvs"

lemma json_pystr_dict [simp]: "json_pystr (JObj kvs) = kvs_pystr kvs"
  by (auto simp: kvs_pystr_def list_all_iff)

declare json_pystr.simps(7) [simp del]

lemma is_pystr_dropWhile: "is_pystr s \<Longrightarrow> is_pystr (dropWhile P s)"
  by (auto simp: is_pystr_def list_all_iff dest: set_dropWhileD)

lemma skip_ws_pystr: "is_pystr s \<Longrightarrow> is_pystr (skip_ws s)"
  by (simp add: skip_ws_def is_pystr_dropWhile)

lemma is_pystr_drop: "is_pystr s \<Longrightarrow> is_pystr (drop n s)"
  by (auto simp: is_pystr_def list_all_iff dest: in_set_dropD)

lemma is_pystr_tl: "is_pystr s \<Longrightarrow> is_pystr (tl s)"
  by (cases s) auto

lemma hex4_pystr: "hex4 s = Some (u, r) \<Longrightarrow> is_pystr s \<Longrightarrow> u < 65536 \<and> is_pystr r"
  by (induction s rule: hex4.induct) (auto split: if_splits dest!: hex_val_bound)

lemma unicode_escape_pystr: "unicode_escape s = Inr (u, r) \<Longrightarrow> is_pystr s \<Longrightarrow> u < 0x110000 \<and> is_pystr r"
proof -
  assume u: "unicode_escape s = Inr (u, r)" and s: "is_pystr s"
  obtain a r1 where a: "hex4 s = Some (a, r1)"
    using u by (cases "hex4 s") (auto simp: unicode_escape_def)
  note ha = hex4_pystr [OF a s]
  have plain: ?thesis if "u = a" "r = r1" using that ha by simp
  show ?thesis
  proof (cases "in_range 0xd800 0xdbff a \<and> starts_with [92, 117] r1")
    case False
    then have "unicode_escape s = Inr (a, r1)" using a by (auto simp: unicode_escape_def)
    then show ?thesis using u plain by simp
  next
    case True
    then obtain l r2 where l: "hex4 (drop 2 r1) = Some (l, r2)"
      using u a by (cases "hex4 (drop 2 r1)") (auto simp: unicode_escape_def)
    show ?thesis
    proof (cases "in_range 0xdc00 0xdfff l")
      case False
      then show ?thesis using u a True l plain by (simp add: unicode_escape_def)
    next
      case low: True
      then have eq: "u = 0x10000 + (a - 0xd800) * 1024 + (l - 0xdc00)" "r = r2"
        using u a True l by (simp_all add: unicode_escape_def)
      have "a - 0xd800 \<le> 1023" "l - 0xdc00 \<le> 1023" using True low by (auto simp: in_range_def)
      then have "u < 0x110000" using eq(1) by linarith
      then show ?thesis using hex4_pystr [OF l] ha is_pystr_drop eq(2) by blast
    qed
  qed
qed

lemma next_char_pystr:
  "next_char s = Inr (x, r) \<Longrightarrow> is_pystr s \<Longrightarrow> (\<forall>c. x = Some c \<longrightarrow> c < 0x110000) \<and> is_pystr r"
  by (auto simp: next_char_def map_sum_def simple_escape_def
      split: list.splits if_splits option.splits sum.splits dest: unicode_escape_pystr)

lemma parse_str_pystr: "parse_str s = Inr (t, r) \<Longrightarrow> is_pystr s \<Longrightarrow> is_pystr t \<and> is_pystr r"
proof (induction s arbitrary: t r rule: parse_str.induct)
  case (1 s)
  obtain x r1 where n: "next_char s = Inr (x, r1)"
    using "1.prems"(1) by (cases "next_char s") (auto simp: parse_str.simps [of s])
  note nc = next_char_pystr [OF n "1.prems"(2)]
  show ?case
  proof (cases x)
    case None
    then show ?thesis using "1.prems" n nc by (simp add: parse_str.simps [of s])
  next
    case (Some c)
    then obtain cs where "parse_str r1 = Inr (cs, r)" "t = c # cs"
      using "1.prems"(1) n by (auto simp: parse_str.simps [of s])
    then show ?thesis using "1.IH" [OF n refl Some] nc Some by auto
  qed
qed

lemma parse_number_pystr: "parse_number s = Inr (v, r) \<Longrightarrow> is_pystr s \<Longrightarrow> json_pystr v \<and> is_pystr r"
proof -
  have frac: "frac_part s = (t, r) \<Longrightarrow> is_pystr s \<Longrightarrow> is_pystr r" for s t r
    using is_pystr_dropWhile by (fastforce simp: frac_part_def split: list.splits if_splits)
  have exp: "exp_part s = (t, r) \<Longrightarrow> is_pystr s \<Longrightarrow> is_pystr r" for s t r
    using is_pystr_dropWhile by (fastforce simp: exp_part_def Let_def split: list.splits if_splits prod.splits)
  have int: "int_part s = Some (t, r) \<Longrightarrow> is_pystr s \<Longrightarrow> is_pystr r" for s t r
    using is_pystr_dropWhile by (fastforce simp: int_part_def split: list.splits if_splits)
  show "parse_number s = Inr (v, r) \<Longrightarrow> is_pystr s \<Longrightarrow> json_pystr v \<and> is_pystr r"
    unfolding parse_number_def
    by (auto simp: Let_def split: prod.splits list.splits if_splits option.splits dest!: int frac exp)
qed

lemma parse_atom_pystr: "parse_atom s = Inr (v, r) \<Longrightarrow> is_pystr s \<Longrightarrow> json_pystr v \<and> is_pystr r"
proof (cases "find (\<lambda>(w, v). starts_with w s) constants")
  case (Some p)
  assume v: "parse_atom s = Inr (v, r)" and s: "is_pystr s"
  have "p \<in> set constants" using Some nth_mem by (fastforce simp: find_Some_iff)
  moreover have "\<forall>p \<in> set constants. json_pystr (snd p)" by (simp add: constants_def)
  ultimately have "json_pystr (snd p)" by blast
  then show ?thesis using v s Some by (cases p) (auto simp: parse_atom_def is_pystr_drop)
qed (simp add: parse_atom_def parse_number_pystr)

lemma kvs_pystr_simps [simp]:
  "kvs_pystr []"
  "kvs_pystr ((k, v) # kvs) \<longleftrightarrow> is_pystr k \<and> json_pystr v \<and> kvs_pystr kvs"
  by (simp_all add: kvs_pystr_def)

lemma kvs_pystr_update:
  "kvs_pystr kvs \<Longrightarrow> is_pystr k \<Longrightarrow> json_pystr v \<Longrightarrow> kvs_pystr (AList.update k v kvs)"
  by (induction kvs) auto

lemma dict_of_pystr: "kvs_pystr kvs \<Longrightarrow> kvs_pystr (dict_of kvs)"
proof -
  have "kvs_pystr acc \<Longrightarrow> kvs_pystr kvs \<Longrightarrow> kvs_pystr (fold (\<lambda>(k, v). AList.update k v) kvs acc)" for acc
    by (induction kvs arbitrary: acc) (auto simp: kvs_pystr_update)
  then show "kvs_pystr kvs \<Longrightarrow> kvs_pystr (dict_of kvs)" by (simp add: dict_of_def)
qed

lemma Cons_pystr: "s = c # r \<Longrightarrow> is_pystr s \<Longrightarrow> is_pystr r" by simp

lemma skip_ws_Cons_pystr: "skip_ws s = c # r \<Longrightarrow> is_pystr s \<Longrightarrow> is_pystr r"
  using skip_ws_pystr by fastforce

lemma parse_pystr:
  "parse_value f s = Inr (v, r) \<Longrightarrow> is_pystr s \<Longrightarrow> json_pystr v \<and> is_pystr r"
  "parse_items f s = Inr (vs, r) \<Longrightarrow> is_pystr s \<Longrightarrow> list_all json_pystr vs \<and> is_pystr r"
  "parse_members f s = Inr (kvs, r) \<Longrightarrow> is_pystr s \<Longrightarrow> kvs_pystr kvs \<and> is_pystr r"
proof (induction f s and f s and f s arbitrary: v r and vs r and kvs r
    rule: parse_value_parse_items_parse_members.induct)
  case (2 f s)
  obtain c t where s: "s = c # t" using "2.prems"(1) by (cases s) auto
  have t: "is_pystr t" "is_pystr (skip_ws t)" "is_pystr (tl (skip_ws t))"
    using "2.prems"(2) s skip_ws_pystr is_pystr_tl by auto
  consider "c = 34" | "c = 91" | "c = 123" | "c \<notin> {34, 91, 123}" by blast
  then show ?case
  proof cases
    case 1
    then show ?thesis using "2.prems"(1) s t by (auto dest: parse_str_pystr)
  next
    case 2
    show ?thesis
    proof (cases "starts_with [93] (skip_ws t)")
      case True
      then show ?thesis using "2.prems"(1) s t 2 by auto
    next
      case False
      then obtain vs where m: "parse_items f (skip_ws t) = Inr (vs, r)" "v = JArr vs"
        using "2.prems"(1) s 2 by auto
      then show ?thesis using "2.IH"(1) [OF s _ 2 False m(1) t(2)] 2 by (simp add: list_all_iff)
    qed
  next
    case 3
    show ?thesis
    proof (cases "starts_with [125] (skip_ws t)")
      case True
      then show ?thesis using "2.prems"(1) s t 3 by auto
    next
      case False
      then obtain kvs where m: "parse_members f (skip_ws t) = Inr (kvs, r)" "v = JObj (dict_of kvs)"
        using "2.prems"(1) s 3 by auto
      then show ?thesis using "2.IH"(2) [OF s _ _ 3 False m(1) t(2)] 3 dict_of_pystr by simp
    qed
  next
    case 4
    then show ?thesis using "2.prems" s parse_atom_pystr [of s] by simp
  qed
next
  case (4 f s)
  obtain v1 r1 where v: "parse_value f s = Inr (v1, r1)" using "4.prems"(1) by auto
  note h = "4.IH"(1) [OF v "4.prems"(2)]
  obtain c t where r1: "skip_ws r1 = c # t"
    using "4.prems"(1) v by (cases "skip_ws r1") auto
  have t: "is_pystr (skip_ws t)" "is_pystr t" using skip_ws_Cons_pystr [OF r1] h skip_ws_pystr by blast+
  show ?case
  proof (cases "c = 44")
    case True
    then obtain vs1 where "parse_items f (skip_ws t) = Inr (vs1, r)" "vs = v1 # vs1"
      using "4.prems"(1) v r1 by auto
    then show ?thesis using "4.IH"(2) [OF r1 True] t h by simp
  next
    case False
    then show ?thesis using "4.prems"(1) v r1 t h by (auto split: if_splits)
  qed
next
  case (6 f s)
  obtain s1 where s: "s = 34 # s1" using "6.prems"(1) by (cases s) (auto split: if_splits)
  obtain k s2 where k: "parse_str s1 = Inr (k, s2)" using "6.prems"(1) s by auto
  have hk: "is_pystr k" "is_pystr s2" using parse_str_pystr [OF k] "6.prems"(2) s by auto
  obtain s3 where s3: "skip_ws s2 = 58 # s3"
    using "6.prems"(1) s k by (cases "skip_ws s2") (auto split: if_splits)
  have hs3: "is_pystr (skip_ws s3)" using skip_ws_Cons_pystr [OF s3] hk skip_ws_pystr by blast
  obtain v1 r1 where v: "parse_value f (skip_ws s3) = Inr (v1, r1)"
    using "6.prems"(1) s k s3 by auto
  have h: "json_pystr v1 \<and> is_pystr r1" using "6.IH"(1) [OF s _ s3 _ v hs3] by simp
  obtain c t where r1: "skip_ws r1 = c # t"
    using "6.prems"(1) s k s3 v by (cases "skip_ws r1") auto
  have t: "is_pystr (skip_ws t)" "is_pystr t" using skip_ws_Cons_pystr [OF r1] h skip_ws_pystr by blast+
  show ?case
  proof (cases "c = 44")
    case True
    then obtain kvs1 where m: "parse_members f (skip_ws t) = Inr (kvs1, r)" "kvs = (k, v1) # kvs1"
      using "6.prems"(1) s k s3 v r1 by auto
    then show ?thesis using "6.IH"(2) [OF s _ s3 _ r1 True m(1) t(1)] h hk by simp
  next
    case False
    then show ?thesis using "6.prems"(1) s k s3 v r1 t h hk by (auto split: if_splits)
  qed
qed simp_all

lemma loads_pystr:
  assumes "loads s = Inr v" "is_pystr s"
  shows "json_pystr v"
proof -
  obtain r where "parse_value (Suc (2 * length s)) (skip_ws s) = Inr (v, r)"
    using assms(1) by (auto simp: loads_def simp del: parse_value.simps split: if_splits)
  then show ?thesis using parse_pystr(1) skip_ws_pystr [OF assms(2)] by blast
qed
end
