(* ===== verification/Json_Value.thy ===== *)
theory Json_Value
  imports Json
begin

text \<open>
  How the code takes a parsed JSON value apart: dict lookups, key sets, and the comparison of a
  value with a small integer, which in Python also holds for \<open>True\<close> and for floats.
\<close>

definition dict_get :: "json_dict \<Rightarrow> string \<Rightarrow> json res" where
  "dict_get d k = (case map_of d (lit k) of None \<Rightarrow> Inl KeyError | Some v \<Rightarrow> Inr v)"

definition keys_are :: "json_dict \<Rightarrow> string list \<Rightarrow> bool" where
  "keys_are d ks = (set (map fst d) = set (map lit ks))"

definition list_of_json :: "json \<Rightarrow> string \<Rightarrow> json list res" where
  "list_of_json v msg = (case v of JArr vs \<Rightarrow> Inr vs | _ \<Rightarrow> Inl (ValueError msg))"

lemma dict_get_error: "dict_get d k = Inl e \<Longrightarrow> e = KeyError"
  by (auto simp: dict_get_def split: option.splits)

lemma list_of_json_error: "list_of_json v m = Inl e \<Longrightarrow> is_value_error e"
  by (auto simp: list_of_json_def split: json.splits)

text \<open>What reading back a printed dict does to its lookups.\<close>

lemma map_of_sort_key:
  assumes "distinct (map fst kvs)"
  shows "map_of (sort_key fst kvs) = map_of kvs"
proof -
  have "distinct (map fst (sort_key fst kvs))" by (rule distinct_sort_key_fst [OF assms])
  then show ?thesis
    using assms by (simp add: map_of_inject_set)
qed

lemma map_of_map_canon: "map_of (map (map_prod id canon) kvs) k = map_option canon (map_of kvs k)"
  by (induction kvs) auto

lemma canon_JObj_get:
  assumes "distinct (map fst kvs)" "canon (JObj kvs) = JObj d"
  shows "dict_get d k = map_sum id canon (dict_get kvs k)" "set (map fst d) = set (map fst kvs)"
proof -
  have d: "d = sort_key fst (map (map_prod id canon) kvs)" using assms(2) by simp
  have "distinct (map fst (map (map_prod id canon) kvs))" using assms(1) by (simp add: comp_def)
  then have "map_of d (lit k) = map_option canon (map_of kvs (lit k))"
    unfolding d map_of_sort_key by (simp only: map_of_sort_key map_of_map_canon)
  then show "dict_get d k = map_sum id canon (dict_get kvs k)"
    by (simp add: dict_get_def split: option.splits)
  show "set (map fst d) = set (map fst kvs)" unfolding d by force
qed

definition array_items :: "json \<Rightarrow> json list option" where
  "array_items v = (case v of JArr vs \<Rightarrow> Some vs | _ \<Rightarrow> None)"

lemma array_items_simps [simp]: "array_items (JArr vs) = Some vs"
  by (simp add: array_items_def)

text \<open>Sign, digits, fraction digits and exponent of a float literal.\<close>

definition float_fields :: "pystr \<Rightarrow> bool \<times> pystr \<times> pystr \<times> int" where
  "float_fields t =
     (let neg = starts_with [45] t;
          body = (if neg then tl t else t);
          ds = takeWhile is_digit09 body;
          r1 = dropWhile is_digit09 body;
          fs = (if starts_with [46] r1 then takeWhile is_digit09 (tl r1) else []);
          r2 = (if starts_with [46] r1 then dropWhile is_digit09 (tl r1) else r1);
          es = (if starts_with [101] r2 \<or> starts_with [69] r2 then tl r2 else []);
          minus = starts_with [45] es;
          eds = (if minus \<or> starts_with [43] es then tl es else es)
      in (neg, ds, fs, (if minus then -1 else 1) * int (digits_val 0 eds)))"

text \<open>
  \<open>float(t) == k\<close> for a power of two \<open>k\<close>: the literal rounds to \<open>k\<close> exactly when it lies
  between the midpoints to the neighbouring doubles, which are \<open>k * (1 - 2^-54)\<close> and
  \<open>k * (1 + 2^-53)\<close>; both ties go to the even \<open>k\<close>.
\<close>

definition float_equals :: "pystr \<Rightarrow> nat \<Rightarrow> bool" where
  "float_equals t k =
     (let (neg, ds, fs, e) = float_fields t;
          m = int (digits_val 0 (ds @ fs));
          x = e - int (length fs);
          scaled = (if 0 \<le> x then m * 10 ^ nat x else m);
          unit = (if 0 \<le> x then 1 else 10 ^ nat (- x))
      in \<not> neg \<and> ds \<noteq> [] \<and> (2 ^ 54 - 1) * int k * unit \<le> scaled * 2 ^ 54
         \<and> scaled * 2 ^ 54 \<le> (2 ^ 54 + 2) * int k * unit)"

text \<open>\<open>value == k\<close> for \<open>k\<close> equal to 1 or 2.\<close>

definition equals_number :: "json \<Rightarrow> nat \<Rightarrow> bool" where
  "equals_number v k =
     (case v of
        JBool b \<Rightarrow> (if b then 1 else 0) = k
      | JInt i \<Rightarrow> i = int k
      | JFloat t \<Rightarrow> float_equals t k
      | _ \<Rightarrow> False)"

lemma equals_number_simps [simp]:
  "equals_number (JInt i) k = (i = int k)"
  "equals_number (JBool b) k = ((if b then 1 else 0) = k)"
  "equals_number (JStr s) k = False"
  "equals_number (JArr vs) k = False"
  "equals_number (JObj d) k = False"
  "equals_number JNull k = False"
  by (simp_all add: equals_number_def)

subsection \<open>Plain text\<close>

lemma scalar_lit [simp]: "scalar_text (lit s)"
proof -
  have small: "n < 256 \<Longrightarrow> scalar_char n" for n
    by (simp add: scalar_char_def is_surrogate_def in_range_def)
  have "scalar_char (of_char c)" for c :: char
    by (rule small) (rule nat_of_char_less_256)
  then show ?thesis by (simp add: scalar_text_def lit_def list_all_iff)
qed

text \<open>The characters of printed JSON: ASCII without control characters.\<close>

definition plain_char :: "nat \<Rightarrow> bool" where
  "plain_char c = (32 \<le> c \<and> c < 128)"

lemma plain_char_simps [simp]:
  "plain_char 34" "plain_char 37" "plain_char 44" "plain_char 45" "plain_char 46" "plain_char 47" "plain_char 48"
  "plain_char 58" "plain_char 91" "plain_char 92" "plain_char 93" "plain_char 117" "plain_char 123" "plain_char 125"
  by (simp_all add: plain_char_def)

lemma plain_hex_digit: "n < 16 \<Longrightarrow> plain_char (hex_digit n)"
  by (simp add: plain_char_def hex_digit_def)

lemma plain_esc_char: "list_all plain_char (esc_char c)"
proof -
  have "list_all plain_char (u_escape u)" for u
    using plain_hex_digit by (simp add: u_escape_def)
  then show ?thesis by (auto simp: esc_char_def in_range_def plain_char_def)
qed

lemma plain_quoted: "list_all plain_char (quoted s)"
proof -
  have "list_all plain_char (concat (map esc_char s))" using plain_esc_char by (induction s) auto
  then show ?thesis by (simp add: quoted_def)
qed

lemma plain_join: "list_all P sep \<Longrightarrow> list_all (list_all P) ws \<Longrightarrow> list_all P (join sep ws)"
  by (induction sep ws rule: join.induct) auto

lemma plain_nat_digits: "list_all plain_char (nat_digits n)"
  using nat_digits_digits [of n] by (auto simp: list_all_iff plain_char_def char_class_defs)

text \<open>Printed JSON has no control characters.\<close>

lemma plain_dumps: "json_ok v \<Longrightarrow> list_all plain_char (dumps v)"
proof (induction v)
  case (JArr vs)
  then have "list_all (list_all plain_char) (map dumps vs)" by (auto simp: list_all_iff)
  then show ?case by (simp add: plain_join)
next
  case (JObj kvs)
  have "list_all (list_all plain_char) (map member_text (map (map_prod id dumps) kvs))"
    using JObj plain_quoted by (fastforce simp: list_all_iff member_text_def)
  then have "list_all (list_all plain_char) (map member_text (sort_key fst (map (map_prod id dumps) kvs)))"
    by (simp add: list_all_iff)
  then show ?case by (simp add: plain_join)
qed (simp_all add: lit_words int_str_def plain_nat_digits plain_quoted plain_char_def)

end
