(* ===== verification/Codec.thy ===== *)
theory Codec
  imports Py_Text
begin

text \<open>
  The contracts between a store and the byte form of what it stores.  A lossless form gives back
  the value that was written; a codec also accepts only what its encoder wrote.  The firewall
  source manifest and the template publication state promise the first, the journal the second;
  the stores rely on them to tell one stored value from another by its bytes.
\<close>

locale lossless =
  fixes enc :: "'r \<Rightarrow> bytes res" and dec :: "bytes \<Rightarrow> 'r res" and valid :: "'r \<Rightarrow> bool"
  assumes dec_enc: "valid r \<Longrightarrow> enc r = Inr raw \<Longrightarrow> dec raw = Inr r"
begin

lemma enc_inj: "valid r \<Longrightarrow> valid s \<Longrightarrow> enc r = Inr raw \<Longrightarrow> enc s = Inr raw \<Longrightarrow> r = s"
  using dec_enc [of r raw] dec_enc [of s raw] by simp

text \<open>A file that holds one of two encodings holds one of two values.\<close>

lemma dec_of_either:
  "valid r \<Longrightarrow> valid s \<Longrightarrow> enc r = Inr a \<Longrightarrow> enc s = Inr b \<Longrightarrow> raw \<in> {a, b}
    \<Longrightarrow> dec raw = Inr r \<or> dec raw = Inr s"
  using dec_enc by blast

end

locale codec = lossless +
  assumes dec_canonical: "dec raw = Inr r \<Longrightarrow> enc r = Inr raw"
    and dec_valid: "dec raw = Inr r \<Longrightarrow> valid r"
begin

lemma dec_iff: "dec raw = Inr r \<longleftrightarrow> valid r \<and> enc r = Inr raw"
  using dec_canonical dec_valid dec_enc by blast

lemma dec_inj: "dec raw = Inr r \<Longrightarrow> dec raw' = Inr r \<Longrightarrow> raw = raw'"
  using dec_canonical [of raw r] dec_canonical [of raw' r] by simp

end

end
