(* ===== verification/Journal_Record.thy ===== *)
theory Journal_Record
  imports Json_Value Codec "HOL-Library.Product_Lexorder"
begin

text \<open>
  The data of \<open>src/src/kitdev_sandboxes/journal.py\<close>: the states of an installation phase
  and the transitions between them, the resource and journal records with the checks of
  their constructors, and the canonical byte form that \<open>_encode\<close> writes and \<open>_decode\<close>
  accepts.  Values that come out of a JSON document are of type \<open>json\<close> until the
  constructor has checked their class.
\<close>

subsection \<open>States and transitions\<close>

datatype journal_state =
  PLANNED | APPLYING | APPLIED | VALIDATED | ROLLING_BACK | ROLLED_BACK | FAILED

fun state_value :: "journal_state \<Rightarrow> string" where
  "state_value PLANNED = ''planned''"
| "state_value APPLYING = ''applying''"
| "state_value APPLIED = ''applied''"
| "state_value VALIDATED = ''validated''"
| "state_value ROLLING_BACK = ''rolling_back''"
| "state_value ROLLED_BACK = ''rolled_back''"
| "state_value FAILED = ''failed''"

definition all_states :: "journal_state list" where
  "all_states = [PLANNED, APPLYING, APPLIED, VALIDATED, ROLLING_BACK, ROLLED_BACK, FAILED]"

text \<open>\<open>JournalState(item)\<close>: the member with that value, else \<open>ValueError\<close>.\<close>

definition state_of_json :: "json \<Rightarrow> journal_state res" where
  "state_of_json v =
     (case v of
        JStr s \<Rightarrow> (case find (\<lambda>st. lit (state_value st) = s) all_states of
            Some st \<Rightarrow> Inr st
          | None \<Rightarrow> Inl (ValueError ''not a valid JournalState''))
      | _ \<Rightarrow> Inl (ValueError ''not a valid JournalState''))"

fun allowed_transitions :: "journal_state \<Rightarrow> journal_state list" where
  "allowed_transitions PLANNED = [APPLYING, FAILED]"
| "allowed_transitions APPLYING = [APPLIED, ROLLING_BACK, FAILED]"
| "allowed_transitions APPLIED = [VALIDATED, ROLLING_BACK, FAILED]"
| "allowed_transitions VALIDATED = [ROLLING_BACK]"
| "allowed_transitions ROLLING_BACK = [ROLLED_BACK, FAILED]"
| "allowed_transitions ROLLED_BACK = []"
| "allowed_transitions FAILED = [ROLLING_BACK]"

subsection \<open>Limits and field checks\<close>

definition max_text_bytes :: nat where "max_text_bytes = 4096"
definition max_resources :: nat where "max_resources = 512"
definition max_transitions :: nat where "max_transitions = 4096"
definition max_journal_bytes :: nat where "max_journal_bytes = 1048576"
definition max_directory_entries :: nat where "max_directory_entries = 4096"
definition file_mode_default :: nat where "file_mode_default = 384"
definition directory_mode_default :: nat where "directory_mode_default = 448"

definition secret_words :: "pystr list" where
  "secret_words = map lit
     [''authorization'', ''cookie'', ''password'', ''secret'', ''token'',
      ''apikey'', ''api_key'', ''api-key'', ''accesskey'', ''access_key'', ''access-key'',
      ''credential'', ''x-amz-signature'', ''x-amz-credential'', ''x-amz-security-token'']"

definition has_secret :: "pystr \<Rightarrow> bool" where
  "has_secret s = search (assignment_at secret_words) s"

text \<open>\<open>_ID_RE\<close>: \<open>[a-z][a-z0-9_.-]{0,127}\<close>.\<close>

definition id_char :: "nat \<Rightarrow> bool" where
  "id_char c = (is_lower_az c \<or> is_digit09 c \<or> c = 95 \<or> c = 46 \<or> c = 45)"

definition is_stable_id :: "pystr \<Rightarrow> bool" where
  "is_stable_id s = full_class is_lower_az id_char 0 127 s"

definition text_refused :: "pystr \<Rightarrow> nat \<Rightarrow> bool" where
  "text_refused value nbytes =
     (let decoded = unquote_loop 2 value
      in value = [] \<or> max_text_bytes < nbytes \<or> list_ex is_c0_c1 decoded \<or> list_ex is_cf decoded
         \<or> has_secret decoded \<or> has_begin_marker decoded)"

definition check_text :: "string \<Rightarrow> bool \<Rightarrow> json \<Rightarrow> pystr res" where
  "check_text name stable_id value =
     (case value of
        JStr s \<Rightarrow>
          bindR (try_except (\<lambda>e. e = UnicodeEncodeError) (encode_utf8 s)
                   (\<lambda>_. Inl (ValueError (name @ '' is not valid UTF-8'')))) (\<lambda>encoded.
          thenR (raise_if (text_refused s (length encoded))
                   (ValueError (name @ '' is empty, oversized, contains controls, or resembles secret material'')))
          (thenR (raise_if (stable_id \<and> \<not> is_stable_id s)
                   (ValueError (name @ '' is not a stable identifier'')))
            (Inr s)))
      | _ \<Rightarrow> Inl (TypeError (name @ '' must be a string'')))"

definition is_sha256_ref :: "pystr \<Rightarrow> bool" where
  "is_sha256_ref s = (starts_with (lit ''sha256:'') s \<and> all_of_length is_lower_hex 64 (drop 7 s))"

definition hash_text :: "string \<Rightarrow> json \<Rightarrow> pystr res" where
  "hash_text name value =
     (case value of
        JStr s \<Rightarrow> (if is_sha256_ref s then Inr s
                   else Inl (ValueError (name @ '' must be a lowercase sha256 digest'')))
      | _ \<Rightarrow> Inl (ValueError (name @ '' must be a lowercase sha256 digest'')))"

definition safe_path_component :: "pystr \<Rightarrow> bool" where
  "safe_path_component c =
     (case encode_utf8 c of
        Inl _ \<Rightarrow> False
      | Inr encoded \<Rightarrow> c \<notin> {[], lit ''.'', lit ''..''} \<and> length encoded \<le> 255
                     \<and> \<not> list_ex is_c0_c1 c \<and> \<not> list_ex is_cf c)"

subsection \<open>Resource records\<close>

datatype resource_record = ResourceRecord
  (resource_id: pystr) (target: pystr) (prior_state: pystr) (desired_state: pystr)

text \<open>\<open>order=True\<close>: records compare as the tuples of their fields.\<close>

definition resource_key :: "resource_record \<Rightarrow> pystr \<times> pystr \<times> pystr \<times> pystr" where
  "resource_key r = (resource_id r, target r, prior_state r, desired_state r)"

lemma resource_key_eq [simp]: "resource_key r = resource_key s \<longleftrightarrow> r = s"
  by (cases r; cases s) (auto simp: resource_key_def)

instantiation resource_record :: linorder
begin

definition less_eq_resource_record :: "resource_record \<Rightarrow> resource_record \<Rightarrow> bool" where
  "less_eq_resource_record r s = (resource_key r \<le> resource_key s)"

definition less_resource_record :: "resource_record \<Rightarrow> resource_record \<Rightarrow> bool" where
  "less_resource_record r s = (resource_key r < resource_key s)"

instance
proof
  fix r s t :: resource_record
  show "r < s \<longleftrightarrow> r \<le> s \<and> \<not> s \<le> r"
    unfolding less_eq_resource_record_def less_resource_record_def by (rule less_le_not_le)
  show "r \<le> r" by (simp add: less_eq_resource_record_def)
  show "r \<le> s \<Longrightarrow> s \<le> t \<Longrightarrow> r \<le> t"
    unfolding less_eq_resource_record_def by (rule order_trans)
  show "r \<le> s \<Longrightarrow> s \<le> r \<Longrightarrow> r = s"
    unfolding less_eq_resource_record_def by (metis antisym resource_key_eq)
  show "r \<le> s \<or> s \<le> r"
    unfolding less_eq_resource_record_def by (rule linear)
qed

end

definition ambiguous_target :: "pystr \<Rightarrow> bool" where
  "ambiguous_target t =
     (let d = unquote (unquote t)
      in starts_with (lit ''//'') d \<or> is_substring (lit ''//'') d
         \<or> (d \<noteq> lit ''/'' \<and> ends_with (lit ''/'') d)
         \<or> list_ex (\<lambda>c. c = lit ''.'' \<or> c = lit ''..'') (split_on 47 d))"

definition mk_resource :: "json \<Rightarrow> json \<Rightarrow> json \<Rightarrow> json \<Rightarrow> resource_record res" where
  "mk_resource rid tgt prior desired =
     bindR (check_text ''resource_id'' True rid) (\<lambda>rid'.
     bindR (check_text ''target'' False tgt) (\<lambda>tgt'.
     thenR (raise_if (ambiguous_target tgt')
              (ValueError ''target contains an ambiguous or traversing path component''))
     (bindR (check_text ''prior_state'' False prior) (\<lambda>prior'.
      bindR (check_text ''desired_state'' False desired) (\<lambda>desired'.
        Inr (ResourceRecord rid' tgt' prior' desired'))))))"

definition resource_as_dict :: "resource_record \<Rightarrow> json" where
  "resource_as_dict r = JObj
     [(lit ''id'', JStr (resource_id r)), (lit ''target'', JStr (target r)),
      (lit ''prior_state'', JStr (prior_state r)), (lit ''desired_state'', JStr (desired_state r))]"

subsection \<open>Journal records\<close>

record journal_record =
  install_id :: pystr
  plan_id :: pystr
  plan_hash :: pystr
  resources :: "resource_record list"
  transitions :: "journal_state list"
  schema_version :: int

text \<open>The loop over \<open>zip(transitions, transitions[1:])\<close>.\<close>

fun check_history :: "journal_state list \<Rightarrow> unit res" where
  "check_history (previous # current # rest) =
     thenR (raise_if (current \<notin> set (allowed_transitions previous))
              (ValueError (''invalid journal transition '' @ state_value previous @ ''->''
                           @ state_value current)))
       (check_history (current # rest))"
| "check_history [] = Inr ()"
| "check_history [state] = Inr ()"

definition mk_journal ::
  "json \<Rightarrow> json \<Rightarrow> json \<Rightarrow> resource_record list \<Rightarrow> journal_state list \<Rightarrow> json \<Rightarrow> journal_record res" where
  "mk_journal iid pid phash rs ts version =
     thenR (raise_if (version \<noteq> JInt 1) (ValueError ''journal schema_version must be 1''))
     (bindR (check_text ''install_id'' True iid) (\<lambda>iid'.
      bindR (check_text ''plan_id'' True pid) (\<lambda>pid'.
      bindR (hash_text ''plan_hash'' phash) (\<lambda>phash'.
      thenR (raise_if (rs = [] \<or> max_resources < length rs)
               (ValueError ''resources is empty or exceeds its bound''))
      (thenR (raise_if (sort rs \<noteq> rs) (ValueError ''resources must be sorted canonically''))
      (thenR (raise_if (\<not> distinct (map resource_id rs))
               (ValueError ''resource identifiers must be unique''))
      (thenR (raise_if (ts = [] \<or> hd ts \<noteq> PLANNED) (ValueError ''the first transition must be planned''))
      (thenR (raise_if (max_transitions < length ts) (ValueError ''transition history exceeds its bound''))
      (thenR (check_history ts)
        (Inr \<lparr>install_id = iid', plan_id = pid', plan_hash = phash', resources = rs,
              transitions = ts, schema_version = 1\<rparr>))))))))))"

definition state_of :: "journal_record \<Rightarrow> journal_state" where
  "state_of r = last (transitions r)"

definition journal_as_dict :: "journal_record \<Rightarrow> json" where
  "journal_as_dict r = JObj
     [(lit ''schema_version'', JInt (schema_version r)),
      (lit ''install_id'', JStr (install_id r)),
      (lit ''plan_id'', JStr (plan_id r)),
      (lit ''plan_hash'', JStr (plan_hash r)),
      (lit ''resources'', JArr (map resource_as_dict (resources r))),
      (lit ''state'', JStr (lit (state_value (state_of r)))),
      (lit ''transitions'', JArr (map (\<lambda>st. JStr (lit (state_value st))) (transitions r)))]"

subsection \<open>The byte form\<close>

definition encode :: "journal_record \<Rightarrow> bytes res" where
  "encode r =
     (let encoded = dumps (journal_as_dict r) @ [10]
      in thenR (raise_if (max_journal_bytes < length encoded)
                  (ValueError ''journal exceeds its global byte limit''))
           (Inr encoded))"

definition top_level_keys :: "string list" where
  "top_level_keys =
     [''schema_version'', ''install_id'', ''plan_id'', ''plan_hash'', ''resources'', ''state'', ''transitions'']"

definition resource_keys :: "string list" where
  "resource_keys = [''id'', ''target'', ''prior_state'', ''desired_state'']"

definition resource_of_dict :: "json_dict \<Rightarrow> resource_record res" where
  "resource_of_dict d =
     bindR (dict_get d ''id'') (\<lambda>i. bindR (dict_get d ''target'') (\<lambda>t.
     bindR (dict_get d ''prior_state'') (\<lambda>p. bindR (dict_get d ''desired_state'') (\<lambda>q.
       mk_resource i t p q))))"

text \<open>The generator skips the items of another shape; the length test then catches them.\<close>

definition resource_shaped :: "json \<Rightarrow> json_dict option" where
  "resource_shaped v =
     (case v of JObj d \<Rightarrow> (if keys_are d resource_keys then Some d else None) | _ \<Rightarrow> None)"

definition decode_payload :: "bytes \<Rightarrow> json_dict \<Rightarrow> journal_record res" where
  "decode_payload raw payload =
     bindR (dict_get payload ''resources'') (\<lambda>rr.
     bindR (list_of_json rr ''resources is not a list'') (\<lambda>raw_resources.
     bindR (mapR resource_of_dict (List.map_filter resource_shaped raw_resources)) (\<lambda>rs.
     thenR (raise_if (length rs \<noteq> length raw_resources) (ValueError ''invalid resource shape''))
     (bindR (dict_get payload ''transitions'') (\<lambda>rt.
      bindR (list_of_json rt ''transitions is not a list'') (\<lambda>raw_transitions.
      bindR (dict_get payload ''install_id'') (\<lambda>iid.
      bindR (dict_get payload ''plan_id'') (\<lambda>pid.
      bindR (dict_get payload ''plan_hash'') (\<lambda>ph.
      bindR (mapR state_of_json raw_transitions) (\<lambda>ts.
      bindR (dict_get payload ''schema_version'') (\<lambda>version.
      bindR (mk_journal iid pid ph rs ts version) (\<lambda>record.
      bindR (dict_get payload ''state'') (\<lambda>st.
      bindR (if st \<noteq> JStr (lit (state_value (state_of record))) then Inr True
             else bindR (encode record) (\<lambda>e. Inr (e \<noteq> raw))) (\<lambda>bad.
      thenR (raise_if bad (ValueError ''journal is not canonical or state is inconsistent''))
        (Inr record)))))))))))))))"

definition decode_document :: "bytes \<Rightarrow> json \<Rightarrow> journal_record res" where
  "decode_document raw payload =
     (case payload of
        JObj d \<Rightarrow> (if keys_are d top_level_keys then decode_payload raw d
                   else Inl (ValueError ''invalid top-level shape''))
      | _ \<Rightarrow> Inl (ValueError ''invalid top-level shape''))"

definition decode :: "bytes \<Rightarrow> journal_record res" where
  "decode raw =
     thenR (raise_if (raw = [] \<or> max_journal_bytes < length raw)
              (JournalCorrupt ''journal is empty or oversized''))
     (try_except (\<lambda>e. e = KeyError \<or> is_type_error e \<or> is_value_error e)
        (bindR (decode_strict raw) (\<lambda>txt. bindR (loads txt) (decode_document raw)))
        (\<lambda>_. Inl (JournalCorrupt ''journal content is invalid'')))"

subsection \<open>What the checks accept\<close>

lemma check_text_Inr:
  "check_text n st v = Inr s \<longleftrightarrow>
     v = JStr s \<and> (\<exists>enc. encode_utf8 s = Inr enc \<and> \<not> text_refused s (length enc))
     \<and> (st \<longrightarrow> is_stable_id s)"
  by (cases v; cases "encode_utf8 s")
     (auto simp: check_text_def try_except_def split: sum.splits if_splits)

lemma hash_text_Inr: "hash_text n v = Inr s \<longleftrightarrow> v = JStr s \<and> is_sha256_ref s"
  by (cases v) (auto simp: hash_text_def)

lemma check_text_error: "check_text n st v = Inl e \<Longrightarrow> is_type_error e \<or> is_value_error e"
  by (cases v)
     (auto simp: check_text_def try_except_def bindR_eq_Inl thenR_eq_Inl encode_utf8_def split: sum.splits if_splits)

lemma hash_text_error: "hash_text n v = Inl e \<Longrightarrow> is_type_error e \<or> is_value_error e"
  by (cases v) (auto simp: hash_text_def split: if_splits)

lemma mk_resource_error: "mk_resource a b c d = Inl e \<Longrightarrow> is_type_error e \<or> is_value_error e"
  unfolding mk_resource_def
  by (auto simp: bindR_eq_Inl thenR_eq_Inl dest: check_text_error)

lemma check_history_error: "check_history ts = Inl e \<Longrightarrow> is_value_error e"
  by (induction ts rule: check_history.induct) (auto simp: thenR_eq_Inl)

lemma mk_journal_error: "mk_journal a b c rs ts v = Inl e \<Longrightarrow> is_type_error e \<or> is_value_error e"
  unfolding mk_journal_def
  by (auto simp: bindR_eq_Inl thenR_eq_Inl dest: check_text_error hash_text_error check_history_error)

definition valid_resource :: "resource_record \<Rightarrow> bool" where
  "valid_resource r =
     (mk_resource (JStr (resource_id r)) (JStr (target r)) (JStr (prior_state r))
        (JStr (desired_state r)) = Inr r)"

lemma mk_resource_Inr:
  "mk_resource a b c d = Inr r \<longleftrightarrow>
     a = JStr (resource_id r) \<and> b = JStr (target r) \<and> c = JStr (prior_state r)
     \<and> d = JStr (desired_state r) \<and> valid_resource r"
  unfolding mk_resource_def valid_resource_def
  by (cases r) (auto simp: check_text_Inr)

definition valid_journal :: "journal_record \<Rightarrow> bool" where
  "valid_journal r =
     (mk_journal (JStr (install_id r)) (JStr (plan_id r)) (JStr (plan_hash r)) (resources r)
        (transitions r) (JInt (schema_version r)) = Inr r
      \<and> list_all valid_resource (resources r))"

lemma mk_journal_Inr:
  "mk_journal a b c rs ts v = Inr r \<Longrightarrow>
     a = JStr (install_id r) \<and> b = JStr (plan_id r) \<and> c = JStr (plan_hash r)
     \<and> resources r = rs \<and> transitions r = ts \<and> v = JInt (schema_version r)
     \<and> mk_journal (JStr (install_id r)) (JStr (plan_id r)) (JStr (plan_hash r)) (resources r)
        (transitions r) (JInt (schema_version r)) = Inr r"
  unfolding mk_journal_def
  by (auto simp: check_text_Inr hash_text_Inr)

lemma mk_journal_facts:
  assumes "mk_journal a b c rs ts v = Inr r"
  shows "schema_version r = 1" "rs \<noteq> []" "length rs \<le> max_resources" "sorted rs"
    "distinct (map resource_id rs)" "ts \<noteq> []" "hd ts = PLANNED" "length ts \<le> max_transitions"
    "check_history ts = Inr ()"
  using assms unfolding mk_journal_def by (auto simp: sort_key_id_if_sorted) (metis sorted_sort)

subsection \<open>The life of a phase\<close>

text \<open>The histories as a step relation: a journal is created as planned and then moved
  along the allowed transitions.\<close>

inductive history :: "journal_state list \<Rightarrow> bool" where
  created: "history [PLANNED]"
| moved: "history (ts @ [previous]) \<Longrightarrow> current \<in> set (allowed_transitions previous)
    \<Longrightarrow> history (ts @ [previous, current])"

lemma check_history_snoc:
  "check_history (ts @ [p, c]) = Inr () \<longleftrightarrow>
     check_history (ts @ [p]) = Inr () \<and> c \<in> set (allowed_transitions p)"
proof (induction ts rule: check_history.induct)
  case (1 a b rest)
  then show ?case by auto
next
  case 2
  then show ?case by simp
next
  case (3 a)
  then show ?case by auto
qed

lemma history_iff:
  "history ts \<longleftrightarrow> ts \<noteq> [] \<and> hd ts = PLANNED \<and> check_history ts = Inr ()"
proof
  assume "history ts"
  then show "ts \<noteq> [] \<and> hd ts = PLANNED \<and> check_history ts = Inr ()"
  proof induction
    case (moved ts previous current)
    then have "check_history (ts @ [previous, current]) = Inr ()"
      by (simp only: check_history_snoc)
    with moved show ?case by (cases ts) simp_all
  qed simp
next
  show "ts \<noteq> [] \<and> hd ts = PLANNED \<and> check_history ts = Inr () \<Longrightarrow> history ts"
  proof (induction ts rule: rev_induct)
    case (snoc c ts)
    show ?case
    proof (cases ts rule: rev_cases)
      case Nil
      then show ?thesis using snoc by (simp add: history.created)
    next
      case (snoc us p)
      then have "history (us @ [p])" "c \<in> set (allowed_transitions p)"
        using snoc.IH snoc.prems check_history_snoc [of us p c]
        by (cases us; simp add: snoc del: check_history.simps)+
      then show ?thesis using snoc by (simp add: history.moved)
    qed
  qed simp
qed

inductive_cases history_snocE: "history (ts @ [p, c])"

definition forward_path :: "journal_state list" where
  "forward_path = [PLANNED, APPLYING, APPLIED, VALIDATED]"

definition history_shape :: "journal_state list \<Rightarrow> journal_state list \<Rightarrow> bool" where
  "history_shape fwd unwind =
     (fwd \<noteq> [] \<and> fwd = take (length fwd) forward_path
      \<and> set unwind \<subseteq> {FAILED, ROLLING_BACK, ROLLED_BACK} \<and> ROLLED_BACK \<notin> set (butlast unwind)
      \<and> (last fwd = VALIDATED \<and> unwind \<noteq> [] \<longrightarrow> hd unwind = ROLLING_BACK))"

lemma forward_prefix:
  "fwd = take (length fwd) forward_path \<Longrightarrow> fwd \<noteq> [] \<Longrightarrow>
     fwd \<in> {[PLANNED], [PLANNED, APPLYING], [PLANNED, APPLYING, APPLIED], forward_path}"
proof -
  assume eq: "fwd = take (length fwd) forward_path" and ne: "fwd \<noteq> []"
  have "length fwd \<le> 4" by (subst eq) (simp add: forward_path_def)
  moreover have "0 < length fwd" using ne by simp
  ultimately have "length fwd = 1 \<or> length fwd = 2 \<or> length fwd = 3 \<or> length fwd = 4" by linarith
  then show ?thesis using eq by (auto simp: forward_path_def)
qed

lemma history_has_shape: "history ts \<Longrightarrow> \<exists>fwd unwind. ts = fwd @ unwind \<and> history_shape fwd unwind"
proof (induction rule: history.induct)
  case created
  have "history_shape [PLANNED] []" by (simp add: history_shape_def forward_path_def)
  then show ?case by (metis append_Nil2)
next
  case (moved ts previous current)
  then obtain fwd unwind where eq: "ts @ [previous] = fwd @ unwind" and sh: "history_shape fwd unwind"
    by blast
  have fwd: "fwd \<in> {[PLANNED], [PLANNED, APPLYING], [PLANNED, APPLYING, APPLIED], forward_path}"
    using sh forward_prefix by (simp add: history_shape_def)
  have eq': "ts @ [previous, current] = (fwd @ unwind) @ [current]" by (simp flip: eq)
  show ?case
  proof (cases unwind rule: rev_cases)
    case Nil
    then have last: "previous = last fwd" using eq by (metis append_Nil2 last_snoc)
    have "history_shape (fwd @ [current]) [] \<or> history_shape fwd [current]"
      using fwd moved.hyps(2) unfolding last
      by (auto simp: history_shape_def forward_path_def)
    then show ?thesis using eq' Nil by (metis append_Nil2 append.assoc)
  next
    case (snoc b x)
    then have last: "previous = x" using eq by (metis append_assoc last_snoc)
    have "history_shape fwd (unwind @ [current])"
      using sh moved.hyps(2) unfolding last snoc
      by (cases b; cases x) (auto simp: history_shape_def butlast_append)
    then show ?thesis using eq' by (metis append.assoc)
  qed
qed

subsection \<open>What the decoder returns\<close>

lemma resource_of_dict_Inr:
  "resource_of_dict d = Inr r \<Longrightarrow> valid_resource r"
  by (auto simp: resource_of_dict_def mk_resource_Inr)

lemma decode_payload_Inr:
  assumes "decode_payload raw d = Inr r"
  shows "encode r = Inr raw" "valid_journal r"
proof -
  from assms obtain vs rs ts a b c v where
      rs: "mapR resource_of_dict (List.map_filter resource_shaped vs) = Inr rs"
    and mk: "mk_journal a b c rs ts v = Inr r" and enc: "encode r = Inr raw"
    unfolding decode_payload_def by (auto split: if_splits)
  show "encode r = Inr raw" by (fact enc)
  have "list_all valid_resource rs"
    using rs by (auto simp: mapR_eq_Inr list_all2_conv_all_nth list_all_length intro: resource_of_dict_Inr)
  then show "valid_journal r"
    using mk_journal_Inr [OF mk] by (auto simp: valid_journal_def)
qed

lemma decode_document_Inr:
  "decode_document raw v = Inr r \<Longrightarrow> encode r = Inr raw \<and> valid_journal r"
  by (cases v) (auto simp: decode_document_def split: if_splits dest: decode_payload_Inr)

lemma decode_canonical:
  "decode raw = Inr r \<Longrightarrow> encode r = Inr raw \<and> valid_journal r"
  unfolding decode_def by (auto dest: decode_document_Inr)

lemma decode_strict_error: "decode_strict bs = Inl e \<Longrightarrow> is_value_error e"
  by (induction bs rule: decode_strict.induct) (auto simp: bindR_eq_Inl split: prod.splits option.splits)

lemma state_of_json_error: "state_of_json v = Inl e \<Longrightarrow> is_value_error e"
  by (auto simp: state_of_json_def split: json.splits option.splits)

lemma encode_error: "encode r = Inl e \<Longrightarrow> is_value_error e"
  by (auto simp: encode_def Let_def thenR_eq_Inl)

definition caught :: "exn \<Rightarrow> bool" where
  "caught e = (e = KeyError \<or> is_type_error e \<or> is_value_error e)"

lemma decode_payload_error: "decode_payload raw d = Inl e \<Longrightarrow> caught e"
  unfolding decode_payload_def caught_def resource_of_dict_def
  by (auto simp: bindR_eq_Inl thenR_eq_Inl split: if_splits
      dest!: mapR_eq_InlD
      dest: dict_get_error list_of_json_error state_of_json_error encode_error mk_journal_error mk_resource_error)

lemma decode_document_error: "decode_document raw v = Inl e \<Longrightarrow> caught e"
  by (cases v) (auto simp: decode_document_def caught_def split: if_splits
      dest: decode_payload_error [unfolded caught_def])

lemma decode_error:
  assumes "decode raw = Inl e"
  shows "\<exists>m. e = JournalCorrupt m"
proof -
  have "caught e'" if "bindR (decode_strict raw) (\<lambda>txt. bindR (loads txt) (decode_document raw)) = Inl e'" for e'
    using that
    by (auto simp: bindR_eq_Inl caught_def dest: decode_strict_error loads_error
        decode_document_error [unfolded caught_def])
  then show ?thesis
    using assms unfolding decode_def caught_def
    by (auto simp: thenR_eq_Inl try_except_eq_Inl split: if_splits)
qed

subsection \<open>Reading back an encoded journal\<close>

definition python_text :: "journal_record \<Rightarrow> bool" where
  "python_text r = (is_pystr (install_id r) \<and> is_pystr (plan_id r)
     \<and> list_all (\<lambda>x. is_pystr (resource_id x) \<and> is_pystr (target x) \<and> is_pystr (prior_state x)
                  \<and> is_pystr (desired_state x)) (resources r))"

lemma dict_get_Nil [simp]: "dict_get [] k = Inl KeyError"
  by (simp add: dict_get_def)

lemma dict_get_lit [simp]: "dict_get ((lit k, v) # d) k' = (if k = k' then Inr v else dict_get d k')"
  by (auto simp: dict_get_def)

lemma scalar_text_checked:
  "check_text n st (JStr s) = Inr t \<Longrightarrow> is_pystr s \<Longrightarrow> scalar_text s"
  by (auto simp: check_text_Inr encode_utf8_def scalar_text_def scalar_char_def is_pystr_def
      list_all_iff list_ex_iff split: if_splits)

lemma scalar_text_ascii: "is_ascii s \<Longrightarrow> scalar_text s"
  by (auto simp: is_ascii_def scalar_text_def scalar_char_def is_surrogate_def in_range_def list_all_iff)

lemma resource_round:
  assumes "valid_resource r" "canon (resource_as_dict r) = v"
  obtains d where "v = JObj d" "keys_are d resource_keys" "resource_of_dict d = Inr r"
proof -
  obtain d where v: "v = JObj d" using assms(2) unfolding resource_as_dict_def canon.simps by metis
  let ?kvs = "[(lit ''id'', JStr (resource_id r)), (lit ''target'', JStr (target r)),
      (lit ''prior_state'', JStr (prior_state r)), (lit ''desired_state'', JStr (desired_state r))]"
  have eq: "canon (JObj ?kvs) = JObj d" using assms(2) v unfolding resource_as_dict_def by (simp only:)
  have dis: "distinct (map fst ?kvs)" by simp
  note get = canon_JObj_get [OF dis eq]
  have "keys_are d resource_keys" using get(2) by (simp add: keys_are_def resource_keys_def)
  moreover have "resource_of_dict d = Inr r"
    using assms(1) by (simp add: resource_of_dict_def get(1) valid_resource_def del: bindR_eq_Inr)
  ultimately show ?thesis using v that by blast
qed

lemma resources_round:
  assumes "list_all valid_resource rs"
  shows "mapR resource_of_dict (List.map_filter resource_shaped (map (canon \<circ> resource_as_dict) rs)) = Inr rs"
  using assms
proof (induction rs)
  case (Cons r rs)
  obtain d where "canon (resource_as_dict r) = JObj d" "keys_are d resource_keys" "resource_of_dict d = Inr r"
    using resource_round [of r] Cons.prems by auto
  then show ?case using Cons by (simp add: List.map_filter_simps resource_shaped_def)
qed (simp add: List.map_filter_simps)

lemma state_round: "state_of_json (JStr (lit (state_value st))) = Inr st"
  by (cases st) (simp_all add: state_of_json_def all_states_def)

lemma states_round: "mapR state_of_json (map (\<lambda>st. JStr (lit (state_value st))) ts) = Inr ts"
  by (induction ts) (simp_all add: state_round)

lemma json_ok_resource:
  assumes "valid_resource r" "is_pystr (resource_id r)" "is_pystr (target r)" "is_pystr (prior_state r)"
    "is_pystr (desired_state r)"
  shows "json_ok (resource_as_dict r)"
proof -
  have "scalar_text (resource_id r)" "scalar_text (target r)" "scalar_text (prior_state r)"
      "scalar_text (desired_state r)"
    using assms unfolding valid_resource_def mk_resource_def
    by (cases r; auto intro: scalar_text_checked)+
  then show ?thesis
    by (simp add: resource_as_dict_def scalar_text_ascii lit_def)
qed


lemma json_ok_journal:
  assumes "valid_journal r" "python_text r"
  shows "json_ok (journal_as_dict r)"
proof -
  have mk: "mk_journal (JStr (install_id r)) (JStr (plan_id r)) (JStr (plan_hash r)) (resources r)
        (transitions r) (JInt (schema_version r)) = Inr r"
    using assms(1) by (simp add: valid_journal_def)
  have "scalar_text (install_id r)" "scalar_text (plan_id r)"
    using mk assms(2) unfolding mk_journal_def python_text_def
    by (auto intro: scalar_text_checked)
  moreover have "scalar_text (plan_hash r)"
  proof -
    have "is_sha256_ref (plan_hash r)" using mk unfolding mk_journal_def by (auto simp: hash_text_Inr)
    then have "is_ascii (drop 7 (plan_hash r))" "starts_with (lit ''sha256:'') (plan_hash r)"
      by (auto simp: is_sha256_ref_def all_of_length_def is_ascii_def list_all_iff char_class_defs)
    then have "is_ascii (plan_hash r)"
      by (auto simp: starts_with_iff lit_def)
    then show ?thesis by (rule scalar_text_ascii)
  qed
  moreover have "list_all json_ok (map resource_as_dict (resources r))"
    using assms by (auto simp: list_all_iff valid_journal_def python_text_def intro!: json_ok_resource)
  moreover have "json_ok (JInt (schema_version r))"
    using mk_journal_facts(1) [OF mk] by (simp add: nat_digits.simps [of "Suc 0"] int_limit_def)
  moreover have "scalar_text (lit (state_value st))" for st
    by (cases st) (simp_all add: scalar_text_ascii lit_def)
  moreover have "scalar_text (lit k)" if "k \<in> set top_level_keys" for k
    using that by (auto simp: top_level_keys_def scalar_text_ascii lit_def)
  ultimately show ?thesis
    by (simp add: journal_as_dict_def list_all_iff top_level_keys_def)
qed

lemma decode_document_round:
  assumes "valid_journal r" "encode r = Inr raw"
  shows "decode_document raw (canon (journal_as_dict r)) = Inr r"
proof -
  let ?kvs = "[(lit ''schema_version'', JInt (schema_version r)),
      (lit ''install_id'', JStr (install_id r)),
      (lit ''plan_id'', JStr (plan_id r)),
      (lit ''plan_hash'', JStr (plan_hash r)),
      (lit ''resources'', JArr (map resource_as_dict (resources r))),
      (lit ''state'', JStr (lit (state_value (state_of r)))),
      (lit ''transitions'', JArr (map (\<lambda>st. JStr (lit (state_value st))) (transitions r)))]"
  obtain d where d: "canon (JObj ?kvs) = JObj d" unfolding canon.simps by metis
  have dis: "distinct (map fst ?kvs)" by simp
  note get = canon_JObj_get [OF dis d]
  have keys: "keys_are d top_level_keys" using get(2) by (simp add: keys_are_def top_level_keys_def)
  have rs: "mapR resource_of_dict (List.map_filter resource_shaped (map (canon \<circ> resource_as_dict) (resources r)))
      = Inr (resources r)"
    using assms(1) by (intro resources_round) (simp add: valid_journal_def)
  have "decode_payload raw d = Inr r"
    using assms rs
    by (simp add: decode_payload_def get(1) list_of_json_def comp_def states_round valid_journal_def
        del: bindR_eq_Inr)
  then show ?thesis
    unfolding journal_as_dict_def d by (simp add: decode_document_def keys)
qed

lemma decode_encode:
  assumes "valid_journal r" "python_text r" "encode r = Inr raw"
  shows "decode raw = Inr r"
proof -
  note ok = json_ok_journal [OF assms(1,2)]
  have raw: "raw = dumps (journal_as_dict r) @ [10]" "length raw \<le> max_journal_bytes"
    using assms(3) by (auto simp: encode_def Let_def)
  then have "decode_strict raw = Inr raw"
    using is_ascii_dumps [OF ok] by (intro decode_strict_ascii) simp
  moreover have "loads raw = Inr (canon (journal_as_dict r))"
    using loads_dumps_line [OF ok] raw(1) by simp
  ultimately show ?thesis
    using decode_document_round [OF assms(1,3)] raw by (simp add: decode_def)
qed

lemma list_of_json_Inr: "list_of_json v m = Inr vs \<longleftrightarrow> v = JArr vs"
  by (cases v) (auto simp: list_of_json_def)

lemma decode_python_text:
  assumes "decode raw = Inr r"
  shows "python_text r"
proof -
  obtain doc payload where doc: "decode_strict raw = Inr doc" "loads doc = Inr payload"
      "decode_document raw payload = Inr r"
    using assms by (auto simp: decode_def)
  obtain d where p: "payload = JObj d" and dp: "decode_payload raw d = Inr r"
    using doc(3) by (cases payload) (auto simp: decode_document_def split: if_splits)
  have "json_pystr payload" using loads_pystr [OF doc(2)] decode_strict_pystr [OF doc(1)] by blast
  then have d: "kvs_pystr d" unfolding p by simp
  have get: "json_pystr v" if "dict_get e k = Inr v" "kvs_pystr e" for e k v
    using that by (auto simp: dict_get_def kvs_pystr_def list_all_iff split: option.splits dest!: map_of_SomeD)
  obtain vs rs ts a b c v where
      vs: "dict_get d ''resources'' = Inr (JArr vs)"
    and rs: "mapR resource_of_dict (List.map_filter resource_shaped vs) = Inr rs"
    and ids: "dict_get d ''install_id'' = Inr a" "dict_get d ''plan_id'' = Inr b"
    and mk: "mk_journal a b c rs ts v = Inr r"
    using dp unfolding decode_payload_def by (auto simp: list_of_json_Inr split: if_splits)
  note flds = mk_journal_Inr [OF mk]
  have "is_pystr (resource_id x) \<and> is_pystr (target x) \<and> is_pystr (prior_state x) \<and> is_pystr (desired_state x)"
    if "x \<in> set rs" for x
  proof -
    obtain e where e: "e \<in> set (List.map_filter resource_shaped vs)" "resource_of_dict e = Inr x"
      using mapR_mem [OF rs \<open>x \<in> set rs\<close>] by blast
    then have "JObj e \<in> set vs"
      by (auto simp: List.map_filter_def resource_shaped_def split: json.splits if_splits)
    then have kv: "kvs_pystr e" using get [OF vs d] by (auto simp: list_all_iff)
    have "dict_get e ''id'' = Inr (JStr (resource_id x))" "dict_get e ''target'' = Inr (JStr (target x))"
        "dict_get e ''prior_state'' = Inr (JStr (prior_state x))"
        "dict_get e ''desired_state'' = Inr (JStr (desired_state x))"
      using e(2) unfolding resource_of_dict_def by (auto simp: mk_resource_Inr)
    then show ?thesis by (auto dest!: get [OF _ kv])
  qed
  moreover have "is_pystr (install_id r)" "is_pystr (plan_id r)"
    using get [OF ids(1) d] get [OF ids(2) d] flds by simp_all
  ultimately show ?thesis using flds by (auto simp: python_text_def list_all_iff)
qed

text \<open>The journal keeps the codec contract.\<close>

definition storable :: "journal_record \<Rightarrow> bool" where
  "storable r = (valid_journal r \<and> python_text r)"

interpretation journal_codec: codec encode decode storable
proof
  show "decode raw = Inr r \<Longrightarrow> encode r = Inr raw" for raw r
    using decode_canonical by blast
  show "decode raw = Inr r \<Longrightarrow> storable r" for raw r
    using decode_canonical decode_python_text by (simp add: storable_def)
  show "storable r \<Longrightarrow> encode r = Inr raw \<Longrightarrow> decode raw = Inr r" for r raw
    using decode_encode by (simp add: storable_def)
qed

subsection \<open>What percent decoding cannot hide\<close>

lemma not_hidden:
  assumes "\<And>c. p c \<Longrightarrow> barrier c" "\<not> list_ex p (unquote s)"
  shows "\<not> list_ex p s"
  using assms barrier_survives by (metis list_ex_iff)

lemma control_barrier: "is_c0_c1 c \<Longrightarrow> barrier c"
  by (auto simp: is_c0_c1_def barrier_def char_class_defs)

lemma cf_barrier: "is_cf c \<Longrightarrow> barrier c"
  by (auto simp: is_cf_def barrier_def char_class_defs)

definition three_readings :: "pystr \<Rightarrow> pystr list" where
  "three_readings s = [s, unquote s, unquote (unquote s)]"

lemma slash_barrier: "barrier 47"
  by (simp add: barrier_def char_class_defs)

lemma double_slash: "is_substring (lit ''//'') s \<longleftrightarrow> is_substring [47, 47] s"
  by (simp add: lit_def)

lemma not_ambiguous_back:
  assumes "\<not> is_substring [47, 47] (unquote s)" "\<not> list_ex (\<lambda>c. c = [46] \<or> c = [46, 46]) (split_on 47 (unquote s))"
  shows "\<not> is_substring [47, 47] s" "\<not> list_ex (\<lambda>c. c = [46] \<or> c = [46, 46]) (split_on 47 s)"
  using assms pair_survives [OF slash_barrier, of s] component_survives [OF slash_barrier, of "[46]" s]
    component_survives [OF slash_barrier, of "[46, 46]" s]
  by (auto simp: list_ex_iff)

subsection \<open>The secret guard and the undecoded text\<close>

lemma lit_cookie: "lit ''%4cookie=v'' = [37, 52, 99, 111, 111, 107, 105, 101, 61, 118]"
  by (simp add: lit_def)

lemma unquote_cookie:
  "unquote_loop 2 (lit ''%4cookie=v'') = [76, 111, 111, 107, 105, 101, 61, 118]"
  by (simp add: unquote_loop_2 lit_cookie char_class_defs hex_val_def utf8_next_def)

lemma no_cookie:
  "\<not> has_secret [76, 111, 111, 107, 105, 101, 61, 118]"
  unfolding has_secret_def secret_words_def
  by (simp add: assignment_at_def lit_def ci_match_def is_lower_az_def in_range_def)

lemma some_cookie: "has_secret (lit ''%4cookie=v'')"
  unfolding has_secret_def secret_words_def lit_cookie
  by (simp add: assignment_at_def lit_def ci_match_def is_lower_az_def in_range_def assignment_sign_def is_space_def)


subsection \<open>Plain text and a sample journal\<close>

text \<open>Text of these characters passes every check, so concrete records are easy to build.\<close>

definition plain_char :: "nat \<Rightarrow> bool" where
  "plain_char c = (is_lower_az c \<or> is_digit09 c \<or> c = 45 \<or> c = 46 \<or> c = 47 \<or> c = 95)"

definition plain_text :: "pystr \<Rightarrow> bool" where
  "plain_text s = (s \<noteq> [] \<and> length s \<le> 128 \<and> list_all plain_char s)"

lemma assignment_needs_sign: "assignment_at ws s \<Longrightarrow> 58 \<in> set s \<or> 61 \<in> set s"
proof -
  have sign: "assignment_sign s \<Longrightarrow> 58 \<in> set s \<or> 61 \<in> set s" for s
    by (induction s) (auto simp: assignment_sign_def split: if_splits)
  have pre: "ci_prefix w s = Some r \<Longrightarrow> set r \<subseteq> set s" for w s r
    by (induction w s rule: ci_prefix.induct) (auto split: if_splits)
  assume "assignment_at ws s"
  then show ?thesis
    using sign pre by (fastforce simp: assignment_at_def list_ex_iff split: option.splits)
qed

lemma has_secret_needs_sign: "has_secret s \<Longrightarrow> 58 \<in> set s \<or> 61 \<in> set s"
  unfolding has_secret_def search_iff using assignment_needs_sign by fastforce

lemma marker_needs_space: "has_begin_marker s \<Longrightarrow> 32 \<in> set s"
proof -
  have "upper_prefix w s \<Longrightarrow> 32 \<in> set w \<Longrightarrow> 32 \<in> set s" for w s
    by (induction w s rule: upper_prefix.induct) (auto simp: upper_match_def is_upper_az_def in_range_def)
  moreover have "32 \<in> set (lit ''-----BEGIN '')" by (simp add: lit_def)
  ultimately show "has_begin_marker s \<Longrightarrow> 32 \<in> set s"
    unfolding has_begin_marker_def search_iff by fastforce
qed

lemma plain_text_checked:
  assumes "plain_text s" "st \<longrightarrow> is_stable_id s"
  shows "check_text n st (JStr s) = Inr s"
proof -
  have chars: "list_all plain_char s" and ne: "s \<noteq> []" "length s \<le> 128"
    using assms(1) by (auto simp: plain_text_def)
  have no: "c \<notin> set s" if "\<not> plain_char c" for c using chars that by (auto simp: list_all_iff)
  have "is_ascii s" using chars by (auto simp: is_ascii_def list_all_iff plain_char_def char_class_defs)
  then have enc: "encode_utf8 s = Inr s" by (rule encode_utf8_ascii)
  have "unquote_loop 2 s = s" by (rule unquote_loop_plain) (rule no, simp add: plain_char_def char_class_defs)
  moreover have "\<not> list_ex is_c0_c1 s" "\<not> list_ex is_cf s"
    using chars by (auto simp: list_all_iff list_ex_iff plain_char_def is_c0_c1_def is_cf_def char_class_defs)
  moreover have "\<not> has_secret s"
    using has_secret_needs_sign no [of 58] no [of 61] by (auto simp: plain_char_def char_class_defs)
  moreover have "\<not> has_begin_marker s"
    using marker_needs_space no [of 32] by (auto simp: plain_char_def char_class_defs)
  ultimately show ?thesis
    using enc ne assms(2) by (simp add: check_text_Inr text_refused_def Let_def max_text_bytes_def)
qed

definition sample_resource :: resource_record where
  "sample_resource = ResourceRecord (lit ''net'') (lit ''/etc/net'') (lit ''absent'') (lit ''present'')"

definition sample_journal :: journal_record where
  "sample_journal = \<lparr>install_id = lit ''i1'', plan_id = lit ''p1'',
     plan_hash = lit ''sha256:'' @ replicate 64 48, resources = [sample_resource],
     transitions = [PLANNED, APPLYING, FAILED, ROLLING_BACK, ROLLED_BACK], schema_version = 1\<rparr>"

lemma sample_texts:
  "plain_text (lit ''net'') \<and> is_stable_id (lit ''net'')" "plain_text (lit ''/etc/net'')"
  "plain_text (lit ''absent'')" "plain_text (lit ''present'')"
  "plain_text (lit ''i1'') \<and> is_stable_id (lit ''i1'')" "plain_text (lit ''p1'') \<and> is_stable_id (lit ''p1'')"
  by (simp_all add: lit_def plain_text_def plain_char_def is_stable_id_def full_class_def id_char_def char_class_defs)

lemma sample_resource_valid: "valid_resource sample_resource"
proof -
  have "unquote (unquote (lit ''/etc/net'')) = lit ''/etc/net''"
    by (subst unquote_plain, simp add: lit_def, rule unquote_plain, simp add: lit_def)
  then have "\<not> ambiguous_target (lit ''/etc/net'')"
    by (simp add: ambiguous_target_def Let_def lit_def is_substring_def ends_with_def)
  then show ?thesis
    using sample_texts by (simp add: valid_resource_def mk_resource_def sample_resource_def plain_text_checked del: bindR_eq_Inr)
qed

lemma sample_journal_valid: "valid_journal sample_journal"
proof -
  have "is_sha256_ref (lit ''sha256:'' @ replicate 64 48)"
    by (simp add: is_sha256_ref_def all_of_length_def list_all_iff char_class_defs)
  then show ?thesis
    using sample_texts sample_resource_valid
    by (simp add: valid_journal_def mk_journal_def sample_journal_def plain_text_checked hash_text_def
        max_resources_def max_transitions_def del: bindR_eq_Inr)
qed

lemma sample_journal_text: "python_text sample_journal"
  by (simp add: python_text_def is_pystr_def sample_journal_def sample_resource_def lit_def)

lemma sample_journal_encodes: "encode sample_journal = Inr (dumps (journal_as_dict sample_journal) @ [10])"
proof -
  have "weight (journal_as_dict sample_journal) \<le> 100000"
    by (simp add: journal_as_dict_def sample_journal_def sample_resource_def resource_as_dict_def
        state_of_def lit_def int_str_def nat_digits.simps [of "Suc 0"])
  then have "\<not> max_journal_bytes < length (dumps (journal_as_dict sample_journal) @ [10])"
    using length_dumps [of "journal_as_dict sample_journal"] by (simp add: max_journal_bytes_def)
  then show ?thesis by (simp add: encode_def Let_def)
qed

subsection \<open>Properties\<close>

text \<open>
  C7: \<open>_decode\<close> and \<open>_encode\<close> are inverse to each other.  The bytes of a journal file
  decode to a record exactly when that record passes every constructor check and the bytes
  are its canonical encoding; in particular what is written for a valid record reads back as
  that record, and no other bytes read back as it.
\<close>

theorem journal_decode_iff:
  "decode raw = Inr r \<longleftrightarrow> storable r \<and> encode r = Inr raw"
  by (rule journal_codec.dec_iff)

text \<open>
  \<open>_decode\<close> never leaves its two outcomes.  Whatever bytes a journal file holds, the
  decoder returns a record or raises \<open>JournalCorrupt\<close>; no other exception escapes.
\<close>

theorem journal_decode_total:
  "case decode raw of Inr r \<Rightarrow> valid_journal r | Inl e \<Rightarrow> \<exists>m. e = JournalCorrupt m"
  by (auto split: sum.split dest: decode_canonical decode_error)

text \<open>
  C8: the transition history of every valid journal is a run of the phase state machine: it
  starts as planned, goes forward through applying, applied and validated without skipping
  or repeating one, and once it has failed or started to roll back it never moves forward
  again; rolled back is final.
\<close>

theorem journal_history_runs:
  assumes "valid_journal r"
  shows "history (transitions r)
    \<and> (\<exists>fwd unwind. transitions r = fwd @ unwind \<and> history_shape fwd unwind)"
proof -
  have "mk_journal (JStr (install_id r)) (JStr (plan_id r)) (JStr (plan_hash r)) (resources r)
        (transitions r) (JInt (schema_version r)) = Inr r"
    using assms by (simp add: valid_journal_def)
  then have "history (transitions r)"
    using mk_journal_facts(6,7,9) by (simp add: history_iff)
  then show ?thesis using history_has_shape by blast
qed

theorem journal_history_runs_witness: "history (transitions sample_journal)"
  using journal_history_runs [OF sample_journal_valid] by blast

text \<open>
  text that \<open>_text\<close> accepts is a non-empty \<open>str\<close> without lone surrogates, and neither
  it nor either of its percent decodings contains a control or format character, although
  the code only inspects the last decoding.
\<close>

theorem checked_text_is_printable:
  assumes "check_text n st v = Inr s"
  shows "v = JStr s \<and> s \<noteq> [] \<and> \<not> list_ex is_surrogate s
    \<and> (\<forall>d \<in> set (three_readings s). \<not> list_ex is_c0_c1 d \<and> \<not> list_ex is_cf d)"
proof -
  have ctl: "\<not> list_ex is_c0_c1 (unquote (unquote s))" and cf: "\<not> list_ex is_cf (unquote (unquote s))"
    and rest: "v = JStr s" "s \<noteq> []" "\<not> list_ex is_surrogate s"
    using assms
    by (auto simp: check_text_Inr text_refused_def unquote_loop_2 Let_def encode_utf8_def split: if_splits)
  have ctl1: "\<not> list_ex is_c0_c1 (unquote s)" by (rule not_hidden [OF control_barrier ctl])
  have ctl0: "\<not> list_ex is_c0_c1 s" by (rule not_hidden [OF control_barrier ctl1])
  have cf1: "\<not> list_ex is_cf (unquote s)" by (rule not_hidden [OF cf_barrier cf])
  have cf0: "\<not> list_ex is_cf s" by (rule not_hidden [OF cf_barrier cf1])
  show ?thesis using rest ctl ctl1 ctl0 cf cf1 cf0 by (simp add: three_readings_def)
qed

theorem checked_text_is_printable_witness:
  "lit ''/etc/net'' \<noteq> [] \<and> \<not> list_ex is_c0_c1 (unquote (lit ''/etc/net''))"
  using checked_text_is_printable [of "''target''" False "JStr (lit ''/etc/net'')"]
    plain_text_checked [OF sample_texts(2)]
  by (simp add: three_readings_def)

text \<open>
  C9: the target of an accepted resource has no empty, dot or dot-dot component between its
  slashes, before decoding, after one decoding and after two.
\<close>

theorem accepted_target_is_unambiguous:
  assumes "mk_resource a b c d = Inr r" "t \<in> set (three_readings (target r))"
  shows "\<not> is_substring (lit ''//'') t \<and> lit ''.'' \<notin> set (split_on 47 t) \<and> lit ''..'' \<notin> set (split_on 47 t)"
proof -
  have "\<not> ambiguous_target (target r)"
    using assms(1) by (auto simp: mk_resource_def)
  then have amb: "\<not> is_substring [47, 47] (unquote (unquote (target r)))"
      "\<not> list_ex (\<lambda>c. c = [46] \<or> c = [46, 46]) (split_on 47 (unquote (unquote (target r))))"
    by (auto simp: ambiguous_target_def Let_def lit_def)
  note amb1 = not_ambiguous_back [OF amb]
  note amb0 = not_ambiguous_back [OF amb1]
  show ?thesis using assms(2) amb amb1 amb0
    by (auto simp: three_readings_def lit_def list_ex_iff)
qed

theorem accepted_target_is_unambiguous_witness:
  "lit ''..'' \<notin> set (split_on 47 (unquote (lit ''/etc/net'')))"
  using accepted_target_is_unambiguous [OF sample_resource_valid [unfolded valid_resource_def],
      of "unquote (lit ''/etc/net'')"]
  by (simp add: three_readings_def sample_resource_def)

text \<open>
  the secret guard reads only the decoded text, so an assignment that is visible in the
  stored text passes when a percent escape overlaps its first letter.
\<close>

theorem secret_check_gap:
  "check_text ''prior_state'' False (JStr (lit ''%4cookie=v'')) = Inr (lit ''%4cookie=v'')
    \<and> has_secret (lit ''%4cookie=v'')"
proof -
  have "encode_utf8 (lit ''%4cookie=v'') = Inr (lit ''%4cookie=v'')"
    by (rule encode_utf8_ascii) (simp add: lit_cookie)
  moreover have "\<not> list_ex is_c0_c1 [76, 111, 111, 107, 105, 101, 61, 118 :: nat]"
      "\<not> list_ex is_cf [76, 111, 111, 107, 105, 101, 61, 118 :: nat]"
      "\<not> has_begin_marker [76, 111, 111, 107, 105, 101, 61, 118]"
    by (simp_all add: is_c0_c1_def is_cf_def in_range_def has_begin_marker_def lit_def upper_match_def is_upper_az_def)
  ultimately show ?thesis
    using no_cookie some_cookie
    by (simp add: check_text_Inr text_refused_def unquote_cookie max_text_bytes_def Let_def)
qed

end
