(* ===== verification/Posix.thy ===== *)
theory Posix
  imports Py_Text "HOL-Library.AList"
begin

text \<open>
  The operating system as the modelled code sees it: a table of inodes, descriptor-relative
  system calls, and the world in which a process runs.  A descriptor is the inode it was
  opened on, so it keeps naming the same file when the name is unlinked or replaced.

  The world is not friendly.  Before every system call the process may be killed
  (\<open>w_kill\<close>, the crash that no handler sees), other processes may change the file
  system (\<open>w_env\<close>) and the call itself may fail with an \<open>OSError\<close> (\<open>w_fail\<close>); reads and
  writes may be short (\<open>w_chunk\<close>).  A program is a function from worlds to an outcome and
  a world.  Closing a descriptor has no effect here, and \<open>fsync\<close> changes nothing that a
  later process can see unless the power fails, which is not modelled.
\<close>

subsection \<open>Inodes\<close>

datatype fkind = KReg | KDir | KLnk | KChr | KOther

record inode =
  ikind :: fkind
  imode :: nat
  iuid :: int
  igid :: int
  inlink :: nat
  idata :: bytes
  ients :: "(pystr \<times> nat) list"
  ixattrs :: "pystr list"
  idev :: nat
  imnt :: nat
  imtime :: nat
  ictime :: nat

text \<open>Advisory \<open>flock\<close> locks are kept per inode; the kernel drops them with the process.\<close>

datatype lock_state = Unlocked | SharedBy nat | Exclusive

record fs =
  fs_inodes :: "nat \<Rightarrow> inode option"
  fs_next :: nat
  fs_clock :: nat
  fs_locks :: "nat \<Rightarrow> lock_state"

text \<open>The inode of the directory \<open>/\<close>.\<close>

definition root_inode :: nat where
  "root_inode = 0"

text \<open>\<open>os.stat_result\<close>; \<open>st_mode\<close> is split into the file type and the permission bits.\<close>

record stat_result =
  st_kind :: fkind
  st_perm :: nat
  st_uid :: int
  st_gid :: int
  st_nlink :: nat
  st_size :: nat
  st_dev :: nat
  st_ino :: nat
  st_mtime_ns :: nat
  st_ctime_ns :: nat

definition stat_of :: "nat \<Rightarrow> inode \<Rightarrow> stat_result" where
  "stat_of n i = \<lparr>st_kind = ikind i, st_perm = imode i, st_uid = iuid i, st_gid = igid i,
     st_nlink = inlink i, st_size = length (idata i), st_dev = idev i, st_ino = n,
     st_mtime_ns = imtime i, st_ctime_ns = ictime i\<rparr>"

definition entries_of :: "fs \<Rightarrow> nat \<Rightarrow> (pystr \<times> nat) list" where
  "entries_of s d = (case fs_inodes s d of None \<Rightarrow> [] | Some i \<Rightarrow> ients i)"

definition lookup :: "fs \<Rightarrow> nat \<Rightarrow> pystr \<Rightarrow> nat option" where
  "lookup s d name = map_of (entries_of s d) name"

definition upd_inode :: "nat \<Rightarrow> (inode \<Rightarrow> inode) \<Rightarrow> fs \<Rightarrow> fs" where
  "upd_inode n f s = s\<lparr>fs_inodes := (\<lambda>k. if k = n then map_option f (fs_inodes s n) else fs_inodes s k)\<rparr>"

definition tick :: "fs \<Rightarrow> fs" where
  "tick s = s\<lparr>fs_clock := Suc (fs_clock s)\<rparr>"

definition touch :: "fs \<Rightarrow> inode \<Rightarrow> inode" where
  "touch s i = i\<lparr>ictime := fs_clock s\<rparr>"

definition set_entries :: "nat \<Rightarrow> ((pystr \<times> nat) list \<Rightarrow> (pystr \<times> nat) list) \<Rightarrow> fs \<Rightarrow> fs" where
  "set_entries d f s =
     upd_inode d (\<lambda>i. i\<lparr>ients := f (ients i), imtime := fs_clock s, ictime := fs_clock s\<rparr>) s"

subsection \<open>The world and its programs\<close>

record world =
  w_fs :: fs
  w_euid :: int
  w_egid :: int
  w_tokens :: "nat \<Rightarrow> pystr"
  w_drawn :: nat
  w_calls :: nat
  w_kill :: "nat option"
  w_env :: "nat \<Rightarrow> fs \<Rightarrow> fs"
  w_fail :: "nat \<Rightarrow> errno option"
  w_chunk :: "nat \<Rightarrow> nat"

datatype 'a outcome = Ret 'a | Raise exn | Killed

type_synonym 'a io = "world \<Rightarrow> 'a outcome \<times> world"

definition return :: "'a \<Rightarrow> 'a io" where
  "return x w = (Ret x, w)"

definition raise :: "exn \<Rightarrow> 'a io" where
  "raise e w = (Raise e, w)"

definition bindW :: "'a io \<Rightarrow> ('a \<Rightarrow> 'b io) \<Rightarrow> 'b io" where
  "bindW m f w =
     (case m w of (Ret x, w') \<Rightarrow> f x w' | (Raise e, w') \<Rightarrow> (Raise e, w') | (Killed, w') \<Rightarrow> (Killed, w'))"

text \<open>\<open>if c: raise e\<close>; a pure computation that may raise; \<open>try: m except: h\<close>.\<close>

definition raise_when :: "bool \<Rightarrow> exn \<Rightarrow> unit io" where
  "raise_when c e = (if c then raise e else return ())"

definition lift :: "'a res \<Rightarrow> 'a io" where
  "lift r = (case r of Inl e \<Rightarrow> raise e | Inr x \<Rightarrow> return x)"

definition catchW :: "'a io \<Rightarrow> (exn \<Rightarrow> 'a io) \<Rightarrow> 'a io" where
  "catchW m h w =
     (case m w of (Ret x, w') \<Rightarrow> (Ret x, w') | (Raise e, w') \<Rightarrow> h e w' | (Killed, w') \<Rightarrow> (Killed, w'))"

text \<open>\<open>finally\<close>: the closing action runs on a return and on an exception, not on a kill.\<close>

definition finallyW :: "'a io \<Rightarrow> unit io \<Rightarrow> 'a io" where
  "finallyW m c w =
     (case m w of
        (Ret x, w') \<Rightarrow> bindW c (\<lambda>_. return x) w'
      | (Raise e, w') \<Rightarrow> bindW c (\<lambda>_. raise e) w'
      | (Killed, w') \<Rightarrow> (Killed, w'))"

definition seqW :: "unit io \<Rightarrow> 'b io \<Rightarrow> 'b io" where
  "seqW m k = bindW m (\<lambda>_. k)"

definition syscall :: "(world \<Rightarrow> fs \<Rightarrow> 'a res \<times> fs) \<Rightarrow> 'a io" where
  "syscall f w =
     (if w_kill w = Some (w_calls w) then (Killed, w)
      else
        (let n = w_calls w; s = w_env w n (w_fs w); w1 = w\<lparr>w_calls := Suc n\<rparr>
         in case w_fail w n of
              Some e \<Rightarrow> (Raise (OSError e), w1\<lparr>w_fs := s\<rparr>)
            | None \<Rightarrow> (case f w s of
                  (Inl e, s') \<Rightarrow> (Raise e, w1\<lparr>w_fs := s'\<rparr>)
                | (Inr x, s') \<Rightarrow> (Ret x, w1\<lparr>w_fs := s'\<rparr>))))"

subsection \<open>System calls\<close>

definition do_fstat :: "nat \<Rightarrow> fs \<Rightarrow> stat_result res" where
  "do_fstat n s = (case fs_inodes s n of None \<Rightarrow> Inl (OSError EIO) | Some i \<Rightarrow> Inr (stat_of n i))"

definition do_stat_at :: "nat \<Rightarrow> pystr \<Rightarrow> fs \<Rightarrow> stat_result res" where
  "do_stat_at d name s = (case lookup s d name of None \<Rightarrow> Inl (OSError ENOENT) | Some n \<Rightarrow> do_fstat n s)"

definition do_open_at :: "nat \<Rightarrow> pystr \<Rightarrow> fs \<Rightarrow> nat res" where
  "do_open_at d name s =
     (case lookup s d name of
        None \<Rightarrow> Inl (OSError ENOENT)
      | Some n \<Rightarrow> (case fs_inodes s n of
            None \<Rightarrow> Inl (OSError EIO)
          | Some i \<Rightarrow> (if ikind i = KLnk then Inl (OSError ELOOP) else Inr n)))"

definition do_open_dir_at :: "nat \<Rightarrow> pystr \<Rightarrow> fs \<Rightarrow> nat res" where
  "do_open_dir_at d name s =
     bindR (do_open_at d name s) (\<lambda>n.
       if map_option ikind (fs_inodes s n) = Some KDir then Inr n else Inl (OSError ENOTDIR))"

definition do_create :: "int \<Rightarrow> int \<Rightarrow> nat \<Rightarrow> pystr \<Rightarrow> nat \<Rightarrow> fs \<Rightarrow> nat res \<times> fs" where
  "do_create uid gid d name mode s =
     (case lookup s d name of
        Some _ \<Rightarrow> (Inl (OSError EEXIST), s)
      | None \<Rightarrow>
          (let n = fs_next s; dev = (case fs_inodes s d of None \<Rightarrow> 0 | Some i \<Rightarrow> idev i);
               mnt = (case fs_inodes s d of None \<Rightarrow> 0 | Some i \<Rightarrow> imnt i);
               fresh = \<lparr>ikind = KReg, imode = mode, iuid = uid, igid = gid, inlink = 1, idata = [],
                        ients = [], ixattrs = [], idev = dev, imnt = mnt,
                        imtime = fs_clock s, ictime = fs_clock s\<rparr>;
               s1 = s\<lparr>fs_inodes := (fs_inodes s)(n \<mapsto> fresh), fs_next := Suc n\<rparr>
           in (Inr n, tick (set_entries d (\<lambda>es. (name, n) # es) s1))))"

definition do_write :: "nat \<Rightarrow> bytes \<Rightarrow> fs \<Rightarrow> fs" where
  "do_write n bs s =
     tick (upd_inode n (\<lambda>i. i\<lparr>idata := idata i @ bs, imtime := fs_clock s, ictime := fs_clock s\<rparr>) s)"

definition do_link :: "nat \<Rightarrow> pystr \<Rightarrow> pystr \<Rightarrow> fs \<Rightarrow> unit res \<times> fs" where
  "do_link d src dst s =
     (case lookup s d src of
        None \<Rightarrow> (Inl (OSError ENOENT), s)
      | Some n \<Rightarrow>
          (if lookup s d dst \<noteq> None then (Inl (OSError EEXIST), s)
           else (Inr (), tick (set_entries d (\<lambda>es. (dst, n) # es)
                   (upd_inode n (\<lambda>i. touch s (i\<lparr>inlink := Suc (inlink i)\<rparr>)) s)))))"

definition do_unlink :: "nat \<Rightarrow> pystr \<Rightarrow> fs \<Rightarrow> unit res \<times> fs" where
  "do_unlink d name s =
     (case lookup s d name of
        None \<Rightarrow> (Inl (OSError ENOENT), s)
      | Some n \<Rightarrow>
          (if map_option ikind (fs_inodes s n) = Some KDir then (Inl (OSError EISDIR), s)
           else (Inr (), tick (set_entries d (AList.delete name)
                   (upd_inode n (\<lambda>i. touch s (i\<lparr>inlink := inlink i - 1\<rparr>)) s)))))"

text \<open>\<open>rename(2)\<close> within one directory; two names of one file are left alone.\<close>

definition do_replace :: "nat \<Rightarrow> pystr \<Rightarrow> pystr \<Rightarrow> fs \<Rightarrow> unit res \<times> fs" where
  "do_replace d src dst s =
     (case lookup s d src of
        None \<Rightarrow> (Inl (OSError ENOENT), s)
      | Some n \<Rightarrow>
          (case lookup s d dst of
             None \<Rightarrow> (Inr (), tick (set_entries d (\<lambda>es. (dst, n) # AList.delete src es) s))
           | Some m \<Rightarrow>
               (if m = n then (Inr (), s)
                else if map_option ikind (fs_inodes s m) = Some KDir then (Inl (OSError EISDIR), s)
                else (Inr (), tick (set_entries d
                        (\<lambda>es. (dst, n) # AList.delete dst (AList.delete src es))
                        (upd_inode m (\<lambda>i. touch s (i\<lparr>inlink := inlink i - 1\<rparr>)) s))))))"

definition os_fstat :: "nat \<Rightarrow> stat_result io" where
  "os_fstat n = syscall (\<lambda>w s. (do_fstat n s, s))"

definition os_stat_at :: "nat \<Rightarrow> pystr \<Rightarrow> stat_result io" where
  "os_stat_at d name = syscall (\<lambda>w s. (do_stat_at d name s, s))"

definition os_open_at :: "nat \<Rightarrow> pystr \<Rightarrow> nat io" where
  "os_open_at d name = syscall (\<lambda>w s. (do_open_at d name s, s))"

definition os_open_dir_at :: "nat \<Rightarrow> pystr \<Rightarrow> nat io" where
  "os_open_dir_at d name = syscall (\<lambda>w s. (do_open_dir_at d name s, s))"

definition os_create :: "nat \<Rightarrow> pystr \<Rightarrow> nat \<Rightarrow> nat io" where
  "os_create d name mode = syscall (\<lambda>w s. do_create (w_euid w) (w_egid w) d name mode s)"

definition os_link :: "nat \<Rightarrow> pystr \<Rightarrow> pystr \<Rightarrow> unit io" where
  "os_link d src dst = syscall (\<lambda>w s. do_link d src dst s)"

definition os_unlink :: "nat \<Rightarrow> pystr \<Rightarrow> unit io" where
  "os_unlink d name = syscall (\<lambda>w s. do_unlink d name s)"

definition os_replace :: "nat \<Rightarrow> pystr \<Rightarrow> pystr \<Rightarrow> unit io" where
  "os_replace d src dst = syscall (\<lambda>w s. do_replace d src dst s)"

definition os_fsync :: "nat \<Rightarrow> unit io" where
  "os_fsync n = syscall (\<lambda>w s. (Inr (), s))"

definition os_scandir :: "nat \<Rightarrow> pystr list io" where
  "os_scandir d = syscall (\<lambda>w s. (Inr (map fst (entries_of s d)), s))"

text \<open>\<open>os.read\<close> returns at least one byte before the end of the file, \<open>os.write\<close> any number.\<close>

definition os_read :: "nat \<Rightarrow> nat \<Rightarrow> nat \<Rightarrow> bytes io" where
  "os_read n pos count = syscall (\<lambda>w s.
     (case fs_inodes s n of
        None \<Rightarrow> Inl (OSError EIO)
      | Some i \<Rightarrow> Inr (take (min count (max 1 (w_chunk w (w_calls w)))) (drop pos (idata i))), s))"

definition os_write :: "nat \<Rightarrow> bytes \<Rightarrow> nat io" where
  "os_write n bs = syscall (\<lambda>w s.
     (let k = min (length bs) (w_chunk w (w_calls w)) in (Inr k, do_write n (take k bs) s)))"

definition os_open_slash :: "nat io" where
  "os_open_slash = syscall (\<lambda>w s. (Inr root_inode, s))"

text \<open>\<open>flock(fd, op | LOCK_NB)\<close>, and closing a descriptor that holds the lock.\<close>

definition do_flock :: "nat \<Rightarrow> bool \<Rightarrow> fs \<Rightarrow> unit res \<times> fs" where
  "do_flock n exclusive s =
     (case fs_locks s n of
        Unlocked \<Rightarrow> (Inr (), s\<lparr>fs_locks := (fs_locks s)(n := if exclusive then Exclusive else SharedBy 1)\<rparr>)
      | SharedBy k \<Rightarrow>
          (if exclusive then (Inl BlockingIOError, s)
           else (Inr (), s\<lparr>fs_locks := (fs_locks s)(n := SharedBy (Suc k))\<rparr>))
      | Exclusive \<Rightarrow> (Inl BlockingIOError, s))"

definition do_unlock :: "nat \<Rightarrow> fs \<Rightarrow> fs" where
  "do_unlock n s =
     (case fs_locks s n of
        SharedBy (Suc (Suc k)) \<Rightarrow> s\<lparr>fs_locks := (fs_locks s)(n := SharedBy (Suc k))\<rparr>
      | _ \<Rightarrow> s\<lparr>fs_locks := (fs_locks s)(n := Unlocked)\<rparr>)"

definition os_flock :: "nat \<Rightarrow> bool \<Rightarrow> unit io" where
  "os_flock n exclusive = syscall (\<lambda>w s. do_flock n exclusive s)"

definition os_close_locked :: "nat \<Rightarrow> unit io" where
  "os_close_locked n = syscall (\<lambda>w s. (Inr (), do_unlock n s))"

text \<open>\<open>secrets.token_hex(16)\<close> takes the next value of the world's random source.\<close>

definition token_hex :: "pystr io" where
  "token_hex w = (Ret (w_tokens w (w_drawn w)), w\<lparr>w_drawn := Suc (w_drawn w)\<rparr>)"

text \<open>\<open>fchmod\<close>; opening a directory again by its path; the effective ids.\<close>

definition os_fchmod :: "nat \<Rightarrow> nat \<Rightarrow> unit io" where
  "os_fchmod n mode = syscall (\<lambda>w s. (Inr (), tick (upd_inode n (\<lambda>i. i\<lparr>imode := mode, ictime := fs_clock s\<rparr>) s)))"

definition os_reopen_dir :: "nat \<Rightarrow> nat io" where
  "os_reopen_dir d = syscall (\<lambda>w s.
     (if map_option ikind (fs_inodes s d) = Some KDir then Inr d else Inl (OSError ENOTDIR), s))"

definition os_effective_ids :: "(int \<times> int) io" where
  "os_effective_ids w = (Ret (w_euid w, w_egid w), w)"

text \<open>\<open>tempfile.mkstemp\<close>: exclusive creation under a drawn name, again with the next name when it
  is taken, at most \<open>TMP_MAX\<close> times.\<close>

fun mkstemp_from :: "nat \<Rightarrow> nat \<Rightarrow> pystr \<Rightarrow> (nat \<times> pystr) io" where
  "mkstemp_from 0 d prefix = raise (OSError EEXIST)"
| "mkstemp_from (Suc tries) d prefix =
     bindW token_hex (\<lambda>suffix.
       catchW (bindW (os_create d (prefix @ suffix) 384) (\<lambda>fd. return (fd, prefix @ suffix)))
         (\<lambda>e. if e = OSError EEXIST then mkstemp_from tries d prefix else raise e))"

definition os_mkstemp :: "nat \<Rightarrow> pystr \<Rightarrow> (nat \<times> pystr) io" where
  "os_mkstemp d prefix = mkstemp_from 10000 d prefix"

lemma bindW_return [simp]: "bindW (return x) f = f x"
  by (rule ext) (simp add: bindW_def return_def)

lemma bindW_raise [simp]: "bindW (raise e) f = raise e"
  by (rule ext) (simp add: bindW_def raise_def)

lemma bindW_assoc: "bindW (bindW m f) g = bindW m (\<lambda>x. bindW (f x) g)"
  by (rule ext) (simp add: bindW_def split: prod.splits outcome.splits)

lemma raise_when_simps [simp]: "raise_when True e = raise e" "raise_when False e = return ()"
  by (simp_all add: raise_when_def)

lemma lift_simps [simp]: "lift (Inr x) = return x" "lift (Inl e) = raise e"
  by (simp_all add: lift_def)

end
