(* ===== verification/Pure_Path.thy ===== *)
theory Pure_Path
  imports Py_Text
begin

text \<open>
  \<open>pathlib\<close>'s lexical paths: parsing drops empty and dot components and keeps an anchor of
  one slash, or of exactly two; nothing here touches a file system.
\<close>

record ppath =
  anchor :: pystr
  components :: "pystr list"

definition path_anchor :: "pystr \<Rightarrow> pystr" where
  "path_anchor s =
     (if starts_with [47, 47] s \<and> \<not> starts_with [47, 47, 47] s then [47, 47]
      else if starts_with [47] s then [47] else [])"

definition parse_path :: "pystr \<Rightarrow> ppath" where
  "parse_path s = \<lparr>anchor = path_anchor s,
     components = filter (\<lambda>c. c \<noteq> [] \<and> c \<noteq> [46]) (split_on 47 s)\<rparr>"

definition is_absolute :: "ppath \<Rightarrow> bool" where
  "is_absolute p = (anchor p \<noteq> [])"

definition parts :: "ppath \<Rightarrow> pystr list" where
  "parts p = (if anchor p = [] then components p else anchor p # components p)"

definition path_str :: "ppath \<Rightarrow> pystr" where
  "path_str p = (if anchor p = [] \<and> components p = [] then [46]
                 else anchor p @ join [47] (components p))"

text \<open>\<open>path.relative_to(root).parts\<close>, or \<open>ValueError\<close> when \<open>root\<close> is not an ancestor.\<close>

definition relative_parts :: "ppath \<Rightarrow> ppath \<Rightarrow> pystr list res" where
  "relative_parts p root =
     (if anchor p = anchor root \<and> starts_with (components root) (components p)
      then Inr (drop (length (components root)) (components p))
      else Inl (ValueError ''not in the subpath''))"

lemma relative_parts_Inr:
  "relative_parts p root = Inr rel \<longleftrightarrow> anchor p = anchor root \<and> components p = components root @ rel"
  by (auto simp: relative_parts_def starts_with_iff)

end
