(* ===== verification/Journal_Store.thy ===== *)
theory Journal_Store
  imports Journal_Record Posix Pure_Path
begin

text \<open>
  The store of \<open>src/src/kitdev_sandboxes/journal.py\<close>: the security policy, the walk to the
  root directory, reading, creating and replacing one journal file, the residue a crash can
  leave, and the sessions that hold the directory lock.  A method of \<open>JournalStore\<close> is a
  program over the world of \<open>Posix\<close> whose first arguments are the policy and the inode of the
  opened root directory.
\<close>

subsection \<open>The security policy\<close>

record policy =
  expected_owner_uid :: int
  directory_mode :: int
  file_mode :: int
  stat_validator :: "(stat_result \<Rightarrow> bool \<Rightarrow> bool) option"
  trusted_prefix :: "ppath option"
  expected_owner_gid :: int

definition safe_parts :: "pystr list \<Rightarrow> bool" where
  "safe_parts ps = list_all safe_path_component (drop 1 ps)"

definition check_prefix :: "ppath option \<Rightarrow> unit res" where
  "check_prefix prefix =
     (case prefix of
        None \<Rightarrow> Inr ()
      | Some p \<Rightarrow>
          raise_if (\<not> is_absolute p \<or> path_str p = lit ''/'' \<or> starts_with (lit ''//'') (path_str p)
                    \<or> \<not> safe_parts (parts p))
            (ValueError ''trusted_prefix must be a safe non-root absolute path''))"

definition mk_policy ::
  "int \<Rightarrow> int \<Rightarrow> int \<Rightarrow> (stat_result \<Rightarrow> bool \<Rightarrow> bool) option \<Rightarrow> ppath option \<Rightarrow> int \<Rightarrow> policy res" where
  "mk_policy uid dmode fmode validator prefix gid =
     thenR (raise_if (uid < 0) (ValueError ''expected_owner_uid must be a non-negative integer''))
     (thenR (raise_if (gid < 0) (ValueError ''expected_owner_gid must be a non-negative integer''))
     (thenR (raise_if (\<not> (0 \<le> dmode \<and> dmode \<le> 4095)) (ValueError ''directory_mode must be a valid mode''))
     (thenR (raise_if (\<not> (0 \<le> fmode \<and> fmode \<le> 4095)) (ValueError ''file_mode must be a valid mode''))
     (thenR (check_prefix prefix)
       (Inr \<lparr>expected_owner_uid = uid, directory_mode = dmode, file_mode = fmode,
             stat_validator = validator, trusted_prefix = prefix, expected_owner_gid = gid\<rparr>)))))"

definition accepts :: "policy \<Rightarrow> stat_result \<Rightarrow> bool \<Rightarrow> nat list \<Rightarrow> bool" where
  "accepts pol m directory allowed_nlinks =
     (st_kind m = (if directory then KDir else KReg)
      \<and> st_uid m = expected_owner_uid pol
      \<and> st_gid m = expected_owner_gid pol
      \<and> int (st_perm m) = (if directory then directory_mode pol else file_mode pol)
      \<and> (directory \<or> st_nlink m \<in> set allowed_nlinks)
      \<and> (case stat_validator pol of None \<Rightarrow> True | Some v \<Rightarrow> v m directory))"

text \<open>The bits \<open>0o022\<close>: group and other write.\<close>

definition group_other_write :: "nat \<Rightarrow> bool" where
  "group_other_write mode = (odd (mode div 2) \<or> odd (mode div 16))"

definition accepts_ancestor :: "policy \<Rightarrow> stat_result \<Rightarrow> bool \<Rightarrow> bool" where
  "accepts_ancestor pol m below_trusted =
     (st_kind m = KDir
      \<and> st_uid m = (if below_trusted then expected_owner_uid pol else 0)
      \<and> st_gid m = (if below_trusted then expected_owner_gid pol else 0)
      \<and> \<not> group_other_write (st_perm m))"

definition stable_metadata ::
  "stat_result \<Rightarrow> fkind \<times> nat \<times> int \<times> int \<times> nat \<times> nat \<times> nat \<times> nat \<times> nat \<times> nat" where
  "stable_metadata m =
     (st_kind m, st_perm m, st_uid m, st_gid m, st_nlink m, st_size m, st_dev m, st_ino m,
      st_mtime_ns m, st_ctime_ns m)"

subsection \<open>Opening the root\<close>

definition security :: "string \<Rightarrow> 'a io" where
  "security m = raise (JournalSecurityError m)"

text \<open>\<open>except OSError\<close> turned into a security error; other exceptions pass.\<close>

definition os_errors_as :: "string \<Rightarrow> 'a io \<Rightarrow> 'a io" where
  "os_errors_as m f = catchW f (\<lambda>e. if is_os_error e then security m else raise e)"

definition below_boundary :: "pystr list option \<Rightarrow> pystr list \<Rightarrow> bool" where
  "below_boundary trusted opened =
     (case trusted of
        None \<Rightarrow> False
      | Some t \<Rightarrow> take (length t) opened = t \<and> length t \<le> length opened)"

text \<open>The loop over \<open>parts[1:]\<close>.\<close>

fun walk :: "policy \<Rightarrow> pystr list option \<Rightarrow> nat \<Rightarrow> pystr list \<Rightarrow> pystr list \<Rightarrow> nat io" where
  "walk pol trusted fd opened [] = return fd"
| "walk pol trusted fd opened (c # cs) =
     bindW (os_open_dir_at fd c) (\<lambda>next_fd.
       let opened' = opened @ [c] in
       if trusted = Some opened' then walk pol trusted next_fd opened' cs
       else bindW (os_fstat next_fd) (\<lambda>m.
         seqW (raise_when (\<not> accepts_ancestor pol m (below_boundary trusted opened'))
                 (JournalSecurityError ''journal root ancestry is not securely owned''))
           (walk pol trusted next_fd opened' cs)))"

definition open_checked :: "policy \<Rightarrow> ppath \<Rightarrow> nat \<Rightarrow> nat io" where
  "open_checked pol root fd =
     (let trusted = map_option parts (trusted_prefix pol) in
      seqW (raise_when (case trusted of None \<Rightarrow> False | Some t \<Rightarrow> take (length t) (parts root) \<noteq> t)
              (JournalSecurityError ''trusted prefix is not an ancestor of journal root''))
      (bindW (os_fstat fd) (\<lambda>m0.
       seqW (raise_when (\<not> accepts_ancestor pol m0 (trusted = Some [lit ''/'']))
               (JournalSecurityError ''journal root ancestry is not securely owned''))
       (bindW (walk pol trusted fd [lit ''/''] (drop 1 (parts root))) (\<lambda>d.
        bindW (os_fstat d) (\<lambda>m.
        seqW (raise_when (\<not> accepts pol m True [1])
                (JournalSecurityError ''journal root owner, mode, or type is unsafe''))
          (return d)))))))"

definition open_root :: "policy \<Rightarrow> ppath \<Rightarrow> nat io" where
  "open_root pol root =
     seqW (raise_when (\<not> is_absolute root) (JournalSecurityError ''journal root must be absolute''))
     (seqW (raise_when (\<not> starts_with (lit ''/'') (path_str root) \<or> path_str root = lit ''/''
                        \<or> starts_with (lit ''//'') (path_str root) \<or> \<not> safe_parts (parts root))
              (JournalSecurityError ''journal root must be a safe non-root path''))
       (bindW os_open_slash (\<lambda>fd.
          os_errors_as ''journal root cannot be opened without symlinks'' (open_checked pol root fd))))"

subsection \<open>Reading\<close>

definition journal_filename :: "pystr \<Rightarrow> pystr res" where
  "journal_filename install =
     bindR (check_text ''install_id'' True (JStr install)) (\<lambda>i. Inr (i @ lit ''.journal.json''))"

text \<open>
  The read loop; each turn takes at least one byte, so a fuel above \<open>remaining\<close> is
  enough.
\<close>

fun read_chunks :: "nat \<Rightarrow> nat \<Rightarrow> nat \<Rightarrow> nat \<Rightarrow> bytes io" where
  "read_chunks 0 fd pos remaining = raise out_of_fuel"
| "read_chunks (Suc fuel) fd pos remaining =
     (if remaining = 0 then return []
      else bindW (os_read fd pos (min 65536 remaining)) (\<lambda>chunk.
        if chunk = [] then return []
        else bindW (read_chunks fuel fd (pos + length chunk) (remaining - length chunk))
               (\<lambda>rest. return (chunk @ rest))))"

definition read_at :: "policy \<Rightarrow> nat \<Rightarrow> pystr \<Rightarrow> nat list \<Rightarrow> (journal_record \<times> stat_result) io" where
  "read_at pol d filename allowed =
     bindW (os_errors_as ''journal cannot be opened safely'' (os_open_at d filename)) (\<lambda>fd.
     bindW (os_fstat fd) (\<lambda>earlier.
     seqW (raise_when (\<not> accepts pol earlier False allowed)
             (JournalSecurityError ''journal owner, mode, or type is unsafe''))
     (bindW (read_chunks (max_journal_bytes + 2) fd 0 (max_journal_bytes + 1)) (\<lambda>raw.
      bindW (os_fstat fd) (\<lambda>after.
      bindW (os_errors_as ''journal name changed while it was being read'' (os_stat_at d filename)) (\<lambda>published.
      seqW (raise_when (stable_metadata earlier \<noteq> stable_metadata after
                        \<or> stable_metadata after \<noteq> stable_metadata published
                        \<or> \<not> accepts pol published False allowed)
              (JournalSecurityError ''journal changed while it was being read''))
        (bindW (lift (decode raw)) (\<lambda>record. return (record, after)))))))))"

fun scan_entries :: "nat \<Rightarrow> nat \<Rightarrow> pystr list \<Rightarrow> unit res" where
  "scan_entries seen nbytes [] = Inr ()"
| "scan_entries seen nbytes (name # names) =
     thenR (raise_if (\<not> safe_path_component name)
              (JournalSecurityError ''journal directory contains an unsafe entry name''))
     (bindR (encode_utf8 name) (\<lambda>enc.
      thenR (raise_if (max_directory_entries < Suc seen \<or> max_journal_bytes < nbytes + length enc)
               (JournalSecurityError ''journal directory contains too many entries''))
        (scan_entries (Suc seen) (nbytes + length enc) names)))"

definition directory_entries :: "nat \<Rightarrow> pystr list io" where
  "directory_entries d =
     os_errors_as ''journal directory cannot be enumerated safely''
       (bindW (os_scandir d) (\<lambda>names. bindW (lift (scan_entries 0 0 names)) (\<lambda>_. return names)))"

definition temp_prefix :: "pystr \<Rightarrow> pystr" where
  "temp_prefix filename = lit ''.'' @ filename @ lit ''.tmp.''"

definition is_temp_name :: "pystr \<Rightarrow> pystr \<Rightarrow> bool" where
  "is_temp_name prefix name =
     (starts_with prefix name \<and> all_of_length is_lower_hex 32 (drop (length prefix) name))"

definition temp_candidates :: "pystr \<Rightarrow> pystr list \<Rightarrow> pystr list" where
  "temp_candidates filename entries = sort (filter (starts_with (temp_prefix filename)) entries)"

definition sole_temp :: "pystr \<Rightarrow> pystr list \<Rightarrow> bool" where
  "sole_temp filename candidates =
     (length candidates = 1 \<and> is_temp_name (temp_prefix filename) (hd candidates))"

subsection \<open>Residue of an interrupted creation\<close>

definition validate_linked_create ::
  "policy \<Rightarrow> nat \<Rightarrow> pystr \<Rightarrow> journal_record \<Rightarrow> stat_result \<Rightarrow> pystr io" where
  "validate_linked_create pol d filename expected final =
     bindW (directory_entries d) (\<lambda>entries.
       let candidates = temp_candidates filename entries in
       seqW (raise_when (\<not> sole_temp filename candidates)
               (JournalSecurityError ''journal has an unexplained hard link''))
       (bindW (read_at pol d (hd candidates) [2]) (\<lambda>(residue, rm).
          seqW (raise_when (residue \<noteq> expected \<or> st_dev rm \<noteq> st_dev final \<or> st_ino rm \<noteq> st_ino final)
                  (JournalSecurityError ''journal hard-link residue is not canonical''))
            (return (hd candidates)))))"

definition recover_linked_create ::
  "policy \<Rightarrow> nat \<Rightarrow> pystr \<Rightarrow> journal_record \<Rightarrow> stat_result \<Rightarrow> unit io" where
  "recover_linked_create pol d filename expected final =
     bindW (validate_linked_create pol d filename expected final) (\<lambda>candidate.
       seqW (os_unlink d candidate) (os_fsync d))"

definition load_at :: "policy \<Rightarrow> nat \<Rightarrow> pystr \<Rightarrow> bool \<Rightarrow> journal_record io" where
  "load_at pol d filename recover =
     bindW (read_at pol d filename [1, 2]) (\<lambda>(record, m).
       if st_nlink m = 1 then return record
       else seqW (raise_when (\<not> recover)
                    (JournalSecurityError ''journal has an unresolved hard-link residue''))
            (seqW (recover_linked_create pol d filename record m)
               (bindW (read_at pol d filename [1]) (\<lambda>(recovered, _). return recovered))))"

definition inspect_residue_at ::
  "policy \<Rightarrow> nat \<Rightarrow> pystr \<Rightarrow> (journal_record \<times> nat \<times> journal_record list) io" where
  "inspect_residue_at pol d filename =
     bindW (read_at pol d filename [1, 2]) (\<lambda>(record, m).
     bindW (directory_entries d) (\<lambda>entries.
       let candidates = temp_candidates filename entries in
       if st_nlink m = 2
       then bindW (validate_linked_create pol d filename record m) (\<lambda>_. return (record, 2, [record]))
       else if candidates = [] then return (record, 1, [])
       else seqW (raise_when (\<not> sole_temp filename candidates)
                    (JournalSecurityError ''journal has unexplained temporary residue''))
            (bindW (read_at pol d (hd candidates) [1]) (\<lambda>(residue, _).
               return (record, 1, [residue])))))"

definition load_inflight_at :: "policy \<Rightarrow> nat \<Rightarrow> pystr \<Rightarrow> journal_record io" where
  "load_inflight_at pol d filename =
     bindW (inspect_residue_at pol d filename) (\<lambda>(record, link_count, residues).
       seqW (raise_when (link_count = 1 \<and> residues \<noteq> [])
               (JournalSecurityError ''journal has unexplained temporary residue''))
         (return record))"

text \<open>
  \<open>os.stat\<close> of a name that must not exist: absence passes, other failures run the handler,
  presence raises.
\<close>

definition require_absent :: "nat \<Rightarrow> pystr \<Rightarrow> (exn \<Rightarrow> unit io) \<Rightarrow> exn \<Rightarrow> unit io" where
  "require_absent d filename on_error present =
     bindW (catchW (bindW (os_stat_at d filename) (\<lambda>_. return True))
              (\<lambda>e. if e = OSError ENOENT then return False else seqW (on_error e) (return False)))
       (\<lambda>found. raise_when found present)"

definition load_unpublished_at :: "policy \<Rightarrow> nat \<Rightarrow> pystr \<Rightarrow> journal_record io" where
  "load_unpublished_at pol d filename =
     seqW (require_absent d filename
             (\<lambda>e. if is_os_error e then security ''journal final name cannot be classified'' else raise e)
             (JournalSecurityError ''journal final name is already published''))
     (bindW (directory_entries d) (\<lambda>entries.
       let candidates = temp_candidates filename entries in
       seqW (raise_when (\<not> sole_temp filename candidates)
               (JournalSecurityError ''journal unpublished residue is not unique''))
       (bindW (read_at pol d (hd candidates) [1]) (\<lambda>(record, _). return record))))"

subsection \<open>Writing\<close>

fun alloc_temp :: "nat \<Rightarrow> nat \<Rightarrow> pystr \<Rightarrow> nat \<Rightarrow> (nat \<times> pystr) option io" where
  "alloc_temp 0 d prefix mode = return None"
| "alloc_temp (Suc tries) d prefix mode =
     bindW token_hex (\<lambda>token.
       catchW (bindW (os_create d (prefix @ token) mode) (\<lambda>fd. return (Some (fd, prefix @ token))))
         (\<lambda>e. if e = OSError EEXIST then alloc_temp tries d prefix mode else raise e))"

text \<open>The write loop over the bytes not yet written; each turn writes at least one.\<close>

fun write_all :: "nat \<Rightarrow> nat \<Rightarrow> bytes \<Rightarrow> unit io" where
  "write_all 0 fd rest = raise out_of_fuel"
| "write_all (Suc fuel) fd rest =
     (if rest = [] then return ()
      else bindW (os_write fd rest) (\<lambda>written.
        seqW (raise_when (written = 0) (JournalError ''journal write made no progress''))
          (write_all fuel fd (drop written rest))))"

text \<open>\<open>try: os.unlink(...) except OSError: pass\<close>, run before the exception goes on.\<close>

definition unlink_quietly :: "nat \<Rightarrow> pystr \<Rightarrow> unit io" where
  "unlink_quietly d name = catchW (os_unlink d name) (\<lambda>e. if is_os_error e then return () else raise e)"

definition or_unlink :: "nat \<Rightarrow> pystr \<Rightarrow> unit io \<Rightarrow> unit io" where
  "or_unlink d name m = catchW m (\<lambda>e. seqW (unlink_quietly d name) (raise e))"

definition fill_temp :: "policy \<Rightarrow> nat \<Rightarrow> bytes \<Rightarrow> unit io" where
  "fill_temp pol fd payload =
     bindW (os_fstat fd) (\<lambda>m.
       seqW (raise_when (\<not> accepts pol m False [1])
               (JournalSecurityError ''temporary journal owner, mode, or type is unsafe''))
       (seqW (write_all (Suc (length payload)) fd payload) (os_fsync fd)))"

definition new_temp :: "policy \<Rightarrow> nat \<Rightarrow> pystr \<Rightarrow> journal_record \<Rightarrow> pystr io" where
  "new_temp pol d filename record =
     bindW (lift (encode record)) (\<lambda>payload.
     bindW (alloc_temp 8 d (temp_prefix filename) (nat (file_mode pol))) (\<lambda>slot.
       case slot of
         None \<Rightarrow> raise (JournalConflict ''could not allocate an exclusive journal temporary file'')
       | Some (fd, temp) \<Rightarrow> seqW (or_unlink d temp (fill_temp pol fd payload)) (return temp)))"

text \<open>One turn of the cleanup loop: the checks on a residue and its removal.\<close>

definition cleanup_one ::
  "policy \<Rightarrow> nat \<Rightarrow> pystr \<Rightarrow> journal_record list \<Rightarrow> pystr \<Rightarrow> unit io" where
  "cleanup_one pol d filename expected name =
     seqW (raise_when (\<not> is_temp_name (temp_prefix filename) name)
             (JournalSecurityError ''suspicious journal temporary artifact exists''))
     (bindW (catchW (read_at pol d name [1, 2])
               (\<lambda>e. if is_journal_error e
                    then security ''journal temporary artifact is not owned canonical residue''
                    else raise e)) (\<lambda>(residue, rm).
      seqW (raise_when (residue \<notin> set expected)
              (JournalConflict ''journal temporary artifact belongs to another plan state''))
      (seqW (if st_nlink rm = 2
             then bindW (os_errors_as ''linked journal residue has no published record'' (os_stat_at d filename))
                    (\<lambda>final. raise_when (st_dev final \<noteq> st_dev rm \<or> st_ino final \<noteq> st_ino rm)
                       (JournalSecurityError ''linked journal residue does not match the published record''))
             else return ())
        (os_unlink d name))))"

fun cleanup_loop ::
  "policy \<Rightarrow> nat \<Rightarrow> pystr \<Rightarrow> journal_record list \<Rightarrow> pystr list \<Rightarrow> unit io" where
  "cleanup_loop pol d filename expected [] = return ()"
| "cleanup_loop pol d filename expected (name # names) =
     seqW (cleanup_one pol d filename expected name) (cleanup_loop pol d filename expected names)"

definition cleanup_stale_temps ::
  "policy \<Rightarrow> nat \<Rightarrow> pystr \<Rightarrow> journal_record list \<Rightarrow> unit io" where
  "cleanup_stale_temps pol d filename expected =
     bindW (directory_entries d) (\<lambda>entries.
       let candidates = temp_candidates filename entries in
       seqW (raise_when (1 < length candidates)
               (JournalSecurityError ''multiple journal temporary artifacts exist''))
       (seqW (cleanup_loop pol d filename expected candidates)
          (if candidates \<noteq> [] then os_fsync d else return ())))"

definition link_new :: "nat \<Rightarrow> pystr \<Rightarrow> pystr \<Rightarrow> unit io" where
  "link_new d temp filename =
     catchW (os_link d temp filename)
       (\<lambda>e. if e = OSError EEXIST then raise (JournalConflict ''journal already exists'') else raise e)"

definition atomic_create :: "policy \<Rightarrow> nat \<Rightarrow> pystr \<Rightarrow> journal_record \<Rightarrow> unit io" where
  "atomic_create pol d filename record =
     bindW (new_temp pol d filename record) (\<lambda>temp.
       or_unlink d temp
         (seqW (link_new d temp filename)
         (seqW (os_fsync d)
         (seqW (os_unlink d temp) (os_fsync d)))))"

definition atomic_replace :: "policy \<Rightarrow> nat \<Rightarrow> pystr \<Rightarrow> journal_record \<Rightarrow> unit io" where
  "atomic_replace pol d filename record =
     bindW (new_temp pol d filename record) (\<lambda>temp.
       or_unlink d temp (seqW (os_replace d temp filename) (os_fsync d)))"

definition create_at :: "policy \<Rightarrow> nat \<Rightarrow> journal_record \<Rightarrow> journal_record io" where
  "create_at pol d record =
     seqW (raise_when (state_of record \<noteq> PLANNED \<or> transitions record \<noteq> [PLANNED])
             (JournalConflict ''new journal must contain only the initial planned state''))
     (bindW (lift (journal_filename (install_id record))) (\<lambda>filename.
      seqW (cleanup_stale_temps pol d filename [record])
      (seqW (require_absent d filename raise (JournalConflict ''journal already exists''))
      (seqW (atomic_create pol d filename record)
        (load_at pol d filename True)))))"

definition assert_exact ::
  "journal_record \<Rightarrow> pystr \<Rightarrow> pystr \<Rightarrow> resource_record list \<Rightarrow> unit res" where
  "assert_exact record pid phash rs =
     bindR (check_text ''plan_id'' True (JStr pid)) (\<lambda>_.
     bindR (hash_text ''plan_hash'' (JStr phash)) (\<lambda>_.
       raise_if (plan_id record \<noteq> pid \<or> plan_hash record \<noteq> phash \<or> resources record \<noteq> rs)
         (JournalConflict ''journal does not exactly match the requested plan and resources'')))"

text \<open>\<open>JournalRecord(...)\<close> with one more state in the history.\<close>

definition advanced :: "journal_record \<Rightarrow> journal_state \<Rightarrow> journal_record res" where
  "advanced record st =
     mk_journal (JStr (install_id record)) (JStr (plan_id record)) (JStr (plan_hash record))
       (resources record) (transitions record @ [st]) (JInt 1)"

definition transition_at ::
  "policy \<Rightarrow> nat \<Rightarrow> pystr \<Rightarrow> pystr \<Rightarrow> pystr \<Rightarrow> resource_record list \<Rightarrow> journal_state
    \<Rightarrow> journal_record io" where
  "transition_at pol d iid pid phash rs st =
     bindW (lift (journal_filename iid)) (\<lambda>filename.
     bindW (load_at pol d filename True) (\<lambda>record.
     seqW (lift (assert_exact record pid phash rs))
     (seqW (raise_when (st \<notin> set (allowed_transitions (state_of record)))
              (JournalConflict (''transition '' @ state_value (state_of record) @ ''->''
                                @ state_value st @ '' is not allowed'')))
     (bindW (lift (advanced record st)) (\<lambda>updated.
      seqW (cleanup_stale_temps pol d filename [record, updated])
      (seqW (atomic_replace pol d filename updated)
        (load_at pol d filename True)))))))"

subsection \<open>Sessions\<close>

text \<open>A \<open>JournalSession\<close> over a store; the store is its policy.\<close>

record session =
  ses_root_fd :: nat
  ses_exclusive :: bool
  ses_closed :: bool

definition session_close :: "session \<Rightarrow> session" where
  "session_close s = s\<lparr>ses_closed := True\<rparr>"

definition require_open :: "session \<Rightarrow> unit io" where
  "require_open s = raise_when (ses_closed s) (JournalConflict ''journal session is closed'')"

definition require_exclusive :: "session \<Rightarrow> unit io" where
  "require_exclusive s =
     seqW (require_open s)
       (raise_when (\<not> ses_exclusive s) (JournalConflict ''journal mutation requires an exclusive session''))"

definition session_create :: "policy \<Rightarrow> session \<Rightarrow> journal_record \<Rightarrow> journal_record io" where
  "session_create pol s record = seqW (require_exclusive s) (create_at pol (ses_root_fd s) record)"

definition session_load :: "policy \<Rightarrow> session \<Rightarrow> pystr \<Rightarrow> journal_record io" where
  "session_load pol s iid =
     seqW (require_open s)
       (bindW (lift (journal_filename iid)) (\<lambda>filename.
          load_at pol (ses_root_fd s) filename (ses_exclusive s)))"

definition session_load_inflight :: "policy \<Rightarrow> session \<Rightarrow> pystr \<Rightarrow> journal_record io" where
  "session_load_inflight pol s iid =
     seqW (require_open s)
       (bindW (lift (journal_filename iid)) (\<lambda>filename. load_inflight_at pol (ses_root_fd s) filename))"

definition session_inspect_residue ::
  "policy \<Rightarrow> session \<Rightarrow> pystr \<Rightarrow> (journal_record \<times> nat \<times> journal_record list) io" where
  "session_inspect_residue pol s iid =
     seqW (require_open s)
       (bindW (lift (journal_filename iid)) (\<lambda>filename. inspect_residue_at pol (ses_root_fd s) filename))"

definition session_load_unpublished :: "policy \<Rightarrow> session \<Rightarrow> pystr \<Rightarrow> journal_record io" where
  "session_load_unpublished pol s iid =
     seqW (require_open s)
       (bindW (lift (journal_filename iid)) (\<lambda>filename. load_unpublished_at pol (ses_root_fd s) filename))"

definition session_cleanup_temps ::
  "policy \<Rightarrow> session \<Rightarrow> pystr \<Rightarrow> journal_record list \<Rightarrow> unit io" where
  "session_cleanup_temps pol s iid expected =
     seqW (require_exclusive s)
     (seqW (raise_when (expected = []) (TypeError ''expected must be a nonempty tuple''))
       (bindW (lift (journal_filename iid)) (\<lambda>filename.
          cleanup_stale_temps pol (ses_root_fd s) filename expected)))"

definition session_resume ::
  "policy \<Rightarrow> session \<Rightarrow> pystr \<Rightarrow> pystr \<Rightarrow> pystr \<Rightarrow> resource_record list \<Rightarrow> journal_record io" where
  "session_resume pol s iid pid phash rs =
     bindW (session_load pol s iid) (\<lambda>record.
     seqW (lift (assert_exact record pid phash rs))
     (seqW (raise_when (state_of record = VALIDATED \<or> state_of record = ROLLED_BACK)
              (JournalConflict ''completed journal cannot be resumed''))
       (return record)))"

definition session_transition ::
  "policy \<Rightarrow> session \<Rightarrow> pystr \<Rightarrow> pystr \<Rightarrow> pystr \<Rightarrow> resource_record list \<Rightarrow> journal_state
    \<Rightarrow> journal_record io" where
  "session_transition pol s iid pid phash rs st =
     seqW (require_exclusive s) (transition_at pol (ses_root_fd s) iid pid phash rs st)"

text \<open>
  \<open>with store.locked(exclusive=...) as session\<close>: the result of the body and the session
  object, which the exit has closed.
\<close>

definition locked :: "policy \<Rightarrow> ppath \<Rightarrow> bool \<Rightarrow> (session \<Rightarrow> 'a io) \<Rightarrow> ('a \<times> session) io" where
  "locked pol root exclusive body =
     bindW (open_root pol root) (\<lambda>fd.
       let s = \<lparr>ses_root_fd = fd, ses_exclusive = exclusive, ses_closed = False\<rparr> in
       seqW (catchW (os_flock fd exclusive)
               (\<lambda>e. if e = BlockingIOError then raise (JournalConflict ''journal directory is locked'') else raise e))
         (finallyW (bindW (body s) (\<lambda>x. return (x, session_close s))) (os_close_locked fd)))"

definition store_create :: "policy \<Rightarrow> ppath \<Rightarrow> journal_record \<Rightarrow> journal_record io" where
  "store_create pol root record =
     bindW (locked pol root True (\<lambda>s. session_create pol s record)) (\<lambda>(r, _). return r)"

definition store_load :: "policy \<Rightarrow> ppath \<Rightarrow> pystr \<Rightarrow> journal_record io" where
  "store_load pol root iid =
     bindW (locked pol root True (\<lambda>s. session_load pol s iid)) (\<lambda>(r, _). return r)"

definition store_resume ::
  "policy \<Rightarrow> ppath \<Rightarrow> pystr \<Rightarrow> pystr \<Rightarrow> pystr \<Rightarrow> resource_record list \<Rightarrow> journal_record io" where
  "store_resume pol root iid pid phash rs =
     bindW (locked pol root True (\<lambda>s. session_resume pol s iid pid phash rs)) (\<lambda>(r, _). return r)"

definition store_transition ::
  "policy \<Rightarrow> ppath \<Rightarrow> pystr \<Rightarrow> pystr \<Rightarrow> pystr \<Rightarrow> resource_record list \<Rightarrow> journal_state
    \<Rightarrow> journal_record io" where
  "store_transition pol root iid pid phash rs st =
     bindW (locked pol root True (\<lambda>s. session_transition pol s iid pid phash rs st)) (\<lambda>(r, _). return r)"

end
