(* ===== verification/Posix_Logic.thy ===== *)
theory Posix_Logic
  imports Posix
begin

text \<open>
  A Hoare logic for programs over the world: \<open>triple P m Q E\<close> says that from a world in
  \<open>P\<close> the program ends in \<open>Q\<close> when it returns and in \<open>E\<close> when it raises or is killed,
  wherever the kill or the failure of a system call strikes.  The rules follow the program's
  structure; the system calls have one rule each, over conditions on the file system.
\<close>

subsection \<open>The rules\<close>

definition triple ::
  "(world \<Rightarrow> bool) \<Rightarrow> 'a io \<Rightarrow> ('a \<Rightarrow> world \<Rightarrow> bool) \<Rightarrow> (world \<Rightarrow> bool) \<Rightarrow> bool" where
  "triple P m Q E =
     (\<forall>w. P w \<longrightarrow> (case m w of (Ret x, w') \<Rightarrow> Q x w' | (Raise e, w') \<Rightarrow> E w' | (Killed, w') \<Rightarrow> E w'))"

lemma tripleI:
  "(\<And>w. P w \<Longrightarrow> case m w of (Ret x, w') \<Rightarrow> Q x w' | (Raise e, w') \<Rightarrow> E w' | (Killed, w') \<Rightarrow> E w')
    \<Longrightarrow> triple P m Q E"
  by (simp add: triple_def)

lemma tripleD:
  "triple P m Q E \<Longrightarrow> P w \<Longrightarrow> m w = (out, w') \<Longrightarrow>
     (case out of Ret x \<Rightarrow> Q x w' | _ \<Rightarrow> E w')"
  unfolding triple_def by (cases out) fastforce+

lemma triple_return: "(\<And>w. P w \<Longrightarrow> Q x w) \<Longrightarrow> triple P (return x) Q E"
  by (simp add: triple_def return_def)

lemma triple_raise: "(\<And>w. P w \<Longrightarrow> E w) \<Longrightarrow> triple P (raise e) Q E"
  by (simp add: triple_def raise_def)

lemma triple_bind:
  "triple P m R E \<Longrightarrow> (\<And>x. triple (R x) (f x) Q E) \<Longrightarrow> triple P (bindW m f) Q E"
  unfolding triple_def bindW_def
  by (fastforce split: prod.splits outcome.splits)

lemma triple_seq:
  "triple P m (\<lambda>_. R) E \<Longrightarrow> triple R k Q E \<Longrightarrow> triple P (seqW m k) Q E"
  unfolding seqW_def by (rule triple_bind)

lemma triple_catch:
  "triple P m Q E' \<Longrightarrow> (\<And>e. triple E' (h e) Q E) \<Longrightarrow> (\<And>w. E' w \<Longrightarrow> E w) \<Longrightarrow> triple P (catchW m h) Q E"
  unfolding triple_def catchW_def
  by (fastforce split: prod.splits outcome.splits)

lemma triple_finally:
  assumes "triple P m Q' E'" "\<And>x. triple (Q' x) c (\<lambda>_. Q x) E" "triple E' c (\<lambda>_. E) E" "\<And>w. E' w \<Longrightarrow> E w"
  shows "triple P (finallyW m c) Q E"
proof (rule tripleI)
  fix w assume "P w"
  show "case finallyW m c w of (Ret x, w') \<Rightarrow> Q x w' | (Raise e, w') \<Rightarrow> E w' | (Killed, w') \<Rightarrow> E w'"
  proof (cases "m w")
    case (Pair out w1)
    note o = tripleD [OF assms(1) \<open>P w\<close> Pair]
    show ?thesis
    proof (cases out)
      case (Ret x)
      then have "triple (Q' x) (bindW c (\<lambda>_. return x)) Q E"
        by (intro triple_bind [OF assms(2)] triple_return)
      then show ?thesis using o Ret Pair by (simp add: finallyW_def triple_def)
    next
      case (Raise e)
      have "triple E' (bindW c (\<lambda>_. raise e :: 'a io)) Q E"
        by (rule triple_bind [OF assms(3)]) (rule triple_raise)
      then show ?thesis using o Raise Pair by (simp add: finallyW_def triple_def)
    next
      case Killed
      then show ?thesis using o assms(4) Pair by (simp add: finallyW_def)
    qed
  qed
qed

lemma triple_raise_when:
  "(\<And>w. P w \<Longrightarrow> c \<Longrightarrow> E w) \<Longrightarrow> (\<And>w. P w \<Longrightarrow> \<not> c \<Longrightarrow> Q () w) \<Longrightarrow> triple P (raise_when c e) Q E"
  by (cases c) (auto intro: triple_return triple_raise)

lemma triple_lift:
  "(\<And>w. P w \<Longrightarrow> E w) \<Longrightarrow> (\<And>x w. P w \<Longrightarrow> r = Inr x \<Longrightarrow> Q x w) \<Longrightarrow> triple P (lift r) Q E"
  by (cases r) (auto intro: triple_return triple_raise)

lemma triple_if:
  "(c \<Longrightarrow> triple P m Q E) \<Longrightarrow> (\<not> c \<Longrightarrow> triple P k Q E) \<Longrightarrow> triple P (if c then m else k) Q E"
  by simp

lemma triple_conseq:
  "triple P' m Q' E' \<Longrightarrow> (\<And>w. P w \<Longrightarrow> P' w) \<Longrightarrow> (\<And>x w. Q' x w \<Longrightarrow> Q x w) \<Longrightarrow> (\<And>w. E' w \<Longrightarrow> E w)
    \<Longrightarrow> triple P m Q E"
  unfolding triple_def by (fastforce split: prod.splits outcome.splits)

lemma triple_pure: "(c \<Longrightarrow> triple P m Q E) \<Longrightarrow> triple (\<lambda>w. P w \<and> c) m Q E"
  unfolding triple_def by auto

text \<open>A world in which no other process changes the file system.\<close>

definition quiet :: "world \<Rightarrow> bool" where
  "quiet w = (w_env w = (\<lambda>n s. s))"

definition has_fs :: "(fs \<Rightarrow> bool) \<Rightarrow> world \<Rightarrow> bool" where
  "has_fs I w = (quiet w \<and> I (w_fs w))"

text \<open>A system call: when it fails the file system is as before or satisfies the failure
  condition itself.\<close>

lemma triple_syscall:
  assumes "\<And>w s x s'. I s \<Longrightarrow> f w s = (Inr x, s') \<Longrightarrow> Q x s'"
    and "\<And>w s e s'. I s \<Longrightarrow> f w s = (Inl e, s') \<Longrightarrow> E s'"
    and "\<And>s. I s \<Longrightarrow> E s"
  shows "triple (has_fs I) (syscall f) (\<lambda>x. has_fs (Q x)) (has_fs E)"
proof (rule tripleI)
  fix w assume "has_fs I w"
  then have w: "w_env w = (\<lambda>n s. s)" "I (w_fs w)" by (auto simp: has_fs_def quiet_def)
  obtain r s' where f: "f w (w_fs w) = (r, s')" by fastforce
  show "case syscall f w of (Ret x, w') \<Rightarrow> has_fs (Q x) w' | (Raise e, w') \<Rightarrow> has_fs E w'
      | (Killed, w') \<Rightarrow> has_fs E w'"
    using w f assms
    by (cases r; cases "w_fail w (w_calls w)") (auto simp: syscall_def Let_def has_fs_def quiet_def)
qed

definition os_read_result :: "nat \<Rightarrow> fs \<Rightarrow> nat \<Rightarrow> nat \<Rightarrow> bytes \<Rightarrow> bool" where
  "os_read_result n s pos cnt bs =
     (\<exists>i k. fs_inodes s n = Some i \<and> 0 < k \<and> bs = take (min cnt k) (drop pos (idata i)))"

lemma triple_fstat:
  "triple (has_fs I) (os_fstat n) (\<lambda>m. has_fs (\<lambda>s. I s \<and> (\<exists>i. fs_inodes s n = Some i \<and> m = stat_of n i))) (has_fs I)"
  unfolding os_fstat_def by (rule triple_syscall) (auto simp: do_fstat_def split: option.splits)

lemma triple_stat_at:
  "triple (has_fs I) (os_stat_at d name)
     (\<lambda>m. has_fs (\<lambda>s. I s \<and> (\<exists>n i. lookup s d name = Some n \<and> fs_inodes s n = Some i \<and> m = stat_of n i)))
     (has_fs I)"
  unfolding os_stat_at_def
  by (rule triple_syscall) (auto simp: do_stat_at_def do_fstat_def split: option.splits)

lemma triple_open_at:
  "triple (has_fs I) (os_open_at d name) (\<lambda>n. has_fs (\<lambda>s. I s \<and> lookup s d name = Some n)) (has_fs I)"
  unfolding os_open_at_def
  by (rule triple_syscall) (auto simp: do_open_at_def split: option.splits if_splits)

lemma triple_scandir:
  "triple (has_fs I) (os_scandir d) (\<lambda>ns. has_fs (\<lambda>s. I s \<and> ns = map fst (entries_of s d))) (has_fs I)"
  unfolding os_scandir_def by (rule triple_syscall) auto

lemma triple_read:
  "triple (has_fs I) (os_read n pos cnt) (\<lambda>bs. has_fs (\<lambda>s. I s \<and> os_read_result n s pos cnt bs)) (has_fs I)"
  unfolding os_read_def
proof (rule triple_syscall, goal_cases)
  case (1 w s x s')
  then show ?case
    by (auto simp: os_read_result_def split: option.splits intro!: exI [of _ "max 1 (w_chunk w (w_calls w))"])
qed (auto split: option.splits)

lemma triple_fsync: "triple (has_fs I) (os_fsync n) (\<lambda>_. has_fs I) (has_fs I)"
  unfolding os_fsync_def by (rule triple_syscall) auto

lemma triple_token_hex: "triple (has_fs I) token_hex (\<lambda>_. has_fs I) (has_fs I)"
  by (rule tripleI) (simp add: token_hex_def has_fs_def quiet_def)

text \<open>Conditions on the current file system: a fixed state, a choice, a consequence.\<close>

lemma triple_fixed:
  assumes "\<And>s0. I s0 \<Longrightarrow> triple (has_fs (\<lambda>s. s = s0)) m (\<lambda>x. has_fs (\<lambda>s. s = s0 \<and> R x s)) (has_fs (\<lambda>s. s = s0))"
  shows "triple (has_fs I) m (\<lambda>x. has_fs (\<lambda>s. I s \<and> R x s)) (has_fs I)"
proof (rule tripleI)
  fix w assume w: "has_fs I w"
  then have i: "I (w_fs w)" by (simp add: has_fs_def)
  obtain out w' where o: "m w = (out, w')" by fastforce
  have "has_fs (\<lambda>s. s = w_fs w) w" using w by (simp add: has_fs_def)
  from tripleD [OF assms [OF i] this o] i
  show "case m w of (Ret x, w') \<Rightarrow> has_fs (\<lambda>s. I s \<and> R x s) w' | (Raise e, w') \<Rightarrow> has_fs I w'
      | (Killed, w') \<Rightarrow> has_fs I w'"
    unfolding o by (cases out) (auto simp: has_fs_def)
qed

lemma triple_at_fact:
  "(C s0 \<Longrightarrow> triple (has_fs (\<lambda>s. s = s0)) m Q E) \<Longrightarrow> triple (has_fs (\<lambda>s. s = s0 \<and> C s)) m Q E"
proof (cases "C s0")
  case True
  then have "(\<lambda>s. s = s0 \<and> C s) = (\<lambda>s. s = s0)" by auto
  then show "(C s0 \<Longrightarrow> triple (has_fs (\<lambda>s. s = s0)) m Q E) \<Longrightarrow> ?thesis" using True by simp
qed (auto simp: triple_def has_fs_def)

lemma triple_at_lift:
  "(\<And>x. r = Inr x \<Longrightarrow> triple (has_fs (\<lambda>s. s = s0)) (f x) Q (has_fs (\<lambda>s. s = s0)))
    \<Longrightarrow> triple (has_fs (\<lambda>s. s = s0)) (bindW (lift r) f) Q (has_fs (\<lambda>s. s = s0))"
  by (cases r) (auto intro: triple_raise)

lemma triple_at_bind:
  "triple (has_fs (\<lambda>s. s = s0)) m (\<lambda>x. has_fs (\<lambda>s. s = s0 \<and> C x s)) E
    \<Longrightarrow> (\<And>x. C x s0 \<Longrightarrow> triple (has_fs (\<lambda>s. s = s0)) (f x) Q E)
    \<Longrightarrow> triple (has_fs (\<lambda>s. s = s0)) (bindW m f) Q E"
  by (rule triple_bind, assumption, rule triple_at_fact)

lemma triple_at_raise_when:
  "(\<not> c \<Longrightarrow> triple (has_fs (\<lambda>s. s = s0)) k Q (has_fs (\<lambda>s. s = s0)))
    \<Longrightarrow> triple (has_fs (\<lambda>s. s = s0)) (seqW (raise_when c e) k) Q (has_fs (\<lambda>s. s = s0))"
  by (cases c) (auto simp: seqW_def intro: triple_raise)

lemma triple_some:
  "(\<And>c. c \<in> C \<Longrightarrow> triple (has_fs (I c)) m Q E) \<Longrightarrow> triple (has_fs (\<lambda>s. \<exists>c \<in> C. I c s)) m Q E"
proof (rule tripleI)
  fix w assume a: "\<And>c. c \<in> C \<Longrightarrow> triple (has_fs (I c)) m Q E" and "has_fs (\<lambda>s. \<exists>c \<in> C. I c s) w"
  then obtain c where "c \<in> C" "has_fs (I c) w" by (auto simp: has_fs_def)
  with a [of c] show "case m w of (Ret x, w') \<Rightarrow> Q x w' | (Raise e, w') \<Rightarrow> E w' | (Killed, w') \<Rightarrow> E w'"
    by (simp add: triple_def)
qed

lemma triple_has_fs_conseq:
  "triple (has_fs I') m (\<lambda>x. has_fs (Q' x)) (has_fs E') \<Longrightarrow> (\<And>s. I s \<Longrightarrow> I' s)
    \<Longrightarrow> (\<And>x s. Q' x s \<Longrightarrow> Q x s) \<Longrightarrow> (\<And>s. E' s \<Longrightarrow> E s) \<Longrightarrow> triple (has_fs I) m (\<lambda>x. has_fs (Q x)) (has_fs E)"
  by (erule triple_conseq) (auto simp: has_fs_def)

subsection \<open>Programs that return\<close>

text \<open>
  In a calm world nothing kills the process and no call fails; there \<open>returns P m Q\<close> says
  that the program returns, with a result in \<open>Q\<close>.
\<close>

definition calm :: "world \<Rightarrow> bool" where
  "calm w = (quiet w \<and> w_kill w = None \<and> (\<forall>n. w_fail w n = None) \<and> (\<forall>n. 0 < w_chunk w n))"

definition calm_fs :: "int \<Rightarrow> int \<Rightarrow> (fs \<Rightarrow> bool) \<Rightarrow> world \<Rightarrow> bool" where
  "calm_fs uid gid I w = (calm w \<and> w_euid w = uid \<and> w_egid w = gid \<and> I (w_fs w))"

definition returns :: "(world \<Rightarrow> bool) \<Rightarrow> 'a io \<Rightarrow> ('a \<Rightarrow> world \<Rightarrow> bool) \<Rightarrow> bool" where
  "returns P m Q = (\<forall>w. P w \<longrightarrow> (\<exists>x w'. m w = (Ret x, w') \<and> Q x w'))"

lemma returns_return: "(\<And>w. P w \<Longrightarrow> Q x w) \<Longrightarrow> returns P (return x) Q"
  by (simp add: returns_def return_def)

lemma returns_bind: "returns P m R \<Longrightarrow> (\<And>x. returns (R x) (f x) Q) \<Longrightarrow> returns P (bindW m f) Q"
  unfolding returns_def bindW_def by (fastforce split: prod.splits outcome.splits)

lemma returns_seq: "returns P m (\<lambda>_. R) \<Longrightarrow> returns R k Q \<Longrightarrow> returns P (seqW m k) Q"
  unfolding seqW_def by (rule returns_bind)

lemma returns_catch: "returns P m Q \<Longrightarrow> returns P (catchW m h) Q"
  unfolding returns_def catchW_def by fastforce

lemma returns_raise_when: "\<not> c \<Longrightarrow> returns P k Q \<Longrightarrow> returns P (seqW (raise_when c e) k) Q"
  by (simp add: seqW_def)

lemma returns_conseq: "returns P' m Q' \<Longrightarrow> (\<And>w. P w \<Longrightarrow> P' w) \<Longrightarrow> (\<And>x w. Q' x w \<Longrightarrow> Q x w) \<Longrightarrow> returns P m Q"
  unfolding returns_def by blast

lemma returns_calm_conseq:
  "returns (calm_fs u g I') m (\<lambda>x. calm_fs u g (Q' x)) \<Longrightarrow> (\<And>s. I s \<Longrightarrow> I' s) \<Longrightarrow> (\<And>x s. Q' x s \<Longrightarrow> Q x s)
    \<Longrightarrow> returns (calm_fs u g I) m (\<lambda>x. calm_fs u g (Q x))"
  by (erule returns_conseq) (auto simp: calm_fs_def)

lemma returns_syscall:
  assumes "\<And>w s. I s \<Longrightarrow> w_euid w = uid \<Longrightarrow> w_egid w = gid \<Longrightarrow> (\<And>n. 0 < w_chunk w n) \<Longrightarrow>
      \<exists>x s'. f w s = (Inr x, s') \<and> Q x s'"
  shows "returns (calm_fs uid gid I) (syscall f) (\<lambda>x. calm_fs uid gid (Q x))"
  unfolding returns_def
proof (intro allI impI)
  fix w assume w: "calm_fs uid gid I w"
  then obtain x s' where "f w (w_fs w) = (Inr x, s')" "Q x s'"
    using assms [of "w_fs w" w] by (auto simp: calm_fs_def calm_def)
  then show "\<exists>x w'. syscall f w = (Ret x, w') \<and> calm_fs uid gid (Q x) w'"
    using w by (auto simp: syscall_def Let_def calm_fs_def calm_def quiet_def)
qed

text \<open>A condition that fixes the file system is a condition of the current world.\<close>

lemma returns_fixed:
  assumes "\<And>s0. I s0 \<Longrightarrow> returns (calm_fs u g (\<lambda>s. s = s0)) m (\<lambda>x. calm_fs u g (\<lambda>s. s = s0 \<and> R x s))"
  shows "returns (calm_fs u g I) m (\<lambda>x. calm_fs u g (\<lambda>s. I s \<and> R x s))"
  unfolding returns_def
proof (intro allI impI)
  fix w assume w: "calm_fs u g I w"
  then have "calm_fs u g (\<lambda>s. s = w_fs w) w" "I (w_fs w)" by (auto simp: calm_fs_def)
  with assms [of "w_fs w"] obtain x w' where "m w = (Ret x, w')" "calm_fs u g (\<lambda>s. s = w_fs w \<and> R x s) w'"
    unfolding returns_def by blast
  then show "\<exists>x w'. m w = (Ret x, w') \<and> calm_fs u g (\<lambda>s. I s \<and> R x s) w'"
    using w by (auto simp: calm_fs_def)
qed

lemma returns_some:
  "(\<And>x. returns (calm_fs u g (I x)) m Q) \<Longrightarrow> returns (calm_fs u g (\<lambda>s. \<exists>x. I x s)) m Q"
  unfolding returns_def calm_fs_def by blast

lemma returns_at_bind:
  assumes "returns (calm_fs u g (\<lambda>s. s = s0)) m (\<lambda>x. calm_fs u g (\<lambda>s. s = s0 \<and> C x))"
    "\<And>x. C x \<Longrightarrow> returns (calm_fs u g (\<lambda>s. s = s0)) (f x) Q"
  shows "returns (calm_fs u g (\<lambda>s. s = s0)) (bindW m f) Q"
proof (rule returns_bind [OF assms(1)])
  fix x
  show "returns (calm_fs u g (\<lambda>s. s = s0 \<and> C x)) (f x) Q"
    using assms(2) [of x] by (cases "C x") (auto simp: returns_def calm_fs_def)
qed

lemma returns_at_fstat:
  "fs_inodes s0 n = Some i \<Longrightarrow>
    returns (calm_fs u g (\<lambda>s. s = s0)) (os_fstat n) (\<lambda>m. calm_fs u g (\<lambda>s. s = s0 \<and> m = stat_of n i))"
  unfolding os_fstat_def by (rule returns_syscall) (simp add: do_fstat_def)

lemma returns_at_stat_at:
  "lookup s0 d name = Some n \<Longrightarrow> fs_inodes s0 n = Some i \<Longrightarrow>
    returns (calm_fs u g (\<lambda>s. s = s0)) (os_stat_at d name) (\<lambda>m. calm_fs u g (\<lambda>s. s = s0 \<and> m = stat_of n i))"
  unfolding os_stat_at_def by (rule returns_syscall) (simp add: do_stat_at_def do_fstat_def)

lemma returns_at_open:
  "lookup s0 d name = Some n \<Longrightarrow> fs_inodes s0 n = Some i \<Longrightarrow> ikind i \<noteq> KLnk \<Longrightarrow>
    returns (calm_fs u g (\<lambda>s. s = s0)) (os_open_at d name) (\<lambda>m. calm_fs u g (\<lambda>s. s = s0 \<and> m = n))"
  unfolding os_open_at_def by (rule returns_syscall) (simp add: do_open_at_def)

end
