(* ===== verification/Dir_Logic.thy ===== *)
theory Dir_Logic
  imports Posix_Logic
begin

text \<open>
  What one directory publishes under one name, and how the system calls change it: \<open>holds\<close>
  states the content of the published name, \<open>holds_temp\<close> adds a temporary name on an inode
  of its own.  Creating, filling, linking, renaming and removing temporary names are shown
  to leave the published content alone except where they replace it as a whole.
\<close>

subsection \<open>Published content\<close>

definition file_content :: "fs \<Rightarrow> nat \<Rightarrow> pystr \<Rightarrow> bytes option" where
  "file_content s d name =
     (case lookup s d name of None \<Rightarrow> None | Some n \<Rightarrow> map_option idata (fs_inodes s n))"

definition wf_dir :: "fs \<Rightarrow> nat \<Rightarrow> bool" where
  "wf_dir s d =
     (fs_inodes s d \<noteq> None \<and> (\<forall>n. fs_inodes s n \<noteq> None \<longrightarrow> n < fs_next s)
      \<and> (\<forall>name n. lookup s d name = Some n \<longrightarrow> fs_inodes s n \<noteq> None))"

definition holds :: "nat \<Rightarrow> pystr \<Rightarrow> bytes option \<Rightarrow> fs \<Rightarrow> bool" where
  "holds d name c s = (wf_dir s d \<and> file_content s d name = c)"

lemma tick_simps [simp]:
  "fs_inodes (tick s) = fs_inodes s" "fs_next (tick s) = fs_next s"
  "entries_of (tick s) d = entries_of s d" "lookup (tick s) d name = lookup s d name"
  by (simp_all add: tick_def entries_of_def lookup_def)

lemma fs_inodes_upd: "fs_inodes (upd_inode n f s) k = (if k = n then map_option f (fs_inodes s n) else fs_inodes s k)"
  by (simp add: upd_inode_def)

lemma fs_next_upd [simp]: "fs_next (upd_inode n f s) = fs_next s" "fs_next (set_entries d g s) = fs_next s"
  by (simp_all add: upd_inode_def set_entries_def)

lemma lookup_upd [simp]:
  "(\<And>i. ients (f i) = ients i) \<Longrightarrow> lookup (upd_inode n f s) d name = lookup s d name"
  by (auto simp: lookup_def entries_of_def fs_inodes_upd split: option.splits)

lemma lookup_set_entries:
  "fs_inodes s d \<noteq> None \<Longrightarrow> lookup (set_entries d g s) d name = map_of (g (entries_of s d)) name"
  by (auto simp: lookup_def entries_of_def set_entries_def fs_inodes_upd)

lemma data_set_entries:
  "map_option idata (fs_inodes (set_entries d g s) n) = map_option idata (fs_inodes s n)"
  by (auto simp: set_entries_def fs_inodes_upd option.map_comp comp_def)

lemma data_upd:
  "(\<And>i. idata (f i) = idata i) \<Longrightarrow> map_option idata (fs_inodes (upd_inode m f s) n) = map_option idata (fs_inodes s n)"
  by (auto simp: fs_inodes_upd option.map_comp comp_def)

lemma none_upd [simp]: "fs_inodes (upd_inode m f s) n = None \<longleftrightarrow> fs_inodes s n = None"
  by (auto simp: fs_inodes_upd)

lemma none_set_entries [simp]: "fs_inodes (set_entries d g s) n = None \<longleftrightarrow> fs_inodes s n = None"
  by (simp add: set_entries_def)

lemma file_content_eq: "file_content s d name = Option.bind (lookup s d name) (\<lambda>n. map_option idata (fs_inodes s n))"
  by (auto simp: file_content_def split: option.splits)

lemma upd_inode_ident [simp]: "upd_inode n (\<lambda>i. i) s = s"
proof -
  have "(\<lambda>k. if k = n then map_option (\<lambda>i. i) (fs_inodes s n) else fs_inodes s k) = fs_inodes s"
    by (auto simp: option.map_ident)
  then show ?thesis by (simp add: upd_inode_def)
qed

text \<open>A change of the directory entries by \<open>g\<close> and of inode metadata by \<open>f\<close>.\<close>

lemma holds_entries:
  assumes h: "holds d name c s"
    and f: "\<And>i. idata (f i) = idata i" "\<And>i. ients (f i) = ients i"
    and g: "\<And>x n. map_of (g (entries_of s d)) x = Some n \<Longrightarrow> fs_inodes s n \<noteq> None"
    and c': "Option.bind (map_of (g (entries_of s d)) name) (\<lambda>n. map_option idata (fs_inodes s n)) = c'"
  shows "holds d name c' (tick (set_entries d g (upd_inode m f s)))"
proof -
  have d: "fs_inodes (upd_inode m f s) d \<noteq> None" using h by (simp add: holds_def wf_dir_def)
  have e: "entries_of (upd_inode m f s) d = entries_of s d"
    using f(2) by (auto simp: entries_of_def fs_inodes_upd split: option.splits)
  have l: "lookup (set_entries d g (upd_inode m f s)) d x = map_of (g (entries_of s d)) x" for x
    by (simp add: lookup_set_entries [OF d] e)
  have dat: "map_option idata (fs_inodes (set_entries d g (upd_inode m f s)) n) = map_option idata (fs_inodes s n)" for n
    using data_upd [of f m s n, OF f(1)] by (simp add: data_set_entries)
  show ?thesis
    using h g c' by (auto simp: holds_def wf_dir_def file_content_eq l dat)
qed

lemma holds_unlink:
  assumes "holds d name c s" "do_unlink d x s = (r, s')" "x \<noteq> name"
  shows "holds d name c s'"
proof (cases "lookup s d x")
  case None
  then show ?thesis using assms by (simp add: do_unlink_def)
next
  case (Some n)
  show ?thesis
  proof (cases "map_option ikind (fs_inodes s n) = Some KDir")
    case True
    then show ?thesis using assms Some by (simp add: do_unlink_def)
  next
    case False
    let ?f = "\<lambda>i. touch s (i\<lparr>inlink := inlink i - 1\<rparr>)"
    have "s' = tick (set_entries d (AList.delete x) (upd_inode n ?f s))"
      using assms(2) Some False by (auto simp: do_unlink_def split: if_splits)
    moreover have "holds d name c (tick (set_entries d (AList.delete x) (upd_inode n ?f s)))"
      using assms(1,3)
      by (intro holds_entries [OF assms(1)])
         (auto simp: touch_def delete_conv' holds_def wf_dir_def lookup_def file_content_eq split: if_splits)
    ultimately show ?thesis by simp
  qed
qed

text \<open>A file under a temporary name, on an inode that the published name does not use.\<close>

definition holds_temp :: "nat \<Rightarrow> pystr \<Rightarrow> bytes option \<Rightarrow> nat \<Rightarrow> pystr \<Rightarrow> bytes \<Rightarrow> fs \<Rightarrow> bool" where
  "holds_temp d name c fd temp data s =
     (holds d name c s \<and> lookup s d temp = Some fd \<and> lookup s d name \<noteq> Some fd \<and> temp \<noteq> name
      \<and> map_option idata (fs_inodes s fd) = Some data)"

lemma holds_temp_holds: "holds_temp d name c fd temp data s \<Longrightarrow> holds d name c s"
  by (simp add: holds_temp_def)

lemma holds_create:
  assumes h: "holds d name c s" and cr: "do_create uid gid d temp mode s = (Inr fd, s')" and ne: "temp \<noteq> name"
  shows "holds_temp d name c fd temp [] s'"
proof -
  obtain di where d: "fs_inodes s d = Some di" using h by (auto simp: holds_def wf_dir_def)
  have none: "lookup s d temp = None" using cr by (auto simp: do_create_def Let_def split: option.splits)
  define fresh where "fresh = \<lparr>ikind = KReg, imode = mode, iuid = uid, igid = gid, inlink = 1, idata = [],
      ients = [], ixattrs = [], idev = idev di, imnt = imnt di, imtime = fs_clock s, ictime = fs_clock s\<rparr>"
  define s1 where "s1 = s\<lparr>fs_inodes := (fs_inodes s)(fs_next s \<mapsto> fresh), fs_next := Suc (fs_next s)\<rparr>"
  have fd: "fd = fs_next s" and s': "s' = tick (set_entries d (\<lambda>es. (temp, fs_next s) # es) s1)"
    using cr none d by (auto simp: do_create_def Let_def s1_def fresh_def)
  have new: "fs_inodes s (fs_next s) = None" using h by (auto simp: holds_def wf_dir_def)
  then have dn: "d \<noteq> fs_next s" using d by auto
  have d1: "fs_inodes s1 d \<noteq> None" using d by (simp add: s1_def)
  have e1: "entries_of s1 d = entries_of s d" using dn by (simp add: entries_of_def s1_def)
  have l: "lookup s' d x = (if x = temp then Some fd else lookup s d x)" for x
    unfolding s' by (simp add: lookup_set_entries [OF d1] e1 fd) (simp add: lookup_def)
  have dat: "map_option idata (fs_inodes s' n) = (if n = fd then Some [] else map_option idata (fs_inodes s n))" for n
    unfolding s' by (simp add: data_set_entries fd s1_def fresh_def)
  have nn: "fs_inodes s' n = None \<longleftrightarrow> n \<noteq> fd \<and> fs_inodes s n = None" for n
    unfolding s' by (simp add: fd s1_def)
  have nx: "fs_next s' = Suc fd" unfolding s' by (simp add: s1_def fd)
  have used: "lookup s d x \<noteq> Some fd" for x
    using h new fd unfolding holds_def wf_dir_def by blast
  have "n < Suc fd" if "fs_inodes s n \<noteq> None" for n
    using h that fd by (auto simp: holds_def wf_dir_def less_Suc_eq)
  moreover have "file_content s' d name = c"
    using h ne used by (auto simp: holds_def file_content_eq l dat split: option.splits Option.bind_splits)
  ultimately show ?thesis
    using h ne used by (auto simp: holds_temp_def holds_def wf_dir_def l dat nn nx split: if_splits)
qed

lemma holds_create_fails: "do_create uid gid d temp mode s = (Inl e, s') \<Longrightarrow> s' = s"
  by (auto simp: do_create_def Let_def split: option.splits)


lemma holds_write:
  assumes "holds_temp d name c fd temp data s"
  shows "holds_temp d name c fd temp (data @ bs) (do_write fd bs s)"
proof -
  let ?f = "\<lambda>i. i\<lparr>idata := idata i @ bs, imtime := fs_clock s, ictime := fs_clock s\<rparr>"
  have s': "do_write fd bs s = tick (upd_inode fd ?f s)" by (simp add: do_write_def)
  have l: "lookup (do_write fd bs s) e x = lookup s e x" for e x
    unfolding s' by simp
  have dat: "map_option idata (fs_inodes (do_write fd bs s) n)
      = (if n = fd then map_option (\<lambda>i. idata i @ bs) (fs_inodes s n) else map_option idata (fs_inodes s n))" for n
    unfolding s' by (simp add: fs_inodes_upd option.map_comp comp_def)
  have nn: "fs_inodes (do_write fd bs s) n = None \<longleftrightarrow> fs_inodes s n = None" for n
    unfolding s' by simp
  have nx: "fs_next (do_write fd bs s) = fs_next s" unfolding s' by simp
  have "file_content (do_write fd bs s) d name = c"
    using assms by (auto simp: holds_temp_def holds_def file_content_eq l dat split: Option.bind_splits)
  then show ?thesis
    using assms by (auto simp: holds_temp_def holds_def wf_dir_def l dat nn nx)
qed

lemma holds_replace:
  assumes h: "holds_temp d name c fd temp data s" and r: "do_replace d temp name s = (Inr u, s')"
  shows "holds d name (Some data) s'"
proof -
  have h0: "holds d name c s" and t: "lookup s d temp = Some fd" and n: "lookup s d name \<noteq> Some fd"
      and ne: "temp \<noteq> name" and dat: "map_option idata (fs_inodes s fd) = Some data"
    using h by (auto simp: holds_temp_def)
  have wf: "lookup s d x = Some k \<Longrightarrow> fs_inodes s k \<noteq> None" for x k
    using h0 by (simp add: holds_def wf_dir_def)
  have fd: "fs_inodes s fd \<noteq> None" using wf t by blast
  show ?thesis
  proof (cases "lookup s d name")
    case None
    then have s': "s' = tick (set_entries d (\<lambda>es. (name, fd) # AList.delete temp es) (upd_inode fd (\<lambda>i. i) s))"
      using r t by (simp add: do_replace_def)
    show ?thesis unfolding s'
      using wf fd dat
      by (intro holds_entries [OF h0]) (auto simp: delete_conv' lookup_def split: if_splits)
  next
    case (Some m)
    then have s': "s' = tick (set_entries d (\<lambda>es. (name, fd) # AList.delete name (AList.delete temp es))
          (upd_inode m (\<lambda>i. touch s (i\<lparr>inlink := inlink i - 1\<rparr>)) s))"
      using r t n by (auto simp: do_replace_def split: if_splits)
    show ?thesis unfolding s'
      using wf fd dat
      by (intro holds_entries [OF h0]) (auto simp: delete_conv' lookup_def touch_def split: if_splits)
  qed
qed

lemma holds_link:
  assumes h: "holds_temp d name c fd temp data s" and r: "do_link d temp name s = (Inr u, s')"
  shows "c = None" "holds d name (Some data) s'"
proof -
  have h0: "holds d name c s" and t: "lookup s d temp = Some fd" and dat: "map_option idata (fs_inodes s fd) = Some data"
    using h by (auto simp: holds_temp_def)
  have wf: "lookup s d x = Some k \<Longrightarrow> fs_inodes s k \<noteq> None" for x k
    using h0 by (simp add: holds_def wf_dir_def)
  have none: "lookup s d name = None" using r t by (auto simp: do_link_def split: if_splits option.splits)
  then show "c = None" using h0 by (simp add: holds_def file_content_eq)
  have s': "s' = tick (set_entries d (\<lambda>es. (name, fd) # es)
      (upd_inode fd (\<lambda>i. touch s (i\<lparr>inlink := Suc (inlink i)\<rparr>)) s))"
    using r t none by (simp add: do_link_def)
  show "holds d name (Some data) s'" unfolding s'
    using wf t dat
    by (intro holds_entries [OF h0]) (auto simp: lookup_def touch_def split: if_splits)
qed

lemma replace_fails: "do_replace d a b s = (Inl e, s') \<Longrightarrow> s' = s"
  by (auto simp: do_replace_def split: option.splits if_splits)

lemma link_fails: "do_link d a b s = (Inl e, s') \<Longrightarrow> s' = s"
  by (auto simp: do_link_def split: option.splits if_splits)

subsection \<open>System calls on one published name\<close>

lemma triple_unlink:
  "x \<noteq> name \<Longrightarrow> triple (has_fs (holds d name c)) (os_unlink d x) (\<lambda>_. has_fs (holds d name c)) (has_fs (holds d name c))"
  unfolding os_unlink_def by (rule triple_syscall) (auto dest: holds_unlink)

lemma triple_create:
  "temp \<noteq> name \<Longrightarrow>
     triple (has_fs (holds d name c)) (os_create d temp mode)
       (\<lambda>fd. has_fs (holds_temp d name c fd temp [])) (has_fs (holds d name c))"
  unfolding os_create_def
  by (rule triple_syscall) (auto dest: holds_create holds_create_fails)

lemma triple_write:
  "triple (has_fs (holds_temp d name c fd temp data)) (os_write fd bs)
     (\<lambda>k. has_fs (holds_temp d name c fd temp (data @ take k bs))) (has_fs (holds d name c))"
  unfolding os_write_def
  by (rule triple_syscall) (auto simp: Let_def intro: holds_write holds_temp_holds)

lemma triple_replace:
  "triple (has_fs (holds_temp d name c fd temp data)) (os_replace d temp name)
     (\<lambda>_. has_fs (holds d name (Some data))) (has_fs (holds d name c))"
  unfolding os_replace_def
  by (rule triple_syscall) (auto dest: replace_fails intro: holds_replace holds_temp_holds)

lemma triple_link:
  "triple (has_fs (holds_temp d name c fd temp data)) (os_link d temp name)
     (\<lambda>_. has_fs (\<lambda>s. c = None \<and> holds d name (Some data) s)) (has_fs (holds d name c))"
  unfolding os_link_def
  by (rule triple_syscall) (auto dest: link_fails intro: holds_link holds_temp_holds)

end
