(* ===== verification/Journal_Atomicity.thy ===== *)
theory Journal_Atomicity
  imports Journal_Store Dir_Logic
begin

text \<open>
  What the journal store promises when the process can be killed before any system call,
  any call can fail and reads and writes can be short: the published journal is replaced as a
  whole or not at all, a creation never touches an existing one, and the value returned is
  the one on disk.  The only assumption is that no other process changes the directory,
  which the exclusive lock is there for.
\<close>

subsection \<open>Reading\<close>

lemma triple_security: "triple (has_fs I) (security m) Q (has_fs I)"
  unfolding security_def by (rule triple_raise)

lemma triple_os_errors_as:
  "triple P m Q (has_fs I) \<Longrightarrow> triple P (os_errors_as msg m) Q (has_fs I)"
  unfolding os_errors_as_def
  by (rule triple_catch) (auto intro: triple_security triple_raise)

lemma read_chunks_spec:
  "triple (has_fs (\<lambda>s. s = s0)) (read_chunks fuel fd pos remaining)
     (\<lambda>bs. has_fs (\<lambda>s. s = s0 \<and> (\<forall>i. fs_inodes s fd = Some i \<longrightarrow> bs = take remaining (drop pos (idata i)))))
     (has_fs (\<lambda>s. s = s0))"
proof (induction fuel arbitrary: pos remaining)
  case 0
  show ?case by (auto intro: triple_raise)
next
  case (Suc fuel)
  show ?case
  proof (cases "remaining = 0")
    case True
    then show ?thesis by (auto intro: triple_return simp: has_fs_def)
  next
    case False
    show ?thesis
      unfolding read_chunks.simps if_not_P [OF False]
    proof (rule triple_bind [OF triple_read])
      fix chunk
      show "triple (has_fs (\<lambda>s. s = s0 \<and> os_read_result fd s pos (min 65536 remaining) chunk))
         (if chunk = [] then return []
          else bindW (read_chunks fuel fd (pos + length chunk) (remaining - length chunk)) (\<lambda>rest. return (chunk @ rest)))
         (\<lambda>bs. has_fs (\<lambda>s. s = s0 \<and> (\<forall>i. fs_inodes s fd = Some i \<longrightarrow> bs = take remaining (drop pos (idata i)))))
         (has_fs (\<lambda>s. s = s0))"
      proof (cases "os_read_result fd s0 pos (min 65536 remaining) chunk")
        case False
        then show ?thesis by (auto simp: triple_def has_fs_def)
      next
        case True
        then obtain i k where i: "fs_inodes s0 fd = Some i" and k: "0 < k"
            and chunk: "chunk = take (min (min 65536 remaining) k) (drop pos (idata i))"
          by (auto simp: os_read_result_def)
        show ?thesis
        proof (cases "chunk = []")
          case True
          then have "drop pos (idata i) = []" using chunk k \<open>remaining \<noteq> 0\<close> by (auto simp: min_def split: if_splits)
          then show ?thesis using True i by (auto intro!: triple_return simp: has_fs_def)
        next
          case ne: False
          have len: "length chunk \<le> remaining" using chunk by simp
          have app: "chunk @ take (remaining - length chunk) (drop (pos + length chunk) (idata i))
              = take remaining (drop pos (idata i))"
          proof -
            have c: "chunk = take (length chunk) (drop pos (idata i))" using chunk by (metis append_eq_conv_conj append_take_drop_id)
            have "take remaining (drop pos (idata i)) = take (length chunk) (drop pos (idata i))
               @ take (remaining - length chunk) (drop (length chunk) (drop pos (idata i)))"
              using len by (metis le_add_diff_inverse take_add)
            then show ?thesis using c by (metis add.commute drop_drop)
          qed
          have "triple (has_fs (\<lambda>s. s = s0)) (bindW (read_chunks fuel fd (pos + length chunk) (remaining - length chunk)) (\<lambda>rest. return (chunk @ rest)))
             (\<lambda>bs. has_fs (\<lambda>s. s = s0 \<and> (\<forall>i. fs_inodes s fd = Some i \<longrightarrow> bs = take remaining (drop pos (idata i)))))
             (has_fs (\<lambda>s. s = s0))"
            using i app by (intro triple_bind [OF Suc.IH] triple_return) (auto simp: has_fs_def)
          then show ?thesis using ne True by (auto simp: triple_def has_fs_def)
        qed
      qed
    qed
  qed
qed

lemma decode_length: "decode raw = Inr r \<Longrightarrow> length raw \<le> max_journal_bytes"
  by (auto simp: decode_def)

definition read_result :: "policy \<Rightarrow> nat \<Rightarrow> pystr \<Rightarrow> nat list \<Rightarrow> journal_record \<times> stat_result \<Rightarrow> fs \<Rightarrow> bool" where
  "read_result pol d filename allowed rm s =
     (\<exists>n i. lookup s d filename = Some n \<and> fs_inodes s n = Some i \<and> decode (idata i) = Inr (fst rm)
        \<and> snd rm = stat_of n i \<and> accepts pol (snd rm) False allowed)"

lemma read_at_spec:
  "triple (has_fs I) (read_at pol d filename allowed)
     (\<lambda>rm. has_fs (\<lambda>s. I s \<and> read_result pol d filename allowed rm s)) (has_fs I)"
  unfolding read_at_def
proof (rule triple_fixed, rule triple_at_bind, rule triple_os_errors_as, rule triple_open_at,
    rule triple_at_bind, rule triple_fstat, rule triple_at_raise_when, rule triple_at_bind, rule read_chunks_spec,
    rule triple_at_bind, rule triple_fstat, rule triple_at_bind, rule triple_os_errors_as, rule triple_stat_at,
    rule triple_at_raise_when, rule triple_at_lift, goal_cases)
  case (1 s0 fd before raw after published r)
  then obtain i where i: "fs_inodes s0 fd = Some i" "after = stat_of fd i" by auto
  have pub: "lookup s0 d filename = Some fd" using 1 by simp
  have raw: "raw = take (max_journal_bytes + 1) (idata i)" using 1 i by simp
  have "length raw \<le> max_journal_bytes" using decode_length 1 by blast
  then have "raw = idata i" using raw by (cases "length (idata i) \<le> max_journal_bytes") auto
  then show ?case
    using 1 i pub by (intro triple_return) (auto simp: has_fs_def read_result_def)
qed

lemma directory_entries_spec:
  "triple (has_fs I) (directory_entries d) (\<lambda>ns. has_fs (\<lambda>s. I s \<and> ns = map fst (entries_of s d))) (has_fs I)"
  unfolding directory_entries_def
  by (rule triple_fixed, rule triple_os_errors_as, rule triple_at_bind, rule triple_scandir, rule triple_at_lift,
      rule triple_return) (simp add: has_fs_def)

lemma temp_not_published: "starts_with (temp_prefix filename) name \<Longrightarrow> name \<noteq> filename"
  by (auto simp: temp_prefix_def starts_with_iff dest: arg_cong [where f = length])

lemma candidate_not_published: "name \<in> set (temp_candidates filename entries) \<Longrightarrow> name \<noteq> filename"
  by (auto simp: temp_candidates_def temp_not_published)

lemma sole_temp_mem: "sole_temp filename cs \<Longrightarrow> hd cs \<in> set cs"
  by (cases cs) (auto simp: sole_temp_def)

lemma validate_linked_create_spec:
  "triple (has_fs I) (validate_linked_create pol d filename expected final)
     (\<lambda>name. has_fs (\<lambda>s. I s \<and> name \<noteq> filename)) (has_fs I)"
  unfolding validate_linked_create_def Let_def
  by (rule triple_fixed, rule triple_at_bind, rule directory_entries_spec, rule triple_at_raise_when,
      rule triple_at_bind, rule read_at_spec, unfold case_prod_beta, rule triple_at_raise_when, rule triple_return)
     (auto simp: has_fs_def dest: sole_temp_mem candidate_not_published)

lemma recover_linked_create_spec:
  "triple (has_fs (holds d filename c)) (recover_linked_create pol d filename expected final)
     (\<lambda>_. has_fs (holds d filename c)) (has_fs (holds d filename c))"
  unfolding recover_linked_create_def
proof (rule triple_bind [OF validate_linked_create_spec], goal_cases)
  case (1 name)
  show ?case
  proof (cases "name = filename")
    case False
    then show ?thesis
      by (auto intro: triple_seq [OF triple_unlink triple_fsync])
  qed (simp add: triple_def has_fs_def)
qed

lemma read_result_content:
  "read_result pol d filename allowed rm s \<Longrightarrow> \<exists>raw. file_content s d filename = Some raw \<and> decode raw = Inr (fst rm)"
  by (auto simp: read_result_def file_content_def)

definition publishes :: "nat \<Rightarrow> pystr \<Rightarrow> bytes option \<Rightarrow> journal_record \<Rightarrow> fs \<Rightarrow> bool" where
  "publishes d filename c r s = (holds d filename c s \<and> (\<exists>raw. c = Some raw \<and> decode raw = Inr r))"

lemma read_published:
  "triple (has_fs (holds d filename c)) (read_at pol d filename allowed)
     (\<lambda>rm. has_fs (publishes d filename c (fst rm))) (has_fs (holds d filename c))"
  by (rule triple_has_fs_conseq [OF read_at_spec])
     (auto simp: publishes_def holds_def dest: read_result_content)

lemma load_at_spec:
  "triple (has_fs (holds d filename c)) (load_at pol d filename recover)
     (\<lambda>r. has_fs (publishes d filename c r)) (has_fs (holds d filename c))"
  unfolding load_at_def
proof (rule triple_bind [OF read_published], unfold case_prod_beta, rule triple_if, goal_cases)
  case (1 rm)
  then show ?case by (auto intro: triple_return)
next
  case (2 rm)
  have weak: "has_fs (publishes d filename c (fst rm)) w \<Longrightarrow> has_fs (holds d filename c) w" for w
    by (auto simp: has_fs_def publishes_def)
  have "triple (has_fs (holds d filename c))
     (seqW (raise_when (\<not> recover) (JournalSecurityError ''journal has an unresolved hard-link residue''))
       (seqW (recover_linked_create pol d filename (fst rm) (snd rm))
         (bindW (read_at pol d filename [1]) (\<lambda>x. return (fst x)))))
     (\<lambda>r. has_fs (publishes d filename c r)) (has_fs (holds d filename c))"
    by (intro triple_seq [where R = "has_fs (holds d filename c)"] triple_raise_when recover_linked_create_spec
        triple_bind [OF read_published] triple_return)
  then show ?case using weak by (rule triple_conseq)
qed

lemma cleanup_one_spec:
  assumes "starts_with (temp_prefix filename) name"
  shows "triple (has_fs (holds d filename c)) (cleanup_one pol d filename expected name)
     (\<lambda>_. has_fs (holds d filename c)) (has_fs (holds d filename c))"
  unfolding cleanup_one_def case_prod_beta
proof (intro triple_seq [where R = "has_fs (holds d filename c)"] triple_raise_when triple_bind
    [where R = "\<lambda>_. has_fs (holds d filename c)"] triple_if triple_return triple_unlink
    triple_catch [where E' = "has_fs (holds d filename c)"] triple_security triple_raise triple_os_errors_as)
  show "triple (has_fs (holds d filename c)) (read_at pol d name [1, 2])
     (\<lambda>_. has_fs (holds d filename c)) (has_fs (holds d filename c))"
    by (rule triple_has_fs_conseq [OF read_at_spec]) auto
  show "triple (has_fs (holds d filename c)) (os_stat_at d filename)
     (\<lambda>_. has_fs (holds d filename c)) (has_fs (holds d filename c))"
    by (rule triple_has_fs_conseq [OF triple_stat_at]) auto
  show "name \<noteq> filename" by (rule temp_not_published [OF assms])
qed auto

lemma cleanup_loop_spec:
  "(\<And>n. n \<in> set names \<Longrightarrow> starts_with (temp_prefix filename) n) \<Longrightarrow>
   triple (has_fs (holds d filename c)) (cleanup_loop pol d filename expected names)
     (\<lambda>_. has_fs (holds d filename c)) (has_fs (holds d filename c))"
  by (induction names) (auto intro: triple_return triple_seq [OF cleanup_one_spec])

lemma cleanup_stale_temps_spec:
  "triple (has_fs (holds d filename c)) (cleanup_stale_temps pol d filename expected)
     (\<lambda>_. has_fs (holds d filename c)) (has_fs (holds d filename c))"
  unfolding cleanup_stale_temps_def Let_def
proof (intro triple_bind [where R = "\<lambda>_. has_fs (holds d filename c)"]
    triple_seq [where R = "has_fs (holds d filename c)"] triple_raise_when triple_if triple_return triple_fsync
    cleanup_loop_spec)
  show "triple (has_fs (holds d filename c)) (directory_entries d)
     (\<lambda>_. has_fs (holds d filename c)) (has_fs (holds d filename c))"
    by (rule triple_has_fs_conseq [OF directory_entries_spec]) auto
qed (auto simp: temp_candidates_def)

definition slot_ok :: "nat \<Rightarrow> pystr \<Rightarrow> bytes option \<Rightarrow> (nat \<times> pystr) option \<Rightarrow> fs \<Rightarrow> bool" where
  "slot_ok d filename c slot s =
     (case slot of None \<Rightarrow> holds d filename c s | Some (fd, temp) \<Rightarrow> holds_temp d filename c fd temp [] s)"

lemma alloc_temp_spec:
  "triple (has_fs (holds d filename c)) (alloc_temp tries d (temp_prefix filename) mode)
     (\<lambda>slot. has_fs (slot_ok d filename c slot)) (has_fs (holds d filename c))"
proof (induction tries)
  case 0
  show ?case by (auto intro: triple_return simp: slot_ok_def)
next
  case (Suc tries)
  show ?case
    unfolding alloc_temp.simps
  proof (rule triple_bind [OF triple_token_hex], rule triple_catch [where E' = "has_fs (holds d filename c)"], goal_cases)
    case (1 token)
    have "temp_prefix filename @ token \<noteq> filename" by (rule temp_not_published) simp
    then show ?case
      by (rule triple_bind [OF triple_create]) (auto intro: triple_return simp: slot_ok_def)
  next
    case (2 token e)
    then show ?case by (auto intro: Suc.IH triple_raise)
  qed
qed

lemma write_all_spec:
  "triple (has_fs (holds_temp d filename c fd temp data)) (write_all fuel fd rest)
     (\<lambda>_. has_fs (holds_temp d filename c fd temp (data @ rest))) (has_fs (holds d filename c))"
proof (induction fuel arbitrary: data rest)
  case 0
  show ?case by (auto intro!: triple_raise simp: has_fs_def holds_temp_holds)
next
  case (Suc fuel)
  have app: "data @ rest = (data @ take k rest) @ drop k rest" for k by simp
  have "triple (has_fs (holds_temp d filename c fd temp (data @ take k rest)))
      (seqW (raise_when (k = 0) (JournalError ''journal write made no progress''))
         (write_all fuel fd (drop k rest)))
      (\<lambda>_. has_fs (holds_temp d filename c fd temp (data @ rest))) (has_fs (holds d filename c))" for k
    unfolding app [of k]
    by (rule triple_seq [OF triple_raise_when Suc.IH]) (auto simp: has_fs_def holds_temp_holds)
  then show ?case
    by (auto intro!: triple_return triple_bind [OF triple_write])
qed

lemma fill_temp_spec:
  "triple (has_fs (holds_temp d filename c fd temp [])) (fill_temp pol fd payload)
     (\<lambda>_. has_fs (holds_temp d filename c fd temp payload)) (has_fs (holds d filename c))"
  unfolding fill_temp_def
proof (rule triple_bind [where R = "\<lambda>_. has_fs (holds_temp d filename c fd temp [])"], goal_cases)
  case 1
  show ?case
    by (rule triple_has_fs_conseq [OF triple_fstat, of _ "holds_temp d filename c fd temp []" _ "\<lambda>_. holds_temp d filename c fd temp []"])
       (auto intro: holds_temp_holds)
next
  case (2 m)
  have w: "triple (has_fs (holds_temp d filename c fd temp [])) (write_all (Suc (length payload)) fd payload)
      (\<lambda>_. has_fs (holds_temp d filename c fd temp payload)) (has_fs (holds d filename c))"
    using write_all_spec [of d filename c fd temp "[]"] by (simp del: write_all.simps)
  have f: "triple (has_fs (holds_temp d filename c fd temp payload)) (os_fsync fd)
      (\<lambda>_. has_fs (holds_temp d filename c fd temp payload)) (has_fs (holds d filename c))"
    by (rule triple_has_fs_conseq [OF triple_fsync [of "holds_temp d filename c fd temp payload"]])
      (auto intro: holds_temp_holds)
  show ?case
    by (rule triple_seq [OF triple_raise_when triple_seq [OF w f]]) (auto simp: has_fs_def holds_temp_holds)
qed

lemma unlink_quietly_spec:
  "temp \<noteq> filename \<Longrightarrow> triple (has_fs (holds d filename c)) (unlink_quietly d temp)
     (\<lambda>_. has_fs (holds d filename c)) (has_fs (holds d filename c))"
  unfolding unlink_quietly_def
  by (rule triple_catch [OF triple_unlink]) (auto intro: triple_return triple_raise)

text \<open>When the protected program fails, the published content is one of two.\<close>

lemma or_unlink_spec:
  assumes "temp \<noteq> filename" "triple P m Q (has_fs (\<lambda>s. \<exists>c \<in> C. holds d filename c s))"
  shows "triple P (or_unlink d temp m) Q (has_fs (\<lambda>s. \<exists>c \<in> C. holds d filename c s))"
proof -
  have "triple (has_fs (\<lambda>s. \<exists>c \<in> C. holds d filename c s)) (seqW (unlink_quietly d temp) (raise e)) Q
     (has_fs (\<lambda>s. \<exists>c \<in> C. holds d filename c s))" for e
  proof (rule triple_seq [OF triple_some triple_raise])
    show "triple (has_fs (holds d filename c)) (unlink_quietly d temp)
        (\<lambda>_. has_fs (\<lambda>s. \<exists>c \<in> C. holds d filename c s)) (has_fs (\<lambda>s. \<exists>c \<in> C. holds d filename c s))"
      if "c \<in> C" for c
      by (rule triple_has_fs_conseq [OF unlink_quietly_spec [OF assms(1), of d c]]) (use that in auto)
  qed auto
  then show ?thesis
    unfolding or_unlink_def by (intro triple_catch [OF assms(2)]) auto
qed

lemma new_temp_spec:
  "triple (has_fs (holds d filename c)) (new_temp pol d filename r)
     (\<lambda>temp. has_fs (\<lambda>s. \<exists>payload fd. encode r = Inr payload \<and> holds_temp d filename c fd temp payload s))
     (has_fs (holds d filename c))"
  unfolding new_temp_def
proof (rule triple_bind [OF triple_lift [where Q = "\<lambda>payload w. has_fs (holds d filename c) w \<and> encode r = Inr payload"]],
    assumption, simp, rule triple_pure, rule triple_bind [OF alloc_temp_spec], goal_cases)
  case (1 payload slot)
  show ?case
  proof (cases slot)
    case None
    then show ?thesis by (auto intro!: triple_raise simp: slot_ok_def has_fs_def)
  next
    case (Some p)
    obtain fd temp where p: "p = (fd, temp)" by (cases p)
    show ?thesis
    proof (cases "temp = filename")
      case True
      then show ?thesis using Some p by (simp add: triple_def has_fs_def slot_ok_def holds_temp_def)
    next
      case False
      have "triple (has_fs (holds_temp d filename c fd temp [])) (or_unlink d temp (fill_temp pol fd payload))
         (\<lambda>_. has_fs (holds_temp d filename c fd temp payload)) (has_fs (\<lambda>s. \<exists>c' \<in> {c}. holds d filename c' s))"
        using fill_temp_spec [of d filename c fd temp pol payload] by (intro or_unlink_spec [OF False]) simp
      moreover have "slot_ok d filename c slot = holds_temp d filename c fd temp []"
        using Some p by (simp add: slot_ok_def fun_eq_iff)
      ultimately show ?thesis
        using 1 Some p
        by (auto intro!: triple_seq [where R = "has_fs (holds_temp d filename c fd temp payload)"] triple_return
            simp: has_fs_def)
    qed
  qed
qed

text \<open>The published content is the old one or the encoding of the new record.\<close>

definition old_or_new :: "bytes option \<Rightarrow> journal_record \<Rightarrow> bytes option set" where
  "old_or_new c r = insert c {Some p | p. encode r = Inr p}"

abbreviation either :: "nat \<Rightarrow> pystr \<Rightarrow> bytes option set \<Rightarrow> fs \<Rightarrow> bool" where
  "either d filename C s \<equiv> \<exists>c \<in> C. holds d filename c s"

definition written :: "nat \<Rightarrow> pystr \<Rightarrow> journal_record \<Rightarrow> fs \<Rightarrow> bool" where
  "written d filename r s = (\<exists>p. encode r = Inr p \<and> holds d filename (Some p) s)"

lemma written_either: "written d filename r s \<Longrightarrow> either d filename (old_or_new c r) s"
  by (auto simp: written_def old_or_new_def)

lemma triple_temp_payload:
  assumes "\<And>payload fd. encode r = Inr payload \<Longrightarrow> temp \<noteq> filename \<Longrightarrow>
      triple (has_fs (holds_temp d filename c fd temp payload)) m Q E"
  shows "triple (has_fs (\<lambda>s. \<exists>payload fd. encode r = Inr payload \<and> holds_temp d filename c fd temp payload s)) m Q E"
proof (rule tripleI)
  fix w
  assume "has_fs (\<lambda>s. \<exists>payload fd. encode r = Inr payload \<and> holds_temp d filename c fd temp payload s) w"
  then obtain payload fd where "encode r = Inr payload" "has_fs (holds_temp d filename c fd temp payload) w"
      "temp \<noteq> filename"
    by (auto simp: has_fs_def holds_temp_def)
  then show "case m w of (Ret x, w') \<Rightarrow> Q x w' | (Raise e, w') \<Rightarrow> E w' | (Killed, w') \<Rightarrow> E w'"
    using assms [of payload fd] by (simp add: triple_def)
qed

lemma fsync_written:
  "encode r = Inr payload \<Longrightarrow>
    triple (has_fs (holds d filename (Some payload))) (os_fsync n) (\<lambda>_. has_fs (written d filename r))
     (has_fs (either d filename (old_or_new c r)))"
  by (rule triple_has_fs_conseq [OF triple_fsync [of "holds d filename (Some payload)"]])
     (auto simp: written_def old_or_new_def)

lemma atomic_replace_spec:
  "triple (has_fs (holds d filename c)) (atomic_replace pol d filename r)
     (\<lambda>_. has_fs (written d filename r)) (has_fs (either d filename (old_or_new c r)))"
  unfolding atomic_replace_def
proof (rule triple_bind, rule triple_has_fs_conseq [OF new_temp_spec], assumption, assumption,
    simp add: old_or_new_def, rule triple_temp_payload, goal_cases)
  case (1 temp payload fd)
  have "triple (has_fs (holds_temp d filename c fd temp payload)) (os_replace d temp filename)
      (\<lambda>_. has_fs (holds d filename (Some payload))) (has_fs (either d filename (old_or_new c r)))"
    by (rule triple_has_fs_conseq [OF triple_replace]) (auto simp: old_or_new_def)
  then show ?case
    using 1 by (intro or_unlink_spec triple_seq [OF _ fsync_written])
qed

lemma link_new_spec:
  "triple (has_fs (holds_temp d filename c fd temp payload)) (link_new d temp filename)
     (\<lambda>_. has_fs (\<lambda>s. c = None \<and> holds d filename (Some payload) s)) (has_fs (holds d filename c))"
  unfolding link_new_def
  by (rule triple_catch [OF triple_link]) (auto intro: triple_raise)

text \<open>A creation leaves an existing file alone.\<close>

definition none_or_new :: "bytes option \<Rightarrow> journal_record \<Rightarrow> bytes option set" where
  "none_or_new c r = (if c = None then old_or_new None r else {c})"

lemma none_or_new_old [simp]: "c \<in> none_or_new c r"
  by (simp add: none_or_new_def old_or_new_def)

lemma none_or_new_new: "encode r = Inr p \<Longrightarrow> Some p \<in> none_or_new None r"
  by (simp add: none_or_new_def old_or_new_def)

lemma atomic_create_spec:
  "triple (has_fs (holds d filename c)) (atomic_create pol d filename r)
     (\<lambda>_. has_fs (\<lambda>s. c = None \<and> written d filename r s)) (has_fs (either d filename (none_or_new c r)))"
  unfolding atomic_create_def
proof (rule triple_bind, rule triple_has_fs_conseq [OF new_temp_spec], assumption, assumption,
    rule bexI, assumption, simp, rule triple_temp_payload, goal_cases)
  case (1 temp payload fd)
  let ?I = "\<lambda>s. c = None \<and> holds d filename (Some payload) s"
  let ?E = "has_fs (either d filename (none_or_new c r))"
  have I: "?I s \<Longrightarrow> either d filename (none_or_new c r) s" for s
    using none_or_new_new [OF 1(1)] by auto
  have l: "triple (has_fs (holds_temp d filename c fd temp payload)) (link_new d temp filename) (\<lambda>_. has_fs ?I) ?E"
    by (rule triple_has_fs_conseq [OF link_new_spec]) auto
  have f: "triple (has_fs ?I) (os_fsync d) (\<lambda>_. has_fs ?I) ?E"
    by (rule triple_has_fs_conseq [OF triple_fsync [of ?I]], assumption, assumption, rule I)
  have f': "triple (has_fs ?I) (os_fsync d) (\<lambda>_. has_fs (\<lambda>s. c = None \<and> written d filename r s)) ?E"
    using 1 by (intro triple_has_fs_conseq [OF f]) (auto simp: written_def)
  have u: "triple (has_fs ?I) (os_unlink d temp) (\<lambda>_. has_fs ?I) ?E"
  proof (cases "c = None")
    case True
    then show ?thesis
      using 1 I by (intro triple_has_fs_conseq [OF triple_unlink [of temp filename d "Some payload"]]) auto
  qed (auto simp: triple_def has_fs_def)
  show ?case
    using 1 by (intro or_unlink_spec triple_seq [OF l triple_seq [OF f triple_seq [OF u f']]])
qed

lemma load_written:
  "triple (has_fs (holds d filename (Some p))) (load_at pol d filename recover)
     (\<lambda>x. has_fs (\<lambda>s. holds d filename (Some p) s \<and> decode p = Inr x)) (has_fs (holds d filename (Some p)))"
  by (rule triple_has_fs_conseq [OF load_at_spec [of d filename "Some p"]]) (auto simp: publishes_def)

definition stored :: "nat \<Rightarrow> pystr \<Rightarrow> journal_record \<Rightarrow> journal_record \<Rightarrow> fs \<Rightarrow> bool" where
  "stored d filename r x s = (\<exists>p. encode r = Inr p \<and> holds d filename (Some p) s \<and> decode p = Inr x)"

lemma load_after_write:
  assumes "\<And>p. encode r = Inr p \<Longrightarrow> Some p \<in> C"
  shows "triple (has_fs (written d filename r)) (load_at pol d filename recover)
     (\<lambda>x. has_fs (stored d filename r x)) (has_fs (either d filename C))"
proof (rule tripleI)
  fix w assume "has_fs (written d filename r) w"
  then obtain p where p: "encode r = Inr p" "has_fs (holds d filename (Some p)) w"
    by (auto simp: has_fs_def written_def)
  obtain out w' where o: "load_at pol d filename recover w = (out, w')" by fastforce
  from tripleD [OF load_written p(2) o] p(1) assms
  show "case load_at pol d filename recover w of
      (Ret x, w') \<Rightarrow> has_fs (stored d filename r x) w'
    | (Raise e, w') \<Rightarrow> has_fs (either d filename C) w'
    | (Killed, w') \<Rightarrow> has_fs (either d filename C) w'"
    unfolding o by (cases out) (auto simp: has_fs_def stored_def)
qed

lemma require_absent_spec:
  assumes "\<And>e. triple (has_fs I) (h e) (\<lambda>_. has_fs I) (has_fs I)"
  shows "triple (has_fs I) (require_absent d filename h e) (\<lambda>_. has_fs I) (has_fs I)"
proof -
  have st: "triple (has_fs I) (bindW (os_stat_at d filename) (\<lambda>_. return True)) (\<lambda>_. has_fs I) (has_fs I)"
    by (rule triple_bind [OF triple_stat_at]) (auto intro!: triple_return simp: has_fs_def)
  show ?thesis
    unfolding require_absent_def
    by (intro triple_bind [where R = "\<lambda>_. has_fs I"] triple_catch [OF st] triple_raise_when)
       (auto intro!: triple_return triple_seq [OF assms])
qed

lemma create_at_spec:
  assumes "journal_filename (install_id r) = Inr filename"
  shows "triple (has_fs (holds d filename c)) (create_at pol d r)
     (\<lambda>x. has_fs (\<lambda>s. c = None \<and> stored d filename r x s)) (has_fs (either d filename (none_or_new c r)))"
proof -
  let ?H = "has_fs (holds d filename c)" and ?E = "has_fs (either d filename (none_or_new c r))"
  have weak: "?H w \<Longrightarrow> ?E w" for w by (auto simp: has_fs_def)
  have cl: "triple ?H (cleanup_stale_temps pol d filename [r]) (\<lambda>_. ?H) ?E"
    by (rule triple_conseq [OF cleanup_stale_temps_spec]) (auto intro: weak)
  have ab: "triple ?H (require_absent d filename raise (JournalConflict ''journal already exists'')) (\<lambda>_. ?H) ?E"
    by (rule triple_conseq [OF require_absent_spec [of "holds d filename c"]]) (auto intro: weak triple_raise)
  have ld: "triple (has_fs (\<lambda>s. c = None \<and> written d filename r s)) (load_at pol d filename True)
     (\<lambda>x. has_fs (\<lambda>s. c = None \<and> stored d filename r x s)) ?E"
  proof (cases "c = None")
    case True
    then show ?thesis
      using load_after_write [of r "none_or_new None r" d filename pol True] none_or_new_new by simp
  qed (auto simp: triple_def has_fs_def)
  show ?thesis
    unfolding create_at_def assms
    by (intro triple_seq [OF triple_raise_when, where R = ?H]
          triple_bind [OF triple_lift [where Q = "\<lambda>f w. ?H w \<and> f = filename"]] triple_pure)
       (auto intro: weak triple_seq [OF cl] triple_seq [OF ab] triple_seq [OF atomic_create_spec] ld)
qed

definition moved_to :: "bytes option \<Rightarrow> journal_state \<Rightarrow> journal_record \<Rightarrow> bool" where
  "moved_to c st r' = (\<exists>raw r. c = Some raw \<and> decode raw = Inr r \<and> st \<in> set (allowed_transitions (state_of r))
     \<and> advanced r st = Inr r')"

definition old_or_moved :: "bytes option \<Rightarrow> journal_state \<Rightarrow> bytes option set" where
  "old_or_moved c st = insert c {Some p | p r'. moved_to c st r' \<and> encode r' = Inr p}"

lemma transition_at_spec:
  assumes "journal_filename iid = Inr filename"
  shows "triple (has_fs (holds d filename c)) (transition_at pol d iid pid phash rs st)
     (\<lambda>x. has_fs (\<lambda>s. \<exists>r'. moved_to c st r' \<and> plan_id r' = pid \<and> plan_hash r' = phash \<and> resources r' = rs
        \<and> stored d filename r' x s))
     (has_fs (either d filename (old_or_moved c st)))"
proof -
  let ?H = "has_fs (holds d filename c)" and ?E = "has_fs (either d filename (old_or_moved c st))"
  have weak: "?H w \<Longrightarrow> ?E w" for w by (auto simp: has_fs_def old_or_moved_def)
  have step: "triple ?H (seqW (lift (assert_exact r pid phash rs))
     (seqW (raise_when (st \<notin> set (allowed_transitions (state_of r))) e)
     (bindW (lift (advanced r st)) (\<lambda>updated.
      seqW (cleanup_stale_temps pol d filename [r, updated])
      (seqW (atomic_replace pol d filename updated)
        (load_at pol d filename True))))))
     (\<lambda>x. has_fs (\<lambda>s. \<exists>r'. moved_to c st r' \<and> plan_id r' = pid \<and> plan_hash r' = phash \<and> resources r' = rs
        \<and> stored d filename r' x s)) ?E"
    if dec: "c = Some raw" "decode raw = Inr r" for raw r e
  proof -
    have go: "triple ?H (seqW (cleanup_stale_temps pol d filename [r, r'])
        (seqW (atomic_replace pol d filename r') (load_at pol d filename True)))
      (\<lambda>x. has_fs (\<lambda>s. \<exists>r'. moved_to c st r' \<and> plan_id r' = pid \<and> plan_hash r' = phash \<and> resources r' = rs
        \<and> stored d filename r' x s)) ?E"
      if r': "st \<in> set (allowed_transitions (state_of r))" "advanced r st = Inr r'"
        and ex: "assert_exact r pid phash rs = Inr ()" for r'
    proof -
      have m: "moved_to c st r'" using dec r' by (auto simp: moved_to_def)
      have flds: "plan_id r' = pid" "plan_hash r' = phash" "resources r' = rs"
        using ex mk_journal_Inr [OF r'(2) [unfolded advanced_def]] by (auto simp: assert_exact_def)
      have sub: "old_or_new c r' \<subseteq> old_or_moved c st" using m by (auto simp: old_or_new_def old_or_moved_def)
      have cl: "triple ?H (cleanup_stale_temps pol d filename [r, r']) (\<lambda>_. ?H) ?E"
        by (rule triple_conseq [OF cleanup_stale_temps_spec]) (auto intro: weak)
      have rp: "triple ?H (atomic_replace pol d filename r') (\<lambda>_. has_fs (written d filename r')) ?E"
        by (rule triple_has_fs_conseq [OF atomic_replace_spec]) (use sub in auto)
      have ld: "triple (has_fs (written d filename r')) (load_at pol d filename True)
          (\<lambda>x. has_fs (stored d filename r' x)) ?E"
        by (rule load_after_write) (use m in \<open>auto simp: old_or_moved_def\<close>)
      show ?thesis
        by (intro triple_seq [OF cl] triple_seq [OF rp] triple_has_fs_conseq [OF ld]) (use m flds in auto)
    qed
    show ?thesis
      by (cases "assert_exact r pid phash rs"; cases "advanced r st"; cases "st \<in> set (allowed_transitions (state_of r))")
         (auto simp: seqW_def intro: triple_raise weak go [unfolded seqW_def])
  qed
  have ld: "triple ?H (load_at pol d filename True) (\<lambda>r w. ?H w \<and> (\<exists>raw. c = Some raw \<and> decode raw = Inr r)) ?E"
    by (rule triple_conseq [OF load_at_spec]) (auto simp: has_fs_def publishes_def old_or_moved_def)
  have body: "triple ?H (bindW (load_at pol d filename True) (\<lambda>record.
     seqW (lift (assert_exact record pid phash rs))
     (seqW (raise_when (st \<notin> set (allowed_transitions (state_of record)))
              (JournalConflict (''transition '' @ state_value (state_of record) @ ''->''
                                @ state_value st @ '' is not allowed'')))
     (bindW (lift (advanced record st)) (\<lambda>updated.
      seqW (cleanup_stale_temps pol d filename [record, updated])
      (seqW (atomic_replace pol d filename updated)
        (load_at pol d filename True)))))))
     (\<lambda>x. has_fs (\<lambda>s. \<exists>r'. moved_to c st r' \<and> plan_id r' = pid \<and> plan_hash r' = phash \<and> resources r' = rs
        \<and> stored d filename r' x s)) ?E"
    by (rule triple_bind [OF ld], rule triple_pure, erule exE, erule conjE, rule step, assumption, assumption)
  show ?thesis
    unfolding transition_at_def assms using body by simp
qed
subsection \<open>Outcomes\<close>

definition published_name :: "pystr \<Rightarrow> pystr" where
  "published_name iid = iid @ lit ''.journal.json''"

lemma journal_filename_Inr: "journal_filename iid = Inr f \<Longrightarrow> f = published_name iid"
  by (auto simp: journal_filename_def published_name_def check_text_Inr)

lemma storable_filename: "storable r \<Longrightarrow> journal_filename (install_id r) = Inr (published_name (install_id r))"
  unfolding storable_def valid_journal_def mk_journal_def
  by (auto simp: journal_filename_def published_name_def check_text_Inr)

lemma moved_to_storable: "moved_to c st r' \<Longrightarrow> storable r'"
proof -
  assume "moved_to c st r'"
  then obtain raw r where r: "decode raw = Inr r" and adv: "advanced r st = Inr r'" by (auto simp: moved_to_def)
  have "storable r" using r journal_codec.dec_valid by blast
  moreover note f = mk_journal_Inr [OF adv [unfolded advanced_def]]
  ultimately show ?thesis
    by (auto simp: storable_def valid_journal_def python_text_def)
qed

lemma stored_same:
  "storable r \<Longrightarrow> stored d f r x s \<Longrightarrow> x = r \<and> (\<exists>p. encode r = Inr p \<and> file_content s d f = Some p) \<and> wf_dir s d"
  using journal_codec.dec_enc by (auto simp: stored_def holds_def)

lemma has_fs_start: "quiet w \<Longrightarrow> wf_dir (w_fs w) d \<Longrightarrow> has_fs (holds d f (file_content (w_fs w) d f)) w"
  by (simp add: has_fs_def holds_def)

definition create_outcome ::
  "nat \<Rightarrow> journal_record \<Rightarrow> fs \<Rightarrow> journal_record outcome \<Rightarrow> fs \<Rightarrow> bool" where
  "create_outcome d r s out s' =
     (let f = published_name (install_id r); old = file_content s d f; new = file_content s' d f;
          fresh = (\<exists>p. old = None \<and> encode r = Inr p \<and> new = Some p)
      in case out of Ret x \<Rightarrow> x = r \<and> fresh | _ \<Rightarrow> new = old \<or> fresh)"

lemma create_atomic_lemma:
  assumes "quiet w" "wf_dir (w_fs w) d" "storable r" "create_at pol d r w = (out, w')"
  shows "create_outcome d r (w_fs w) out (w_fs w')"
proof -
  let ?f = "published_name (install_id r)"
  let ?c = "file_content (w_fs w) d ?f"
  note post = tripleD [OF create_at_spec [OF storable_filename [OF assms(3)]] has_fs_start [OF assms(1,2)] assms(4)]
  show ?thesis
  proof (cases out)
    case (Ret x)
    then show ?thesis using post stored_same [OF assms(3)]
      by (auto simp: create_outcome_def has_fs_def)
  next
    case (Raise e)
    then show ?thesis using post
      by (auto simp: create_outcome_def has_fs_def none_or_new_def old_or_new_def holds_def split: if_splits)
  next
    case Killed
    then show ?thesis using post
      by (auto simp: create_outcome_def has_fs_def none_or_new_def old_or_new_def holds_def split: if_splits)
  qed
qed

definition transition_outcome ::
  "nat \<Rightarrow> pystr \<Rightarrow> pystr \<Rightarrow> pystr \<Rightarrow> resource_record list \<Rightarrow> journal_state \<Rightarrow> fs
    \<Rightarrow> journal_record outcome \<Rightarrow> fs \<Rightarrow> bool" where
  "transition_outcome d iid pid phash rs st s out s' =
     (let f = published_name iid; old = file_content s d f; new = file_content s' d f
      in case out of
           Ret x \<Rightarrow> moved_to old st x \<and> plan_id x = pid \<and> plan_hash x = phash \<and> resources x = rs
                    \<and> (\<exists>p. encode x = Inr p \<and> new = Some p)
         | _ \<Rightarrow> new = old \<or> (\<exists>r p. moved_to old st r \<and> encode r = Inr p \<and> new = Some p))"

lemma transition_atomic_lemma:
  assumes "quiet w" "wf_dir (w_fs w) d" "transition_at pol d iid pid phash rs st w = (out, w')"
  shows "transition_outcome d iid pid phash rs st (w_fs w) out (w_fs w')"
proof (cases "journal_filename iid")
  case (Inl e)
  then have "out = Raise e \<and> w' = w" using assms(3) by (simp add: transition_at_def raise_def)
  then show ?thesis by (simp add: transition_outcome_def)
next
  case (Inr f)
  note f = journal_filename_Inr [OF Inr]
  note post = tripleD [OF transition_at_spec [OF Inr] has_fs_start [OF assms(1,2)] assms(3)]
  show ?thesis
  proof (cases out)
    case (Ret x)
    then obtain r' where r': "moved_to (file_content (w_fs w) d f) st r'" "plan_id r' = pid" "plan_hash r' = phash"
        "resources r' = rs" "stored d f r' x (w_fs w')"
      using post by (auto simp: has_fs_def)
    then show ?thesis
      using Ret stored_same [OF moved_to_storable [OF r'(1)] r'(5)] f by (auto simp: transition_outcome_def Let_def)
  next
    case (Raise e)
    then show ?thesis using post f
      by (auto simp: transition_outcome_def has_fs_def old_or_moved_def holds_def Let_def)
  next
    case Killed
    then show ?thesis using post f
      by (auto simp: transition_outcome_def has_fs_def old_or_moved_def holds_def Let_def)
  qed
qed

subsection \<open>Readers change nothing\<close>

definition unchanged :: "world \<Rightarrow> 'a io \<Rightarrow> bool" where
  "unchanged w m = (w_fs (snd (m w)) = w_fs w)"

lemma unchangedI:
  assumes "quiet w" "triple (has_fs (\<lambda>s. s = w_fs w)) m (\<lambda>_. has_fs (\<lambda>s. s = w_fs w)) (has_fs (\<lambda>s. s = w_fs w))"
  shows "unchanged w m"
proof -
  obtain out w' where o: "m w = (out, w')" by fastforce
  have "has_fs (\<lambda>s. s = w_fs w) w" using assms(1) by (simp add: has_fs_def)
  from tripleD [OF assms(2) this o] show ?thesis
    unfolding unchanged_def o by (cases out) (auto simp: has_fs_def)
qed

lemma read_at_same:
  "triple (has_fs I) (read_at pol d f allowed) (\<lambda>_. has_fs I) (has_fs I)"
  by (rule triple_has_fs_conseq [OF read_at_spec]) auto

lemma directory_entries_same: "triple (has_fs I) (directory_entries d) (\<lambda>_. has_fs I) (has_fs I)"
  by (rule triple_has_fs_conseq [OF directory_entries_spec]) auto

lemma validate_same: "triple (has_fs I) (validate_linked_create pol d f e m) (\<lambda>_. has_fs I) (has_fs I)"
  by (rule triple_has_fs_conseq [OF validate_linked_create_spec]) auto

lemma inspect_residue_same: "triple (has_fs I) (inspect_residue_at pol d f) (\<lambda>_. has_fs I) (has_fs I)"
  unfolding inspect_residue_at_def Let_def case_prod_beta
  by (intro triple_bind [OF read_at_same] triple_bind [OF directory_entries_same] triple_if
      triple_bind [OF validate_same] triple_return triple_seq [OF triple_raise_when, where R = "has_fs I"])

lemma load_shared_same: "triple (has_fs I) (load_at pol d f False) (\<lambda>_. has_fs I) (has_fs I)"
  unfolding load_at_def case_prod_beta
  by (rule triple_bind [OF read_at_same], rule triple_if)
     (auto intro: triple_return simp: seqW_def intro: triple_raise)

lemma load_unpublished_same: "triple (has_fs I) (load_unpublished_at pol d f) (\<lambda>_. has_fs I) (has_fs I)"
  unfolding load_unpublished_at_def Let_def case_prod_beta
  by (intro triple_seq [OF require_absent_spec] triple_bind [OF directory_entries_same]
      triple_seq [OF triple_raise_when, where R = "has_fs I"] triple_bind [OF read_at_same] triple_return
      triple_if triple_security triple_raise)

lemma filename_then:
  "(\<And>f. triple (has_fs I) (g f) (\<lambda>_. has_fs I) (has_fs I)) \<Longrightarrow>
     triple (has_fs I) (seqW (require_open s) (bindW (lift r) g)) (\<lambda>_. has_fs I) (has_fs I)"
  unfolding require_open_def
  by (cases r) (auto intro!: triple_seq [OF triple_raise_when, where R = "has_fs I"] triple_raise)

lemma readers_unchanged:
  assumes "quiet w"
  shows "unchanged w (session_inspect_residue pol s iid)"
    "unchanged w (session_load_inflight pol s iid)"
    "unchanged w (session_load_unpublished pol s iid)"
    "\<not> ses_exclusive s \<Longrightarrow> unchanged w (session_load pol s iid)"
proof -
  note r = unchangedI [OF assms filename_then]
  show "unchanged w (session_inspect_residue pol s iid)"
    unfolding session_inspect_residue_def by (rule r [OF inspect_residue_same])
  show "unchanged w (session_load_inflight pol s iid)"
    unfolding session_load_inflight_def load_inflight_at_def case_prod_beta
    by (rule r) (intro triple_bind [OF inspect_residue_same] triple_seq [OF triple_raise_when, where R = "has_fs I" for I] triple_return)
  show "unchanged w (session_load_unpublished pol s iid)"
    unfolding session_load_unpublished_def by (rule r [OF load_unpublished_same])
  show "\<not> ses_exclusive s \<Longrightarrow> unchanged w (session_load pol s iid)"
    unfolding session_load_def by (rule r) (simp add: load_shared_same)
qed

end
