(* ===== verification/Journal_Progress.thy ===== *)
theory Journal_Progress
  imports Journal_Atomicity
begin

text \<open>
  The journal store when nothing goes wrong: creating a journal and moving it to its next
  state return the expected record.  The rest of the theory runs the store in a sample
  world, with and without a kill, and states the properties of the journal store.
\<close>

subsection \<open>Success of the single steps\<close>

lemma returns_at_read_chunks:
  "fs_inodes s0 fd = Some i \<Longrightarrow> remaining < fuel \<Longrightarrow>
    returns (calm_fs u g (\<lambda>s. s = s0)) (read_chunks fuel fd pos remaining)
      (\<lambda>bs. calm_fs u g (\<lambda>s. s = s0 \<and> bs = take remaining (drop pos (idata i))))"
proof (induction fuel arbitrary: pos remaining)
  case (Suc fuel)
  have rd: "returns (calm_fs u g (\<lambda>s. s = s0)) (os_read fd pos cnt)
      (\<lambda>bs. calm_fs u g (\<lambda>s. s = s0 \<and> (\<exists>k > 0. bs = take (min cnt k) (drop pos (idata i)))))" for cnt
    unfolding os_read_def
  proof (rule returns_syscall, goal_cases)
    case (1 w s)
    then show ?case using Suc.prems(1)
      by (auto intro!: exI [of _ "max 1 (w_chunk w (w_calls w))"])
  qed
  show ?case
  proof (cases "remaining = 0")
    case True
    then show ?thesis by (auto intro: returns_return simp: calm_fs_def)
  next
    case False
    show ?thesis
      unfolding read_chunks.simps if_not_P [OF False]
    proof (rule returns_at_bind [OF rd])
      fix chunk assume "\<exists>k > 0. chunk = take (min (min 65536 remaining) k) (drop pos (idata i))"
      then obtain k where k: "0 < k" and chunk: "chunk = take (min (min 65536 remaining) k) (drop pos (idata i))" by blast
      show "returns (calm_fs u g (\<lambda>s. s = s0)) (if chunk = [] then return []
          else bindW (read_chunks fuel fd (pos + length chunk) (remaining - length chunk)) (\<lambda>rest. return (chunk @ rest)))
         (\<lambda>bs. calm_fs u g (\<lambda>s. s = s0 \<and> bs = take remaining (drop pos (idata i))))"
      proof (cases "chunk = []")
        case True
        then have "drop pos (idata i) = []" using chunk k False by (auto simp: min_def split: if_splits)
        then show ?thesis using True by (auto intro!: returns_return simp: calm_fs_def)
      next
        case ne: False
        have len: "length chunk \<le> remaining" using chunk by simp
        have app: "chunk @ take (remaining - length chunk) (drop (pos + length chunk) (idata i))
            = take remaining (drop pos (idata i))"
        proof -
          have c: "chunk = take (length chunk) (drop pos (idata i))" using chunk by (metis append_eq_conv_conj append_take_drop_id)
          have "take remaining (drop pos (idata i)) = take (length chunk) (drop pos (idata i))
             @ take (remaining - length chunk) (drop (length chunk) (drop pos (idata i)))"
            using len by (metis le_add_diff_inverse take_add)
          then show ?thesis using c by (metis add.commute drop_drop)
        qed
        have "remaining - length chunk < fuel" using Suc.prems(2) ne False by (cases chunk) auto
        note ih = Suc.IH [OF Suc.prems(1) this]
        show ?thesis
          using ne by simp (rule returns_at_bind [OF ih], rule returns_return, simp add: calm_fs_def app)
      qed
    qed
  qed
qed simp

lemma returns_read_at:
  assumes "lookup s0 d f = Some n" "fs_inodes s0 n = Some i" "decode (idata i) = Inr r"
    "accepts pol (stat_of n i) False allowed"
  shows "returns (calm_fs u g (\<lambda>s. s = s0)) (read_at pol d f allowed)
     (\<lambda>rm. calm_fs u g (\<lambda>s. s = s0 \<and> rm = (r, stat_of n i)))"
proof -
  have k: "ikind i \<noteq> KLnk" using assms(4) by (simp add: accepts_def stat_of_def)
  have raw: "take (max_journal_bytes + 1) (drop 0 (idata i)) = idata i"
    using decode_length [OF assms(3)] by simp
  show ?thesis
    unfolding read_at_def os_errors_as_def
    apply (rule returns_at_bind [OF returns_catch [OF returns_at_open [OF assms(1,2) k]]], hypsubst)
    apply (rule returns_at_bind [OF returns_at_fstat [OF assms(2)]], hypsubst)
    apply (rule returns_raise_when, simp add: assms(4))
    apply (rule returns_at_bind [OF returns_at_read_chunks [OF assms(2)]], simp, unfold raw, hypsubst)
    apply (rule returns_at_bind [OF returns_at_fstat [OF assms(2)]], hypsubst)
    apply (rule returns_at_bind [OF returns_catch [OF returns_at_stat_at [OF assms(1,2)]]], hypsubst)
    apply (rule returns_raise_when, simp add: assms(4))
    apply (unfold assms(3) lift_simps bindW_return)
    by (rule returns_return) (simp add: calm_fs_def)
qed

definition regular :: "inode \<Rightarrow> nat \<Rightarrow> int \<Rightarrow> int \<Rightarrow> nat \<Rightarrow> bytes \<Rightarrow> bool" where
  "regular i mode u g k data =
     (ikind i = KReg \<and> imode i = mode \<and> iuid i = u \<and> igid i = g \<and> inlink i = k \<and> idata i = data)"

text \<open>A directory with the file \<open>fd\<close> under \<open>temp\<close> and \<open>t\<close> under the published name.\<close>

definition with_temp ::
  "nat \<Rightarrow> pystr \<Rightarrow> nat option \<Rightarrow> pystr \<Rightarrow> nat \<Rightarrow> (inode \<Rightarrow> bool) \<Rightarrow> fs \<Rightarrow> bool" where
  "with_temp d f t temp fd ok s =
     (fs_inodes s d \<noteq> None \<and> fd \<noteq> d \<and> temp \<noteq> f \<and> lookup s d temp = Some fd \<and> lookup s d f = t
      \<and> (\<exists>i. fs_inodes s fd = Some i \<and> ok i)
      \<and> (\<forall>m. t = Some m \<longrightarrow> m \<noteq> fd \<and> map_option ikind (fs_inodes s m) \<noteq> Some KDir))"

definition with_file :: "nat \<Rightarrow> pystr \<Rightarrow> nat \<Rightarrow> (inode \<Rightarrow> bool) \<Rightarrow> fs \<Rightarrow> bool" where
  "with_file d f fd ok s = (lookup s d f = Some fd \<and> (\<exists>i. fs_inodes s fd = Some i \<and> ok i))"

text \<open>A directory ready for a new temporary file.\<close>

definition ready :: "nat \<Rightarrow> pystr \<Rightarrow> nat option \<Rightarrow> fs \<Rightarrow> bool" where
  "ready d f t s =
     (wf_dir s d \<and> lookup s d f = t
      \<and> (\<forall>x. starts_with (temp_prefix f) x \<longrightarrow> lookup s d x = None)
      \<and> (\<forall>m. t = Some m \<longrightarrow> map_option ikind (fs_inodes s m) \<noteq> Some KDir))"

lemma kind_set_entries:
  "map_option ikind (fs_inodes (set_entries d h s) n) = map_option ikind (fs_inodes s n)"
  by (auto simp: set_entries_def fs_inodes_upd option.map_comp comp_def)

lemma inode_set_entries: "n \<noteq> d \<Longrightarrow> fs_inodes (set_entries d h s) n = fs_inodes s n"
  by (simp add: set_entries_def fs_inodes_upd)

lemma returns_create:
  "starts_with (temp_prefix f) temp \<Longrightarrow>
   returns (calm_fs u g (ready d f t)) (os_create d temp mode)
     (\<lambda>fd. calm_fs u g (with_temp d f t temp fd (\<lambda>i. regular i mode u g 1 [])))"
  unfolding os_create_def
proof (rule returns_syscall, goal_cases)
  case (1 w s)
  have ne: "temp \<noteq> f" by (rule temp_not_published [OF 1(1)])
  have none: "lookup s d temp = None" and wf: "wf_dir s d" and t: "lookup s d f = t"
    and td: "\<And>m. t = Some m \<Longrightarrow> map_option ikind (fs_inodes s m) \<noteq> Some KDir"
    using 1 by (auto simp: ready_def)
  obtain di where di: "fs_inodes s d = Some di" using wf by (auto simp: wf_dir_def)
  have new: "fs_inodes s (fs_next s) = None" using wf by (auto simp: wf_dir_def)
  then have dn: "d \<noteq> fs_next s" using di by auto
  have tn: "t = Some m \<Longrightarrow> m \<noteq> fs_next s" for m using wf t new unfolding wf_dir_def by blast
  obtain s' where cr: "do_create u g d temp mode s = (Inr (fs_next s), s')"
    using none di by (simp add: do_create_def Let_def)
  define s1 where "s1 = s\<lparr>fs_inodes := (fs_inodes s)(fs_next s \<mapsto>
      \<lparr>ikind = KReg, imode = mode, iuid = u, igid = g, inlink = 1, idata = [],
       ients = [], ixattrs = [], idev = idev di, imnt = imnt di, imtime = fs_clock s, ictime = fs_clock s\<rparr>),
      fs_next := Suc (fs_next s)\<rparr>"
  have s': "s' = tick (set_entries d (\<lambda>es. (temp, fs_next s) # es) s1)"
    using cr none di by (simp add: do_create_def Let_def s1_def)
  have d1: "fs_inodes s1 d \<noteq> None" using di by (simp add: s1_def)
  have e1: "entries_of s1 d = entries_of s d" using dn by (simp add: entries_of_def s1_def)
  have l: "lookup s' d x = (if x = temp then Some (fs_next s) else lookup s d x)" for x
    unfolding s' by (simp add: lookup_set_entries [OF d1] e1) (simp add: lookup_def)
  have i: "\<exists>i. fs_inodes s' (fs_next s) = Some i \<and> regular i mode u g 1 []"
    unfolding s' using dn by (simp add: inode_set_entries s1_def regular_def)
  have k: "map_option ikind (fs_inodes s' m) = map_option ikind (fs_inodes s m)" if "m \<noteq> fs_next s" for m
    unfolding s' using that by (simp add: kind_set_entries s1_def)
  have "with_temp d f t temp (fs_next s) (\<lambda>i. regular i mode u g 1 []) s'"
    unfolding with_temp_def
    using dn ne l i t tn td k by (auto simp: s' d1)
  then show ?case using cr 1 by auto
qed

lemma returns_write:
  "returns (calm_fs u g (with_temp d f t temp fd (\<lambda>i. regular i mode u g k data))) (os_write fd bs)
     (\<lambda>n. calm_fs u g (\<lambda>s. with_temp d f t temp fd (\<lambda>i. regular i mode u g k (data @ take n bs)) s
        \<and> n \<le> length bs \<and> (bs \<noteq> [] \<longrightarrow> 0 < n)))"
  unfolding os_write_def
proof (rule returns_syscall, goal_cases)
  case (1 w s)
  let ?n = "min (length bs) (w_chunk w (w_calls w))"
  have "with_temp d f t temp fd (\<lambda>i. regular i mode u g k (data @ take ?n bs)) (do_write fd (take ?n bs) s)"
    using 1(1)
    by (auto simp: with_temp_def regular_def do_write_def fs_inodes_upd option.map_comp comp_def)
  moreover have "bs \<noteq> [] \<longrightarrow> 0 < ?n" using 1(4) by simp
  ultimately show ?case by (auto simp: Let_def)
qed

lemma returns_write_all:
  "length rest < fuel \<Longrightarrow>
   returns (calm_fs u g (with_temp d f t temp fd (\<lambda>i. regular i mode u g k data))) (write_all fuel fd rest)
     (\<lambda>_. calm_fs u g (with_temp d f t temp fd (\<lambda>i. regular i mode u g k (data @ rest))))"
proof (induction fuel arbitrary: data rest)
  case (Suc fuel)
  show ?case
  proof (cases "rest = []")
    case True
    then show ?thesis by (simp add: returns_return)
  next
    case False
    show ?thesis
      unfolding write_all.simps if_not_P [OF False]
    proof (rule returns_bind [OF returns_write])
      fix n
      let ?W = "with_temp d f t temp fd (\<lambda>i. regular i mode u g k (data @ take n rest))"
      have "returns (calm_fs u g ?W) (seqW (raise_when (n = 0) (JournalError ''journal write made no progress''))
             (write_all fuel fd (drop n rest)))
         (\<lambda>_. calm_fs u g (with_temp d f t temp fd (\<lambda>i. regular i mode u g k (data @ rest))))"
        if "0 < n" "n \<le> length rest"
        using Suc.IH [of "drop n rest" "data @ take n rest"] Suc.prems that
        by (intro returns_raise_when) auto
      then show "returns (calm_fs u g (\<lambda>s. ?W s \<and> n \<le> length rest \<and> (rest \<noteq> [] \<longrightarrow> 0 < n)))
         (seqW (raise_when (n = 0) (JournalError ''journal write made no progress''))
             (write_all fuel fd (drop n rest)))
         (\<lambda>_. calm_fs u g (with_temp d f t temp fd (\<lambda>i. regular i mode u g k (data @ rest))))"
        using False by (auto simp: returns_def calm_fs_def)
    qed
  qed
qed simp

lemma returns_fsync: "returns (calm_fs u g I) (os_fsync n) (\<lambda>_. calm_fs u g I)"
  unfolding os_fsync_def by (rule returns_syscall) auto

lemma returns_link:
  "returns (calm_fs u g (with_temp d f None temp fd (\<lambda>i. regular i mode u g 1 data))) (os_link d temp f)
     (\<lambda>_. calm_fs u g (\<lambda>s. with_file d temp fd (\<lambda>i. regular i mode u g 2 data) s \<and> lookup s d f = Some fd
        \<and> fd \<noteq> d \<and> temp \<noteq> f \<and> fs_inodes s d \<noteq> None))"
  unfolding os_link_def
proof (rule returns_syscall, goal_cases)
  case (1 w s)
  define h where "h = (\<lambda>i. touch s (i\<lparr>inlink := Suc (inlink i)\<rparr>))"
  have h: "ients (h i) = ients i" "regular i mode u g 1 data \<Longrightarrow> regular (h i) mode u g 2 data" for i
    by (simp_all add: h_def touch_def regular_def)
  have link: "do_link d temp f s = (Inr (), tick (set_entries d (\<lambda>es. (f, fd) # es) (upd_inode fd h s)))"
    using 1(1) by (simp add: do_link_def with_temp_def h_def)
  have d: "fs_inodes (upd_inode fd h s) d \<noteq> None" using 1(1) by (simp add: with_temp_def)
  have e: "entries_of (upd_inode fd h s) d = entries_of s d"
    using 1(1) by (auto simp: entries_of_def fs_inodes_upd with_temp_def h)
  have l: "lookup (set_entries d (\<lambda>es. (f, fd) # es) (upd_inode fd h s)) d x
      = (if x = f then Some fd else lookup s d x)" for x
    by (simp add: lookup_set_entries [OF d] e) (simp add: lookup_def)
  have dd: "fs_inodes (set_entries d (\<lambda>es. (f, fd) # es) (upd_inode fd h s)) d \<noteq> None"
    using 1(1) by (simp add: with_temp_def)
  then obtain di where di: "fs_inodes (set_entries d (\<lambda>es. (f, fd) # es) (upd_inode fd h s)) d = Some di"
    by blast
  show ?case
    using 1(1) di
    by (auto simp: link l with_file_def with_temp_def inode_set_entries fs_inodes_upd dest: h(2) [unfolded One_nat_def])
qed

lemma returns_unlink_link:
  "returns (calm_fs u g (\<lambda>s. with_file d temp fd (\<lambda>i. regular i mode u g 2 data) s \<and> lookup s d f = Some fd
        \<and> fd \<noteq> d \<and> temp \<noteq> f \<and> fs_inodes s d \<noteq> None)) (os_unlink d temp)
     (\<lambda>_. calm_fs u g (with_file d f fd (\<lambda>i. regular i mode u g 1 data)))"
  unfolding os_unlink_def
proof (rule returns_syscall, goal_cases)
  case (1 w s)
  define h where "h = (\<lambda>i. touch s (i\<lparr>inlink := inlink i - 1\<rparr>))"
  have h: "ients (h i) = ients i" "regular i mode u g 2 data \<Longrightarrow> regular (h i) mode u g 1 data" for i
    by (simp_all add: h_def touch_def regular_def)
  have un: "do_unlink d temp s = (Inr (), tick (set_entries d (AList.delete temp) (upd_inode fd h s)))"
    using 1(1) by (auto simp: do_unlink_def with_file_def regular_def h_def)
  have d: "fs_inodes (upd_inode fd h s) d \<noteq> None" using 1(1) by simp
  have e: "entries_of (upd_inode fd h s) d = entries_of s d"
    using 1(1) by (auto simp: entries_of_def fs_inodes_upd h)
  have l: "lookup (set_entries d (AList.delete temp) (upd_inode fd h s)) d x
      = (if x = temp then None else lookup s d x)" for x
    unfolding lookup_set_entries [OF d] e delete_conv' by (simp add: lookup_def)
  show ?case
    using 1(1)
    by (auto simp: un l with_file_def inode_set_entries fs_inodes_upd dest: h(2) [unfolded One_nat_def])
qed

lemma returns_replace:
  "returns (calm_fs u g (with_temp d f t temp fd (\<lambda>i. regular i mode u g 1 data))) (os_replace d temp f)
     (\<lambda>_. calm_fs u g (with_file d f fd (\<lambda>i. regular i mode u g 1 data)))"
  unfolding os_replace_def
proof (rule returns_syscall, goal_cases)
  case (1 w s)
  have dex: "fs_inodes s d \<noteq> None" using 1(1) by (simp add: with_temp_def)
  show ?case
  proof (cases t)
    case None
    have rp: "do_replace d temp f s = (Inr (), tick (set_entries d (\<lambda>es. (f, fd) # AList.delete temp es) s))"
      using 1(1) None by (simp add: do_replace_def with_temp_def)
    have l: "lookup (set_entries d (\<lambda>es. (f, fd) # AList.delete temp es) s) d f = Some fd"
      by (simp add: lookup_set_entries [OF dex])
    show ?thesis using 1(1) by (auto simp: rp l with_file_def with_temp_def inode_set_entries)
  next
    case (Some m)
    define h where "h = (\<lambda>i. touch s (i\<lparr>inlink := inlink i - 1\<rparr>))"
    have m: "lookup s d f = Some m" "m \<noteq> fd" "map_option ikind (fs_inodes s m) \<noteq> Some KDir"
      using 1(1) Some by (auto simp: with_temp_def)
    have rp: "do_replace d temp f s =
        (Inr (), tick (set_entries d (\<lambda>es. (f, fd) # AList.delete f (AList.delete temp es)) (upd_inode m h s)))"
    proof -
      have "lookup s d temp = Some fd" using 1(1) by (simp add: with_temp_def)
      then show ?thesis using m by (auto simp: do_replace_def h_def)
    qed
    have d: "fs_inodes (upd_inode m h s) d \<noteq> None" using dex by simp
    have l: "lookup (set_entries d (\<lambda>es. (f, fd) # AList.delete f (AList.delete temp es)) (upd_inode m h s)) d f = Some fd"
      by (simp add: lookup_set_entries [OF d])
    have fdm: "fd \<noteq> m" using m(2) by simp
    have ino: "fs_inodes (set_entries d (\<lambda>es. (f, fd) # AList.delete f (AList.delete temp es)) (upd_inode m h s)) fd
        = fs_inodes s fd"
      using 1(1) fdm by (simp add: inode_set_entries fs_inodes_upd with_temp_def)
    show ?thesis using 1(1) by (auto simp: rp l ino with_file_def with_temp_def)
  qed
qed

lemma returns_token: "returns (calm_fs u g I) token_hex (\<lambda>_. calm_fs u g I)"
  by (simp add: returns_def token_hex_def calm_fs_def calm_def quiet_def)

lemma returns_alloc_temp:
  "returns (calm_fs u g (ready d f t)) (alloc_temp (Suc tries) d (temp_prefix f) mode)
     (\<lambda>slot. calm_fs u g (\<lambda>s. \<exists>fd temp. slot = Some (fd, temp) \<and> with_temp d f t temp fd (\<lambda>i. regular i mode u g 1 []) s))"
  unfolding alloc_temp.simps
  by (rule returns_bind [OF returns_token], rule returns_catch, rule returns_bind [OF returns_create], simp,
      rule returns_return) (auto simp: calm_fs_def)

text \<open>The policy of a store that runs as the owner it expects.\<close>

definition owner_policy :: "policy \<Rightarrow> int \<Rightarrow> int \<Rightarrow> bool" where
  "owner_policy pol u g =
     (expected_owner_uid pol = u \<and> expected_owner_gid pol = g \<and> stat_validator pol = None \<and> 0 \<le> file_mode pol)"

lemma owner_accepts:
  "owner_policy pol u g \<Longrightarrow> regular i (nat (file_mode pol)) u g k data \<Longrightarrow> k \<in> set allowed
    \<Longrightarrow> accepts pol (stat_of n i) False allowed"
  by (auto simp: owner_policy_def regular_def accepts_def stat_of_def)

lemma returns_fill_temp:
  assumes "owner_policy pol u g" "mode = nat (file_mode pol)"
  shows "returns (calm_fs u g (with_temp d f t temp fd (\<lambda>i. regular i mode u g 1 []))) (fill_temp pol fd payload)
     (\<lambda>_. calm_fs u g (with_temp d f t temp fd (\<lambda>i. regular i mode u g 1 payload)))"
  unfolding fill_temp_def
proof (rule returns_bind)
  let ?W = "with_temp d f t temp fd (\<lambda>i. regular i mode u g 1 [])"
  show "returns (calm_fs u g ?W) (os_fstat fd) (\<lambda>m. calm_fs u g (\<lambda>s. ?W s \<and> accepts pol m False [1]))"
  proof (rule returns_fixed)
    fix s0 assume "?W s0"
    then obtain i where i: "fs_inodes s0 fd = Some i" "regular i mode u g 1 []" by (auto simp: with_temp_def)
    then have "accepts pol (stat_of fd i) False [1]"
      using owner_accepts [OF assms(1)] assms(2) by auto
    then show "returns (calm_fs u g (\<lambda>s. s = s0)) (os_fstat fd) (\<lambda>m. calm_fs u g (\<lambda>s. s = s0 \<and> accepts pol m False [1]))"
      by (intro returns_calm_conseq [OF returns_at_fstat [OF i(1)]]) auto
  qed
  fix m
  have "returns (calm_fs u g ?W) (seqW (raise_when (\<not> accepts pol m False [1])
               (JournalSecurityError ''temporary journal owner, mode, or type is unsafe''))
       (seqW (write_all (Suc (length payload)) fd payload) (os_fsync fd)))
     (\<lambda>_. calm_fs u g (with_temp d f t temp fd (\<lambda>i. regular i mode u g 1 payload)))" if "accepts pol m False [1]"
    using that returns_write_all [of payload "Suc (length payload)" u g d f t temp fd mode 1 "[]"]
    by (intro returns_raise_when returns_seq [OF _ returns_fsync]) (simp_all del: write_all.simps)
  then show "returns (calm_fs u g (\<lambda>s. ?W s \<and> accepts pol m False [1])) (seqW (raise_when (\<not> accepts pol m False [1])
               (JournalSecurityError ''temporary journal owner, mode, or type is unsafe''))
       (seqW (write_all (Suc (length payload)) fd payload) (os_fsync fd)))
     (\<lambda>_. calm_fs u g (with_temp d f t temp fd (\<lambda>i. regular i mode u g 1 payload)))"
    by (cases "accepts pol m False [1]") (auto simp: returns_def calm_fs_def)
qed

lemma returns_new_temp:
  assumes "owner_policy pol u g" "encode r = Inr payload"
  shows "returns (calm_fs u g (ready d f t)) (new_temp pol d f r)
     (\<lambda>temp. calm_fs u g (\<lambda>s. \<exists>fd. with_temp d f t temp fd (\<lambda>i. regular i (nat (file_mode pol)) u g 1 payload) s))"
proof -
  have alloc: "returns (calm_fs u g (ready d f t)) (alloc_temp 8 d (temp_prefix f) (nat (file_mode pol)))
     (\<lambda>slot. calm_fs u g (\<lambda>s. \<exists>fd temp. slot = Some (fd, temp)
        \<and> with_temp d f t temp fd (\<lambda>i. regular i (nat (file_mode pol)) u g 1 []) s))"
    using returns_alloc_temp [of u g d f t 7] by (simp add: eval_nat_numeral del: alloc_temp.simps)
  show ?thesis
    unfolding new_temp_def assms(2) lift_simps bindW_return
  proof (rule returns_bind [OF alloc])
    fix slot
    show "returns (calm_fs u g (\<lambda>s. \<exists>fd temp. slot = Some (fd, temp)
          \<and> with_temp d f t temp fd (\<lambda>i. regular i (nat (file_mode pol)) u g 1 []) s))
       (case slot of
         None \<Rightarrow> raise (JournalConflict ''could not allocate an exclusive journal temporary file'')
       | Some (fd, temp) \<Rightarrow> seqW (or_unlink d temp (fill_temp pol fd payload)) (return temp))
       (\<lambda>temp. calm_fs u g (\<lambda>s. \<exists>fd. with_temp d f t temp fd (\<lambda>i. regular i (nat (file_mode pol)) u g 1 payload) s))"
    proof (cases slot)
      case None
      then show ?thesis by (simp add: returns_def calm_fs_def)
    next
      case (Some p)
      obtain fd temp where p: "p = (fd, temp)" by (cases p)
      show ?thesis
        unfolding Some p option.case prod.case or_unlink_def
        by (rule returns_seq [where R = "calm_fs u g (with_temp d f t temp fd (\<lambda>i. regular i (nat (file_mode pol)) u g 1 payload))"],
            rule returns_catch, rule returns_calm_conseq [OF returns_fill_temp [OF assms(1) refl]])
           (auto intro!: returns_return simp: calm_fs_def)
    qed
  qed
qed

text \<open>A directory whose entries pass the scan and that holds no residue of \<open>f\<close>.\<close>

definition tidy :: "nat \<Rightarrow> pystr \<Rightarrow> nat option \<Rightarrow> fs \<Rightarrow> bool" where
  "tidy d f t s = (ready d f t s \<and> scan_entries 0 0 (map fst (entries_of s d)) = Inr ())"

lemma no_candidates:
  assumes "ready d f t s"
  shows "temp_candidates f (map fst (entries_of s d)) = []"
proof -
  have "\<not> starts_with (temp_prefix f) x" if "x \<in> fst ` set (entries_of s d)" for x
    using assms that unfolding ready_def lookup_def by (metis map_of_eq_None_iff)
  then show ?thesis by (auto simp: temp_candidates_def filter_empty_conv)
qed

lemma returns_cleanup:
  "returns (calm_fs u g (tidy d f t)) (cleanup_stale_temps pol d f expected) (\<lambda>_. calm_fs u g (tidy d f t))"
proof -
  have ents: "returns (calm_fs u g (\<lambda>s. s = s0)) (directory_entries d)
      (\<lambda>ns. calm_fs u g (\<lambda>s. s = s0 \<and> ns = map fst (entries_of s0 d)))"
    if "tidy d f t s0" for s0
    unfolding directory_entries_def os_errors_as_def
  proof (rule returns_catch, rule returns_at_bind)
    show "returns (calm_fs u g (\<lambda>s. s = s0)) (os_scandir d) (\<lambda>ns. calm_fs u g (\<lambda>s. s = s0 \<and> ns = map fst (entries_of s0 d)))"
      unfolding os_scandir_def by (rule returns_syscall) simp
    show "returns (calm_fs u g (\<lambda>s. s = s0)) (bindW (lift (scan_entries 0 0 ns)) (\<lambda>_. return ns))
      (\<lambda>ns. calm_fs u g (\<lambda>s. s = s0 \<and> ns = map fst (entries_of s0 d)))"
      if "ns = map fst (entries_of s0 d)" for ns
      using that \<open>tidy d f t s0\<close> by (auto intro!: returns_return simp: tidy_def calm_fs_def)
  qed
  have "returns (calm_fs u g (\<lambda>s. s = s0)) (cleanup_stale_temps pol d f expected) (\<lambda>_. calm_fs u g (\<lambda>s. s = s0 \<and> True))"
    if "tidy d f t s0" for s0
    unfolding cleanup_stale_temps_def
    by (rule returns_at_bind [OF ents [OF that]])
       (use that no_candidates [of d f t s0] in \<open>auto simp: tidy_def seqW_def intro: returns_return\<close>)
  from returns_fixed [OF this] show ?thesis by simp
qed

lemma returns_load_at:
  assumes "owner_policy pol u g" "decode p = Inr r"
  shows "returns (calm_fs u g (with_file d f fd (\<lambda>i. regular i (nat (file_mode pol)) u g 1 p))) (load_at pol d f recover)
     (\<lambda>x. calm_fs u g (\<lambda>s. with_file d f fd (\<lambda>i. regular i (nat (file_mode pol)) u g 1 p) s \<and> x = r))"
proof (rule returns_fixed)
  fix s0 assume "with_file d f fd (\<lambda>i. regular i (nat (file_mode pol)) u g 1 p) s0"
  then obtain i where l: "lookup s0 d f = Some fd" and i: "fs_inodes s0 fd = Some i"
      and reg: "regular i (nat (file_mode pol)) u g 1 p" by (auto simp: with_file_def)
  have dec: "decode (idata i) = Inr r" and nl: "inlink i = 1" using reg assms(2) by (auto simp: regular_def)
  have acc: "accepts pol (stat_of fd i) False [1, 2]" using owner_accepts [OF assms(1) reg] by simp
  show "returns (calm_fs u g (\<lambda>s. s = s0)) (load_at pol d f recover) (\<lambda>x. calm_fs u g (\<lambda>s. s = s0 \<and> x = r))"
    unfolding load_at_def case_prod_beta
    by (rule returns_at_bind [OF returns_read_at [OF l i dec acc]])
       (use nl in \<open>auto intro!: returns_return simp: calm_fs_def stat_of_def\<close>)
qed

lemma returns_create_at:
  assumes pol: "owner_policy pol u g" and r: "storable r" "transitions r = [PLANNED]" "encode r = Inr p"
  shows "returns (calm_fs u g (tidy d (published_name (install_id r)) None)) (create_at pol d r)
     (\<lambda>x. calm_fs u g (\<lambda>s. x = r))"
proof -
  let ?f = "published_name (install_id r)"
  let ?F = "\<lambda>fd k. with_file d ?f fd (\<lambda>i. regular i (nat (file_mode pol)) u g k p)"
  have absent: "returns (calm_fs u g (tidy d ?f None)) (require_absent d ?f h e) (\<lambda>_. calm_fs u g (tidy d ?f None))" for h e
    unfolding returns_def
  proof (intro allI impI)
    fix w assume w: "calm_fs u g (tidy d ?f None) w"
    then have "lookup (w_fs w) d ?f = None" by (simp add: calm_fs_def tidy_def ready_def)
    then show "\<exists>x w'. require_absent d ?f h e w = (Ret x, w') \<and> calm_fs u g (tidy d ?f None) w'"
      using w by (auto simp: require_absent_def bindW_def catchW_def os_stat_at_def do_stat_at_def syscall_def Let_def
          calm_fs_def calm_def quiet_def return_def raise_when_def)
  qed
  have new: "returns (calm_fs u g (tidy d ?f None)) (new_temp pol d ?f r) (\<lambda>temp. calm_fs u g
      (\<lambda>s. \<exists>fd. with_temp d ?f None temp fd (\<lambda>i. regular i (nat (file_mode pol)) u g 1 p) s))"
    by (rule returns_calm_conseq [OF returns_new_temp [OF pol r(3)]]) (auto simp: tidy_def)
  have create: "returns (calm_fs u g (tidy d ?f None)) (atomic_create pol d ?f r) (\<lambda>_. calm_fs u g (\<lambda>s. \<exists>fd. ?F fd 1 s))"
    unfolding atomic_create_def
  proof (rule returns_bind [OF new])
    fix temp
    show "returns (calm_fs u g (\<lambda>s. \<exists>fd. with_temp d ?f None temp fd (\<lambda>i. regular i (nat (file_mode pol)) u g 1 p) s))
       (or_unlink d temp (seqW (link_new d temp ?f) (seqW (os_fsync d) (seqW (os_unlink d temp) (os_fsync d)))))
       (\<lambda>_. calm_fs u g (\<lambda>s. \<exists>fd. ?F fd 1 s))"
      unfolding or_unlink_def link_new_def
    proof (rule returns_catch, rule returns_some)
      fix fd
      show "returns (calm_fs u g (with_temp d ?f None temp fd (\<lambda>i. regular i (nat (file_mode pol)) u g 1 p)))
        (seqW (catchW (os_link d temp ?f)
            (\<lambda>e. if e = OSError EEXIST then raise (JournalConflict ''journal already exists'') else raise e))
          (seqW (os_fsync d) (seqW (os_unlink d temp) (os_fsync d))))
        (\<lambda>_. calm_fs u g (\<lambda>s. \<exists>fd. ?F fd 1 s))"
        by (rule returns_calm_conseq [where Q' = "\<lambda>_. ?F fd 1"],
            rule returns_seq [OF returns_catch [OF returns_link]
              returns_seq [OF returns_fsync returns_seq [OF returns_unlink_link returns_fsync]]]) auto
    qed
  qed
  have dec: "decode p = Inr r" using r(1,3) journal_codec.dec_enc by blast
  have load: "returns (calm_fs u g (\<lambda>s. \<exists>fd. ?F fd 1 s)) (load_at pol d ?f True) (\<lambda>x. calm_fs u g (\<lambda>s. x = r))"
    by (rule returns_some, rule returns_calm_conseq [OF returns_load_at [OF pol dec]]) auto
  have st: "state_of r = PLANNED" using r(2) by (simp add: state_of_def)
  show ?thesis
    unfolding create_at_def storable_filename [OF r(1)] lift_simps bindW_return
    by (rule returns_raise_when, simp add: st r(2),
        rule returns_seq [OF returns_cleanup returns_seq [OF absent returns_seq [OF create load]]])
qed

lemma returns_transition_at:
  assumes pol: "owner_policy pol u g"
    and old: "decode p = Inr r" "install_id r = iid"
    and allowed: "st \<in> set (allowed_transitions (state_of r))"
    and new: "advanced r st = Inr r'" "encode r' = Inr p'"
  shows "returns (calm_fs u g (\<lambda>s. tidy d (published_name iid) (Some fd) s
        \<and> with_file d (published_name iid) fd (\<lambda>i. regular i (nat (file_mode pol)) u g 1 p) s))
     (transition_at pol d iid (plan_id r) (plan_hash r) (resources r) st) (\<lambda>x. calm_fs u g (\<lambda>s. x = r'))"
proof -
  let ?f = "published_name iid"
  let ?F = "\<lambda>fd p. with_file d ?f fd (\<lambda>i. regular i (nat (file_mode pol)) u g 1 p)"
  let ?I = "\<lambda>s. tidy d ?f (Some fd) s \<and> ?F fd p s"
  have sr: "storable r" using old(1) journal_codec.dec_valid by blast
  have fname: "journal_filename iid = Inr ?f" using storable_filename [OF sr] old(2) by simp
  have ld: "returns (calm_fs u g ?I) (load_at pol d ?f True) (\<lambda>x. calm_fs u g (\<lambda>s. ?I s \<and> x = r))"
  proof (rule returns_fixed)
    fix s0 assume "?I s0"
    then obtain i where l: "lookup s0 d ?f = Some fd" and i: "fs_inodes s0 fd = Some i"
        and reg: "regular i (nat (file_mode pol)) u g 1 p" by (auto simp: with_file_def)
    have dec: "decode (idata i) = Inr r" and nl: "inlink i = 1" using reg old(1) by (auto simp: regular_def)
    have acc: "accepts pol (stat_of fd i) False [1, 2]" using owner_accepts [OF pol reg] by simp
    show "returns (calm_fs u g (\<lambda>s. s = s0)) (load_at pol d ?f True) (\<lambda>x. calm_fs u g (\<lambda>s. s = s0 \<and> x = r))"
      unfolding load_at_def case_prod_beta
      by (rule returns_at_bind [OF returns_read_at [OF l i dec acc]])
         (use nl in \<open>auto intro!: returns_return simp: calm_fs_def stat_of_def\<close>)
  qed
  have exact: "assert_exact r (plan_id r) (plan_hash r) (resources r) = Inr ()"
    using sr unfolding storable_def valid_journal_def mk_journal_def assert_exact_def
    by (auto simp: check_text_Inr hash_text_Inr)
  have cl: "returns (calm_fs u g ?I) (cleanup_stale_temps pol d ?f ex) (\<lambda>_. calm_fs u g (tidy d ?f (Some fd)))" for ex
    by (rule returns_calm_conseq [OF returns_cleanup]) auto
  have nt: "returns (calm_fs u g (tidy d ?f (Some fd))) (new_temp pol d ?f r') (\<lambda>temp. calm_fs u g
      (\<lambda>s. \<exists>fd'. with_temp d ?f (Some fd) temp fd' (\<lambda>i. regular i (nat (file_mode pol)) u g 1 p') s))"
    by (rule returns_calm_conseq [OF returns_new_temp [OF pol new(2)]]) (auto simp: tidy_def)
  have repl: "returns (calm_fs u g (tidy d ?f (Some fd))) (atomic_replace pol d ?f r')
      (\<lambda>_. calm_fs u g (\<lambda>s. \<exists>fd. ?F fd p' s))"
    unfolding atomic_replace_def
  proof (rule returns_bind [OF nt], unfold or_unlink_def, rule returns_catch, rule returns_some)
    fix temp fd'
    show "returns (calm_fs u g (with_temp d ?f (Some fd) temp fd' (\<lambda>i. regular i (nat (file_mode pol)) u g 1 p')))
       (seqW (os_replace d temp ?f) (os_fsync d)) (\<lambda>_. calm_fs u g (\<lambda>s. \<exists>fd. ?F fd p' s))"
      by (rule returns_calm_conseq [where Q' = "\<lambda>_. ?F fd' p'"], rule returns_seq [OF returns_replace returns_fsync]) auto
  qed
  have "moved_to (Some p) st r'" using old(1) allowed new(1) by (auto simp: moved_to_def)
  then have dec: "decode p' = Inr r'" using moved_to_storable new(2) journal_codec.dec_enc by blast
  have load: "returns (calm_fs u g (\<lambda>s. \<exists>fd. ?F fd p' s)) (load_at pol d ?f True) (\<lambda>x. calm_fs u g (\<lambda>s. x = r'))"
    by (rule returns_some, rule returns_calm_conseq [OF returns_load_at [OF pol dec]]) auto
  show ?thesis
    unfolding transition_at_def fname lift_simps bindW_return
  proof (rule returns_bind [OF ld])
    fix x
    have "returns (calm_fs u g ?I)
       (seqW (lift (assert_exact r (plan_id r) (plan_hash r) (resources r)))
       (seqW (raise_when (st \<notin> set (allowed_transitions (state_of r))) e)
       (bindW (lift (advanced r st)) (\<lambda>updated.
        seqW (cleanup_stale_temps pol d ?f [r, updated])
        (seqW (atomic_replace pol d ?f updated) (load_at pol d ?f True))))))
       (\<lambda>x. calm_fs u g (\<lambda>s. x = r'))" for e
      unfolding exact new(1) lift_simps bindW_return seqW_def [of "return ()"]
      by (rule returns_raise_when, simp add: allowed, rule returns_seq [OF cl returns_seq [OF repl load]])
    then show "returns (calm_fs u g (\<lambda>s. ?I s \<and> x = r))
       (seqW (lift (assert_exact x (plan_id r) (plan_hash r) (resources r)))
       (seqW (raise_when (st \<notin> set (allowed_transitions (state_of x)))
                (JournalConflict (''transition '' @ state_value (state_of x) @ ''->''
                                  @ state_value st @ '' is not allowed'')))
       (bindW (lift (advanced x st)) (\<lambda>updated.
        seqW (cleanup_stale_temps pol d ?f [x, updated])
        (seqW (atomic_replace pol d ?f updated) (load_at pol d ?f True))))))
       (\<lambda>x. calm_fs u g (\<lambda>s. x = r'))"
      by (cases "x = r") (auto simp: returns_def calm_fs_def)
  qed
qed

subsection \<open>A sample world\<close>

definition dir_inode :: "nat \<Rightarrow> (pystr \<times> nat) list \<Rightarrow> inode" where
  "dir_inode mode es = \<lparr>ikind = KDir, imode = mode, iuid = 0, igid = 0, inlink = 1, idata = [],
     ients = es, ixattrs = [], idev = 0, imnt = 0, imtime = 0, ictime = 0\<rparr>"

definition sample_fs :: fs where
  "sample_fs = \<lparr>fs_inodes = [0 \<mapsto> dir_inode 493 [(lit ''j'', 7)], 7 \<mapsto> dir_inode 448 []],
     fs_next = 8, fs_clock = 0, fs_locks = (\<lambda>_. Unlocked)\<rparr>"

definition sample_world :: "nat option \<Rightarrow> world" where
  "sample_world kill = \<lparr>w_fs = sample_fs, w_euid = 0, w_egid = 0, w_tokens = (\<lambda>_. replicate 32 48),
     w_drawn = 0, w_calls = 0, w_kill = kill, w_env = (\<lambda>n s. s), w_fail = (\<lambda>_. None),
     w_chunk = (\<lambda>_. 4096)\<rparr>"

definition sample_policy :: policy where
  "sample_policy = \<lparr>expected_owner_uid = 0, directory_mode = 448, file_mode = 384,
     stat_validator = None, trusted_prefix = None, expected_owner_gid = 0\<rparr>"

definition sample_new :: journal_record where
  "sample_new = sample_journal\<lparr>transitions := [PLANNED]\<rparr>"

lemma sample_new_storable: "storable sample_new"
proof -
  have "is_sha256_ref (lit ''sha256:'' @ replicate 64 48)"
    by (simp add: is_sha256_ref_def all_of_length_def list_all_iff char_class_defs)
  then have "valid_journal sample_new"
    using sample_texts sample_resource_valid
    by (simp add: valid_journal_def mk_journal_def sample_new_def sample_journal_def plain_text_checked hash_text_def
        max_resources_def max_transitions_def del: bindR_eq_Inr)
  moreover have "python_text sample_new"
    using sample_journal_text by (simp add: python_text_def sample_new_def)
  ultimately show ?thesis by (simp add: storable_def)
qed

definition sample_bytes :: bytes where
  "sample_bytes = dumps (journal_as_dict sample_new) @ [10]"

lemma sample_new_encodes: "encode sample_new = Inr sample_bytes"
proof -
  have "weight (journal_as_dict sample_new) \<le> 100000"
    by (simp add: journal_as_dict_def sample_new_def sample_journal_def sample_resource_def resource_as_dict_def
        state_of_def lit_def int_str_def nat_digits.simps [of "Suc 0"])
  then have "\<not> max_journal_bytes < length sample_bytes"
    using length_dumps [of "journal_as_dict sample_new"] by (simp add: max_journal_bytes_def sample_bytes_def)
  then show ?thesis by (simp add: encode_def Let_def sample_bytes_def)
qed

lemma sample_quiet: "quiet (sample_world k)"
  by (simp add: quiet_def sample_world_def)

lemma sample_wf: "wf_dir (w_fs (sample_world k)) 7"
  by (auto simp: wf_dir_def sample_world_def sample_fs_def lookup_def entries_of_def dir_inode_def)

lemma sample_tidy: "tidy 7 f None (w_fs (sample_world k))"
  using sample_wf
  by (auto simp: tidy_def ready_def sample_world_def sample_fs_def lookup_def entries_of_def dir_inode_def)

lemma sample_calm: "calm (sample_world None)"
  by (simp add: calm_def quiet_def sample_world_def)

lemma sample_new_name: "published_name (install_id sample_new) = lit ''i1.journal.json''"
  by (simp add: published_name_def sample_new_def sample_journal_def flip: lit_append)

text \<open>A creation that is killed right after the temporary name exists.\<close>

definition residue_fs :: fs where
  "residue_fs = w_fs (snd (create_at sample_policy 7 sample_new (sample_world (Some 3))))"

definition residue_name :: pystr where
  "residue_name = temp_prefix (lit ''i1.journal.json'') @ replicate 32 48"

lemma sample_fs_simps:
  "fs_next sample_fs = 8" "fs_inodes sample_fs 7 = Some (dir_inode 448 [])" "entries_of sample_fs 7 = []"
  "lookup sample_fs 7 x = None"
  by (simp_all add: sample_fs_def entries_of_def dir_inode_def lookup_def)

definition created_fs :: fs where
  "created_fs = snd (do_create 0 0 7 residue_name 384 sample_fs)"

lemma sample_create: "do_create 0 0 7 residue_name 384 sample_fs = (Inr 8, created_fs)"
  by (simp add: created_fs_def do_create_def sample_fs_simps Let_def)

text \<open>The sample world after \<open>c\<close> calls and \<open>t\<close> random draws, killed before call 3.\<close>

definition killed_world :: "nat \<Rightarrow> nat \<Rightarrow> fs \<Rightarrow> world" where
  "killed_world c t s = (sample_world (Some 3))\<lparr>w_calls := c, w_drawn := t, w_fs := s\<rparr>"

lemma killed_syscall:
  "c \<noteq> 3 \<Longrightarrow> f (killed_world c t s) s = (Inr x, s') \<Longrightarrow> syscall f (killed_world c t s) = (Ret x, killed_world (Suc c) t s')"
  "c \<noteq> 3 \<Longrightarrow> f (killed_world c t s) s = (Inl e, s') \<Longrightarrow> syscall f (killed_world c t s) = (Raise e, killed_world (Suc c) t s')"
  "syscall f (killed_world 3 t s) = (Killed, killed_world 3 t s)"
  by (simp_all add: syscall_def killed_world_def sample_world_def)

lemma killed_ids [simp]: "w_euid (killed_world c t s) = 0" "w_egid (killed_world c t s) = 0"
  by (simp_all add: killed_world_def sample_world_def)

lemma killed_entries: "directory_entries 7 (killed_world 0 0 sample_fs) = (Ret [], killed_world 1 0 sample_fs)"
proof -
  have "os_scandir 7 (killed_world 0 0 sample_fs) = (Ret [], killed_world 1 0 sample_fs)"
    unfolding os_scandir_def by (subst killed_syscall(1)) (simp_all add: sample_fs_simps)
  then show ?thesis by (simp add: directory_entries_def os_errors_as_def catchW_def bindW_def return_def)
qed

lemma killed_cleanup:
  "cleanup_stale_temps pol 7 f ex (killed_world 0 0 sample_fs) = (Ret (), killed_world 1 0 sample_fs)"
  by (simp add: cleanup_stale_temps_def bindW_def killed_entries temp_candidates_def seqW_def return_def Let_def)

lemma killed_absent:
  "require_absent 7 f h e (killed_world 1 0 sample_fs) = (Ret (), killed_world 2 0 sample_fs)"
proof -
  have "os_stat_at 7 f (killed_world 1 0 sample_fs) = (Raise (OSError ENOENT), killed_world 2 0 sample_fs)"
    unfolding os_stat_at_def by (subst killed_syscall(2)) (simp_all add: do_stat_at_def sample_fs_simps numeral_2_eq_2)
  then show ?thesis by (simp add: require_absent_def bindW_def catchW_def return_def)
qed

lemma killed_alloc:
  "alloc_temp (Suc k) 7 (temp_prefix (lit ''i1.journal.json'')) 384 (killed_world 2 0 sample_fs)
    = (Ret (Some (8, residue_name)), killed_world 3 1 created_fs)"
proof -
  have tok: "token_hex (killed_world 2 0 sample_fs) = (Ret (replicate 32 48), killed_world 2 1 sample_fs)"
    by (simp add: token_hex_def killed_world_def sample_world_def)
  have "os_create 7 residue_name 384 (killed_world 2 1 sample_fs) = (Ret 8, killed_world 3 1 created_fs)"
    unfolding os_create_def by (subst killed_syscall(1)) (simp_all add: sample_create)
  then show ?thesis
    unfolding alloc_temp.simps bindW_def tok prod.case outcome.case catchW_def residue_name_def by (simp add: return_def)
qed

lemma sample_interrupted_run:
  "create_at sample_policy 7 sample_new (sample_world (Some 3)) = (Killed, killed_world 3 1 created_fs)"
proof -
  have start: "sample_world (Some 3) = killed_world 0 0 sample_fs"
    by (simp add: killed_world_def sample_world_def)
  have st: "state_of sample_new = PLANNED" "transitions sample_new = [PLANNED]"
    by (simp_all add: state_of_def sample_new_def)
  have alloc: "alloc_temp 8 7 (temp_prefix (lit ''i1.journal.json'')) 384 (killed_world 2 0 sample_fs)
      = (Ret (Some (8, residue_name)), killed_world 3 1 created_fs)"
    using killed_alloc [of 7] by (simp del: alloc_temp.simps)
  have mode: "nat (file_mode sample_policy) = 384" by (simp add: sample_policy_def)
  have "new_temp sample_policy 7 (lit ''i1.journal.json'') sample_new (killed_world 2 0 sample_fs)
      = (Killed, killed_world 3 1 created_fs)"
    unfolding new_temp_def sample_new_encodes lift_simps bindW_return mode
    by (simp add: bindW_def alloc seqW_def or_unlink_def catchW_def fill_temp_def os_fstat_def
        killed_syscall(3) del: alloc_temp.simps)
  then show ?thesis
    unfolding create_at_def storable_filename [OF sample_new_storable] sample_new_name lift_simps bindW_return start
    by (simp add: st seqW_def bindW_def killed_cleanup killed_absent [unfolded One_nat_def] atomic_create_def)
qed

lemma created_residue:
  "entries_of created_fs 7 = [(residue_name, 8)]" "map_option idata (fs_inodes created_fs 8) = Some []"
  by (simp_all add: created_fs_def do_create_def sample_fs_simps Let_def set_entries_def upd_inode_def entries_of_def
      dir_inode_def tick_def)

text \<open>A residue that does not decode stops every creation.\<close>

lemma residue_undecodable:
  "\<exists>i. lookup created_fs 7 residue_name = Some 8 \<and> fs_inodes created_fs 8 = Some i
     \<and> decode (idata i) = Inl (JournalCorrupt ''journal is empty or oversized'')"
  using created_residue by (auto simp: lookup_def decode_def)

subsection \<open>Properties\<close>

text \<open>
  C1: creating a journal is atomic.  Wherever the process is killed, whichever system call
  fails and however short the reads and writes are, the published name afterwards holds what
  it held before or, if it was free, the complete encoding of the new record; a returned
  record is the one that was passed and is on disk; an existing journal is never touched.
\<close>

theorem create_is_atomic:
  assumes "quiet w" "wf_dir (w_fs w) d" "storable r" "create_at pol d r w = (out, w')"
  shows "create_outcome d r (w_fs w) out (w_fs w')"
  using create_atomic_lemma [OF assms] .

theorem create_is_atomic_witness:
  "create_outcome 7 sample_new sample_fs Killed (w_fs (killed_world 3 1 created_fs))"
  using create_is_atomic [OF sample_quiet sample_wf sample_new_storable sample_interrupted_run]
  by (simp add: sample_world_def)

text \<open>
  C2: moving a journal to its next state is atomic.  Under the same failures the published
  name afterwards holds the old bytes or the encoding of the old record with one allowed
  state appended; when a record is returned, the move was allowed, its plan and resources
  are the requested ones, and its encoding is on disk.
\<close>

theorem transition_is_atomic:
  assumes "quiet w" "wf_dir (w_fs w) d" "transition_at pol d iid pid phash rs st w = (out, w')"
  shows "transition_outcome d iid pid phash rs st (w_fs w) out (w_fs w')"
  using transition_atomic_lemma [OF assms] .

theorem transition_is_atomic_witness:
  "transition_outcome 7 (lit ''i1'') [] [] [] APPLYING sample_fs
     (fst (transition_at sample_policy 7 (lit ''i1'') [] [] [] APPLYING (sample_world None)))
     (w_fs (snd (transition_at sample_policy 7 (lit ''i1'') [] [] [] APPLYING (sample_world None))))"
  using transition_is_atomic [OF sample_quiet sample_wf, of sample_policy "lit ''i1''" "[]" "[]" "[]" APPLYING None]
  by (simp add: sample_world_def prod_eq_iff)

text \<open>
  C10: a creation succeeds when nothing stands in its way: no failure, a tidy directory, the
  name free, and a store that runs as the owner its policy expects.  It returns the record.
\<close>

theorem create_returns:
  assumes "calm w" "owner_policy pol (w_euid w) (w_egid w)" "storable r" "transitions r = [PLANNED]"
    "encode r = Inr p" "tidy d (published_name (install_id r)) None (w_fs w)"
  shows "fst (create_at pol d r w) = Ret r"
proof -
  have "calm_fs (w_euid w) (w_egid w) (tidy d (published_name (install_id r)) None) w"
    using assms(1,6) by (simp add: calm_fs_def)
  with returns_create_at [OF assms(2-5), of d] show ?thesis
    unfolding returns_def calm_fs_def by fastforce
qed

theorem create_returns_witness: "fst (create_at sample_policy 7 sample_new (sample_world None)) = Ret sample_new"
proof (rule create_returns [OF sample_calm _ sample_new_storable _ sample_new_encodes sample_tidy])
  show "owner_policy sample_policy (w_euid (sample_world None)) (w_egid (sample_world None))"
    by (simp add: owner_policy_def sample_policy_def sample_world_def)
  show "transitions sample_new = [PLANNED]" by (simp add: sample_new_def)
qed

text \<open>
  C11: an allowed transition succeeds when nothing stands in its way, and returns the record
  with the state appended.
\<close>

theorem transition_returns:
  assumes "calm w" "owner_policy pol (w_euid w) (w_egid w)"
    and "decode p = Inr r" "st \<in> set (allowed_transitions (state_of r))" "advanced r st = Inr r'" "encode r' = Inr p'"
    and "tidy d (published_name (install_id r)) (Some fd) (w_fs w)"
      "with_file d (published_name (install_id r)) fd
         (\<lambda>i. regular i (nat (file_mode pol)) (w_euid w) (w_egid w) 1 p) (w_fs w)"
  shows "fst (transition_at pol d (install_id r) (plan_id r) (plan_hash r) (resources r) st w) = Ret r'"
proof -
  have "calm_fs (w_euid w) (w_egid w) (\<lambda>s. tidy d (published_name (install_id r)) (Some fd) s
      \<and> with_file d (published_name (install_id r)) fd
         (\<lambda>i. regular i (nat (file_mode pol)) (w_euid w) (w_egid w) 1 p) s) w"
    using assms(1,7,8) by (simp add: calm_fs_def)
  with returns_transition_at [OF assms(2,3) refl assms(4-6), of d fd] show ?thesis
    unfolding returns_def calm_fs_def by fastforce
qed

text \<open>The sample directory with the sample journal in it.\<close>

definition stored_world :: world where
  "stored_world = (sample_world None)\<lparr>w_fs := \<lparr>fs_inodes =
     [7 \<mapsto> dir_inode 448 [(lit ''i1.journal.json'', 8)],
      8 \<mapsto> (dir_inode 384 [])\<lparr>ikind := KReg, idata := sample_bytes\<rparr>],
     fs_next = 9, fs_clock = 0, fs_locks = (\<lambda>_. Unlocked)\<rparr>\<rparr>"

definition sample_applying :: journal_record where
  "sample_applying = sample_journal\<lparr>transitions := [PLANNED, APPLYING]\<rparr>"

lemma stored_tidy: "tidy 7 (lit ''i1.journal.json'') (Some 8) (w_fs stored_world)"
proof -
  have "\<not> starts_with (temp_prefix (lit ''i1.journal.json'')) (lit ''i1.journal.json'')"
    using temp_not_published by blast
  moreover have "scan_entries 0 0 [lit ''i1.journal.json''] = Inr ()"
  proof -
    have "is_ascii (lit ''i1.journal.json'')" by (simp add: lit_def)
    then have "encode_utf8 (lit ''i1.journal.json'') = Inr (lit ''i1.journal.json'')" by (rule encode_utf8_ascii)
    moreover have "\<not> list_ex is_c0_c1 (lit ''i1.journal.json'')" "\<not> list_ex is_cf (lit ''i1.journal.json'')"
      by (simp_all add: lit_def is_c0_c1_def is_cf_def in_range_def)
    ultimately show ?thesis
      by (simp add: safe_path_component_def max_directory_entries_def max_journal_bytes_def)
  qed
  ultimately show ?thesis
    by (auto simp: tidy_def ready_def wf_dir_def stored_world_def lookup_def entries_of_def dir_inode_def split: if_splits)
qed

lemma sample_advances: "advanced sample_new APPLYING = Inr sample_applying"
proof -
  have "is_sha256_ref (lit ''sha256:'' @ replicate 64 48)"
    by (simp add: is_sha256_ref_def all_of_length_def list_all_iff char_class_defs)
  then show ?thesis
    using sample_texts
    by (simp add: advanced_def mk_journal_def sample_new_def sample_applying_def sample_journal_def plain_text_checked
        hash_text_def max_resources_def max_transitions_def del: bindR_eq_Inr)
qed

lemma sample_applying_encodes: "encode sample_applying = Inr (dumps (journal_as_dict sample_applying) @ [10])"
proof -
  have "weight (journal_as_dict sample_applying) \<le> 100000"
    by (simp add: journal_as_dict_def sample_applying_def sample_journal_def sample_resource_def resource_as_dict_def
        state_of_def lit_def int_str_def nat_digits.simps [of "Suc 0"])
  then have "\<not> max_journal_bytes < length (dumps (journal_as_dict sample_applying) @ [10])"
    using length_dumps [of "journal_as_dict sample_applying"] by (simp add: max_journal_bytes_def)
  then show ?thesis by (simp add: encode_def Let_def)
qed

theorem transition_returns_witness:
  "fst (transition_at sample_policy 7 (install_id sample_new) (plan_id sample_new) (plan_hash sample_new)
      (resources sample_new) APPLYING stored_world) = Ret sample_applying"
proof (rule transition_returns [OF _ _ _ _ sample_advances sample_applying_encodes])
  show "calm stored_world" by (simp add: calm_def quiet_def stored_world_def sample_world_def)
  show "owner_policy sample_policy (w_euid stored_world) (w_egid stored_world)"
    by (simp add: owner_policy_def sample_policy_def stored_world_def sample_world_def)
  show "decode sample_bytes = Inr sample_new"
    using sample_new_storable sample_new_encodes journal_codec.dec_enc by blast
  show "APPLYING \<in> set (allowed_transitions (state_of sample_new))" by (simp add: state_of_def sample_new_def)
  show "tidy 7 (published_name (install_id sample_new)) (Some 8) (w_fs stored_world)"
    using stored_tidy by (simp add: sample_new_name)
  show "with_file 7 (published_name (install_id sample_new)) 8
      (\<lambda>i. regular i (nat (file_mode sample_policy)) (w_euid stored_world) (w_egid stored_world) 1 sample_bytes)
      (w_fs stored_world)"
    by (simp add: sample_new_name with_file_def lookup_def entries_of_def stored_world_def dir_inode_def regular_def
        sample_policy_def sample_world_def)
qed

text \<open>the inspecting operations and a load under a shared lock change nothing on disk, not
  even when they meet the residue of an interrupted creation.
\<close>

theorem readers_change_nothing:
  assumes "quiet w"
  shows "unchanged w (session_inspect_residue pol s iid) \<and> unchanged w (session_load_inflight pol s iid)
    \<and> unchanged w (session_load_unpublished pol s iid)
    \<and> unchanged w (session_load pol (s\<lparr>ses_exclusive := False\<rparr>) iid)"
  using readers_unchanged [OF assms] by simp

theorem readers_change_nothing_witness:
  "unchanged (sample_world (Some 2)) (session_load sample_policy
     \<lparr>ses_root_fd = 7, ses_exclusive = False, ses_closed = False\<rparr> (lit ''i1''))"
  using readers_change_nothing [OF sample_quiet, of "Some 2" sample_policy
      "\<lparr>ses_root_fd = 7, ses_exclusive = False, ses_closed = False\<rparr>" "lit ''i1''"] by simp

text \<open>
  a session that is closed, or that holds only a shared lock, refuses every mutation with
  a conflict before it makes any system call.
\<close>

theorem session_guards_mutation:
  assumes "ses_closed s \<or> \<not> ses_exclusive s"
  shows "\<exists>m. session_create pol s r w = (Raise (JournalConflict m), w)
    \<and> session_transition pol s iid pid phash rs st w = (Raise (JournalConflict m), w)
    \<and> session_cleanup_temps pol s iid expected w = (Raise (JournalConflict m), w)"
  using assms
  by (auto simp: session_create_def session_transition_def session_cleanup_temps_def require_exclusive_def
      require_open_def seqW_def bindW_def raise_when_def raise_def return_def)

theorem session_guards_mutation_witness:
  "fst (session_create sample_policy \<lparr>ses_root_fd = 7, ses_exclusive = False, ses_closed = False\<rparr> sample_new
     (sample_world None)) \<noteq> Ret sample_new"
  using session_guards_mutation [of "\<lparr>ses_root_fd = 7, ses_exclusive = False, ses_closed = False\<rparr>" sample_policy
      sample_new "sample_world None" "[]" "[]" "[]" "[]" PLANNED "[]"] by auto

text \<open>
  C12: a temporary file that does not decode blocks every later creation for its install id:
  the cleanup refuses to remove it and nothing changes.  The witness reaches that state by a
  single kill between the creation of the temporary name and the first byte.
\<close>

theorem partial_residue_blocks_creation:
  assumes "quiet w" "storable r"
    and res: "lookup (w_fs w) d name = Some n" "fs_inodes (w_fs w) n = Some i" "decode (idata i) = Inl e"
      "starts_with (temp_prefix (published_name (install_id r))) name"
    and run: "create_at pol d r w = (out, w')"
  shows "(\<forall>x. out \<noteq> Ret x) \<and> w_fs w' = w_fs w"
proof -
  let ?f = "published_name (install_id r)" and ?s = "w_fs w"
  let ?at = "has_fs (\<lambda>s. s = ?s)"
  have mem: "name \<in> fst ` set (entries_of ?s d)"
    using res(1) unfolding lookup_def by (metis map_of_eq_None_iff option.distinct(1))
  have one: "triple ?at (cleanup_one pol d ?f [r] name) (\<lambda>_ _. False) ?at"
    unfolding cleanup_one_def
  proof (rule triple_at_raise_when, rule triple_at_bind)
    show "triple ?at (catchW (read_at pol d name [1, 2])
        (\<lambda>e. if is_journal_error e
             then security ''journal temporary artifact is not owned canonical residue'' else raise e))
      (\<lambda>_. has_fs (\<lambda>s. s = ?s \<and> False)) ?at"
      by (rule triple_catch, rule triple_has_fs_conseq [OF read_at_spec])
         (use res in \<open>auto simp: read_result_def intro: triple_security triple_raise\<close>)
  qed simp
  have "triple ?at (cleanup_stale_temps pol d ?f [r]) (\<lambda>_ _. False) ?at"
    unfolding cleanup_stale_temps_def Let_def
  proof (rule triple_at_bind [OF directory_entries_spec], rule triple_at_raise_when, rule triple_seq)
    fix ns
    assume ns: "ns = map fst (entries_of ?s d)" and le: "\<not> 1 < length (temp_candidates ?f ns)"
    have "name \<in> set (temp_candidates ?f ns)" using mem res(4) ns by (simp add: temp_candidates_def)
    then have c: "temp_candidates ?f ns = [name]" using le by (cases "temp_candidates ?f ns") auto
    show "triple ?at (cleanup_loop pol d ?f [r] (temp_candidates ?f ns)) (\<lambda>_ _. False) ?at"
      unfolding c cleanup_loop.simps by (rule triple_seq [OF one]) (simp add: triple_def)
  qed (simp add: triple_def)
  then have "triple ?at (create_at pol d r) (\<lambda>_ _. False) ?at"
    unfolding create_at_def storable_filename [OF assms(2)] lift_simps bindW_return
    by (intro triple_at_raise_when triple_seq) (auto simp: triple_def)
  from tripleD [OF this _ run] show ?thesis
    using assms(1) by (cases out) (auto simp: has_fs_def)
qed

theorem partial_residue_blocks_creation_witness:
  "create_at sample_policy 7 sample_new (sample_world (Some 3)) = (Killed, killed_world 3 1 created_fs)
    \<and> fst (create_at sample_policy 7 sample_new ((sample_world None)\<lparr>w_fs := created_fs\<rparr>)) \<noteq> Ret sample_new"
proof
  let ?w = "(sample_world None)\<lparr>w_fs := created_fs\<rparr>"
  obtain i where i: "lookup created_fs 7 residue_name = Some 8" "fs_inodes created_fs 8 = Some i"
      "decode (idata i) = Inl (JournalCorrupt ''journal is empty or oversized'')"
    using residue_undecodable by blast
  have "quiet ?w" by (simp add: quiet_def sample_world_def)
  moreover have "starts_with (temp_prefix (published_name (install_id sample_new))) residue_name"
    unfolding sample_new_name residue_name_def by simp
  ultimately show "fst (create_at sample_policy 7 sample_new ?w) \<noteq> Ret sample_new"
    using partial_residue_blocks_creation [OF _ sample_new_storable, of ?w 7 residue_name 8 i _ sample_policy] i
    by (simp add: prod_eq_iff)
qed (rule sample_interrupted_run)

end
