(* ===== verification/Py_Literal.thy ===== *)
theory Py_Literal
  imports Py_Text
begin

text \<open>
  \<open>ast.literal_eval\<close> of one line of text that starts with a quote, as far as its result is a
  string: adjacent string literals, with their prefixes, triple quotes and escapes, up to a
  comment.  Every other text is either no expression or has a value that is not a string.  The
  table of character names behind the escape \<open>\N{...}\<close> is a parameter.
\<close>

definition is_octal :: "nat \<Rightarrow> bool" where
  "is_octal c = in_range 48 55 c"

definition hex_number :: "pystr \<Rightarrow> nat" where
  "hex_number s = foldl (\<lambda>a c. a * 16 + hex_val c) 0 s"

definition hex_escape :: "nat \<Rightarrow> pystr \<Rightarrow> (pystr \<times> pystr) option" where
  "hex_escape n s =
     (if n \<le> length s \<and> list_all is_hex (take n s) \<and> hex_number (take n s) < 0x110000
      then Some ([hex_number (take n s)], drop n s) else None)"

definition named_escape :: "(pystr \<Rightarrow> nat option) \<Rightarrow> pystr \<Rightarrow> (pystr \<times> pystr) option" where
  "named_escape names s =
     (if starts_with [123] s
      then (case split_once 125 (tl s) of
              None \<Rightarrow> None
            | Some (name, rest) \<Rightarrow> (case names name of None \<Rightarrow> None | Some c \<Rightarrow> Some ([c], rest)))
      else None)"

definition control_escape :: "nat \<Rightarrow> nat option" where
  "control_escape e =
     (if e \<in> {92, 39, 34} then Some e else if e = 97 then Some 7 else if e = 98 then Some 8
      else if e = 102 then Some 12 else if e = 110 then Some 10 else if e = 114 then Some 13
      else if e = 116 then Some 9 else if e = 118 then Some 11 else None)"

text \<open>What follows a backslash: the characters it stands for, and the rest.\<close>

definition string_escape :: "(pystr \<Rightarrow> nat option) \<Rightarrow> pystr \<Rightarrow> (pystr \<times> pystr) option" where
  "string_escape names s =
     (case s of
        [] \<Rightarrow> None
      | e # r \<Rightarrow>
          (case control_escape e of
             Some c \<Rightarrow> Some ([c], r)
           | None \<Rightarrow>
               if is_octal e
               then (let ds = takeWhile is_octal (take 3 s)
                     in Some ([foldl (\<lambda>a c. a * 8 + (c - 48)) 0 ds], drop (length ds) s))
               else if e = 120 then hex_escape 2 r
               else if e = 117 then hex_escape 4 r
               else if e = 85 then hex_escape 8 r
               else if e = 78 then named_escape names r
               else Some ([92, e], r)))"

lemma string_escape_length: "string_escape names s = Some (cs, r) \<Longrightarrow> length r < length s"
  by (auto simp: string_escape_def hex_escape_def named_escape_def split_once_def Let_def
      split: list.splits option.splits if_splits
      dest: arg_cong [of _ _ length] simp: less_Suc_eq_le le_diff_conv)
    (metis Suc_le_eq le_SucI length_dropWhile_le length_tl diff_le_self order_trans)+

function decode_escapes :: "(pystr \<Rightarrow> nat option) \<Rightarrow> pystr \<Rightarrow> pystr option" where
  "decode_escapes names [] = Some []"
| "decode_escapes names (c # s) =
     (if c \<noteq> 92 then map_option ((#) c) (decode_escapes names s)
      else case string_escape names s of
             None \<Rightarrow> None
           | Some (cs, r) \<Rightarrow> map_option ((@) cs) (decode_escapes names r))"
  by pat_completeness auto
termination
  by (relation "measure (length \<circ> snd)") (auto dest!: string_escape_length)

text \<open>The text up to the closing quote, where a backslash protects the next character.\<close>

fun literal_body :: "pystr \<Rightarrow> pystr \<Rightarrow> (pystr \<times> pystr) option" where
  "literal_body quote [] = None"
| "literal_body quote (c # s) =
     (if starts_with quote (c # s) then Some ([], drop (length quote) (c # s))
      else if c = 92
      then (case s of
              [] \<Rightarrow> None
            | d # s' \<Rightarrow> map_option (map_prod (\<lambda>t. c # d # t) id) (literal_body quote s'))
      else map_option (map_prod ((#) c) id) (literal_body quote s))"

definition opening_quote :: "pystr \<Rightarrow> pystr option" where
  "opening_quote s =
     (case s of
        [] \<Rightarrow> None
      | q # r \<Rightarrow> if q = 39 \<or> q = 34 then Some (if starts_with [q, q] r then [q, q, q] else [q]) else None)"

text \<open>One literal with its prefix: the value and the rest.\<close>

definition string_literal :: "(pystr \<Rightarrow> nat option) \<Rightarrow> pystr \<Rightarrow> (pystr \<times> pystr) option" where
  "string_literal names s =
     (let prefixed = (s \<noteq> [] \<and> hd s \<in> {114, 82, 117, 85});
          raw = (s \<noteq> [] \<and> hd s \<in> {114, 82});
          t = (if prefixed then tl s else s)
      in case opening_quote t of
           None \<Rightarrow> None
         | Some quote \<Rightarrow>
             (case literal_body quote (drop (length quote) t) of
                None \<Rightarrow> None
              | Some (body, rest) \<Rightarrow>
                  (if raw then Some (body, rest)
                   else map_option (\<lambda>v. (v, rest)) (decode_escapes names body))))"

lemma literal_body_length: "literal_body quote s = Some (body, rest) \<Longrightarrow> length rest \<le> length s"
  by (induction quote s arbitrary: body rule: literal_body.induct) (fastforce split: if_splits list.splits)+

lemma string_literal_length: "string_literal names s = Some (v, rest) \<Longrightarrow> length rest < length s"
proof -
  assume a: "string_literal names s = Some (v, rest)"
  define t where "t = (if s \<noteq> [] \<and> hd s \<in> {114, 82, 117, 85} then tl s else s)"
  obtain quote body where q: "opening_quote t = Some quote" "literal_body quote (drop (length quote) t) = Some (body, rest)"
    using a unfolding string_literal_def Let_def t_def [symmetric] by (auto split: option.splits if_splits)
  have "0 < length quote" "t \<noteq> []" using q(1) by (auto simp: opening_quote_def split: list.splits if_splits)
  then have "length (drop (length quote) t) < length t" by (cases t) auto
  then have "length rest < length t" using literal_body_length [OF q(2)] by simp
  moreover have "length t \<le> length s" by (simp add: t_def)
  ultimately show ?thesis by simp
qed

definition is_blank :: "nat \<Rightarrow> bool" where
  "is_blank c = (c = 32 \<or> c = 9)"

function adjacent_literals :: "(pystr \<Rightarrow> nat option) \<Rightarrow> pystr \<Rightarrow> pystr option" where
  "adjacent_literals names s =
     (let t = dropWhile is_blank s
      in if t = [] \<or> starts_with [35] t then Some []
         else case string_literal names t of
                None \<Rightarrow> None
              | Some (v, rest) \<Rightarrow> map_option ((@) v) (adjacent_literals names rest))"
  by pat_completeness auto
termination
  by (relation "measure (length \<circ> snd)")
    (auto dest!: string_literal_length intro: less_le_trans length_dropWhile_le)

declare adjacent_literals.simps [simp del]

text \<open>\<open>None\<close>: an exception, or a value that is not a string.\<close>

definition literal_eval_str :: "(pystr \<Rightarrow> nat option) \<Rightarrow> pystr \<Rightarrow> pystr option" where
  "literal_eval_str names s =
     (if 0 \<in> set s \<or> list_ex is_surrogate s then None else adjacent_literals names s)"

end
