(* ===== verification/Config_Yaml.thy ===== *)
theory Config_Yaml
  imports Json_Value Py_Literal
begin

text \<open>
  The YAML subset of \<open>src/src/kitdev_sandboxes/config.py\<close>: comments and quotes, mapping entries,
  scalars, and the block structure by indentation.  Values are those of a JSON document.  The
  messages of the errors keep their fixed part; the source name and the line number that the code
  puts in front of them are left out.
\<close>

definition config_error :: "string \<Rightarrow> 'a res" where
  "config_error msg = Inl (ConfigurationError msg)"

definition max_config_bytes :: nat where "max_config_bytes = 1048576"
definition max_config_lines :: nat where "max_config_lines = 10000"
definition max_nesting_depth :: nat where "max_nesting_depth = 32"

subsection \<open>Lines\<close>

text \<open>The quote that is open after a quote character.\<close>

definition toggle_quote :: "nat option \<Rightarrow> nat \<Rightarrow> nat option" where
  "toggle_quote open_quote c =
     (case open_quote of None \<Rightarrow> Some c | Some q \<Rightarrow> if q = c then None else Some q)"

definition is_quote :: "nat \<Rightarrow> bool" where
  "is_quote c = (c = 39 \<or> c = 34)"

fun strip_comment_from :: "nat option \<Rightarrow> bool \<Rightarrow> pystr \<Rightarrow> pystr res" where
  "strip_comment_from open_quote escaped [] =
     (if open_quote \<noteq> None then config_error ''unterminated quoted scalar'' else Inr [])"
| "strip_comment_from open_quote escaped (c # s) =
     (if escaped then map_sum id ((#) c) (strip_comment_from open_quote False s)
      else if c = 92 \<and> open_quote = Some 34 then map_sum id ((#) c) (strip_comment_from open_quote True s)
      else if is_quote c then map_sum id ((#) c) (strip_comment_from (toggle_quote open_quote c) False s)
      else if c = 35 \<and> open_quote = None then Inr []
      else map_sum id ((#) c) (strip_comment_from open_quote False s))"

definition strip_comment :: "pystr \<Rightarrow> pystr res" where
  "strip_comment line = strip_comment_from None False line"

text \<open>The text before and after the first colon outside quotes.\<close>

fun split_at_colon :: "nat option \<Rightarrow> bool \<Rightarrow> pystr \<Rightarrow> (pystr \<times> pystr) option" where
  "split_at_colon open_quote escaped [] = None"
| "split_at_colon open_quote escaped (c # s) =
     (if escaped then map_option (map_prod ((#) c) id) (split_at_colon open_quote False s)
      else if c = 92 \<and> open_quote = Some 34
      then map_option (map_prod ((#) c) id) (split_at_colon open_quote True s)
      else if is_quote c
      then map_option (map_prod ((#) c) id) (split_at_colon (toggle_quote open_quote c) False s)
      else if c = 58 \<and> open_quote = None then Some ([], s)
      else map_option (map_prod ((#) c) id) (split_at_colon open_quote False s))"

definition is_key_start :: "nat \<Rightarrow> bool" where
  "is_key_start c = (is_lower_az c \<or> is_upper_az c \<or> c = 95)"

definition key_re :: "pystr \<Rightarrow> bool" where
  "key_re s =
     (case s of [] \<Rightarrow> False | c # cs \<Rightarrow> is_key_start c \<and> list_all (\<lambda>x. is_key_start x \<or> is_digit09 x) cs)"

definition split_mapping_entry :: "pystr \<Rightarrow> (pystr \<times> pystr) res" where
  "split_mapping_entry content =
     (case split_at_colon None False content of
        None \<Rightarrow> config_error ''expected a mapping entry''
      | Some (earlier, after) \<Rightarrow>
          if \<not> key_re (strip earlier) then config_error ''invalid mapping key''
          else Inr (strip earlier, strip after))"

subsection \<open>Scalars\<close>

definition int_re :: "pystr \<Rightarrow> bool" where
  "int_re s =
     (let ds = (if starts_with [45] s then tl s else s)
      in ds = [48] \<or> (ds \<noteq> [] \<and> list_all is_digit09 ds \<and> hd ds \<noteq> 48))"

text \<open>\<open>int(s)\<close> for text that \<open>int_re\<close> matches; more digits than the limit are a \<open>ValueError\<close>.\<close>

definition int_of_text :: "pystr \<Rightarrow> json res" where
  "int_of_text s =
     (let ds = (if starts_with [45] s then tl s else s);
          n = int (digits_val 0 ds)
      in if int_limit < length ds then Inl (ValueError ''Exceeds the limit for integer string conversion'')
         else Inr (JInt (if starts_with [45] s then - n else n)))"

definition parse_scalar :: "(pystr \<Rightarrow> nat option) \<Rightarrow> pystr \<Rightarrow> json res" where
  "parse_scalar names value =
     (if value = [] then config_error ''missing scalar value''
      else if value \<in> {lit ''null'', lit ''~''} then Inr JNull
      else if value = lit ''true'' then Inr (JBool True)
      else if value = lit ''false'' then Inr (JBool False)
      else if value = lit ''[]'' then Inr (JArr [])
      else if value = lit ''{}'' then Inr (JObj [])
      else if is_quote (hd value)
      then (case literal_eval_str names value of
              None \<Rightarrow> config_error ''invalid quoted scalar''
            | Some s \<Rightarrow> Inr (JStr s))
      else if int_re value then int_of_text value
      else if hd value \<in> set (lit ''[{&*!|>'')
      then config_error ''unsupported YAML construct; use block lists and mappings''
      else Inr (JStr value))"

subsection \<open>Tokens\<close>

text \<open>Indentation and content of a line that is neither blank nor a comment.\<close>

type_synonym token = "nat \<times> pystr"

definition line_token :: "pystr \<Rightarrow> token option res" where
  "line_token original =
     (if 9 \<in> set (takeWhile is_space original) then config_error ''tabs are not allowed''
      else bindR (strip_comment original) (\<lambda>kept.
        let content = rev (dropWhile is_space (rev kept));
            indent = length (takeWhile (\<lambda>c. c = 32) content)
        in if strip content = [] then Inr None
           else if indent mod 2 \<noteq> 0 then config_error ''indentation must use 2 spaces''
           else if max_nesting_depth < indent div 2 then config_error ''nesting exceeds the limit''
           else Inr (Some (indent, strip content))))"

definition tokens_of :: "pystr list \<Rightarrow> token list res" where
  "tokens_of ls = bindR (mapR line_token ls) (\<lambda>ts. Inr (map the (filter (\<lambda>t. t \<noteq> None) ts)))"

subsection \<open>Blocks\<close>

text \<open>
  \<open>parse_block(index, indent)\<close> on the tokens from \<open>index\<close> on, giving the value and the tokens
  that are left.  The first token of a block decides whether it is a list or a mapping.
\<close>

fun parse_list :: "(pystr \<Rightarrow> nat option) \<Rightarrow> nat \<Rightarrow> token list \<Rightarrow> (json list \<times> token list) res" where
  "parse_list names indent [] = Inr ([], [])"
| "parse_list names indent ((i, content) # ts) =
     (if i < indent then Inr ([], (i, content) # ts)
      else if indent < i then config_error ''unexpected indentation''
      else if \<not> starts_with [45] content then config_error ''mixed list and mapping''
      else if strip (tl content) = [] then config_error ''nested list items are not supported''
      else bindR (parse_scalar names (strip (tl content))) (\<lambda>v.
           bindR (parse_list names indent ts) (\<lambda>(vs, rest). Inr (v # vs, rest))))"

fun parse_mapping ::
  "(pystr \<Rightarrow> nat option) \<Rightarrow> nat \<Rightarrow> nat \<Rightarrow> json_dict \<Rightarrow> token list \<Rightarrow> (json_dict \<times> token list) res"
  and parse_block :: "(pystr \<Rightarrow> nat option) \<Rightarrow> nat \<Rightarrow> nat \<Rightarrow> token list \<Rightarrow> (json \<times> token list) res" where
  "parse_mapping names 0 indent d ts = Inl out_of_fuel"
| "parse_mapping names (Suc fuel) indent d [] = Inr (d, [])"
| "parse_mapping names (Suc fuel) indent d ((i, content) # ts) =
     (if i < indent then Inr (d, (i, content) # ts)
      else if indent < i then config_error ''unexpected indentation''
      else if starts_with [45] content then config_error ''mixed mapping and list''
      else bindR (split_mapping_entry content) (\<lambda>(key, scalar).
        if map_of d key \<noteq> None then config_error ''duplicate key''
        else
          bindR (if scalar \<noteq> [] then bindR (parse_scalar names scalar) (\<lambda>v. Inr (v, ts))
                 else if ts = [] \<or> fst (hd ts) \<le> indent then config_error ''mapping key has no value''
                 else parse_block names fuel (fst (hd ts)) ts) (\<lambda>(v, rest).
            parse_mapping names fuel indent (d @ [(key, v)]) rest)))"
| "parse_block names fuel indent [] = config_error ''configuration is empty''"
| "parse_block names fuel indent ((i, content) # ts) =
     (if i \<noteq> indent then config_error ''invalid indentation''
      else if starts_with [45] content
      then bindR (parse_list names indent ((i, content) # ts)) (\<lambda>(vs, rest). Inr (JArr vs, rest))
      else bindR (parse_mapping names fuel indent [] ((i, content) # ts)) (\<lambda>(d, rest). Inr (JObj d, rest)))"

definition top_mapping :: "json \<Rightarrow> token list \<Rightarrow> json_dict res" where
  "top_mapping parsed rest =
     (case parsed of
        JObj d \<Rightarrow> (if rest \<noteq> [] then config_error ''top-level configuration must be a mapping'' else Inr d)
      | _ \<Rightarrow> config_error ''top-level configuration must be a mapping'')"

definition parse_tokens :: "(pystr \<Rightarrow> nat option) \<Rightarrow> token list \<Rightarrow> json_dict res" where
  "parse_tokens names ts =
     (if ts = [] then config_error ''configuration is empty''
      else if fst (hd ts) \<noteq> 0 then config_error ''first content must not be indented''
      else bindR (parse_block names (Suc (length ts)) 0 ts) (\<lambda>(parsed, rest). top_mapping parsed rest))"

definition parse_yaml :: "(pystr \<Rightarrow> nat option) \<Rightarrow> pystr \<Rightarrow> json_dict res" where
  "parse_yaml names s =
     bindR (encode_utf8 s) (\<lambda>raw.
     if max_config_bytes < length raw then config_error ''configuration exceeds the byte limit''
     else if max_config_lines < length (splitlines s) then config_error ''configuration exceeds the line limit''
     else bindR (tokens_of (splitlines s)) (parse_tokens names))"

end
