(* ===== verification/Ip_Network.thy ===== *)
theory Ip_Network
  imports Json
begin

text \<open>
  What the firewall code uses of \<open>ipaddress\<close> (Python 3.13): reading a network from text with
  \<open>strict=True\<close>, printing it, membership, overlap, and the registry predicates.  A network is its
  version, its lowest address, its prefix length and, for IPv6, the scope id that the standard
  library keeps as part of the address.
\<close>

subsection \<open>Networks\<close>

record ip_net =
  net_version :: nat
  net_addr :: nat
  net_plen :: nat
  net_scope :: "pystr option"

definition ip_width :: "nat \<Rightarrow> nat" where
  "ip_width v = (if v = 4 then 32 else 128)"

text \<open>The address with its host bits cleared, and the last address of a network.\<close>

definition masked :: "nat \<Rightarrow> nat \<Rightarrow> nat \<Rightarrow> nat" where
  "masked w p a = a div 2 ^ (w - p) * 2 ^ (w - p)"

definition broadcast :: "ip_net \<Rightarrow> nat" where
  "broadcast n = net_addr n + 2 ^ (ip_width (net_version n) - net_plen n) - 1"

text \<open>\<open>address in network\<close> for an address of the given version.\<close>

definition in_net :: "nat \<Rightarrow> nat \<Rightarrow> ip_net \<Rightarrow> bool" where
  "in_net v a n = (v = net_version n \<and> masked (ip_width v) (net_plen n) a = net_addr n)"

definition overlaps :: "ip_net \<Rightarrow> ip_net \<Rightarrow> bool" where
  "overlaps m n =
     (in_net (net_version m) (net_addr m) n \<or> in_net (net_version m) (broadcast m) n
      \<or> in_net (net_version n) (net_addr n) m \<or> in_net (net_version n) (broadcast n) m)"

subsection \<open>Reading\<close>

definition all_digits :: "pystr \<Rightarrow> bool" where
  "all_digits s = (s \<noteq> [] \<and> list_all is_digit09 s)"

definition parse_octet :: "pystr \<Rightarrow> nat option" where
  "parse_octet s =
     (if \<not> all_digits s \<or> 3 < length s \<or> (s \<noteq> [48] \<and> hd s = 48) \<or> 255 < digits_val 0 s then None
      else Some (digits_val 0 s))"

fun sequence_option :: "'a option list \<Rightarrow> 'a list option" where
  "sequence_option [] = Some []"
| "sequence_option (None # xs) = None"
| "sequence_option (Some x # xs) = (case sequence_option xs of None \<Rightarrow> None | Some ys \<Rightarrow> Some (x # ys))"

definition v4_int :: "pystr \<Rightarrow> nat option" where
  "v4_int s =
     (let octets = split_on 46 s in
      if length octets \<noteq> 4 then None
      else case sequence_option (map parse_octet octets) of
             None \<Rightarrow> None
           | Some ns \<Rightarrow> Some (foldl (\<lambda>a n. a * 256 + n) 0 ns))"

definition prefix_from_prefix_string :: "nat \<Rightarrow> pystr \<Rightarrow> nat option" where
  "prefix_from_prefix_string w s =
     (if all_digits s \<and> digits_val 0 s \<le> w then Some (digits_val 0 s) else None)"

text \<open>The length of a mask of ones followed by zeros.\<close>

definition prefix_from_ip_int :: "nat \<Rightarrow> nat option" where
  "prefix_from_ip_int x = find (\<lambda>p. x + 2 ^ (32 - p) = 2 ^ 32) [0..<33]"

definition v4_mask :: "pystr \<Rightarrow> nat option" where
  "v4_mask s =
     (case prefix_from_prefix_string 32 s of
        Some p \<Rightarrow> Some p
      | None \<Rightarrow>
          (case v4_int s of
             None \<Rightarrow> None
           | Some x \<Rightarrow>
               (case prefix_from_ip_int x of
                  Some p \<Rightarrow> Some p
                | None \<Rightarrow> prefix_from_ip_int (2 ^ 32 - 1 - x))))"

definition parse_hextet :: "pystr \<Rightarrow> nat option" where
  "parse_hextet s =
     (if s = [] \<or> \<not> list_all is_hex s \<or> 4 < length s then None
      else Some (foldl (\<lambda>a c. a * 16 + hex_val c) 0 s))"

definition hex_str :: "nat \<Rightarrow> pystr" where
  "hex_str n =
     (let ds = dropWhile (\<lambda>d. d = 48) (map hex_digit [n div 4096 mod 16, n div 256 mod 16, n div 16 mod 16, n mod 16])
      in if ds = [] then [48] else ds)"

text \<open>The parts between colons, with a trailing dotted quad replaced by two hextets.\<close>

definition v6_parts :: "pystr \<Rightarrow> pystr list option" where
  "v6_parts s =
     (let ps = split_on 58 s in
      if length ps < 3 then None
      else if 46 \<in> set (last ps)
      then (case v4_int (last ps) of
              None \<Rightarrow> None
            | Some x \<Rightarrow> Some (butlast ps @ [hex_str (x div 65536), hex_str (x mod 65536)]))
      else Some ps)"

text \<open>How many hextets stand before and after the double colon, and how many it skips.\<close>

definition v6_shape :: "pystr list \<Rightarrow> (nat \<times> nat \<times> nat) option" where
  "v6_shape ps =
     (if 9 < length ps then None
      else case filter (\<lambda>i. ps ! i = []) [1..<length ps - 1] of
        [] \<Rightarrow> if length ps \<noteq> 8 \<or> hd ps = [] \<or> last ps = [] then None else Some (8, 0, 0)
      | [skip] \<Rightarrow>
          (let hi = (if hd ps = [] then skip - 1 else skip);
               lo = (if last ps = [] then length ps - skip - 2 else length ps - skip - 1)
           in if (hd ps = [] \<and> hi \<noteq> 0) \<or> (last ps = [] \<and> lo \<noteq> 0) \<or> 8 < hi + lo + 1 then None
              else Some (hi, lo, 8 - (hi + lo)))
      | _ \<Rightarrow> None)"

definition hextets_val :: "nat list \<Rightarrow> nat" where
  "hextets_val ns = foldl (\<lambda>a n. a * 65536 + n) 0 ns"

definition v6_int :: "pystr \<Rightarrow> nat option" where
  "v6_int s =
     (case v6_parts s of
        None \<Rightarrow> None
      | Some ps \<Rightarrow>
          (case v6_shape ps of
             None \<Rightarrow> None
           | Some (hi, lo, skipped) \<Rightarrow>
               (case (sequence_option (map parse_hextet (take hi ps)),
                      sequence_option (map parse_hextet (drop (length ps - lo) ps))) of
                  (Some his, Some los) \<Rightarrow> Some (hextets_val (his @ replicate skipped 0 @ los))
                | _ \<Rightarrow> None)))"

text \<open>The scope id after a percent sign; an empty or doubled one is an error.\<close>

definition split_scope_id :: "pystr \<Rightarrow> (pystr \<times> pystr option) option" where
  "split_scope_id s =
     (case split_once 37 s of
        None \<Rightarrow> Some (s, None)
      | Some (addr, scope) \<Rightarrow> if scope = [] \<or> 37 \<in> set scope then None else Some (addr, Some scope))"

text \<open>At most one slash; without a slash the network is one address.\<close>

definition split_addr_prefix :: "nat \<Rightarrow> pystr \<Rightarrow> (pystr \<times> pystr option) option" where
  "split_addr_prefix w s =
     (case split_on 47 s of
        [a] \<Rightarrow> Some (a, None)
      | [a, p] \<Rightarrow> Some (a, Some p)
      | _ \<Rightarrow> None)"

definition v4_fields :: "pystr \<Rightarrow> (nat \<times> nat) option" where
  "v4_fields s =
     (case split_addr_prefix 32 s of
        None \<Rightarrow> None
      | Some (a, p) \<Rightarrow>
          (case (v4_int a, case p of None \<Rightarrow> Some 32 | Some m \<Rightarrow> v4_mask m) of
             (Some x, Some n) \<Rightarrow> Some (x, n)
           | _ \<Rightarrow> None))"

definition v6_fields :: "pystr \<Rightarrow> (nat \<times> nat \<times> pystr option) option" where
  "v6_fields s =
     (case split_addr_prefix 128 s of
        None \<Rightarrow> None
      | Some (a, p) \<Rightarrow>
          (case split_scope_id a of
             None \<Rightarrow> None
           | Some (b, scope) \<Rightarrow>
               (case (v6_int b, case p of None \<Rightarrow> Some 128 | Some m \<Rightarrow> prefix_from_prefix_string 128 m) of
                  (Some x, Some n) \<Rightarrow> Some (x, n, scope)
                | _ \<Rightarrow> None)))"

text \<open>\<open>ip_network(s, strict=True)\<close>; every failure is a \<open>ValueError\<close>.\<close>

definition ip_network :: "pystr \<Rightarrow> ip_net res" where
  "ip_network s =
     (case v4_fields s of
        Some (a, p) \<Rightarrow>
          if masked 32 p a \<noteq> a then Inl (ValueError ''has host bits set'')
          else Inr \<lparr>net_version = 4, net_addr = a, net_plen = p, net_scope = None\<rparr>
      | None \<Rightarrow>
          (case v6_fields s of
             None \<Rightarrow> Inl (ValueError ''does not appear to be an IPv4 or IPv6 network'')
           | Some (a, p, scope) \<Rightarrow>
               if masked 128 p a \<noteq> a then Inl (ValueError ''has host bits set'')
               else Inr \<lparr>net_version = 6, net_addr = a, net_plen = p, net_scope = scope\<rparr>))"

subsection \<open>Printing\<close>

definition v4_str :: "nat \<Rightarrow> pystr" where
  "v4_str a = join [46] (map nat_digits [a div 16777216 mod 256, a div 65536 mod 256, a div 256 mod 256, a mod 256])"

text \<open>The start and length of the first longest run of zero hextets.\<close>

fun zero_run :: "pystr list \<Rightarrow> nat \<Rightarrow> nat \<Rightarrow> nat \<Rightarrow> nat \<Rightarrow> nat \<times> nat" where
  "zero_run [] index run best_start best = (best_start, best)"
| "zero_run (h # hs) index run best_start best =
     (if h = [48]
      then (if best < Suc run then zero_run hs (Suc index) (Suc run) (index - run) (Suc run)
            else zero_run hs (Suc index) (Suc run) best_start best)
      else zero_run hs (Suc index) 0 best_start best)"

definition compress_hextets :: "pystr list \<Rightarrow> pystr list" where
  "compress_hextets hs =
     (let (start, run) = zero_run hs 0 0 0 0 in
      if 1 < run
      then (if start = 0 then [[]] else []) @ take start hs @ [[]] @ drop (start + run) hs
           @ (if start + run = length hs then [[]] else [])
      else hs)"

definition hextets :: "nat \<Rightarrow> nat list" where
  "hextets a = map (\<lambda>i. a div 2 ^ (16 * (7 - i)) mod 65536) [0..<8]"

definition v6_str :: "nat \<Rightarrow> pystr" where
  "v6_str a =
     (if a div 2 ^ 32 = 0xFFFF
      then join [58] (compress_hextets (map hex_str (hextets (a div 2 ^ 32)))) @ [58] @ v4_str (a mod 2 ^ 32)
      else join [58] (compress_hextets (map hex_str (hextets a))))"

definition net_str :: "ip_net \<Rightarrow> pystr" where
  "net_str n =
     (if net_version n = 4 then v4_str (net_addr n)
      else v6_str (net_addr n) @ (case net_scope n of None \<Rightarrow> [] | Some scope \<Rightarrow> 37 # scope))
     @ [47] @ nat_digits (net_plen n)"

subsection \<open>The registries\<close>

text \<open>Blocks by their leading parts: \<open>v4_block [10] 8\<close>, \<open>v6_block [0x2001, 0xdb8] 32\<close>.\<close>

definition v4_block :: "nat list \<Rightarrow> nat \<Rightarrow> ip_net" where
  "v4_block ns p =
     \<lparr>net_version = 4, net_addr = foldl (\<lambda>a n. a * 256 + n) 0 (ns @ replicate (4 - length ns) 0),
      net_plen = p, net_scope = None\<rparr>"

definition v6_block :: "nat list \<Rightarrow> nat \<Rightarrow> ip_net" where
  "v6_block ns p =
     \<lparr>net_version = 6, net_addr = hextets_val (ns @ replicate (8 - length ns) 0),
      net_plen = p, net_scope = None\<rparr>"

definition v4_private_networks :: "ip_net list" where
  "v4_private_networks =
     [v4_block [0] 8, v4_block [10] 8, v4_block [127] 8, v4_block [169, 254] 16, v4_block [172, 16] 12,
      v4_block [192, 0, 0] 24, v4_block [192, 0, 0, 170] 31, v4_block [192, 0, 2] 24, v4_block [192, 168] 16,
      v4_block [198, 18] 15, v4_block [198, 51, 100] 24, v4_block [203, 0, 113] 24, v4_block [240] 4,
      v4_block [255, 255, 255, 255] 32]"

definition v4_private_exceptions :: "ip_net list" where
  "v4_private_exceptions = [v4_block [192, 0, 0, 9] 32, v4_block [192, 0, 0, 10] 32]"

definition v6_private_networks :: "ip_net list" where
  "v6_private_networks =
     [v6_block [0, 0, 0, 0, 0, 0, 0, 1] 128, v6_block [0] 128, v6_block [0, 0, 0, 0, 0, 0xFFFF] 96,
      v6_block [0x64, 0xFF9B, 1] 48, v6_block [0x100] 64, v6_block [0x2001] 23, v6_block [0x2001, 0xDB8] 32,
      v6_block [0x2002] 16, v6_block [0xFC00] 7, v6_block [0xFE80] 10]"

definition v6_private_exceptions :: "ip_net list" where
  "v6_private_exceptions =
     [v6_block [0x2001, 1, 0, 0, 0, 0, 0, 1] 128, v6_block [0x2001, 1, 0, 0, 0, 0, 0, 2] 128,
      v6_block [0x2001, 3] 32, v6_block [0x2001, 4, 0x112] 48, v6_block [0x2001, 0x20] 28,
      v6_block [0x2001, 0x30] 28]"

definition v6_reserved_networks :: "ip_net list" where
  "v6_reserved_networks =
     [v6_block [0] 8, v6_block [0x100] 8, v6_block [0x200] 7, v6_block [0x400] 6, v6_block [0x800] 5,
      v6_block [0x1000] 4, v6_block [0x4000] 3, v6_block [0x6000] 3, v6_block [0x8000] 3, v6_block [0xA000] 3,
      v6_block [0xC000] 3, v6_block [0xE000] 4, v6_block [0xF000] 5, v6_block [0xF800] 6, v6_block [0xFE00] 9]"

text \<open>A property of both ends of a network.\<close>

definition both_ends :: "(nat \<Rightarrow> bool) \<Rightarrow> ip_net \<Rightarrow> bool" where
  "both_ends p n = (p (net_addr n) \<and> p (broadcast n))"

definition inside :: "ip_net \<Rightarrow> ip_net \<Rightarrow> bool" where
  "inside b n = both_ends (\<lambda>a. in_net (net_version n) a b) n"

definition is_private :: "ip_net \<Rightarrow> bool" where
  "is_private n =
     (let (nets, exceptions) = (if net_version n = 4 then (v4_private_networks, v4_private_exceptions)
                                else (v6_private_networks, v6_private_exceptions))
      in list_ex (\<lambda>b. inside b n) nets
         \<and> list_all (\<lambda>b. \<not> in_net (net_version n) (net_addr n) b \<and> \<not> in_net (net_version n) (broadcast n) b) exceptions)"

definition is_global :: "ip_net \<Rightarrow> bool" where
  "is_global n =
     (if net_version n = 4 then \<not> inside (v4_block [100, 64] 10) n \<and> \<not> is_private n else \<not> is_private n)"

definition is_loopback :: "ip_net \<Rightarrow> bool" where
  "is_loopback n = (if net_version n = 4 then inside (v4_block [127] 8) n else both_ends (\<lambda>a. a = 1) n)"

definition is_link_local :: "ip_net \<Rightarrow> bool" where
  "is_link_local n = inside (if net_version n = 4 then v4_block [169, 254] 16 else v6_block [0xFE80] 10) n"

definition is_multicast :: "ip_net \<Rightarrow> bool" where
  "is_multicast n = inside (if net_version n = 4 then v4_block [224] 4 else v6_block [0xFF00] 8) n"

definition is_reserved :: "ip_net \<Rightarrow> bool" where
  "is_reserved n =
     (if net_version n = 4 then inside (v4_block [240] 4) n
      else both_ends (\<lambda>a. list_ex (\<lambda>b. in_net 6 a b) v6_reserved_networks) n)"

definition is_unspecified :: "ip_net \<Rightarrow> bool" where
  "is_unspecified n = both_ends (\<lambda>a. a = 0) n"

text \<open>The test of the firewall code: not global, or in any special block.\<close>

definition special_network :: "ip_net \<Rightarrow> bool" where
  "special_network n =
     (\<not> is_global n \<or> is_private n \<or> is_loopback n \<or> is_link_local n \<or> is_multicast n
      \<or> is_reserved n \<or> is_unspecified n)"

end
