(* ===== verification/Ip_Address.thy ===== *)
theory Ip_Address
  imports Ip_Network
begin

text \<open>\<open>ipaddress.ip_address\<close>: one address, IPv4 first; every failure is a \<open>ValueError\<close>.\<close>

record ip_addr =
  addr_version :: nat
  addr_value :: nat
  addr_scope :: "pystr option"

definition ip_address :: "pystr \<Rightarrow> ip_addr res" where
  "ip_address s =
     (if 47 \<in> set s then Inl (ValueError ''does not appear to be an IPv4 or IPv6 address'')
      else case v4_int s of
        Some a \<Rightarrow> Inr \<lparr>addr_version = 4, addr_value = a, addr_scope = None\<rparr>
      | None \<Rightarrow>
          (case split_scope_id s of
             None \<Rightarrow> Inl (ValueError ''does not appear to be an IPv4 or IPv6 address'')
           | Some (b, scope) \<Rightarrow>
               (case v6_int b of
                  None \<Rightarrow> Inl (ValueError ''does not appear to be an IPv4 or IPv6 address'')
                | Some a \<Rightarrow> Inr \<lparr>addr_version = 6, addr_value = a, addr_scope = scope\<rparr>)))"

text \<open>An IPv4 address inside an IPv6 one is judged as IPv4.\<close>

definition v4_loopback :: "nat \<Rightarrow> bool" where
  "v4_loopback a = (a div 2 ^ 24 = 127)"

definition address_is_loopback :: "ip_addr \<Rightarrow> bool" where
  "address_is_loopback a =
     (if addr_version a = 4 then v4_loopback (addr_value a)
      else if addr_value a div 2 ^ 32 = 0xFFFF then v4_loopback (addr_value a mod 2 ^ 32)
      else addr_value a = 1)"

lemma ip_address_error: "ip_address s = Inl e \<Longrightarrow> is_value_error e"
  by (auto simp: ip_address_def split: if_splits option.splits)

end
