(* ===== verification/Config.thy ===== *)
theory Config
  imports Py_Text
begin

text \<open>
  The validated configuration as \<open>src/src/kitdev_sandboxes/config.py\<close> hands it to the
  planners: its enumerations and one record per section.
\<close>

datatype lifecycle_mode = Production | Development | Migration

fun lifecycle_value :: "lifecycle_mode \<Rightarrow> string" where
  "lifecycle_value Production = ''production''"
| "lifecycle_value Development = ''development''"
| "lifecycle_value Migration = ''migration''"

datatype deployment_profile = Minimal | Standard | Full

fun profile_value :: "deployment_profile \<Rightarrow> string" where
  "profile_value Minimal = ''minimal''"
| "profile_value Standard = ''standard''"
| "profile_value Full = ''full''"

record deployment_config =
  profile :: deployment_profile
  lifecycle :: lifecycle_mode
  listen_address :: pystr
  public_exposure :: bool
  domain_name :: "pystr option"

record paths_config =
  install_path :: pystr
  config_path :: pystr
  state_path :: pystr
  logs_path :: pystr
  runtime_path :: pystr

record sandbox_config =
  default_template :: pystr
  default_vcpus :: int
  default_memory_mib :: int
  default_disk_mib :: int
  default_timeout_seconds :: int
  default_ttl_seconds :: int
  max_processes :: int
  max_output_bytes :: int

record network_config =
  ipv4_cidr :: pystr
  ipv6_enabled :: bool
  dns_resolvers :: "pystr list"
  allow_http_egress :: bool
  allow_private_egress :: bool
  private_egress_allowlist :: "pystr list"
  sandbox_to_sandbox :: bool

record features_config =
  observability :: bool
  persistence :: bool
  backups :: bool
  browser_template :: bool
  desktop_template :: bool

record configuration =
  cfg_schema_version :: int
  deployment :: deployment_config
  paths :: paths_config
  sandbox :: sandbox_config
  network :: network_config
  features :: features_config
  operator :: "pystr option"

end
