(* ===== verification/Planning.thy ===== *)
theory Planning
  imports Config Json_Value Pure_Path
begin

text \<open>
  The change planner of \<open>src/src/kitdev_sandboxes/planning.py\<close>: observations of the project
  directories go in, a plan of directory creations and a list of issues comes out.  The
  constructors of the data classes check their texts, so they are functions that may raise.
\<close>

subsection \<open>Enumerations\<close>

datatype action_category =
    CPackage | CAccount | CDirectory | CManagedFile | CSharedFileMerge | CKernelModule | CSysctl
  | CNetworkFirewall | CService | CCompose | CArtifact | CTemplate | CValidation

fun category_value :: "action_category \<Rightarrow> string" where
  "category_value CPackage = ''package''"
| "category_value CAccount = ''account''"
| "category_value CDirectory = ''directory''"
| "category_value CManagedFile = ''managed_file''"
| "category_value CSharedFileMerge = ''shared_file_merge''"
| "category_value CKernelModule = ''kernel_module''"
| "category_value CSysctl = ''sysctl''"
| "category_value CNetworkFirewall = ''network_firewall''"
| "category_value CService = ''service''"
| "category_value CCompose = ''compose''"
| "category_value CArtifact = ''artifact''"
| "category_value CTemplate = ''template''"
| "category_value CValidation = ''validation''"

datatype observed_state = Absent | Present | StateUnknown | StateUnsupported

fun observed_value :: "observed_state \<Rightarrow> string" where
  "observed_value Absent = ''absent''"
| "observed_value Present = ''present''"
| "observed_value StateUnknown = ''unknown''"
| "observed_value StateUnsupported = ''unsupported''"

datatype ownership = OwnProject | OwnForeign | OwnShared | Unowned | OwnUnknown

fun ownership_value :: "ownership \<Rightarrow> string" where
  "ownership_value OwnProject = ''project''"
| "ownership_value OwnForeign = ''foreign''"
| "ownership_value OwnShared = ''shared''"
| "ownership_value Unowned = ''unowned''"
| "ownership_value OwnUnknown = ''unknown''"

datatype confidence = ConfUnknown | ConfLow | ConfMedium | ConfHigh

fun confidence_value :: "confidence \<Rightarrow> string" where
  "confidence_value ConfUnknown = ''unknown''"
| "confidence_value ConfLow = ''low''"
| "confidence_value ConfMedium = ''medium''"
| "confidence_value ConfHigh = ''high''"

datatype privilege = Unprivileged | RootPrivilege

fun privilege_value :: "privilege \<Rightarrow> string" where
  "privilege_value Unprivileged = ''unprivileged''"
| "privilege_value RootPrivilege = ''root''"

datatype restart_impact = ImpactNone | ImpactService | ImpactCompose | ImpactHost

fun impact_value :: "restart_impact \<Rightarrow> string" where
  "impact_value ImpactNone = ''none''"
| "impact_value ImpactService = ''service''"
| "impact_value ImpactCompose = ''compose''"
| "impact_value ImpactHost = ''host''"

datatype rollback_strategy =
  RemoveCreated | RestoreBackup | RevertValue | Disable | Manual | NotApplicable

fun strategy_value :: "rollback_strategy \<Rightarrow> string" where
  "strategy_value RemoveCreated = ''remove_created''"
| "strategy_value RestoreBackup = ''restore_backup''"
| "strategy_value RevertValue = ''revert_value''"
| "strategy_value Disable = ''disable''"
| "strategy_value Manual = ''manual''"
| "strategy_value NotApplicable = ''not_applicable''"

datatype issue_code = CodeConflict | CodeInvalidFact | CodeLifecycle | CodeUnknown | CodeUnsupported

fun code_value :: "issue_code \<Rightarrow> string" where
  "code_value CodeConflict = ''conflict''"
| "code_value CodeInvalidFact = ''invalid_fact''"
| "code_value CodeLifecycle = ''lifecycle''"
| "code_value CodeUnknown = ''unknown''"
| "code_value CodeUnsupported = ''unsupported''"

datatype issue_severity = Warning | Blocking

fun severity_value :: "issue_severity \<Rightarrow> string" where
  "severity_value Warning = ''warning''"
| "severity_value Blocking = ''blocking''"

subsection \<open>Text checks\<close>

definition max_id_bytes :: nat where "max_id_bytes = 128"
definition max_target_bytes :: nat where "max_target_bytes = 4096"
definition max_text_bytes :: nat where "max_text_bytes = 2048"
definition max_resource_facts :: nat where "max_resource_facts = 1024"
definition max_plan_actions :: nat where "max_plan_actions = 256"
definition max_plan_issues :: nat where "max_plan_issues = 256"
definition max_plan_json_bytes :: nat where "max_plan_json_bytes = 1048576"

definition stable_id_char :: "nat \<Rightarrow> bool" where
  "stable_id_char c = (is_lower_az c \<or> is_digit09 c \<or> c = 95 \<or> c = 46 \<or> c = 45)"

definition stable_id_re :: "pystr \<Rightarrow> bool" where
  "stable_id_re s = (case s of [] \<Rightarrow> False | c # cs \<Rightarrow> is_lower_az c \<and> list_all stable_id_char cs)"

definition secret_assignment_words :: "pystr list" where
  "secret_assignment_words = map lit
     [''authorization'', ''cookie'', ''password'', ''secret'', ''token'',
      ''apikey'', ''api_key'', ''api-key'', ''accesskey'', ''access_key'', ''access-key'',
      ''credential'', ''x-amz-signature'', ''x-amz-credential'', ''x-amz-security-token'']"

definition secret_assignment :: "pystr \<Rightarrow> bool" where
  "secret_assignment s = search (assignment_at secret_assignment_words) s"

definition require_text :: "string \<Rightarrow> pystr \<Rightarrow> nat \<Rightarrow> bool \<Rightarrow> unit res" where
  "require_text name value maximum_bytes stable_id =
     thenR (raise_if (value = []) (ValueError (name @ '' must not be empty'')))
     (bindR (encode_utf8 value) (\<lambda>encoded.
      thenR (raise_if (maximum_bytes < length encoded) (ValueError (name @ '' exceeds its UTF-8 byte limit'')))
      (let decoded = unquote_loop 2 value in
       thenR (raise_if (list_ex is_c0_c1 decoded) (ValueError (name @ '' contains terminal control characters'')))
       (thenR (raise_if (secret_assignment decoded \<or> has_begin_marker decoded)
                (ValueError (name @ '' contains secret-shaped content'')))
         (raise_if (stable_id \<and> \<not> stable_id_re value)
            (ValueError (name @ '' must be a stable lowercase identifier'')))))))"

definition require_schema_version :: "string \<Rightarrow> int \<Rightarrow> unit res" where
  "require_schema_version name value = raise_if (value \<noteq> 1) (ValueError (name @ '' must be 1''))"

subsection \<open>Project directories\<close>

definition owned_directory_roots :: "(string \<times> string) list" where
  "owned_directory_roots =
     [(''directory.config'', ''/etc/kitdev-sandboxes''),
      (''directory.install'', ''/opt/kitdev-sandboxes''),
      (''directory.logs'', ''/var/log/kitdev-sandboxes''),
      (''directory.runtime'', ''/run/kitdev-sandboxes''),
      (''directory.state'', ''/var/lib/kitdev-sandboxes'')]"

definition path_char :: "nat \<Rightarrow> bool" where
  "path_char c = (is_upper_az c \<or> is_lower_az c \<or> is_digit09 c)"

definition owned_path_part :: "pystr \<Rightarrow> bool" where
  "owned_path_part s =
     (case s of [] \<Rightarrow> False
      | c # cs \<Rightarrow> path_char c \<and> list_all (\<lambda>x. path_char x \<or> x = 46 \<or> x = 95 \<or> x = 45) cs)"

definition require_owned_directory_path :: "string \<Rightarrow> pystr \<Rightarrow> unit res" where
  "require_owned_directory_path resource_id value =
     thenR (require_text ''configured path'' value max_target_bytes False)
     (case map_of owned_directory_roots resource_id of
        None \<Rightarrow> Inl KeyError
      | Some root_text \<Rightarrow>
          (let path = parse_path value; root = parse_path (lit root_text) in
           thenR (raise_if (\<not> is_absolute path \<or> path_str path \<noteq> value)
                    (ValueError ''configured path must be normalized and absolute''))
           (bindR (try_except is_value_error (relative_parts path root)
                     (\<lambda>_. Inl (ValueError ''configured path is outside its project-owned root''))) (\<lambda>rel.
            raise_if (list_ex (\<lambda>part. part \<in> {[], [46], [46, 46]} \<or> \<not> owned_path_part part) rel)
              (ValueError ''configured path contains an unsafe path component'')))))"

subsection \<open>Facts, actions, issues, plans\<close>

record resource_fact =
  rf_resource_id :: pystr
  rf_target :: pystr
  rf_state :: observed_state
  rf_ownership :: ownership
  rf_confidence :: confidence

definition mk_resource_fact ::
  "pystr \<Rightarrow> pystr \<Rightarrow> observed_state \<Rightarrow> ownership \<Rightarrow> confidence \<Rightarrow> resource_fact res" where
  "mk_resource_fact rid tgt st own conf =
     thenR (require_text ''resource_id'' rid max_id_bytes True)
     (thenR (require_text ''target'' tgt max_target_bytes False)
       (Inr \<lparr>rf_resource_id = rid, rf_target = tgt, rf_state = st, rf_ownership = own, rf_confidence = conf\<rparr>))"

record planning_facts =
  os_id :: "pystr option"
  os_version_id :: "pystr option"
  pf_resources :: "resource_fact list"
  pf_schema_version :: int

definition require_optional_text :: "string \<Rightarrow> pystr option \<Rightarrow> nat \<Rightarrow> unit res" where
  "require_optional_text name value maximum_bytes =
     (case value of None \<Rightarrow> Inr () | Some v \<Rightarrow> require_text name v maximum_bytes False)"

definition mk_planning_facts ::
  "pystr option \<Rightarrow> pystr option \<Rightarrow> resource_fact list \<Rightarrow> int \<Rightarrow> planning_facts res" where
  "mk_planning_facts os version rs schema =
     thenR (require_schema_version ''planning facts schema_version'' schema)
     (thenR (require_optional_text ''os_id'' os 64)
     (thenR (require_optional_text ''os_version_id'' version 64)
     (thenR (raise_if (max_resource_facts < length rs)
               (ValueError ''resources exceeds the global planning fact limit''))
       (Inr \<lparr>os_id = os, os_version_id = version, pf_resources = rs, pf_schema_version = schema\<rparr>))))"

record rollback =
  rb_strategy :: rollback_strategy
  rb_description :: pystr

definition mk_rollback :: "rollback_strategy \<Rightarrow> pystr \<Rightarrow> rollback res" where
  "mk_rollback strategy description =
     thenR (require_text ''description'' description max_text_bytes False)
       (Inr \<lparr>rb_strategy = strategy, rb_description = description\<rparr>)"

record planned_action =
  action_id :: pystr
  pa_category :: action_category
  pa_target :: pystr
  current_state :: pystr
  desired_state :: pystr
  pa_reason :: pystr
  pa_privilege :: privilege
  pa_restart_impact :: restart_impact
  reboot_required :: bool
  pa_rollback :: rollback
  pa_confidence :: confidence
  pa_ownership :: ownership

definition check_action :: "planned_action \<Rightarrow> planned_action res" where
  "check_action a =
     thenR (require_text ''action_id'' (action_id a) max_id_bytes True)
     (thenR (require_text ''target'' (pa_target a) max_target_bytes False)
     (thenR (require_text ''current_state'' (current_state a) max_text_bytes False)
     (thenR (require_text ''desired_state'' (desired_state a) max_text_bytes False)
     (thenR (require_text ''reason'' (pa_reason a) max_text_bytes False)
       (Inr a)))))"

record plan_issue =
  issue_id :: pystr
  pi_code :: issue_code
  pi_severity :: issue_severity
  fact_id :: pystr
  explanation :: pystr
  remediation :: pystr

definition mk_issue ::
  "pystr \<Rightarrow> issue_code \<Rightarrow> issue_severity \<Rightarrow> pystr \<Rightarrow> pystr \<Rightarrow> pystr \<Rightarrow> plan_issue res" where
  "mk_issue iid code severity fid expl remedy =
     thenR (require_text ''issue_id'' iid max_id_bytes True)
     (thenR (require_text ''fact_id'' fid max_id_bytes True)
     (thenR (require_text ''explanation'' expl max_text_bytes False)
     (thenR (require_text ''remediation'' remedy max_text_bytes False)
       (Inr \<lparr>issue_id = iid, pi_code = code, pi_severity = severity, fact_id = fid,
             explanation = expl, remediation = remedy\<rparr>))))"

definition issue_blocking :: "plan_issue \<Rightarrow> bool" where
  "issue_blocking i = (pi_severity i = Blocking)"

record change_plan =
  plan_lifecycle :: lifecycle_mode
  plan_actions :: "planned_action list"
  plan_issues :: "plan_issue list"
  plan_schema_version :: int

definition mk_change_plan ::
  "lifecycle_mode \<Rightarrow> planned_action list \<Rightarrow> plan_issue list \<Rightarrow> int \<Rightarrow> change_plan res" where
  "mk_change_plan mode actions issues schema =
     thenR (require_schema_version ''change plan schema_version'' schema)
     (thenR (raise_if (max_plan_actions < length actions)
               (ValueError ''actions exceeds the global plan output limit''))
     (thenR (raise_if (max_plan_issues < length issues)
               (ValueError ''issues exceeds the global plan output limit''))
       (Inr \<lparr>plan_lifecycle = mode, plan_actions = actions, plan_issues = issues,
             plan_schema_version = schema\<rparr>)))"

definition plan_blocking :: "change_plan \<Rightarrow> bool" where
  "plan_blocking p = list_ex issue_blocking (plan_issues p)"

subsection \<open>Serialisation\<close>

definition rollback_as_dict :: "rollback \<Rightarrow> json" where
  "rollback_as_dict r = JObj
     [(lit ''strategy'', JStr (lit (strategy_value (rb_strategy r)))),
      (lit ''description'', JStr (rb_description r))]"

definition action_as_dict :: "planned_action \<Rightarrow> json" where
  "action_as_dict a = JObj
     [(lit ''id'', JStr (action_id a)),
      (lit ''category'', JStr (lit (category_value (pa_category a)))),
      (lit ''target'', JStr (pa_target a)),
      (lit ''current_state'', JStr (current_state a)),
      (lit ''desired_state'', JStr (desired_state a)),
      (lit ''reason'', JStr (pa_reason a)),
      (lit ''privilege'', JStr (lit (privilege_value (pa_privilege a)))),
      (lit ''restart_impact'', JStr (lit (impact_value (pa_restart_impact a)))),
      (lit ''reboot_required'', JBool (reboot_required a)),
      (lit ''rollback'', rollback_as_dict (pa_rollback a)),
      (lit ''confidence'', JStr (lit (confidence_value (pa_confidence a)))),
      (lit ''ownership'', JStr (lit (ownership_value (pa_ownership a))))]"

definition issue_as_dict :: "plan_issue \<Rightarrow> json" where
  "issue_as_dict i = JObj
     [(lit ''id'', JStr (issue_id i)),
      (lit ''code'', JStr (lit (code_value (pi_code i)))),
      (lit ''severity'', JStr (lit (severity_value (pi_severity i)))),
      (lit ''blocking'', JBool (issue_blocking i)),
      (lit ''fact_id'', JStr (fact_id i)),
      (lit ''explanation'', JStr (explanation i)),
      (lit ''remediation'', JStr (remediation i))]"

definition plan_as_dict :: "change_plan \<Rightarrow> json" where
  "plan_as_dict p = JObj
     [(lit ''schema_version'', JInt (plan_schema_version p)),
      (lit ''lifecycle_mode'', JStr (lit (lifecycle_value (plan_lifecycle p)))),
      (lit ''blocking'', JBool (plan_blocking p)),
      (lit ''summary'', JObj
         [(lit ''actions'', JInt (int (length (plan_actions p)))),
          (lit ''issues'', JInt (int (length (plan_issues p)))),
          (lit ''blocking_issues'', JInt (int (length (filter issue_blocking (plan_issues p)))))]),
      (lit ''actions'', JArr (map action_as_dict (plan_actions p))),
      (lit ''issues'', JArr (map issue_as_dict (plan_issues p)))]"

definition plan_to_json :: "change_plan \<Rightarrow> pystr res" where
  "plan_to_json p =
     (let rendered = dumps (plan_as_dict p) in
      bindR (encode_utf8 rendered) (\<lambda>encoded.
      thenR (raise_if (max_plan_json_bytes < length encoded)
               (ValueError ''serialized plan exceeds the global UTF-8 byte limit''))
        (Inr rendered)))"

subsection \<open>Building a plan\<close>

record desired_directory =
  dd_resource_id :: string
  dd_path :: pystr
  dd_purpose :: string

definition issue_list ::
  "string \<Rightarrow> issue_code \<Rightarrow> issue_severity \<Rightarrow> string \<Rightarrow> string \<Rightarrow> string \<Rightarrow> plan_issue list res" where
  "issue_list iid code severity fid expl remedy =
     bindR (mk_issue (lit iid) code severity (lit fid) (lit expl) (lit remedy)) (\<lambda>i. Inr [i])"

definition lifecycle_issues :: "configuration \<Rightarrow> planning_facts \<Rightarrow> plan_issue list res" where
  "lifecycle_issues config facts =
     (case (os_id facts, os_version_id facts) of
        (Some os, Some release) \<Rightarrow>
          (if os \<noteq> lit ''ubuntu'' \<or> release \<notin> {lit ''25.04'', lit ''26.04''}
           then issue_list ''platform.release.unsupported'' CodeUnsupported Blocking ''platform.release''
                  ''The operating-system release is outside the supported host matrix.''
                  ''Use Ubuntu 26.04, or Ubuntu 25.04 only for development or migration.''
           else if release = lit ''25.04'' \<and> lifecycle (deployment config) = Production
           then issue_list ''platform.release.ubuntu_25_04.production'' CodeLifecycle Blocking ''platform.release''
                  ''Ubuntu 25.04 is end-of-life and cannot receive a production change plan.''
                  ''Use Ubuntu 26.04 for production or explicitly select development/migration.''
           else if release = lit ''25.04''
           then issue_list ''platform.release.ubuntu_25_04.eol'' CodeLifecycle Warning ''platform.release''
                  ''Ubuntu 25.04 is end-of-life and is eligible only for development or migration.''
                  ''Migrate the deployment to Ubuntu 26.04 before production use.''
           else Inr [])
      | _ \<Rightarrow> issue_list ''platform.release.unknown'' CodeUnknown Blocking ''platform.release''
               ''The operating-system release is unknown, so no host changes can be planned.''
               ''Collect a normalized Ubuntu release fact and repeat the dry-run.'')"

text \<open>The list is already in the order of the resource ids.\<close>

definition desired_list :: "configuration \<Rightarrow> desired_directory list" where
  "desired_list config =
     [\<lparr>dd_resource_id = ''directory.config'', dd_path = config_path (paths config),
       dd_purpose = ''project configuration''\<rparr>,
      \<lparr>dd_resource_id = ''directory.install'', dd_path = install_path (paths config),
       dd_purpose = ''installed releases and tooling''\<rparr>,
      \<lparr>dd_resource_id = ''directory.logs'', dd_path = logs_path (paths config),
       dd_purpose = ''project logs''\<rparr>,
      \<lparr>dd_resource_id = ''directory.runtime'', dd_path = runtime_path (paths config),
       dd_purpose = ''transient runtime state''\<rparr>,
      \<lparr>dd_resource_id = ''directory.state'', dd_path = state_path (paths config),
       dd_purpose = ''durable project state''\<rparr>]"

definition desired_directories :: "configuration \<Rightarrow> desired_directory list res" where
  "desired_directories config =
     thenR (forR (desired_list config) (\<lambda>item. require_owned_directory_path (dd_resource_id item) (dd_path item)))
       (Inr (sort_key (\<lambda>item. lit (dd_resource_id item)) (desired_list config)))"

text \<open>The two collections the loop over the facts fills: first observations and duplicated ids.\<close>

fun index_loop ::
  "pystr list \<Rightarrow> resource_fact list \<Rightarrow> (pystr \<rightharpoonup> resource_fact) \<Rightarrow> pystr set
    \<Rightarrow> (pystr \<rightharpoonup> resource_fact) \<times> pystr set" where
  "index_loop desired_ids [] indexed duplicates = (indexed, duplicates)"
| "index_loop desired_ids (obs # facts) indexed duplicates =
     (if rf_resource_id obs \<notin> set desired_ids then index_loop desired_ids facts indexed duplicates
      else if rf_resource_id obs \<in> dom indexed
      then index_loop desired_ids facts indexed (insert (rf_resource_id obs) duplicates)
      else index_loop desired_ids facts (indexed(rf_resource_id obs \<mapsto> obs)) duplicates)"

definition index_facts ::
  "planning_facts \<Rightarrow> pystr list \<Rightarrow> ((pystr \<rightharpoonup> resource_fact) \<times> plan_issue list) res" where
  "index_facts facts desired_ids =
     (let (indexed, duplicates) = index_loop desired_ids (pf_resources facts) Map.empty {} in
      bindR (if duplicates = {} then Inr []
             else issue_list ''facts.duplicate.desired_resources'' CodeInvalidFact Blocking ''planning.resources''
                    ''The normalized fact set contains duplicate desired-resource observations.''
                    ''Collect exactly one authoritative observation for each resource ID.'') (\<lambda>issues.
        Inr (indexed |` (- duplicates), issues)))"

definition directory_issue ::
  "string \<Rightarrow> issue_code \<Rightarrow> desired_directory \<Rightarrow> string \<Rightarrow> string
    \<Rightarrow> (planned_action option \<times> plan_issue option) res" where
  "directory_issue kind code desired expl remedy =
     bindR (mk_issue (lit (kind @ dd_resource_id desired)) code Blocking (lit (dd_resource_id desired))
              (lit expl) (lit remedy)) (\<lambda>i. Inr (None, Some i))"

definition create_action :: "desired_directory \<Rightarrow> planned_action res" where
  "create_action desired =
     bindR (mk_rollback RemoveCreated
              (lit ''Remove only when exact manifest ownership is proven and the directory is empty.'')) (\<lambda>rb.
       check_action
         \<lparr>action_id = lit (dd_resource_id desired @ ''.create''),
          pa_category = CDirectory,
          pa_target = dd_path desired,
          current_state = lit (observed_value Absent),
          desired_state = lit (observed_value Present),
          pa_reason = lit (''Create the dedicated directory for '' @ dd_purpose desired @ ''.''),
          pa_privilege = RootPrivilege,
          pa_restart_impact = ImpactNone,
          reboot_required = False,
          pa_rollback = rb,
          pa_confidence = ConfHigh,
          pa_ownership = OwnProject\<rparr>)"

definition directory_result ::
  "desired_directory \<Rightarrow> resource_fact option \<Rightarrow> (planned_action option \<times> plan_issue option) res" where
  "directory_result desired observation =
     (case observation of
        None \<Rightarrow> directory_issue ''facts.missing.'' CodeUnknown desired
                  ''No normalized observation exists for the configured project directory.''
                  ''Collect the exact path type, existence, ownership, and confidence.''
      | Some obs \<Rightarrow>
          (if rf_target obs \<noteq> dd_path desired
           then directory_issue ''facts.target_mismatch.'' CodeInvalidFact desired
                  ''The normalized observation does not describe the configured resource target.''
                  ''Collect a new observation for the exact configured path.''
           else if rf_state obs = StateUnknown
           then directory_issue ''facts.unknown.'' CodeUnknown desired
                  ''The configured directory state is unknown, so creating or adopting it is unsafe.''
                  ''Resolve the read-only collection failure and repeat the dry-run.''
           else if rf_state obs = StateUnsupported
           then directory_issue ''facts.unsupported.'' CodeUnsupported desired
                  ''The configured path cannot be managed as a project directory.''
                  ''Choose a supported project-owned path or remove the conflicting filesystem object.''
           else if rf_confidence obs \<noteq> ConfHigh
           then directory_issue ''facts.confidence.'' CodeUnknown desired
                  ''Directory ownership or existence was not established with high confidence.''
                  ''Resolve symlinks, mount boundaries, and ownership markers before planning changes.''
           else if rf_state obs = Present
           then (if rf_ownership obs = OwnProject then Inr (None, None)
                 else directory_issue ''ownership.conflict.'' CodeConflict desired
                        ''The configured path already exists without exact project ownership.''
                        ''Select a different project path or explicitly resolve the foreign resource.'')
           else if rf_ownership obs \<noteq> Unowned
           then directory_issue ''facts.inconsistent.'' CodeInvalidFact desired
                  ''An absent directory has a contradictory ownership classification.''
                  ''Correct the normalized observation before calculating a plan.''
           else bindR (create_action desired) (\<lambda>a. Inr (Some a, None))))"

fun collect_results ::
  "desired_directory list \<Rightarrow> (pystr \<rightharpoonup> resource_fact) \<Rightarrow> (planned_action list \<times> plan_issue list) res" where
  "collect_results [] indexed = Inr ([], [])"
| "collect_results (desired # rest) indexed =
     bindR (directory_result desired (indexed (lit (dd_resource_id desired)))) (\<lambda>(action, issue).
     bindR (collect_results rest indexed) (\<lambda>(actions, issues).
       Inr ((case action of None \<Rightarrow> actions | Some a \<Rightarrow> a # actions),
            (case issue of None \<Rightarrow> issues | Some i \<Rightarrow> i # issues))))"

definition build_change_plan :: "configuration \<Rightarrow> planning_facts \<Rightarrow> change_plan res" where
  "build_change_plan config facts =
     bindR (desired_directories config) (\<lambda>desired.
     bindR (lifecycle_issues config facts) (\<lambda>issues0.
     bindR (index_facts facts (map (\<lambda>item. lit (dd_resource_id item)) desired)) (\<lambda>(indexed, fact_issues).
     bindR (collect_results desired indexed) (\<lambda>(candidates, directory_issues).
       (let sorted_issues = sort_key issue_id (issues0 @ fact_issues @ directory_issues);
            actions = (if list_ex issue_blocking sorted_issues then []
                       else sort_key action_id candidates)
        in mk_change_plan (lifecycle (deployment config)) actions sorted_issues 1)))))"

end
