(* ===== verification/Config_Load.thy ===== *)
theory Config_Load
  imports Config_Yaml Ip_Address Planning Posix
begin

text \<open>
  The rest of \<open>src/src/kitdev_sandboxes/config.py\<close>: merging mappings, validating the merged data
  section by section into the records of \<open>Config\<close>, and loading the files.  Where the code
  iterates over a set of keys the order only decides which of several errors is reported; the
  model takes the order in which the code lists them.
\<close>

subsection \<open>Merging\<close>

function merge_mappings :: "json_dict \<Rightarrow> json_dict \<Rightarrow> json_dict" where
  "merge_mappings base [] = base"
| "merge_mappings base ((k, v) # override) =
     merge_mappings
       (AList.update k
          (case map_of base k of
             Some (JObj current) \<Rightarrow> (case v of JObj new \<Rightarrow> JObj (merge_mappings current new) | _ \<Rightarrow> v)
           | _ \<Rightarrow> v) base) override"
  by pat_completeness auto
termination
  by (relation "measure (\<lambda>(base, override). size (JObj override))") auto

subsection \<open>Field checks\<close>

definition mapping_of :: "json \<Rightarrow> string \<Rightarrow> json_dict res" where
  "mapping_of v path = (case v of JObj d \<Rightarrow> Inr d | _ \<Rightarrow> config_error (path @ '' must be a mapping''))"

definition check_keys :: "json_dict \<Rightarrow> string list \<Rightarrow> string \<Rightarrow> unit res" where
  "check_keys d required path =
     (if list_ex (\<lambda>k. lit k \<notin> set (map fst d)) required
      then config_error (path @ '' is missing required keys'')
      else if list_ex (\<lambda>k. k \<notin> set (map lit required)) (map fst d)
      then config_error (path @ '' contains unknown keys'')
      else Inr ())"

definition string_of_json :: "json \<Rightarrow> string \<Rightarrow> pystr res" where
  "string_of_json v path =
     (case v of
        JStr s \<Rightarrow> if s = [] then config_error (path @ '' must be a non-empty string'') else Inr s
      | _ \<Rightarrow> config_error (path @ '' must be a non-empty string''))"

definition nullable_string :: "json \<Rightarrow> string \<Rightarrow> pystr option res" where
  "nullable_string v path =
     (if v = JNull then Inr None else bindR (string_of_json v path) (\<lambda>s. Inr (Some s)))"

definition boolean_of :: "json \<Rightarrow> string \<Rightarrow> bool res" where
  "boolean_of v path = (case v of JBool b \<Rightarrow> Inr b | _ \<Rightarrow> config_error (path @ '' must be a boolean''))"

definition integer_of :: "json \<Rightarrow> string \<Rightarrow> int \<Rightarrow> int option \<Rightarrow> int res" where
  "integer_of v path minimum maximum =
     (case v of
        JInt i \<Rightarrow>
          if i < minimum \<or> (case maximum of None \<Rightarrow> False | Some m \<Rightarrow> m < i)
          then config_error (path @ '' must be within its limits'') else Inr i
      | _ \<Rightarrow> config_error (path @ '' must be an integer''))"

definition is_nonempty_string :: "json \<Rightarrow> bool" where
  "is_nonempty_string v = (case v of JStr s \<Rightarrow> s \<noteq> [] | _ \<Rightarrow> False)"

definition text_of :: "json \<Rightarrow> pystr" where
  "text_of v = (case v of JStr s \<Rightarrow> s | _ \<Rightarrow> [])"

definition string_list :: "json \<Rightarrow> string \<Rightarrow> bool \<Rightarrow> pystr list res" where
  "string_list v path unique =
     (case array_items v of
        None \<Rightarrow> config_error (path @ '' must be a list'')
      | Some vs \<Rightarrow>
          if \<not> list_all is_nonempty_string vs then config_error (path @ '' entries must be non-empty strings'')
          else if unique \<and> \<not> distinct (map text_of vs) then config_error (path @ '' entries must be unique'')
          else Inr (map text_of vs))"

subsection \<open>Deployment\<close>

definition profile_of_json :: "json \<Rightarrow> deployment_profile option" where
  "profile_of_json v = find (\<lambda>p. v = JStr (lit (profile_value p))) [Minimal, Standard, Full]"

definition lifecycle_of_json :: "json \<Rightarrow> lifecycle_mode option" where
  "lifecycle_of_json v = find (\<lambda>m. v = JStr (lit (lifecycle_value m))) [Production, Development, Migration]"

definition deployment_keys :: "string list" where
  "deployment_keys = [''profile'', ''lifecycle_mode'', ''listen_address'', ''public_exposure'', ''domain'']"

text \<open>The first part of the deployment section; the address and the name are checked later.\<close>

definition read_deployment ::
  "json_dict \<Rightarrow> (deployment_profile \<times> lifecycle_mode \<times> bool \<times> pystr option) res" where
  "read_deployment d =
     thenR (check_keys d deployment_keys ''deployment'')
     (bindR (dict_get d ''profile'') (\<lambda>v.
      case profile_of_json v of
        None \<Rightarrow> config_error ''deployment.profile must be minimal, standard, or full''
      | Some p \<Rightarrow>
     bindR (dict_get d ''lifecycle_mode'') (\<lambda>v.
      case lifecycle_of_json v of
        None \<Rightarrow> config_error ''deployment.lifecycle_mode must be production, development, or migration''
      | Some m \<Rightarrow>
     bindR (dict_get d ''public_exposure'') (\<lambda>v.
     bindR (boolean_of v ''deployment.public_exposure'') (\<lambda>exposed.
     bindR (dict_get d ''domain'') (\<lambda>v.
     bindR (nullable_string v ''deployment.domain'') (\<lambda>name.
      if exposed \<and> name = None
      then config_error ''deployment.domain is required when public_exposure is true''
      else Inr (p, m, exposed, name))))))))"

text \<open>A label of a domain name: letters, digits and inner dashes, at most 63 characters.\<close>

definition is_alnum :: "nat \<Rightarrow> bool" where
  "is_alnum c = (is_lower_az c \<or> is_upper_az c \<or> is_digit09 c)"

definition label_re :: "(nat \<Rightarrow> bool) \<Rightarrow> pystr \<Rightarrow> bool" where
  "label_re first s =
     (s \<noteq> [] \<and> length s \<le> 63 \<and> first (hd s) \<and> is_alnum (last s) \<and> list_all (\<lambda>c. is_alnum c \<or> c = 45) s)"

definition domain_re :: "pystr \<Rightarrow> bool" where
  "domain_re s =
     (let labels = split_on 46 (if ends_with [46] s then butlast s else s)
      in (length s \<le> 253 \<or> (length s = 254 \<and> ends_with [46] s))
         \<and> 2 \<le> length labels \<and> list_all (label_re is_alnum) (butlast labels)
         \<and> label_re (\<lambda>c. is_lower_az c \<or> is_upper_az c) (last labels))"

definition check_listen_address :: "json_dict \<Rightarrow> bool \<Rightarrow> pystr option \<Rightarrow> pystr res" where
  "check_listen_address d exposed name =
     bindR (dict_get d ''listen_address'') (\<lambda>v.
     bindR (string_of_json v ''deployment.listen_address'') (\<lambda>address.
     bindR (try_except is_value_error (ip_address address)
              (\<lambda>_. config_error ''deployment.listen_address must be an IPv4 or IPv6 address'')) (\<lambda>parsed.
      if \<not> exposed \<and> \<not> address_is_loopback parsed
      then config_error ''deployment.listen_address must be loopback when public_exposure is false''
      else if (case name of None \<Rightarrow> False | Some s \<Rightarrow> \<not> domain_re s)
      then config_error ''deployment.domain must be a fully qualified DNS name''
      else Inr address)))"

subsection \<open>Paths\<close>

definition ownership_roots :: "(string \<times> string) list" where
  "ownership_roots =
     [(''install'', ''/opt/kitdev-sandboxes''), (''config'', ''/etc/kitdev-sandboxes''),
      (''state'', ''/var/lib/kitdev-sandboxes''), (''logs'', ''/var/log/kitdev-sandboxes''),
      (''runtime'', ''/run/kitdev-sandboxes'')]"

definition check_path :: "json_dict \<Rightarrow> string \<times> string \<Rightarrow> pystr res" where
  "check_path d key_root =
     (let (key, root) = key_root in
     bindR (dict_get d key) (\<lambda>v.
     bindR (string_of_json v (''paths.'' @ key)) (\<lambda>value.
      if \<not> starts_with [47] value \<or> value = [47] \<or> list_ex (\<lambda>c. c < 32 \<or> c = 127) value
         \<or> list_ex (\<lambda>part. part \<in> {[46], [46, 46]}) (split_on 47 value) \<or> path_str (parse_path value) \<noteq> value
      then config_error (''paths.'' @ key @ '' must be a normalized absolute path'')
      else
        bindR (try_except is_value_error (relative_parts (parse_path value) (parse_path (lit root)))
                 (\<lambda>_. config_error (''paths.'' @ key @ '' must be within '' @ root))) (\<lambda>relative.
        if list_ex (\<lambda>part. \<not> owned_path_part part) relative
        then config_error (''paths.'' @ key @ '' descendants may contain only safe characters'')
        else Inr value))))"

text \<open>Equal, or one is an ancestor of the other.\<close>

definition paths_overlap :: "pystr \<Rightarrow> pystr \<Rightarrow> bool" where
  "paths_overlap a b =
     (let p = parse_path a; q = parse_path b
      in anchor p = anchor q \<and> (starts_with (components p) (components q) \<or> starts_with (components q) (components p)))"

fun check_disjoint :: "pystr list \<Rightarrow> unit res" where
  "check_disjoint [] = Inr ()"
| "check_disjoint (p # ps) =
     (if list_ex (paths_overlap p) ps then config_error ''paths must not overlap'' else check_disjoint ps)"

definition read_paths :: "json_dict \<Rightarrow> paths_config res" where
  "read_paths d =
     thenR (check_keys d (map fst ownership_roots) ''paths'')
     (bindR (mapR (check_path d) ownership_roots) (\<lambda>values.
      thenR (check_disjoint values)
       (Inr \<lparr>install_path = values ! 0, config_path = values ! 1, state_path = values ! 2,
             logs_path = values ! 3, runtime_path = values ! 4\<rparr>)))"

subsection \<open>Sandbox, network, features and identity\<close>

definition sandbox_keys :: "string list" where
  "sandbox_keys =
     [''default_template'', ''default_vcpus'', ''default_memory_mib'', ''default_disk_mib'',
      ''default_timeout_seconds'', ''default_ttl_seconds'', ''max_processes'', ''max_output_bytes'']"

definition template_names :: "string list" where
  "template_names = [''base'', ''coding'', ''browser'', ''desktop'']"

definition read_template :: "json_dict \<Rightarrow> pystr res" where
  "read_template d =
     thenR (check_keys d sandbox_keys ''sandbox'')
     (bindR (dict_get d ''default_template'') (\<lambda>v.
      bindR (string_of_json v ''sandbox.default_template'') (\<lambda>template.
      if template \<notin> set (map lit template_names) then config_error ''sandbox.default_template is not supported''
      else Inr template)))"

definition field_int :: "json_dict \<Rightarrow> string \<Rightarrow> int \<Rightarrow> int option \<Rightarrow> int res" where
  "field_int d key minimum maximum =
     bindR (dict_get d key) (\<lambda>v. integer_of v (''sandbox.'' @ key) minimum maximum)"

definition read_sandbox :: "json_dict \<Rightarrow> pystr \<Rightarrow> sandbox_config res" where
  "read_sandbox d template =
     bindR (field_int d ''default_vcpus'' 1 (Some 64)) (\<lambda>vcpus.
     bindR (field_int d ''default_memory_mib'' 256 None) (\<lambda>memory.
     bindR (field_int d ''default_disk_mib'' 1024 None) (\<lambda>disk.
     bindR (field_int d ''default_timeout_seconds'' 1 None) (\<lambda>timeout.
     bindR (field_int d ''default_ttl_seconds'' 60 None) (\<lambda>ttl.
     bindR (field_int d ''max_processes'' 16 None) (\<lambda>processes.
     bindR (field_int d ''max_output_bytes'' 1024 None) (\<lambda>output.
       Inr \<lparr>default_template = template, default_vcpus = vcpus, default_memory_mib = memory,
            default_disk_mib = disk, default_timeout_seconds = timeout, default_ttl_seconds = ttl,
            max_processes = processes, max_output_bytes = output\<rparr>)))))))"

definition network_keys :: "string list" where
  "network_keys =
     [''ipv4_cidr'', ''ipv6_enabled'', ''dns_resolvers'', ''allow_http_egress'',
      ''allow_private_egress'', ''private_egress_allowlist'', ''sandbox_to_sandbox'']"

definition check_isolation :: "json_dict \<Rightarrow> unit res" where
  "check_isolation d =
     thenR (check_keys d network_keys ''network'')
     (bindR (dict_get d ''sandbox_to_sandbox'') (\<lambda>v.
      bindR (boolean_of v ''network.sandbox_to_sandbox'') (\<lambda>shared.
      if shared then config_error ''network.sandbox_to_sandbox must remain false in schema version 1'' else Inr ())))"

definition check_cidr :: "json_dict \<Rightarrow> pystr res" where
  "check_cidr d =
     bindR (dict_get d ''ipv4_cidr'') (\<lambda>v.
     bindR (string_of_json v ''network.ipv4_cidr'') (\<lambda>cidr.
     bindR (try_except is_value_error (ip_network cidr)
              (\<lambda>_. config_error ''network.ipv4_cidr must be a canonical IPv4 CIDR'')) (\<lambda>parsed.
      if net_version parsed \<noteq> 4 then config_error ''network.ipv4_cidr must be IPv4'' else Inr cidr)))"

definition check_resolvers :: "json_dict \<Rightarrow> pystr list res" where
  "check_resolvers d =
     bindR (dict_get d ''dns_resolvers'') (\<lambda>v.
     bindR (string_list v ''network.dns_resolvers'' False) (\<lambda>resolvers.
     thenR (forR resolvers (\<lambda>r. try_except is_value_error (bindR (ip_address r) (\<lambda>_. Inr ()))
              (\<lambda>_. config_error ''network.dns_resolvers entries must be IP addresses'')))
       (Inr resolvers)))"

definition check_allowlist :: "json_dict \<Rightarrow> pystr list res" where
  "check_allowlist d =
     bindR (dict_get d ''private_egress_allowlist'') (\<lambda>v.
     bindR (string_list v ''network.private_egress_allowlist'' True) (\<lambda>allowed.
     thenR (forR allowed (\<lambda>r. try_except is_value_error (bindR (ip_network r) (\<lambda>_. Inr ()))
              (\<lambda>_. config_error ''network.private_egress_allowlist entries must be canonical CIDRs'')))
       (Inr allowed)))"

definition field_bool :: "json_dict \<Rightarrow> string \<Rightarrow> string \<Rightarrow> bool res" where
  "field_bool d path key = bindR (dict_get d key) (\<lambda>v. boolean_of v (path @ key))"

definition read_network :: "json_dict \<Rightarrow> pystr \<Rightarrow> pystr list \<Rightarrow> pystr list \<Rightarrow> network_config res" where
  "read_network d cidr resolvers allowed =
     bindR (field_bool d ''network.'' ''ipv6_enabled'') (\<lambda>v6.
     bindR (field_bool d ''network.'' ''allow_http_egress'') (\<lambda>http.
     bindR (field_bool d ''network.'' ''allow_private_egress'') (\<lambda>private.
       Inr \<lparr>ipv4_cidr = cidr, ipv6_enabled = v6, dns_resolvers = resolvers, allow_http_egress = http,
            allow_private_egress = private, private_egress_allowlist = allowed, sandbox_to_sandbox = False\<rparr>)))"

definition feature_keys :: "string list" where
  "feature_keys = [''observability'', ''persistence'', ''backups'', ''browser_template'', ''desktop_template'']"

definition read_features :: "json_dict \<Rightarrow> features_config res" where
  "read_features d =
     bindR (mapR (field_bool d ''features.'') feature_keys) (\<lambda>bs.
       Inr \<lparr>observability = bs ! 0, persistence = bs ! 1, backups = bs ! 2, browser_template = bs ! 3,
            desktop_template = bs ! 4\<rparr>)"

definition operator_re :: "pystr \<Rightarrow> bool" where
  "operator_re s =
     full_class (\<lambda>c. is_lower_az c \<or> c = 95) (\<lambda>c. is_lower_az c \<or> is_digit09 c \<or> c = 95 \<or> c = 45) 0 30 s"

definition read_operator :: "json_dict \<Rightarrow> pystr option res" where
  "read_operator d =
     thenR (check_keys d [''operator''] ''identity'')
     (bindR (dict_get d ''operator'') (\<lambda>v.
      bindR (nullable_string v ''identity.operator'') (\<lambda>operator.
      if (case operator of None \<Rightarrow> False | Some s \<Rightarrow> \<not> operator_re s \<or> s = lit ''root'')
      then config_error ''identity.operator must be a non-root Linux account name of at most 31 characters''
      else Inr operator)))"

subsection \<open>The whole configuration\<close>

definition top_keys :: "string list" where
  "top_keys = [''schema_version'', ''deployment'', ''paths'', ''sandbox'', ''network'', ''features'', ''identity'']"

definition section_of :: "json_dict \<Rightarrow> string \<Rightarrow> json_dict res" where
  "section_of d key = bindR (dict_get d key) (\<lambda>v. mapping_of v key)"

definition check_schema :: "json_dict \<Rightarrow> unit res" where
  "check_schema d =
     thenR (check_keys d top_keys ''configuration'')
     (bindR (dict_get d ''schema_version'') (\<lambda>v.
      if \<not> equals_number v 1 \<or> (case v of JBool b \<Rightarrow> True | _ \<Rightarrow> False)
      then config_error ''schema_version must be 1'' else Inr ()))"

definition validate_configuration :: "json_dict \<Rightarrow> configuration res" where
  "validate_configuration data =
     thenR (check_schema data)
     (bindR (section_of data ''deployment'') (\<lambda>deploy.
      bindR (read_deployment deploy) (\<lambda>(profile, mode, exposed, name).
      bindR (bindR (section_of data ''paths'') read_paths) (\<lambda>the_paths.
      bindR (section_of data ''sandbox'') (\<lambda>box.
      bindR (read_template box) (\<lambda>template.
      bindR (section_of data ''network'') (\<lambda>net.
      thenR (check_isolation net)
      (bindR (check_listen_address deploy exposed name) (\<lambda>address.
      bindR (check_cidr net) (\<lambda>cidr.
      bindR (check_resolvers net) (\<lambda>resolvers.
      bindR (check_allowlist net) (\<lambda>allowed.
      bindR (section_of data ''features'') (\<lambda>feat.
      thenR (check_keys feat feature_keys ''features'')
      (bindR (bindR (section_of data ''identity'') read_operator) (\<lambda>the_operator.
      bindR (read_sandbox box template) (\<lambda>the_sandbox.
      bindR (read_network net cidr resolvers allowed) (\<lambda>the_network.
      bindR (read_features feat) (\<lambda>the_features.
        Inr \<lparr>cfg_schema_version = 1,
             deployment = \<lparr>profile = profile, lifecycle = mode, listen_address = address,
                           public_exposure = exposed, domain_name = name\<rparr>,
             paths = the_paths, sandbox = the_sandbox, network = the_network, features = the_features,
             operator = the_operator\<rparr>))))))))))))))))))"

subsection \<open>Files\<close>

text \<open>A path: the directory it is looked up in, the name there, and its text.\<close>

record file_path =
  fp_parent :: nat
  fp_name :: pystr
  fp_text :: pystr

text \<open>\<open>stream.read(limit)\<close> goes on until the limit or the end of the file.\<close>

fun read_up_to :: "nat \<Rightarrow> nat \<Rightarrow> nat \<Rightarrow> bytes \<Rightarrow> bytes io" where
  "read_up_to 0 limit descriptor acc = return acc"
| "read_up_to (Suc fuel) limit descriptor acc =
     (if limit \<le> length acc then return acc
      else bindW (os_read descriptor (length acc) (limit - length acc)) (\<lambda>chunk.
        if chunk = [] then return acc else read_up_to fuel limit descriptor (acc @ chunk)))"

text \<open>\<open>os.fdopen\<close> refuses a directory.\<close>

definition read_regular :: "file_path \<Rightarrow> bytes io" where
  "read_regular path =
     bindW (os_open_at (fp_parent path) (fp_name path)) (\<lambda>descriptor.
     bindW (os_fstat descriptor) (\<lambda>opened.
     if st_kind opened = KDir then raise (OSError EISDIR)
     else bindW (os_fstat descriptor) (\<lambda>metadata.
       if st_kind metadata \<noteq> KReg then raise (ConfigurationError ''configuration path is not a regular file'')
       else read_up_to (Suc max_config_bytes) (Suc max_config_bytes) descriptor [])))"

definition read_config :: "file_path \<Rightarrow> bool \<Rightarrow> bytes option io" where
  "read_config path required =
     catchW (bindW (read_regular path) (\<lambda>raw. return (Some raw)))
       (\<lambda>e. if e = OSError ENOENT
             then (if required then raise (ConfigurationError ''configuration file does not exist'') else return None)
             else if is_os_error e then raise (ConfigurationError ''cannot read configuration file'')
             else raise e)"

definition decode_config :: "(pystr \<Rightarrow> nat option) \<Rightarrow> bytes \<Rightarrow> json_dict res" where
  "decode_config names raw =
     (if max_config_bytes < length raw then config_error ''configuration exceeds the byte limit''
      else bindR (try_except (\<lambda>e. e = UnicodeDecodeError) (decode_strict raw)
                    (\<lambda>_. config_error ''configuration is not valid UTF-8'')) (parse_yaml names))"

definition load_yaml_file :: "(pystr \<Rightarrow> nat option) \<Rightarrow> file_path \<Rightarrow> bool \<Rightarrow> json_dict option io" where
  "load_yaml_file names path required =
     bindW (read_config path required) (\<lambda>raw.
       case raw of
         None \<Rightarrow> return None
       | Some bs \<Rightarrow> bindW (lift (decode_config names bs)) (\<lambda>d. return (Some d)))"

record loaded_configuration =
  loaded :: configuration
  merged :: json_dict
  sources :: "pystr list"

text \<open>The layers in the order in which they override each other, each with its source.\<close>

definition apply_layer :: "json_dict \<times> pystr list \<Rightarrow> json_dict option \<Rightarrow> pystr \<Rightarrow> json_dict \<times> pystr list" where
  "apply_layer acc layer source =
     (case layer of None \<Rightarrow> acc | Some d \<Rightarrow> (merge_mappings (fst acc) d, snd acc @ [source]))"

definition load_configuration ::
  "(pystr \<Rightarrow> nat option) \<Rightarrow> file_path option \<Rightarrow> file_path \<Rightarrow> file_path \<Rightarrow> json_dict option \<Rightarrow> loaded_configuration io" where
  "load_configuration names explicit_path default_path installed_path cli_overrides =
     bindW (load_yaml_file names default_path True) (\<lambda>defaults.
     case defaults of
       None \<Rightarrow> raise AssertionError
     | Some d \<Rightarrow>
         let operator_path = (case explicit_path of None \<Rightarrow> installed_path | Some p \<Rightarrow> p) in
         bindW (load_yaml_file names operator_path (explicit_path \<noteq> None)) (\<lambda>operator.
         let with_operator = apply_layer (d, [fp_text default_path]) operator (fp_text operator_path);
             overrides = (case cli_overrides of None \<Rightarrow> None | Some o' \<Rightarrow> if o' = [] then None else Some o');
             (result, used) = apply_layer with_operator overrides (lit ''command-line'')
         in bindW (lift (validate_configuration result)) (\<lambda>c.
              return \<lparr>loaded = c, merged = result, sources = used\<rparr>)))"

end
