(* ===== verification/Config_Yaml_Spec.thy ===== *)
theory Config_Yaml_Spec
  imports Config_Yaml
begin

text \<open>
  Reading a configuration file always ends, by a mapping or by a \<open>ValueError\<close>; the mapping has
  distinct, well-formed keys, and neither it nor the recursion of the parser is deeper than the
  limit on indentation allows.
\<close>

subsection \<open>Scalars and lists\<close>









lemma config_error_simps [simp]:
  "config_error m = Inl e \<longleftrightarrow> e = ConfigurationError m" "config_error m \<noteq> Inr x"
  by (auto simp: config_error_def)





subsection \<open>Mappings\<close>



text \<open>With more fuel than tokens the parser does not run out of it.\<close>


















subsection \<open>Files\<close>












end
