(* ===== verification/Planning_Spec.thy ===== *)
theory Planning_Spec
  imports Planning
begin

text \<open>
  The specification of the change planner: when a directory is resolved, when a plan is safe, the
  actions of a safe plan, and that \<open>build_change_plan\<close> builds exactly that plan; every issue and
  action has texts within the limits, so a plan always serialises.  A sample host closes the theory.
\<close>

subsection \<open>Texts that pass\<close>

definition clean_char :: "nat \<Rightarrow> bool" where
  "clean_char c = (32 \<le> c \<and> c < 127 \<and> c \<noteq> 37 \<and> c \<noteq> 58 \<and> c \<noteq> 61)"

definition clean_text :: "pystr \<Rightarrow> bool" where
  "clean_text s = (s \<noteq> [] \<and> list_all clean_char s \<and> \<not> is_substring [45, 45] s)"

lemma assignment_needs_colon: "search (assignment_at ws) s \<Longrightarrow> 58 \<in> set s \<or> 61 \<in> set s"
proof -
  have sign: "assignment_sign t \<Longrightarrow> 58 \<in> set t \<or> 61 \<in> set t" for t
    by (induction t) (auto simp: assignment_sign_def split: if_splits)
  have pre: "ci_prefix w t = Some r \<Longrightarrow> set r \<subseteq> set t" for w t r
    by (induction w t rule: ci_prefix.induct) (auto split: if_splits)
  have at: "assignment_at ws t \<Longrightarrow> 58 \<in> set t \<or> 61 \<in> set t" for t
    using sign pre by (fastforce simp: assignment_at_def list_ex_iff split: option.splits)
  show "search (assignment_at ws) s \<Longrightarrow> 58 \<in> set s \<or> 61 \<in> set s"
    unfolding search_iff using at by fastforce
qed

lemma marker_needs_dashes: "has_begin_marker s \<Longrightarrow> is_substring [45, 45] s"
proof -
  assume "has_begin_marker s"
  then obtain u v where s: "s = u @ v" and v: "upper_prefix (lit ''-----BEGIN '') v"
    by (auto simp: has_begin_marker_def search_iff)
  have l: "lit ''-----BEGIN '' = 45 # 45 # lit ''---BEGIN ''" by (simp add: lit_def)
  obtain a v1 where v1: "v = a # v1" using v l by (cases v) auto
  obtain b v2 where v2: "v1 = b # v2" using v l v1 by (cases v1) auto
  have "a = 45" "b = 45" using v unfolding l v1 v2 by (auto simp: upper_match_def is_upper_az_def in_range_def)
  then have "s = u @ [45, 45] @ v2" unfolding s v1 v2 by simp
  then show ?thesis
    unfolding is_substring_iff by (intro exI [of _ u] exI [of _ v2])
qed

lemma clean_required:
  assumes "clean_text s" "length s \<le> n" "st \<longrightarrow> stable_id_re s"
  shows "require_text name s n st = Inr ()"
proof -
  have chars: "list_all clean_char s" using assms(1) by (simp add: clean_text_def)
  have no: "c \<notin> set s" if "\<not> clean_char c" for c using chars that by (auto simp: list_all_iff)
  have range: "32 \<le> c \<and> c < 127" if "c \<in> set s" for c
    using chars that unfolding list_all_iff clean_char_def by blast
  have "is_ascii s" unfolding is_ascii_def list_all_iff using range by fastforce
  then have enc: "encode_utf8 s = Inr s" by (rule encode_utf8_ascii)
  have "unquote_loop 2 s = s" by (rule unquote_loop_plain) (rule no, simp add: clean_char_def)
  moreover have "\<not> list_ex is_c0_c1 s"
    using range by (fastforce simp: list_ex_iff is_c0_c1_def in_range_def)
  moreover have "\<not> secret_assignment s"
    using assignment_needs_colon [of secret_assignment_words s] no [of 58] no [of 61]
    by (auto simp: secret_assignment_def clean_char_def)
  moreover have "\<not> has_begin_marker s"
    using marker_needs_dashes assms(1) by (auto simp: clean_text_def)
  ultimately show ?thesis
    using assms enc by (simp add: require_text_def clean_text_def Let_def)
qed

text \<open>Identifiers: lower-case letters, digits, dots and underscores.\<close>

definition id_text :: "pystr \<Rightarrow> bool" where
  "id_text s = (s \<noteq> [] \<and> is_lower_az (hd s) \<and> list_all (\<lambda>c. is_lower_az c \<or> is_digit09 c \<or> c = 46 \<or> c = 95) s)"

lemma id_text_append: "id_text s \<Longrightarrow> id_text t \<Longrightarrow> id_text (s @ t)"
  by (auto simp: id_text_def)

lemma id_text_required:
  assumes "id_text s" "length s \<le> max_id_bytes"
  shows "require_text name s max_id_bytes True = Inr ()"
proof (rule clean_required [OF _ assms(2)])
  have "45 \<notin> set s" using assms(1) by (auto simp: id_text_def list_all_iff char_class_defs)
  then have "\<not> is_substring [45, 45] s" by (auto simp: is_substring_iff)
  then show "clean_text s"
    using assms(1) by (auto simp: clean_text_def id_text_def list_all_iff clean_char_def char_class_defs)
  show "True \<longrightarrow> stable_id_re s"
    using assms(1) by (auto simp: stable_id_re_def id_text_def stable_id_char_def list_all_iff split: list.splits)
qed

lemma mk_issue_clean:
  assumes "id_text iid" "length iid \<le> max_id_bytes" "id_text fid" "length fid \<le> max_id_bytes"
    "clean_text expl" "length expl \<le> max_text_bytes" "clean_text remedy" "length remedy \<le> max_text_bytes"
  shows "mk_issue iid code severity fid expl remedy
    = Inr \<lparr>issue_id = iid, pi_code = code, pi_severity = severity, fact_id = fid,
           explanation = expl, remediation = remedy\<rparr>"
  using assms by (simp add: mk_issue_def id_text_required clean_required)

lemmas text_evals = clean_text_def clean_char_def id_text_def char_class_defs lit_def is_substring_def

lemma length_limits: "max_id_bytes = 128" "max_text_bytes = 2048"
  by (simp_all add: max_id_bytes_def max_text_bytes_def)

definition platform_issue :: "string \<Rightarrow> issue_code \<Rightarrow> issue_severity \<Rightarrow> string \<Rightarrow> string \<Rightarrow> plan_issue" where
  "platform_issue iid code severity expl remedy =
     \<lparr>issue_id = lit iid, pi_code = code, pi_severity = severity, fact_id = lit ''platform.release'',
      explanation = lit expl, remediation = lit remedy\<rparr>"

definition supported :: "configuration \<Rightarrow> planning_facts \<Rightarrow> bool" where
  "supported config facts =
     (os_id facts = Some (lit ''ubuntu'')
      \<and> (os_version_id facts = Some (lit ''26.04'')
         \<or> os_version_id facts = Some (lit ''25.04'') \<and> lifecycle (deployment config) \<noteq> Production))"

lemma lifecycle_issues_result:
  "\<exists>issues. lifecycle_issues config facts = Inr issues
     \<and> (list_ex issue_blocking issues \<longleftrightarrow> \<not> supported config facts) \<and> length issues \<le> 1"
proof -
  have l: "lit ''25.04'' \<noteq> lit ''26.04''" by simp
  have "\<exists>i. issue_list iid code severity ''platform.release'' expl remedy = Inr [i] \<and> pi_severity i = severity"
    if "id_text (lit iid)" "length iid \<le> 128" "clean_text (lit expl)" "length expl \<le> 2048"
       "clean_text (lit remedy)" "length remedy \<le> 2048"
    for iid code severity expl remedy
  proof -
    have "id_text (lit ''platform.release'')" by (simp add: text_evals)
    then show ?thesis
      using that by (simp add: issue_list_def mk_issue_clean length_limits del: bindR_eq_Inr)
  qed
  note il = this
  note e1 = il [of "''platform.release.unsupported''" "''The operating-system release is outside the supported host matrix.''"
      "''Use Ubuntu 26.04, or Ubuntu 25.04 only for development or migration.''" CodeUnsupported Blocking]
  note e2 = il [of "''platform.release.ubuntu_25_04.production''" "''Ubuntu 25.04 is end-of-life and cannot receive a production change plan.''"
      "''Use Ubuntu 26.04 for production or explicitly select development/migration.''" CodeLifecycle Blocking]
  note e3 = il [of "''platform.release.ubuntu_25_04.eol''" "''Ubuntu 25.04 is end-of-life and is eligible only for development or migration.''"
      "''Migrate the deployment to Ubuntu 26.04 before production use.''" CodeLifecycle Warning]
  note e4 = il [of "''platform.release.unknown''" "''The operating-system release is unknown, so no host changes can be planned.''"
      "''Collect a normalized Ubuntu release fact and repeat the dry-run.''" CodeUnknown Blocking]
  have e1': "\<exists>i. issue_list ''platform.release.unsupported'' CodeUnsupported Blocking ''platform.release''
      ''The operating-system release is outside the supported host matrix.''
      ''Use Ubuntu 26.04, or Ubuntu 25.04 only for development or migration.'' = Inr [i] \<and> pi_severity i = Blocking"
    by (rule e1) (simp_all add: text_evals)
  have e2': "\<exists>i. issue_list ''platform.release.ubuntu_25_04.production'' CodeLifecycle Blocking ''platform.release''
      ''Ubuntu 25.04 is end-of-life and cannot receive a production change plan.''
      ''Use Ubuntu 26.04 for production or explicitly select development/migration.'' = Inr [i] \<and> pi_severity i = Blocking"
    by (rule e2) (simp_all add: text_evals)
  have e3': "\<exists>i. issue_list ''platform.release.ubuntu_25_04.eol'' CodeLifecycle Warning ''platform.release''
      ''Ubuntu 25.04 is end-of-life and is eligible only for development or migration.''
      ''Migrate the deployment to Ubuntu 26.04 before production use.'' = Inr [i] \<and> pi_severity i = Warning"
    by (rule e3) (simp_all add: text_evals)
  have e4': "\<exists>i. issue_list ''platform.release.unknown'' CodeUnknown Blocking ''platform.release''
      ''The operating-system release is unknown, so no host changes can be planned.''
      ''Collect a normalized Ubuntu release fact and repeat the dry-run.'' = Inr [i] \<and> pi_severity i = Blocking"
    by (rule e4) (simp_all add: text_evals)
  show ?thesis
    using e1' e2' e3' e4'
    by (auto simp: lifecycle_issues_def supported_def issue_blocking_def split: option.splits)
qed

subsection \<open>One observation per directory\<close>

text \<open>The only observation of a resource id, if there is exactly one.\<close>

definition sole_observation :: "resource_fact list \<Rightarrow> pystr \<Rightarrow> resource_fact option" where
  "sole_observation facts rid =
     (case filter (\<lambda>f. rf_resource_id f = rid) facts of [f] \<Rightarrow> Some f | _ \<Rightarrow> None)"

lemma sole_observation_perm:
  assumes "mset facts = mset facts'"
  shows "sole_observation facts rid = sole_observation facts' rid"
proof -
  let ?F = "filter (\<lambda>f. rf_resource_id f = rid)"
  have m: "mset (?F facts) = mset (?F facts')" using assms by simp
  show ?thesis
  proof (cases "length (?F facts) = 1")
    case True
    then obtain f where f: "?F facts = [f]" by (cases "?F facts") auto
    have "mset (?F facts') = mset [f]" using m unfolding f by (rule sym)
    then have "length (?F facts') = length [f]" by (metis size_mset)
    then obtain g where g: "?F facts' = [g]" by (cases "?F facts'") auto
    have "mset [g] = mset [f]" using \<open>mset (?F facts') = mset [f]\<close> unfolding g .
    then show ?thesis using f g by (simp add: sole_observation_def)
  next
    case False
    have "length (?F facts') = length (?F facts)" using m by (metis size_mset)
    then show ?thesis using False by (auto simp: sole_observation_def split: list.splits)
  qed
qed

text \<open>The loop, started anywhere: what it has seen first and what it has seen again.\<close>

lemma index_loop_result:
  assumes "index_loop ids facts indexed duplicates = (indexed', duplicates')"
  shows "indexed' x = (if x \<in> set ids \<and> indexed x = None
             then (case filter (\<lambda>f. rf_resource_id f = x) facts of [] \<Rightarrow> None | f # _ \<Rightarrow> Some f) else indexed x)"
    and "x \<in> duplicates' \<longleftrightarrow> x \<in> duplicates \<or> x \<in> set ids
             \<and> (if indexed x = None then 2 else 1) \<le> length (filter (\<lambda>f. rf_resource_id f = x) facts)"
proof -
  have "indexed' x = (if x \<in> set ids \<and> indexed x = None
             then (case filter (\<lambda>f. rf_resource_id f = x) facts of [] \<Rightarrow> None | f # _ \<Rightarrow> Some f) else indexed x)
    \<and> (x \<in> duplicates' \<longleftrightarrow> x \<in> duplicates \<or> x \<in> set ids
             \<and> (if indexed x = None then 2 else 1) \<le> length (filter (\<lambda>f. rf_resource_id f = x) facts))"
    using assms
  proof (induction ids facts indexed duplicates rule: index_loop.induct)
    case (1 ids indexed duplicates)
    then show ?case by auto
  next
    case (2 ids f fs indexed duplicates)
    consider "rf_resource_id f \<notin> set ids" | "rf_resource_id f \<in> set ids" "rf_resource_id f \<in> dom indexed"
      | "rf_resource_id f \<in> set ids" "rf_resource_id f \<notin> dom indexed" by blast
    then show ?case
    proof cases
      case 1
      then show ?thesis using "2.IH"(1) "2.prems" by auto
    next
      case 2
      then show ?thesis using "2.IH"(2) "2.prems" by auto
    next
      case 3
      have "indexed' x = (if x \<in> set ids \<and> (indexed(rf_resource_id f \<mapsto> f)) x = None
             then (case filter (\<lambda>f. rf_resource_id f = x) fs of [] \<Rightarrow> None | f # _ \<Rightarrow> Some f)
             else (indexed(rf_resource_id f \<mapsto> f)) x)
        \<and> (x \<in> duplicates' \<longleftrightarrow> x \<in> duplicates \<or> x \<in> set ids
             \<and> (if (indexed(rf_resource_id f \<mapsto> f)) x = None then 2 else 1)
                \<le> length (filter (\<lambda>f. rf_resource_id f = x) fs))"
      proof (rule "2.IH"(3))
        show "index_loop ids fs (indexed(rf_resource_id f \<mapsto> f)) duplicates = (indexed', duplicates')"
          using "2.prems" 3 by (simp del: fun_upd_apply)
      qed (use 3 in auto)
      then show ?thesis using 3 by (auto simp: domIff)
    qed
  qed
  then show "indexed' x = (if x \<in> set ids \<and> indexed x = None
             then (case filter (\<lambda>f. rf_resource_id f = x) facts of [] \<Rightarrow> None | f # _ \<Rightarrow> Some f) else indexed x)"
    and "x \<in> duplicates' \<longleftrightarrow> x \<in> duplicates \<or> x \<in> set ids
             \<and> (if indexed x = None then 2 else 1) \<le> length (filter (\<lambda>f. rf_resource_id f = x) facts)"
    by blast+
qed

definition duplicate_issue :: plan_issue where
  "duplicate_issue = \<lparr>issue_id = lit ''facts.duplicate.desired_resources'', pi_code = CodeInvalidFact,
     pi_severity = Blocking, fact_id = lit ''planning.resources'',
     explanation = lit ''The normalized fact set contains duplicate desired-resource observations.'',
     remediation = lit ''Collect exactly one authoritative observation for each resource ID.''\<rparr>"

definition duplicated :: "resource_fact list \<Rightarrow> pystr list \<Rightarrow> bool" where
  "duplicated facts ids = list_ex (\<lambda>x. 2 \<le> length (filter (\<lambda>f. rf_resource_id f = x) facts)) ids"

lemma index_facts_result:
  "\<exists>indexed. index_facts facts ids = Inr (indexed, if duplicated (pf_resources facts) ids then [duplicate_issue] else [])
     \<and> (\<forall>x \<in> set ids. indexed x = sole_observation (pf_resources facts) x)"
proof -
  obtain indexed duplicates where loop: "index_loop ids (pf_resources facts) Map.empty {} = (indexed, duplicates)"
    by fastforce
  note res = index_loop_result [OF loop]
  have dup: "duplicates = {} \<longleftrightarrow> \<not> duplicated (pf_resources facts) ids"
    using res(2) by (auto simp: duplicated_def list_ex_iff)
  have issue: "issue_list ''facts.duplicate.desired_resources'' CodeInvalidFact Blocking ''planning.resources''
      ''The normalized fact set contains duplicate desired-resource observations.''
      ''Collect exactly one authoritative observation for each resource ID.'' = Inr [duplicate_issue]"
  proof -
    have "id_text (lit ''facts.duplicate.desired_resources'')" "id_text (lit ''planning.resources'')"
      "clean_text (lit ''The normalized fact set contains duplicate desired-resource observations.'')"
      "clean_text (lit ''Collect exactly one authoritative observation for each resource ID.'')"
      by (simp_all add: text_evals)
    then show ?thesis
      by (simp add: issue_list_def mk_issue_clean length_limits duplicate_issue_def del: bindR_eq_Inr)
  qed
  have sole: "(indexed |` (- duplicates)) x = sole_observation (pf_resources facts) x" if "x \<in> set ids" for x
  proof (cases "filter (\<lambda>f. rf_resource_id f = x) (pf_resources facts)")
    case Nil
    then show ?thesis using that res [of x] by (simp add: sole_observation_def restrict_map_def)
  next
    case (Cons f fs)
    then show ?thesis using that res [of x] by (cases fs) (simp_all add: sole_observation_def restrict_map_def)
  qed
  have "index_facts facts ids = Inr (indexed |` (- duplicates), if duplicated (pf_resources facts) ids then [duplicate_issue] else [])"
    using dup issue by (simp add: index_facts_def loop del: bindR_eq_Inr)
  then show ?thesis using sole by blast
qed

subsection \<open>One directory\<close>

definition keeps_directory :: "desired_directory \<Rightarrow> resource_fact \<Rightarrow> bool" where
  "keeps_directory d f = (rf_target f = dd_path d \<and> rf_state f = Present \<and> rf_confidence f = ConfHigh
     \<and> rf_ownership f = OwnProject)"

definition creates_directory :: "desired_directory \<Rightarrow> resource_fact \<Rightarrow> bool" where
  "creates_directory d f = (rf_target f = dd_path d \<and> rf_state f = Absent \<and> rf_confidence f = ConfHigh
     \<and> rf_ownership f = Unowned)"

definition directory_action :: "desired_directory \<Rightarrow> planned_action" where
  "directory_action d =
     \<lparr>action_id = lit (dd_resource_id d @ ''.create''), pa_category = CDirectory, pa_target = dd_path d,
      current_state = lit ''absent'', desired_state = lit ''present'',
      pa_reason = lit (''Create the dedicated directory for '' @ dd_purpose d @ ''.''),
      pa_privilege = RootPrivilege, pa_restart_impact = ImpactNone, reboot_required = False,
      pa_rollback = \<lparr>rb_strategy = RemoveCreated,
        rb_description = lit ''Remove only when exact manifest ownership is proven and the directory is empty.''\<rparr>,
      pa_confidence = ConfHigh, pa_ownership = OwnProject\<rparr>"

lemma desired_ids:
  assumes "d \<in> set (desired_list config)"
  shows "id_text (lit (dd_resource_id d))" "length (dd_resource_id d) \<le> 20"
    "clean_text (lit (''Create the dedicated directory for '' @ dd_purpose d @ ''.''))" "length (dd_purpose d) \<le> 40"
  using assms by (auto simp: desired_list_def text_evals)

lemma directory_issue_blocks:
  assumes d: "d \<in> set (desired_list config)"
    and kind: "id_text (lit kind)" "length kind \<le> 40"
    and texts: "clean_text (lit expl)" "length expl \<le> 2048" "clean_text (lit remedy)" "length remedy \<le> 2048"
  shows "\<exists>i. directory_issue kind code d expl remedy = Inr (None, Some i) \<and> issue_blocking i
     \<and> issue_id i = lit (kind @ dd_resource_id d)"
proof -
  have "id_text (lit (kind @ dd_resource_id d))"
    unfolding lit_append by (rule id_text_append [OF kind(1) desired_ids(1) [OF d]])
  then show ?thesis
    using kind(2) texts desired_ids [OF d]
    by (simp add: directory_issue_def mk_issue_clean length_limits issue_blocking_def del: bindR_eq_Inr)
qed

lemma create_action_result:
  assumes d: "d \<in> set (desired_list config)" and t: "require_text name (dd_path d) max_target_bytes False = Inr ()"
  shows "create_action d = Inr (directory_action d)"
proof -
  have "require_text ''target'' (dd_path d) max_target_bytes False = Inr ()"
    using t unfolding require_text_def by (auto simp: Let_def)
  moreover have "id_text (lit (dd_resource_id d @ ''.create''))"
    using desired_ids(1) [OF d] unfolding lit_append
    by (auto simp: id_text_def lit_def char_class_defs)
  moreover have "clean_text (lit ''absent'')" "clean_text (lit ''present'')"
      "clean_text (lit ''Remove only when exact manifest ownership is proven and the directory is empty.'')"
    by (simp_all add: text_evals)
  ultimately show ?thesis
    using desired_ids [OF d]
    by (simp add: create_action_def mk_rollback_def check_action_def clean_required
        id_text_required [unfolded length_limits] length_limits directory_action_def del: bindR_eq_Inr thenR_eq_Inr)
qed

definition resolves :: "desired_directory \<Rightarrow> resource_fact option \<Rightarrow> bool" where
  "resolves d obs = (\<exists>f. obs = Some f \<and> (keeps_directory d f \<or> creates_directory d f))"

definition wants_create :: "desired_directory \<Rightarrow> resource_fact option \<Rightarrow> bool" where
  "wants_create d obs = (\<exists>f. obs = Some f \<and> creates_directory d f)"

lemma directory_result_spec:
  assumes d: "d \<in> set (desired_list config)" and t: "require_text name (dd_path d) max_target_bytes False = Inr ()"
  shows "\<exists>issue. directory_result d obs = Inr (if wants_create d obs then Some (directory_action d) else None, issue)
     \<and> (case issue of None \<Rightarrow> resolves d obs | Some i \<Rightarrow> issue_blocking i \<and> \<not> resolves d obs)"
proof -
  note block = directory_issue_blocks [OF d]
  have b1: "\<exists>i. directory_issue ''facts.missing.'' CodeUnknown d
      ''No normalized observation exists for the configured project directory.''
      ''Collect the exact path type, existence, ownership, and confidence.'' = Inr (None, Some i) \<and> issue_blocking i
     \<and> issue_id i = lit (''facts.missing.'' @ dd_resource_id d)"
    by (rule block) (simp_all add: text_evals)
  have b2: "\<exists>i. directory_issue ''facts.target_mismatch.'' CodeInvalidFact d
      ''The normalized observation does not describe the configured resource target.''
      ''Collect a new observation for the exact configured path.'' = Inr (None, Some i) \<and> issue_blocking i
     \<and> issue_id i = lit (''facts.target_mismatch.'' @ dd_resource_id d)"
    by (rule block) (simp_all add: text_evals)
  have b3: "\<exists>i. directory_issue ''facts.unknown.'' CodeUnknown d
      ''The configured directory state is unknown, so creating or adopting it is unsafe.''
      ''Resolve the read-only collection failure and repeat the dry-run.'' = Inr (None, Some i) \<and> issue_blocking i
     \<and> issue_id i = lit (''facts.unknown.'' @ dd_resource_id d)"
    by (rule block) (simp_all add: text_evals)
  have b4: "\<exists>i. directory_issue ''facts.unsupported.'' CodeUnsupported d
      ''The configured path cannot be managed as a project directory.''
      ''Choose a supported project-owned path or remove the conflicting filesystem object.'' = Inr (None, Some i) \<and> issue_blocking i
     \<and> issue_id i = lit (''facts.unsupported.'' @ dd_resource_id d)"
    by (rule block) (simp_all add: text_evals)
  have b5: "\<exists>i. directory_issue ''facts.confidence.'' CodeUnknown d
      ''Directory ownership or existence was not established with high confidence.''
      ''Resolve symlinks, mount boundaries, and ownership markers before planning changes.'' = Inr (None, Some i) \<and> issue_blocking i
     \<and> issue_id i = lit (''facts.confidence.'' @ dd_resource_id d)"
    by (rule block) (simp_all add: text_evals)
  have b6: "\<exists>i. directory_issue ''ownership.conflict.'' CodeConflict d
      ''The configured path already exists without exact project ownership.''
      ''Select a different project path or explicitly resolve the foreign resource.'' = Inr (None, Some i) \<and> issue_blocking i
     \<and> issue_id i = lit (''ownership.conflict.'' @ dd_resource_id d)"
    by (rule block) (simp_all add: text_evals)
  have b7: "\<exists>i. directory_issue ''facts.inconsistent.'' CodeInvalidFact d
      ''An absent directory has a contradictory ownership classification.''
      ''Correct the normalized observation before calculating a plan.'' = Inr (None, Some i) \<and> issue_blocking i
     \<and> issue_id i = lit (''facts.inconsistent.'' @ dd_resource_id d)"
    by (rule block) (simp_all add: text_evals)
  note cr = create_action_result [OF d t]
  show ?thesis
  proof (cases obs)
    case None
    then show ?thesis using b1 by (auto simp: directory_result_def wants_create_def resolves_def)
  next
    case (Some f)
    consider "rf_target f \<noteq> dd_path d" | "rf_target f = dd_path d" "rf_state f = StateUnknown"
      | "rf_target f = dd_path d" "rf_state f = StateUnsupported"
      | "rf_target f = dd_path d" "rf_state f \<in> {Absent, Present}" "rf_confidence f \<noteq> ConfHigh"
      | "rf_target f = dd_path d" "rf_state f = Present" "rf_confidence f = ConfHigh" "rf_ownership f = OwnProject"
      | "rf_target f = dd_path d" "rf_state f = Present" "rf_confidence f = ConfHigh" "rf_ownership f \<noteq> OwnProject"
      | "rf_target f = dd_path d" "rf_state f = Absent" "rf_confidence f = ConfHigh" "rf_ownership f \<noteq> Unowned"
      | "rf_target f = dd_path d" "rf_state f = Absent" "rf_confidence f = ConfHigh" "rf_ownership f = Unowned"
      by (cases "rf_state f") auto
    note c = this
    note unf = directory_result_def wants_create_def resolves_def keeps_directory_def creates_directory_def
    from c show ?thesis
    proof cases
      case 1
      then show ?thesis using b2 by (auto simp: Some unf simp del: lit_eq_iff)
    next
      case 2
      then show ?thesis using b3 by (auto simp: Some unf simp del: lit_eq_iff)
    next
      case 3
      then show ?thesis using b4 by (auto simp: Some unf simp del: lit_eq_iff)
    next
      case 4
      then show ?thesis using b5 by (auto simp: Some unf simp del: lit_eq_iff)
    next
      case 5
      then show ?thesis by (auto simp: Some unf simp del: lit_eq_iff)
    next
      case 6
      then show ?thesis using b6 by (auto simp: Some unf simp del: lit_eq_iff)
    next
      case 7
      then show ?thesis using b7 by (auto simp: Some unf simp del: lit_eq_iff)
    next
      case 8
      then show ?thesis using cr by (auto simp: Some unf simp del: lit_eq_iff)
    qed
  qed
qed

lemma collect_results_spec:
  assumes "set ds \<subseteq> set (desired_list config)"
    and "\<And>d. d \<in> set ds \<Longrightarrow> require_text ''configured path'' (dd_path d) max_target_bytes False = Inr ()"
  shows "\<exists>issues. collect_results ds indexed
       = Inr (map directory_action (filter (\<lambda>d. wants_create d (indexed (lit (dd_resource_id d)))) ds), issues)
     \<and> (list_ex issue_blocking issues \<longleftrightarrow> \<not> (\<forall>d \<in> set ds. resolves d (indexed (lit (dd_resource_id d)))))
     \<and> length issues \<le> length ds"
  using assms
proof (induction ds)
  case (Cons d ds)
  obtain issue where r: "directory_result d (indexed (lit (dd_resource_id d)))
       = Inr (if wants_create d (indexed (lit (dd_resource_id d))) then Some (directory_action d) else None, issue)"
     "case issue of None \<Rightarrow> resolves d (indexed (lit (dd_resource_id d)))
        | Some i \<Rightarrow> issue_blocking i \<and> \<not> resolves d (indexed (lit (dd_resource_id d)))"
    using directory_result_spec [of d config "''configured path''" "indexed (lit (dd_resource_id d))"] Cons.prems by auto
  obtain issues where i: "collect_results ds indexed
       = Inr (map directory_action (filter (\<lambda>d. wants_create d (indexed (lit (dd_resource_id d)))) ds), issues)"
     "list_ex issue_blocking issues \<longleftrightarrow> \<not> (\<forall>d \<in> set ds. resolves d (indexed (lit (dd_resource_id d))))"
     "length issues \<le> length ds"
    using Cons.IH Cons.prems by auto
  show ?case using r i by (cases issue) auto
qed simp

subsection \<open>The texts of the issues are literals\<close>

definition issue_ok :: "plan_issue \<Rightarrow> bool" where
  "issue_ok i = (\<exists>a b c e. issue_id i = lit a \<and> fact_id i = lit b \<and> explanation i = lit c \<and> remediation i = lit e
     \<and> length a \<le> 128 \<and> length b \<le> 128 \<and> length c \<le> 2048 \<and> length e \<le> 2048)"

lemma encode_utf8_length: "encode_utf8 s = Inr bs \<Longrightarrow> length s \<le> length bs"
proof -
  assume "encode_utf8 s = Inr bs"
  then have "bs = concat (map utf8_char s)" by (auto simp: encode_utf8_def split: if_splits)
  moreover have one: "1 \<le> length (utf8_char c)" for c by (simp add: utf8_char_def)
  have "length t \<le> length (concat (map utf8_char t))" for t
  proof (induction t)
    case (Cons c t)
    then show ?case using one [of c] by simp
  qed simp
  ultimately show ?thesis by simp
qed

lemma require_text_length: "require_text n s m st = Inr () \<Longrightarrow> length s \<le> m"
  by (auto simp: require_text_def dest: encode_utf8_length)

lemma mk_issue_ok: "mk_issue (lit a) code sev (lit b) (lit c) (lit e) = Inr i \<Longrightarrow> issue_ok i"
  by (auto simp: mk_issue_def issue_ok_def length_limits dest!: require_text_length)

lemma issue_list_ok: "issue_list a code sev b c e = Inr is \<Longrightarrow> list_all issue_ok is"
  by (auto simp: issue_list_def dest: mk_issue_ok)

lemma lifecycle_issues_ok: "lifecycle_issues config facts = Inr is \<Longrightarrow> list_all issue_ok is"
  by (auto simp: lifecycle_issues_def split: option.splits if_splits dest: issue_list_ok)

lemma index_facts_ok: "index_facts facts ids = Inr (m, is) \<Longrightarrow> list_all issue_ok is"
  by (auto simp: index_facts_def split: prod.splits if_splits dest: issue_list_ok)

lemma directory_issue_ok: "directory_issue a code d b c = Inr (x, i) \<Longrightarrow> \<exists>j. x = None \<and> i = Some j \<and> issue_ok j"
  by (auto simp: directory_issue_def dest: mk_issue_ok)

lemma directory_result_ok: "directory_result d obs = Inr (x, Some i) \<Longrightarrow> issue_ok i"
  unfolding directory_result_def by (auto split: option.splits if_splits dest: directory_issue_ok)

lemma collect_results_ok: "collect_results ds m = Inr (as, is) \<Longrightarrow> list_all issue_ok is"
proof (induction ds arbitrary: as "is")
  case (Cons d ds)
  from Cons.prems obtain x i as0 is0 where r: "directory_result d (m (lit (dd_resource_id d))) = Inr (x, i)"
      "collect_results ds m = Inr (as0, is0)" "is = (case i of None \<Rightarrow> is0 | Some j \<Rightarrow> j # is0)" by auto
  show ?case using r Cons.IH [OF r(2)] directory_result_ok by (cases i) auto
qed simp

subsection \<open>The plan\<close>

definition observed :: "planning_facts \<Rightarrow> desired_directory \<Rightarrow> resource_fact option" where
  "observed facts d = sole_observation (pf_resources facts) (lit (dd_resource_id d))"

definition plan_safe :: "configuration \<Rightarrow> planning_facts \<Rightarrow> bool" where
  "plan_safe config facts =
     (supported config facts \<and> (\<forall>d \<in> set (desired_list config). resolves d (observed facts d)))"

definition paths_owned :: "configuration \<Rightarrow> bool" where
  "paths_owned config =
     (\<forall>d \<in> set (desired_list config). require_owned_directory_path (dd_resource_id d) (dd_path d) = Inr ())"

lemma sorted_ids: "sort_key (\<lambda>item. lit (dd_resource_id item)) (desired_list config) = desired_list config"
proof -
  have "sorted (map (\<lambda>item. lit (dd_resource_id item)) (desired_list config))"
    by (simp add: desired_list_def lit_def)
  then show ?thesis by (rule sort_key_id_if_sorted)
qed


lemma owned_path_text:
  "require_owned_directory_path rid p = Inr () \<Longrightarrow> require_text ''configured path'' p max_target_bytes False = Inr ()"
  by (auto simp: require_owned_directory_path_def)

definition expected_actions :: "configuration \<Rightarrow> planning_facts \<Rightarrow> planned_action list" where
  "expected_actions config facts =
     (if plan_safe config facts
      then map directory_action (filter (\<lambda>d. wants_create d (observed facts d)) (desired_list config)) else [])"

lemma action_ids_sorted:
  "sorted (map action_id (map directory_action (filter P (desired_list config))))"
proof -
  have "sorted (map action_id (map directory_action (desired_list config)))"
    by (simp add: desired_list_def directory_action_def lit_def)
  moreover have "sorted (map f xs) \<Longrightarrow> sorted (map f (filter P xs))" for f :: "desired_directory \<Rightarrow> pystr" and xs
    by (induction xs) auto
  ultimately show ?thesis by (simp add: comp_def)
qed

lemma duplicated_unresolved:
  assumes "duplicated (pf_resources facts) (map (\<lambda>d. lit (dd_resource_id d)) ds)"
  shows "\<exists>d \<in> set ds. \<not> resolves d (observed facts d)"
proof -
  obtain d where "d \<in> set ds" "2 \<le> length (filter (\<lambda>f. rf_resource_id f = lit (dd_resource_id d)) (pf_resources facts))"
    using assms by (auto simp: duplicated_def list_ex_iff)
  then have "observed facts d = None" by (auto simp: observed_def sole_observation_def split: list.splits)
  then have "\<not> resolves d (observed facts d)" by (simp add: resolves_def)
  then show ?thesis using \<open>d \<in> set ds\<close> by blast
qed

lemma build_result:
  assumes "paths_owned config"
  shows "\<exists>issues. build_change_plan config facts
       = Inr \<lparr>plan_lifecycle = lifecycle (deployment config), plan_actions = expected_actions config facts,
              plan_issues = sort_key issue_id issues, plan_schema_version = 1\<rparr>
     \<and> (list_ex issue_blocking issues \<longleftrightarrow> \<not> plan_safe config facts)
     \<and> list_all issue_ok issues \<and> length issues \<le> 7"
proof -
  let ?ds = "desired_list config" and ?ids = "map (\<lambda>d. lit (dd_resource_id d)) (desired_list config)"
  have dirs: "desired_directories config = Inr ?ds"
    using assms by (simp add: desired_directories_def paths_owned_def sorted_ids del: forR_eq_Inr)
      (simp add: paths_owned_def)
  obtain i0 where i0: "lifecycle_issues config facts = Inr i0"
      "list_ex issue_blocking i0 \<longleftrightarrow> \<not> supported config facts" "length i0 \<le> 1"
    using lifecycle_issues_result by blast
  let ?i1 = "if duplicated (pf_resources facts) ?ids then [duplicate_issue] else []"
  obtain indexed where i1: "index_facts facts ?ids = Inr (indexed, ?i1)"
      "\<forall>x \<in> set ?ids. indexed x = sole_observation (pf_resources facts) x"
    using index_facts_result by blast
  have obs: "indexed (lit (dd_resource_id d)) = observed facts d" if "d \<in> set ?ds" for d
    using i1(2) that by (simp add: observed_def)
  have checked: "\<And>d. d \<in> set ?ds \<Longrightarrow> require_text ''configured path'' (dd_path d) max_target_bytes False = Inr ()"
    using assms owned_path_text unfolding paths_owned_def by blast
  obtain i2 where i2: "collect_results ?ds indexed
       = Inr (map directory_action (filter (\<lambda>d. wants_create d (indexed (lit (dd_resource_id d)))) ?ds), i2)"
     "list_ex issue_blocking i2 \<longleftrightarrow> \<not> (\<forall>d \<in> set ?ds. resolves d (indexed (lit (dd_resource_id d))))"
     "length i2 \<le> length ?ds"
    using collect_results_spec [OF subset_refl checked, where indexed = indexed] by blast
  have cands: "filter (\<lambda>d. wants_create d (indexed (lit (dd_resource_id d)))) ?ds
      = filter (\<lambda>d. wants_create d (observed facts d)) ?ds"
    by (rule filter_cong [OF refl]) (simp add: obs)
  let ?issues = "i0 @ ?i1 @ i2"
  have blk: "list_ex issue_blocking ?issues \<longleftrightarrow> \<not> plan_safe config facts"
    using i0(2) i2(2) obs duplicated_unresolved [of facts ?ds]
    by (auto simp: plan_safe_def duplicate_issue_def issue_blocking_def)
  have blk': "list_ex issue_blocking (sort_key issue_id ?issues) \<longleftrightarrow> \<not> plan_safe config facts"
    using blk by (simp add: list_ex_iff)
  have acts: "(if list_ex issue_blocking (sort_key issue_id ?issues) then []
       else sort_key action_id (map directory_action (filter (\<lambda>d. wants_create d (observed facts d)) ?ds)))
      = expected_actions config facts"
    using blk' sort_key_id_if_sorted [OF action_ids_sorted] by (simp add: expected_actions_def)
  have five: "length ?ds = 5" by (simp add: desired_list_def)
  have "length (expected_actions config facts) \<le> 5"
    using length_filter_le [of _ ?ds] five by (simp add: expected_actions_def)
  then have la: "\<not> max_plan_actions < length (expected_actions config facts)" by (simp add: max_plan_actions_def)
  have li: "\<not> max_plan_issues < length (sort_key issue_id ?issues)"
    using i0(3) i2(3) five by (simp add: max_plan_issues_def)
  have "build_change_plan config facts
       = mk_change_plan (lifecycle (deployment config)) (expected_actions config facts) (sort_key issue_id ?issues) 1"
    unfolding build_change_plan_def dirs bindR_simps i0(1) i1(1) prod.case i2(1) cands Let_def acts ..
  also have "\<dots> = Inr \<lparr>plan_lifecycle = lifecycle (deployment config), plan_actions = expected_actions config facts,
              plan_issues = sort_key issue_id ?issues, plan_schema_version = 1\<rparr>"
    using la li by (simp add: mk_change_plan_def require_schema_version_def del: thenR_eq_Inr)
  moreover have "list_all issue_ok ?issues"
    using lifecycle_issues_ok [OF i0(1)] index_facts_ok [OF i1(1)] collect_results_ok [OF i2(1)] by simp
  moreover have "length ?issues \<le> 7" using i0(3) i2(3) five by auto
  ultimately show ?thesis using blk by metis
qed

lemma build_fails:
  assumes "\<not> paths_owned config"
  shows "\<exists>e. build_change_plan config facts = Inl e \<and> is_value_error e"
proof -
  have "desired_directories config \<noteq> Inr x" for x
    using assms by (auto simp: desired_directories_def paths_owned_def)
  then obtain e where e: "desired_directories config = Inl e" by (cases "desired_directories config") auto
  then obtain d where d: "d \<in> set (desired_list config)" "require_owned_directory_path (dd_resource_id d) (dd_path d) = Inl e"
    by (auto simp: desired_directories_def thenR_eq_Inl dest: forR_eq_InlD)
  have txt_err: "require_text n v m st = Inl e \<Longrightarrow> is_value_error e" for n v m st e
    by (auto simp: require_text_def thenR_eq_Inl bindR_eq_Inl Let_def encode_utf8_def split: if_splits)
  have "map_of owned_directory_roots (dd_resource_id d) \<noteq> None"
    using d(1) by (auto simp: desired_list_def owned_directory_roots_def)
  then have "is_value_error e"
    using d(2) by (auto simp: require_owned_directory_path_def thenR_eq_Inl bindR_eq_Inl try_except_eq_Inl Let_def
        relative_parts_def split: if_splits dest: txt_err)
  then show ?thesis using e by (simp add: build_change_plan_def)
qed


subsection \<open>Independence of the order of the facts\<close>

lemma collect_results_cong:
  "(\<And>d. d \<in> set ds \<Longrightarrow> m (lit (dd_resource_id d)) = m' (lit (dd_resource_id d)))
    \<Longrightarrow> collect_results ds m = collect_results ds m'"
  by (induction ds) auto

lemma duplicated_perm:
  assumes "mset rs = mset rs'"
  shows "duplicated rs ids = duplicated rs' ids"
proof -
  have "length (filter P rs) = length (filter P rs')" for P
    using assms by (metis mset_filter size_mset)
  then show ?thesis by (simp add: duplicated_def)
qed

lemma build_perm:
  assumes "mset rs = mset (pf_resources facts)"
  shows "build_change_plan config (facts\<lparr>pf_resources := rs\<rparr>) = build_change_plan config facts"
proof (cases "desired_directories config")
  case (Inl e)
  then show ?thesis by (simp add: build_change_plan_def)
next
  case (Inr ds)
  let ?facts = "facts\<lparr>pf_resources := rs\<rparr>" and ?ids = "map (\<lambda>item. lit (dd_resource_id item)) ds"
  obtain m where m: "index_facts facts ?ids = Inr (m, if duplicated (pf_resources facts) ?ids then [duplicate_issue] else [])"
      "\<forall>x \<in> set ?ids. m x = sole_observation (pf_resources facts) x"
    using index_facts_result by blast
  obtain m' where m': "index_facts ?facts ?ids = Inr (m', if duplicated rs ?ids then [duplicate_issue] else [])"
      "\<forall>x \<in> set ?ids. m' x = sole_observation rs x"
    using index_facts_result [of ?facts ?ids] by auto
  have "collect_results ds m' = collect_results ds m"
    using m(2) m'(2) sole_observation_perm [OF assms] by (intro collect_results_cong) auto
  moreover have "lifecycle_issues config ?facts = lifecycle_issues config facts"
    by (simp add: lifecycle_issues_def)
  ultimately show ?thesis
    using m(1) m'(1) duplicated_perm [OF assms] by (simp add: build_change_plan_def Inr)
qed

subsection \<open>Accepted paths\<close>

lemma join_rest: "xs \<noteq> [] \<Longrightarrow> join [c] (xs @ ys) = join [c] xs @ concat (map (Cons c) ys)"
proof (induction "[c]" xs rule: join.induct)
  case (2 w)
  have "join [c] (w # ys) = w @ concat (map (Cons c) ys)"
    by (induction ys arbitrary: w) (simp, simp)
  then show ?case by simp
qed auto

text \<open>An accepted directory path is its project root followed by plain components.\<close>

lemma owned_path_shape:
  assumes "require_owned_directory_path rid p = Inr ()"
  shows "\<exists>root rel. map_of owned_directory_roots rid = Some root \<and> list_all owned_path_part rel
    \<and> p = lit root @ concat (map (Cons 47) rel)"
proof -
  obtain root where root: "map_of owned_directory_roots rid = Some root"
    using assms by (auto simp: require_owned_directory_path_def split: option.splits)
  have "(rid, root) \<in> set owned_directory_roots" by (rule map_of_SomeD [OF root])
  then have r: "path_str (parse_path (lit root)) = lit root \<and> anchor (parse_path (lit root)) = [47]
      \<and> components (parse_path (lit root)) \<noteq> []"
    by (auto simp: owned_directory_roots_def parse_path_def path_str_def path_anchor_def lit_def)
  obtain rel where rel: "relative_parts (parse_path p) (parse_path (lit root)) = Inr rel"
      "path_str (parse_path p) = p" "list_all owned_path_part rel"
    using assms root by (auto simp: require_owned_directory_path_def Let_def list_ex_iff list_all_iff)
  have c: "anchor (parse_path p) = [47]" "components (parse_path p) = components (parse_path (lit root)) @ rel"
    using rel(1) r by (auto simp: relative_parts_Inr)
  have "p = [47] @ join [47] (components (parse_path (lit root)) @ rel)"
    using rel(2) c unfolding path_str_def by auto
  also have "\<dots> = lit root @ concat (map (Cons 47) rel)"
    using r by (auto simp: path_str_def join_rest split: if_splits)
  finally show ?thesis using root rel(3) by blast
qed

lemma owned_path_ascii: "require_owned_directory_path rid p = Inr () \<Longrightarrow> is_ascii p"
proof -
  assume "require_owned_directory_path rid p = Inr ()"
  then obtain root rel where *: "map_of owned_directory_roots rid = Some root" "list_all owned_path_part rel"
      "p = lit root @ concat (map (Cons 47) rel)" using owned_path_shape by blast
  have "is_ascii (lit root)"
    using map_of_SomeD [OF *(1)] by (auto simp: owned_directory_roots_def lit_def)
  moreover have "owned_path_part c \<Longrightarrow> is_ascii c" for c
    by (auto simp: owned_path_part_def is_ascii_def list_all_iff path_char_def char_class_defs split: list.splits)
  then have "is_ascii (concat (map (Cons 47) rel))" using *(2) by (induction rel) auto
  ultimately show ?thesis using *(3) by simp
qed

lemma ascii_scalar: "is_ascii s \<Longrightarrow> scalar_text s"
  by (auto simp: is_ascii_def scalar_text_def scalar_char_def is_surrogate_def in_range_def list_all_iff)

definition action_ok :: "planned_action \<Rightarrow> bool" where
  "action_ok a = (\<exists>d config. d \<in> set (desired_list config) \<and> a = directory_action d
     \<and> require_owned_directory_path (dd_resource_id d) (dd_path d) = Inr ())"

lemma enum_lengths:
  "length (code_value c) \<le> 12 \<and> length (severity_value s) \<le> 8 \<and> length (lifecycle_value l) \<le> 20"
  by (cases c; cases s; cases l) simp_all

lemma issue_json:
  assumes "issue_ok i"
  shows "json_ok (issue_as_dict i) \<and> weight (issue_as_dict i) \<le> 54000"
proof -
  obtain a b c e where "issue_id i = lit a" "fact_id i = lit b" "explanation i = lit c" "remediation i = lit e"
    "length a \<le> 128" "length b \<le> 128" "length c \<le> 2048" "length e \<le> 2048"
    using assms by (auto simp: issue_ok_def)
  then show ?thesis
    using enum_lengths [of "pi_code i" "pi_severity i" Production] by (simp add: issue_as_dict_def)
qed

lemma action_json:
  assumes "action_ok a"
  shows "json_ok (action_as_dict a) \<and> weight (action_as_dict a) \<le> 60000"
proof -
  obtain d config where d: "d \<in> set (desired_list config)" "a = directory_action d"
    "require_owned_directory_path (dd_resource_id d) (dd_path d) = Inr ()"
    using assms by (auto simp: action_ok_def)
  have "length (dd_path d) \<le> 4096" "scalar_text (dd_path d)"
    using require_text_length [OF owned_path_text [OF d(3)]] ascii_scalar [OF owned_path_ascii [OF d(3)]]
    by (simp_all add: max_target_bytes_def)
  then show ?thesis
    using desired_ids [OF d(1)]
    by (simp add: d(2) action_as_dict_def directory_action_def rollback_as_dict_def)
qed

lemma list_weight: "list_all (\<lambda>x. weight (f x) \<le> n) xs \<Longrightarrow> sum_list (map Suc (map weight (map f xs))) \<le> length xs * Suc n"
  by (induction xs) auto

subsection \<open>Serialising a plan\<close>

lemma expected_actions_ok:
  assumes "paths_owned config"
  shows "list_all action_ok (expected_actions config facts)"
  using assms unfolding expected_actions_def paths_owned_def list_all_iff action_ok_def by auto

lemma length_nat_digits: "length (nat_digits n) \<le> Suc n"
proof (induction n rule: nat_digits.induct)
  case (1 n)
  then show ?case by (subst nat_digits.simps) (fastforce simp: not_less intro: order_trans)
qed

lemma plan_json_ok:
  assumes a: "list_all action_ok (plan_actions p)" "length (plan_actions p) \<le> 5"
    and i: "list_all issue_ok (plan_issues p)" "length (plan_issues p) \<le> 7"
    and v: "plan_schema_version p = 1"
  shows "json_ok (plan_as_dict p) \<and> weight (plan_as_dict p) \<le> max_plan_json_bytes"
proof -
  let ?b = "length (filter issue_blocking (plan_issues p))"
  have b: "?b \<le> 7" using i(2) length_filter_le [of issue_blocking "plan_issues p"] by linarith
  have digits: "length (nat_digits (length (plan_actions p))) \<le> 8" "length (nat_digits (length (plan_issues p))) \<le> 8"
    "length (nat_digits ?b) \<le> 8" "length (nat_digits 1) \<le> 8"
    using length_nat_digits [of "length (plan_actions p)"] length_nat_digits [of "length (plan_issues p)"]
      length_nat_digits [of ?b] length_nat_digits [of 1] a(2) i(2) b by linarith+
  have la: "list_all id (map (json_ok \<circ> action_as_dict) (plan_actions p))"
    "sum_list (map Suc (map weight (map action_as_dict (plan_actions p)))) \<le> length (plan_actions p) * 60001"
    using a(1) action_json list_weight [of action_as_dict 60000 "plan_actions p"] by (simp_all add: list_all_iff)
  have li: "list_all id (map (json_ok \<circ> issue_as_dict) (plan_issues p))"
    "sum_list (map Suc (map weight (map issue_as_dict (plan_issues p)))) \<le> length (plan_issues p) * 54001"
    using i(1) issue_json list_weight [of issue_as_dict 54000 "plan_issues p"] by (simp_all add: list_all_iff)
  show ?thesis
    using la li digits a(2) i(2) v enum_lengths [of CodeUnknown Warning "plan_lifecycle p"]
    by (simp add: plan_as_dict_def max_plan_json_bytes_def int_str_def int_limit_def)
qed

lemma plan_serialises:
  assumes "json_ok (plan_as_dict p)" "weight (plan_as_dict p) \<le> max_plan_json_bytes"
  shows "plan_to_json p = Inr (dumps (plan_as_dict p))"
  using encode_utf8_ascii [OF is_ascii_dumps [OF assms(1)]] length_dumps [of "plan_as_dict p"] assms(2)
  by (simp add: plan_to_json_def)

lemma build_plan_cases:
  assumes "build_change_plan config facts = Inr plan"
  shows "paths_owned config" "plan_actions plan = expected_actions config facts"
    "plan_schema_version plan = 1" "list_all issue_ok (plan_issues plan)" "length (plan_issues plan) \<le> 7"
    "length (plan_actions plan) \<le> 5"
proof -
  show p: "paths_owned config" using build_fails [of config facts] assms by fastforce
  obtain issues where i: "build_change_plan config facts
       = Inr \<lparr>plan_lifecycle = lifecycle (deployment config), plan_actions = expected_actions config facts,
              plan_issues = sort_key issue_id issues, plan_schema_version = 1\<rparr>"
     "list_all issue_ok issues" "length issues \<le> 7" using build_result [OF p] by blast
  show "plan_actions plan = expected_actions config facts"
    "plan_schema_version plan = 1" "list_all issue_ok (plan_issues plan)" "length (plan_issues plan) \<le> 7"
    using i assms by (auto simp: list_all_iff)
  show "length (plan_actions plan) \<le> 5"
    using i assms length_filter_le [of _ "desired_list config"]
    by (auto simp: expected_actions_def desired_list_def)
qed

subsection \<open>A sample host\<close>

definition sample_configuration :: configuration where
  "sample_configuration =
     \<lparr>cfg_schema_version = 1,
      deployment = \<lparr>profile = Standard, lifecycle = Production, listen_address = lit ''127.0.0.1'',
        public_exposure = False, domain_name = None\<rparr>,
      paths = \<lparr>install_path = lit ''/opt/kitdev-sandboxes/releases'', config_path = lit ''/etc/kitdev-sandboxes'',
        state_path = lit ''/var/lib/kitdev-sandboxes'', logs_path = lit ''/var/log/kitdev-sandboxes'',
        runtime_path = lit ''/run/kitdev-sandboxes''\<rparr>,
      sandbox = \<lparr>default_template = lit ''base'', default_vcpus = 2, default_memory_mib = 512,
        default_disk_mib = 4096, default_timeout_seconds = 300, default_ttl_seconds = 3600,
        max_processes = 256, max_output_bytes = 1048576\<rparr>,
      network = \<lparr>ipv4_cidr = lit ''10.0.0.0/16'', ipv6_enabled = False, dns_resolvers = [],
        allow_http_egress = True, allow_private_egress = False, private_egress_allowlist = [],
        sandbox_to_sandbox = False\<rparr>,
      features = \<lparr>observability = False, persistence = True, backups = False, browser_template = False,
        desktop_template = False\<rparr>,
      operator = None\<rparr>"

definition sample_observation :: "desired_directory \<Rightarrow> resource_fact" where
  "sample_observation d =
     (let new = (dd_resource_id d = ''directory.install'') in
      \<lparr>rf_resource_id = lit (dd_resource_id d), rf_target = dd_path d,
       rf_state = (if new then Absent else Present), rf_ownership = (if new then Unowned else OwnProject),
       rf_confidence = ConfHigh\<rparr>)"

definition sample_facts :: planning_facts where
  "sample_facts = \<lparr>os_id = Some (lit ''ubuntu''), os_version_id = Some (lit ''26.04''),
     pf_resources = map sample_observation (desired_list sample_configuration), pf_schema_version = 1\<rparr>"

lemma sample_safe: "plan_safe sample_configuration sample_facts"
proof -
  have "sole_observation (pf_resources sample_facts) (lit (dd_resource_id d)) = Some (sample_observation d)"
    if "d \<in> set (desired_list sample_configuration)" for d
    using that by (auto simp: sample_facts_def desired_list_def sole_observation_def sample_observation_def)
  then show ?thesis
    by (auto simp: plan_safe_def supported_def observed_def resolves_def keeps_directory_def creates_directory_def
        sample_observation_def Let_def) (simp_all add: sample_facts_def)
qed

lemma sample_owned: "paths_owned sample_configuration"
  unfolding paths_owned_def
  by (auto simp: desired_list_def sample_configuration_def require_owned_directory_path_def owned_directory_roots_def
      max_target_bytes_def intro!: clean_required)
    (simp_all add: text_evals Let_def parse_path_def path_anchor_def path_str_def is_absolute_def relative_parts_def
      owned_path_part_def path_char_def)

subsection \<open>Properties\<close>

text \<open>C13: For every configuration and every set of facts, \<open>build_change_plan\<close> either raises
  \<open>ValueError\<close>, exactly when a configured directory is not a normalized path of plain
  components below its project root, or returns the plan of the specification: it is blocking
  exactly when the release is unsupported (or end of life in production) or some directory is
  not known, from exactly one observation of the configured path made with high confidence, to
  be absent and unowned or present and owned by the project; a blocking plan has no actions and
  a plan that does not block creates exactly the absent directories, in order of their ids;
  the issues are sorted.\<close>

theorem build_plan_exact:
  "case build_change_plan config facts of
     Inl e \<Rightarrow> \<not> paths_owned config \<and> is_value_error e
   | Inr plan \<Rightarrow> paths_owned config \<and> plan_lifecycle plan = lifecycle (deployment config)
       \<and> plan_blocking plan = (\<not> plan_safe config facts)
       \<and> plan_actions plan = expected_actions config facts
       \<and> sorted (map action_id (plan_actions plan)) \<and> sorted (map issue_id (plan_issues plan))"
proof (cases "paths_owned config")
  case False
  then obtain e where "build_change_plan config facts = Inl e" "is_value_error e" using build_fails by blast
  then show ?thesis using False by simp
next
  case True
  have "sorted (map action_id (expected_actions config facts))"
    using action_ids_sorted by (simp add: expected_actions_def)
  then show ?thesis
    using build_result [OF True, of facts] True by (auto simp: plan_blocking_def list_ex_iff)
qed

text \<open>The plan does not depend on the order in which the collectors report their
  observations.\<close>

theorem plan_ignores_fact_order:
  assumes "mset rs = mset (pf_resources facts)"
  shows "build_change_plan config (facts\<lparr>pf_resources := rs\<rparr>) = build_change_plan config facts"
  by (rule build_perm [OF assms])

lemma sample_actions:
  "map action_id (expected_actions sample_configuration sample_facts) = [lit ''directory.install.create'']"
proof -
  have obs: "observed sample_facts d = Some (sample_observation d)" if "d \<in> set (desired_list sample_configuration)" for d
    using that by (auto simp: observed_def sample_facts_def desired_list_def sole_observation_def sample_observation_def)
  have "filter (\<lambda>d. wants_create d (observed sample_facts d)) (desired_list sample_configuration)
    = filter (\<lambda>d. dd_resource_id d = ''directory.install'') (desired_list sample_configuration)"
    using obs by (intro filter_cong)
      (auto simp: wants_create_def creates_directory_def sample_observation_def Let_def)
  then show ?thesis
    using sample_safe by (simp add: expected_actions_def directory_action_def desired_list_def)
qed

theorem plan_ignores_fact_order_witness:
  "mset (rev (pf_resources sample_facts)) = mset (pf_resources sample_facts)
   \<and> build_change_plan sample_configuration (sample_facts\<lparr>pf_resources := rev (pf_resources sample_facts)\<rparr>)
     = build_change_plan sample_configuration sample_facts"
  using plan_ignores_fact_order [of "rev (pf_resources sample_facts)" sample_facts sample_configuration] by simp

text \<open>Every action of a plan creates a directory for which the facts hold one observation of
  exactly that path, made with high confidence, that it is absent and unowned; its target is one
  of the five project roots, followed only by components of letters, digits, dots, underscores
  and dashes that begin with a letter or digit, so it contains no dot-dot component.\<close>

theorem plan_targets_owned:
  assumes "build_change_plan config facts = Inr plan" "a \<in> set (plan_actions plan)"
  shows "\<exists>rid root rel f. (rid, root) \<in> set owned_directory_roots \<and> action_id a = lit (rid @ ''.create'')
    \<and> pa_target a = lit root @ concat (map (Cons 47) rel) \<and> list_all owned_path_part rel
    \<and> f \<in> set (pf_resources facts) \<and> rf_resource_id f = lit rid \<and> rf_target f = pa_target a
    \<and> rf_state f = Absent \<and> rf_ownership f = Unowned \<and> rf_confidence f = ConfHigh"
proof -
  note c = build_plan_cases [OF assms(1)]
  obtain d where d: "d \<in> set (desired_list config)" "a = directory_action d" "wants_create d (observed facts d)"
    using assms(2) c(2) by (auto simp: expected_actions_def split: if_splits)
  then obtain f where f: "sole_observation (pf_resources facts) (lit (dd_resource_id d)) = Some f" "creates_directory d f"
    by (auto simp: wants_create_def observed_def)
  have "f \<in> set (filter (\<lambda>f. rf_resource_id f = lit (dd_resource_id d)) (pf_resources facts))"
    using f(1) by (auto simp: sole_observation_def split: list.splits simp del: set_filter)
  moreover obtain root rel where "map_of owned_directory_roots (dd_resource_id d) = Some root"
    "list_all owned_path_part rel" "dd_path d = lit root @ concat (map (Cons 47) rel)"
    using owned_path_shape c(1) d(1) unfolding paths_owned_def by metis
  ultimately show ?thesis
    using f(2) d(2) by (auto simp: creates_directory_def directory_action_def dest: map_of_SomeD)
qed

lemma sample_plan:
  "\<exists>plan. build_change_plan sample_configuration sample_facts = Inr plan
     \<and> plan_actions plan = expected_actions sample_configuration sample_facts"
  using build_result [OF sample_owned, of sample_facts] by force

theorem plan_targets_owned_witness:
  "\<exists>plan a. build_change_plan sample_configuration sample_facts = Inr plan \<and> a \<in> set (plan_actions plan)
     \<and> (\<exists>rid root rel. (rid, root) \<in> set owned_directory_roots \<and> pa_target a = lit root @ concat (map (Cons 47) rel))"
proof -
  obtain plan where p: "build_change_plan sample_configuration sample_facts = Inr plan"
    "plan_actions plan = expected_actions sample_configuration sample_facts" using sample_plan by blast
  then obtain a where a: "a \<in> set (plan_actions plan)" using sample_actions by fastforce
  show ?thesis using plan_targets_owned [OF p(1) a] p(1) a by blast
qed

text \<open>C14: Every plan that is built can be serialised, within the byte limit, and reading the text
  back gives the plan's document (with its keys in order).\<close>

theorem plan_json_roundtrip:
  assumes "build_change_plan config facts = Inr plan"
  shows "\<exists>s. plan_to_json plan = Inr s \<and> is_ascii s \<and> loads s = Inr (canon (plan_as_dict plan))"
proof -
  note c = build_plan_cases [OF assms]
  have "list_all action_ok (plan_actions plan)" using expected_actions_ok [OF c(1)] c(2) by simp
  then have ok: "json_ok (plan_as_dict plan) \<and> weight (plan_as_dict plan) \<le> max_plan_json_bytes"
    using plan_json_ok c by blast
  then show ?thesis
    using plan_serialises loads_dumps is_ascii_dumps by blast
qed

theorem plan_json_roundtrip_witness:
  "\<exists>plan s. build_change_plan sample_configuration sample_facts = Inr plan \<and> plan_to_json plan = Inr s
     \<and> loads s = Inr (canon (plan_as_dict plan))"
proof -
  obtain plan where "build_change_plan sample_configuration sample_facts = Inr plan" using sample_plan by blast
  then show ?thesis using plan_json_roundtrip by blast
qed

end
