(* ===== verification/Ip_Network_Facts.thy ===== *)
theory Ip_Network_Facts
  imports Ip_Network
begin

text \<open>
  Networks as sets of addresses: a network that was read is aligned, membership is an interval,
  \<open>overlaps\<close> says that two networks share an address, and a network that passes the special-block
  test shares no address with the special blocks.
\<close>

subsection \<open>Networks that were read\<close>

definition wf_net :: "ip_net \<Rightarrow> bool" where
  "wf_net n =
     (net_version n \<in> {4, 6} \<and> net_plen n \<le> ip_width (net_version n)
      \<and> net_addr n < 2 ^ ip_width (net_version n)
      \<and> masked (ip_width (net_version n)) (net_plen n) (net_addr n) = net_addr n)"

definition host_size :: "ip_net \<Rightarrow> nat" where
  "host_size n = 2 ^ (ip_width (net_version n) - net_plen n)"

lemma sequence_option_Some:
  "sequence_option xs = Some ys \<Longrightarrow> length ys = length xs \<and> (\<forall>y \<in> set ys. Some y \<in> set xs)"
  by (induction xs arbitrary: ys rule: sequence_option.induct) (auto split: option.splits)

lemma base_fold_bound:
  fixes b :: nat
  assumes "\<forall>x \<in> set xs. x < b" "a < b ^ k"
  shows "foldl (\<lambda>a n. a * b + n) a xs < b ^ (k + length xs)"
  using assms
proof (induction xs arbitrary: a k)
  case (Cons x xs)
  have "a * b + x < b ^ Suc k"
  proof -
    have "Suc a \<le> b ^ k" using Cons.prems(2) by simp
    then have "Suc a * b \<le> b ^ k * b" by (rule mult_le_mono1)
    then show ?thesis using Cons.prems(1) by (simp add: mult.commute)
  qed
  then have "foldl (\<lambda>a n. a * b + n) (a * b + x) xs < b ^ (Suc k + length xs)"
    using Cons.IH [of "a * b + x" "Suc k"] Cons.prems(1) by simp
  then show ?case by simp
qed simp

lemma v4_int_bound: "v4_int s = Some x \<Longrightarrow> x < 2 ^ 32"
proof -
  assume "v4_int s = Some x"
  then obtain ns where ns: "sequence_option (map parse_octet (split_on 46 s)) = Some ns"
      "length (split_on 46 s) = 4" "x = foldl (\<lambda>a n. a * 256 + n) 0 ns"
    by (auto simp: v4_int_def Let_def split: if_splits option.splits)
  have "n < 256" if "n \<in> set ns" for n
  proof -
    have "Some n \<in> set (map parse_octet (split_on 46 s))" using sequence_option_Some [OF ns(1)] that by blast
    then obtain o1 where "parse_octet o1 = Some n" by auto
    then show ?thesis by (auto simp: parse_octet_def split: if_splits)
  qed
  then have "x < 256 ^ (0 + length ns)" unfolding ns(3) by (intro base_fold_bound) auto
  then show ?thesis using sequence_option_Some [OF ns(1)] ns(2) by simp
qed

lemma parse_hextet_bound: "parse_hextet s = Some x \<Longrightarrow> x < 65536"
proof -
  assume p: "parse_hextet s = Some x"
  have "foldl (\<lambda>a n. a * 16 + n) 0 (map hex_val s) < 16 ^ (0 + length (map hex_val s))"
    using p by (intro base_fold_bound) (auto simp: parse_hextet_def list_all_iff hex_val_bound split: if_splits)
  then have "x < 16 ^ length s" using p by (auto simp: parse_hextet_def foldl_map split: if_splits)
  also have "(16::nat) ^ length s \<le> 16 ^ 4"
    using p by (intro power_increasing) (auto simp: parse_hextet_def split: if_splits)
  finally show ?thesis by simp
qed

lemma v6_shape_bound: "v6_shape ps = Some (hi, lo, skipped) \<Longrightarrow> hi + skipped + lo = 8"
  by (auto simp: v6_shape_def Let_def split: if_splits list.splits)

lemma v6_int_bound: "v6_int s = Some x \<Longrightarrow> x < 2 ^ 128"
proof -
  assume "v6_int s = Some x"
  then obtain ps hi lo skipped his los where *: "v6_shape ps = Some (hi, lo, skipped)"
    "sequence_option (map parse_hextet (take hi ps)) = Some his"
    "sequence_option (map parse_hextet (drop (length ps - lo) ps)) = Some los"
    "x = hextets_val (his @ replicate skipped 0 @ los)"
    by (auto simp: v6_int_def split: option.splits prod.splits)
  let ?ns = "his @ replicate skipped 0 @ los"
  have "n < 65536" if "n \<in> set his \<union> set los" for n
  proof -
    have "Some n \<in> set (map parse_hextet ps)"
      using that sequence_option_Some [OF *(2)] sequence_option_Some [OF *(3)]
        set_take_subset [of hi ps] set_drop_subset [of "length ps - lo" ps]
      by (auto simp del: set_take_subset set_drop_subset) blast+
    then obtain h where "parse_hextet h = Some n" by auto
    then show ?thesis by (rule parse_hextet_bound)
  qed
  then have "x < 65536 ^ (0 + length ?ns)" unfolding *(4) hextets_val_def by (intro base_fold_bound) auto
  also have "(65536::nat) ^ (0 + length ?ns) \<le> 65536 ^ 8"
    using sequence_option_Some [OF *(2)] sequence_option_Some [OF *(3)] v6_shape_bound [OF *(1)]
    by (intro power_increasing) auto
  finally show ?thesis by simp
qed

lemma find_SomeD: "find P xs = Some x \<Longrightarrow> x \<in> set xs \<and> P x"
  by (induction xs) (auto split: if_splits)

lemma v4_mask_bound: "v4_mask s = Some p \<Longrightarrow> p \<le> 32"
  by (auto simp: v4_mask_def prefix_from_prefix_string_def prefix_from_ip_int_def
      split: option.splits if_splits dest!: find_SomeD)

lemma ip_network_wf: "ip_network s = Inr n \<Longrightarrow> wf_net n"
  by (auto simp: ip_network_def wf_net_def ip_width_def v4_fields_def v6_fields_def prefix_from_prefix_string_def
      dest: v4_int_bound v6_int_bound v4_mask_bound split: option.splits if_splits prod.splits)

lemma ip_network_error: "ip_network s = Inl e \<Longrightarrow> is_value_error e"
  by (auto simp: ip_network_def split: option.splits if_splits)

subsection \<open>Intervals\<close>

lemma host_size_pos [simp]: "0 < host_size n"
  by (simp add: host_size_def)

lemma masked_interval:
  assumes "b = b div k * k" "0 < (k::nat)"
  shows "a div k * k = b \<longleftrightarrow> b \<le> a \<and> a < b + k"
proof
  assume "a div k * k = b"
  then show "b \<le> a \<and> a < b + k"
    using assms(2) div_mult_mod_eq [of a k] mod_less_divisor [of k a] by linarith
next
  assume "b \<le> a \<and> a < b + k"
  then have "a div k = b div k"
    using assms by (metis add.commute div_nat_eqI mult.commute mult_Suc)
  then show "a div k * k = b" using assms(1) by simp
qed

lemma in_net_interval:
  assumes "wf_net n"
  shows "in_net v a n \<longleftrightarrow> v = net_version n \<and> net_addr n \<le> a \<and> a < net_addr n + host_size n"
proof -
  have "net_addr n = net_addr n div host_size n * host_size n"
    using assms by (simp add: wf_net_def masked_def host_size_def)
  then have "a div host_size n * host_size n = net_addr n \<longleftrightarrow> net_addr n \<le> a \<and> a < net_addr n + host_size n"
    by (intro masked_interval) auto
  then show ?thesis by (auto simp: in_net_def masked_def host_size_def)
qed

lemma broadcast_size: "broadcast n = net_addr n + host_size n - 1"
  by (simp add: broadcast_def host_size_def)

lemma in_net_ends: "wf_net n \<Longrightarrow> in_net (net_version n) (net_addr n) n \<and> in_net (net_version n) (broadcast n) n"
  using host_size_pos [of n] by (cases "host_size n") (simp_all add: in_net_interval broadcast_size)

text \<open>Two networks overlap exactly when an address is in both.\<close>

lemma overlaps_iff:
  assumes "wf_net m" "wf_net n"
  shows "overlaps m n \<longleftrightarrow> (\<exists>v a. in_net v a m \<and> in_net v a n)"
proof
  assume "overlaps m n"
  then show "\<exists>v a. in_net v a m \<and> in_net v a n"
    using in_net_ends [OF assms(1)] in_net_ends [OF assms(2)] unfolding overlaps_def by blast
next
  assume "\<exists>v a. in_net v a m \<and> in_net v a n"
  then obtain v a where "in_net v a m" "in_net v a n" by blast
  then show "overlaps m n"
    using in_net_interval [OF assms(1)] in_net_interval [OF assms(2)] unfolding overlaps_def
    by (cases "net_addr m \<le> net_addr n") auto
qed

subsection \<open>Blocks\<close>

text \<open>A network that shares an address with a block at least as large lies inside it.\<close>

lemma nested_ends:
  assumes m: "wf_net m" and b: "wf_net b" and le: "net_plen b \<le> net_plen m"
    and x: "in_net v a m" "in_net v a b"
  shows "net_version m = net_version b"
    "in_net v c m \<Longrightarrow> in_net v c b"
proof -
  show v: "net_version m = net_version b" using x in_net_interval m b by auto
  assume c: "in_net v c m"
  let ?w = "ip_width (net_version m)"
  let ?d = "(2::nat) ^ (net_plen m - net_plen b)"
  have "?w - net_plen b = (?w - net_plen m) + (net_plen m - net_plen b)"
    using le m by (simp add: wf_net_def)
  then have size: "2 ^ (?w - net_plen b) = 2 ^ (?w - net_plen m) * ?d" by (simp add: power_add)
  have same: "a div 2 ^ (?w - net_plen m) = c div 2 ^ (?w - net_plen m)"
    using x(1) c by (auto simp: in_net_def masked_def)
      (metis nonzero_mult_div_cancel_right power_not_zero zero_neq_numeral)
  have "a div 2 ^ (?w - net_plen b) = c div 2 ^ (?w - net_plen b)"
    unfolding size div_mult2_eq same ..
  then show "in_net v c b"
    using x v by (auto simp: in_net_def masked_def)
qed

text \<open>
  The special blocks at least as large as the largest source that needs no override, without the
  two in which the registry names globally reachable exceptions.
\<close>

definition protected_blocks :: "ip_net list" where
  "protected_blocks =
     [v4_block [0] 8, v4_block [10] 8, v4_block [100, 64] 10, v4_block [127] 8, v4_block [169, 254] 16,
      v4_block [172, 16] 12, v4_block [192, 0, 2] 24, v4_block [192, 168] 16, v4_block [198, 18] 15,
      v4_block [198, 51, 100] 24, v4_block [203, 0, 113] 24, v4_block [224] 4, v4_block [240] 4,
      v6_block [0x64, 0xFF9B, 1] 48, v6_block [0x100] 64, v6_block [0x2001, 0xDB8] 32, v6_block [0x2002] 16,
      v6_block [0xFC00] 7, v6_block [0xFE80] 10, v6_block [0xFF00] 8]"

lemma replicate_numeral: "replicate (numeral k) x = x # replicate (pred_numeral k) x"
  by (simp add: numeral_eq_Suc)

lemmas block_defs = v4_block_def v6_block_def hextets_val_def wf_net_def ip_width_def masked_def in_net_def
  replicate_numeral

lemma protected_blocks_wf: "list_all wf_net protected_blocks"
  by (simp add: protected_blocks_def block_defs)

lemma exceptions_wf: "list_all wf_net (v4_private_exceptions @ v6_private_exceptions)"
  by (simp add: v4_private_exceptions_def v6_private_exceptions_def block_defs)

text \<open>No protected block reaches an exception.\<close>

lemma protected_v4_exceptions:
  "list_all (\<lambda>e. list_all (\<lambda>b. \<not> overlaps b e) protected_blocks) v4_private_exceptions"
  by (simp add: protected_blocks_def v4_private_exceptions_def overlaps_def broadcast_def block_defs)

lemma protected_v6_exceptions:
  "list_all (\<lambda>e. list_all (\<lambda>b. \<not> overlaps b e) protected_blocks) v6_private_exceptions"
  by (simp add: protected_blocks_def v6_private_exceptions_def overlaps_def broadcast_def block_defs)

lemma protected_no_exception:
  assumes "b \<in> set protected_blocks" "in_net v a b" "e \<in> set (v4_private_exceptions @ v6_private_exceptions)"
  shows "\<not> in_net v a e"
proof -
  have "\<not> overlaps b e"
    using assms protected_v4_exceptions protected_v6_exceptions by (auto simp: list_all_iff)
  moreover have "wf_net b" "wf_net e"
    using assms protected_blocks_wf exceptions_wf unfolding list_all_iff by blast+
  ultimately show ?thesis using assms(2) overlaps_iff by blast
qed

text \<open>A network whose ends lie in a protected block is special.\<close>

lemma protected_blocks_special:
  "set protected_blocks \<subseteq> set v4_private_networks \<union> set v6_private_networks
     \<union> {v4_block [100, 64] 10, v4_block [224] 4, v6_block [0xFF00] 8}"
  by (simp add: protected_blocks_def v4_private_networks_def v6_private_networks_def)

lemma private_versions:
  "b \<in> set v4_private_networks \<Longrightarrow> net_version b = 4"
  "b \<in> set v6_private_networks \<Longrightarrow> net_version b = 6"
  by (auto simp: v4_private_networks_def v6_private_networks_def v4_block_def v6_block_def)

lemma inside_protected_special:
  assumes "b \<in> set protected_blocks" "inside b n"
  shows "special_network n"
proof -
  have v: "in_net (net_version n) (net_addr n) b" "in_net (net_version n) (broadcast n) b"
    using assms(2) by (auto simp: inside_def both_ends_def)
  then have ver: "net_version b = net_version n" by (simp add: in_net_def)
  have no: "\<not> in_net (net_version n) (net_addr n) e \<and> \<not> in_net (net_version n) (broadcast n) e"
    if "e \<in> set (v4_private_exceptions @ v6_private_exceptions)" for e
    using protected_no_exception [OF assms(1)] v that by blast
  consider "b \<in> set v4_private_networks \<union> set v6_private_networks"
    | "b = v4_block [100, 64] 10" | "b = v4_block [224] 4" | "b = v6_block [0xFF00] 8"
    using protected_blocks_special assms(1) by blast
  then show ?thesis
  proof cases
    case 1
    then have "is_private n"
      using no assms(2) ver private_versions by (auto simp: is_private_def list_ex_iff list_all_iff)
    then show ?thesis by (simp add: special_network_def)
  next
    case 2
    then have "net_version n = 4" using ver by (simp add: v4_block_def)
    then show ?thesis using 2 assms(2) by (simp add: special_network_def is_global_def)
  next
    case 3
    then have "net_version n = 4" using ver by (simp add: v4_block_def)
    then show ?thesis using 3 assms(2) by (simp add: special_network_def is_multicast_def)
  next
    case 4
    then have "net_version n \<noteq> 4" using ver by (simp add: v6_block_def)
    then show ?thesis using 4 assms(2) by (simp add: special_network_def is_multicast_def)
  qed
qed

text \<open>So a network that is neither special nor broad shares no address with a protected block.\<close>

lemma protected_plen:
  "list_all (\<lambda>b. net_plen b \<le> (if net_version b = 4 then 24 else 64)) protected_blocks"
  by (simp add: protected_blocks_def v4_block_def v6_block_def)

lemma not_special_disjoint:
  assumes n: "wf_net n" "\<not> special_network n" "(if net_version n = 4 then 24 else 64) \<le> net_plen n"
    and b: "b \<in> set protected_blocks"
  shows "\<not> (in_net v a n \<and> in_net v a b)"
proof
  assume x: "in_net v a n \<and> in_net v a b"
  have wb: "wf_net b" and ver: "net_version n = net_version b" and ne: "v = net_version n"
    using protected_blocks_wf b x by (auto simp: list_all_iff in_net_def)
  have le: "net_plen b \<le> net_plen n"
    using protected_plen b n(3) ver unfolding list_all_iff by (metis order_trans)
  have "inside b n"
    using nested_ends(2) [OF n(1) wb le] x in_net_ends [OF n(1)] ne by (auto simp: inside_def both_ends_def)
  then show False using inside_protected_special [OF b] n(2) by blast
qed

end
