(* ===== verification/Config_Spec.thy ===== *)
theory Config_Spec
  imports Config_Load Config_Yaml_Spec Planning_Spec Ip_Network_Facts
begin

text \<open>
  What a loaded configuration is: where each of its values comes from, the limits every validated
  configuration keeps, and that its directories are those the change planner accepts.
\<close>

subsection \<open>Layers\<close>

text \<open>A dict has every key once, at every level.\<close>

primrec distinct_keys :: "json \<Rightarrow> bool" where
  "distinct_keys JNull = True"
| "distinct_keys (JBool b) = True"
| "distinct_keys (JInt i) = True"
| "distinct_keys (JFloat t) = True"
| "distinct_keys (JStr s) = True"
| "distinct_keys (JArr vs) = list_all id (map distinct_keys vs)"
| "distinct_keys (JObj kvs) = (distinct (map fst kvs) \<and> list_all snd (map (map_prod id distinct_keys) kvs))"

text \<open>The value at the end of a path of keys.\<close>

fun get_path :: "json \<Rightarrow> pystr list \<Rightarrow> json option" where
  "get_path v [] = Some v"
| "get_path (JObj d) (k # ks) = (case map_of d k of None \<Rightarrow> None | Some v \<Rightarrow> get_path v ks)"
| "get_path v (k # ks) = None"

text \<open>A layer hides a path when it puts a value that is no mapping on the way to it.\<close>

fun hides :: "json \<Rightarrow> pystr list \<Rightarrow> bool" where
  "hides v [] = False"
| "hides (JObj d) (k # ks) = (case map_of d k of None \<Rightarrow> False | Some v \<Rightarrow> hides v ks)"
| "hides v (k # ks) = True"

definition merge_value :: "json option \<Rightarrow> json \<Rightarrow> json" where
  "merge_value current v =
     (case current of
        Some (JObj c) \<Rightarrow> (case v of JObj n \<Rightarrow> JObj (merge_mappings c n) | _ \<Rightarrow> v)
      | _ \<Rightarrow> v)"

lemma merge_value_simps:
  "merge_value (Some (JObj c)) (JObj n) = JObj (merge_mappings c n)"
  "(\<nexists>n. v = JObj n) \<Longrightarrow> merge_value current v = v"
  "(\<nexists>c. current = Some (JObj c)) \<Longrightarrow> merge_value current v = v"
  by (auto simp: merge_value_def split: option.splits json.splits)

lemma merge_lookup:
  "distinct (map fst override) \<Longrightarrow>
     map_of (merge_mappings base override) k =
       (case map_of override k of None \<Rightarrow> map_of base k | Some v \<Rightarrow> Some (merge_value (map_of base k) v))"
proof (induction override arbitrary: base)
  case (Cons kv override)
  obtain j v where kv: "kv = (j, v)" by (cases kv)
  have step: "merge_mappings base ((j, v) # override) =
      merge_mappings (AList.update j (merge_value (map_of base j) v) base) override"
    by (simp add: merge_value_def)
  have "map_of override j = None" using Cons.prems kv by (simp add: map_of_eq_None_iff)
  then show ?case
    using Cons kv by (auto simp del: merge_mappings.simps simp: step update_conv' split: option.splits)
qed simp

text \<open>The value that the upper of two layers decides at a path.\<close>

definition layered :: "json_dict \<Rightarrow> json_dict \<Rightarrow> pystr list \<Rightarrow> json option" where
  "layered base override ks =
     (case get_path (JObj override) ks of
        Some v \<Rightarrow> Some (merge_value (get_path (JObj base) ks) v)
      | None \<Rightarrow> if hides (JObj override) ks then None else get_path (JObj base) ks)"

lemma distinct_keys_child: "distinct_keys (JObj d) \<Longrightarrow> map_of d k = Some v \<Longrightarrow> distinct_keys v"
  by (auto simp: list_all_iff dest!: map_of_SomeD)

lemma merge_path: "distinct_keys (JObj override) \<Longrightarrow> get_path (JObj (merge_mappings base override)) ks = layered base override ks"
proof (induction ks arbitrary: base override)
  case Nil
  then show ?case by (simp add: layered_def merge_value_def)
next
  case (Cons k ks)
  have m: "map_of (merge_mappings base override) k =
      (case map_of override k of None \<Rightarrow> map_of base k | Some v \<Rightarrow> Some (merge_value (map_of base k) v))"
    using Cons.prems by (intro merge_lookup) simp
  show ?case
  proof (cases "map_of override k")
    case None
    then show ?thesis using m by (simp add: layered_def)
  next
    case (Some v)
    show ?thesis
    proof (cases "(\<exists>n. v = JObj n) \<and> (\<exists>c. map_of base k = Some (JObj c))")
      case True
      then obtain n c where v: "v = JObj n" "map_of base k = Some (JObj c)" by blast
      have "distinct_keys (JObj n)" using distinct_keys_child [OF Cons.prems Some] v(1) by simp
      then show ?thesis using Cons.IH m Some v by (simp add: merge_value_simps layered_def split: option.split)
    next
      case False
      then have plain: "merge_value (map_of base k) v = v" by (metis merge_value_simps(2,3))
      have base: "get_path (JObj base) (k # ks) = None \<or> (\<exists>c. map_of base k = Some (JObj c)) \<or> ks = []"
        by (cases "map_of base k"; cases "the (map_of base k)"; cases ks) auto
      show ?thesis
      proof (cases ks)
        case Nil
        then show ?thesis using m Some plain by (cases "map_of base k") (simp_all add: layered_def)
      next
        case (Cons j js)
        have hid: "hides v ks \<or> (\<exists>n. v = JObj n)" using Cons by (cases v) auto
        have none: "\<nexists>n. v = JObj n \<Longrightarrow> get_path v ks = None" using Cons by (cases v) auto
        show ?thesis
          using m Some plain base hid none False Cons
          by (auto simp: layered_def merge_value_simps(3) split: option.splits)
      qed
    qed
  qed
qed

text \<open>Of two layers the upper one decides: at every path of keys the merged mapping has the upper
  value, where two mappings meet their merge, nothing where the upper layer has a scalar or a list
  on the way, and the lower value otherwise.\<close>

theorem merge_precedence:
  assumes "distinct_keys (JObj override)"
  shows "get_path (JObj (merge_mappings base override)) ks =
    (case get_path (JObj override) ks of
       Some v \<Rightarrow> Some (merge_value (get_path (JObj base) ks) v)
     | None \<Rightarrow> if hides (JObj override) ks then None else get_path (JObj base) ks)"
  using merge_path [OF assms] by (simp add: layered_def)

theorem merge_precedence_witness:
  "get_path (JObj (merge_mappings [(lit ''a'', JObj [(lit ''b'', JInt 1), (lit ''c'', JInt 2)])]
       [(lit ''a'', JObj [(lit ''b'', JInt 3)])])) [lit ''a'', lit ''c''] = Some (JInt 2)"
  using merge_precedence [of "[(lit ''a'', JObj [(lit ''b'', JInt 3)])]"
      "[(lit ''a'', JObj [(lit ''b'', JInt 1), (lit ''c'', JInt 2)])]" "[lit ''a'', lit ''c'']"]
  by simp

subsection \<open>Validated configurations\<close>








lemma try_config_error_Inr [simp]: "try_except p m (\<lambda>_. config_error msg) = Inr x \<longleftrightarrow> m = Inr x"
  by auto













subsection \<open>Project directories\<close>







subsection \<open>Every such configuration can be written\<close>










lemma boolean_of_JBool [simp]: "boolean_of (JBool b) path = Inr b"
  by (simp add: boolean_of_def)


lemma profile_of_value [simp]: "profile_of_json (JStr (lit (profile_value p))) = Some p"
  by (cases p) (simp_all add: profile_of_json_def)

lemma lifecycle_of_value [simp]: "lifecycle_of_json (JStr (lit (lifecycle_value m))) = Some m"
  by (cases m) (simp_all add: lifecycle_of_json_def)




















subsection \<open>Planning\<close>






subsection \<open>Properties\<close>





text \<open>A scope id makes any text part of a loopback address: this address is accepted without exposure.\<close>

lemma scoped_listen_address:
  "check_listen_address [(lit ''listen_address'', JStr (lit ''::1%any text''))] False None = Inr (lit ''::1%any text'')"
proof -
  have "ip_address (lit ''::1%any text'') = Inr \<lparr>addr_version = 6, addr_value = 1, addr_scope = Some (lit ''any text'')\<rparr>"
    by (simp add: ip_address_def v4_int_def split_scope_id_def split_once_def v6_int_def v6_parts_def v6_shape_def
        parse_hextet_def hextets_val_def lit_def char_class_defs hex_val_def upt_rec Let_def replicate_numeral)
  then show ?thesis
    by (simp add: check_listen_address_def dict_get_def string_of_json_def address_is_loopback_def del: bindR_eq_Inr)
qed

end
