(* ===== verification/Firewall_State.thy ===== *)
theory Firewall_State
  imports Ip_Network Json_Value Codec "HOL-Library.Product_Lexorder"
begin

text \<open>
  The ingress source manifest of \<open>src/scripts/ingress/firewall_source_state.py\<close>: which networks
  may reach the SDK port.  This theory holds the checks of one network and of a whole document,
  its byte form, and the addition and removal of a source.
\<close>

definition maximum_bytes :: nat where "maximum_bytes = 65536"

definition die :: "string \<Rightarrow> int \<Rightarrow> 'a res" where
  "die reason code = Inl (SystemExit reason code)"

subsection \<open>One network\<close>

definition broad_range :: "ip_net \<Rightarrow> bool" where
  "broad_range network = (net_plen network < (if net_version network = 4 then 24 else 64))"

definition normalize_cidr :: "pystr \<Rightarrow> bool \<Rightarrow> bool \<Rightarrow> (pystr \<times> bool \<times> bool) res" where
  "normalize_cidr value allow_non_public allow_broad_range =
     bindR (try_except is_value_error (ip_network value) (\<lambda>_. die ''source_cidr_invalid'' 64)) (\<lambda>network.
      (let canonical = net_str network; non_public = special_network network; broad = broad_range network in
       if value \<noteq> canonical \<or> net_plen network = 0 then die ''source_cidr_not_canonical'' 64
       else if non_public \<and> \<not> allow_non_public then die ''source_cidr_non_public_requires_override'' 64
       else if broad \<and> \<not> allow_broad_range then die ''source_cidr_broad_range_requires_override'' 64
       else Inr (canonical, non_public, broad)))"

subsection \<open>Documents\<close>

datatype fw_mode = Closed | Public | Restricted

fun mode_value :: "fw_mode \<Rightarrow> string" where
  "mode_value Closed = ''closed''"
| "mode_value Public = ''public''"
| "mode_value Restricted = ''restricted''"

definition mode_of :: "pystr \<Rightarrow> fw_mode option" where
  "mode_of s = find (\<lambda>m. s = lit (mode_value m)) [Closed, Public, Restricted]"

record fw_source =
  cidr :: pystr
  non_public_override :: bool
  broad_range_override :: bool

record fw_document =
  doc_mode :: fw_mode
  doc_sources :: "fw_source list"

definition empty_document :: fw_document where
  "empty_document = \<lparr>doc_mode = Closed, doc_sources = []\<rparr>"

definition source_keys :: "string list" where
  "source_keys = [''cidr'', ''non_public_override'', ''broad_range_override'']"

definition source_as_json :: "fw_source \<Rightarrow> json" where
  "source_as_json s = JObj
     [(lit ''cidr'', JStr (cidr s)),
      (lit ''non_public_override'', JBool (non_public_override s)),
      (lit ''broad_range_override'', JBool (broad_range_override s))]"

definition document_as_json :: "fw_document \<Rightarrow> json" where
  "document_as_json d = JObj
     [(lit ''schema_version'', JInt 2),
      (lit ''mode'', JStr (lit (mode_value (doc_mode d)))),
      (lit ''sources'', JArr (map source_as_json (doc_sources d)))]"

type_synonym net_key = "nat \<times> nat \<times> nat"

definition net_key :: "ip_net \<Rightarrow> net_key" where
  "net_key n = (net_version n, net_addr n, net_plen n)"

text \<open>One pass of the loop over the sources: the fields by their types, then the checks against the
  key before it and the sources accepted so far.\<close>

fun typed_fields :: "json \<Rightarrow> json \<Rightarrow> json \<Rightarrow> (pystr \<times> bool \<times> bool) option" where
  "typed_fields (JStr c) (JBool override) (JBool broad_override) = Some (c, override, broad_override)"
| "typed_fields c override broad_override = None"

definition check_entry ::
  "pystr \<Rightarrow> bool \<Rightarrow> bool \<Rightarrow> net_key option \<Rightarrow> fw_source list \<Rightarrow> (net_key \<times> fw_source) res" where
  "check_entry c override broad_override previous sources =
     bindR (normalize_cidr c override broad_override) (\<lambda>(canonical, non_public, broad).
     bindR (ip_network canonical) (\<lambda>network.
      (let key = net_key network in
       if canonical \<noteq> c \<or> override \<noteq> non_public \<or> broad_override \<noteq> broad
          \<or> (case previous of None \<Rightarrow> False | Some p \<Rightarrow> key \<le> p)
       then die ''source_manifest_invalid'' 65
       else
         bindR (mapR (\<lambda>s. ip_network (cidr s)) sources) (\<lambda>networks.
         if list_ex (overlaps network) networks then die ''source_manifest_overlapping_cidrs'' 65
         else Inr (key, \<lparr>cidr = canonical, non_public_override = override,
                         broad_range_override = broad_override\<rparr>)))))"

definition check_source :: "json \<Rightarrow> net_key option \<Rightarrow> fw_source list \<Rightarrow> (net_key \<times> fw_source) res" where
  "check_source item previous sources =
     (case item of
        JObj d \<Rightarrow>
          (if \<not> keys_are d source_keys then die ''source_manifest_invalid'' 65
           else
             bindR (dict_get d ''cidr'') (\<lambda>c.
             bindR (dict_get d ''non_public_override'') (\<lambda>o1.
             bindR (dict_get d ''broad_range_override'') (\<lambda>o2.
             (case typed_fields c o1 o2 of
                None \<Rightarrow> die ''source_manifest_invalid'' 65
              | Some (c, override, broad_override) \<Rightarrow>
                  check_entry c override broad_override previous sources)))))
      | _ \<Rightarrow> die ''source_manifest_invalid'' 65)"

fun validate_sources :: "json list \<Rightarrow> net_key option \<Rightarrow> fw_source list \<Rightarrow> fw_source list res" where
  "validate_sources [] previous sources = Inr sources"
| "validate_sources (item # items) previous sources =
     bindR (check_source item previous sources) (\<lambda>(key, s).
       validate_sources items (Some key) (sources @ [s]))"

text \<open>Testing whether a list or a dict is in a set raises \<open>TypeError\<close>.\<close>

definition mode_of_json :: "json \<Rightarrow> fw_mode option res" where
  "mode_of_json v =
     (case v of
        JStr s \<Rightarrow> Inr (mode_of s)
      | JArr _ \<Rightarrow> Inl (TypeError ''unhashable type: list'')
      | JObj _ \<Rightarrow> Inl (TypeError ''unhashable type: dict'')
      | _ \<Rightarrow> Inr None)"

definition validate_document :: "json \<Rightarrow> fw_document res" where
  "validate_document value =
     (case value of
        JObj d \<Rightarrow>
          (if \<not> keys_are d [''schema_version'', ''mode'', ''sources''] then die ''source_manifest_invalid'' 65
           else
             bindR (dict_get d ''schema_version'') (\<lambda>version.
             if \<not> equals_number version 2 then die ''source_manifest_invalid'' 65
             else
               bindR (dict_get d ''mode'') (\<lambda>m.
               bindR (mode_of_json m) (\<lambda>mode.
               bindR (dict_get d ''sources'') (\<lambda>items.
               (case mode of
                  None \<Rightarrow> die ''source_manifest_invalid'' 65
                | Some mode \<Rightarrow>
                    (case array_items items of
                       None \<Rightarrow> die ''source_manifest_invalid'' 65
                     | Some items \<Rightarrow>
                         bindR (validate_sources items None []) (\<lambda>sources.
                           Inr \<lparr>doc_mode = mode, doc_sources = sources\<rparr>))))))))
      | _ \<Rightarrow> die ''source_manifest_invalid'' 65)"

definition decode_document :: "bytes \<Rightarrow> fw_document res" where
  "decode_document payload =
     (if maximum_bytes < length payload \<or> 0 \<in> set payload then die ''source_manifest_invalid'' 65
      else
        bindR (try_except (\<lambda>e. e = UnicodeDecodeError \<or> e = JSONDecodeError)
                 (bindR (decode_ascii payload) loads)
                 (\<lambda>_. die ''source_manifest_invalid'' 65)) validate_document)"

text \<open>The JSON text is ASCII, so its bytes are its characters.\<close>

definition encode_document :: "fw_document \<Rightarrow> bytes" where
  "encode_document d = dumps (document_as_json d) @ [10]"

subsection \<open>Adding and removing a source\<close>

datatype fw_action = Add | Remove

definition with_key :: "fw_source \<Rightarrow> (net_key \<times> fw_source) res" where
  "with_key s = bindR (ip_network (cidr s)) (\<lambda>n. Inr (net_key n, s))"

definition sort_sources :: "fw_source list \<Rightarrow> fw_source list res" where
  "sort_sources sources = bindR (mapR with_key sources) (\<lambda>keyed. Inr (map snd (sort_key fst keyed)))"

definition candidate :: "fw_document \<Rightarrow> fw_action \<Rightarrow> pystr \<Rightarrow> bool \<Rightarrow> bool \<Rightarrow> fw_document res" where
  "candidate document action c allow_non_public allow_broad_range =
     bindR (normalize_cidr c (if action = Add then allow_non_public else True)
              (if action = Add then allow_broad_range else True)) (\<lambda>(canonical, non_public, broad).
      (let entries = fold (\<lambda>s. AList.update (cidr s) s) (doc_sources document) [];
           entries' = (if action = Add
             then AList.update canonical \<lparr>cidr = canonical, non_public_override = non_public,
                                          broad_range_override = broad\<rparr> entries
             else AList.delete canonical entries)
       in bindR (sort_sources (map snd entries')) (\<lambda>sources.
          validate_document (document_as_json (document\<lparr>doc_sources := sources\<rparr>)))))"

text \<open>What the \<open>list\<close> command prints.\<close>

definition listing_json :: "fw_document \<Rightarrow> json" where
  "listing_json d = JObj
     [(lit ''schema_version'', JInt 1),
      (lit ''command'', JStr (lit ''firewall source list'')),
      (lit ''status'', JStr (lit ''pass'')),
      (lit ''mode'', JStr (lit (mode_value (doc_mode d)))),
      (lit ''sources'', JArr (map source_as_json (doc_sources d)))]"

end
