(* ===== verification/Firewall_Sources.thy ===== *)
theory Firewall_Sources
  imports Firewall_State
begin

text \<open>
  The command-line side of the source allowlist, \<open>src/src/kitdev_sandboxes/firewall_sources.py\<close>:
  it checks a network before it calls the backend, and checks everything the backend prints.  The
  runner of the backend is a parameter.
\<close>

definition operation_error :: "string \<Rightarrow> int \<Rightarrow> exn" where
  "operation_error reason code = FirewallSourceOperationError (lit reason) code"

definition normalize_source_cidr :: "pystr \<Rightarrow> bool \<Rightarrow> bool \<Rightarrow> pystr res" where
  "normalize_source_cidr value allow_non_public allow_broad_range =
     bindR (try_except is_value_error (ip_network value) (\<lambda>_. Inl (operation_error ''source_cidr_invalid'' 64)))
       (\<lambda>network.
         let canonical = net_str network in
         if value \<noteq> canonical \<or> net_plen network = 0 then Inl (operation_error ''source_cidr_not_canonical'' 64)
         else if special_network network \<and> \<not> allow_non_public
         then Inl (operation_error ''source_cidr_non_public_requires_override'' 64)
         else if broad_range network \<and> \<not> allow_broad_range
         then Inl (operation_error ''source_cidr_broad_range_requires_override'' 64)
         else Inr canonical)"

subsection \<open>Results\<close>

record fw_result =
  res_action :: pystr
  res_sources :: "fw_source list"
  res_mode :: fw_mode
  res_outcome :: pystr

definition is_mode_action :: "pystr \<Rightarrow> bool" where
  "is_mode_action a = starts_with (lit ''mode-'') a"

definition result_as_dict :: "fw_result \<Rightarrow> json" where
  "result_as_dict r =
     (let command = (if is_mode_action (res_action r) then lit ''firewall mode '' @ lit (mode_value (res_mode r))
                     else lit ''firewall source '' @ res_action r)
      in JObj
        ([(lit ''schema_version'', JInt 1),
          (lit ''command'', JStr command),
          (lit ''status'', JStr (lit ''pass'')),
          (lit ''outcome'', JStr (res_outcome r)),
          (lit ''mode'', JStr (lit (mode_value (res_mode r)))),
          (lit ''sources'', JArr (map source_as_json (res_sources r)))]
         @ (if res_mode r = Public
            then [(lit ''warnings'', JArr [JStr (lit ''TCP 443 is open to every IPv4 and IPv6 source'')])]
            else [])))"

definition source_line :: "fw_source \<Rightarrow> pystr" where
  "source_line s =
     lit ''cidr='' @ cidr s @ lit '' non_public_override=''
     @ lit (if non_public_override s then ''true'' else ''false'')"

definition render_text :: "fw_result \<Rightarrow> pystr" where
  "render_text r =
     (let mode = lit (mode_value (res_mode r));
          command = (if is_mode_action (res_action r) then lit ''firewall-mode-'' @ mode
                     else lit ''firewall-source-'' @ res_action r)
      in join [10]
        ((lit ''command='' @ command @ lit '' status=pass outcome='' @ res_outcome r @ lit '' mode='' @ mode)
         # (if res_mode r = Public then [lit ''warning=TCP-443-is-open-to-all-IPv4-and-IPv6-sources''] else [])
         @ map source_line (res_sources r)))"

subsection \<open>The backend\<close>

record completed =
  returncode :: int
  stdout :: pystr
  stderr :: pystr

type_synonym runner = "pystr list \<Rightarrow> completed res"

text \<open>\<open>line.split("=", 2)[2]\<close> of the first line with the error prefix, which has two signs.\<close>

definition error_prefix :: pystr where
  "error_prefix = lit ''status=error reason=''"

definition failure_reason :: "pystr \<Rightarrow> pystr" where
  "failure_reason err =
     (case find (starts_with error_prefix) (splitlines err) of
        None \<Rightarrow> lit ''firewall_source_backend_failed''
      | Some line \<Rightarrow> drop (length error_prefix) line)"

text \<open>The bare \<open>raise TypeError\<close> of the checks below.\<close>

definition rejected :: exn where
  "rejected = TypeError []"

text \<open>One source of the backend's list, after the networks accepted before it.\<close>

definition check_listed_entry ::
  "pystr \<Rightarrow> bool \<Rightarrow> bool \<Rightarrow> ip_net list \<Rightarrow> (fw_source \<times> ip_net) res" where
  "check_listed_entry c non_public broad networks =
     bindR (normalize_source_cidr c non_public broad) (\<lambda>canonical.
     bindR (ip_network canonical) (\<lambda>network.
       if non_public \<noteq> special_network network \<or> broad \<noteq> broad_range network then Inl rejected
       else if list_ex (overlaps network) networks then Inl rejected
       else Inr (\<lparr>cidr = c, non_public_override = non_public, broad_range_override = broad\<rparr>, network)))"

definition check_listed :: "json \<Rightarrow> ip_net list \<Rightarrow> (fw_source \<times> ip_net) res" where
  "check_listed item networks =
     (case item of
        JObj d \<Rightarrow>
          (if \<not> keys_are d source_keys then Inl rejected
           else
             bindR (dict_get d ''cidr'') (\<lambda>c.
             bindR (dict_get d ''non_public_override'') (\<lambda>o1.
             bindR (dict_get d ''broad_range_override'') (\<lambda>o2.
             (case typed_fields c o1 o2 of
                None \<Rightarrow> Inl rejected
              | Some (c, o1, o2) \<Rightarrow> check_listed_entry c o1 o2 networks)))))
      | _ \<Rightarrow> Inl rejected)"

fun check_listing :: "json list \<Rightarrow> ip_net list \<Rightarrow> (fw_source list \<times> ip_net list) res" where
  "check_listing [] networks = Inr ([], networks)"
| "check_listing (item # items) networks =
     bindR (check_listed item networks) (\<lambda>(s, n).
     bindR (check_listing items (networks @ [n])) (\<lambda>(ss, all).
       Inr (s # ss, all)))"

definition listing_keys :: "string list" where
  "listing_keys = [''schema_version'', ''command'', ''status'', ''mode'', ''sources'']"

definition check_sources :: "json \<Rightarrow> json \<Rightarrow> (fw_source list \<times> fw_mode) res" where
  "check_sources raw_sources raw_mode =
     (case array_items raw_sources of
        None \<Rightarrow> Inl rejected
      | Some items \<Rightarrow>
          bindR (mode_of_json raw_mode) (\<lambda>mode.
          (case mode of
             None \<Rightarrow> Inl rejected
           | Some mode \<Rightarrow>
               bindR (check_listing items []) (\<lambda>(sources, networks).
                 let keys = map net_key networks in
                 if keys \<noteq> sort keys then Inl rejected else Inr (sources, mode)))))"

definition check_output :: "json \<Rightarrow> (fw_source list \<times> fw_mode) res" where
  "check_output v =
     (case v of
        JObj d \<Rightarrow>
          (if \<not> keys_are d listing_keys then Inl rejected
           else
             bindR (dict_get d ''schema_version'') (\<lambda>version.
             bindR (dict_get d ''command'') (\<lambda>command.
             bindR (dict_get d ''status'') (\<lambda>status.
             if \<not> equals_number version 1 \<or> command \<noteq> JStr (lit ''firewall source list'')
                \<or> status \<noteq> JStr (lit ''pass'')
             then Inl rejected
             else
               bindR (dict_get d ''sources'') (\<lambda>raw_sources.
               bindR (dict_get d ''mode'') (\<lambda>raw_mode. check_sources raw_sources raw_mode))))))
      | _ \<Rightarrow> Inl rejected)"

definition run_backend :: "pystr list \<Rightarrow> pystr \<Rightarrow> runner \<Rightarrow> fw_result res" where
  "run_backend arguments action runner =
     bindR (runner arguments) (\<lambda>completed.
       if returncode completed \<noteq> 0
       then Inl (FirewallSourceOperationError (failure_reason (stderr completed)) (returncode completed))
       else
         bindR (try_except (\<lambda>e. e = KeyError \<or> is_type_error e \<or> e = JSONDecodeError)
                  (bindR (loads (stdout completed)) check_output)
                  (\<lambda>_. Inl (operation_error ''firewall_source_backend_invalid'' 69))) (\<lambda>(sources, mode).
           Inr \<lparr>res_action = action, res_sources = sources, res_mode = mode, res_outcome = lit ''converged''\<rparr>))"

subsection \<open>Operations\<close>

definition run_firewall_source_operation ::
  "pystr \<Rightarrow> pystr option \<Rightarrow> bool \<Rightarrow> bool \<Rightarrow> pystr \<Rightarrow> runner \<Rightarrow> fw_result res" where
  "run_firewall_source_operation action c allow_non_public allow_broad_range backend runner =
     (if action \<notin> {lit ''add'', lit ''list'', lit ''remove''}
      then Inl (operation_error ''firewall_source_action_invalid'' 64)
      else
        let arguments = [backend, lit ''source-'' @ action]; adding = (action = lit ''add'') in
        if action = lit ''list''
        then (if c \<noteq> None \<or> allow_non_public \<or> allow_broad_range
              then Inl (operation_error ''firewall_source_arguments_invalid'' 64)
              else run_backend arguments action runner)
        else
          (case c of
             None \<Rightarrow> Inl (operation_error ''source_cidr_required'' 64)
           | Some value \<Rightarrow>
               bindR (normalize_source_cidr value (if adding then allow_non_public else True)
                        (if adding then allow_broad_range else True)) (\<lambda>canonical.
                 run_backend
                   (arguments @ [lit ''--cidr'', canonical]
                    @ (if adding \<and> allow_non_public then [lit ''--allow-non-public''] else [])
                    @ (if adding \<and> allow_broad_range then [lit ''--allow-broad-range''] else []))
                   action runner)))"

definition run_firewall_mode_operation :: "pystr \<Rightarrow> pystr \<Rightarrow> runner \<Rightarrow> fw_result res" where
  "run_firewall_mode_operation mode backend runner =
     (if mode_of mode = None then Inl (operation_error ''firewall_mode_invalid'' 64)
      else run_backend [backend, lit ''mode'', mode] (lit ''mode-'' @ mode) runner)"

end
