(* ===== verification/Firewall_Spec.thy ===== *)
theory Firewall_Spec
  imports Firewall_State Ip_Network_Facts
begin

text \<open>
  What the source manifest promises: a document that was validated lists canonical networks in
  strictly increasing order, no two of which share an address, with flags that say exactly which
  of them are special or broad; adding and removing change the set of admitted addresses by the
  network named.
\<close>

subsection \<open>One source\<close>

definition the_net :: "pystr \<Rightarrow> ip_net" where
  "the_net c = (case ip_network c of Inr n \<Rightarrow> n | Inl _ \<Rightarrow> v4_block [] 0)"

definition canonical_net :: "pystr \<Rightarrow> bool" where
  "canonical_net c = (\<exists>n. ip_network c = Inr n \<and> net_str n = c \<and> 0 < net_plen n)"

lemma canonical_the_net: "canonical_net c \<Longrightarrow> ip_network c = Inr (the_net c) \<and> net_str (the_net c) = c
    \<and> 0 < net_plen (the_net c) \<and> wf_net (the_net c)"
  by (auto simp: canonical_net_def the_net_def ip_network_wf)

lemma normalize_cidr_Inr:
  "normalize_cidr v anp abr = Inr (c, np, br) \<longleftrightarrow>
     c = v \<and> canonical_net v \<and> np = special_network (the_net v) \<and> br = broad_range (the_net v)
     \<and> (np \<longrightarrow> anp) \<and> (br \<longrightarrow> abr)"
  by (cases "ip_network v")
    (auto simp: normalize_cidr_def canonical_net_def the_net_def Let_def die_def simp del: bindR_eq_Inr
      split: if_splits dest: ip_network_error)

lemma normalize_cidr_Inl:
  "normalize_cidr v anp abr = Inl e \<Longrightarrow> \<exists>reason. e = SystemExit reason 64"
  by (auto simp: normalize_cidr_def Let_def die_def bindR_eq_Inl try_except_eq_Inl
      dest: ip_network_error split: if_splits)

definition source_ok :: "fw_source \<Rightarrow> bool" where
  "source_ok s = (canonical_net (cidr s) \<and> non_public_override s = special_network (the_net (cidr s))
     \<and> broad_range_override s = broad_range (the_net (cidr s)))"

abbreviation source_net :: "fw_source \<Rightarrow> ip_net" where
  "source_net s \<equiv> the_net (cidr s)"

abbreviation source_key :: "fw_source \<Rightarrow> net_key" where
  "source_key s \<equiv> net_key (source_net s)"

lemma source_ok_net: "source_ok s \<Longrightarrow> ip_network (cidr s) = Inr (source_net s) \<and> wf_net (source_net s)"
  using canonical_the_net by (auto simp: source_ok_def)

lemma mapR_nets: "list_all source_ok ss \<Longrightarrow> mapR (\<lambda>s. ip_network (cidr s)) ss = Inr (map source_net ss)"
  using source_ok_net by (intro mapR_Inr_map) (auto simp: list_all_iff)

definition fits :: "net_key option \<Rightarrow> fw_source list \<Rightarrow> fw_source \<Rightarrow> bool" where
  "fits previous acc s =
     (source_ok s \<and> (case previous of None \<Rightarrow> True | Some p \<Rightarrow> p < source_key s)
      \<and> (\<forall>t \<in> set acc. \<not> overlaps (source_net s) (source_net t)))"

lemma check_entry_sound:
  assumes "check_entry c o1 o2 previous acc = Inr (k, s)" "list_all source_ok acc"
  shows "fits previous acc s" "k = source_key s"
    "s = \<lparr>cidr = c, non_public_override = o1, broad_range_override = o2\<rparr>"
  using assms
  by (auto simp: check_entry_def die_def normalize_cidr_Inr fits_def source_ok_def mapR_nets list_ex_iff Let_def
      dest: canonical_the_net split: if_splits option.splits)

lemma check_source_sound:
  assumes "check_source item previous acc = Inr (k, s)" "list_all source_ok acc"
  shows "fits previous acc s \<and> k = source_key s"
proof -
  obtain c o1 o2 where "check_entry c o1 o2 previous acc = Inr (k, s)"
    using assms(1) by (auto simp: check_source_def die_def split: json.splits if_splits option.splits)
  then show ?thesis using check_entry_sound(1,2) assms(2) by blast
qed

lemma check_source_json:
  "check_source (source_as_json s) previous acc
     = check_entry (cidr s) (non_public_override s) (broad_range_override s) previous acc"
  by (simp add: check_source_def source_as_json_def keys_are_def source_keys_def dict_get_def)

lemma check_source_complete:
  assumes "fits previous acc s" "list_all source_ok acc"
  shows "check_source (source_as_json s) previous acc = Inr (source_key s, s)"
proof -
  have n: "normalize_cidr (cidr s) (non_public_override s) (broad_range_override s)
      = Inr (cidr s, non_public_override s, broad_range_override s)"
    "ip_network (cidr s) = Inr (source_net s)"
    using assms(1) source_ok_net by (auto simp: fits_def source_ok_def normalize_cidr_Inr)
  have "\<not> (case previous of None \<Rightarrow> False | Some p \<Rightarrow> source_key s \<le> p)"
    "\<not> list_ex (overlaps (source_net s)) (map source_net acc)"
    using assms(1) by (auto simp: fits_def list_ex_iff not_le split: option.splits)
  then show ?thesis
    using n mapR_nets [OF assms(2)]
    by (simp add: check_source_json check_entry_def Let_def del: bindR_eq_Inr)
qed

subsection \<open>Documents\<close>

definition precedes :: "fw_source \<Rightarrow> fw_source \<Rightarrow> bool" where
  "precedes s t = (source_key s < source_key t \<and> \<not> overlaps (source_net t) (source_net s))"

definition sources_ok :: "fw_source list \<Rightarrow> bool" where
  "sources_ok ss = (list_all source_ok ss \<and> sorted_wrt precedes ss)"

lemma sources_ok_Nil [simp]: "sources_ok []"
  by (simp add: sources_ok_def)

definition last_key :: "fw_source list \<Rightarrow> net_key option" where
  "last_key ss = (if ss = [] then None else Some (source_key (last ss)))"

lemma fits_extends:
  assumes "sources_ok acc" "fits (last_key acc) acc s"
  shows "sources_ok (acc @ [s])"
proof -
  have "precedes t s" if "t \<in> set acc" for t
  proof -
    have "acc \<noteq> []" using that by auto
    then have acc: "acc = butlast acc @ [last acc]" by simp
    have "sorted_wrt precedes (butlast acc @ [last acc])"
      using assms(1) acc unfolding sources_ok_def by simp
    then have "source_key u \<le> source_key (last acc)" if "u \<in> set (butlast acc)" for u
      using that by (auto simp: sorted_wrt_append precedes_def less_imp_le)
    moreover have "t = last acc \<or> t \<in> set (butlast acc)" using that acc by (metis UnE insertE list.set(1,2) empty_iff set_append)
    ultimately have "source_key t \<le> source_key (last acc)" by blast
    moreover have "source_key (last acc) < source_key s" "\<not> overlaps (source_net s) (source_net t)"
      using assms(2) that by (simp_all add: fits_def last_key_def \<open>acc \<noteq> []\<close>)
    ultimately show ?thesis unfolding precedes_def by (simp add: order_le_less_trans)
  qed
  then show ?thesis using assms by (auto simp: sources_ok_def fits_def sorted_wrt_append)
qed

lemma validate_sources_sound:
  assumes "validate_sources items (last_key acc) acc = Inr ss" "sources_ok acc"
  shows "sources_ok ss"
  using assms
proof (induction items "last_key acc" acc rule: validate_sources.induct)
  case (2 item items acc)
  from 2(2) obtain k s where ks: "check_source item (last_key acc) acc = Inr (k, s)"
    "validate_sources items (Some k) (acc @ [s]) = Inr ss" by auto
  have f: "fits (last_key acc) acc s \<and> k = source_key s"
    using check_source_sound [OF ks(1)] 2(3) by (simp add: sources_ok_def)
  then have "Some k = last_key (acc @ [s])" by (simp add: last_key_def)
  then show ?case using 2(1) ks f fits_extends [OF 2(3)] by auto
qed simp

lemma sources_ok_fits:
  assumes "sources_ok (acc @ s # ss)"
  shows "fits (last_key acc) acc s" "list_all source_ok acc"
proof -
  have w: "sorted_wrt precedes (acc @ s # ss)" "list_all source_ok (acc @ s # ss)"
    using assms by (auto simp: sources_ok_def)
  then have b: "precedes t s" if "t \<in> set acc" for t using that by (auto simp: sorted_wrt_append)
  show "list_all source_ok acc" using w by simp
  show "fits (last_key acc) acc s"
    using w b b [OF last_in_set] by (auto simp: fits_def last_key_def precedes_def)
qed

lemma validate_sources_complete:
  "sources_ok (acc @ ss) \<Longrightarrow> validate_sources (map source_as_json ss) (last_key acc) acc = Inr (acc @ ss)"
proof (induction ss arbitrary: acc)
  case (Cons s ss)
  have "Some (source_key s) = last_key (acc @ [s])" by (simp add: last_key_def)
  then show ?case
    using Cons.IH [of "acc @ [s]"] Cons.prems sources_ok_fits [OF Cons.prems] check_source_complete by simp
qed simp

lemma validate_sources_unchanged:
  assumes "validate_sources (map source_as_json ss) (last_key acc) acc = Inr r" "sources_ok acc"
  shows "r = acc @ ss"
  using assms
proof (induction ss arbitrary: acc)
  case (Cons s ss)
  then obtain k t where t: "check_source (source_as_json s) (last_key acc) acc = Inr (k, t)"
    "validate_sources (map source_as_json ss) (Some k) (acc @ [t]) = Inr r" by auto
  have acc: "list_all source_ok acc" using Cons.prems(2) by (simp add: sources_ok_def)
  have "t = s" using check_entry_sound(3) [OF t(1) [unfolded check_source_json] acc] by simp
  moreover have "fits (last_key acc) acc t \<and> k = source_key t" by (rule check_source_sound [OF t(1) acc])
  ultimately show ?case
    using Cons.IH [of "acc @ [s]"] t(2) fits_extends [OF Cons.prems(2)] by (simp add: last_key_def)
qed simp

lemma mode_of_value [simp]: "mode_of (lit (mode_value m)) = Some m"
  by (cases m) (simp_all add: mode_of_def)

lemma validate_document_sound:
  assumes "validate_document v = Inr d"
  shows "sources_ok (doc_sources d)"
proof -
  obtain items ss where "validate_sources items (last_key []) [] = Inr ss" "doc_sources d = ss"
    using assms
    by (auto simp: validate_document_def die_def last_key_def split: json.split_asm if_split_asm option.split_asm)
      (metis fw_document.select_convs(2) )
  then show ?thesis using validate_sources_sound [of items "[]" ss] by simp
qed

lemma validate_document_json:
  "validate_document (document_as_json d) =
     bindR (validate_sources (map source_as_json (doc_sources d)) None []) (\<lambda>ss. Inr (d\<lparr>doc_sources := ss\<rparr>))"
  by (cases d) (simp add: validate_document_def document_as_json_def keys_are_def dict_get_def mode_of_json_def)

lemma validate_document_iff:
  "validate_document (document_as_json d) = Inr d' \<longleftrightarrow> sources_ok (doc_sources d) \<and> d' = d"
proof
  assume l: "validate_document (document_as_json d) = Inr d'"
  then obtain ss where ss: "validate_sources (map source_as_json (doc_sources d)) (last_key []) [] = Inr ss"
    "d' = d\<lparr>doc_sources := ss\<rparr>" by (auto simp: validate_document_json last_key_def)
  have "ss = doc_sources d" using validate_sources_unchanged [OF ss(1)] by simp
  then show "sources_ok (doc_sources d) \<and> d' = d"
    using validate_sources_sound [OF ss(1)] ss(2) by simp
next
  assume "sources_ok (doc_sources d) \<and> d' = d"
  then show "validate_document (document_as_json d) = Inr d'"
    using validate_sources_complete [of "[]" "doc_sources d"] by (simp add: validate_document_json last_key_def)
qed

subsection \<open>Admitted addresses\<close>

text \<open>The addresses a document admits in restricted mode.\<close>

definition admits :: "fw_source list \<Rightarrow> nat \<Rightarrow> nat \<Rightarrow> bool" where
  "admits ss v a = (\<exists>s \<in> set ss. in_net v a (source_net s))"

lemma source_key_eq: "source_ok s \<Longrightarrow> source_ok t \<Longrightarrow> cidr s = cidr t \<Longrightarrow> s = t"
  by (cases s; cases t) (simp add: source_ok_def)

lemma precedes_key: "precedes s t \<Longrightarrow> source_key s < source_key t"
  by (simp add: precedes_def)

lemma sources_ok_distinct:
  assumes "sources_ok ss"
  shows "distinct (map cidr ss)" "sorted (map source_key ss)"
proof -
  have w: "sorted_wrt (\<lambda>s t. source_key s < source_key t) ss"
    using assms precedes_key unfolding sources_ok_def by (metis (no_types, lifting) sorted_wrt_mono_rel)
  then show "sorted (map source_key ss)"
    unfolding sorted_map by (rule sorted_wrt_mono_rel [rotated]) (simp add: less_imp_le)
  show "distinct (map cidr ss)" using w by (induction ss) auto
qed

text \<open>The dict of the sources by their CIDR, when no two are equal.\<close>

lemma update_new: "k \<notin> fst ` set es \<Longrightarrow> AList.update k v es = es @ [(k, v)]"
  by (induction es) auto

lemma fold_update_distinct:
  "distinct (map f xs) \<Longrightarrow> set (map f xs) \<inter> fst ` set es = {} \<Longrightarrow>
    fold (\<lambda>s. AList.update (f s) s) xs es = es @ map (\<lambda>s. (f s, s)) xs"
proof (induction xs arbitrary: es)
  case (Cons x xs)
  have "f x \<notin> fst ` set es" using Cons.prems(2) by auto
  moreover have "set (map f xs) \<inter> fst ` set (es @ [(f x, x)]) = {}" using Cons.prems by auto
  ultimately show ?case using Cons.IH [of "es @ [(f x, x)]"] Cons.prems(1) by (simp add: update_new)
qed simp

lemma insort_tagged:
  "insort_key fst (f s, s) (map (\<lambda>s. (f s, s)) xs) = map (\<lambda>s. (f s, s)) (insort_key f s xs)"
  by (induction xs) auto

lemma sort_tagged: "sort_key fst (map (\<lambda>s. (f s, s)) xs) = map (\<lambda>s. (f s, s)) (sort_key f xs)"
  by (induction xs) (simp_all add: insort_tagged)

lemma sort_sources_ok:
  assumes "list_all source_ok ss"
  shows "sort_sources ss = Inr (sort_key source_key ss)"
proof -
  have "mapR with_key ss = Inr (map (\<lambda>s. (source_key s, s)) ss)"
    using assms source_ok_net by (intro mapR_Inr_map) (auto simp: list_all_iff with_key_def)
  then show ?thesis by (simp add: sort_sources_def sort_tagged comp_def del: bindR_eq_Inr)
qed

text \<open>A list of sources is in order exactly when its keys are and distinct sources share no address.\<close>

definition disjoint_sources :: "fw_source set \<Rightarrow> bool" where
  "disjoint_sources S = (\<forall>s \<in> S. \<forall>t \<in> S. s \<noteq> t \<longrightarrow> \<not> overlaps (source_net s) (source_net t))"

lemma overlaps_sym: "overlaps m n = overlaps n m"
  by (auto simp: overlaps_def)

lemma same_key_overlaps: "source_ok s \<Longrightarrow> source_key s = source_key t \<Longrightarrow> overlaps (source_net s) (source_net t)"
  using source_ok_net [of s] in_net_ends [of "source_net s"] by (auto simp: overlaps_def net_key_def in_net_def)

lemma sources_ok_iff:
  "sources_ok ss \<longleftrightarrow> list_all source_ok ss \<and> sorted (map source_key ss) \<and> distinct ss \<and> disjoint_sources (set ss)"
proof
  assume ok: "sources_ok ss"
  have "disjoint_sources (set ss)"
  proof -
    have "sorted_wrt precedes ss" using ok by (simp add: sources_ok_def)
    then show ?thesis by (induction ss) (auto simp: disjoint_sources_def precedes_def overlaps_sym)
  qed
  then show "list_all source_ok ss \<and> sorted (map source_key ss) \<and> distinct ss \<and> disjoint_sources (set ss)"
    using sources_ok_distinct [OF ok] ok distinct_map [of cidr ss] unfolding sources_ok_def by blast
next
  assume r: "list_all source_ok ss \<and> sorted (map source_key ss) \<and> distinct ss \<and> disjoint_sources (set ss)"
  have "precedes (ss ! i) (ss ! j)" if "i < j" "j < length ss" for i j
  proof -
    have "ss ! i \<noteq> ss ! j" "ss ! i \<in> set ss" "ss ! j \<in> set ss" using r that by (auto simp: nth_eq_iff_index_eq)
    moreover have "source_key (ss ! i) \<le> source_key (ss ! j)"
      using r that sorted_nth_mono [of "map source_key ss" i j] by simp
    ultimately show ?thesis
      using r same_key_overlaps unfolding precedes_def disjoint_sources_def list_all_iff by (metis order_le_imp_less_or_eq)
  qed
  then show "sources_ok ss" using r by (auto simp: sources_ok_def sorted_wrt_iff_nth_less)
qed

lemma sources_ok_sort:
  "list_all source_ok ss \<Longrightarrow> distinct ss \<Longrightarrow> disjoint_sources (set ss) \<Longrightarrow> sources_ok (sort_key source_key ss)"
  by (simp add: sources_ok_iff list_all_iff)

text \<open>Ordered lists with the same sources are the same list.\<close>

lemma sources_ok_set_eq:
  assumes "sources_ok ss" "sources_ok ts" "set ss = set ts"
  shows "ss = ts"
proof -
  have "inj_on source_key (set ss)"
    using assms(1) same_key_overlaps unfolding sources_ok_iff disjoint_sources_def list_all_iff inj_on_def by blast
  then show ?thesis
    using assms by (intro map_sorted_distinct_set_unique [of source_key]) (simp_all add: sources_ok_iff distinct_map)
qed

subsection \<open>Candidates\<close>

definition source_for :: "pystr \<Rightarrow> fw_source" where
  "source_for c = \<lparr>cidr = c, non_public_override = special_network (the_net c),
     broad_range_override = broad_range (the_net c)\<rparr>"

lemma source_for [simp]: "cidr (source_for c) = c" "source_ok (source_for c) = canonical_net c"
  by (auto simp: source_for_def source_ok_def)

lemma source_ok_for: "source_ok s \<Longrightarrow> s = source_for (cidr s)"
  by (cases s) (simp add: source_ok_def source_for_def)

lemma entries_ok:
  "sources_ok ss \<Longrightarrow> fold (\<lambda>s. AList.update (cidr s) s) ss [] = map (\<lambda>s. (cidr s, s)) ss"
  using fold_update_distinct [of cidr ss "[]"] sources_ok_distinct(1) by simp

lemma delete_tagged: "AList.delete k (map (\<lambda>s. (f s, s)) ss) = map (\<lambda>s. (f s, s)) (filter (\<lambda>s. f s \<noteq> k) ss)"
  by (induction ss) auto

lemma candidate_unfold:
  assumes "sources_ok (doc_sources d)" "normalize_cidr c (if act = Add then anp else True) (if act = Add then abr else True) = Inr r"
  shows "candidate d act c anp abr =
     (let entries = (if act = Add then AList.update c (source_for c) (map (\<lambda>s. (cidr s, s)) (doc_sources d))
                     else map (\<lambda>s. (cidr s, s)) (filter (\<lambda>s. cidr s \<noteq> c) (doc_sources d)))
      in bindR (sort_sources (map snd entries)) (\<lambda>ss. validate_document (document_as_json (d\<lparr>doc_sources := ss\<rparr>))))"
proof -
  obtain np br where r: "r = (c, np, br)" "np = special_network (the_net c)" "br = broad_range (the_net c)"
    using assms(2) normalize_cidr_Inr by (cases r) blast
  show ?thesis
    unfolding candidate_def assms(2) bindR_simps r prod.case entries_ok [OF assms(1)] delete_tagged Let_def
      source_for_def ..
qed

lemma sort_validate:
  assumes "list_all source_ok ss" "distinct ss"
  shows "bindR (sort_sources ss) (\<lambda>ss. validate_document (document_as_json (d\<lparr>doc_sources := ss\<rparr>))) = Inr d'
    \<longleftrightarrow> disjoint_sources (set ss) \<and> d' = d\<lparr>doc_sources := sort_key source_key ss\<rparr>"
proof -
  have "sources_ok (sort_key source_key ss) \<longleftrightarrow> disjoint_sources (set ss)"
    using assms by (simp add: sources_ok_iff list_all_iff)
  then show ?thesis by (auto simp: sort_sources_ok [OF assms(1)] validate_document_iff simp del: bindR_eq_Inr)
qed

lemma add_entries:
  assumes ok: "sources_ok ss" and c: "canonical_net c"
  defines "es \<equiv> map snd (AList.update c (source_for c) (map (\<lambda>s. (cidr s, s)) ss))"
  shows "set es = insert (source_for c) (set ss)" "distinct es" "list_all source_ok es"
proof -
  have l: "list_all source_ok ss" using ok by (simp add: sources_ok_def)
  have d: "distinct ss" using ok by (simp add: sources_ok_iff)
  show 1: "set es = insert (source_for c) (set ss)" and 2: "distinct es"
  proof -
    have "set es = insert (source_for c) (set ss) \<and> distinct es"
    proof (cases "c \<in> cidr ` set ss")
      case True
      then obtain s where s: "s \<in> set ss" "cidr s = c" by blast
      then have eq: "s = source_for c" using source_ok_for l by (auto simp: list_all_iff)
      have "AList.update (cidr s) s (map (\<lambda>s. (cidr s, s)) ts) = map (\<lambda>s. (cidr s, s)) ts"
        if "s \<in> set ts" "distinct (map cidr ts)" for ts
        using that by (induction ts) (auto simp: image_iff)
      then have "es = ss"
        using s eq sources_ok_distinct(1) [OF ok] unfolding es_def by (simp add: comp_def)
      then show ?thesis using s eq d by auto
    next
      case False
      then have "es = ss @ [source_for c]"
        unfolding es_def by (subst update_new) (auto simp: image_image comp_def)
      then show ?thesis using False d source_for(1) by (auto simp: image_iff)
    qed
    then show "set es = insert (source_for c) (set ss)" "distinct es" by auto
  qed
  show "list_all source_ok es" using 1 l c by (simp add: list_all_iff)
qed

lemma candidate_add:
  assumes ok: "sources_ok (doc_sources d)"
  shows "candidate d Add c anp abr = Inr d' \<longleftrightarrow>
    canonical_net c \<and> (special_network (the_net c) \<longrightarrow> anp) \<and> (broad_range (the_net c) \<longrightarrow> abr)
    \<and> disjoint_sources (insert (source_for c) (set (doc_sources d)))
    \<and> sources_ok (doc_sources d') \<and> set (doc_sources d') = insert (source_for c) (set (doc_sources d))
    \<and> doc_mode d' = doc_mode d"
proof (cases "normalize_cidr c anp abr")
  case (Inl e)
  then have "\<not> (canonical_net c \<and> (special_network (the_net c) \<longrightarrow> anp) \<and> (broad_range (the_net c) \<longrightarrow> abr))"
    using normalize_cidr_Inr [of c anp abr c] by auto
  moreover have "candidate d Add c anp abr = Inl e" using Inl by (simp add: candidate_def)
  ultimately show ?thesis by auto
next
  case (Inr r)
  then have c: "canonical_net c" "special_network (the_net c) \<longrightarrow> anp" "broad_range (the_net c) \<longrightarrow> abr"
    using normalize_cidr_Inr by (cases r; blast)+
  let ?es = "map snd (AList.update c (source_for c) (map (\<lambda>s. (cidr s, s)) (doc_sources d)))"
  note es = add_entries [OF ok c(1)]
  have "candidate d Add c anp abr = Inr d' \<longleftrightarrow>
      disjoint_sources (insert (source_for c) (set (doc_sources d))) \<and> d' = d\<lparr>doc_sources := sort_key source_key ?es\<rparr>"
    using candidate_unfold [OF ok, of c Add anp abr r] Inr sort_validate [OF es(3,2), of d d'] es(1) by simp
  moreover have "d' = d\<lparr>doc_sources := sort_key source_key ?es\<rparr> \<longleftrightarrow>
      sources_ok (doc_sources d') \<and> set (doc_sources d') = insert (source_for c) (set (doc_sources d)) \<and> doc_mode d' = doc_mode d"
    if "disjoint_sources (insert (source_for c) (set (doc_sources d)))"
  proof -
    have ok': "sources_ok (sort_key source_key ?es)" by (rule sources_ok_sort) (use es that in auto)
    show ?thesis
    proof
      assume "sources_ok (doc_sources d') \<and> set (doc_sources d') = insert (source_for c) (set (doc_sources d)) \<and> doc_mode d' = doc_mode d"
      then show "d' = d\<lparr>doc_sources := sort_key source_key ?es\<rparr>"
        using sources_ok_set_eq [OF _ ok'] es(1) by (cases d; cases d') simp
    qed (use ok' es(1) in simp)
  qed
  ultimately show ?thesis using c by blast
qed

lemma candidate_remove:
  assumes ok: "sources_ok (doc_sources d)" and c: "canonical_net c"
  shows "candidate d Remove c anp abr = Inr (d\<lparr>doc_sources := filter (\<lambda>s. cidr s \<noteq> c) (doc_sources d)\<rparr>)"
proof -
  let ?es = "filter (\<lambda>s. cidr s \<noteq> c) (doc_sources d)"
  have "sources_ok ?es"
    using ok by (auto simp: sources_ok_def sorted_wrt_filter list_all_iff)
  then have es: "list_all source_ok ?es" "distinct ?es" "disjoint_sources (set ?es)" "sort_key source_key ?es = ?es"
    by (simp_all add: sources_ok_iff sort_key_id_if_sorted)
  have "normalize_cidr c True True = Inr (c, special_network (the_net c), broad_range (the_net c))"
    using c by (simp add: normalize_cidr_Inr)
  then show ?thesis
    using candidate_unfold [OF ok, of c Remove anp abr] sort_validate [OF es(1,2), of d] es(3,4)
    by (simp add: comp_def del: bindR_eq_Inr)
qed

subsection \<open>The byte form\<close>

subsubsection \<open>Networks without a scope print as plain text\<close>

lemma plain_hex_str: "list_all plain_char (hex_str n)"
  using plain_hex_digit
  by (auto simp: hex_str_def Let_def list_all_iff plain_char_def hex_digit_def dest!: set_dropWhileD)

lemma plain_v4_str: "list_all plain_char (v4_str a)"
  using plain_nat_digits by (simp add: v4_str_def)

lemma plain_compress: "list_all (list_all P) hs \<Longrightarrow> list_all (list_all P) (compress_hextets hs)"
  by (auto simp: compress_hextets_def list_all_iff split: prod.splits dest: in_set_takeD in_set_dropD)

lemma plain_v6_str: "list_all plain_char (v6_str a)"
proof -
  have "list_all (list_all plain_char) (map hex_str xs)" for xs using plain_hex_str by (simp add: list_all_iff)
  then have "list_all plain_char (join [58] (compress_hextets (map hex_str xs)))" for xs
    by (intro plain_join plain_compress) simp_all
  then show ?thesis using plain_v4_str by (simp add: v6_str_def)
qed

lemma plain_net_str: "net_scope n = None \<Longrightarrow> list_all plain_char (net_str n)"
  using plain_v4_str plain_v6_str plain_nat_digits by (simp add: net_str_def)

definition unscoped :: "fw_source \<Rightarrow> bool" where
  "unscoped s = (net_scope (source_net s) = None)"

lemma source_text: "source_ok s \<Longrightarrow> unscoped s \<Longrightarrow> scalar_text (cidr s)"
proof -
  assume s: "source_ok s" "unscoped s"
  then have "list_all plain_char (cidr s)"
    using plain_net_str [of "source_net s"] canonical_the_net [of "cidr s"] by (simp add: source_ok_def unscoped_def)
  then show ?thesis
    by (auto simp: list_all_iff plain_char_def scalar_text_def scalar_char_def is_surrogate_def in_range_def)
qed

lemma document_json_ok:
  assumes "sources_ok (doc_sources d)" "list_all unscoped (doc_sources d)"
  shows "json_ok (document_as_json d)"
proof -
  have "json_ok (source_as_json s)" if "s \<in> set (doc_sources d)" for s
    using source_text [of s] that assms by (simp add: source_as_json_def sources_ok_def list_all_iff)
  then have "list_all id (map (json_ok \<circ> source_as_json) (doc_sources d))" by (simp add: list_all_iff)
  then show ?thesis by (simp add: document_as_json_def int_limit_def nat_digits.simps)
qed

subsubsection \<open>Reading the manifest back\<close>

lemma canon_source:
  "canon (source_as_json s) = JObj
     [(lit ''broad_range_override'', JBool (broad_range_override s)), (lit ''cidr'', JStr (cidr s)),
      (lit ''non_public_override'', JBool (non_public_override s))]"
  by (simp add: source_as_json_def lit_def)

lemma check_source_canon: "check_source (canon (source_as_json s)) p acc = check_source (source_as_json s) p acc"
  by (auto simp: canon_source check_source_def source_as_json_def keys_are_def source_keys_def dict_get_def
      simp del: bindR_eq_Inr)

lemma validate_sources_canon:
  "validate_sources (map (canon \<circ> source_as_json) ss) p acc = validate_sources (map source_as_json ss) p acc"
  by (induction ss arbitrary: p acc) (auto simp: check_source_canon bindR_def split: sum.splits)

lemma canon_document:
  "canon (document_as_json d) = JObj
     [(lit ''mode'', JStr (lit (mode_value (doc_mode d)))), (lit ''schema_version'', JInt 2),
      (lit ''sources'', JArr (map (canon \<circ> source_as_json) (doc_sources d)))]"
  by (simp add: document_as_json_def lit_def)

lemma validate_canon: "validate_document (canon (document_as_json d)) = validate_document (document_as_json d)"
proof -
  have "validate_document (canon (document_as_json d)) =
     bindR (validate_sources (map (canon \<circ> source_as_json) (doc_sources d)) None []) (\<lambda>ss. Inr (d\<lparr>doc_sources := ss\<rparr>))"
    unfolding canon_document
    by (cases d) (auto simp: validate_document_def keys_are_def dict_get_def mode_of_json_def simp del: bindR_eq_Inr)
  then show ?thesis unfolding validate_sources_canon validate_document_json .
qed

definition storable_document :: "fw_document \<Rightarrow> bool" where
  "storable_document d = (sources_ok (doc_sources d) \<and> list_all unscoped (doc_sources d)
     \<and> length (encode_document d) \<le> maximum_bytes)"

lemma decode_encode_document:
  assumes "storable_document d"
  shows "decode_document (encode_document d) = Inr d"
proof -
  have ok: "json_ok (document_as_json d)"
    using assms document_json_ok by (simp add: storable_document_def)
  have "list_all plain_char (dumps (document_as_json d))" by (rule plain_dumps [OF ok])
  then have "0 \<notin> set (encode_document d)" "is_ascii (encode_document d)"
    by (auto simp: encode_document_def list_all_iff plain_char_def is_ascii_def)
  then have "decode_document (encode_document d) = validate_document (canon (document_as_json d))"
    using assms loads_dumps_line [OF ok]
    by (simp add: decode_document_def storable_document_def decode_ascii_def encode_document_def not_less
        del: bindR_eq_Inr)
  then show ?thesis
    using assms by (simp add: validate_canon validate_document_iff storable_document_def)
qed


subsection \<open>Sample documents\<close>

lemmas net_evals = ip_network_def v4_fields_def v6_fields_def split_addr_prefix_def v4_int_def all_digits_def
  parse_octet_def v4_mask_def prefix_from_prefix_string_def lit_def char_class_defs masked_def
  net_str_def v4_str_def nat_digits.simps

lemma sample_net:
  "ip_network (lit ''8.8.8.0/24'')
     = Inr \<lparr>net_version = 4, net_addr = 134744064, net_plen = 24, net_scope = None\<rparr>"
  by (simp add: net_evals)

lemma sample_net2:
  "ip_network (lit ''9.9.9.0/24'')
     = Inr \<lparr>net_version = 4, net_addr = 151587072, net_plen = 24, net_scope = None\<rparr>"
  by (simp add: net_evals)

lemma sample_canonical: "canonical_net (lit ''8.8.8.0/24'')" "canonical_net (lit ''9.9.9.0/24'')"
  by (auto simp: canonical_net_def sample_net sample_net2) (simp_all add: net_evals)

lemma sample_not_special:
  "\<not> special_network (the_net (lit ''8.8.8.0/24''))" "\<not> broad_range (the_net (lit ''8.8.8.0/24''))"
  by (simp_all add: the_net_def sample_net broad_range_def special_network_def is_global_def is_private_def
      is_loopback_def is_link_local_def is_multicast_def is_reserved_def is_unspecified_def inside_def both_ends_def
      v4_private_networks_def v4_private_exceptions_def in_net_def v4_block_def masked_def ip_width_def broadcast_def
      replicate_numeral)

definition sample_document :: fw_document where
  "sample_document = \<lparr>doc_mode = Restricted, doc_sources = [source_for (lit ''8.8.8.0/24'')]\<rparr>"

lemma sample_document_ok: "sources_ok (doc_sources sample_document)"
  using sample_canonical by (simp add: sample_document_def sources_ok_def)

subsection \<open>Properties\<close>

text \<open>C35: A manifest that decodes lists only canonical networks of positive prefix length, in
  strictly increasing order of version, address and prefix length; no address lies in two of
  them, and the flags of each say exactly whether it is special and whether it is broad.\<close>

theorem manifest_in_order:
  assumes "decode_document payload = Inr d"
  shows "(\<forall>s \<in> set (doc_sources d). \<exists>n. ip_network (cidr s) = Inr n \<and> net_str n = cidr s \<and> 0 < net_plen n
           \<and> non_public_override s = special_network n \<and> broad_range_override s = broad_range n)
    \<and> sorted_wrt (\<lambda>s t. source_key s < source_key t) (doc_sources d)
    \<and> (\<forall>s \<in> set (doc_sources d). \<forall>t \<in> set (doc_sources d). \<forall>v a.
         in_net v a (source_net s) \<and> in_net v a (source_net t) \<longrightarrow> s = t)"
proof -
  have ok: "sources_ok (doc_sources d)"
    using assms validate_document_sound by (auto simp: decode_document_def die_def split: if_splits)
  have all: "\<And>s. s \<in> set (doc_sources d) \<Longrightarrow> source_ok s" using ok by (simp add: sources_ok_def list_all_iff)
  have "sorted_wrt (\<lambda>s t. source_key s < source_key t) (doc_sources d)"
    using ok precedes_key unfolding sources_ok_def by (metis (no_types, lifting) sorted_wrt_mono_rel)
  moreover have "s = t" if "s \<in> set (doc_sources d)" "t \<in> set (doc_sources d)"
    "in_net v a (source_net s)" "in_net v a (source_net t)" for s t v a
  proof -
    have "overlaps (source_net s) (source_net t)"
      using overlaps_iff source_ok_net all that by blast
    then show ?thesis using ok that(1,2) by (auto simp: sources_ok_iff disjoint_sources_def)
  qed
  moreover have "\<exists>n. ip_network (cidr s) = Inr n \<and> net_str n = cidr s \<and> 0 < net_plen n
           \<and> non_public_override s = special_network n \<and> broad_range_override s = broad_range n"
    if "s \<in> set (doc_sources d)" for s
    using all [OF that] canonical_the_net unfolding source_ok_def by blast
  ultimately show ?thesis by blast
qed

lemma sample_storable: "storable_document sample_document"
proof -
  have "list_all unscoped (doc_sources sample_document)"
    by (simp add: sample_document_def unscoped_def the_net_def sample_net)
  moreover have "length (encode_document sample_document) \<le> maximum_bytes"
    using length_dumps [of "document_as_json sample_document"]
    by (simp add: encode_document_def maximum_bytes_def document_as_json_def sample_document_def source_as_json_def
        source_for_def int_str_def nat_digits.simps)
  ultimately show ?thesis using sample_document_ok by (simp add: storable_document_def)
qed

theorem manifest_in_order_witness:
  "decode_document (encode_document sample_document) = Inr sample_document
   \<and> source_for (lit ''8.8.8.0/24'') \<in> set (doc_sources sample_document)
   \<and> sorted_wrt (\<lambda>s t. source_key s < source_key t) (doc_sources sample_document)"
  using manifest_in_order [OF decode_encode_document [OF sample_storable]] decode_encode_document [OF sample_storable]
  by (simp add: sample_document_def)



text \<open>C36: Adding a network to a valid document succeeds exactly when the network is canonical, its
  overrides are given and it shares no address with a source of another spelling; the new
  document is valid, keeps the mode, and admits the old addresses and those of the network and
  no others.\<close>

theorem add_source_exact:
  assumes "sources_ok (doc_sources d)"
  shows "case candidate d Add c allow_non_public allow_broad_range of
      Inl e \<Rightarrow> \<not> (canonical_net c \<and> (special_network (the_net c) \<longrightarrow> allow_non_public)
                 \<and> (broad_range (the_net c) \<longrightarrow> allow_broad_range)
                 \<and> (\<forall>s \<in> set (doc_sources d). cidr s \<noteq> c \<longrightarrow> \<not> overlaps (the_net c) (source_net s)))
    | Inr d' \<Rightarrow> canonical_net c \<and> (special_network (the_net c) \<longrightarrow> allow_non_public)
        \<and> (broad_range (the_net c) \<longrightarrow> allow_broad_range)
        \<and> sources_ok (doc_sources d') \<and> doc_mode d' = doc_mode d
        \<and> set (doc_sources d') = insert (source_for c) (set (doc_sources d))
        \<and> (\<forall>v a. admits (doc_sources d') v a \<longleftrightarrow> admits (doc_sources d) v a \<or> in_net v a (the_net c))"
proof (cases "candidate d Add c allow_non_public allow_broad_range")
  case (Inr d')
  then show ?thesis using candidate_add [OF assms, of c allow_non_public allow_broad_range d']
    by (auto simp: admits_def)
next
  case (Inl e)
  let ?ok = "canonical_net c \<and> (special_network (the_net c) \<longrightarrow> allow_non_public)
     \<and> (broad_range (the_net c) \<longrightarrow> allow_broad_range)"
  have "\<not> disjoint_sources (insert (source_for c) (set (doc_sources d)))" if ok: ?ok
  proof
    assume dis: "disjoint_sources (insert (source_for c) (set (doc_sources d)))"
    let ?es = "map snd (AList.update c (source_for c) (map (\<lambda>s. (cidr s, s)) (doc_sources d)))"
    let ?d = "d\<lparr>doc_sources := sort_key source_key ?es\<rparr>"
    have "sources_ok (sort_key source_key ?es)"
      by (rule sources_ok_sort) (use add_entries [OF assms] dis ok in auto)
    then have "candidate d Add c allow_non_public allow_broad_range = Inr ?d"
      using candidate_add [OF assms, of c allow_non_public allow_broad_range ?d] dis ok add_entries(1) [OF assms, of c]
      by simp
    then show False using Inl by simp
  qed
  moreover have "disjoint_sources (insert (source_for c) (set (doc_sources d)))"
    if "\<forall>s \<in> set (doc_sources d). cidr s \<noteq> c \<longrightarrow> \<not> overlaps (the_net c) (source_net s)"
  proof -
    have "disjoint_sources (set (doc_sources d))" using assms by (simp add: sources_ok_iff)
    moreover have "s = source_for c" if "s \<in> set (doc_sources d)" "cidr s = c" for s
      using source_ok_for [of s] that assms by (auto simp: sources_ok_def list_all_iff)
    ultimately show ?thesis using that by (auto simp: disjoint_sources_def overlaps_sym)
  qed
  ultimately show ?thesis using Inl by auto
qed

theorem add_source_exact_witness:
  "sources_ok (doc_sources sample_document)
   \<and> (\<exists>d'. candidate sample_document Add (lit ''8.8.8.0/24'') False False = Inr d'
        \<and> (\<forall>v a. admits (doc_sources d') v a \<longleftrightarrow> in_net v a (the_net (lit ''8.8.8.0/24''))))"
proof -
  have "canonical_net (lit ''8.8.8.0/24'')" by (rule sample_canonical)
  then show ?thesis
    using add_source_exact [OF sample_document_ok, of "lit ''8.8.8.0/24''" False False] sample_not_special
      sample_document_ok
    by (cases "candidate sample_document Add (lit ''8.8.8.0/24'') False False")
      (auto simp: sample_document_def admits_def)
qed

text \<open>Removing a network from a valid document always succeeds and keeps exactly the other
  sources, in their order; so adding a network that is not listed and removing it again gives
  the document back.\<close>

theorem add_remove_restores:
  assumes "sources_ok (doc_sources d)" "c \<notin> cidr ` set (doc_sources d)"
    "candidate d Add c allow_non_public allow_broad_range = Inr d'"
  shows "candidate d' Remove c x y = Inr d"
proof -
  have a: "canonical_net c" "sources_ok (doc_sources d')" "doc_mode d' = doc_mode d"
    "set (doc_sources d') = insert (source_for c) (set (doc_sources d))"
    using assms(3) candidate_add [OF assms(1)] by auto
  let ?ss = "filter (\<lambda>s. cidr s \<noteq> c) (doc_sources d')"
  have "sources_ok ?ss" using a(2) by (auto simp: sources_ok_def sorted_wrt_filter list_all_iff)
  moreover have "set ?ss = set (doc_sources d)" using a(4) assms(2) by auto
  ultimately have "?ss = doc_sources d" using sources_ok_set_eq assms(1) by blast
  then show ?thesis using candidate_remove [OF a(2,1)] a(3) by (cases d; cases d') simp
qed

theorem add_remove_restores_witness:
  "\<exists>d'. candidate sample_document Add (lit ''9.9.9.0/24'') True True = Inr d'
     \<and> candidate d' Remove (lit ''9.9.9.0/24'') False False = Inr sample_document"
proof -
  have "\<not> overlaps (the_net (lit ''9.9.9.0/24'')) (the_net (lit ''8.8.8.0/24''))"
    by (simp add: the_net_def sample_net sample_net2 overlaps_def in_net_def masked_def ip_width_def broadcast_def)
  then obtain d' where d': "candidate sample_document Add (lit ''9.9.9.0/24'') True True = Inr d'"
    using add_source_exact [OF sample_document_ok, of "lit ''9.9.9.0/24''" True True] sample_canonical(2)
    by (cases "candidate sample_document Add (lit ''9.9.9.0/24'') True True") (auto simp: sample_document_def)
  moreover have "lit ''9.9.9.0/24'' \<notin> cidr ` set (doc_sources sample_document)"
    by (simp add: sample_document_def)
  ultimately show ?thesis using add_remove_restores [OF sample_document_ok] by blast
qed



text \<open>An IPv6 address with a scope id counts as a canonical public network: the text after the
  percent sign, spaces included, is accepted without overrides, becomes part of the manifest, and
  is handed to the firewall commands as it is.\<close>

theorem scoped_source_accepted:
  "normalize_cidr (lit ''2606:4700::%eth0 any/64'') False False
     = Inr (lit ''2606:4700::%eth0 any/64'', False, False)"
proof -
  have n: "ip_network (lit ''2606:4700::%eth0 any/64'')
     = Inr \<lparr>net_version = 6, net_addr = 50543257672059871404715951523469721600, net_plen = 64,
            net_scope = Some (lit ''eth0 any'')\<rparr>"
    by (simp add: net_evals v6_int_def v6_parts_def v6_shape_def parse_hextet_def hextets_val_def split_scope_id_def
        split_once_def hex_val_def upt_rec Let_def replicate_numeral)
  have t: "the_net (lit ''2606:4700::%eth0 any/64'') = \<lparr>net_version = 6,
      net_addr = 50543257672059871404715951523469721600, net_plen = 64, net_scope = Some (lit ''eth0 any'')\<rparr>"
    by (simp add: the_net_def n)
  have "canonical_net (lit ''2606:4700::%eth0 any/64'')"
    by (simp add: canonical_net_def n)
      (simp add: net_evals v6_str_def hextets_def upt_rec hex_str_def hex_digit_def compress_hextets_def)
  moreover have "\<not> special_network (the_net (lit ''2606:4700::%eth0 any/64''))"
    "\<not> broad_range (the_net (lit ''2606:4700::%eth0 any/64''))"
    by (simp_all add: t broad_range_def special_network_def is_global_def is_private_def
      is_loopback_def is_link_local_def is_multicast_def is_reserved_def is_unspecified_def inside_def both_ends_def
      v6_private_networks_def v6_private_exceptions_def v6_reserved_networks_def in_net_def v6_block_def hextets_val_def
      masked_def ip_width_def broadcast_def replicate_numeral)
  ultimately show ?thesis by (simp add: normalize_cidr_Inr)
qed

text \<open>A manifest whose mode is a list escapes the error handling: testing it for membership in a
  set raises \<open>TypeError\<close> instead of ending with the stable reason \<open>source_manifest_invalid\<close>.\<close>

definition unhashable_manifest :: json where
  "unhashable_manifest = JObj
     [(lit ''schema_version'', JInt 2), (lit ''mode'', JArr []), (lit ''sources'', JArr [])]"

theorem unhashable_mode_escapes:
  "decode_document (dumps unhashable_manifest @ [10]) = Inl (TypeError ''unhashable type: list'')"
proof -
  have ok: "json_ok unhashable_manifest"
    by (simp add: unhashable_manifest_def int_limit_def nat_digits.simps)
  have "list_all plain_char (dumps unhashable_manifest)" by (rule plain_dumps [OF ok])
  then have "0 \<notin> set (dumps unhashable_manifest @ [10])" "is_ascii (dumps unhashable_manifest @ [10])"
    by (auto simp: list_all_iff plain_char_def is_ascii_def)
  moreover have "length (dumps unhashable_manifest @ [10]) \<le> maximum_bytes"
    using length_dumps [of unhashable_manifest]
    by (simp add: unhashable_manifest_def maximum_bytes_def int_str_def nat_digits.simps)
  ultimately have "decode_document (dumps unhashable_manifest @ [10]) = validate_document (canon unhashable_manifest)"
    using loads_dumps_line [OF ok] by (simp add: decode_document_def decode_ascii_def not_less del: bindR_eq_Inr)
  also have "\<dots> = Inl (TypeError ''unhashable type: list'')"
    by (auto simp: unhashable_manifest_def lit_def validate_document_def keys_are_def dict_get_def mode_of_json_def
        simp del: bindR_eq_Inr)
  finally show ?thesis .
qed

end
