(* ===== verification/Install_File.thy ===== *)
theory Install_File
  imports Dir_Logic
begin

text \<open>
  Replacing a file: a temporary file beside it is created, filled by one \<open>os.write\<close> whose result
  is not looked at, synced and renamed over the name; in the end the temporary name is removed.
  The source manifest and the template publication journal are installed this way.
\<close>

definition publish_bytes :: "nat \<Rightarrow> pystr \<Rightarrow> bytes \<Rightarrow> nat \<Rightarrow> pystr \<Rightarrow> unit io" where
  "publish_bytes parent name payload descriptor temporary =
     seqW (os_fchmod descriptor 384)
     (bindW (os_write descriptor payload) (\<lambda>written.
      seqW (os_fsync descriptor)
      (seqW (os_replace parent temporary name)
      (bindW (os_reopen_dir parent) (\<lambda>directory. os_fsync directory)))))"

definition remove_temporary :: "nat \<Rightarrow> pystr \<Rightarrow> unit io" where
  "remove_temporary parent temporary =
     catchW (os_unlink parent temporary) (\<lambda>e. if e = OSError ENOENT then return () else raise e)"

definition install_bytes :: "nat \<Rightarrow> pystr \<Rightarrow> pystr \<Rightarrow> bytes \<Rightarrow> unit io" where
  "install_bytes parent prefix name payload =
     bindW (os_mkstemp parent prefix) (\<lambda>(descriptor, temporary).
       finallyW (publish_bytes parent name payload descriptor temporary) (remove_temporary parent temporary))"

lemma triple_ids: "triple (has_fs I) os_effective_ids (\<lambda>_. has_fs I) (has_fs I)"
  by (rule tripleI) (simp add: os_effective_ids_def)

lemma triple_reopen_dir: "triple (has_fs I) (os_reopen_dir d) (\<lambda>_. has_fs I) (has_fs I)"
  unfolding os_reopen_dir_def by (rule triple_syscall) (auto split: if_splits)

lemma holds_temp_chmod:
  assumes "holds_temp d name c fd temp data s"
  shows "holds_temp d name c fd temp data (tick (upd_inode fd (\<lambda>i. i\<lparr>imode := m, ictime := t\<rparr>) s))"
proof -
  let ?f = "\<lambda>i. i\<lparr>imode := m, ictime := t\<rparr>"
  have "map_option idata (fs_inodes (upd_inode fd ?f s) n) = map_option idata (fs_inodes s n)" for n
    by (rule data_upd) simp
  then show ?thesis
    using assms by (auto simp: holds_temp_def holds_def wf_dir_def file_content_eq)
qed

lemma triple_fchmod:
  "triple (has_fs (holds_temp d name c fd temp data)) (os_fchmod fd m)
     (\<lambda>_. has_fs (holds_temp d name c fd temp data)) (has_fs (holds d name c))"
  unfolding os_fchmod_def by (rule triple_syscall) (auto intro: holds_temp_chmod holds_temp_holds)

lemma triple_mkstemp:
  assumes "\<And>suffix. prefix @ suffix \<noteq> name"
  shows "triple (has_fs (holds d name c)) (mkstemp_from n d prefix)
    (\<lambda>(fd, temp). has_fs (\<lambda>s. holds_temp d name c fd temp [] s \<and> temp \<noteq> name)) (has_fs (holds d name c))"
proof (induction n)
  case 0
  then show ?case by (simp add: triple_raise)
next
  case (Suc n)
  show ?case
    unfolding mkstemp_from.simps
  proof (rule triple_bind [OF triple_token_hex], rule triple_catch)
    fix suffix
    show "triple (has_fs (holds d name c)) (bindW (os_create d (prefix @ suffix) 384) (\<lambda>fd. return (fd, prefix @ suffix)))
      (\<lambda>(fd, temp). has_fs (\<lambda>s. holds_temp d name c fd temp [] s \<and> temp \<noteq> name)) (has_fs (holds d name c))"
      by (rule triple_bind [OF triple_create [OF assms]])
        (use assms in \<open>auto intro!: triple_return simp: has_fs_def\<close>)
    show "triple (has_fs (holds d name c)) (if e = OSError EEXIST then mkstemp_from n d prefix else raise e)
      (\<lambda>(fd, temp). has_fs (\<lambda>s. holds_temp d name c fd temp [] s \<and> temp \<noteq> name)) (has_fs (holds d name c))" for e
      using Suc by (auto intro: triple_raise)
  qed auto
qed

definition some_prefix :: "bytes \<Rightarrow> bytes option set" where
  "some_prefix bs = {Some (take k bs) | k. True}"

text \<open>What is published after some content of a set was.\<close>

definition publishes :: "nat \<Rightarrow> pystr \<Rightarrow> bytes option set \<Rightarrow> fs \<Rightarrow> bool" where
  "publishes d name C s = (\<exists>c \<in> C. holds d name c s)"

lemma publish_spec:
  "triple (has_fs (holds_temp d name c fd temp [])) (publish_bytes d name bs fd temp)
     (\<lambda>_. has_fs (publishes d name (some_prefix bs)))
     (has_fs (publishes d name (insert c (some_prefix bs))))"
proof -
  let ?E = "has_fs (publishes d name (insert c (some_prefix bs)))"
  let ?C = "some_prefix bs"
  have weaken: "triple (has_fs P) m Q (has_fs (holds d name c)) \<Longrightarrow> triple (has_fs P) m Q ?E" for P m and Q :: "'a \<Rightarrow> world \<Rightarrow> bool"
    by (erule triple_conseq) (auto simp: has_fs_def publishes_def)
  have last: "triple (has_fs (publishes d name ?C)) (bindW (os_reopen_dir d) (\<lambda>dir. os_fsync dir)) (\<lambda>_. has_fs (publishes d name ?C)) ?E"
    by (rule triple_conseq [OF triple_bind [OF triple_reopen_dir [where I = "publishes d name ?C"] triple_fsync]])
      (auto simp: has_fs_def publishes_def)
  have repl: "triple (has_fs (holds_temp d name c fd temp (take k bs))) (os_replace d temp name)
     (\<lambda>_. has_fs (publishes d name ?C)) (has_fs (holds d name c))" for k
    by (rule triple_has_fs_conseq [OF triple_replace]) (auto simp: publishes_def some_prefix_def)
  have sync: "triple (has_fs (holds_temp d name c fd temp data)) (os_fsync fd)
     (\<lambda>_. has_fs (holds_temp d name c fd temp data)) (has_fs (holds d name c))" for data
    by (rule triple_has_fs_conseq [OF triple_fsync [where I = "holds_temp d name c fd temp data"]])
      (auto intro: holds_temp_holds)
  show ?thesis
    unfolding publish_bytes_def
  proof (rule triple_seq [OF weaken [OF triple_fchmod]], rule triple_bind [OF weaken [OF triple_write]])
    fix k
    show "triple (has_fs (holds_temp d name c fd temp ([] @ take k bs)))
      (seqW (os_fsync fd) (seqW (os_replace d temp name) (bindW (os_reopen_dir d) (\<lambda>directory. os_fsync directory))))
      (\<lambda>_. has_fs (publishes d name ?C)) ?E"
      unfolding append_Nil
      by (rule triple_seq [OF weaken [OF sync]], rule triple_seq [OF weaken [OF repl]], rule last)
  qed
qed

lemma published_unlink:
  "temp \<noteq> name \<Longrightarrow>
    triple (has_fs (publishes d name C)) (remove_temporary d temp) (\<lambda>_. has_fs (publishes d name C)) (has_fs (publishes d name C))"
  unfolding remove_temporary_def
proof (rule triple_catch)
  assume ne: "temp \<noteq> name"
  show "triple (has_fs (publishes d name C)) (os_unlink d temp) (\<lambda>_. has_fs (publishes d name C)) (has_fs (publishes d name C))"
    unfolding publishes_def
    by (rule triple_some) (rule triple_has_fs_conseq [OF triple_unlink [OF ne]], auto)
qed (auto intro: triple_return triple_raise)

lemma install_bytes_spec:
  assumes ne: "\<And>suffix. prefix @ suffix \<noteq> name"
  shows "triple (has_fs (holds d name c)) (install_bytes d prefix name bs)
     (\<lambda>_. has_fs (publishes d name (some_prefix bs)))
     (has_fs (publishes d name (insert c (some_prefix bs))))"
proof -
  let ?C = "some_prefix bs"
  let ?E = "has_fs (publishes d name (insert c ?C))"
  have weaken: "triple (has_fs P) m Q (has_fs (holds d name c)) \<Longrightarrow> triple (has_fs P) m Q ?E"
    for P m and Q :: "'a \<Rightarrow> world \<Rightarrow> bool"
    by (erule triple_conseq) (auto simp: has_fs_def publishes_def)
  have body: "triple (has_fs (\<lambda>s. holds_temp d name c fd temp [] s \<and> temp \<noteq> name))
      (finallyW (publish_bytes d name bs fd temp) (remove_temporary d temp)) (\<lambda>_. has_fs (publishes d name ?C)) ?E" for fd temp
  proof (cases "temp = name")
    case False
    have pub: "triple (has_fs (\<lambda>s. holds_temp d name c fd temp [] s \<and> temp \<noteq> name))
        (publish_bytes d name bs fd temp) (\<lambda>_. has_fs (publishes d name ?C)) ?E"
      by (rule triple_conseq [OF publish_spec]) (auto simp: has_fs_def)
    have ret: "triple (has_fs (publishes d name ?C)) (remove_temporary d temp) (\<lambda>_. has_fs (publishes d name ?C)) ?E"
      by (rule triple_conseq [OF published_unlink [OF False, of d ?C]]) (auto simp: has_fs_def publishes_def)
    show ?thesis
      by (rule triple_finally [OF pub ret published_unlink [OF False]])
  qed (simp add: triple_def has_fs_def)
  show ?thesis
    unfolding install_bytes_def os_mkstemp_def
    by (rule triple_bind [OF weaken [OF triple_mkstemp [OF ne]]]) (auto intro: body)
qed

end
