(* ===== verification/Firewall_Store.thy ===== *)
theory Firewall_Store
  imports Firewall_Spec Install_File
begin

text \<open>
  The manifest on disk: \<open>secure_read\<close>, \<open>install_document\<close> and the commands of
  \<open>src/scripts/ingress/firewall_source_state.py\<close> as programs over the world.  A path is its
  directory's inode and its last component; \<open>state_dir\<close> is the directory of the manifest.
\<close>

subsection \<open>Reading and installing\<close>

type_synonym file_path = "nat \<times> pystr"

record fw_paths =
  state_dir :: nat
  resolve :: "pystr \<Rightarrow> file_path"

definition state_name :: pystr where
  "state_name = lit ''allowed-sources.json''"

definition state_path :: "fw_paths \<Rightarrow> file_path" where
  "state_path p = (state_dir p, state_name)"

definition dieW :: "string \<Rightarrow> int \<Rightarrow> 'a io" where
  "dieW reason code = lift (die reason code)"

text \<open>\<open>None\<close> stands for a missing file that counts as the empty document.\<close>

definition open_manifest :: "file_path \<Rightarrow> bool \<Rightarrow> (stat_result \<times> nat) option io" where
  "open_manifest path missing_is_empty =
     catchW
       (bindW (os_stat_at (fst path) (snd path)) (\<lambda>earlier.
        bindW (os_open_at (fst path) (snd path)) (\<lambda>descriptor.
          return (Some (earlier, descriptor)))))
       (\<lambda>e. if e = OSError ENOENT
             then (if missing_is_empty then return None else dieW ''source_manifest_missing'' 65)
             else if is_os_error e then dieW ''source_manifest_unreadable'' 65
             else raise e)"

definition read_manifest :: "stat_result \<Rightarrow> nat \<Rightarrow> bytes io" where
  "read_manifest earlier descriptor =
     bindW (os_fstat descriptor) (\<lambda>opened.
     bindW os_effective_ids (\<lambda>(euid, egid).
     if st_kind opened \<noteq> KReg \<or> st_kind earlier = KLnk
        \<or> (st_dev earlier, st_ino earlier) \<noteq> (st_dev opened, st_ino opened)
        \<or> st_uid opened \<noteq> euid \<or> st_gid opened \<noteq> egid \<or> st_perm opened \<noteq> 384
        \<or> st_nlink opened \<noteq> 1 \<or> maximum_bytes < st_size opened
     then dieW ''source_manifest_untrusted'' 65
     else
       bindW (os_read descriptor 0 (maximum_bytes + 1)) (\<lambda>payload.
       if maximum_bytes < length payload then dieW ''source_manifest_invalid'' 65
       else
         bindW (os_read descriptor (length payload) 1) (\<lambda>more.
         if more \<noteq> [] then dieW ''source_manifest_invalid'' 65 else return payload))))"

definition secure_read :: "file_path \<Rightarrow> bool \<Rightarrow> fw_document io" where
  "secure_read path missing_is_empty =
     bindW (open_manifest path missing_is_empty) (\<lambda>opened.
     (case opened of
        None \<Rightarrow> return empty_document
      | Some (earlier, descriptor) \<Rightarrow>
          bindW (read_manifest earlier descriptor) (\<lambda>payload. lift (decode_document payload))))"

definition temp_prefix :: pystr where
  "temp_prefix = lit ''.allowed-sources.''"

definition install_document :: "nat \<Rightarrow> fw_document \<Rightarrow> unit io" where
  "install_document parent document =
     bindW (catchW (os_fstat parent)
              (\<lambda>e. if is_os_error e then dieW ''source_manifest_parent_untrusted'' 65 else raise e)) (\<lambda>metadata.
     bindW os_effective_ids (\<lambda>(euid, egid).
     if st_kind metadata \<noteq> KDir \<or> st_uid metadata \<noteq> euid \<or> st_gid metadata \<noteq> egid \<or> st_perm metadata \<noteq> 448
     then dieW ''source_manifest_parent_untrusted'' 65
     else install_bytes parent temp_prefix state_name (encode_document document)))"

subsection \<open>Commands\<close>

definition listing_text :: "fw_document \<Rightarrow> pystr" where
  "listing_text d = dumps (listing_json d) @ [10]"

definition allow_non_public_flag :: pystr where "allow_non_public_flag = lit ''--allow-non-public''"
definition allow_broad_range_flag :: pystr where "allow_broad_range_flag = lit ''--allow-broad-range''"

definition candidate_command :: "fw_paths \<Rightarrow> fw_action \<Rightarrow> pystr \<Rightarrow> pystr list \<Rightarrow> pystr io" where
  "candidate_command p action c flags =
     (if \<not> distinct flags \<or> list_ex (\<lambda>f. f \<notin> {allow_non_public_flag, allow_broad_range_flag}) flags
      then dieW ''invalid_operation'' 64
      else if action = Remove \<and> flags \<noteq> [] then dieW ''invalid_operation'' 64
      else
        bindW (secure_read (state_path p) True) (\<lambda>document.
        bindW (lift (candidate document action c (allow_non_public_flag \<in> set flags)
                       (allow_broad_range_flag \<in> set flags))) (\<lambda>d.
          return (encode_document d))))"

text \<open>What is printed, as text: the output of \<open>main\<close> for a list of arguments.\<close>

definition main :: "fw_paths \<Rightarrow> pystr list \<Rightarrow> pystr io" where
  "main p arguments =
     (if arguments = [lit ''export'']
      then bindW (secure_read (state_path p) True) (\<lambda>d. return (encode_document d))
      else if arguments = [lit ''list'']
      then bindW (secure_read (state_path p) True) (\<lambda>d. return (listing_text d))
      else (case arguments of
        [command, argument] \<Rightarrow>
          (if command = lit ''get-file''
           then bindW (secure_read (resolve p argument) False) (\<lambda>d.
                  return (concat (map (\<lambda>s. cidr s @ [10]) (doc_sources d))))
           else if command = lit ''install-file''
           then bindW (secure_read (resolve p argument) False) (\<lambda>d.
                  bindW (install_document (state_dir p) d) (\<lambda>_. return []))
           else if command = lit ''candidate-mode''
           then (case mode_of argument of
                   None \<Rightarrow> dieW ''firewall_mode_invalid'' 64
                 | Some mode \<Rightarrow>
                     bindW (secure_read (state_path p) True) (\<lambda>d.
                     bindW (lift (validate_document (document_as_json (d\<lparr>doc_mode := mode\<rparr>)))) (\<lambda>d'.
                       return (encode_document d'))))
           else if command = lit ''candidate-add'' then candidate_command p Add argument []
           else if command = lit ''candidate-remove'' then candidate_command p Remove argument []
           else dieW ''invalid_operation'' 64)
      | command # c # flags \<Rightarrow>
          (if command = lit ''candidate-add'' then candidate_command p Add c flags
           else if command = lit ''candidate-remove'' then candidate_command p Remove c flags
           else dieW ''invalid_operation'' 64)
      | _ \<Rightarrow> dieW ''invalid_operation'' 64))"

subsection \<open>What an installation leaves behind\<close>


lemma temp_not_state: "temp_prefix @ suffix \<noteq> state_name"
  by (simp add: temp_prefix_def state_name_def lit_def)


subsection \<open>Properties\<close>


definition manifest_dir :: inode where
  "manifest_dir = \<lparr>ikind = KDir, imode = 448, iuid = 0, igid = 0, inlink = 2, idata = [], ients = [],
     ixattrs = [], idev = 7, imnt = 7, imtime = 0, ictime = 0\<rparr>"

definition full_disk_world :: world where
  "full_disk_world = \<lparr>w_fs = \<lparr>fs_inodes = [7 \<mapsto> manifest_dir], fs_next = 8, fs_clock = 0, fs_locks = (\<lambda>_. Unlocked)\<rparr>,
     w_euid = 0, w_egid = 0, w_tokens = (\<lambda>_. [97]), w_drawn = 0, w_calls = 0, w_kill = None,
     w_env = (\<lambda>n s. s), w_fail = (\<lambda>n. None), w_chunk = (\<lambda>n. 5)\<rparr>"

lemma mkstemp_step:
  "mkstemp_from 10000 d prefix =
     bindW token_hex (\<lambda>suffix.
       catchW (bindW (os_create d (prefix @ suffix) 384) (\<lambda>fd. return (fd, prefix @ suffix)))
         (\<lambda>e. if e = OSError EEXIST then mkstemp_from 9999 d prefix else raise e))"
proof -
  have "(10000 :: nat) = Suc 9999" by simp
  then show ?thesis by (simp only: mkstemp_from.simps)
qed

lemmas run_defs = syscall_def Let_def bindW_def seqW_def catchW_def finallyW_def return_def raise_def
  os_effective_ids_def token_hex_def raise_when_def lift_def

lemma short_install:
  "\<exists>w'. install_document 7 doc full_disk_world = (Ret (), w')
     \<and> file_content (w_fs w') 7 state_name = Some (take 5 (encode_document doc))"
proof -
  have "temp_prefix @ [97] \<noteq> state_name" by (rule temp_not_state)
  then show ?thesis
  by (simp add: run_defs full_disk_world_def manifest_dir_def install_document_def os_fstat_def do_fstat_def
      stat_of_def os_mkstemp_def mkstemp_step os_create_def do_create_def lookup_def entries_of_def
      install_bytes_def publish_bytes_def remove_temporary_def os_fchmod_def os_write_def do_write_def os_fsync_def os_replace_def
      do_replace_def os_reopen_dir_def os_unlink_def do_unlink_def tick_def upd_inode_def set_entries_def file_content_def)
      (simp add: min_def)
qed

lemma truncated_document:
  "decode_document (take 5 (encode_document empty_document)) = Inl (SystemExit ''source_manifest_invalid'' 65)"
proof -
  have "take 5 (encode_document empty_document) = lit (CHR 0x7B # CHR 0x22 # ''mod'')"
    by (simp add: encode_document_def document_as_json_def empty_document_def lit_def member_text_def quoted_def
        esc_char_def in_range_def)
  moreover have "loads (lit (CHR 0x7B # CHR 0x22 # ''mod'')) = Inl JSONDecodeError"
    by (simp add: loads_def lit_def skip_ws_def is_ws_def parse_str.simps next_char_def eval_nat_numeral)
  ultimately show ?thesis
    by (simp add: decode_document_def maximum_bytes_def decode_ascii_def die_def lit_def del: bindR_eq_Inr)
qed

text \<open>\<open>install_document\<close> ignores how many bytes were written: in a world where no call fails but
  the write is short it returns normally, although it has published a truncated manifest that no
  later command can read.\<close>

theorem short_write_is_published:
  "\<exists>w w' bytes. calm w \<and> wf_dir (w_fs w) 7 \<and> install_document 7 empty_document w = (Ret (), w')
     \<and> file_content (w_fs w') 7 state_name = Some bytes
     \<and> decode_document bytes = Inl (SystemExit ''source_manifest_invalid'' 65)"
proof -
  have "calm full_disk_world" "wf_dir (w_fs full_disk_world) 7"
    by (auto simp: calm_def quiet_def full_disk_world_def wf_dir_def lookup_def entries_of_def manifest_dir_def)
  then show ?thesis using short_install [of empty_document] truncated_document by blast
qed


end
