(* ===== verification/Firewall_Client.thy ===== *)
theory Firewall_Client
  imports Firewall_Sources Firewall_Store
begin

text \<open>
  The command-line side against the backend's side: both accept the same networks for the same
  reasons, the client takes every listing that the backend prints, and whatever it takes is an
  ordered list of disjoint networks.
\<close>

lemma normalize_source_cidr_eq:
  "normalize_source_cidr c anp abr =
     (case normalize_cidr c anp abr of
        Inr (canonical, _, _) \<Rightarrow> Inr canonical
      | Inl (SystemExit reason code) \<Rightarrow> Inl (operation_error reason code)
      | Inl e \<Rightarrow> Inl e)"
  by (cases "ip_network c")
    (auto simp: normalize_source_cidr_def normalize_cidr_def Let_def die_def simp del: bindR_eq_Inr
      dest: ip_network_error)

lemma normalize_source_cidr_Inr:
  "normalize_source_cidr c anp abr = Inr x \<longleftrightarrow> x = c \<and> canonical_net c
     \<and> (special_network (the_net c) \<longrightarrow> anp) \<and> (broad_range (the_net c) \<longrightarrow> abr)"
  by (cases "ip_network c")
    (auto simp: normalize_source_cidr_def canonical_net_def the_net_def Let_def operation_error_def
      simp del: bindR_eq_Inr split: if_splits dest: ip_network_error)

subsection \<open>Listings\<close>

definition accepted_after :: "ip_net list \<Rightarrow> fw_source \<Rightarrow> bool" where
  "accepted_after nets s = (source_ok s \<and> (\<forall>n \<in> set nets. \<not> overlaps (source_net s) n))"

lemma check_listed_entry_Inr:
  "check_listed_entry c o1 o2 nets = Inr (s, n) \<longleftrightarrow>
     s = \<lparr>cidr = c, non_public_override = o1, broad_range_override = o2\<rparr> \<and> n = source_net s \<and> accepted_after nets s"
proof (cases "canonical_net c")
  case False
  then show ?thesis
    by (auto simp: check_listed_entry_def normalize_source_cidr_Inr accepted_after_def source_ok_def)
next
  case True
  then have "ip_network c = Inr (the_net c)" by (simp add: canonical_the_net)
  then show ?thesis
    using True
    by (auto simp: check_listed_entry_def normalize_source_cidr_Inr accepted_after_def source_ok_def list_ex_iff rejected_def)
qed

lemma check_listed_sound:
  assumes "check_listed item nets = Inr (s, n)"
  shows "n = source_net s \<and> accepted_after nets s"
proof -
  obtain c o1 o2 where "check_listed_entry c o1 o2 nets = Inr (s, n)"
    using assms by (auto simp: check_listed_def rejected_def split: json.splits if_splits option.splits)
  then show ?thesis unfolding check_listed_entry_Inr by blast
qed

lemma check_listed_canon:
  "check_listed (canon (source_as_json s)) nets
     = check_listed_entry (cidr s) (non_public_override s) (broad_range_override s) nets"
  by (auto simp: check_listed_def canon_source keys_are_def source_keys_def dict_get_def simp del: bindR_eq_Inr)

lemma check_listing_sound:
  assumes "check_listing items nets = Inr (ss, all)"
  shows "all = nets @ map source_net ss \<and> list_all source_ok ss
    \<and> sorted_wrt (\<lambda>s t. \<not> overlaps (source_net t) (source_net s)) ss
    \<and> (\<forall>s \<in> set ss. \<forall>n \<in> set nets. \<not> overlaps (source_net s) n)"
  using assms
proof (induction items nets arbitrary: ss all rule: check_listing.induct)
  case (2 item items nets)
  from "2.prems" obtain s n ss' where s: "check_listed item nets = Inr (s, n)"
    "check_listing items (nets @ [n]) = Inr (ss', all)" "ss = s # ss'" by auto
  have a: "n = source_net s \<and> accepted_after nets s" by (rule check_listed_sound [OF s(1)])
  have i: "all = (nets @ [n]) @ map source_net ss' \<and> list_all source_ok ss'
    \<and> sorted_wrt (\<lambda>s t. \<not> overlaps (source_net t) (source_net s)) ss'
    \<and> (\<forall>s \<in> set ss'. \<forall>n' \<in> set (nets @ [n]). \<not> overlaps (source_net s) n')"
    using "2.IH" s(1,2) by blast
  then show ?case using a s(3) by (simp add: accepted_after_def)
qed simp

lemma check_listing_complete:
  assumes "list_all source_ok ss" "sorted_wrt (\<lambda>s t. \<not> overlaps (source_net t) (source_net s)) ss"
    "\<forall>s \<in> set ss. \<forall>n \<in> set nets. \<not> overlaps (source_net s) n"
  shows "check_listing (map (canon \<circ> source_as_json) ss) nets = Inr (ss, nets @ map source_net ss)"
  using assms
proof (induction ss arbitrary: nets)
  case (Cons s ss)
  have "check_listed (canon (source_as_json s)) nets = Inr (s, source_net s)"
    using Cons.prems by (simp add: check_listed_canon check_listed_entry_Inr accepted_after_def)
  moreover have "check_listing (map (canon \<circ> source_as_json) ss) (nets @ [source_net s])
      = Inr (ss, (nets @ [source_net s]) @ map source_net ss)"
    by (rule Cons.IH) (use Cons.prems in auto)
  ultimately show ?case by (simp add: comp_def)
qed simp

lemma sort_keys_sorted: "keys = sort keys \<longleftrightarrow> sorted (keys :: net_key list)"
  by (metis sorted_sort sorted_sort_id)

lemma listing_json_ok:
  assumes "sources_ok (doc_sources d)" "list_all unscoped (doc_sources d)"
  shows "json_ok (listing_json d)"
proof -
  have "json_ok (document_as_json d)" by (rule document_json_ok [OF assms])
  then show ?thesis by (simp add: document_as_json_def listing_json_def int_limit_def nat_digits.simps)
qed

lemma canon_listing:
  "canon (listing_json d) = JObj
     [(lit ''command'', JStr (lit ''firewall source list'')), (lit ''mode'', JStr (lit (mode_value (doc_mode d)))),
      (lit ''schema_version'', JInt 1), (lit ''sources'', JArr (map (canon \<circ> source_as_json) (doc_sources d))),
      (lit ''status'', JStr (lit ''pass''))]"
  by (simp add: listing_json_def lit_def)

lemma check_output_listing:
  assumes "sources_ok (doc_sources d)"
  shows "check_output (canon (listing_json d)) = Inr (doc_sources d, doc_mode d)"
proof -
  have w: "list_all source_ok (doc_sources d)" "sorted (map source_key (doc_sources d))"
    "sorted_wrt (\<lambda>s t. \<not> overlaps (source_net t) (source_net s)) (doc_sources d)"
    using assms sources_ok_distinct(2) unfolding sources_ok_def
    by (auto simp: precedes_def intro: sorted_wrt_mono_rel [of _ precedes])
  have "check_listing (map (canon \<circ> source_as_json) (doc_sources d)) [] = Inr (doc_sources d, map source_net (doc_sources d))"
    using check_listing_complete [OF w(1,3), of "[]"] by simp
  moreover have "map net_key (map source_net (doc_sources d)) = sort (map net_key (map source_net (doc_sources d)))"
    using w(2) by (simp add: sort_keys_sorted comp_def)
  ultimately have c: "check_sources (JArr (map (canon \<circ> source_as_json) (doc_sources d))) (JStr (lit (mode_value (doc_mode d))))
      = Inr (doc_sources d, doc_mode d)"
    by (simp add: check_sources_def mode_of_json_def Let_def del: bindR_eq_Inr map_map)
  show ?thesis
    unfolding canon_listing check_output_def
    by (auto simp: keys_are_def listing_keys_def dict_get_def c simp del: bindR_eq_Inr)
qed

subsection \<open>Properties\<close>

text \<open>C40: The command line and the backend accept the same networks under the same overrides, give the
  same canonical text, and refuse for the same reason with the same exit code.\<close>

theorem client_and_backend_agree:
  "normalize_source_cidr c anp abr =
     (case normalize_cidr c anp abr of
        Inr (canonical, _, _) \<Rightarrow> Inr canonical
      | Inl (SystemExit reason code) \<Rightarrow> Inl (FirewallSourceOperationError (lit reason) code)
      | Inl e \<Rightarrow> Inl e)
   \<and> (\<forall>e. normalize_cidr c anp abr = Inl e \<longrightarrow> (\<exists>reason. e = SystemExit reason 64))"
  using normalize_source_cidr_eq normalize_cidr_Inl by (auto simp: operation_error_def split: sum.split exn.split)

theorem client_and_backend_agree_witness:
  "normalize_cidr (lit ''8.8.8.0/24'') False False = Inr (lit ''8.8.8.0/24'', False, False)
   \<and> normalize_source_cidr (lit ''8.8.8.0/24'') False False = Inr (lit ''8.8.8.0/24'')"
proof -
  have "normalize_cidr (lit ''8.8.8.0/24'') False False = Inr (lit ''8.8.8.0/24'', False, False)"
    using sample_canonical(1) sample_not_special by (simp add: normalize_cidr_Inr)
  then show ?thesis using client_and_backend_agree [of "lit ''8.8.8.0/24''" False False] by simp
qed

text \<open>What the backend's \<open>list\<close> command prints for a valid document without scope ids is
  accepted by the command line, which reports exactly its sources and its mode.\<close>

theorem listing_is_accepted:
  assumes "sources_ok (doc_sources d)" "list_all unscoped (doc_sources d)"
  shows "run_firewall_source_operation (lit ''list'') None False False backend
      (\<lambda>_. Inr \<lparr>returncode = 0, stdout = listing_text d, stderr = []\<rparr>)
    = Inr \<lparr>res_action = lit ''list'', res_sources = doc_sources d, res_mode = doc_mode d, res_outcome = lit ''converged''\<rparr>"
proof -
  have "loads (listing_text d) = Inr (canon (listing_json d))"
    unfolding listing_text_def by (rule loads_dumps_line [OF listing_json_ok [OF assms]])
  then show ?thesis
    using check_output_listing [OF assms(1)]
    by (simp add: run_firewall_source_operation_def run_backend_def Let_def del: bindR_eq_Inr)
qed

theorem listing_is_accepted_witness:
  "\<exists>r. run_firewall_source_operation (lit ''list'') None False False (lit ''/b'')
      (\<lambda>_. Inr \<lparr>returncode = 0, stdout = listing_text sample_document, stderr = []\<rparr>) = Inr r
    \<and> res_sources r = [source_for (lit ''8.8.8.0/24'')]"
  using listing_is_accepted [of sample_document "lit ''/b''"] sample_storable
  by (simp add: storable_document_def sample_document_def)

text \<open>Whatever a backend prints, a result that the command line reports lists canonical networks in
  order whose flags are right, and no two of which share an address.\<close>

theorem reported_sources_ordered:
  assumes "run_backend arguments action runner = Inr r"
  shows "sources_ok (res_sources r)"
proof -
  obtain v ss mode where v: "check_output v = Inr (ss, mode)" "res_sources r = ss"
    using assms by (auto simp: run_backend_def operation_error_def split: if_splits)
  obtain a b where "check_sources a b = Inr (ss, mode)"
    using v(1) by (auto simp: check_output_def rejected_def split: json.splits if_splits)
  then obtain items nets where l: "check_listing items [] = Inr (ss, nets)" "map net_key nets = sort (map net_key nets)"
    by (auto simp: check_sources_def rejected_def Let_def split: option.splits if_splits)
  have s: "nets = map source_net ss" "list_all source_ok ss"
    "sorted_wrt (\<lambda>s t. \<not> overlaps (source_net t) (source_net s)) ss"
    using check_listing_sound [OF l(1)] by auto
  have k: "sorted (map source_key ss)" using l(2) s(1) by (simp add: sort_keys_sorted comp_def)
  have self: "overlaps (source_net x) (source_net x)" if "x \<in> set ss" for x
    using same_key_overlaps [of x x] s(2) that by (simp add: list_all_iff)
  have "distinct ss" using s(3) self by (induction ss) auto
  moreover have "disjoint_sources (set ss)"
    using s(3) by (induction ss) (auto simp: disjoint_sources_def overlaps_sym)
  ultimately show ?thesis using v(2) s(2) k by (simp add: sources_ok_iff)
qed

theorem reported_sources_ordered_witness:
  "\<exists>r. run_backend [] (lit ''list'') (\<lambda>_. Inr \<lparr>returncode = 0, stdout = listing_text sample_document, stderr = []\<rparr>) = Inr r
     \<and> sources_ok (res_sources r)"
proof -
  have "loads (listing_text sample_document) = Inr (canon (listing_json sample_document))"
    unfolding listing_text_def using sample_storable
    by (intro loads_dumps_line listing_json_ok) (simp_all add: storable_document_def)
  then have "\<exists>r. run_backend [] (lit ''list'') (\<lambda>_. Inr \<lparr>returncode = 0, stdout = listing_text sample_document, stderr = []\<rparr>) = Inr r"
    using check_output_listing [OF sample_document_ok] by (simp add: run_backend_def del: bindR_eq_Inr)
  then show ?thesis using reported_sources_ordered by blast
qed

end
