(* ===== verification/Template_Publication.thy ===== *)
theory Template_Publication
  imports Json_Value Install_File
begin

text \<open>
  The ownership journal of a stable template,
  \<open>src/scripts/control-plane/template-publication-state.py\<close>: one JSON record that moves from
  reserved over qualified to published and may be rolled back.  The record stays the dict that
  was read, as the program keeps it; the arguments are those that \<open>argparse\<close> lets through, and
  the clock is an argument.
\<close>

subsection \<open>Patterns\<close>

definition is_id_char :: "nat \<Rightarrow> bool" where
  "is_id_char c = (is_lower_az c \<or> is_digit09 c)"

definition id_re :: "pystr \<Rightarrow> bool" where
  "id_re s = (16 \<le> length s \<and> length s \<le> 32 \<and> list_all is_id_char s)"

definition build_re :: "pystr \<Rightarrow> bool" where
  "build_re s =
     (let groups = split_on 45 s in
      map length groups = [8, 4, 4, 4, 12] \<and> list_all (list_all is_lower_hex) groups)"

definition version_re :: "pystr \<Rightarrow> bool" where
  "version_re s =
     (case s of
        v # d # ds \<Rightarrow> v = 118 \<and> in_range 49 57 d \<and> list_all is_digit09 ds \<and> length ds \<le> 5
      | _ \<Rightarrow> False)"

definition hash_re :: "pystr \<Rightarrow> bool" where
  "hash_re s = all_of_length is_lower_hex 64 s"

text \<open>
  \<open>RE.fullmatch(str(value))\<close> for these patterns: the text of a float, a list or a dict has a
  character that none of them allows, or is one of the short words for infinities and NaN.
\<close>

definition matches_str :: "(pystr \<Rightarrow> bool) \<Rightarrow> json \<Rightarrow> bool" where
  "matches_str re v =
     (case v of
        JStr s \<Rightarrow> re s
      | JInt i \<Rightarrow> re (int_str i)
      | JBool b \<Rightarrow> re (lit (if b then ''True'' else ''False''))
      | JNull \<Rightarrow> re (lit ''None'')
      | _ \<Rightarrow> False)"

subsection \<open>Records\<close>

definition state_error :: "string \<Rightarrow> 'a res" where
  "state_error reason = Inl (StateError reason)"

definition aliases :: "(string \<times> string) list" where
  "aliases = [(''coding'', ''kitdev-coding''), (''browser-heavy'', ''kitdev-browser-heavy'')]"

definition alias_of :: "pystr \<Rightarrow> pystr option" where
  "alias_of product = map_of (map (\<lambda>(p, a). (lit p, lit a)) aliases) product"

definition required_keys :: "string list" where
  "required_keys =
     [''schema_version'', ''product'', ''alias'', ''version'', ''state'', ''definition_sha256'', ''created_at'']"

definition optional_keys :: "string list" where
  "optional_keys = [''template_id'', ''build_id'', ''published_at'', ''rolled_back_at'', ''definition_migrated_at'']"

definition keys_within :: "json_dict \<Rightarrow> bool" where
  "keys_within d =
     (set (map lit required_keys) \<subseteq> set (map fst d)
      \<and> set (map fst d) \<subseteq> set (map lit (required_keys @ optional_keys)))"

text \<open>Hashing a list or a dict, for a membership test, raises \<open>TypeError\<close>.\<close>

definition require_hashable :: "json \<Rightarrow> unit res" where
  "require_hashable v =
     (case v of
        JArr _ \<Rightarrow> Inl (TypeError ''unhashable type: list'')
      | JObj _ \<Rightarrow> Inl (TypeError ''unhashable type: dict'')
      | _ \<Rightarrow> Inr ())"

definition product_alias :: "json \<Rightarrow> pystr option" where
  "product_alias v = (case v of JStr s \<Rightarrow> alias_of s | _ \<Rightarrow> None)"

definition state_names :: "string list" where
  "state_names = [''reserved'', ''qualified_private'', ''published'', ''rolled_back'']"

definition get_or_empty :: "json_dict \<Rightarrow> string \<Rightarrow> json" where
  "get_or_empty d k = (case map_of d (lit k) of None \<Rightarrow> JStr [] | Some v \<Rightarrow> v)"

definition check_ids :: "json_dict \<Rightarrow> json \<Rightarrow> unit res" where
  "check_ids d state =
     (if state = JStr (lit ''reserved'') then Inr ()
      else if \<not> matches_str id_re (get_or_empty d ''template_id'') then state_error ''record_template_id_invalid''
      else if \<not> matches_str build_re (get_or_empty d ''build_id'') then state_error ''record_build_id_invalid''
      else Inr ())"

definition validate_fields :: "json_dict \<Rightarrow> json_dict res" where
  "validate_fields d =
     bindR (dict_get d ''product'') (\<lambda>product.
     thenR (require_hashable product)
     (bindR (dict_get d ''alias'') (\<lambda>alias.
      if (case product_alias product of None \<Rightarrow> True | Some a \<Rightarrow> alias \<noteq> JStr a)
      then state_error ''record_product_invalid''
      else
        bindR (dict_get d ''schema_version'') (\<lambda>schema.
        bindR (dict_get d ''version'') (\<lambda>version.
        if \<not> equals_number schema 1 \<or> \<not> matches_str version_re version
        then state_error ''record_version_invalid''
        else
          bindR (dict_get d ''state'') (\<lambda>state.
          thenR (require_hashable state)
          (if state \<notin> set (map (JStr \<circ> lit) state_names) then state_error ''record_state_invalid''
           else
             bindR (dict_get d ''definition_sha256'') (\<lambda>digest.
             if \<not> matches_str hash_re digest then state_error ''record_hash_invalid''
             else thenR (check_ids d state) (Inr d)))))))))"

definition validate_record :: "json \<Rightarrow> json_dict res" where
  "validate_record value =
     (case value of
        JObj d \<Rightarrow> (if \<not> keys_within d then state_error ''record_keys_invalid'' else validate_fields d)
      | _ \<Rightarrow> state_error ''record_not_object'')"

subsection \<open>Decisions\<close>

datatype operation = Reserve | Candidate | Publish | Show | Rollback | MigrateDefinition

record arguments =
  arg_operation :: operation
  arg_product :: pystr
  arg_version :: pystr
  arg_definition_sha256 :: pystr
  arg_prior_definition_sha256 :: "pystr option"
  arg_template_id :: "pystr option"
  arg_build_id :: "pystr option"

definition expected :: "arguments \<Rightarrow> pystr res" where
  "expected args =
     (case alias_of (arg_product args) of
        None \<Rightarrow> Inl KeyError
      | Some alias \<Rightarrow>
          if \<not> version_re (arg_version args) then state_error ''version_invalid''
          else if \<not> hash_re (arg_definition_sha256 args) then state_error ''definition_hash_invalid''
          else Inr alias)"

definition has_value :: "json_dict \<Rightarrow> string \<Rightarrow> pystr \<Rightarrow> bool" where
  "has_value d k s = (map_of d (lit k) = Some (JStr s))"

definition require_match :: "json_dict \<Rightarrow> arguments \<Rightarrow> unit res" where
  "require_match d args =
     bindR (expected args) (\<lambda>alias.
       raise_if (\<not> has_value d ''product'' (arg_product args) \<or> \<not> has_value d ''alias'' alias
                 \<or> \<not> has_value d ''version'' (arg_version args)
                 \<or> \<not> has_value d ''definition_sha256'' (arg_definition_sha256 args))
         (StateError ''journal_ownership_conflict''))"

text \<open>\<open>record.update(k=v, ...)\<close>, and \<open>record.get(k) == argument\<close>, where a missing key is \<open>None\<close>.\<close>

definition dict_update :: "json_dict \<Rightarrow> (string \<times> pystr) list \<Rightarrow> json_dict" where
  "dict_update d kvs = fold (\<lambda>(k, v). AList.update (lit k) (JStr v)) kvs d"

definition get_equals :: "json_dict \<Rightarrow> string \<Rightarrow> pystr option \<Rightarrow> bool" where
  "get_equals d k v =
     ((case map_of d (lit k) of None \<Rightarrow> JNull | Some x \<Rightarrow> x) = (case v of None \<Rightarrow> JNull | Some s \<Rightarrow> JStr s))"

definition text_or_empty :: "pystr option \<Rightarrow> pystr" where
  "text_or_empty v = (case v of None \<Rightarrow> [] | Some s \<Rightarrow> s)"

text \<open>A decision is the record to print and whether it is written first.\<close>

definition migrate_definition :: "arguments \<Rightarrow> pystr \<Rightarrow> pystr \<Rightarrow> json_dict option \<Rightarrow> (json_dict \<times> bool) res" where
  "migrate_definition args alias now stored =
     (case stored of
        None \<Rightarrow> state_error ''journal_missing''
      | Some d \<Rightarrow>
          if \<not> has_value d ''product'' (arg_product args) \<or> \<not> has_value d ''alias'' alias
             \<or> \<not> has_value d ''version'' (arg_version args) \<or> \<not> has_value d ''state'' (lit ''qualified_private'')
             \<or> \<not> get_equals d ''definition_sha256'' (arg_prior_definition_sha256 args)
             \<or> \<not> hash_re (text_or_empty (arg_prior_definition_sha256 args))
          then state_error ''definition_migration_not_authorized''
          else Inr (dict_update d [(''definition_sha256'', arg_definition_sha256 args),
                                   (''definition_migrated_at'', now)], True))"

definition new_record :: "arguments \<Rightarrow> pystr \<Rightarrow> pystr \<Rightarrow> json_dict" where
  "new_record args alias now =
     [(lit ''schema_version'', JInt 1), (lit ''product'', JStr (arg_product args)), (lit ''alias'', JStr alias),
      (lit ''version'', JStr (arg_version args)), (lit ''state'', JStr (lit ''reserved'')),
      (lit ''definition_sha256'', JStr (arg_definition_sha256 args)), (lit ''created_at'', JStr now)]"

definition advance :: "arguments \<Rightarrow> pystr \<Rightarrow> json_dict \<Rightarrow> (json_dict \<times> bool) res" where
  "advance args now d =
     (case arg_operation args of
        Candidate \<Rightarrow>
          if has_value d ''state'' (lit ''reserved'')
          then (if \<not> id_re (text_or_empty (arg_template_id args)) \<or> \<not> build_re (text_or_empty (arg_build_id args))
                then state_error ''candidate_ids_invalid''
                else Inr (dict_update d [(''template_id'', text_or_empty (arg_template_id args)),
                                         (''build_id'', text_or_empty (arg_build_id args)),
                                         (''state'', lit ''qualified_private'')], True))
          else if \<not> get_equals d ''template_id'' (arg_template_id args)
                  \<or> \<not> get_equals d ''build_id'' (arg_build_id args)
          then state_error ''candidate_ownership_conflict''
          else Inr (d, False)
      | Publish \<Rightarrow>
          if has_value d ''state'' (lit ''qualified_private'')
          then Inr (dict_update d [(''state'', lit ''published''), (''published_at'', now)], True)
          else if \<not> has_value d ''state'' (lit ''published'') then state_error ''publish_state_invalid''
          else Inr (d, False)
      | Rollback \<Rightarrow>
          if \<not> (has_value d ''state'' (lit ''qualified_private'') \<or> has_value d ''state'' (lit ''published'')
                 \<or> has_value d ''state'' (lit ''rolled_back''))
          then state_error ''rollback_state_invalid''
          else if \<not> has_value d ''state'' (lit ''rolled_back'')
          then Inr (dict_update d [(''state'', lit ''rolled_back''), (''rolled_back_at'', now)], True)
          else Inr (d, False)
      | _ \<Rightarrow> Inr (d, False))"

definition decide :: "arguments \<Rightarrow> pystr \<Rightarrow> pystr \<Rightarrow> json_dict option \<Rightarrow> (json_dict \<times> bool) res" where
  "decide args alias now stored =
     (case arg_operation args of
        MigrateDefinition \<Rightarrow> migrate_definition args alias now stored
      | Reserve \<Rightarrow>
          (case stored of
             None \<Rightarrow> Inr (new_record args alias now, True)
           | Some d \<Rightarrow> thenR (require_match d args) (Inr (d, False)))
      | _ \<Rightarrow>
          (case stored of
             None \<Rightarrow> state_error ''journal_missing''
           | Some d \<Rightarrow> thenR (require_match d args) (advance args now d)))"

subsection \<open>The journal on disk\<close>

definition render_record :: "json_dict \<Rightarrow> pystr" where
  "render_record d = dumps (JObj d) @ [10]"

definition parse_record :: "bytes \<Rightarrow> json_dict res" where
  "parse_record raw = bindR (decode_ascii raw) (\<lambda>s. bindR (loads (universal_newlines s)) validate_record)"

text \<open>\<open>None\<close> when the file is missing.\<close>

definition load_metadata :: "nat \<Rightarrow> pystr \<Rightarrow> stat_result option io" where
  "load_metadata parent name =
     catchW (bindW (os_stat_at parent name) (\<lambda>m. return (Some m)))
       (\<lambda>e. if e = OSError ENOENT then return None else raise e)"

fun read_rest :: "nat \<Rightarrow> nat \<Rightarrow> bytes \<Rightarrow> bytes io" where
  "read_rest 0 descriptor acc = raise out_of_fuel"
| "read_rest (Suc fuel) descriptor acc =
     bindW (os_read descriptor (length acc) 8192) (\<lambda>chunk.
       if chunk = [] then return acc else read_rest fuel descriptor (acc @ chunk))"

definition load_record :: "nat \<Rightarrow> nat \<Rightarrow> pystr \<Rightarrow> json_dict option io" where
  "load_record fuel parent name =
     bindW (load_metadata parent name) (\<lambda>metadata.
     (case metadata of
        None \<Rightarrow> return None
      | Some m \<Rightarrow>
          if st_kind m \<noteq> KReg \<or> st_uid m \<noteq> 0 \<or> st_gid m \<noteq> 0 \<or> st_perm m \<noteq> 384 \<or> st_nlink m \<noteq> 1
             \<or> 16384 < st_size m
          then raise (StateError ''journal_metadata_invalid'')
          else
            bindW (os_open_at parent name) (\<lambda>descriptor.
            bindW (read_rest fuel descriptor []) (\<lambda>raw.
            bindW (lift (parse_record raw)) (\<lambda>d. return (Some d))))))"

definition write_record :: "nat \<Rightarrow> pystr \<Rightarrow> json_dict \<Rightarrow> unit io" where
  "write_record parent name d =
     bindW (lift (validate_record (JObj d))) (\<lambda>_.
     bindW (os_fstat parent) (\<lambda>m.
     if st_kind m \<noteq> KDir \<or> st_uid m \<noteq> 0 \<or> st_gid m \<noteq> 0 \<or> st_perm m \<noteq> 448
     then raise (StateError ''journal_directory_invalid'')
     else install_bytes parent ([46] @ name @ [46]) name (render_record d)))"

text \<open>What is printed.\<close>

definition run_operation :: "nat \<Rightarrow> nat \<Rightarrow> pystr \<Rightarrow> pystr \<Rightarrow> arguments \<Rightarrow> pystr io" where
  "run_operation fuel parent name now args =
     bindW (lift (expected args)) (\<lambda>alias.
     bindW (load_record fuel parent name) (\<lambda>stored.
     bindW (lift (decide args alias now stored)) (\<lambda>(d, changed).
     seqW (if changed then write_record parent name d else return ())
       (return (render_record d)))))"

text \<open>The exceptions that end with status 65 and a reason; any other is a traceback.\<close>

fun is_reported :: "exn \<Rightarrow> bool" where
  "is_reported (StateError reason) = True"
| "is_reported e = (is_os_error e \<or> is_value_error e)"

end
