(* ===== verification/Template_Spec.thy ===== *)
theory Template_Spec
  imports Template_Publication Codec
begin

text \<open>
  What the ownership journal of a template promises: a small transition system over its four
  phases, which the decisions of \<open>Template_Publication\<close> implement, the facts that survive every
  sequence of successful commands, and the byte form of a record.
\<close>

subsection \<open>Valid records\<close>

definition valid_record :: "json_dict \<Rightarrow> bool" where
  "valid_record d = (validate_record (JObj d) = Inr d)"

lemma in_state_names: "v \<in> set (map (JStr \<circ> lit) state_names) \<longleftrightarrow> (\<exists>s \<in> set state_names. v = JStr (lit s))"
  by auto

lemma alias_of_lit [simp]:
  "alias_of (lit ''coding'') = Some (lit ''kitdev-coding'')"
  "alias_of (lit ''browser-heavy'') = Some (lit ''kitdev-browser-heavy'')"
  by (simp_all add: alias_of_def aliases_def)

text \<open>The conditions of a valid record on its lookups.\<close>

definition ids_ok :: "json_dict \<Rightarrow> bool" where
  "ids_ok d = (matches_str id_re (get_or_empty d ''template_id'') \<and> matches_str build_re (get_or_empty d ''build_id''))"

definition product_ok :: "json_dict \<Rightarrow> bool" where
  "product_ok d = (\<exists>p a. map_of d (lit ''product'') = Some (JStr p) \<and> alias_of p = Some a
     \<and> map_of d (lit ''alias'') = Some (JStr a))"

definition schema_ok :: "json_dict \<Rightarrow> bool" where
  "schema_ok d = (\<exists>v. map_of d (lit ''schema_version'') = Some v \<and> equals_number v 1)"

definition field_ok :: "json_dict \<Rightarrow> string \<Rightarrow> (pystr \<Rightarrow> bool) \<Rightarrow> bool" where
  "field_ok d k re = (\<exists>v. map_of d (lit k) = Some v \<and> matches_str re v)"

definition state_ok :: "json_dict \<Rightarrow> bool" where
  "state_ok d =
     (\<exists>s \<in> set state_names. map_of d (lit ''state'') = Some (JStr (lit s)) \<and> (s \<noteq> ''reserved'' \<longrightarrow> ids_ok d))"

lemmas ok_defs = product_ok_def schema_ok_def field_ok_def state_ok_def

lemma valid_record_iff:
  "valid_record d \<longleftrightarrow> keys_within d \<and> product_ok d \<and> schema_ok d \<and> field_ok d ''version'' version_re
     \<and> field_ok d ''definition_sha256'' hash_re \<and> state_ok d"
  (is "?l \<longleftrightarrow> ?r")
proof
  assume ?l
  then have k: "keys_within d" and f: "validate_fields d = Inr d"
    by (auto simp: valid_record_def validate_record_def state_error_def split: if_splits)
  obtain product schema version state digest the_alias where g:
    "map_of d (lit ''product'') = Some product" "map_of d (lit ''alias'') = Some the_alias"
    "map_of d (lit ''schema_version'') = Some schema" "map_of d (lit ''version'') = Some version"
    "map_of d (lit ''state'') = Some state" "map_of d (lit ''definition_sha256'') = Some digest"
    using f by (auto simp: validate_fields_def dict_get_def state_error_def split: option.splits if_splits)
  have st: "state \<in> set (map (JStr \<circ> lit) state_names)" "check_ids d state = Inr ()"
    "equals_number schema 1" "matches_str version_re version" "matches_str hash_re digest"
    using f g by (auto simp: validate_fields_def dict_get_def state_error_def simp del: set_map split: option.splits if_splits)
  have pr: "\<exists>p a. product = JStr p \<and> alias_of p = Some a \<and> the_alias = JStr a"
    using f g by (auto simp: validate_fields_def dict_get_def state_error_def product_alias_def
        split: option.splits if_splits json.splits)
  obtain s where s: "s \<in> set state_names" "state = JStr (lit s)" using st(1) by auto
  have "s \<noteq> ''reserved'' \<longrightarrow> ids_ok d"
    using st(2) s(2) by (auto simp: check_ids_def state_error_def ids_ok_def split: if_splits)
  then show ?r using k g st pr s by (auto simp: ok_defs)
next
  assume r: ?r
  then obtain p a v1 v2 v3 s where g:
    "map_of d (lit ''product'') = Some (JStr p)" "alias_of p = Some a" "map_of d (lit ''alias'') = Some (JStr a)"
    "map_of d (lit ''schema_version'') = Some v1" "equals_number v1 1"
    "map_of d (lit ''version'') = Some v2" "matches_str version_re v2"
    "map_of d (lit ''definition_sha256'') = Some v3" "matches_str hash_re v3"
    "s \<in> set state_names" "map_of d (lit ''state'') = Some (JStr (lit s))" "s \<noteq> ''reserved'' \<longrightarrow> ids_ok d"
    unfolding ok_defs by blast
  then have "validate_fields d = Inr d"
    by (auto simp: validate_fields_def dict_get_def require_hashable_def product_alias_def check_ids_def ids_ok_def
        simp del: bindR_eq_Inr)
  then show ?l using r by (simp add: valid_record_def validate_record_def)
qed

text \<open>Validation returns the dict it was given.\<close>

lemma validate_record_returns: "validate_record v = Inr d \<Longrightarrow> v = JObj d \<and> valid_record d"
  by (auto simp: validate_record_def validate_fields_def state_error_def valid_record_def
      split: json.splits if_splits option.splits)

subsection \<open>Phases\<close>

datatype phase = Reserved | QualifiedPrivate | Published | RolledBack

fun phase_name :: "phase \<Rightarrow> string" where
  "phase_name Reserved = ''reserved''"
| "phase_name QualifiedPrivate = ''qualified_private''"
| "phase_name Published = ''published''"
| "phase_name RolledBack = ''rolled_back''"

definition in_phase :: "json_dict \<Rightarrow> phase \<Rightarrow> bool" where
  "in_phase d p = has_value d ''state'' (lit (phase_name p))"

lemma phase_name_eq [simp]: "phase_name p = phase_name q \<longleftrightarrow> p = q"
  by (cases p; cases q) simp_all

lemma in_phase_unique: "in_phase d p \<Longrightarrow> in_phase d q \<longleftrightarrow> q = p"
  by (auto simp: in_phase_def has_value_def)

lemma has_state [simp]:
  "in_phase d p \<Longrightarrow> has_value d ''state'' (lit ''reserved'') \<longleftrightarrow> p = Reserved"
  "in_phase d p \<Longrightarrow> has_value d ''state'' (lit ''qualified_private'') \<longleftrightarrow> p = QualifiedPrivate"
  "in_phase d p \<Longrightarrow> has_value d ''state'' (lit ''published'') \<longleftrightarrow> p = Published"
  "in_phase d p \<Longrightarrow> has_value d ''state'' (lit ''rolled_back'') \<longleftrightarrow> p = RolledBack"
  by (cases p; simp add: in_phase_def has_value_def)+

lemma valid_has_phase: "valid_record d \<Longrightarrow> \<exists>p. in_phase d p"
proof -
  assume "valid_record d"
  then obtain s where s: "s \<in> set state_names" "map_of d (lit ''state'') = Some (JStr (lit s))"
    unfolding valid_record_iff state_ok_def by blast
  then have "\<exists>p. s = phase_name p"
    by (auto simp: state_names_def) (metis phase_name.simps)+
  then show ?thesis using s by (auto simp: in_phase_def has_value_def)
qed

text \<open>The moves of a template: which operation takes it from which phase to which.\<close>

inductive moves :: "operation \<Rightarrow> phase option \<Rightarrow> phase \<Rightarrow> bool" where
  reserve: "moves Reserve None Reserved"
| qualify: "moves Candidate (Some Reserved) QualifiedPrivate"
| migrate: "moves MigrateDefinition (Some QualifiedPrivate) QualifiedPrivate"
| publish: "moves Publish (Some QualifiedPrivate) Published"
| withdraw: "p \<in> {QualifiedPrivate, Published} \<Longrightarrow> moves Rollback (Some p) RolledBack"

inductive_cases movesE: "moves op p q"

text \<open>An operation that finds its work done, or has none, changes nothing.\<close>

fun settled :: "operation \<Rightarrow> phase \<Rightarrow> bool" where
  "settled Reserve p = True"
| "settled Show p = True"
| "settled Candidate p = (p \<noteq> Reserved)"
| "settled Publish p = (p = Published)"
| "settled Rollback p = (p = RolledBack)"
| "settled MigrateDefinition p = False"

text \<open>The keys that a move writes; no other lookup changes.\<close>

fun written_keys :: "operation \<Rightarrow> string set" where
  "written_keys Reserve = {}"
| "written_keys Show = {}"
| "written_keys Candidate = {''template_id'', ''build_id'', ''state''}"
| "written_keys Publish = {''state'', ''published_at''}"
| "written_keys Rollback = {''state'', ''rolled_back_at''}"
| "written_keys MigrateDefinition = {''definition_sha256'', ''definition_migrated_at''}"

lemma get_update [simp]:
  "map_of (dict_update d []) k = map_of d k"
  "map_of (dict_update d ((j, v) # kvs)) k = map_of (dict_update (AList.update (lit j) (JStr v) d) kvs) k"
  by (simp_all add: dict_update_def)

lemma get_update_one [simp]: "map_of (AList.update j v d) k = (if k = j then Some v else map_of d k)"
  by (simp add: update_conv')

lemma keys_update_one: "set (map fst (AList.update j v d)) = insert j (set (map fst d))"
  by (induction d) auto

lemma keys_update: "set (map fst (dict_update d kvs)) = set (map fst d) \<union> lit ` fst ` set kvs"
proof (induction kvs arbitrary: d)
  case (Cons kv kvs)
  have "dict_update d (kv # kvs) = dict_update (AList.update (lit (fst kv)) (JStr (snd kv)) d) kvs"
    by (simp add: dict_update_def case_prod_unfold)
  then show ?case unfolding \<open>dict_update d (kv # kvs) = _\<close> Cons.IH keys_update_one by auto
qed (simp add: dict_update_def)

lemma keys_within_update:
  "keys_within d \<Longrightarrow> fst ` set kvs \<subseteq> set (required_keys @ optional_keys) \<Longrightarrow> keys_within (dict_update d kvs)"
  unfolding keys_within_def keys_update by auto

subsection \<open>Decisions are moves\<close>

definition valid_stored :: "json_dict option \<Rightarrow> bool" where
  "valid_stored stored = (case stored of None \<Rightarrow> True | Some d \<Rightarrow> valid_record d)"

definition at_phase :: "json_dict option \<Rightarrow> phase option \<Rightarrow> bool" where
  "at_phase stored p =
     (case stored of None \<Rightarrow> p = None | Some d \<Rightarrow> (case p of None \<Rightarrow> False | Some q \<Rightarrow> in_phase d q))"

text \<open>What a decision must look like: a move that is written, or nothing to do.\<close>

definition good_decision :: "operation \<Rightarrow> json_dict option \<Rightarrow> json_dict \<Rightarrow> bool \<Rightarrow> bool" where
  "good_decision op stored d' w =
     (valid_record d'
      \<and> (\<exists>q. in_phase d' q \<and> (if w then \<exists>p. at_phase stored p \<and> moves op p q else stored = Some d' \<and> settled op q))
      \<and> (case stored of None \<Rightarrow> True
         | Some d \<Rightarrow> \<forall>k. k \<notin> lit ` written_keys op \<longrightarrow> map_of d' k = map_of d k))"

lemma valid_ids:
  "valid_record d \<Longrightarrow> in_phase d p \<Longrightarrow> p \<noteq> Reserved \<Longrightarrow> ids_ok d"
  unfolding valid_record_iff state_ok_def in_phase_def has_value_def by (cases p) auto

lemma lookup_update:
  "k \<notin> fst ` set kvs \<Longrightarrow> map_of (dict_update d kvs) (lit k) = map_of d (lit k)"
  by (induction kvs arbitrary: d) auto

text \<open>What an update leaves alone stays valid.\<close>

lemma ok_update:
  "{''product'', ''alias''} \<inter> fst ` set kvs = {} \<Longrightarrow> product_ok d \<Longrightarrow> product_ok (dict_update d kvs)"
  "''schema_version'' \<notin> fst ` set kvs \<Longrightarrow> schema_ok d \<Longrightarrow> schema_ok (dict_update d kvs)"
  "k \<notin> fst ` set kvs \<Longrightarrow> field_ok d k re \<Longrightarrow> field_ok (dict_update d kvs) k re"
  "{''template_id'', ''build_id''} \<inter> fst ` set kvs = {} \<Longrightarrow> ids_ok d \<Longrightarrow> ids_ok (dict_update d kvs)"
  "{''state'', ''template_id'', ''build_id''} \<inter> fst ` set kvs = {} \<Longrightarrow> state_ok d \<Longrightarrow> state_ok (dict_update d kvs)"
  by (simp_all add: ok_defs ids_ok_def get_or_empty_def lookup_update)

lemma valid_state_update:
  assumes "valid_record d" "ids_ok d" "s \<in> {''published'', ''rolled_back''}"
    "k \<in> {''published_at'', ''rolled_back_at''}"
  shows "valid_record (dict_update d [(''state'', lit s), (k, v)])"
proof -
  let ?kvs = "[(''state'', lit s), (k, v)]"
  have keys: "fst ` set ?kvs \<subseteq> {''state'', ''published_at'', ''rolled_back_at''}" using assms(4) by auto
  have "ids_ok (dict_update d ?kvs)" by (rule ok_update(4)) (use keys assms(2) in auto)
  moreover have "map_of (dict_update d ?kvs) (lit ''state'') = Some (JStr (lit s))" using assms(4) by auto
  moreover have "s \<in> set state_names" using assms(3) by (auto simp: state_names_def)
  ultimately have "state_ok (dict_update d ?kvs)" unfolding state_ok_def by blast
  moreover have "keys_within (dict_update d ?kvs)"
    by (rule keys_within_update) (use assms keys in \<open>auto simp: valid_record_iff required_keys_def optional_keys_def\<close>)
  ultimately show ?thesis
    using assms(1,4) by (auto simp: valid_record_iff intro!: ok_update(1-3))
qed

lemma matches_str_JStr [simp]: "matches_str re (JStr s) = re s"
  by (simp add: matches_str_def)

lemma valid_candidate:
  assumes "valid_record d" "id_re t" "build_re b"
  shows "valid_record (dict_update d [(''template_id'', t), (''build_id'', b), (''state'', lit ''qualified_private'')])"
proof -
  let ?kvs = "[(''template_id'', t), (''build_id'', b), (''state'', lit ''qualified_private'')]"
  have "ids_ok (dict_update d ?kvs)" using assms(2,3) by (simp add: ids_ok_def get_or_empty_def)
  then have "state_ok (dict_update d ?kvs)" by (auto simp: state_ok_def state_names_def)
  moreover have "keys_within (dict_update d ?kvs)"
    by (rule keys_within_update) (use assms in \<open>auto simp: valid_record_iff required_keys_def optional_keys_def\<close>)
  ultimately show ?thesis
    using assms(1) by (auto simp: valid_record_iff intro!: ok_update(1-3))
qed

lemma valid_migration:
  assumes "valid_record d" "hash_re h"
  shows "valid_record (dict_update d [(''definition_sha256'', h), (''definition_migrated_at'', now)])"
proof -
  let ?kvs = "[(''definition_sha256'', h), (''definition_migrated_at'', now)]"
  have "field_ok (dict_update d ?kvs) ''definition_sha256'' hash_re" using assms(2) by (simp add: field_ok_def)
  moreover have "keys_within (dict_update d ?kvs)"
    by (rule keys_within_update) (use assms in \<open>auto simp: valid_record_iff required_keys_def optional_keys_def\<close>)
  ultimately show ?thesis
    using assms(1) by (auto simp: valid_record_iff intro!: ok_update)
qed

lemma expected_args:
  assumes "expected args = Inr alias_name"
  shows "alias_of (arg_product args) = Some alias_name" "version_re (arg_version args)"
    "hash_re (arg_definition_sha256 args)"
  using assms by (auto simp: expected_def state_error_def split: option.splits if_splits)

lemma valid_new_record:
  assumes "expected args = Inr alias_name"
  shows "valid_record (new_record args alias_name now)"
proof -
  have "keys_within (new_record args alias_name now)"
    by (auto simp: new_record_def keys_within_def required_keys_def optional_keys_def)
  then show ?thesis
    using expected_args [OF assms]
    by (simp add: valid_record_iff ok_defs new_record_def state_names_def)
qed

text \<open>One lemma for each way a decision writes.\<close>

lemma good_candidate:
  assumes "valid_record d" "in_phase d Reserved" "id_re t" "build_re b"
  shows "good_decision Candidate (Some d)
    (dict_update d [(''template_id'', t), (''build_id'', b), (''state'', lit ''qualified_private'')]) True"
proof -
  let ?d = "dict_update d [(''template_id'', t), (''build_id'', b), (''state'', lit ''qualified_private'')]"
  have "in_phase ?d QualifiedPrivate" by (simp add: in_phase_def has_value_def)
  moreover have "at_phase (Some d) (Some Reserved)" using assms(2) by (simp add: at_phase_def)
  moreover have "map_of ?d k = map_of d k" if "k \<notin> lit ` written_keys Candidate" for k
    using that by auto
  ultimately show ?thesis
    using valid_candidate [OF assms(1,3,4)] moves.qualify unfolding good_decision_def by auto
qed

lemma good_migration:
  assumes "valid_record d" "in_phase d QualifiedPrivate" "hash_re h"
  shows "good_decision MigrateDefinition (Some d)
    (dict_update d [(''definition_sha256'', h), (''definition_migrated_at'', now)]) True"
proof -
  let ?d = "dict_update d [(''definition_sha256'', h), (''definition_migrated_at'', now)]"
  have "in_phase ?d QualifiedPrivate" using assms(2) by (simp add: in_phase_def has_value_def)
  moreover have "at_phase (Some d) (Some QualifiedPrivate)" using assms(2) by (simp add: at_phase_def)
  moreover have "map_of ?d k = map_of d k" if "k \<notin> lit ` written_keys MigrateDefinition" for k
    using that by auto
  ultimately show ?thesis
    using valid_migration [OF assms(1,3)] moves.migrate unfolding good_decision_def by auto
qed

lemma good_state_update:
  assumes "valid_record d" "in_phase d p" "moves op (Some p) q" "q \<in> {Published, RolledBack}"
    "k \<in> {''published_at'', ''rolled_back_at''}" "{''state'', k} \<subseteq> written_keys op"
  shows "good_decision op (Some d) (dict_update d [(''state'', lit (phase_name q)), (k, now)]) True"
proof -
  let ?d = "dict_update d [(''state'', lit (phase_name q)), (k, now)]"
  have "p \<noteq> Reserved" using assms(3,4) by (auto elim: movesE)
  then have "ids_ok d" using valid_ids assms(1,2) by blast
  then have "valid_record ?d" using assms(1,4,5) by (intro valid_state_update) auto
  moreover have "in_phase ?d q" using assms(5) by (auto simp: in_phase_def has_value_def)
  moreover have "at_phase (Some d) (Some p)" using assms(2) by (simp add: at_phase_def)
  moreover have "map_of ?d k' = map_of d k'" if "k' \<notin> lit ` written_keys op" for k'
    using that assms(6) by auto
  ultimately show ?thesis using assms(3) unfolding good_decision_def by auto
qed

lemma good_reserve:
  "expected args = Inr alias_name \<Longrightarrow> good_decision Reserve None (new_record args alias_name now) True"
  using valid_new_record [of args alias_name now] moves.reserve
  by (auto simp: good_decision_def at_phase_def in_phase_def has_value_def new_record_def intro!: exI [of _ Reserved])

lemma good_settled:
  "valid_record d \<Longrightarrow> in_phase d p \<Longrightarrow> settled op p \<Longrightarrow> good_decision op (Some d) d False"
  by (auto simp: good_decision_def)

text \<open>The command line has already been checked when a decision is made.\<close>

lemma decide_good:
  assumes "valid_stored stored" "expected args = Inr alias_name"
    "decide args alias_name now stored = Inr (d', w)"
  shows "good_decision (arg_operation args) stored d' w"
proof (cases stored)
  case None
  then show ?thesis
    using assms good_reserve [OF assms(2), of now]
    by (auto simp: decide_def migrate_definition_def state_error_def split: operation.splits)
next
  case (Some d)
  then have v: "valid_record d" using assms(1) by (simp add: valid_stored_def)
  then obtain p where p: "in_phase d p" using valid_has_phase by blast
  note settle = good_settled [OF v p]
  show ?thesis
  proof (cases "arg_operation args")
    case MigrateDefinition
    then show ?thesis
      using assms(3) p good_migration [OF v _ expected_args(3) [OF assms(2)], of now] Some
      by (auto simp: decide_def migrate_definition_def state_error_def split: if_splits)
  next
    case Reserve
    then show ?thesis using assms(3) settle [of Reserve] Some by (auto simp: decide_def)
  next
    case Show
    then show ?thesis using assms(3) settle [of Show] Some by (auto simp: decide_def advance_def)
  next
    case Candidate
    then show ?thesis
      using assms(3) p settle [of Candidate] good_candidate [OF v] Some
      by (auto simp: decide_def advance_def state_error_def split: if_splits)
  next
    case Publish
    then show ?thesis
      using assms(3) p settle [of Publish] Some
        good_state_update [OF v p, of Publish Published "''published_at''" now] moves.publish
      by (auto simp: decide_def advance_def state_error_def split: if_splits)
  next
    case Rollback
    then show ?thesis
      using assms(3) p settle [of Rollback] Some
        good_state_update [OF v p, of Rollback RolledBack "''rolled_back_at''" now] moves.withdraw [of p]
      by (auto simp: decide_def advance_def state_error_def split: if_splits)
  qed
qed

subsection \<open>Records the program wrote\<close>

fun plain_value :: "json \<Rightarrow> bool" where
  "plain_value (JStr s) = scalar_text s"
| "plain_value (JInt i) = (i = 1)"
| "plain_value v = False"

definition plain_record :: "json_dict \<Rightarrow> bool" where
  "plain_record d = (valid_record d \<and> distinct (map fst d) \<and> list_all (plain_value \<circ> snd) d)"

lemma plain_value_json: "plain_value v \<Longrightarrow> json_ok v \<and> canon v = v"
  by (cases v) (simp_all add: nat_digits.simps int_limit_def)

lemma plain_record_json:
  assumes "plain_record d"
  shows "json_ok (JObj d)" "canon (JObj d) = JObj (sort_key fst d)"
proof -
  have v: "json_ok v \<and> canon v = v" if "(k, v) \<in> set d" for k v
    using assms that plain_value_json by (fastforce simp: plain_record_def list_all_iff)
  have "set (map fst d) \<subseteq> set (map lit (required_keys @ optional_keys))"
    using assms by (simp add: plain_record_def valid_record_iff keys_within_def del: set_map)
  then have "list_all (scalar_text \<circ> fst) d" by (fastforce simp: list_all_iff)
  then show "json_ok (JObj d)" using v assms by (auto simp: plain_record_def list_all_iff)
  have "map (map_prod id canon) d = d" by (rule map_idI) (use v in auto)
  then show "canon (JObj d) = JObj (sort_key fst d)" by (simp only: canon.simps)
qed

lemma valid_record_cong:
  "set (map fst d) = set (map fst d') \<Longrightarrow> map_of d = map_of d' \<Longrightarrow> valid_record d = valid_record d'"
  by (simp only: valid_record_iff ok_defs keys_within_def ids_ok_def get_or_empty_def)

lemma plain_record_sort:
  assumes "plain_record d"
  shows "plain_record (sort_key fst d)" "map_of (sort_key fst d) = map_of d"
proof -
  show m: "map_of (sort_key fst d) = map_of d" using assms by (simp add: plain_record_def map_of_sort_key)
  have "valid_record (sort_key fst d) = valid_record d"
    by (rule valid_record_cong [OF _ m]) simp
  then show "plain_record (sort_key fst d)"
    using assms by (simp add: plain_record_def distinct_sort_key_fst list_all_iff)
qed

lemma parse_render:
  assumes "plain_record d"
  shows "parse_record (render_record d) = Inr (sort_key fst d)"
proof -
  note ok = plain_record_json [OF assms]
  have "list_all plain_char (dumps (JObj d))" by (rule plain_dumps [OF ok(1)])
  then have "13 \<notin> set (render_record d)" "is_ascii (render_record d)"
    by (auto simp: render_record_def list_all_iff plain_char_def is_ascii_def simp del: dumps.simps)
  moreover have "loads (render_record d) = Inr (JObj (sort_key fst d))"
    using loads_dumps_line [OF ok(1)] unfolding ok(2) render_record_def .
  moreover have "validate_record (JObj (sort_key fst d)) = Inr (sort_key fst d)"
    using plain_record_sort(1) [OF assms] by (simp add: plain_record_def valid_record_def)
  ultimately show ?thesis
    by (simp add: parse_record_def decode_ascii_def universal_newlines_plain del: bindR_eq_Inr)
qed

text \<open>The journal keeps the lossless contract on records in key order, the form it reads.\<close>

interpretation template_form: lossless "\<lambda>d. Inr (render_record d)" parse_record
  "\<lambda>d. plain_record d \<and> sort_key fst d = d"
  by unfold_locales (auto simp: parse_render)

subsection \<open>Histories\<close>

text \<open>
  The records that successive successful commands leave, each reading what the one before wrote;
  \<open>s\<close> is the state in which the history starts.
\<close>

inductive history :: "json_dict option \<Rightarrow> json_dict option \<Rightarrow> bool" for s where
  begins: "history s s"
| goes_on:
    "history s t \<Longrightarrow> expected args = Inr alias_name \<Longrightarrow> scalar_text now
      \<Longrightarrow> decide args alias_name now t = Inr (d, w) \<Longrightarrow> parse_record (render_record d) = Inr d'
      \<Longrightarrow> history s (Some d')"

definition plain_stored :: "json_dict option \<Rightarrow> bool" where
  "plain_stored stored = (case stored of None \<Rightarrow> True | Some d \<Rightarrow> plain_record d)"

lemma plain_stored_simps [simp]: "plain_stored None" "plain_stored (Some d) = plain_record d"
  by (simp_all add: plain_stored_def)

lemma plain_is_valid: "plain_stored s \<Longrightarrow> valid_stored s"
  by (auto simp: plain_stored_def valid_stored_def plain_record_def split: option.splits)

lemma scalar_of_ascii: "list_all (\<lambda>c. c < 128) s \<Longrightarrow> scalar_text s"
  by (auto simp: scalar_text_def scalar_char_def is_surrogate_def in_range_def list_all_iff)

lemma split_on_chars: "set s \<subseteq> insert c (\<Union> (set ` set (split_on c s)))"
proof (induction c s rule: split_on.induct)
  case (2 c x s)
  then show ?case by (cases "split_on c s") auto
qed simp

lemma pattern_scalar:
  "id_re s \<Longrightarrow> scalar_text s" "hash_re s \<Longrightarrow> scalar_text s" "version_re s \<Longrightarrow> scalar_text s" "build_re s \<Longrightarrow> scalar_text s"
proof -
  show "id_re s \<Longrightarrow> scalar_text s"
    by (rule scalar_of_ascii) (auto simp: id_re_def is_id_char_def char_class_defs list_all_iff)
  show "hash_re s \<Longrightarrow> scalar_text s"
    by (rule scalar_of_ascii) (auto simp: hash_re_def all_of_length_def char_class_defs list_all_iff)
  show "version_re s \<Longrightarrow> scalar_text s"
    by (rule scalar_of_ascii) (auto simp: version_re_def char_class_defs list_all_iff split: list.splits)
  show "build_re s \<Longrightarrow> scalar_text s"
    using split_on_chars [of s 45]
    by (intro scalar_of_ascii) (fastforce simp: build_re_def Let_def char_class_defs list_all_iff)
qed

lemma plain_update_one:
  "distinct (map fst d) \<Longrightarrow> list_all (plain_value \<circ> snd) d \<Longrightarrow> scalar_text s
    \<Longrightarrow> distinct (map fst (AList.update k (JStr s) d)) \<and> list_all (plain_value \<circ> snd) (AList.update k (JStr s) d)"
  by (induction d) (auto simp: keys_update_one simp del: set_map)

lemma plain_update:
  "plain_record d \<Longrightarrow> list_all (scalar_text \<circ> snd) kvs \<Longrightarrow> valid_record (dict_update d kvs) \<Longrightarrow> plain_record (dict_update d kvs)"
proof -
  have "distinct (map fst d) \<Longrightarrow> list_all (plain_value \<circ> snd) d \<Longrightarrow> list_all (scalar_text \<circ> snd) kvs \<Longrightarrow>
     distinct (map fst (dict_update d kvs)) \<and> list_all (plain_value \<circ> snd) (dict_update d kvs)"
  proof (induction kvs arbitrary: d)
    case (Cons kv kvs)
    then show ?case using plain_update_one [of d "snd kv" "lit (fst kv)"]
      by (simp add: dict_update_def case_prod_unfold comp_def)
  qed (simp add: dict_update_def)
  then show "plain_record d \<Longrightarrow> list_all (scalar_text \<circ> snd) kvs \<Longrightarrow> valid_record (dict_update d kvs) \<Longrightarrow> plain_record (dict_update d kvs)"
    by (simp add: plain_record_def)
qed

lemma decide_plain:
  assumes "plain_stored stored" "expected args = Inr alias_name" "scalar_text now"
    "decide args alias_name now stored = Inr (d', w)"
  shows "plain_record d'"
proof -
  have v: "valid_record d'"
    using decide_good [OF plain_is_valid [OF assms(1)] assms(2,4)] by (simp add: good_decision_def)
  note args = expected_args [OF assms(2)]
  have a: "scalar_text alias_name" "scalar_text (arg_product args)"
    using args(1) by (auto simp: alias_of_def aliases_def split: if_splits)
  show ?thesis
  proof (cases stored)
    case None
    then have "d' = new_record args alias_name now"
      using assms(4) by (auto simp: decide_def migrate_definition_def state_error_def split: operation.splits)
    moreover have "distinct (map fst (new_record args alias_name now))"
      by (simp add: new_record_def)
    ultimately show ?thesis
      using v a assms(3) pattern_scalar(2,3) args by (simp add: plain_record_def new_record_def)
  next
    case (Some d)
    then have p: "plain_record d" using assms(1) by simp
    then have "d' = d \<or> (\<exists>kvs. d' = dict_update d kvs \<and> list_all (scalar_text \<circ> snd) kvs)"
      using assms(3,4) Some pattern_scalar args
      by (auto simp: decide_def migrate_definition_def advance_def state_error_def
          split: operation.splits if_splits intro!: exI conjI)
    then show ?thesis using plain_update [OF p] p v by blast
  qed
qed

lemma history_plain: "history s t \<Longrightarrow> plain_stored s \<Longrightarrow> plain_stored t"
proof (induction rule: history.induct)
  case (goes_on t args alias_name now d w d')
  then have "plain_record d" using decide_plain by blast
  then show ?case using goes_on.hyps(5) parse_render [of d] plain_record_sort(1) [of d] by auto
qed simp

text \<open>What one more command does to the lookups of a record.\<close>

lemma step_effect:
  assumes "plain_record t" "expected args = Inr alias_name" "scalar_text now"
    "decide args alias_name now (Some t) = Inr (d, w)" "parse_record (render_record d) = Inr d'"
  shows "plain_record d' \<and> (\<exists>p q. in_phase t p \<and> in_phase d' q
      \<and> (moves (arg_operation args) (Some p) q \<or> q = p \<and> map_of d' = map_of t))
    \<and> (\<forall>k. k \<notin> lit ` written_keys (arg_operation args) \<longrightarrow> map_of d' k = map_of t k)"
proof -
  have p: "plain_record d" using decide_plain [of "Some t"] assms by simp
  have m: "map_of d' = map_of d" "plain_record d'"
    using assms(5) parse_render [OF p] plain_record_sort [OF p] by auto
  have g: "good_decision (arg_operation args) (Some t) d w"
    by (rule decide_good [OF _ assms(2,4)]) (use assms(1) in \<open>simp add: valid_stored_def plain_record_def\<close>)
  then obtain q where q: "in_phase d q"
    "if w then \<exists>p. at_phase (Some t) p \<and> moves (arg_operation args) p q else t = d"
    unfolding good_decision_def by (metis option.inject)
  have same: "\<And>k. k \<notin> lit ` written_keys (arg_operation args) \<Longrightarrow> map_of d' k = map_of t k"
    using g m(1) by (simp add: good_decision_def)
  have q': "in_phase d' q" using q(1) m(1) by (simp add: in_phase_def has_value_def)
  have "\<exists>p q. in_phase t p \<and> in_phase d' q
      \<and> (moves (arg_operation args) (Some p) q \<or> q = p \<and> map_of d' = map_of t)"
  proof (cases w)
    case True
    then obtain p where "in_phase t p" "moves (arg_operation args) (Some p) q"
      using q(2) by (auto simp: at_phase_def split: option.splits)
    then show ?thesis using q' by blast
  next
    case False
    then show ?thesis using q q' m by auto
  qed
  then show ?thesis using m(2) same by blast
qed

text \<open>The operations that an authorised command line asks for.\<close>

definition authorised :: "arguments \<Rightarrow> pystr \<Rightarrow> json_dict option \<Rightarrow> bool" where
  "authorised args alias_name stored =
     (case stored of
        None \<Rightarrow> True
      | Some d \<Rightarrow>
          has_value d ''product'' (arg_product args) \<and> has_value d ''alias'' alias_name
          \<and> has_value d ''version'' (arg_version args)
          \<and> (case arg_operation args of
               MigrateDefinition \<Rightarrow>
                 (case arg_prior_definition_sha256 args of
                    None \<Rightarrow> False
                  | Some h \<Rightarrow> hash_re h \<and> has_value d ''definition_sha256'' h)
             | Candidate \<Rightarrow>
                 has_value d ''definition_sha256'' (arg_definition_sha256 args)
                 \<and> id_re (text_or_empty (arg_template_id args)) \<and> build_re (text_or_empty (arg_build_id args))
             | _ \<Rightarrow> has_value d ''definition_sha256'' (arg_definition_sha256 args)))"

lemma authorised_moves:
  assumes "expected args = Inr alias_name" "at_phase stored p" "moves (arg_operation args) p q"
    "authorised args alias_name stored"
  shows "\<exists>d'. decide args alias_name now stored = Inr (d', True)"
proof (cases stored)
  case None
  then show ?thesis using assms(2,3) by (auto simp: decide_def at_phase_def elim: movesE)
next
  case (Some d)
  then obtain r where r: "p = Some r" "in_phase d r" using assms(2) by (auto simp: at_phase_def split: option.splits)
  note a = assms(4) [unfolded Some authorised_def option.case]
  have m: "require_match d args = Inr ()" if "has_value d ''definition_sha256'' (arg_definition_sha256 args)"
    using a that assms(1) by (simp add: require_match_def)
  note phase = has_state [OF r(2)]
  from assms(3) show ?thesis
  proof cases
    case qualify
    then show ?thesis using a m phase Some r by (simp add: decide_def advance_def)
  next
    case migrate
    obtain h where h: "arg_prior_definition_sha256 args = Some h" "hash_re h" "has_value d ''definition_sha256'' h"
      using a migrate(1) by (auto split: option.splits)
    then show ?thesis
      using a phase Some r migrate
      by (simp add: decide_def migrate_definition_def get_equals_def text_or_empty_def) (simp add: has_value_def)
  next
    case publish
    then show ?thesis using a m phase Some r by (simp add: decide_def advance_def)
  next
    case (withdraw p')
    then show ?thesis using a m phase Some r by (auto simp: decide_def advance_def)
  qed (use r in simp)
qed

text \<open>What no command of a history changes.\<close>

lemma histories_keep_identity_aux:
  assumes "history (Some d) t" "plain_record d"
  shows "\<exists>d'. t = Some d' \<and> plain_record d' \<and> parse_record (render_record d') = Inr (sort_key fst d')
    \<and> (\<forall>k \<in> {''schema_version'', ''product'', ''alias'', ''version'', ''created_at''}. map_of d' (lit k) = map_of d (lit k))"
  using assms
proof (induction rule: history.induct)
  case begins
  then show ?case using parse_render by blast
next
  case (goes_on t args alias_name now e w d')
  then obtain t' where t: "t = Some t'" "plain_record t'"
    "\<forall>k \<in> {''schema_version'', ''product'', ''alias'', ''version'', ''created_at''}. map_of t' (lit k) = map_of d (lit k)"
    by blast
  have s: "plain_record d'" "\<And>k. k \<notin> lit ` written_keys (arg_operation args) \<Longrightarrow> map_of d' k = map_of t' k"
    using step_effect [OF t(2) goes_on.hyps(2,3) goes_on.hyps(4) [unfolded t(1)] goes_on.hyps(5)] by blast+
  have "lit k \<notin> lit ` written_keys (arg_operation args)"
    if "k \<in> {''schema_version'', ''product'', ''alias'', ''version'', ''created_at''}" for k
    using that by (cases "arg_operation args") auto
  then have "map_of d' (lit k) = map_of d (lit k)"
    if "k \<in> {''schema_version'', ''product'', ''alias'', ''version'', ''created_at''}" for k
    using s(2) t(3) that by metis
  then show ?case using s(1) parse_render by blast
qed

subsection \<open>A sample template\<close>

definition sample_arguments :: "operation \<Rightarrow> arguments" where
  "sample_arguments op =
     \<lparr>arg_operation = op, arg_product = lit ''coding'', arg_version = lit ''v1'',
      arg_definition_sha256 = replicate 64 97, arg_prior_definition_sha256 = None,
      arg_template_id = Some (replicate 16 97),
      arg_build_id = Some (lit ''0a1b2c3d-0a1b-0a1b-0a1b-0a1b2c3d4e5f'')\<rparr>"

definition sample_now :: pystr where
  "sample_now = lit ''2026-01-01T00:00:00Z''"

definition sample_record :: json_dict where
  "sample_record = sort_key fst (new_record (sample_arguments Reserve) (lit ''kitdev-coding'') sample_now)"

lemma sample_expected: "expected (sample_arguments op) = Inr (lit ''kitdev-coding'')"
proof -
  have "version_re (lit ''v1'')" by (simp add: version_re_def lit_def char_class_defs)
  moreover have "hash_re (replicate 64 97)"
    by (simp add: hash_re_def all_of_length_def char_class_defs list_all_iff)
  ultimately show ?thesis by (simp add: expected_def sample_arguments_def)
qed

lemma sample_ids: "id_re (replicate 16 97)" "build_re (lit ''0a1b2c3d-0a1b-0a1b-0a1b-0a1b2c3d4e5f'')"
  by (simp_all add: id_re_def build_re_def is_id_char_def lit_def char_class_defs list_all_iff)

lemma sample_now_scalar: "scalar_text sample_now"
  by (simp add: sample_now_def)

lemma sample_plain:
  "plain_record (new_record (sample_arguments Reserve) (lit ''kitdev-coding'') sample_now)" "plain_record sample_record"
proof -
  show p: "plain_record (new_record (sample_arguments Reserve) (lit ''kitdev-coding'') sample_now)"
    by (rule decide_plain [OF _ sample_expected sample_now_scalar, of None Reserve _ True])
      (simp_all add: decide_def sample_arguments_def)
  then show "plain_record sample_record" unfolding sample_record_def by (rule plain_record_sort)
qed

lemma sample_lookup:
  "map_of sample_record = map_of (new_record (sample_arguments Reserve) (lit ''kitdev-coding'') sample_now)"
  unfolding sample_record_def by (rule plain_record_sort) (rule sample_plain)

lemma sample_phase: "in_phase sample_record Reserved"
  by (simp add: in_phase_def has_value_def sample_lookup new_record_def)

lemma sample_has:
  "has_value sample_record ''product'' (lit ''coding'')" "has_value sample_record ''alias'' (lit ''kitdev-coding'')"
  "has_value sample_record ''version'' (lit ''v1'')" "has_value sample_record ''definition_sha256'' (replicate 64 97)"
  by (simp_all add: has_value_def sample_lookup new_record_def sample_arguments_def)

text \<open>Each phase of the sample can be reached.\<close>

lemma sample_step:
  assumes "history (Some sample_record) (Some d)" "in_phase d p" "moves op (Some p) q" "op \<noteq> MigrateDefinition"
    "map_of d (lit ''definition_sha256'') = map_of sample_record (lit ''definition_sha256'')"
  shows "\<exists>d'. history (Some sample_record) (Some d') \<and> in_phase d' q
    \<and> map_of d' (lit ''definition_sha256'') = map_of sample_record (lit ''definition_sha256'')"
proof -
  let ?args = "sample_arguments op"
  have plain: "plain_record d" using history_plain [OF assms(1)] sample_plain(2) by simp
  have "\<exists>e. Some d = Some e \<and> (\<forall>k \<in> {''schema_version'', ''product'', ''alias'', ''version'', ''created_at''}.
      map_of e (lit k) = map_of sample_record (lit k))"
    using histories_keep_identity_aux [OF assms(1) sample_plain(2)] by blast
  then have same: "map_of d (lit k) = map_of sample_record (lit k)" if "k \<in> {''product'', ''alias'', ''version''}" for k
    using that by auto
  have auth: "authorised ?args (lit ''kitdev-coding'') (Some d)"
    using sample_has sample_ids same assms(4,5)
    by (auto simp: authorised_def sample_arguments_def has_value_def text_or_empty_def split: operation.splits)
  have at: "at_phase (Some d) (Some p)" using assms(2) by (simp add: at_phase_def)
  obtain e where e: "decide ?args (lit ''kitdev-coding'') sample_now (Some d) = Inr (e, True)"
    using authorised_moves [OF sample_expected at _ auth] assms(3) by (auto simp: sample_arguments_def)
  have e_plain: "plain_record e"
    using decide_plain [OF _ sample_expected sample_now_scalar e] plain by simp
  have h: "history (Some sample_record) (Some (sort_key fst e))"
    by (rule history.goes_on [OF assms(1) sample_expected sample_now_scalar e parse_render [OF e_plain]])
  have "good_decision op (Some d) e True"
    using decide_good [OF _ sample_expected e] plain by (simp add: valid_stored_def plain_record_def sample_arguments_def)
  then obtain p' q' where g: "in_phase e q'" "in_phase d p'" "moves op (Some p') q'"
    and k: "map_of e (lit ''definition_sha256'') = map_of d (lit ''definition_sha256'')"
    using assms(4) by (cases op) (auto simp: good_decision_def at_phase_def split: option.splits)
  have "q' = q" using g(2,3) assms(2,3) in_phase_unique by (auto elim!: movesE)
  then show ?thesis
    using h g(1) k assms(5) plain_record_sort(2) [OF e_plain]
    by (intro exI [of _ "sort_key fst e"]) (simp add: in_phase_def has_value_def)
qed

lemma sample_published:
  "\<exists>d. history (Some sample_record) (Some d) \<and> in_phase d Published"
  using sample_step [OF history.begins sample_phase moves.qualify]
    sample_step [OF _ _ moves.publish] by blast

text \<open>C18: On a valid journal every successful command is a move of the template's phase diagram that keeps
  the record valid and writes only the keys of that move, or changes nothing because its work is
  done; and every move of the diagram that the command line is authorised for is taken.\<close>

theorem decisions_are_moves:
  assumes "valid_stored stored" "expected args = Inr alias_name"
  shows "(\<forall>d' w. decide args alias_name now stored = Inr (d', w)
            \<longrightarrow> good_decision (arg_operation args) stored d' w)
       \<and> (\<forall>p q. at_phase stored p \<and> moves (arg_operation args) p q \<and> authorised args alias_name stored
            \<longrightarrow> (\<exists>d'. decide args alias_name now stored = Inr (d', True) \<and> in_phase d' q))"
proof (intro conjI allI impI)
  show "good_decision (arg_operation args) stored d' w" if "decide args alias_name now stored = Inr (d', w)" for d' w
    by (rule decide_good [OF assms that])
  fix p q
  assume a: "at_phase stored p \<and> moves (arg_operation args) p q \<and> authorised args alias_name stored"
  then obtain d' where d': "decide args alias_name now stored = Inr (d', True)"
    using authorised_moves [OF assms(2)] by blast
  then obtain p' q' where g: "in_phase d' q'" "at_phase stored p'" "moves (arg_operation args) p' q'"
    using decide_good [OF assms d'] by (auto simp: good_decision_def)
  have "p' = p" using a g(2) in_phase_unique by (auto simp: at_phase_def split: option.splits)
  then have "q' = q" using a g(3) by (auto elim!: movesE)
  then show "\<exists>d'. decide args alias_name now stored = Inr (d', True) \<and> in_phase d' q" using d' g(1) by blast
qed

theorem decisions_are_moves_witness:
  "\<exists>d'. decide (sample_arguments Candidate) (lit ''kitdev-coding'') sample_now (Some sample_record) = Inr (d', True)
    \<and> in_phase d' QualifiedPrivate"
proof -
  have "authorised (sample_arguments Candidate) (lit ''kitdev-coding'') (Some sample_record)"
    using sample_has sample_ids by (simp add: authorised_def sample_arguments_def text_or_empty_def)
  moreover have "valid_stored (Some sample_record)" using sample_plain by (simp add: valid_stored_def plain_record_def)
  moreover have "at_phase (Some sample_record) (Some Reserved)" using sample_phase by (simp add: at_phase_def)
  moreover have "moves (arg_operation (sample_arguments Candidate)) (Some Reserved) QualifiedPrivate"
    using moves.qualify by (simp add: sample_arguments_def)
  ultimately show ?thesis using decisions_are_moves [OF _ sample_expected] by blast
qed

text \<open>Every history of successful commands leaves a valid record of plain values that the next
  command can read back, and never changes its schema version, product, alias, version and creation time.\<close>

theorem histories_keep_identity:
  assumes "history (Some d) t" "plain_record d"
  shows "\<exists>d'. t = Some d' \<and> plain_record d' \<and> parse_record (render_record d') = Inr (sort_key fst d')
    \<and> (\<forall>k \<in> {''schema_version'', ''product'', ''alias'', ''version'', ''created_at''}. map_of d' (lit k) = map_of d (lit k))"
  by (rule histories_keep_identity_aux [OF assms])

theorem histories_keep_identity_witness:
  "\<exists>d. history (Some sample_record) (Some d) \<and> in_phase d Published \<and> plain_record d
    \<and> parse_record (render_record d) = Inr (sort_key fst d)"
  using sample_published histories_keep_identity [OF _ sample_plain(2)] by blast

text \<open>C19: Once a template is published its record is frozen: no later command changes anything but
  the phase and the time of the rollback, and a rolled back record never changes again.\<close>

theorem published_is_frozen:
  assumes "history (Some d) t" "plain_record d" "in_phase d Published"
  shows "\<exists>d'. t = Some d' \<and> (in_phase d' Published \<and> map_of d' = map_of d \<or> in_phase d' RolledBack)
    \<and> (\<forall>k. k \<notin> {lit ''state'', lit ''rolled_back_at''} \<longrightarrow> map_of d' k = map_of d k)"
  using assms
proof (induction rule: history.induct)
  case (goes_on t args alias_name now e w d')
  then obtain t' where t: "t = Some t'" "in_phase t' Published \<and> map_of t' = map_of d \<or> in_phase t' RolledBack"
    "\<forall>k. k \<notin> {lit ''state'', lit ''rolled_back_at''} \<longrightarrow> map_of t' k = map_of d k"
    by blast
  have "plain_record t'" using history_plain [OF goes_on.hyps(1)] goes_on.prems t(1) by simp
  then obtain p q where s: "in_phase t' p" "in_phase d' q"
    "moves (arg_operation args) (Some p) q \<or> q = p \<and> map_of d' = map_of t'"
    "\<And>k. k \<notin> lit ` written_keys (arg_operation args) \<Longrightarrow> map_of d' k = map_of t' k"
    using step_effect [OF _ goes_on.hyps(2,3) goes_on.hyps(4) [unfolded t(1)] goes_on.hyps(5)] by blast
  then have p: "p = Published \<or> p = RolledBack" using t(2) in_phase_unique by blast
  consider (same) "q = p" "map_of d' = map_of t'"
    | (withdrawn) "arg_operation args = Rollback" "q = RolledBack"
    using s(3) p by (auto elim: movesE)
  then show ?case
  proof cases
    case same
    then show ?thesis using s(1,2) t in_phase_unique by metis
  next
    case withdrawn
    then show ?thesis using s(2,4) t(3) by auto
  qed
qed auto


theorem published_is_frozen_witness:
  "\<exists>d. in_phase d Published \<and> map_of d (lit ''template_id'') \<noteq> None
    \<and> (\<forall>t. history (Some d) t \<longrightarrow> (\<exists>d'. t = Some d' \<and> map_of d' (lit ''template_id'') = map_of d (lit ''template_id'')))"
proof -
  obtain d where d: "history (Some sample_record) (Some d)" "in_phase d Published"
    using sample_published by blast
  have p: "plain_record d" using history_plain [OF d(1)] sample_plain(2) by simp
  have "ids_ok d" using valid_ids [OF _ d(2)] p by (simp add: plain_record_def)
  then have "map_of d (lit ''template_id'') \<noteq> None" by (cases "map_of d (lit ''template_id'')") (auto simp: ids_ok_def get_or_empty_def id_re_def)
  then show ?thesis using d(2) published_is_frozen [OF _ p d(2)] by fastforce
qed

end
