(* ===== verification/Template_Disk.thy ===== *)
theory Template_Disk
  imports Template_Spec
begin











text \<open>A record whose product or phase is a list is not refused but ends in a traceback.\<close>

lemma unhashable_record_escapes:
  "validate_record (JObj [(lit ''schema_version'', JInt 1), (lit ''product'', JArr []), (lit ''alias'', JNull),
      (lit ''version'', JNull), (lit ''state'', JNull), (lit ''definition_sha256'', JNull), (lit ''created_at'', JNull)])
     = Inl (TypeError ''unhashable type: list'')
   \<and> \<not> is_reported (TypeError ''unhashable type: list'')"
  by (auto simp: validate_record_def keys_within_def required_keys_def optional_keys_def validate_fields_def dict_get_def
      require_hashable_def thenR_def)

end
