(* ===== verification/Redaction.thy ===== *)
theory Redaction
  imports Json
begin

text \<open>
  The guard of \<open>src/src/kitdev_sandboxes/preflight.py\<close> between untrusted facts and a report:
  control characters, cookies, private paths and keys, and inline secrets are replaced before any
  text is rendered.  The regular expressions are written out as matchers; which characters outside
  ASCII count as parts of a word, for \<open>\b\<close>, is a parameter.
\<close>

subsection \<open>Substitution\<close>

text \<open>
  \<open>RE.sub\<close>: a matcher sees the character before a position and the text from there on; it gives
  the replacement and the number of characters that match, which is never zero.
\<close>

type_synonym matcher = "nat option \<Rightarrow> pystr \<Rightarrow> (pystr \<times> nat) option"

fun substitute :: "matcher \<Rightarrow> nat \<Rightarrow> nat option \<Rightarrow> pystr \<Rightarrow> pystr" where
  "substitute m skip prev [] = []"
| "substitute m (Suc skip) prev (c # s) = substitute m skip (Some c) s"
| "substitute m 0 prev (c # s) =
     (case m prev (c # s) of
        None \<Rightarrow> c # substitute m 0 (Some c) s
      | Some (replacement, n) \<Rightarrow> replacement @ substitute m (n - 1) (Some c) s)"

text \<open>The length of the match of a prefix: what was consumed of \<open>s\<close> when \<open>r\<close> is left.\<close>

definition consumed :: "pystr \<Rightarrow> pystr \<Rightarrow> nat" where
  "consumed s r = length s - length r"

fun first_prefix :: "pystr list \<Rightarrow> pystr \<Rightarrow> pystr option" where
  "first_prefix [] s = None"
| "first_prefix (w # ws) s = (case ci_prefix w s of None \<Rightarrow> first_prefix ws s | Some r \<Rightarrow> Some r)"

text \<open>\<open>\s*[:=]\<close>: the text after the sign.\<close>

definition after_sign :: "pystr \<Rightarrow> pystr option" where
  "after_sign s = (case dropWhile is_space s of [] \<Rightarrow> None | c # r \<Rightarrow> if c = 58 \<or> c = 61 then Some r else None)"

subsection \<open>The expressions\<close>

definition cookie_words :: "pystr list" where
  "cookie_words = map lit [''cookie'', ''set-cookie'']"

definition cookie_header :: matcher where
  "cookie_header prev s =
     (case first_prefix cookie_words s of
        None \<Rightarrow> None
      | Some r \<Rightarrow>
          (case after_sign r of
             None \<Rightarrow> None
           | Some t \<Rightarrow> Some (lit ''Cookie: [REDACTED]'', consumed s (dropWhile (\<lambda>c. c \<noteq> 13 \<and> c \<noteq> 10) t))))"

definition private_path :: matcher where
  "private_path prev s =
     (let r = (if starts_with (lit ''/home/'') s then Some (drop 6 s)
               else if starts_with (lit ''/Users/'') s then Some (drop 7 s) else None)
      in case r of
           None \<Rightarrow> None
         | Some t \<Rightarrow>
             (if t = [] \<or> is_space (hd t) then None
              else Some (lit ''<redacted-path>'', consumed s (dropWhile (\<lambda>c. \<not> is_space c) t))))"

text \<open>\<open>-----BEGIN [^-]*PRIVATE KEY-----\<close> and the same with \<open>END\<close>.\<close>

definition key_marker :: "string \<Rightarrow> pystr \<Rightarrow> pystr option" where
  "key_marker word s =
     (case ci_prefix (lit (''-----'' @ word @ '' '')) s of
        None \<Rightarrow> None
      | Some r \<Rightarrow>
          (let label = takeWhile (\<lambda>c. c \<noteq> 45) r; rest = dropWhile (\<lambda>c. c \<noteq> 45) r
           in if 11 \<le> length label \<and> ci_prefix (lit ''private key'') (drop (length label - 11) label) = Some []
                 \<and> starts_with (lit ''-----'') rest
              then Some (drop 5 rest) else None))"

text \<open>\<open>.*?\<close> up to the first end marker; a dot matches no line feed.\<close>

fun find_key_end :: "pystr \<Rightarrow> pystr option" where
  "find_key_end [] = None"
| "find_key_end (c # s) =
     (case key_marker ''end'' (c # s) of
        Some r \<Rightarrow> Some r
      | None \<Rightarrow> if c = 10 then None else find_key_end s)"

definition private_key :: matcher where
  "private_key prev s =
     (case key_marker ''begin'' s of
        None \<Rightarrow> None
      | Some r \<Rightarrow>
          (case find_key_end r of
             None \<Rightarrow> None
           | Some t \<Rightarrow> Some (lit ''[REDACTED PRIVATE KEY]'', consumed s t)))"

definition inline_secret_words :: "pystr list" where
  "inline_secret_words = map lit
     [''authorization'', ''password'', ''secret'', ''token'', ''api_key'', ''api-key'', ''apikey'',
      ''access_key'', ''access-key'', ''accesskey'', ''signature'', ''x-amz-signature'',
      ''x-amz-credential'', ''x-amz-security-token'']"

text \<open>A quoted value: a backslash protects the next character, which is not a line feed.\<close>

fun quoted_value :: "nat \<Rightarrow> pystr \<Rightarrow> pystr option" where
  "quoted_value q [] = None"
| "quoted_value q (c # s) =
     (if c = q then Some s
      else if c = 92 then (case s of [] \<Rightarrow> None | d # r \<Rightarrow> if d = 10 then None else quoted_value q r)
      else quoted_value q s)"

definition skip_scheme :: "pystr \<Rightarrow> pystr" where
  "skip_scheme s =
     (case first_prefix (map lit [''basic'', ''bearer'']) s of
        None \<Rightarrow> s
      | Some r \<Rightarrow> if r = [] \<or> \<not> is_space (hd r) then s else dropWhile is_space r)"

definition secret_value :: "pystr \<Rightarrow> pystr" where
  "secret_value s =
     (let bare = dropWhile (\<lambda>c. c \<notin> {13, 10, 44, 59, 38}) (skip_scheme s)
      in if s \<noteq> [] \<and> (hd s = 34 \<or> hd s = 39)
         then (case quoted_value (hd s) (tl s) of None \<Rightarrow> bare | Some r \<Rightarrow> r)
         else bare)"

definition word_char :: "(nat \<Rightarrow> bool) \<Rightarrow> nat \<Rightarrow> bool" where
  "word_char other c =
     (is_lower_az c \<or> is_upper_az c \<or> is_digit09 c \<or> c = 95 \<or> (128 \<le> c \<and> other c))"

definition inline_secret :: "(nat \<Rightarrow> bool) \<Rightarrow> matcher" where
  "inline_secret other prev s =
     (if (case prev of None \<Rightarrow> False | Some c \<Rightarrow> word_char other c) then None
      else case first_prefix inline_secret_words s of
        None \<Rightarrow> None
      | Some r \<Rightarrow>
          (case after_sign r of
             None \<Rightarrow> None
           | Some t \<Rightarrow>
               Some (take (consumed s r) s @ lit ''=[REDACTED]'',
                     consumed s (secret_value (dropWhile is_space t)))))"

definition sensitive_words :: "pystr list" where
  "sensitive_words = map lit
     [''password'', ''secret'', ''token'', ''credential'', ''authorization'', ''cookie'',
      ''api_key'', ''api-key'', ''apikey'', ''access_key'', ''access-key'', ''accesskey'',
      ''private_key'', ''private-key'', ''privatekey'', ''signature'']"

definition sensitive_key :: "pystr \<Rightarrow> bool" where
  "sensitive_key key = search (\<lambda>s. first_prefix sensitive_words s \<noteq> None) key"

subsection \<open>Reports\<close>

definition sub_all :: "matcher \<Rightarrow> pystr \<Rightarrow> pystr" where
  "sub_all m s = substitute m 0 None s"

text \<open>\<open>safe_text\<close>; a missing value is \<open>unknown\<close>.\<close>

definition mask_controls :: "pystr \<Rightarrow> pystr" where
  "mask_controls s = map (\<lambda>c. if is_c0_c1 c then 63 else c) s"

definition safe_text :: "pystr option \<Rightarrow> pystr" where
  "safe_text v = (case v of None \<Rightarrow> lit ''unknown'' | Some s \<Rightarrow> mask_controls s)"

definition safe_report_text :: "(nat \<Rightarrow> bool) \<Rightarrow> pystr \<Rightarrow> pystr" where
  "safe_report_text other s =
     sub_all (inline_secret other)
       (sub_all private_key
         (sub_all private_path
           (mask_controls (sub_all cookie_header (unquote_loop 2 (if s = [] then lit ''unknown'' else s))))))"

fun redact_report :: "(nat \<Rightarrow> bool) \<Rightarrow> pystr \<Rightarrow> json \<Rightarrow> json" where
  "redact_report other key v =
     (if sensitive_key (unquote_loop 2 key) then JStr (lit ''[REDACTED]'')
      else case v of
        JObj kvs \<Rightarrow> JObj (map (\<lambda>(k, x). (k, redact_report other k x)) kvs)
      | JArr vs \<Rightarrow> JArr (map (redact_report other key) vs)
      | JStr s \<Rightarrow> JStr (safe_report_text other s)
      | _ \<Rightarrow> v)"

declare redact_report.simps [simp del]

end
