(* ===== verification/Sha256.thy ===== *)
theory Sha256
  imports Json "HOL-Library.Word"
begin

text \<open>
  SHA-256 as \<open>hashlib\<close> computes it, on bytes: padding, the message schedule, the compression
  function and the hexadecimal digest.
\<close>

unbundle bit_operations_syntax

text \<open>
  The constants are the first 32 bits of the fractional parts of the square roots of the first
  8 primes and of the cube roots of the first 64, which an integer root computes bit by bit.
\<close>

fun root_bits :: "nat \<Rightarrow> nat \<Rightarrow> nat \<Rightarrow> nat \<Rightarrow> nat" where
  "root_bits 0 k n r = r"
| "root_bits (Suc i) k n r = root_bits i k n (if (r + 2 ^ i) ^ k \<le> n then r + 2 ^ i else r)"

definition root_fraction :: "nat \<Rightarrow> nat \<Rightarrow> 32 word" where
  "root_fraction k p = word_of_nat (root_bits 37 k (p * 2 ^ (32 * k)) 0)"

definition primes_below :: "nat \<Rightarrow> nat list" where
  "primes_below n = filter (\<lambda>p. list_all (\<lambda>d. p mod d \<noteq> 0) [2..<p]) [2..<n]"

definition initial_hash :: "32 word list" where
  "initial_hash = map (root_fraction 2) (primes_below 20)"

definition round_constants :: "32 word list" where
  "round_constants = map (root_fraction 3) (primes_below 312)"

definition small_sigma0 :: "32 word \<Rightarrow> 32 word" where
  "small_sigma0 x = word_rotr 7 x XOR word_rotr 18 x XOR drop_bit 3 x"

definition small_sigma1 :: "32 word \<Rightarrow> 32 word" where
  "small_sigma1 x = word_rotr 17 x XOR word_rotr 19 x XOR drop_bit 10 x"

definition big_sigma0 :: "32 word \<Rightarrow> 32 word" where
  "big_sigma0 x = word_rotr 2 x XOR word_rotr 13 x XOR word_rotr 22 x"

definition big_sigma1 :: "32 word \<Rightarrow> 32 word" where
  "big_sigma1 x = word_rotr 6 x XOR word_rotr 11 x XOR word_rotr 25 x"

definition choose_bits :: "32 word \<Rightarrow> 32 word \<Rightarrow> 32 word \<Rightarrow> 32 word" where
  "choose_bits x y z = (x AND y) XOR (NOT x AND z)"

definition majority_bits :: "32 word \<Rightarrow> 32 word \<Rightarrow> 32 word \<Rightarrow> 32 word" where
  "majority_bits x y z = (x AND y) XOR (x AND z) XOR (y AND z)"

text \<open>The last 16 words of the schedule, newest first, followed by the rest.\<close>

fun extend_schedule :: "nat \<Rightarrow> 32 word list \<Rightarrow> 32 word list" where
  "extend_schedule 0 ws = ws"
| "extend_schedule (Suc n) ws =
     extend_schedule n ((small_sigma1 (ws ! 1) + ws ! 6 + small_sigma0 (ws ! 14) + ws ! 15) # ws)"

definition schedule :: "32 word list \<Rightarrow> 32 word list" where
  "schedule block = rev (extend_schedule 48 (rev block))"

type_synonym hash_state = "32 word \<times> 32 word \<times> 32 word \<times> 32 word \<times> 32 word \<times> 32 word \<times> 32 word \<times> 32 word"

fun sha_round :: "32 word \<times> 32 word \<Rightarrow> hash_state \<Rightarrow> hash_state" where
  "sha_round (k, w) (a, b, c, d, e, f, g, h) =
     (let t1 = h + big_sigma1 e + choose_bits e f g + k + w;
          t2 = big_sigma0 a + majority_bits a b c
      in (t1 + t2, a, b, c, d + t1, e, f, g))"

definition state_list :: "hash_state \<Rightarrow> 32 word list" where
  "state_list s = (case s of (a, b, c, d, e, f, g, h) \<Rightarrow> [a, b, c, d, e, f, g, h])"

definition list_state :: "32 word list \<Rightarrow> hash_state" where
  "list_state ws = (ws ! 0, ws ! 1, ws ! 2, ws ! 3, ws ! 4, ws ! 5, ws ! 6, ws ! 7)"

definition compress_block :: "32 word list \<Rightarrow> 32 word list \<Rightarrow> 32 word list" where
  "compress_block hs block =
     map2 (+) hs (state_list (fold sha_round (zip round_constants (schedule block)) (list_state hs)))"

definition byte_word :: "nat list \<Rightarrow> 32 word" where
  "byte_word bs = word_of_nat (foldl (\<lambda>a b. a * 256 + b) 0 bs)"

definition big_endian8 :: "nat \<Rightarrow> nat list" where
  "big_endian8 n = map (\<lambda>i. n div 256 ^ (7 - i) mod 256) [0..<8]"

definition pad_message :: "bytes \<Rightarrow> nat list" where
  "pad_message bs = bs @ [128] @ replicate ((119 - length bs mod 64) mod 64) 0 @ big_endian8 (8 * length bs)"

function chunks :: "nat \<Rightarrow> 'a list \<Rightarrow> 'a list list" where
  "chunks n xs = (if n = 0 \<or> xs = [] then [] else take n xs # chunks n (drop n xs))"
  by pat_completeness auto
termination
  by (relation "measure (length \<circ> snd)") auto

declare chunks.simps [simp del]

definition word_hex :: "32 word \<Rightarrow> pystr" where
  "word_hex w = map (\<lambda>i. hex_digit (unat w div 16 ^ (7 - i) mod 16)) [0..<8]"

text \<open>\<open>hashlib.sha256(bs).hexdigest()\<close>\<close>

definition sha256_hex :: "bytes \<Rightarrow> pystr" where
  "sha256_hex bs =
     concat (map word_hex (foldl compress_block initial_hash (map (map byte_word \<circ> chunks 4) (chunks 64 (pad_message bs)))))"

end
