(* ===== verification/Preflight.thy ===== *)
theory Preflight
  imports Redaction Sha256 Config Posix
begin

text \<open>
  Host facts and their evaluation, \<open>src/src/kitdev_sandboxes/preflight.py\<close>: parsing the files
  that describe the host, one check per platform requirement, the doctor report with its exit
  code, and its renderings.  The readers that \<open>collect_host_facts\<close> takes as arguments, the clock
  and the Unicode tables are parameters.
\<close>

subsection \<open>Data\<close>

datatype check_status = Pass | Warn | Fail | Unknown | Skipped

fun status_value :: "check_status \<Rightarrow> string" where
  "status_value Pass = ''pass''"
| "status_value Warn = ''warn''"
| "status_value Fail = ''fail''"
| "status_value Unknown = ''unknown''"
| "status_value Skipped = ''skipped''"

datatype severity = Info | Warning | BlockingSeverity

fun check_severity_value :: "severity \<Rightarrow> string" where
  "check_severity_value Info = ''info''"
| "check_severity_value Warning = ''warning''"
| "check_severity_value BlockingSeverity = ''blocking''"

datatype failure_category = Platform | Conflict | UnknownFailure | Unhealthy

fun failure_value :: "failure_category \<Rightarrow> string" where
  "failure_value Platform = ''platform''"
| "failure_value Conflict = ''conflict''"
| "failure_value UnknownFailure = ''unknown''"
| "failure_value Unhealthy = ''unhealthy''"

fun category_exit_code :: "failure_category \<Rightarrow> nat" where
  "category_exit_code Platform = 3"
| "category_exit_code Conflict = 4"
| "category_exit_code UnknownFailure = 5"
| "category_exit_code Unhealthy = 6"

record host_facts =
  host_os_id :: "pystr option"
  host_os_name :: "pystr option"
  host_os_version_id :: "pystr option"
  host_architecture :: "pystr option"
  pid1_comm :: "pystr option"
  cgroup_v2 :: "bool option"
  cpu_virtualization :: "pystr option"
  kvm_device_exists :: bool
  kvm_device_is_character :: bool
  kvm_device_accessible :: bool
  nested_guest_support :: "bool option"
  host_evidence :: "(string \<times> string) list"

record check_result =
  check_id :: string
  check_state :: check_status
  check_severity :: severity
  check_explanation :: pystr
  check_remediation :: "string option"
  installer_can_remediate :: bool
  check_failure :: "failure_category option"
  check_evidence :: "pystr option"

record doctor_report =
  generated_at :: pystr
  report_lifecycle :: lifecycle_mode
  report_dry_run :: bool
  report_facts :: host_facts
  report_checks :: "check_result list"

definition option_json :: "pystr option \<Rightarrow> json" where
  "option_json v = (case v of None \<Rightarrow> JNull | Some s \<Rightarrow> JStr s)"

definition check_as_dict :: "bool \<Rightarrow> check_result \<Rightarrow> json_dict" where
  "check_as_dict verbose c =
     [(lit ''id'', JStr (lit (check_id c))), (lit ''status'', JStr (lit (status_value (check_state c)))),
      (lit ''severity'', JStr (lit (check_severity_value (check_severity c)))),
      (lit ''explanation'', JStr (check_explanation c)),
      (lit ''remediation'', option_json (map_option lit (check_remediation c))),
      (lit ''installer_can_remediate'', JBool (installer_can_remediate c)),
      (lit ''failure_category'', option_json (map_option (lit \<circ> failure_value) (check_failure c)))]
     @ (if verbose then [(lit ''evidence'', option_json (check_evidence c))] else [])"

subsection \<open>Reading the files\<close>

text \<open>
  \<open>_read_text\<close> on what opening and reading at most one byte more than the limit gave: nothing
  after an \<open>OSError\<close>.
\<close>

definition read_text :: "nat \<Rightarrow> bytes option \<Rightarrow> pystr option" where
  "read_text maximum raw =
     (case raw of
        None \<Rightarrow> None
      | Some bs \<Rightarrow>
          if maximum < length bs then None
          else (case decode_strict bs of Inl e \<Rightarrow> None | Inr s \<Rightarrow> Some (strip s)))"

definition is_upper_key :: "pystr \<Rightarrow> bool" where
  "is_upper_key s =
     (case s of [] \<Rightarrow> False | c # cs \<Rightarrow> is_upper_az c \<and> list_all (\<lambda>x. is_upper_az x \<or> is_digit09 x \<or> x = 95) cs)"

definition unquoted :: "pystr \<Rightarrow> pystr" where
  "unquoted s =
     (if 2 \<le> length s \<and> hd s = last s \<and> (hd s = 39 \<or> hd s = 34) then butlast (tl s) else s)"

text \<open>A repeated key makes the whole file worthless.\<close>

fun os_release_lines :: "(pystr \<times> pystr) list \<Rightarrow> pystr list \<Rightarrow> (pystr \<times> pystr) list" where
  "os_release_lines result [] = result"
| "os_release_lines result (line # rest) =
     (if line = [] \<or> starts_with [35] line then os_release_lines result rest
      else case split_once 61 line of
        None \<Rightarrow> os_release_lines result rest
      | Some (key, value) \<Rightarrow>
          if \<not> is_upper_key key then os_release_lines result rest
          else if map_of result key \<noteq> None then []
          else os_release_lines (result @ [(key, mask_controls (unquoted (strip value)))]) rest)"

definition parse_os_release :: "pystr option \<Rightarrow> (pystr \<times> pystr) list" where
  "parse_os_release v = (case v of None \<Rightarrow> [] | Some s \<Rightarrow> os_release_lines [] (splitlines s))"

text \<open>
  \<open>str.lower\<close> as far as the tests can see it: the characters outside ASCII whose lower case has
  an ASCII letter are the Kelvin sign and the dotted capital I.
\<close>

definition lower_char :: "nat \<Rightarrow> pystr" where
  "lower_char c =
     (if is_upper_az c then [c + 32] else if c = 0x212a then [107] else if c = 0x130 then [105, 0x307] else [c])"

definition lower_text :: "pystr \<Rightarrow> pystr" where
  "lower_text s = concat (map lower_char s)"

definition is_flag_char :: "nat \<Rightarrow> bool" where
  "is_flag_char c = (is_lower_az c \<or> is_upper_az c \<or> is_digit09 c \<or> c = 95)"

text \<open>\<open>re.findall(r"[A-Za-z0-9_]+", s)\<close>\<close>

fun flag_words :: "pystr \<Rightarrow> pystr \<Rightarrow> pystr list" where
  "flag_words acc [] = (if acc = [] then [] else [rev acc])"
| "flag_words acc (c # s) =
     (if is_flag_char c then flag_words (c # acc) s
      else (if acc = [] then flag_words [] s else rev acc # flag_words [] s))"

text \<open>The flags of the lines of a field; \<open>None\<close> when no line has it.\<close>

definition line_flags :: "pystr \<Rightarrow> pystr list option" where
  "line_flags line =
     (case split_once 58 line of
        None \<Rightarrow> None
      | Some (name, value) \<Rightarrow>
          if lower_text (strip name) \<in> {lit ''flags'', lit ''features''}
          then Some (flag_words [] (lower_text value)) else None)"

definition parse_cpu_virtualization :: "pystr option \<Rightarrow> string option" where
  "parse_cpu_virtualization cpuinfo =
     (case cpuinfo of
        None \<Rightarrow> None
      | Some s \<Rightarrow>
          (let found = map the (filter (\<lambda>f. f \<noteq> None) (map line_flags (splitlines s)))
           in if lit ''vmx'' \<in> set (concat found) then Some ''vmx''
              else if lit ''svm'' \<in> set (concat found) then Some ''svm''
              else if found \<noteq> [] then Some ''none'' else None))"

definition parse_nested_guest_support :: "pystr option \<Rightarrow> bool option" where
  "parse_nested_guest_support value =
     (case value of
        None \<Rightarrow> None
      | Some s \<Rightarrow>
          (let normalized = lower_text (strip s)
           in if normalized \<in> set (map lit [''1'', ''y'', ''yes'', ''true'']) then Some True
              else if normalized \<in> set (map lit [''0'', ''n'', ''no'', ''false'']) then Some False
              else None))"

text \<open>What the collector asks of the host: the arguments of \<open>collect_host_facts\<close> and \<open>Path.exists\<close>.\<close>

record host_probes =
  probe_text :: "string \<Rightarrow> nat \<Rightarrow> pystr option"
  probe_machine :: pystr
  probe_exists :: "string \<Rightarrow> bool"
  probe_kind :: "string \<Rightarrow> fkind option"
  probe_access :: "string \<Rightarrow> bool"

definition nonempty :: "pystr \<Rightarrow> pystr option" where
  "nonempty s = (if s = [] then None else Some s)"

definition collect_host_facts :: "host_probes \<Rightarrow> host_facts" where
  "collect_host_facts p =
     (let os_release = parse_os_release (probe_text p ''/etc/os-release'' 65536);
          pid1 = probe_text p ''/proc/1/comm'' 4096;
          controllers = probe_text p ''/sys/fs/cgroup/cgroup.controllers'' 65536;
          nested_text = (case probe_text p ''/sys/module/kvm_intel/parameters/nested'' 4096 of
             None \<Rightarrow> probe_text p ''/sys/module/kvm_amd/parameters/nested'' 4096
           | Some s \<Rightarrow> Some s);
          kvm = probe_kind p ''/dev/kvm''
      in \<lparr>host_os_id = map_of os_release (lit ''ID''), host_os_name = map_of os_release (lit ''NAME''),
          host_os_version_id = map_of os_release (lit ''VERSION_ID''),
          host_architecture = nonempty (mask_controls (probe_machine p)),
          pid1_comm = map_option mask_controls pid1,
          cgroup_v2 =
            (if \<not> probe_exists p ''/sys/fs/cgroup'' then None
             else if probe_exists p ''/sys/fs/cgroup/cgroup.controllers'' \<and> controllers = None then None
             else Some (controllers \<noteq> None)),
          cpu_virtualization = map_option lit (parse_cpu_virtualization (probe_text p ''/proc/cpuinfo'' 8388608)),
          kvm_device_exists = (kvm \<noteq> None), kvm_device_is_character = (kvm = Some KChr),
          kvm_device_accessible = (kvm \<noteq> None \<and> probe_access p ''/dev/kvm''),
          nested_guest_support = parse_nested_guest_support nested_text,
          host_evidence =
            [(''os_release'', ''/etc/os-release''), (''pid1'', ''/proc/1/comm''),
             (''cgroups'', ''/sys/fs/cgroup/cgroup.controllers''), (''cpu'', ''/proc/cpuinfo''),
             (''kvm'', ''/dev/kvm'')]\<rparr>)"

subsection \<open>Checks\<close>

definition check ::
  "string \<Rightarrow> check_status \<Rightarrow> pystr \<Rightarrow> string option \<Rightarrow> bool \<Rightarrow> pystr option \<Rightarrow> check_result" where
  "check cid st explanation remediation remediable evidence =
     \<lparr>check_id = cid, check_state = st,
      check_severity =
        (if st = Fail \<or> st = Unknown then BlockingSeverity else if st = Warn then Warning else Info),
      check_explanation = explanation, check_remediation = remediation,
      installer_can_remediate = remediable,
      check_failure = (if st = Unknown then Some UnknownFailure else if st = Fail then Some Platform else None),
      check_evidence = evidence\<rparr>"

definition plain_check :: "string \<Rightarrow> check_status \<Rightarrow> string \<Rightarrow> check_result" where
  "plain_check cid st explanation = check cid st (lit explanation) None False None"

definition release_check :: "host_facts \<Rightarrow> lifecycle_mode \<Rightarrow> check_result" where
  "release_check facts mode =
     (let evidence = Some (lit ''ID='' @ safe_text (host_os_id facts) @ lit '' VERSION_ID=''
                           @ safe_text (host_os_version_id facts));
          the_check = (\<lambda>st explanation remediation.
            check ''platform.release_lifecycle'' st (lit explanation) remediation False evidence)
      in if host_os_id facts = None \<or> host_os_version_id facts = None
         then the_check Unknown ''The operating-system release could not be identified.''
                (Some ''Provide a readable /etc/os-release on the target host.'')
         else if host_os_id facts \<noteq> Some (lit ''ubuntu'')
                 \<or> host_os_version_id facts \<notin> {Some (lit ''25.04''), Some (lit ''26.04'')}
         then the_check Fail ''Only Ubuntu 26.04, or Ubuntu 25.04 in development/migration mode, is supported.''
                (Some ''Use a supported Ubuntu release and lifecycle mode.'')
         else if host_os_version_id facts = Some (lit ''25.04'') \<and> mode = Production
         then the_check Fail ''Ubuntu 25.04 is end-of-life and cannot be used in production mode.''
                (Some ''Install Ubuntu 26.04 or select development/migration mode.'')
         else if host_os_version_id facts = Some (lit ''25.04'')
         then the_check Warn ''Ubuntu 25.04 is end-of-life and is eligible only for development or migration.''
                (Some ''Move production workloads to Ubuntu 26.04.'')
         else the_check Pass ''Ubuntu 26.04 is eligible for the selected lifecycle mode.'' None)"

definition architecture_check :: "host_facts \<Rightarrow> check_result" where
  "architecture_check facts =
     (case host_architecture facts of
        None \<Rightarrow> plain_check ''platform.architecture'' Unknown ''Architecture is unknown.''
      | Some arch \<Rightarrow>
          if arch \<noteq> lit ''x86_64''
          then check ''platform.architecture'' Fail
                 (lit ''Architecture '' @ mask_controls arch @ lit '' is unsupported; x86_64 is required.'') None False None
          else plain_check ''platform.architecture'' Pass ''Architecture is x86_64.'')"

definition systemd_check :: "host_facts \<Rightarrow> check_result" where
  "systemd_check facts =
     (case pid1_comm facts of
        None \<Rightarrow> plain_check ''platform.systemd'' Unknown ''PID 1 could not be identified.''
      | Some comm \<Rightarrow>
          if comm \<noteq> lit ''systemd''
          then check ''platform.systemd'' Fail (lit ''PID 1 is not systemd.'') None False (Some comm)
          else plain_check ''platform.systemd'' Pass ''PID 1 is systemd.'')"

definition cgroup_check :: "host_facts \<Rightarrow> check_result" where
  "cgroup_check facts =
     (case cgroup_v2 facts of
        None \<Rightarrow> plain_check ''platform.cgroups_v2'' Unknown ''Cgroup mode is unknown.''
      | Some active \<Rightarrow>
          if \<not> active then plain_check ''platform.cgroups_v2'' Fail ''Cgroups v2 is not active.''
          else plain_check ''platform.cgroups_v2'' Pass ''Cgroups v2 is active.'')"

text \<open>\<open>str.upper\<close>; the upper case of a character outside ASCII is a parameter.\<close>

definition upper_text :: "(nat \<Rightarrow> pystr) \<Rightarrow> pystr \<Rightarrow> pystr" where
  "upper_text upper s = concat (map (\<lambda>c. if 128 \<le> c then upper c else if is_lower_az c then [c - 32] else [c]) s)"

definition cpu_check :: "(nat \<Rightarrow> pystr) \<Rightarrow> host_facts \<Rightarrow> check_result" where
  "cpu_check upper facts =
     (case cpu_virtualization facts of
        None \<Rightarrow> plain_check ''virtualization.cpu'' Unknown ''CPU virtualization flags are unknown.''
      | Some flag \<Rightarrow>
          if flag = lit ''none''
          then plain_check ''virtualization.cpu'' Fail ''Neither Intel VMX nor AMD SVM is exposed.''
          else check ''virtualization.cpu'' Pass
                 (lit ''CPU exposes '' @ upper_text upper (mask_controls flag) @ lit '' virtualization.'') None False None)"

definition kvm_check :: "host_facts \<Rightarrow> check_result" where
  "kvm_check facts =
     (if \<not> kvm_device_exists facts
      then check ''virtualization.kvm_device'' Fail (lit ''/dev/kvm is absent; doctor does not load KVM modules.'')
             (Some ''Enable KVM in firmware and prepare the host outside read-only doctor.'') False None
      else if \<not> kvm_device_is_character facts
      then check ''virtualization.kvm_device'' Fail (lit ''/dev/kvm exists but is not a character device.'')
             (Some ''Remove the conflicting path and expose the kernel KVM device.'') False None
      else if \<not> kvm_device_accessible facts
      then check ''virtualization.kvm_device'' Warn
             (lit ''/dev/kvm exists but is not accessible to the current identity.'')
             (Some ''Grant the future worker identity explicit KVM access during approved preparation.'') True None
      else plain_check ''virtualization.kvm_device'' Pass ''/dev/kvm is accessible.'')"

definition nested_check :: "host_facts \<Rightarrow> check_result" where
  "nested_check facts =
     (if nested_guest_support facts = Some True
      then plain_check ''virtualization.nested_guest_support'' Pass
             ''The KVM module allows nested guests; this does not identify the host as nested.''
      else if nested_guest_support facts = Some False
      then plain_check ''virtualization.nested_guest_support'' Skipped
             ''Nested-guest support is disabled and is not required for bare-metal operation.''
      else plain_check ''virtualization.nested_guest_support'' Skipped
             ''The KVM nested-guest parameter was absent or had an unrecognized value.'')"

definition scope_checks :: "check_result list" where
  "scope_checks =
     [plain_check ''scope.kernel_facilities'' Unknown
        ''NBD, huge pages, TUN/TAP, namespaces, and mount facilities are not yet collected.'',
      plain_check ''scope.capacity'' Unknown
        ''Profile capacity and filesystem headroom checks are not yet implemented.'',
      plain_check ''scope.services'' Unknown
        ''Host package, service, and partial-install checks are not yet implemented.'',
      plain_check ''scope.network_conflicts'' Unknown
        ''Listener, route, subnet, DNS, and firewall conflict checks are not yet implemented.'',
      plain_check ''scope.security_posture'' Unknown
        ''The required host security-posture checks are not yet implemented.'',
      plain_check ''scope.firecracker_probe'' Skipped
        ''Booting a Firecracker microVM is intentionally excluded from read-only doctor.'']"

definition evaluate_host :: "(nat \<Rightarrow> pystr) \<Rightarrow> host_facts \<Rightarrow> lifecycle_mode \<Rightarrow> check_result list" where
  "evaluate_host upper facts mode =
     [release_check facts mode, architecture_check facts, systemd_check facts, cgroup_check facts,
      cpu_check upper facts, kvm_check facts, nested_check facts] @ scope_checks"

subsection \<open>The report\<close>

definition failure_codes :: "check_result list \<Rightarrow> nat list" where
  "failure_codes checks =
     map (\<lambda>c. category_exit_code (the (check_failure c)))
       (filter (\<lambda>c. check_failure c \<noteq> None \<and> (check_state c = Fail \<or> check_state c = Unknown)) checks)"

definition report_exit_code :: "doctor_report \<Rightarrow> nat" where
  "report_exit_code r =
     (case failure_codes (report_checks r) of [] \<Rightarrow> 0 | c # cs \<Rightarrow> fold min cs c)"

definition build_doctor_report ::
  "(nat \<Rightarrow> pystr) \<Rightarrow> pystr \<Rightarrow> host_facts \<Rightarrow> lifecycle_mode \<Rightarrow> bool \<Rightarrow> doctor_report" where
  "build_doctor_report upper timestamp facts mode dry_run =
     \<lparr>generated_at = timestamp, report_lifecycle = mode, report_dry_run = dry_run, report_facts = facts,
      report_checks = evaluate_host upper facts mode\<rparr>"

definition project_release :: string where
  "project_release = ''0.0.0''"

definition status_total :: "check_status \<Rightarrow> check_result list \<Rightarrow> json" where
  "status_total st checks = JInt (int (length (filter (\<lambda>c. check_state c = st) checks)))"

definition summary_json :: "check_result list \<Rightarrow> json_dict" where
  "summary_json checks =
     map (\<lambda>st. (lit (status_value st), status_total st checks)) [Pass, Warn, Fail, Unknown, Skipped]"

text \<open>\<open>value or "unknown"\<close>, joined by NUL characters.\<close>

definition fingerprint_input :: "host_facts \<Rightarrow> pystr" where
  "fingerprint_input facts =
     join [0] (map (\<lambda>v. case v of None \<Rightarrow> lit ''unknown'' | Some s \<Rightarrow> if s = [] then lit ''unknown'' else s)
       [host_os_id facts, host_os_version_id facts, host_architecture facts])"

definition report_as_dict :: "(nat \<Rightarrow> bool) \<Rightarrow> bool \<Rightarrow> doctor_report \<Rightarrow> json res" where
  "report_as_dict other verbose r =
     bindR (encode_utf8 (fingerprint_input (report_facts r))) (\<lambda>raw.
       Inr (redact_report other []
         (JObj [(lit ''schema_version'', JInt 1), (lit ''timestamp'', JStr (generated_at r)),
                (lit ''project_release'', JStr (lit project_release)),
                (lit ''lifecycle_mode'', JStr (lit (lifecycle_value (report_lifecycle r)))),
                (lit ''command_mode'', JStr (lit ''read-only'')), (lit ''dry_run'', JBool (report_dry_run r)),
                (lit ''host'', JObj [(lit ''platform_fingerprint'', JStr (take 16 (sha256_hex raw))),
                                     (lit ''os_id'', option_json (host_os_id (report_facts r))),
                                     (lit ''os_version_id'', option_json (host_os_version_id (report_facts r))),
                                     (lit ''architecture'', option_json (host_architecture (report_facts r)))]),
                (lit ''summary'', JObj (summary_json (report_checks r))),
                (lit ''checks'', JArr (map (JObj \<circ> check_as_dict verbose) (report_checks r))),
                (lit ''changes'', JArr [])])))"

subsection \<open>Rendering\<close>

text \<open>A field of a redacted dict, as text; \<open>str(None)\<close> is \<open>None\<close>.\<close>

definition json_field :: "json \<Rightarrow> string \<Rightarrow> json" where
  "json_field v k = (case v of JObj d \<Rightarrow> (case map_of d (lit k) of None \<Rightarrow> JNull | Some x \<Rightarrow> x) | _ \<Rightarrow> JNull)"

definition field_text :: "json \<Rightarrow> string \<Rightarrow> pystr option" where
  "field_text v k = (case json_field v k of JStr s \<Rightarrow> Some s | _ \<Rightarrow> None)"

definition pad7 :: "pystr \<Rightarrow> pystr" where
  "pad7 s = s @ replicate (7 - length s) 32"

fun status_upper :: "check_status \<Rightarrow> string" where
  "status_upper Pass = ''PASS''"
| "status_upper Warn = ''WARN''"
| "status_upper Fail = ''FAIL''"
| "status_upper Unknown = ''UNKNOWN''"
| "status_upper Skipped = ''SKIPPED''"

definition shown :: "(nat \<Rightarrow> bool) \<Rightarrow> pystr option \<Rightarrow> pystr" where
  "shown other v = safe_report_text other (case v of None \<Rightarrow> lit ''None'' | Some s \<Rightarrow> s)"

definition check_lines :: "(nat \<Rightarrow> bool) \<Rightarrow> bool \<Rightarrow> check_result \<Rightarrow> pystr list" where
  "check_lines other verbose c =
     (let sanitized = redact_report other [] (JObj (check_as_dict True c)) in
      [[91] @ pad7 (lit (status_upper (check_state c))) @ lit ''] '' @ shown other (field_text sanitized ''id'')
         @ lit '': '' @ shown other (field_text sanitized ''explanation'')]
      @ (case field_text sanitized ''remediation'' of
           None \<Rightarrow> []
         | Some s \<Rightarrow> if s = [] then [] else [lit ''          Remediation: '' @ safe_report_text other s])
      @ (case field_text sanitized ''evidence'' of
           None \<Rightarrow> []
         | Some s \<Rightarrow> if s = [] \<or> \<not> verbose then [] else [lit ''          Evidence: '' @ safe_report_text other s]))"

definition count_text :: "json \<Rightarrow> string \<Rightarrow> pystr" where
  "count_text summary k = (case json_field summary k of JInt i \<Rightarrow> int_str i | _ \<Rightarrow> lit ''None'')"

definition report_head :: "doctor_report \<Rightarrow> json \<Rightarrow> pystr list" where
  "report_head r host =
     [lit ''kitdev doctor (read-only)'',
      lit ''Lifecycle: '' @ safe_text (Some (lit (lifecycle_value (report_lifecycle r)))),
      lit ''Host: '' @ safe_text (field_text host ''os_id'') @ [32]
        @ safe_text (field_text host ''os_version_id'') @ lit '' ('' @ safe_text (field_text host ''architecture'') @ [41],
      []]"

definition report_foot :: "json \<Rightarrow> pystr list" where
  "report_foot summary =
     [[],
      lit ''Summary: '' @ count_text summary ''pass'' @ lit '' pass, '' @ count_text summary ''warn''
        @ lit '' warn, '' @ count_text summary ''fail'' @ lit '' fail, '' @ count_text summary ''unknown''
        @ lit '' unknown, '' @ count_text summary ''skipped'' @ lit '' skipped'',
      lit ''Proposed changes: 0 (doctor never mutates the host)'']"

definition render_text :: "(nat \<Rightarrow> bool) \<Rightarrow> bool \<Rightarrow> doctor_report \<Rightarrow> pystr res" where
  "render_text other verbose r =
     bindR (report_as_dict other verbose r) (\<lambda>data.
       Inr (join [10]
         (report_head r (json_field data ''host'')
          @ concat (map (check_lines other verbose) (report_checks r))
          @ report_foot (json_field data ''summary''))))"

end
