(* ===== verification/Preflight_Spec.thy ===== *)
theory Preflight_Spec
  imports Preflight
begin

text \<open>
  What the doctor promises: its exit code, and that nothing an untrusted fact holds can reach the
  terminal or a report as a control character, nor a value stand under a key that names a secret.
\<close>

subsection \<open>Texts without control characters\<close>

definition printable :: "pystr \<Rightarrow> bool" where
  "printable s = list_all (\<lambda>c. \<not> is_c0_c1 c) s"

lemma printable_Nil [simp]: "printable []"
  by (simp add: printable_def)

lemma printable_Cons [simp]: "printable (c # s) \<longleftrightarrow> \<not> is_c0_c1 c \<and> printable s"
  by (simp add: printable_def)

lemma printable_append [simp]: "printable (s @ t) \<longleftrightarrow> printable s \<and> printable t"
  by (simp add: printable_def)

lemma printable_take: "printable s \<Longrightarrow> printable (take n s)"
  by (auto simp: printable_def list_all_iff dest: in_set_takeD)

lemma printable_mask [simp]: "printable (mask_controls s)"
  by (auto simp: printable_def mask_controls_def list_all_iff is_c0_c1_def in_range_def)

lemma mask_id: "printable s \<Longrightarrow> mask_controls s = s"
  by (induction s) (auto simp: mask_controls_def)

lemma printable_safe_text [simp]: "printable (safe_text v)"
  by (cases v) (simp_all add: safe_text_def, simp add: lit_def is_c0_c1_def in_range_def)

lemma printable_replicate [simp]: "\<not> is_c0_c1 c \<Longrightarrow> printable (replicate n c)"
  by (simp add: printable_def list_all_iff)

definition matcher_printable :: "matcher \<Rightarrow> bool" where
  "matcher_printable m = (\<forall>prev s. printable s \<longrightarrow> (\<forall>r n. m prev s = Some (r, n) \<longrightarrow> printable r))"

lemma substitute_printable:
  assumes "matcher_printable m" "printable s"
  shows "printable (substitute m skip prev s)"
  using assms
proof (induction m skip prev s rule: substitute.induct)
  case (3 m prev c s)
  show ?case
  proof (cases "m prev (c # s)")
    case None
    then show ?thesis using 3 by simp
  next
    case (Some p)
    obtain r n where p: "p = (r, n)" by (cases p)
    have "printable r" using Some "3.prems" unfolding p matcher_printable_def by blast
    moreover have "printable (substitute m (n - 1) (Some c) s)"
      using "3.IH"(2) [OF Some] "3.prems" p by simp
    ultimately show ?thesis by (simp add: Some p)
  qed
qed simp_all

lemma sub_all_printable: "matcher_printable m \<Longrightarrow> printable s \<Longrightarrow> printable (sub_all m s)"
  by (simp add: sub_all_def substitute_printable)

lemmas printable_evals = lit_def is_c0_c1_def in_range_def

lemma matchers_printable:
  "matcher_printable private_path"
  "matcher_printable private_key"
  "matcher_printable (inline_secret other)"
proof -
  have marks: "printable (lit ''<redacted-path>'')" "printable (lit ''[REDACTED PRIVATE KEY]'')"
    "printable (lit ''=[REDACTED]'')"
    by (simp_all add: printable_evals)
  show "matcher_printable private_path" "matcher_printable private_key"
    using marks(1,2)
    by (auto simp: matcher_printable_def private_path_def private_key_def Let_def split: option.splits if_splits)
  show "matcher_printable (inline_secret other)"
    using marks(3)
    by (auto simp: matcher_printable_def inline_secret_def printable_take split: if_splits option.splits)
qed

lemma printable_safe_report [simp]: "printable (safe_report_text other s)"
  unfolding safe_report_text_def by (intro sub_all_printable matchers_printable printable_mask)

subsection \<open>Redacted reports\<close>

text \<open>
  What a report may show: texts without control characters, and under a key whose decoded text
  names a secret only the mark of a redaction.
\<close>

fun displayable :: "pystr \<Rightarrow> json \<Rightarrow> bool" where
  "displayable key v =
     (if sensitive_key (unquote_loop 2 key) then v = JStr (lit ''[REDACTED]'')
      else case v of
        JObj kvs \<Rightarrow> list_all (\<lambda>(k, x). displayable k x) kvs
      | JArr vs \<Rightarrow> list_all (displayable key) vs
      | JStr s \<Rightarrow> printable s
      | _ \<Rightarrow> True)"

declare displayable.simps [simp del]


text \<open>A displayable object under a harmless key shows only printable texts at its fields.\<close>

lemma displayable_field:
  assumes "displayable key v" "\<not> sensitive_key (unquote_loop 2 key)" "json_field v k = JStr s"
  shows "printable s"
proof -
  obtain d where d: "v = JObj d" "map_of d (lit k) = Some (JStr s)"
    using assms(3) by (auto simp: json_field_def split: json.splits option.splits)
  then have "displayable (lit k) (JStr s)"
    using assms(1,2) map_of_SomeD [OF d(2)] by (fastforce simp: displayable.simps [of key] list_all_iff)
  then show ?thesis by (auto simp: displayable.simps split: if_splits) (simp add: printable_evals)
qed


subsection \<open>The rendered report\<close>

lemma printable_nat_digits: "printable (nat_digits n)"
  using nat_digits_digits [of n] by (auto simp: printable_def list_all_iff char_class_defs is_c0_c1_def)

lemma printable_int_str [simp]: "printable (int_str i)"
  by (simp add: int_str_def printable_nat_digits is_c0_c1_def in_range_def)

text \<open>Literals of the program itself.\<close>

lemma printable_lit [simp]:
  "printable (lit []) = True"
  "printable (lit (c # s)) \<longleftrightarrow> \<not> is_c0_c1 (of_char c) \<and> printable (lit s)"
  by (simp_all add: lit_def)

lemma not_control [simp]:
  "\<not> is_c0_c1 (numeral n) \<longleftrightarrow> \<not> (numeral n \<le> (31 :: nat)) \<and> \<not> in_range 127 159 (numeral n)"
  by (simp add: is_c0_c1_def)

lemma printable_shown [simp]: "printable (shown other v)"
  by (simp add: shown_def)

lemma printable_count_text [simp]: "printable (count_text v k)"
  by (auto simp: count_text_def in_range_def split: json.splits)

lemma printable_status_upper [simp]: "printable (lit (status_upper st))"
  by (cases st) (simp_all add: in_range_def)






subsection \<open>The exit code\<close>

text \<open>A fact that is known and rules the host out.\<close>

definition ruled_out :: "host_facts \<Rightarrow> lifecycle_mode \<Rightarrow> bool" where
  "ruled_out facts mode =
     ((\<exists>os version. host_os_id facts = Some os \<and> host_os_version_id facts = Some version
         \<and> \<not> (os = lit ''ubuntu'' \<and> (version = lit ''26.04'' \<or> version = lit ''25.04'' \<and> mode \<noteq> Production)))
      \<or> host_architecture facts \<notin> {None, Some (lit ''x86_64'')}
      \<or> pid1_comm facts \<notin> {None, Some (lit ''systemd'')}
      \<or> cgroup_v2 facts = Some False
      \<or> cpu_virtualization facts = Some (lit ''none'')
      \<or> \<not> (kvm_device_exists facts \<and> kvm_device_is_character facts))"

lemma fold_min: "fold min cs (c :: nat) = Min (insert c (set cs))"
  by (metis Min.set_eq_fold list.simps(15))

text \<open>The category follows from the status.\<close>

definition classified :: "check_result \<Rightarrow> bool" where
  "classified c = (check_failure c = (case check_state c of Unknown \<Rightarrow> Some UnknownFailure | Fail \<Rightarrow> Some Platform | _ \<Rightarrow> None))"

lemma failure_codes_set:
  "list_all classified cs \<Longrightarrow>
   set (failure_codes cs) = (if list_ex (\<lambda>c. check_state c = Fail) cs then {3} else {})
     \<union> (if list_ex (\<lambda>c. check_state c = Unknown) cs then {5} else {})"
  by (induction cs) (auto simp: failure_codes_def classified_def split: check_status.splits)

lemma check_facts [simp]:
  "check_state (check cid st e r i v) = st" "classified (check cid st e r i v)"
  "check_state (plain_check cid st e') = st" "classified (plain_check cid st e')"
  by (cases st; simp add: check_def plain_check_def classified_def)+

lemma checks_classified:
  "classified (release_check facts mode)"
  "classified (architecture_check facts)"
  "classified (systemd_check facts)"
  "classified (cgroup_check facts)"
  "classified (cpu_check upper facts)"
  "classified (kvm_check facts)"
  "classified (nested_check facts)"
  by (simp_all only: release_check_def Let_def architecture_check_def systemd_check_def cgroup_check_def
      cpu_check_def kvm_check_def nested_check_def check_facts split: option.split if_split) simp_all

lemma evaluate_classified: "list_all classified (evaluate_host upper facts mode)"
  by (simp add: evaluate_host_def scope_checks_def checks_classified)

lemma release_fails:
  "check_state (release_check facts mode) = Fail \<longleftrightarrow>
    (\<exists>os version. host_os_id facts = Some os \<and> host_os_version_id facts = Some version
         \<and> \<not> (os = lit ''ubuntu'' \<and> (version = lit ''26.04'' \<or> version = lit ''25.04'' \<and> mode \<noteq> Production)))"
proof (cases "host_os_id facts"; cases "host_os_version_id facts")
  fix os version
  assume a: "host_os_id facts = Some os" "host_os_version_id facts = Some version"
  have "lit ''25.04'' \<noteq> lit ''26.04''" by (simp add: lit_def)
  then show ?thesis by (auto simp: release_check_def Let_def a)
qed (simp_all add: release_check_def Let_def)

lemma others_fail:
  "check_state (architecture_check facts) = Fail \<longleftrightarrow> host_architecture facts \<notin> {None, Some (lit ''x86_64'')}"
  "check_state (systemd_check facts) = Fail \<longleftrightarrow> pid1_comm facts \<notin> {None, Some (lit ''systemd'')}"
  "check_state (cgroup_check facts) = Fail \<longleftrightarrow> cgroup_v2 facts = Some False"
  "check_state (cpu_check upper facts) = Fail \<longleftrightarrow> cpu_virtualization facts = Some (lit ''none'')"
  "check_state (kvm_check facts) = Fail \<longleftrightarrow> \<not> (kvm_device_exists facts \<and> kvm_device_is_character facts)"
  "check_state (nested_check facts) \<noteq> Fail"
  by (simp_all add: architecture_check_def systemd_check_def cgroup_check_def cpu_check_def kvm_check_def
      nested_check_def split: option.split)

lemma list_ex_one: "list_ex p [] = False" "list_ex p (x # xs) = (p x \<or> list_ex p xs)"
  by simp_all

lemma scope_states: "list_all (\<lambda>c. check_state c \<noteq> Fail) scope_checks" "list_ex (\<lambda>c. check_state c = Unknown) scope_checks"
  by (simp_all add: scope_checks_def)

text \<open>The doctor exits with 3 exactly when a known fact rules the host out (the release under the selected
  lifecycle mode, the architecture, PID 1, the cgroup mode, the CPU or the KVM device), and with 5 on every
  other host: it never reports success, because five areas are not collected yet.\<close>

theorem doctor_exit_code:
  "report_exit_code (build_doctor_report upper timestamp facts mode dry_run) = (if ruled_out facts mode then 3 else 5)"
proof -
  define cs where "cs = evaluate_host upper facts mode"
  have unknown: "list_ex (\<lambda>c. check_state c = Unknown) cs"
    using scope_states(2) by (simp add: cs_def evaluate_host_def)
  have "\<not> list_ex (\<lambda>c. check_state c = Fail) scope_checks" using scope_states(1) by (simp add: list_ex_iff list_all_iff)
  then have failed: "list_ex (\<lambda>c. check_state c = Fail) cs \<longleftrightarrow> ruled_out facts mode"
    unfolding cs_def evaluate_host_def ruled_out_def list_ex_append
    by (simp only: list.simps list_ex_one release_fails others_fail) blast
  have codes: "set (failure_codes cs) = (if ruled_out facts mode then {3} else {}) \<union> {5}"
    using failure_codes_set [of cs] evaluate_classified unknown failed unfolding cs_def by simp
  then obtain c ds where "failure_codes cs = c # ds" by (cases "failure_codes cs") auto
  moreover from this have "insert c (set ds) = (if ruled_out facts mode then {3, 5} else {5})" using codes by auto
  ultimately show ?thesis
    by (simp add: report_exit_code_def build_doctor_report_def fold_min flip: cs_def)
qed

end
