(* ===== verification/Runner.thy ===== *)
theory Runner
  imports Pure_Path Json "HOL-Library.Word" Complex_Main
begin

text \<open>
  The bounded subprocess runner, \<open>src/src/kitdev_sandboxes/runner.py\<close>: the policy that a command
  must satisfy, the normalisation of captured bytes, and the event loop as a step function on an
  explicit state, fed with what the operating system answers on each turn.  Clock readings are
  exact rationals; the rounding of floats is not modelled.
\<close>

subsection \<open>Commands\<close>

datatype py_float = Finite rat | NonFinite

record command =
  cmd_argv :: "pystr list"
  cmd_cwd :: ppath
  timeout_seconds :: py_float
  termination_grace_seconds :: py_float
  stdout_limit_bytes :: int
  stderr_limit_bytes :: int

definition default_stream_limit :: int where "default_stream_limit = 262144"
definition max_stream_limit :: int where "max_stream_limit = 4194304"
definition max_normalized_evidence :: nat where "max_normalized_evidence = 1048576"
definition max_normalized_arg :: nat where "max_normalized_arg = 4096"
definition max_normalized_argv :: nat where "max_normalized_argv = 16384"
definition kill_reap_seconds :: rat where "kill_reap_seconds = 1"

text \<open>The Unicode categories Cc, Cf, Cs, Zl and Zp from 160 on; below it the code decides by number.\<close>

definition terminal_control :: "nat \<Rightarrow> bool" where
  "terminal_control c =
     (if c < 160 then c < 32 \<or> 127 \<le> c
      else is_cf c \<or> is_surrogate c \<or> c = 0x2028 \<or> c = 0x2029)"

definition argument_size :: "pystr \<Rightarrow> nat res" where
  "argument_size a =
     thenR (raise_if (0 \<in> set a) (ValueError ''argv elements must not contain NUL bytes''))
       (bindR (try_except (\<lambda>e. e = UnicodeEncodeError) (encode_utf8 a)
                 (\<lambda>_. Inl (ValueError ''argv elements must be valid UTF-8 text''))) (\<lambda>raw.
          thenR (raise_if (4096 < length raw) (ValueError ''an argv element may contain at most 4096 bytes''))
            (Inr (length raw))))"

definition validate_duration :: "string \<Rightarrow> py_float \<Rightarrow> rat \<Rightarrow> string \<Rightarrow> unit res" where
  "validate_duration name v maximum shown =
     raise_if (case v of NonFinite \<Rightarrow> True | Finite q \<Rightarrow> \<not> (0 < q \<and> q \<le> maximum))
       (ValueError (name @ '' must be finite, greater than zero, and at most '' @ shown))"

definition validate_stream_limit :: "string \<Rightarrow> int \<Rightarrow> unit res" where
  "validate_stream_limit name v = raise_if (\<not> (0 \<le> v \<and> v \<le> max_stream_limit)) (ValueError (name @ '' must be between 0 and 4194304''))"

definition check_argv :: "pystr list \<Rightarrow> unit res" where
  "check_argv argv =
     thenR (raise_if (argv = []) (ValueError ''argv must not be empty''))
     (thenR (raise_if (hd argv = []) (ValueError ''argv[0] must not be empty''))
     (thenR (raise_if (64 < length argv) (ValueError ''argv may contain at most 64 elements''))
     (bindR (mapR argument_size argv) (\<lambda>sizes.
        raise_if (16384 < sum_list sizes) (ValueError ''argv may contain at most 16384 bytes'')))))"

definition check_cwd :: "ppath \<Rightarrow> unit res" where
  "check_cwd p =
     thenR (raise_if (\<not> is_absolute p) (ValueError ''cwd must be absolute''))
     (thenR (raise_if (list_ex (\<lambda>c. c = 0 \<or> terminal_control c) (path_str p))
               (ValueError ''cwd must not contain control characters''))
     (bindR (try_except (\<lambda>e. e = UnicodeDecodeError \<or> e = UnicodeEncodeError)
               (bindR (encode_utf8 (path_str p)) decode_strict)
               (\<lambda>_. Inl (ValueError ''cwd must be valid UTF-8 text''))) (\<lambda>_. Inr ())))"

text \<open>\<open>Command.__post_init__\<close>; the class tests have no counterpart in a typed model.\<close>

definition check_command :: "command \<Rightarrow> unit res" where
  "check_command c =
     thenR (check_argv (cmd_argv c))
     (thenR (check_cwd (cmd_cwd c))
     (thenR (validate_duration ''timeout_seconds'' (timeout_seconds c) 300 ''300.0'')
     (thenR (validate_duration ''termination_grace_seconds'' (termination_grace_seconds c) 5 ''5.0'')
     (thenR (validate_stream_limit ''stdout_limit_bytes'' (stdout_limit_bytes c))
            (validate_stream_limit ''stderr_limit_bytes'' (stderr_limit_bytes c))))))"

subsection \<open>Normalised text\<close>

definition hex_pad :: "nat \<Rightarrow> nat \<Rightarrow> pystr" where
  "hex_pad k n = map (\<lambda>i. hex_digit (n div 16 ^ i mod 16)) (rev [0..<k])"

definition escaped_control :: "nat \<Rightarrow> pystr" where
  "escaped_control c =
     (if c \<le> 0xff then [92, 120] @ hex_pad 2 c
      else if c \<le> 0xffff then [92, 117] @ hex_pad 4 c
      else [92, 85] @ hex_pad 8 c)"

definition text_piece :: "bool \<Rightarrow> nat \<Rightarrow> pystr" where
  "text_piece preserve_newlines c =
     (if c = 10 \<and> preserve_newlines then [10] else if terminal_control c then escaped_control c else [c])"

definition encoded_size :: "pystr \<Rightarrow> nat" where
  "encoded_size s = length (concat (map utf8_char s))"

text \<open>
  The loop of \<open>_normalize_terminal_text\<close>: \<open>room\<close> is what the limit leaves.  The buffer holds the
  UTF-8 bytes of whole pieces, so the model keeps the pieces as text.
\<close>

record normalized =
  norm_text :: pystr
  norm_size :: nat
  norm_truncated :: bool

fun normalize_pieces :: "bool \<Rightarrow> nat \<Rightarrow> nat \<Rightarrow> pystr \<Rightarrow> pystr \<Rightarrow> normalized" where
  "normalize_pieces preserve limit used out [] = \<lparr>norm_text = out, norm_size = used, norm_truncated = False\<rparr>"
| "normalize_pieces preserve limit used out (c # cs) =
     (let piece = text_piece preserve c in
      if limit < used + encoded_size piece
      then \<lparr>norm_text = out, norm_size = used, norm_truncated = True\<rparr>
      else normalize_pieces preserve limit (used + encoded_size piece) (out @ piece) cs)"

definition normalize_terminal_text :: "bytes \<Rightarrow> nat \<Rightarrow> bool \<Rightarrow> normalized" where
  "normalize_terminal_text raw maximum preserve = normalize_pieces preserve maximum 0 [] (decode_replace raw)"

text \<open>The arguments share what remains of the limit.\<close>

fun normalize_args :: "nat \<Rightarrow> pystr list \<Rightarrow> (pystr list \<times> bool) res" where
  "normalize_args remaining [] = Inr ([], False)"
| "normalize_args remaining (a # as) =
     bindR (encode_utf8 a) (\<lambda>raw.
       let r = normalize_terminal_text raw (min max_normalized_arg remaining) False in
       bindR (normalize_args (remaining - norm_size r) as) (\<lambda>(out, truncated).
         Inr (norm_text r # out, norm_truncated r \<or> truncated)))"

definition normalize_argv :: "pystr list \<Rightarrow> (pystr list \<times> bool) res" where
  "normalize_argv argv = normalize_args max_normalized_argv argv"

subsection \<open>Streams\<close>

record accumulator =
  acc_limit :: nat
  acc_data :: bytes
  acc_discarded :: nat
  acc_read_error :: bool

definition new_accumulator :: "int \<Rightarrow> accumulator" where
  "new_accumulator limit = \<lparr>acc_limit = nat limit, acc_data = [], acc_discarded = 0, acc_read_error = False\<rparr>"

definition acc_add :: "bytes \<Rightarrow> accumulator \<Rightarrow> accumulator" where
  "acc_add chunk a =
     (let available = acc_limit a - length (acc_data a)
      in a\<lparr>acc_data := acc_data a @ take available chunk,
           acc_discarded := acc_discarded a + (length chunk - available)\<rparr>)"

definition mark_read_error :: "accumulator \<Rightarrow> accumulator" where
  "mark_read_error a = a\<lparr>acc_read_error := True\<rparr>"

record stream_evidence =
  ev_text :: pystr
  bytes_captured :: nat
  bytes_discarded :: nat
  ev_truncated :: bool
  normalized_bytes :: nat
  normalized_truncated :: bool
  ev_read_error :: bool

definition evidence :: "accumulator \<Rightarrow> stream_evidence" where
  "evidence a =
     (let n = normalize_terminal_text (acc_data a) max_normalized_evidence True
      in \<lparr>ev_text = norm_text n, bytes_captured = length (acc_data a), bytes_discarded = acc_discarded a,
          ev_truncated = (0 < acc_discarded a \<or> norm_truncated n \<or> acc_read_error a),
          normalized_bytes = norm_size n, normalized_truncated = norm_truncated n,
          ev_read_error = acc_read_error a\<rparr>)"

subsection \<open>Results\<close>

datatype outcome =
    Success | Nonzero | Signaled | Timeout | Missing | PermissionDenied | SpawnError | IoError | CleanupError

record command_result =
  res_argv :: "pystr list"
  res_outcome :: outcome
  returncode :: "int option"
  termination_signal :: "int option"
  res_timed_out :: bool
  missing_executable :: bool
  permission_denied :: bool
  res_stdout :: stream_evidence
  res_stderr :: stream_evidence
  duration_seconds :: rat
  error_message :: "string option"
  res_io_error :: bool
  res_cleanup_error :: bool
  argv_truncated :: bool

definition succeeded :: "command_result \<Rightarrow> bool" where
  "succeeded r = (res_outcome r = Success)"

definition output_truncated :: "command_result \<Rightarrow> bool" where
  "output_truncated r = (ev_truncated (res_stdout r) \<or> ev_truncated (res_stderr r))"

definition classify_outcome :: "int option \<Rightarrow> bool \<Rightarrow> bool \<Rightarrow> bool \<Rightarrow> outcome" where
  "classify_outcome rc timed_out io_error cleanup_error =
     (if timed_out then Timeout
      else if io_error then IoError
      else if cleanup_error then CleanupError
      else case rc of
        None \<Rightarrow> SpawnError
      | Some n \<Rightarrow> if n = 0 then Success else if n < 0 then Signaled else Nonzero)"

definition runtime_error_message :: "outcome \<Rightarrow> string option" where
  "runtime_error_message kind =
     (if kind = IoError then Some ''subprocess stream read failed''
      else if kind = CleanupError then Some ''process-group cleanup could not be confirmed'' else None)"

definition empty_evidence :: stream_evidence where
  "empty_evidence =
     \<lparr>ev_text = [], bytes_captured = 0, bytes_discarded = 0, ev_truncated = False,
      normalized_bytes = 0, normalized_truncated = False, ev_read_error = False\<rparr>"

definition spawn_failure :: "pystr list \<Rightarrow> outcome \<Rightarrow> bool \<Rightarrow> bool \<Rightarrow> bool \<Rightarrow> string \<Rightarrow> rat \<Rightarrow> rat \<Rightarrow> command_result" where
  "spawn_failure argv kind missing denied truncated message started now =
     \<lparr>res_argv = argv, res_outcome = kind, returncode = None, termination_signal = None, res_timed_out = False,
      missing_executable = missing, permission_denied = denied, res_stdout = empty_evidence,
      res_stderr = empty_evidence, duration_seconds = max 0 (now - started), error_message = Some message, res_io_error = False,
      res_cleanup_error = False, argv_truncated = truncated\<rparr>"

text \<open>The runner as its callers see it: it answers every command and changes the world.\<close>

type_synonym 'w runner = "command \<Rightarrow> 'w \<Rightarrow> command_result \<times> 'w"

end
