(* ===== verification/Runner_Loop.thy ===== *)
theory Runner_Loop
  imports Runner
begin

text \<open>
  \<open>CommandRunner.run\<close> of \<open>src/src/kitdev_sandboxes/runner.py\<close>.  One turn of the event loop is a
  function of the state and of what the system answered during the turn: the clock, \<open>poll\<close>, the
  signals, the selector and the reads.  The signals sent to the process group are kept in order.
  \<open>unregister\<close> of the selector takes a registered stream out and raises for any other, as its
  documentation says.
\<close>

subsection \<open>What the system answers\<close>

datatype stream_id = Out | Err

datatype signal = SigTerm | SigKill

datatype kill_result = Delivered | NoProcess | NotPermitted | KillFailed

text \<open>\<open>Data []\<close> is the end of the stream; the flag of a ready stream says whether closing it works.\<close>

datatype read_result = Data bytes | WouldBlock | ReadFailed

datatype select_result = Interrupted | SelectFailed | Ready "(stream_id \<times> read_result \<times> bool) list"

record turn =
  turn_poll :: "int option"
  turn_now :: rat
  turn_poll_again :: "int option"
  turn_signal :: kill_result
  turn_select :: select_result
  turn_group_kill :: kill_result

record loop_state =
  acc_out :: accumulator
  acc_err :: accumulator
  registered :: "stream_id list"
  timed_out :: bool
  term_sent_at :: "rat option"
  kill_sent_at :: "rat option"
  cleanup_error :: bool
  group_finalized :: bool
  signals :: "signal list"

subsection \<open>Signals\<close>

definition signal_confirmed :: "bool \<Rightarrow> kill_result \<Rightarrow> bool" where
  "signal_confirmed allow k =
     (case k of Delivered \<Rightarrow> True | NoProcess \<Rightarrow> True | NotPermitted \<Rightarrow> allow | KillFailed \<Rightarrow> False)"

text \<open>\<open>cleanup_error |= not _signal_process_group(...)\<close>\<close>

definition send :: "signal \<Rightarrow> bool \<Rightarrow> kill_result \<Rightarrow> loop_state \<Rightarrow> loop_state" where
  "send sig allow k st =
     st\<lparr>cleanup_error := cleanup_error st \<or> \<not> signal_confirmed allow k, signals := signals st @ [sig]\<rparr>"

definition finalize_group :: "bool \<Rightarrow> kill_result \<Rightarrow> loop_state \<Rightarrow> loop_state" where
  "finalize_group allow k st = (send SigKill allow k st)\<lparr>group_finalized := True\<rparr>"

definition finalize_when_drained :: "bool \<Rightarrow> kill_result \<Rightarrow> loop_state \<Rightarrow> loop_state" where
  "finalize_when_drained allow k st =
     (if registered st = [] \<and> \<not> group_finalized st then finalize_group allow k st else st)"

subsection \<open>Streams\<close>

definition update_acc :: "(accumulator \<Rightarrow> accumulator) \<Rightarrow> stream_id \<Rightarrow> loop_state \<Rightarrow> loop_state" where
  "update_acc f s st = (case s of Out \<Rightarrow> st\<lparr>acc_out := f (acc_out st)\<rparr> | Err \<Rightarrow> st\<lparr>acc_err := f (acc_err st)\<rparr>)"

definition unregister :: "stream_id \<Rightarrow> loop_state \<Rightarrow> loop_state" where
  "unregister s st = st\<lparr>registered := filter (\<lambda>x. x \<noteq> s) (registered st)\<rparr>"

definition close_stream_after_error :: "stream_id \<Rightarrow> loop_state \<Rightarrow> loop_state" where
  "close_stream_after_error s st = unregister s (update_acc mark_read_error s st)"

definition end_of_stream :: "kill_result \<Rightarrow> stream_id \<Rightarrow> bool \<Rightarrow> loop_state \<Rightarrow> loop_state" where
  "end_of_stream k s close_ok st =
     (let st1 = (if s \<in> set (registered st) then st else update_acc mark_read_error s st);
          st2 = unregister s st1;
          st3 = (if close_ok then st2 else update_acc mark_read_error s st2)
      in finalize_when_drained True k st3)"

fun handle_ready :: "kill_result \<Rightarrow> (stream_id \<times> read_result \<times> bool) list \<Rightarrow> loop_state \<Rightarrow> loop_state" where
  "handle_ready k [] st = st"
| "handle_ready k ((s, r, close_ok) # ready) st =
     handle_ready k ready
       (case r of
          WouldBlock \<Rightarrow> st
        | ReadFailed \<Rightarrow> close_stream_after_error s st
        | Data chunk \<Rightarrow> if chunk \<noteq> [] then update_acc (acc_add chunk) s st else end_of_stream k s close_ok st)"

subsection \<open>The loop\<close>

definition initial_loop :: "command \<Rightarrow> loop_state" where
  "initial_loop c =
     \<lparr>acc_out = new_accumulator (stdout_limit_bytes c), acc_err = new_accumulator (stderr_limit_bytes c),
      registered = [], timed_out = False, term_sent_at = None, kill_sent_at = None,
      cleanup_error = False, group_finalized = False, signals = []\<rparr>"

definition register_stream :: "stream_id \<Rightarrow> bool \<Rightarrow> loop_state \<Rightarrow> loop_state" where
  "register_stream s ok st =
     (if ok then st\<lparr>registered := registered st @ [s]\<rparr> else close_stream_after_error s st)"

text \<open>Before the loop: without any stream to watch the group is killed at once.\<close>

definition start_loop :: "command \<Rightarrow> bool \<Rightarrow> bool \<Rightarrow> kill_result \<Rightarrow> loop_state" where
  "start_loop c out_ok err_ok k =
     (let st = register_stream Err err_ok (register_stream Out out_ok (initial_loop c))
      in if registered st = [] then finalize_group False k st else st)"

definition seconds :: "py_float \<Rightarrow> rat" where
  "seconds v = (case v of Finite q \<Rightarrow> q | NonFinite \<Rightarrow> 0)"

text \<open>
  The timers of a turn, and whether the hard bound after the kill ends the loop.
\<close>

definition timers :: "command \<Rightarrow> rat \<Rightarrow> turn \<Rightarrow> loop_state \<Rightarrow> loop_state \<times> bool" where
  "timers c deadline t st =
     (let now = turn_now t in
      if \<not> timed_out st \<and> deadline \<le> now
      then (send SigTerm False (turn_signal t) (st\<lparr>timed_out := True, term_sent_at := Some now\<rparr>), False)
      else if timed_out st \<and> kill_sent_at st = None
           \<and> (case term_sent_at st of None \<Rightarrow> False | Some sent \<Rightarrow> sent + seconds (termination_grace_seconds c) \<le> now)
      then (finalize_group False (turn_signal t) (st\<lparr>kill_sent_at := Some now\<rparr>), False)
      else if (case kill_sent_at st of None \<Rightarrow> False | Some sent \<Rightarrow> sent + kill_reap_seconds \<le> now)
           \<and> (registered st \<noteq> [] \<or> turn_poll_again t = None)
      then (st\<lparr>registered := []\<rparr>, True)
      else (st, False))"

text \<open>How long the turn waits for the streams.\<close>

definition wait_seconds :: "command \<Rightarrow> rat \<Rightarrow> rat \<Rightarrow> loop_state \<Rightarrow> rat" where
  "wait_seconds c deadline now st =
     (let wake_at = (case (term_sent_at st, kill_sent_at st) of
          (Some sent, None) \<Rightarrow> sent + seconds (termination_grace_seconds c)
        | (_, Some sent) \<Rightarrow> sent + kill_reap_seconds
        | _ \<Rightarrow> deadline)
      in max 0 (min (1 / 20) (wake_at - now)))"

definition select_turn :: "turn \<Rightarrow> loop_state \<Rightarrow> loop_state" where
  "select_turn t st =
     (case turn_select t of
        Interrupted \<Rightarrow> st
      | SelectFailed \<Rightarrow> finalize_when_drained False (turn_group_kill t) (fold close_stream_after_error (registered st) st)
      | Ready ready \<Rightarrow> handle_ready (turn_group_kill t) ready st)"

definition loop_goes_on :: "turn \<Rightarrow> loop_state \<Rightarrow> bool" where
  "loop_goes_on t st = (registered st \<noteq> [] \<or> turn_poll t = None)"

text \<open>
  The loop on the turns of a run; \<open>None\<close> when they are used up before it ends.
\<close>

fun run_loop :: "command \<Rightarrow> rat \<Rightarrow> turn list \<Rightarrow> loop_state \<Rightarrow> loop_state option" where
  "run_loop c deadline [] st = None"
| "run_loop c deadline (t # ts) st =
     (if \<not> loop_goes_on t st then Some st
      else case timers c deadline t st of
        (st1, True) \<Rightarrow> Some st1
      | (st1, False) \<Rightarrow> run_loop c deadline ts (select_turn t st1))"

subsection \<open>Reaping\<close>

datatype poll_result = PollFailed | Polled "int option"

datatype wait_result = Waited int | WaitExpired | WaitFailed

record reaping =
  reap_poll :: poll_result
  reap_kill :: kill_result
  reap_wait :: wait_result
  reap_poll_again :: poll_result

text \<open>The return code, whether reaping could not be confirmed, and the signals sent.\<close>

definition reap_process :: "reaping \<Rightarrow> int option \<times> bool \<times> signal list" where
  "reap_process r =
     (case reap_poll r of
        PollFailed \<Rightarrow> (None, True, [])
      | Polled (Some code) \<Rightarrow> (Some code, False, [])
      | Polled None \<Rightarrow>
          (case reap_wait r of
             Waited code \<Rightarrow> (Some code, \<not> signal_confirmed False (reap_kill r), [SigKill])
           | WaitExpired \<Rightarrow>
               (case reap_poll_again r of
                  PollFailed \<Rightarrow> (None, True, [SigKill])
                | Polled code \<Rightarrow> (code, True, [SigKill]))
           | WaitFailed \<Rightarrow> (None, True, [SigKill])))"

subsection \<open>A run\<close>

datatype cwd_state = CwdMissing | CwdDenied | CwdFailed | CwdNotDirectory | CwdDirectory

datatype spawn_result = Spawned | SpawnMissing | SpawnDenied | SpawnRejected

record run_input =
  in_started :: rat
  in_ended :: rat
  in_cwd :: cwd_state
  in_spawn :: spawn_result
  in_out_ok :: bool
  in_err_ok :: bool
  in_start_kill :: kill_result
  in_turns :: "turn list"
  in_last_kill :: kill_result
  in_reap :: reaping

definition start_failure :: "run_input \<Rightarrow> pystr list \<Rightarrow> bool \<Rightarrow> command_result option" where
  "start_failure inp argv truncated =
     (let failure = (\<lambda>kind missing denied message.
            Some (spawn_failure argv kind missing denied truncated message (in_started inp) (in_ended inp))) in
      case in_cwd inp of
        CwdMissing \<Rightarrow> failure SpawnError False False ''working directory was not found''
      | CwdDenied \<Rightarrow> failure PermissionDenied False True ''permission denied while accessing working directory''
      | CwdFailed \<Rightarrow> failure SpawnError False False ''working directory could not be inspected''
      | CwdNotDirectory \<Rightarrow> failure SpawnError False False ''working directory is not a directory''
      | CwdDirectory \<Rightarrow>
          (case in_spawn inp of
             SpawnMissing \<Rightarrow> failure Missing True False ''executable was not found''
           | SpawnDenied \<Rightarrow> failure PermissionDenied False True ''permission denied while starting executable''
           | SpawnRejected \<Rightarrow> failure SpawnError False False ''operating system rejected command startup''
           | Spawned \<Rightarrow> None))"

text \<open>After the loop: the last kill, reaping, and the result.\<close>

definition close_group :: "run_input \<Rightarrow> loop_state \<Rightarrow> loop_state \<times> int option" where
  "close_group inp st =
     (let st1 = (if group_finalized st then st else send SigKill True (in_last_kill inp) st);
          (code, failed, sent) = reap_process (in_reap inp)
      in (st1\<lparr>cleanup_error := cleanup_error st1 \<or> failed, signals := signals st1 @ sent\<rparr>, code))"

definition finish_run :: "run_input \<Rightarrow> pystr list \<Rightarrow> bool \<Rightarrow> loop_state \<Rightarrow> int option \<Rightarrow> command_result" where
  "finish_run inp argv truncated st code =
     (let out_evidence = evidence (acc_out st);
          err_evidence = evidence (acc_err st);
          io_error = (ev_read_error out_evidence \<or> ev_read_error err_evidence);
          kind = classify_outcome code (timed_out st) io_error (cleanup_error st)
      in \<lparr>res_argv = argv, res_outcome = kind, returncode = code,
          termination_signal = (case code of None \<Rightarrow> None | Some n \<Rightarrow> if n < 0 then Some (- n) else None),
          res_timed_out = timed_out st, missing_executable = False, permission_denied = False,
          res_stdout = out_evidence, res_stderr = err_evidence,
          duration_seconds = max 0 (in_ended inp - in_started inp),
          error_message = runtime_error_message kind, res_io_error = io_error,
          res_cleanup_error = cleanup_error st, argv_truncated = truncated\<rparr>)"

text \<open>The result and the signals that the process group was sent; \<open>None\<close> while the loop still runs.\<close>

definition run_command :: "command \<Rightarrow> run_input \<Rightarrow> (command_result \<times> signal list) option res" where
  "run_command c inp =
     bindR (normalize_argv (cmd_argv c)) (\<lambda>(argv, truncated).
       Inr (case start_failure inp argv truncated of
          Some r \<Rightarrow> Some (r, [])
        | None \<Rightarrow>
            map_option (\<lambda>st. let (st', code) = close_group inp st in (finish_run inp argv truncated st' code, signals st'))
              (run_loop c (in_started inp + seconds (timeout_seconds c)) (in_turns inp)
                 (start_loop c (in_out_ok inp) (in_err_ok inp) (in_start_kill inp)))))"

end
