(* ===== verification/Runner_Spec.thy ===== *)
theory Runner_Spec
  imports Runner_Loop
begin

text \<open>
  What a collector may rely on: captured evidence is bounded, complete when it is not marked
  truncated, and safe to print; the process group is always killed; a run ends within the time
  that the command's policy allows.
\<close>

subsection \<open>Normalised text\<close>



lemma encoded_size_append [simp]: "encoded_size (s @ t) = encoded_size s + encoded_size t"
  by (simp add: encoded_size_def)

lemma encoded_size_Nil [simp]: "encoded_size [] = 0"
  by (simp add: encoded_size_def)









definition acc_holds :: "nat \<Rightarrow> bytes \<Rightarrow> accumulator \<Rightarrow> bool" where
  "acc_holds limit bs a = (acc_limit a = limit \<and> acc_data a = take limit bs \<and> acc_discarded a = length bs - limit)"

lemma acc_holds_add: "acc_holds limit bs a \<Longrightarrow> acc_holds limit (bs @ chunk) (acc_add chunk a)"
  by (auto simp: acc_holds_def acc_add_def Let_def min_def)

lemma acc_holds_mark [simp]: "acc_holds limit bs (mark_read_error a) = acc_holds limit bs a"
  by (simp add: acc_holds_def mark_read_error_def)

lemma acc_holds_new: "acc_holds (nat limit) [] (new_accumulator limit)"
  by (simp add: acc_holds_def new_accumulator_def)


subsection \<open>The loop\<close>

text \<open>What the turns read of a stream.\<close>

fun ready_bytes :: "stream_id \<Rightarrow> (stream_id \<times> read_result \<times> bool) list \<Rightarrow> bytes" where
  "ready_bytes s [] = []"
| "ready_bytes s ((s', r, close_ok) # ready) =
     (case r of Data chunk \<Rightarrow> if s' = s then chunk else [] | _ \<Rightarrow> []) @ ready_bytes s ready"

definition turn_bytes :: "stream_id \<Rightarrow> turn \<Rightarrow> bytes" where
  "turn_bytes s t = (case turn_select t of Ready ready \<Rightarrow> ready_bytes s ready | _ \<Rightarrow> [])"

definition stream_bytes :: "stream_id \<Rightarrow> turn list \<Rightarrow> bytes" where
  "stream_bytes s ts = concat (map (turn_bytes s) ts)"

text \<open>The invariant of the loop, given what was read so far.\<close>

definition loop_inv :: "command \<Rightarrow> bytes \<Rightarrow> bytes \<Rightarrow> loop_state \<Rightarrow> bool" where
  "loop_inv c out err st =
     (acc_holds (nat (stdout_limit_bytes c)) out (acc_out st) \<and> acc_holds (nat (stderr_limit_bytes c)) err (acc_err st)
      \<and> (group_finalized st \<longrightarrow> SigKill \<in> set (signals st))
      \<and> (SigTerm \<in> set (signals st) \<longleftrightarrow> timed_out st))"

lemma inv_unregister [simp]: "loop_inv c out err (unregister s st) = loop_inv c out err st"
  by (simp add: loop_inv_def unregister_def)

lemma inv_mark [simp]: "loop_inv c out err (update_acc mark_read_error s st) = loop_inv c out err st"
  by (cases s) (simp_all add: loop_inv_def update_acc_def)

lemma inv_close [simp]: "loop_inv c out err (close_stream_after_error s st) = loop_inv c out err st"
  by (simp add: close_stream_after_error_def)

lemma inv_kill: "loop_inv c out err st \<Longrightarrow> loop_inv c out err (finalize_group allow k st)"
  by (auto simp: loop_inv_def finalize_group_def send_def)

lemma inv_drained: "loop_inv c out err st \<Longrightarrow> loop_inv c out err (finalize_when_drained allow k st)"
  by (simp add: finalize_when_drained_def inv_kill)

lemma inv_close_all: "loop_inv c out err (fold close_stream_after_error ss st) = loop_inv c out err st"
  by (induction ss arbitrary: st) simp_all

lemma inv_add:
  "loop_inv c out err st \<Longrightarrow>
   loop_inv c (out @ (if s = Out then chunk else [])) (err @ (if s = Err then chunk else [])) (update_acc (acc_add chunk) s st)"
  by (cases s) (auto simp: loop_inv_def update_acc_def acc_holds_add)

lemma inv_end: "loop_inv c out err st \<Longrightarrow> loop_inv c out err (end_of_stream k s close_ok st)"
  by (simp add: end_of_stream_def Let_def inv_drained)

lemma inv_ready:
  "loop_inv c out err st \<Longrightarrow> loop_inv c (out @ ready_bytes Out ready) (err @ ready_bytes Err ready) (handle_ready k ready st)"
proof (induction k ready st arbitrary: out err rule: handle_ready.induct)
  case (2 k s r close_ok ready st)
  show ?case
  proof (cases r)
    case (Data chunk)
    show ?thesis
    proof (cases "chunk = []")
      case True
      then show ?thesis using "2.IH" inv_end [OF "2.prems"] by (simp add: Data)
    next
      case False
      then show ?thesis using "2.IH" inv_add [OF "2.prems", of s chunk] by (cases s) (force simp: Data)+
    qed
  qed (use 2 in simp_all)
qed simp

lemma inv_select: "loop_inv c out err st \<Longrightarrow> loop_inv c (out @ turn_bytes Out t) (err @ turn_bytes Err t) (select_turn t st)"
  by (auto simp: select_turn_def turn_bytes_def inv_drained inv_close_all inv_ready split: select_result.splits)

lemma inv_timers: "loop_inv c out err st \<Longrightarrow> loop_inv c out err (fst (timers c deadline t st))"
  by (auto simp: timers_def Let_def loop_inv_def finalize_group_def send_def)

lemma inv_loop:
  assumes "loop_inv c out err st" "run_loop c deadline ts st = Some st'"
  shows "\<exists>used unused. ts = used @ unused \<and> loop_inv c (out @ stream_bytes Out used) (err @ stream_bytes Err used) st'"
  using assms
proof (induction c deadline ts st arbitrary: out err rule: run_loop.induct)
  case (2 c deadline t ts st)
  show ?case
  proof (cases "loop_goes_on t st")
    case False
    then show ?thesis using "2.prems" by (intro exI [of _ "[]"] exI [of _ "t # ts"]) (simp add: stream_bytes_def)
  next
    case True
    obtain st1 stop where st1: "timers c deadline t st = (st1, stop)" by fastforce
    have inv: "loop_inv c out err st1" using inv_timers [OF "2.prems"(1), of deadline t] by (simp add: st1)
    show ?thesis
    proof (cases stop)
      case True
      then show ?thesis
        using "2.prems"(2) \<open>loop_goes_on t st\<close> inv st1 by (intro exI [of _ "[]"] exI [of _ "t # ts"]) (simp add: stream_bytes_def)
    next
      case False
      then have r: "run_loop c deadline ts (select_turn t st1) = Some st'"
        using "2.prems"(2) True by (simp add: st1)
      obtain used unused where "ts = used @ unused"
        "loop_inv c ((out @ turn_bytes Out t) @ stream_bytes Out used) ((err @ turn_bytes Err t) @ stream_bytes Err used) st'"
        using "2.IH" [OF _ st1 [symmetric] _ inv_select [OF inv] r] True False by auto
      then show ?thesis by (intro exI [of _ "t # used"] exI [of _ unused]) (simp add: stream_bytes_def)
    qed
  qed
qed simp

lemma inv_start: "loop_inv c [] [] (start_loop c a b k)"
proof -
  have "loop_inv c [] [] (initial_loop c)"
    by (simp add: loop_inv_def initial_loop_def acc_holds_new)
  moreover have "loop_inv c out err (register_stream s ok st) = loop_inv c out err st" for out err s ok st
    by (simp add: register_stream_def) (simp add: loop_inv_def)
  ultimately show ?thesis by (simp add: start_loop_def Let_def inv_kill)
qed

subsection \<open>A run\<close>

definition spawned :: "run_input \<Rightarrow> bool" where
  "spawned inp = (in_cwd inp = CwdDirectory \<and> in_spawn inp = Spawned)"

lemma start_failure_None [simp]: "start_failure inp argv truncated = None \<longleftrightarrow> spawned inp"
  by (simp add: start_failure_def spawned_def Let_def split: cwd_state.split spawn_result.split)

lemma inv_close_group:
  assumes "loop_inv c out err st" "close_group inp st = (st', code)"
  shows "loop_inv c out err st' \<and> SigKill \<in> set (signals st') \<and> timed_out st' = timed_out st"
proof -
  obtain rc failed sent where reap: "reap_process (in_reap inp) = (rc, failed, sent)" by (metis prod_cases3)
  have "SigTerm \<notin> set sent"
    using reap by (auto simp: reap_process_def split: poll_result.splits option.splits wait_result.splits)
  then show ?thesis
    using assms by (cases "group_finalized st") (auto simp: close_group_def reap loop_inv_def send_def Let_def)
qed

lemma run_command_spawned:
  assumes "run_command c inp = Inr (Some (r, sigs))" "spawned inp"
  obtains argv truncated st code used unused where
    "r = finish_run inp argv truncated st code" "sigs = signals st" "in_turns inp = used @ unused"
    "loop_inv c (stream_bytes Out used) (stream_bytes Err used) st" "SigKill \<in> set sigs"
proof -
  obtain argv truncated where a: "normalize_argv (cmd_argv c) = Inr (argv, truncated)"
    and m: "map_option (\<lambda>st. let (st', code) = close_group inp st in (finish_run inp argv truncated st' code, signals st'))
      (run_loop c (in_started inp + seconds (timeout_seconds c)) (in_turns inp)
         (start_loop c (in_out_ok inp) (in_err_ok inp) (in_start_kill inp))) = Some (r, sigs)"
    using assms start_failure_None [of inp] by (auto simp: run_command_def simp del: start_failure_None)
  obtain st where st: "run_loop c (in_started inp + seconds (timeout_seconds c)) (in_turns inp)
         (start_loop c (in_out_ok inp) (in_err_ok inp) (in_start_kill inp)) = Some st"
    and rs: "(let (st', code) = close_group inp st in (finish_run inp argv truncated st' code, signals st')) = (r, sigs)"
    using m by auto
  obtain used unused where u: "in_turns inp = used @ unused"
    "loop_inv c (stream_bytes Out used) (stream_bytes Err used) st"
    using inv_loop [OF inv_start st] by auto
  obtain st' code where cg: "close_group inp st = (st', code)" by fastforce
  show thesis
    using that [of argv truncated st' code used unused] rs u(1) inv_close_group [OF u(2) cg] by (simp add: cg)
qed


subsection \<open>A sample run\<close>

definition sample_command :: command where
  "sample_command =
     \<lparr>cmd_argv = [lit ''/usr/bin/id''], cmd_cwd = \<lparr>anchor = [47], components = []\<rparr>, timeout_seconds = Finite 5,
      termination_grace_seconds = Finite (1 / 4), stdout_limit_bytes = 4, stderr_limit_bytes = 4\<rparr>"

definition sample_turn :: "int option \<Rightarrow> rat \<Rightarrow> (stream_id \<times> read_result \<times> bool) list \<Rightarrow> turn" where
  "sample_turn poll now ready =
     \<lparr>turn_poll = poll, turn_now = now, turn_poll_again = None, turn_signal = Delivered,
      turn_select = Ready ready, turn_group_kill = NoProcess\<rparr>"

definition sample_input :: "turn list \<Rightarrow> run_input" where
  "sample_input ts =
     \<lparr>in_started = 0, in_ended = 1, in_cwd = CwdDirectory, in_spawn = Spawned, in_out_ok = True, in_err_ok = True,
      in_start_kill = NoProcess, in_turns = ts, in_last_kill = NoProcess,
      in_reap = \<lparr>reap_poll = Polled (Some 0), reap_kill = NoProcess, reap_wait = WaitExpired, reap_poll_again = PollFailed\<rparr>\<rparr>"

text \<open>A process that writes six bytes, an escape among them, and ends; one that never ends.\<close>

definition quick_turns :: "turn list" where
  "quick_turns =
     [sample_turn None 1 [(Out, Data [72, 105, 27, 33, 33, 33], True)],
      sample_turn None 1 [(Out, Data [], True), (Err, Data [], True)],
      sample_turn (Some 0) 1 []]"

definition stuck_turns :: "turn list" where
  "stuck_turns = map (\<lambda>now. sample_turn None now []) [1, 5, 6, 7, 8]"

lemma sample_spawned: "spawned (sample_input ts)"
  by (simp add: spawned_def sample_input_def)

lemma sample_argv: "normalize_argv (cmd_argv sample_command) = Inr ([lit ''/usr/bin/id''], False)"
proof -
  have raw: "encode_utf8 (lit ''/usr/bin/id'') = Inr (lit ''/usr/bin/id'')"
    by (rule encode_utf8_ascii) (simp add: is_ascii_def lit_def)
  have dec: "decode_replace (lit ''/usr/bin/id'') = lit ''/usr/bin/id''"
    by (rule decode_replace_ascii) (simp add: is_ascii_def lit_def)
  show ?thesis
    unfolding normalize_argv_def sample_command_def command.simps normalize_args.simps raw bindR_simps
      normalize_terminal_text_def dec max_normalized_argv_def max_normalized_arg_def
    by (simp add: lit_def Let_def text_piece_def terminal_control_def encoded_size_def utf8_char_def)
qed

lemma sample_run:
  assumes "run_loop sample_command 5 ts (start_loop sample_command True True NoProcess) = Some st"
  shows "\<exists>r sigs. run_command sample_command (sample_input ts) = Inr (Some (r, sigs))
    \<and> res_stdout r = evidence (acc_out st) \<and> res_timed_out r = timed_out st
    \<and> (\<not> res_timed_out r \<and> \<not> acc_read_error (acc_out st) \<and> \<not> acc_read_error (acc_err st)
       \<and> \<not> cleanup_error st \<longrightarrow> res_outcome r = Success)"
proof -
  have sf: "start_failure (sample_input ts) argv tr = None" for argv tr using sample_spawned by simp
  have inp: "in_started (sample_input ts) + seconds (timeout_seconds sample_command) = 5"
    "in_turns (sample_input ts) = ts" "in_out_ok (sample_input ts)" "in_err_ok (sample_input ts)"
    "in_start_kill (sample_input ts) = NoProcess"
    by (simp_all add: sample_input_def sample_command_def seconds_def)
  obtain st' where st': "close_group (sample_input ts) st = (st', Some 0)"
    "acc_out st' = acc_out st" "acc_err st' = acc_err st" "timed_out st' = timed_out st" "cleanup_error st' = cleanup_error st"
    by (simp add: close_group_def sample_input_def reap_process_def send_def signal_confirmed_def Let_def)
  then show ?thesis
    by (simp add: run_command_def sample_argv sf inp assms finish_run_def Let_def classify_outcome_def evidence_def)
qed

lemmas loop_evals = run_loop.simps loop_goes_on_def timers_def select_turn_def handle_ready.simps Let_def
  sample_turn_def start_loop_def register_stream_def initial_loop_def update_acc_def acc_add_def new_accumulator_def
  end_of_stream_def unregister_def finalize_when_drained_def finalize_group_def send_def signal_confirmed_def
  kill_reap_seconds_def seconds_def

lemma quick_result:
  "\<exists>st. run_loop sample_command 5 quick_turns (start_loop sample_command True True NoProcess) = Some st
    \<and> acc_data (acc_out st) = [72, 105, 27, 33] \<and> acc_discarded (acc_out st) = 2 \<and> signals st = [SigKill]
    \<and> \<not> acc_read_error (acc_out st) \<and> \<not> acc_read_error (acc_err st) \<and> \<not> cleanup_error st \<and> \<not> timed_out st"
  by (simp add: loop_evals quick_turns_def sample_command_def)



text \<open>C32: Every run that started a process sends SIGKILL to its process group before it returns, and SIGTERM
  exactly when it reports a timeout; success is reported only for exit status zero within the time limit,
  with both streams read without error and the cleanup of the group confirmed.\<close>

theorem run_kills_group:
  assumes "run_command c inp = Inr (Some (r, sigs))" "spawned inp"
  shows "SigKill \<in> set sigs \<and> (SigTerm \<in> set sigs \<longleftrightarrow> res_timed_out r)
    \<and> (succeeded r \<longrightarrow> returncode r = Some 0 \<and> \<not> res_timed_out r \<and> \<not> res_io_error r \<and> \<not> res_cleanup_error r)
    \<and> (res_timed_out r \<longrightarrow> res_outcome r = Timeout)"
proof -
  from run_command_spawned [OF assms] obtain argv truncated st code used unused where
    r: "r = finish_run inp argv truncated st code" "sigs = signals st"
    "loop_inv c (stream_bytes Out used) (stream_bytes Err used) st" "SigKill \<in> set sigs" by metis
  have "SigTerm \<in> set sigs \<longleftrightarrow> timed_out st" using r(2,3) by (simp add: loop_inv_def)
  moreover have "res_timed_out r = timed_out st" "res_cleanup_error r = cleanup_error st" "returncode r = code"
    "res_outcome r = classify_outcome (returncode r) (res_timed_out r) (res_io_error r) (res_cleanup_error r)"
    by (simp_all add: r(1) finish_run_def Let_def)
  ultimately show ?thesis
    using r(4) by (auto simp: succeeded_def classify_outcome_def split: if_splits option.splits)
qed

lemma run_kills_group_witness:
  "\<exists>r sigs. run_command sample_command (sample_input quick_turns) = Inr (Some (r, sigs))
    \<and> succeeded r \<and> returncode r = Some 0 \<and> SigKill \<in> set sigs \<and> SigTerm \<notin> set sigs"
proof -
  obtain st where st: "run_loop sample_command 5 quick_turns (start_loop sample_command True True NoProcess) = Some st"
    "\<not> acc_read_error (acc_out st)" "\<not> acc_read_error (acc_err st)" "\<not> cleanup_error st" "\<not> timed_out st"
    using quick_result by blast
  obtain r sigs where r: "run_command sample_command (sample_input quick_turns) = Inr (Some (r, sigs))" "succeeded r"
    using sample_run [OF st(1)] st by (auto simp: succeeded_def)
  then show ?thesis using run_kills_group [OF r(1) sample_spawned] by blast
qed

subsection \<open>A run ends\<close>

lemma update_acc_timers [simp]:
  "timed_out (update_acc f s st) = timed_out st" "term_sent_at (update_acc f s st) = term_sent_at st"
  "kill_sent_at (update_acc f s st) = kill_sent_at st" "registered (update_acc f s st) = registered st"
  by (cases s; simp add: update_acc_def)+

text \<open>What the streams of a turn leave alone, and that no stream is ever watched again.\<close>

definition same_timers :: "loop_state \<Rightarrow> loop_state \<Rightarrow> bool" where
  "same_timers st st' = (timed_out st' = timed_out st \<and> term_sent_at st' = term_sent_at st
     \<and> kill_sent_at st' = kill_sent_at st \<and> set (registered st') \<subseteq> set (registered st))"

lemma same_timers_refl [simp]: "same_timers st st"
  by (simp add: same_timers_def)

lemma same_timers_trans: "same_timers st st' \<Longrightarrow> same_timers st' st'' \<Longrightarrow> same_timers st st''"
  by (auto simp: same_timers_def)

lemma same_close: "same_timers st (close_stream_after_error s st)"
  by (auto simp: same_timers_def close_stream_after_error_def unregister_def)

lemma same_drained: "same_timers st (finalize_when_drained allow k st)"
  by (simp add: same_timers_def finalize_when_drained_def finalize_group_def send_def)

lemma same_close_all: "same_timers st (fold close_stream_after_error ss st)"
  by (induction ss arbitrary: st) (auto intro: same_timers_trans same_close)

lemma same_end: "same_timers st (end_of_stream k s close_ok st)"
proof -
  have "same_timers st (unregister s (if b then st else update_acc mark_read_error s st))" for b
    by (auto simp: same_timers_def unregister_def)
  moreover have "same_timers st' (if close_ok then st' else update_acc mark_read_error s st')" for st'
    by (simp add: same_timers_def)
  ultimately show ?thesis
    unfolding end_of_stream_def Let_def by (meson same_timers_trans same_drained)
qed

lemma same_ready: "same_timers st (handle_ready k ready st)"
proof (induction k ready st rule: handle_ready.induct)
  case (2 k s r close_ok ready st)
  have "same_timers st (case r of WouldBlock \<Rightarrow> st | ReadFailed \<Rightarrow> close_stream_after_error s st
      | Data chunk \<Rightarrow> if chunk \<noteq> [] then update_acc (acc_add chunk) s st else end_of_stream k s close_ok st)"
    by (auto simp: same_close same_end split: read_result.split) (simp add: same_timers_def)
  then show ?case using "2.IH" by (simp add: same_timers_trans)
qed simp

lemma same_select: "same_timers st (select_turn t st)"
  by (auto simp: select_turn_def same_ready intro: same_timers_trans same_close_all same_drained split: select_result.split)

text \<open>
  How far the timers have come by a clock reading: the deadline passed, the group killed.
\<close>

definition terminated_by :: "rat \<Rightarrow> loop_state \<Rightarrow> bool" where
  "terminated_by now st = (timed_out st \<and> (\<exists>x. term_sent_at st = Some x \<and> x \<le> now))"

definition killed_by :: "rat \<Rightarrow> loop_state \<Rightarrow> bool" where
  "killed_by now st = (timed_out st \<and> (\<exists>x. kill_sent_at st = Some x \<and> x \<le> now))"

definition timer_inv :: "rat \<Rightarrow> loop_state \<Rightarrow> bool" where
  "timer_inv now st =
     ((timed_out st \<longrightarrow> terminated_by now st) \<and> (kill_sent_at st \<noteq> None \<longrightarrow> killed_by now st))"

lemma select_timers:
  "terminated_by now (select_turn t st) = terminated_by now st"
  "killed_by now (select_turn t st) = killed_by now st"
  "timer_inv now (select_turn t st) = timer_inv now st"
  using same_select [of st t] by (simp_all add: same_timers_def terminated_by_def killed_by_def timer_inv_def)

lemma timers_step:
  assumes "timer_inv before st" "before \<le> turn_now t" "timers c deadline t st = (st1, False)"
  shows "timer_inv (turn_now t) st1
    \<and> (deadline \<le> turn_now t \<longrightarrow> terminated_by (turn_now t) st1)
    \<and> (\<forall>x. terminated_by x st \<longrightarrow> terminated_by x st1)
    \<and> (\<forall>x. killed_by x st \<longrightarrow> killed_by x st1)
    \<and> (\<forall>x. terminated_by x st \<and> x + seconds (termination_grace_seconds c) \<le> turn_now t \<longrightarrow> killed_by (turn_now t) st1)
    \<and> set (registered st1) \<subseteq> set (registered st)"
  using assms
  by (auto simp: timers_def Let_def timer_inv_def terminated_by_def killed_by_def finalize_group_def send_def
      split: if_splits option.splits)

lemma run_turn:
  assumes "timer_inv before st" "before \<le> turn_now t" "run_loop c deadline (t # ts) st = None"
  shows "\<exists>st1. loop_goes_on t st \<and> timers c deadline t st = (st1, False)
    \<and> run_loop c deadline ts (select_turn t st1) = None"
  using assms by (auto split: if_splits prod.splits bool.splits)

lemma last_le: "\<forall>x \<in> set (b # xs). x \<le> y \<Longrightarrow> last (b # xs) \<le> (y :: rat)"
  using last_in_set [of "b # xs"] by blast

lemma run_prefix:
  assumes "timer_inv before st" "sorted (before # map turn_now as)" "run_loop c deadline (as @ ts) st = None"
  shows "\<exists>st'. run_loop c deadline ts st' = None \<and> timer_inv (last (before # map turn_now as)) st'
    \<and> (\<forall>x. terminated_by x st \<longrightarrow> terminated_by x st') \<and> (\<forall>x. killed_by x st \<longrightarrow> killed_by x st')"
  using assms
proof (induction as arbitrary: before st)
  case (Cons t as)
  have le: "before \<le> turn_now t" "sorted (turn_now t # map turn_now as)" using Cons.prems(2) by simp_all
  have "run_loop c deadline (t # as @ ts) st = None" using Cons.prems(3) by (simp only: append_Cons)
  then obtain st1 where t: "timers c deadline t st = (st1, False)" "run_loop c deadline (as @ ts) (select_turn t st1) = None"
    using run_turn [OF Cons.prems(1) le(1)] by blast
  note step = timers_step [OF Cons.prems(1) le(1) t(1)]
  have "timer_inv (turn_now t) (select_turn t st1)" using step by (simp add: select_timers)
  from Cons.IH [OF this le(2) t(2)] obtain st' where
    "run_loop c deadline ts st' = None" "timer_inv (last (turn_now t # map turn_now as)) st'"
    "\<forall>x. terminated_by x st1 \<longrightarrow> terminated_by x st'" "\<forall>x. killed_by x st1 \<longrightarrow> killed_by x st'"
    by (auto simp: select_timers)
  then show ?case using step by (intro exI [of _ st']) simp
qed auto

text \<open>Once the group was killed, one second later the loop stops watching, at the latest on the turn after.\<close>

lemma run_stops:
  assumes "killed_by x st" "x + kill_reap_seconds \<le> turn_now t" "turn_poll_again t \<noteq> None \<longrightarrow> turn_poll t' \<noteq> None"
  shows "run_loop c deadline (t # t' # ts) st \<noteq> None"
proof
  assume none: "run_loop c deadline (t # t' # ts) st = None"
  then obtain st1 where t: "timers c deadline t st = (st1, False)" "loop_goes_on t st"
    "run_loop c deadline (t' # ts) (select_turn t st1) = None"
    by (auto split: if_splits prod.splits bool.splits)
  have "registered st1 = [] \<and> turn_poll_again t \<noteq> None"
    using t(1) assms(1,2) by (auto simp: timers_def Let_def killed_by_def split: if_splits)
  then have "registered (select_turn t st1) = []" "turn_poll t' \<noteq> None"
    using same_select [of st1 t] assms(3) by (simp_all add: same_timers_def)
  then show False using t(3) by (simp add: loop_goes_on_def)
qed

lemma start_timers: "timer_inv now (start_loop c a b k)"
proof -
  have "timer_inv now (register_stream s ok st)" if "timer_inv now st" for s ok st
    using that same_close [of st s]
    by (auto simp: register_stream_def same_timers_def timer_inv_def terminated_by_def killed_by_def)
  moreover have "timer_inv now (initial_loop c)" by (simp add: initial_loop_def timer_inv_def)
  moreover have "timer_inv now (finalize_group allow k st) = timer_inv now st" for allow k st
    by (simp add: finalize_group_def send_def timer_inv_def terminated_by_def killed_by_def)
  ultimately show ?thesis by (simp add: start_loop_def Let_def)
qed

lemma normalize_args_total:
  "\<forall>a \<in> set argv. \<exists>raw. encode_utf8 a = Inr raw \<Longrightarrow> \<exists>x. normalize_args n argv = Inr x"
proof (induction argv arbitrary: n)
  case Nil
  show ?case by (rule exI, rule normalize_args.simps(1))
next
  case (Cons a argv)
  obtain raw where raw: "encode_utf8 a = Inr raw" using Cons.prems by auto
  obtain out tr where "normalize_args (n - norm_size (normalize_terminal_text raw (min max_normalized_arg n) False)) argv
      = Inr (out, tr)" using Cons by fastforce
  then show ?case by (simp add: raw Let_def del: bindR_eq_Inr)
qed

lemma checked_argv_normalizes:
  assumes "check_command c = Inr ()"
  shows "\<exists>x. normalize_argv (cmd_argv c) = Inr x"
proof -
  obtain sizes where "mapR argument_size (cmd_argv c) = Inr sizes"
    using assms by (auto simp: check_command_def check_argv_def)
  then have "\<forall>a \<in> set (cmd_argv c). \<exists>n. argument_size a = Inr n"
    by (auto simp: mapR_eq_Inr list_all2_iff set_zip in_set_conv_nth) (metis nth_mem)
  then have "\<forall>a \<in> set (cmd_argv c). \<exists>raw. encode_utf8 a = Inr raw"
    by (fastforce simp: argument_size_def)
  then show ?thesis unfolding normalize_argv_def by (rule normalize_args_total)
qed

text \<open>C31: A run cannot hang: when the clock never goes back and some turn reads a time past the deadline, a
  later one a time past the grace period after it, and a later one still a time one second after that,
  the loop has ended, whatever the process, its pipes and its descendants do, by the turn after that.\<close>

theorem run_ends:
  assumes "spawned inp" "check_command c = Inr ()"
    and turns: "in_turns inp = as @ t1 # bs @ t2 # cs @ t3 # t4 # ds"
    and clock: "sorted (map turn_now (in_turns inp))"
    and deadline: "in_started inp + seconds (timeout_seconds c) \<le> turn_now t1"
    and grace: "turn_now t1 + seconds (termination_grace_seconds c) \<le> turn_now t2"
    and reap: "turn_now t2 + kill_reap_seconds \<le> turn_now t3"
    and poll: "turn_poll_again t3 \<noteq> None \<longrightarrow> turn_poll t4 \<noteq> None"
  shows "\<exists>r sigs. run_command c inp = Inr (Some (r, sigs))"
proof -
  let ?d = "in_started inp + seconds (timeout_seconds c)"
  let ?st = "start_loop c (in_out_ok inp) (in_err_ok inp) (in_start_kill inp)"
  have "run_loop c ?d (in_turns inp) ?st \<noteq> None"
  proof
    assume "run_loop c ?d (in_turns inp) ?st = None"
    then have none: "run_loop c ?d (as @ t1 # bs @ t2 # cs @ t3 # t4 # ds) ?st = None" by (simp only: turns)
    define b0 where "b0 = (case as of [] \<Rightarrow> turn_now t1 | t # _ \<Rightarrow> turn_now t)"
    have s0': "sorted (b0 # map turn_now as)" "\<forall>x \<in> set (b0 # map turn_now as). x \<le> turn_now t1"
      using clock by (auto simp: turns sorted_append b0_def split: list.split)
    note s0 = s0'(1) last_le [OF s0'(2)]
    obtain s1 where s1: "run_loop c ?d (t1 # bs @ t2 # cs @ t3 # t4 # ds) s1 = None" "timer_inv (last (b0 # map turn_now as)) s1"
      using run_prefix [OF start_timers s0(1) none] by blast
    obtain u1 where u1: "timers c ?d t1 s1 = (u1, False)" "run_loop c ?d (bs @ t2 # cs @ t3 # t4 # ds) (select_turn t1 u1) = None"
      using run_turn [OF s1(2) s0(2) s1(1)] by blast
    have p1: "timer_inv (turn_now t1) (select_turn t1 u1)" "terminated_by (turn_now t1) (select_turn t1 u1)"
      using timers_step [OF s1(2) s0(2) u1(1)] deadline by (simp_all add: select_timers)
    have s1'': "sorted (turn_now t1 # map turn_now bs)" "\<forall>x \<in> set (turn_now t1 # map turn_now bs). x \<le> turn_now t2"
      using clock by (auto simp: turns sorted_append)
    note s1' = s1''(1) last_le [OF s1''(2)]
    obtain s2 where s2: "run_loop c ?d (t2 # cs @ t3 # t4 # ds) s2 = None" "timer_inv (last (turn_now t1 # map turn_now bs)) s2"
      "terminated_by (turn_now t1) s2"
      using run_prefix [OF p1(1) s1'(1) u1(2)] p1(2) by blast
    obtain u2 where u2: "timers c ?d t2 s2 = (u2, False)" "run_loop c ?d (cs @ t3 # t4 # ds) (select_turn t2 u2) = None"
      using run_turn [OF s2(2) s1'(2) s2(1)] by blast
    have p2: "timer_inv (turn_now t2) (select_turn t2 u2)" "killed_by (turn_now t2) (select_turn t2 u2)"
      using timers_step [OF s2(2) s1'(2) u2(1)] s2(3) grace by (auto simp: select_timers)
    have s2': "sorted (turn_now t2 # map turn_now cs)" using clock by (auto simp: turns sorted_append)
    obtain s3 where "run_loop c ?d (t3 # t4 # ds) s3 = None" "killed_by (turn_now t2) s3"
      using run_prefix [OF p2(1) s2' u2(2)] p2(2) by blast
    then show False using run_stops [OF _ reap poll] by blast
  qed
  moreover have "\<exists>x. normalize_argv (cmd_argv c) = Inr x" by (rule checked_argv_normalizes [OF assms(2)])
  moreover have "start_failure inp argv tr = None" for argv tr using assms(1) by simp
  ultimately show ?thesis
    by (auto simp: run_command_def split_beta simp del: start_failure_None)
qed

lemma run_ends_witness:
  "\<exists>r sigs. run_command sample_command (sample_input stuck_turns) = Inr (Some (r, sigs))"
proof (rule run_ends [where as = "[sample_turn None 1 []]" and bs = "[]" and cs = "[]" and ds = "[]" and
      ?t1.0 = "sample_turn None 5 []" and ?t2.0 = "sample_turn None 6 []" and ?t3.0 = "sample_turn None 7 []" and
      ?t4.0 = "sample_turn None 8 []", OF sample_spawned])
  have raw: "encode_utf8 (lit ''/usr/bin/id'') = Inr (lit ''/usr/bin/id'')" "encode_utf8 [47] = Inr [47]"
    "decode_strict [47] = Inr [47]"
    by (rule encode_utf8_ascii encode_utf8_ascii decode_strict_ascii, simp add: is_ascii_def lit_def)+
  have "check_argv [lit ''/usr/bin/id''] = Inr ()"
    by (simp add: check_argv_def argument_size_def raw del: bindR_eq_Inr thenR_eq_Inr) (simp add: lit_def)
  moreover have "check_cwd \<lparr>anchor = [47], components = []\<rparr> = Inr ()"
    by (simp add: check_cwd_def is_absolute_def path_str_def terminal_control_def raw del: decode_strict.simps)
  ultimately show "check_command sample_command = Inr ()"
    by (simp add: check_command_def sample_command_def validate_duration_def validate_stream_limit_def max_stream_limit_def)
qed (simp_all add: sample_input_def stuck_turns_def sample_turn_def sample_command_def seconds_def kill_reap_seconds_def)

end
