(* ===== verification/Py_Int.thy ===== *)
theory Py_Int
  imports Py_Text
begin

text \<open>
  \<open>int(s)\<close>: white space around it, a sign, decimal digits with single underscores between them,
  at most 4300 of them.  A text with other characters than ASCII has its white space and digits
  replaced first.
\<close>

definition ascii_space :: "nat \<Rightarrow> bool" where
  "ascii_space c = (in_range 9 13 c \<or> c = 32)"

definition ascii_form :: "(nat \<Rightarrow> nat option) \<Rightarrow> pystr \<Rightarrow> pystr" where
  "ascii_form decimal s =
     (if is_ascii s then s
      else map (\<lambda>c. if c < 127 then c else if is_space c then 32
                    else case decimal c of None \<Rightarrow> 63 | Some d \<Rightarrow> 48 + d) s)"

definition ascii_strip :: "pystr \<Rightarrow> pystr" where
  "ascii_strip s = rev (dropWhile ascii_space (rev (dropWhile ascii_space s)))"

definition unsigned_int :: "pystr \<Rightarrow> int option" where
  "unsigned_int s =
     (let digits = concat (split_on 95 s)
      in if list_all (\<lambda>g. g \<noteq> [] \<and> list_all is_digit09 g) (split_on 95 s) \<and> length digits \<le> 4300
         then Some (int (digits_val 0 digits)) else None)"

definition python_int :: "(nat \<Rightarrow> nat option) \<Rightarrow> pystr \<Rightarrow> int option" where
  "python_int decimal s =
     (case ascii_strip (ascii_form decimal s) of
        [] \<Rightarrow> None
      | c # t \<Rightarrow> if c = 45 then map_option uminus (unsigned_int t)
                 else if c = 43 then unsigned_int t else unsigned_int (c # t))"

end
