(* ===== verification/Linux_Facts.thy ===== *)
theory Linux_Facts
  imports Pure_Path Redaction
begin

text \<open>
  The normalised Linux facts, the data classes of \<open>src/src/kitdev_sandboxes/collectors.py\<close>: every
  observation is a probe, which has a value only when its status is ok, and keeps a short redacted
  excerpt as evidence.
\<close>

datatype collection_status =
    CollectedOk | CollectedAbsent | CollectedUnknown | CollectedDenied | CollectedTimeout | CollectedTruncated | CollectedError

record 'a probe =
  probe_status :: collection_status
  probe_value :: "'a option"
  probe_raw :: "pystr option"
  probe_source :: pystr
  probe_elapsed_ms :: "int option"

text \<open>\<open>bytes.decode("utf-8", errors="ignore")\<close>\<close>

function decode_ignore :: "bytes \<Rightarrow> pystr" where
  "decode_ignore [] = []"
| "decode_ignore (b # bs) =
     (case utf8_next b bs of (None, rest) \<Rightarrow> decode_ignore rest | (Some c, rest) \<Rightarrow> c # decode_ignore rest)"
  by pat_completeness auto
termination
  by (relation "measure length")
     (auto simp: less_Suc_eq_le, (metis length_utf8_next snd_conv)+)

definition excerpt :: "(nat \<Rightarrow> bool) \<Rightarrow> nat \<Rightarrow> pystr \<Rightarrow> pystr res" where
  "excerpt other maximum_bytes s =
     bindR (encode_utf8 (safe_report_text other s)) (\<lambda>raw. Inr (decode_ignore (take maximum_bytes raw)))"

definition evidence_excerpt :: "(nat \<Rightarrow> bool) \<Rightarrow> pystr option \<Rightarrow> pystr option res" where
  "evidence_excerpt other v =
     (case v of None \<Rightarrow> Inr None | Some s \<Rightarrow> bindR (excerpt other 512 s) (\<lambda>e. Inr (Some e)))"

definition probe_ok :: "(nat \<Rightarrow> bool) \<Rightarrow> 'a \<Rightarrow> pystr option \<Rightarrow> pystr \<Rightarrow> int option \<Rightarrow> 'a probe res" where
  "probe_ok other v raw src elapsed =
     bindR (evidence_excerpt other raw) (\<lambda>e.
       Inr \<lparr>probe_status = CollectedOk, probe_value = Some v, probe_raw = e, probe_source = src, probe_elapsed_ms = elapsed\<rparr>)"

definition probe_degraded ::
  "(nat \<Rightarrow> bool) \<Rightarrow> collection_status \<Rightarrow> pystr option \<Rightarrow> pystr \<Rightarrow> int option \<Rightarrow> 'a probe res" where
  "probe_degraded other st raw src elapsed =
     thenR (raise_if (st = CollectedOk) (ValueError ''degraded probe cannot have OK status''))
     (bindR (evidence_excerpt other raw) (\<lambda>e.
        Inr \<lparr>probe_status = st, probe_value = None, probe_raw = e, probe_source = src, probe_elapsed_ms = elapsed\<rparr>))"

subsection \<open>Facts\<close>

record nbd_device =
  nbd_name :: pystr
  nbd_in_use :: "bool probe"

record nbd_facts =
  nbd_module_loaded :: "bool probe"
  nbd_max_devices :: "int probe"
  nbd_max_partitions :: "int probe"
  nbd_devices :: "nbd_device list probe"

record huge_page_facts =
  hp_size_kib :: "int probe"
  hp_total :: "int probe"
  hp_free :: "int probe"
  hp_reserved :: "int probe"
  hp_surplus :: "int probe"
  hp_mounts :: "pystr list probe"

record memory_facts =
  mem_total_bytes :: "int probe"
  mem_available_bytes :: "int probe"
  swap_total_bytes :: "int probe"
  swap_free_bytes :: "int probe"

record filesystem_facts =
  fs_configured_path :: pystr
  fs_containing_path :: "pystr option"
  fs_total_bytes :: "int probe"
  fs_available_bytes :: "int probe"
  fs_total_inodes :: "int probe"
  fs_available_inodes :: "int probe"
  fs_filesystem_type :: "pystr probe"
  fs_mount_options :: "pystr list probe"

record device_facts =
  kvm_modules :: "pystr list probe"
  nbd :: nbd_facts
  huge_pages :: huge_page_facts
  tun_exists :: "bool probe"
  tun_is_character_device :: "bool probe"

record tool_facts =
  tool_present :: "bool probe"
  tool_version :: "pystr probe"
  tool_active :: "bool probe"

datatype service_ownership = ServiceUnknown | ServiceShared | ServiceProject

datatype active_state =
  UnitActive | UnitInactive | UnitFailed | UnitActivating | UnitDeactivating | UnitReloading | UnitMaintenance

datatype unit_file_state =
    UnitEnabled | UnitEnabledRuntime | UnitDisabled | UnitStatic | UnitIndirect | UnitAlias | UnitMasked
  | UnitMaskedRuntime | UnitGenerated | UnitTransient | UnitBad | UnitNotFound

datatype address_family = FamilyV4 | FamilyV6

datatype bind_scope = Loopback | Wildcard | HostScope

record listener =
  listener_protocol :: pystr
  listener_family :: address_family
  listener_scope :: bind_scope
  listener_port :: int
  listener_owner :: "pystr option"

record network_interface =
  if_name :: pystr
  if_kind :: json
  if_up :: "bool option"
  if_networks :: "pystr list"

record route =
  route_family :: address_family
  route_destination :: pystr
  route_interface :: "pystr option"
  route_type :: "pystr option"

record dns_facts =
  dns_servers :: "pystr list"
  dns_search_domains :: "pystr list"

record network_facts =
  net_listeners :: "listener list probe"
  net_interfaces :: "network_interface list probe"
  net_routes :: "route list probe"
  net_dns :: "dns_facts probe"
  ipv4_forwarding :: "bool probe"
  ipv6_forwarding :: "bool probe"

record firewall_facts =
  nftables :: tool_facts
  nftables_tables :: "pystr list probe"
  ufw :: tool_facts

record security_facts =
  apparmor_enabled :: "bool probe"
  apparmor_service_active :: "active_state probe"
  time_synchronized :: "bool probe"

record service_fact =
  service_name :: pystr
  service_active :: "active_state probe"
  service_unit_file :: "unit_file_state probe"
  service_owner :: service_ownership

record installed_facts =
  inst_markers :: "pystr list probe"
  installed_version :: "pystr probe"
  upstream_lock_present :: "bool probe"
  owned_services :: "service_fact list"
  inst_templates :: "(pystr \<times> bool probe) list"

record linux_facts =
  lf_devices :: device_facts
  lf_memory :: memory_facts
  lf_filesystems :: "filesystem_facts list"
  lf_docker :: tool_facts
  lf_compose :: tool_facts
  lf_network :: network_facts
  lf_firewall :: firewall_facts
  lf_security :: security_facts
  conflicting_services :: "service_fact list"
  lf_installed :: installed_facts

definition project_markers :: "string list" where
  "project_markers =
     [''/etc/kitdev-sandboxes/config.yaml'', ''/etc/kitdev-sandboxes/install-manifest.json'',
      ''/var/lib/kitdev-sandboxes/install-manifest.json'', ''/opt/kitdev-sandboxes/VERSION'']"

definition owned_units :: "string list" where
  "owned_units =
     [''kitdev-e2b-api.service'', ''kitdev-e2b-client-proxy.service'', ''kitdev-e2b-orchestrator.service'',
      ''kitdev-e2b-maintenance.timer'']"

subsection \<open>Verified ownership\<close>

text \<open>\<open>[A-Za-z0-9][A-Za-z0-9._-]{7,127}\<close>\<close>

definition install_id_re :: "pystr \<Rightarrow> bool" where
  "install_id_re s =
     (let alnum = (\<lambda>c. is_lower_az c \<or> is_upper_az c \<or> is_digit09 c) in
      full_class alnum (\<lambda>c. alnum c \<or> c = 46 \<or> c = 95 \<or> c = 45) 7 127 s)"

record verified_ownership =
  vo_installation_id :: pystr
  vo_manifest_path :: ppath
  vo_service_units :: "pystr list"

definition mk_verified_ownership :: "pystr \<Rightarrow> ppath \<Rightarrow> pystr list \<Rightarrow> verified_ownership res" where
  "mk_verified_ownership iid path units =
     thenR (raise_if (\<not> install_id_re iid) (ValueError ''installation_id must be a bounded opaque identifier''))
     (thenR (raise_if (\<not> is_absolute path) (ValueError ''manifest_path must be absolute''))
     (thenR (raise_if (path \<notin> set (map (parse_path \<circ> lit) project_markers)
                       \<or> components path = [] \<or> last (components path) \<noteq> lit ''install-manifest.json'')
               (ValueError ''manifest_path must identify a declared installation manifest''))
     (thenR (raise_if (\<not> set units \<subseteq> set (map lit owned_units))
               (ValueError ''verified service units must be declared project units''))
       (Inr \<lparr>vo_installation_id = iid, vo_manifest_path = path, vo_service_units = units\<rparr>))))"

end
