(* ===== verification/Identity.thy ===== *)
theory Identity
  imports Preflight Runner Py_Int Config_Load Linux_Facts
begin

text \<open>
  Identity discovery, the first half of \<open>src/src/kitdev_sandboxes/identity.py\<close>: the facts about
  accounts, groups and paths, the parsers of passwd and group lines, and the collectors, which
  thread the state of the world through the command runner they are given.  The Unicode table of
  decimal digits outside ASCII is a parameter.
\<close>

subsection \<open>Data\<close>

datatype fact_status = FactOk | FactAbsent | FactUnknown

datatype identity_origin = Local | Nss | NoOrigin | UnknownOrigin

datatype gate_state = Verified | Unresolved | GateFailed

record account_fact =
  account_name :: pystr
  account_status :: fact_status
  account_origin :: identity_origin
  account_uid :: "int option"
  account_gid :: "int option"
  account_home :: "pystr option"
  account_shell :: "pystr option"
  supplementary_gids :: "int list"

record group_fact =
  group_name :: pystr
  group_status :: fact_status
  group_origin :: identity_origin
  group_gid :: "int option"
  group_members :: "pystr list"

record path_fact =
  fact_path :: pystr
  path_status :: fact_status
  path_kind :: "string option"

record allocation_range =
  range_status :: fact_status
  uid_min :: "int option"
  uid_max :: "int option"
  gid_min :: "int option"
  gid_max :: "int option"

record lxd_prerequisite =
  lxd_non_use :: gate_state
  lxd_reason :: string

record identity_facts =
  facts_accounts :: "account_fact list"
  facts_groups :: "group_fact list"
  occupied_uids :: "int list"
  occupied_gids :: "int list"
  facts_range :: allocation_range
  facts_nologin :: path_fact
  facts_nonexistent :: path_fact
  facts_lxd :: lxd_prerequisite

definition service_names :: "pystr list" where
  "service_names = map lit [''kitdev-e2b'', ''kitdev-proxy'', ''kitdev-worker'']"

definition service_id_min :: int where "service_id_min = 61000"
definition service_id_max :: int where "service_id_max = 61999"
definition container_runtime_ids :: "int list" where "container_runtime_ids = [101, 999, 10001]"

subsection \<open>Lines of the databases\<close>

definition account_re :: "pystr \<Rightarrow> bool" where
  "account_re s = operator_re s"

definition valid_id :: "int \<Rightarrow> bool" where
  "valid_id i = (0 \<le> i \<and> i \<le> 2 ^ 32 - 2)"

definition parse_passwd_line :: "(nat \<Rightarrow> nat option) \<Rightarrow> pystr \<Rightarrow> pystr option \<Rightarrow> account_fact option" where
  "parse_passwd_line decimal line expected =
     (case split_on 58 (rstrip_char 10 line) of
        [name, password, uid_text, gid_text, gecos, home, shell] \<Rightarrow>
          if \<not> account_re name then None
          else if expected \<noteq> None \<and> expected \<noteq> Some name then None
          else (case (python_int decimal uid_text, python_int decimal gid_text) of
             (Some uid, Some gid) \<Rightarrow>
               if \<not> valid_id uid \<or> \<not> valid_id gid then None
               else if \<not> starts_with [47] home \<or> \<not> starts_with [47] shell then None
               else Some \<lparr>account_name = name, account_status = FactOk, account_origin = Nss,
                          account_uid = Some uid, account_gid = Some gid, account_home = Some home,
                          account_shell = Some shell, supplementary_gids = []\<rparr>
           | _ \<Rightarrow> None)
      | _ \<Rightarrow> None)"

definition parse_group_line :: "(nat \<Rightarrow> nat option) \<Rightarrow> pystr \<Rightarrow> pystr option \<Rightarrow> group_fact option" where
  "parse_group_line decimal line expected =
     (case split_on 58 (rstrip_char 10 line) of
        [name, password, gid_text, members_text] \<Rightarrow>
          if \<not> account_re name then None
          else if expected \<noteq> None \<and> expected \<noteq> Some name then None
          else (case python_int decimal gid_text of
             None \<Rightarrow> None
           | Some gid \<Rightarrow>
               (let members = filter (\<lambda>m. m \<noteq> []) (split_on 44 members_text)
                in if \<not> valid_id gid \<or> list_ex (\<lambda>m. \<not> account_re m) members then None
                   else Some \<lparr>group_name = name, group_status = FactOk, group_origin = Nss,
                              group_gid = Some gid, group_members = sort members\<rparr>))
      | _ \<Rightarrow> None)"

subsection \<open>Collectors\<close>

definition tool_command :: "pystr list \<Rightarrow> command" where
  "tool_command argv =
     \<lparr>cmd_argv = argv, cmd_cwd = parse_path (lit ''/''), timeout_seconds = Finite 5,
      termination_grace_seconds = Finite (1 / 4), stdout_limit_bytes = 262144,
      stderr_limit_bytes = default_stream_limit\<rparr>"

definition run_tool :: "'w runner \<Rightarrow> pystr list \<Rightarrow> 'w \<Rightarrow> (command_result \<times> 'w) res" where
  "run_tool runner argv w = thenR (check_command (tool_command argv)) (Inr (runner (tool_command argv) w))"

definition stdout_text :: "command_result \<Rightarrow> pystr" where
  "stdout_text r = ev_text (res_stdout r)"

definition no_match :: "command_result \<Rightarrow> bool" where
  "no_match r = (res_outcome r = Nonzero \<and> strip (stdout_text r) = [])"

definition whole_output :: "command_result \<Rightarrow> bool" where
  "whole_output r = (succeeded r \<and> \<not> output_truncated r)"

definition bare_account :: "pystr \<Rightarrow> fact_status \<Rightarrow> identity_origin \<Rightarrow> account_fact" where
  "bare_account name st origin =
     \<lparr>account_name = name, account_status = st, account_origin = origin, account_uid = None, account_gid = None,
      account_home = None, account_shell = None, supplementary_gids = []\<rparr>"

definition unknown_account :: "pystr \<Rightarrow> account_fact" where
  "unknown_account name = bare_account name FactUnknown UnknownOrigin"

text \<open>The answer of one \<open>getent\<close> for one name, with a single line.\<close>

definition one_line :: "(pystr \<Rightarrow> pystr option \<Rightarrow> 'a option) \<Rightarrow> pystr \<Rightarrow> command_result \<Rightarrow> 'a option" where
  "one_line parser name r =
     (case parser (stdout_text r) (Some name) of
        None \<Rightarrow> None
      | Some parsed \<Rightarrow> if 10 \<in> set (rstrip_char 10 (stdout_text r)) then None else Some parsed)"

text \<open>Where the entry comes from, when the local answer agrees with it; \<open>None\<close> when it does not.\<close>

definition entry_origin ::
  "(pystr \<Rightarrow> pystr option \<Rightarrow> 'a option) \<Rightarrow> ('a \<Rightarrow> 'a \<Rightarrow> bool) \<Rightarrow> pystr \<Rightarrow> 'a \<Rightarrow> command_result \<Rightarrow> identity_origin option" where
  "entry_origin parser agree name parsed local_result =
     (if whole_output local_result
      then (case parser (stdout_text local_result) (Some name) of
              None \<Rightarrow> None
            | Some local_parsed \<Rightarrow> if agree local_parsed parsed then Some Local else None)
      else if no_match local_result then Some Nss else None)"

definition same_account_ids :: "account_fact \<Rightarrow> account_fact \<Rightarrow> bool" where
  "same_account_ids a b = (account_uid a = account_uid b \<and> account_gid a = account_gid b)"

definition same_group_id :: "group_fact \<Rightarrow> group_fact \<Rightarrow> bool" where
  "same_group_id a b = (group_gid a = group_gid b)"

text \<open>\<open>tuple(sorted({int(value) for value in text.split()}))\<close>\<close>

definition parse_gids :: "(nat \<Rightarrow> nat option) \<Rightarrow> pystr \<Rightarrow> int list option" where
  "parse_gids decimal s =
     (let values = map (python_int decimal) (split_space s)
      in if None \<in> set values then None else Some (sort (remdups (map the values))))"

definition collect_groups_of ::
  "(nat \<Rightarrow> nat option) \<Rightarrow> 'w runner \<Rightarrow> pystr \<Rightarrow> account_fact \<Rightarrow> identity_origin \<Rightarrow> 'w \<Rightarrow> (account_fact \<times> 'w) res" where
  "collect_groups_of decimal runner name parsed origin w =
     bindR (run_tool runner [lit ''/usr/bin/id'', lit ''-G'', name] w) (\<lambda>(groups, w').
       Inr (if \<not> whole_output groups then unknown_account name
            else case parse_gids decimal (stdout_text groups) of
              None \<Rightarrow> unknown_account name
            | Some gids \<Rightarrow> parsed\<lparr>account_name := name, account_status := FactOk, account_origin := origin,
                                   supplementary_gids := gids\<rparr>, w'))"

definition collect_account :: "(nat \<Rightarrow> nat option) \<Rightarrow> 'w runner \<Rightarrow> pystr \<Rightarrow> 'w \<Rightarrow> (account_fact \<times> 'w) res" where
  "collect_account decimal runner name w =
     bindR (run_tool runner [lit ''/usr/bin/getent'', lit ''passwd'', name] w) (\<lambda>(effective, w1).
     bindR (run_tool runner [lit ''/usr/bin/getent'', lit ''-s'', lit ''files'', lit ''passwd'', name] w1) (\<lambda>(local_result, w2).
       if no_match effective then Inr (bare_account name FactAbsent NoOrigin, w2)
       else if \<not> whole_output effective then Inr (unknown_account name, w2)
       else case one_line (parse_passwd_line decimal) name effective of
         None \<Rightarrow> Inr (unknown_account name, w2)
       | Some parsed \<Rightarrow>
           (case entry_origin (parse_passwd_line decimal) same_account_ids name parsed local_result of
              None \<Rightarrow> Inr (unknown_account name, w2)
            | Some origin \<Rightarrow> collect_groups_of decimal runner name parsed origin w2)))"

definition bare_group :: "pystr \<Rightarrow> fact_status \<Rightarrow> identity_origin \<Rightarrow> group_fact" where
  "bare_group name st origin =
     \<lparr>group_name = name, group_status = st, group_origin = origin, group_gid = None, group_members = []\<rparr>"

definition collect_group :: "(nat \<Rightarrow> nat option) \<Rightarrow> 'w runner \<Rightarrow> pystr \<Rightarrow> 'w \<Rightarrow> (group_fact \<times> 'w) res" where
  "collect_group decimal runner name w =
     bindR (run_tool runner [lit ''/usr/bin/getent'', lit ''group'', name] w) (\<lambda>(effective, w1).
     bindR (run_tool runner [lit ''/usr/bin/getent'', lit ''-s'', lit ''files'', lit ''group'', name] w1) (\<lambda>(local_result, w2).
       Inr (if no_match effective then bare_group name FactAbsent NoOrigin
            else if \<not> whole_output effective then bare_group name FactUnknown UnknownOrigin
            else case one_line (parse_group_line decimal) name effective of
              None \<Rightarrow> bare_group name FactUnknown UnknownOrigin
            | Some parsed \<Rightarrow>
                (case entry_origin (parse_group_line decimal) same_group_id name parsed local_result of
                   None \<Rightarrow> bare_group name FactUnknown UnknownOrigin
                 | Some origin \<Rightarrow> parsed\<lparr>group_name := name, group_status := FactOk, group_origin := origin\<rparr>), w2)))"

text \<open>The identifiers of a whole database; one line that does not parse makes them unknown.\<close>

definition database_ids ::
  "'w runner \<Rightarrow> string \<Rightarrow> (pystr \<Rightarrow> int option) \<Rightarrow> 'w \<Rightarrow> ((fact_status \<times> int list) \<times> 'w) res" where
  "database_ids runner database parser w =
     bindR (run_tool runner [lit ''/usr/bin/getent'', lit database] w) (\<lambda>(r, w').
       Inr (if \<not> whole_output r then (FactUnknown, [])
            else (let values = map parser (splitlines (stdout_text r))
                  in if None \<in> set values then (FactUnknown, []) else (FactOk, sort (remdups (map the values)))), w'))"

definition passwd_uid :: "(nat \<Rightarrow> nat option) \<Rightarrow> pystr \<Rightarrow> int option" where
  "passwd_uid decimal line = (case parse_passwd_line decimal line None of None \<Rightarrow> None | Some a \<Rightarrow> account_uid a)"

definition group_line_gid :: "(nat \<Rightarrow> nat option) \<Rightarrow> pystr \<Rightarrow> int option" where
  "group_line_gid decimal line = (case parse_group_line decimal line None of None \<Rightarrow> None | Some g \<Rightarrow> group_gid g)"

text \<open>What \<open>lstat_owned_path\<close> of \<open>collectors.py\<close> answers: a status and, when it is ok, a kind.\<close>

definition collect_path :: "string \<Rightarrow> collection_status \<times> fkind option \<Rightarrow> path_fact" where
  "collect_path path observed =
     (if fst observed = CollectedAbsent then \<lparr>fact_path = lit path, path_status = FactAbsent, path_kind = None\<rparr>
      else case (fst observed, snd observed) of
        (CollectedOk, Some k) \<Rightarrow>
          \<lparr>fact_path = lit path, path_status = FactOk,
           path_kind = Some (if k = KReg then ''regular'' else if k = KDir then ''directory'' else ''other'')\<rparr>
      | _ \<Rightarrow> \<lparr>fact_path = lit path, path_status = FactUnknown, path_kind = None\<rparr>)"

text \<open>Discovery never proves that LXD is unused.\<close>

definition lxd_from :: "command_result \<Rightarrow> lxd_prerequisite" where
  "lxd_from r =
     (if succeeded r
      then \<lparr>lxd_non_use = Unresolved, lxd_reason = ''installed LXD requires complete resource and socket inventory''\<rparr>
      else \<lparr>lxd_non_use = Unresolved, lxd_reason = ''Complete LXD absence or non-use evidence is unavailable''\<rparr>)"

fun collect_all :: "('a \<Rightarrow> 'w \<Rightarrow> ('b \<times> 'w) res) \<Rightarrow> 'a list \<Rightarrow> 'w \<Rightarrow> ('b list \<times> 'w) res" where
  "collect_all f [] w = Inr ([], w)"
| "collect_all f (x # xs) w =
     bindR (f x w) (\<lambda>(y, w1). bindR (collect_all f xs w1) (\<lambda>(ys, w2). Inr (y # ys, w2)))"

definition reserved_range :: "bool \<Rightarrow> allocation_range" where
  "reserved_range known =
     (if known
      then \<lparr>range_status = FactOk, uid_min = Some service_id_min, uid_max = Some service_id_max,
            gid_min = Some service_id_min, gid_max = Some service_id_max\<rparr>
      else \<lparr>range_status = FactUnknown, uid_min = None, uid_max = None, gid_min = None, gid_max = None\<rparr>)"

definition collect_identity_facts ::
  "(nat \<Rightarrow> nat option) \<Rightarrow> 'w runner \<Rightarrow> (string \<Rightarrow> collection_status \<times> fkind option) \<Rightarrow> configuration \<Rightarrow> 'w
     \<Rightarrow> (identity_facts \<times> 'w) res" where
  "collect_identity_facts decimal runner lstat config w0 =
     bindR (collect_all (collect_account decimal runner)
              (service_names @ (case operator config of None \<Rightarrow> [] | Some name \<Rightarrow> [name])) w0) (\<lambda>(accounts, w1).
     bindR (collect_all (collect_group decimal runner)
              (service_names @ map lit [''kvm'', ''sudo'', ''lxd'']) w1) (\<lambda>(groups, w2).
     bindR (database_ids runner ''passwd'' (passwd_uid decimal) w2) (\<lambda>((uid_status, uids), w3).
     bindR (database_ids runner ''group'' (group_line_gid decimal) w3) (\<lambda>((gid_status, gids), w4).
     bindR (run_tool runner [lit ''/usr/bin/snap'', lit ''list'', lit ''lxd''] w4) (\<lambda>(snap, w5).
       Inr (\<lparr>facts_accounts = sort_key account_name accounts, facts_groups = sort_key group_name groups,
             occupied_uids = uids, occupied_gids = gids,
             facts_range = reserved_range (uid_status = FactOk \<and> gid_status = FactOk),
             facts_nologin = collect_path ''/usr/sbin/nologin'' (lstat ''/usr/sbin/nologin''),
             facts_nonexistent = collect_path ''/nonexistent'' (lstat ''/nonexistent''),
             facts_lxd = lxd_from snap\<rparr>, w5))))))"

end
