(* ===== verification/Identity_Plan.thy ===== *)
theory Identity_Plan
  imports Identity
begin

text \<open>
  The identity plan, the second half of \<open>src/src/kitdev_sandboxes/identity.py\<close>: validation of the
  facts, the authenticated mapping, the issues in the order in which the code finds them, the
  allocation of identifiers, the actions, the hash and the renderings.
\<close>

subsection \<open>Data\<close>

record identity_prerequisites =
  pre_host_key :: gate_state
  pre_recovery :: gate_state
  pre_second_session :: gate_state
  pre_sudo_policy :: gate_state
  pre_operator_ssh_key :: gate_state
  pre_bootstrap :: gate_state
  pre_journal :: gate_state

record identity_allocation =
  alloc_name :: pystr
  alloc_uid :: int
  alloc_gid :: int

record identity_action =
  ia_id :: pystr
  ia_category :: string
  ia_target :: pystr
  ia_desired_state :: pystr
  ia_privilege :: string
  ia_rollback :: string

record identity_issue =
  ii_id :: pystr
  ii_code :: string
  ii_explanation :: pystr

record identity_plan =
  ip_lifecycle :: lifecycle_mode
  ip_blocking :: bool
  ip_allocations :: "identity_allocation list"
  ip_actions :: "identity_action list"
  ip_issues :: "identity_issue list"
  ip_hash :: pystr

definition allocation_as_dict :: "identity_allocation \<Rightarrow> json_dict" where
  "allocation_as_dict a =
     [(lit ''name'', JStr (alloc_name a)), (lit ''uid'', JInt (alloc_uid a)), (lit ''gid'', JInt (alloc_gid a))]"

definition action_as_dict :: "identity_action \<Rightarrow> json_dict" where
  "action_as_dict a =
     [(lit ''id'', JStr (ia_id a)), (lit ''category'', JStr (lit (ia_category a))), (lit ''target'', JStr (ia_target a)),
      (lit ''desired_state'', JStr (ia_desired_state a)), (lit ''privilege'', JStr (lit (ia_privilege a))),
      (lit ''rollback'', JStr (lit (ia_rollback a)))]"

definition issue_as_dict :: "identity_issue \<Rightarrow> json_dict" where
  "issue_as_dict i =
     [(lit ''id'', JStr (ii_id i)), (lit ''code'', JStr (lit (ii_code i))), (lit ''explanation'', JStr (ii_explanation i))]"

definition dict_list :: "('a \<Rightarrow> json_dict) \<Rightarrow> 'a list \<Rightarrow> json" where
  "dict_list f xs = JArr (map (JObj \<circ> f) xs)"

definition amount :: "'a list \<Rightarrow> json" where
  "amount xs = JInt (int (length xs))"

definition plan_as_dict :: "(nat \<Rightarrow> bool) \<Rightarrow> identity_plan \<Rightarrow> json" where
  "plan_as_dict other p =
     redact_report other []
       (JObj [(lit ''schema_version'', JInt 1), (lit ''project_release'', JStr (lit project_release)),
              (lit ''lifecycle_mode'', JStr (lit (lifecycle_value (ip_lifecycle p)))),
              (lit ''command_mode'', JStr (lit ''install-dry-run'')), (lit ''phase'', JStr (lit ''identity-access'')),
              (lit ''dry_run'', JBool True), (lit ''blocking'', JBool (ip_blocking p)),
              (lit ''plan_hash'', JStr (ip_hash p)),
              (lit ''summary'', JObj [(lit ''actions'', amount (ip_actions p)),
                                      (lit ''allocations'', amount (ip_allocations p)),
                                      (lit ''issues'', amount (ip_issues p))]),
              (lit ''allocations'', dict_list allocation_as_dict (ip_allocations p)),
              (lit ''actions'', dict_list action_as_dict (ip_actions p)),
              (lit ''issues'', dict_list issue_as_dict (ip_issues p))])"

definition max_report_bytes :: nat where "max_report_bytes = 1048576"

definition plan_to_json :: "(nat \<Rightarrow> bool) \<Rightarrow> identity_plan \<Rightarrow> pystr res" where
  "plan_to_json other p =
     (let rendered = dumps (plan_as_dict other p) in
      bindR (encode_utf8 rendered) (\<lambda>raw.
        thenR (raise_if (max_report_bytes < length raw) (ValueError ''identity plan output exceeds its global byte limit''))
          (Inr rendered)))"

definition plan_exit_code :: "identity_plan \<Rightarrow> nat" where
  "plan_exit_code p =
     (if list_ex (\<lambda>i. ii_code i = ''unsupported'') (ip_issues p) then 3
      else if list_ex (\<lambda>i. ii_code i = ''conflict'') (ip_issues p) then 4
      else if ip_blocking p then 5 else 0)"

subsection \<open>Validation of the facts\<close>

definition bounded_text :: "pystr \<Rightarrow> nat \<Rightarrow> bool" where
  "bounded_text s maximum =
     (case encode_utf8 s of
        Inl e \<Rightarrow> False
      | Inr raw \<Rightarrow> 0 < length raw \<and> length raw \<le> maximum \<and> list_all (\<lambda>c. \<not> (c < 32 \<or> c = 127)) s)"

definition id_range :: "int \<Rightarrow> bool" where
  "id_range i = (0 \<le> i \<and> i < 2 ^ 32)"

definition opt_all :: "('a \<Rightarrow> bool) \<Rightarrow> 'a option \<Rightarrow> bool" where
  "opt_all p v = (case v of None \<Rightarrow> True | Some x \<Rightarrow> p x)"

definition account_valid :: "account_fact \<Rightarrow> bool" where
  "account_valid a =
     (bounded_text (account_name a) 31 \<and> list_all id_range (supplementary_gids a)
      \<and> opt_all id_range (account_uid a) \<and> opt_all id_range (account_gid a)
      \<and> opt_all (\<lambda>s. bounded_text s 4096) (account_home a) \<and> opt_all (\<lambda>s. bounded_text s 4096) (account_shell a))"

definition group_valid :: "group_fact \<Rightarrow> bool" where
  "group_valid g =
     (bounded_text (group_name g) 31 \<and> opt_all id_range (group_gid g)
      \<and> list_all (\<lambda>m. bounded_text m 31) (group_members g))"

definition path_fact_valid :: "path_fact \<Rightarrow> bool" where
  "path_fact_valid p =
     (bounded_text (fact_path p) 4096 \<and> opt_all (\<lambda>k. k \<in> {''regular'', ''directory'', ''other''}) (path_kind p))"

definition range_valid :: "allocation_range \<Rightarrow> bool" where
  "range_valid r = list_all (opt_all (\<lambda>v. 0 < v \<and> v < 2 ^ 31)) [uid_min r, uid_max r, gid_min r, gid_max r]"

text \<open>The class tests of \<open>_runtime_inputs_valid\<close> have no counterpart in a typed model.\<close>

definition runtime_inputs_valid :: "identity_facts \<Rightarrow> bool" where
  "runtime_inputs_valid f =
     (list_all account_valid (facts_accounts f) \<and> list_all group_valid (facts_groups f)
      \<and> list_all id_range (occupied_uids f @ occupied_gids f)
      \<and> path_fact_valid (facts_nologin f) \<and> path_fact_valid (facts_nonexistent f)
      \<and> range_valid (facts_range f))"

definition mk_identity_issue :: "pystr \<Rightarrow> string \<Rightarrow> pystr \<Rightarrow> identity_issue" where
  "mk_identity_issue iid code message = \<lparr>ii_id = iid, ii_code = code, ii_explanation = message\<rparr>"

definition issue_if :: "bool \<Rightarrow> pystr \<Rightarrow> string \<Rightarrow> string \<Rightarrow> identity_issue list" where
  "issue_if c iid code message = (if c then [mk_identity_issue iid code (lit message)] else [])"

definition invalid_input_plan :: "configuration \<Rightarrow> identity_plan" where
  "invalid_input_plan config =
     \<lparr>ip_lifecycle = lifecycle (deployment config), ip_blocking = True, ip_allocations = [], ip_actions = [],
      ip_issues = [mk_identity_issue (lit ''identity.discovery.invalid'') ''unknown''
                     (lit ''Identity discovery or prerequisite facts are malformed.'')],
      ip_hash = lit ''sha256:'' @ sha256_hex (lit ''identity-access:invalid-input:v1'')\<rparr>"

subsection \<open>Allocation and the authenticated mapping\<close>

text \<open>
  \<open>_allocate\<close>: the loop over the candidates, with what was found so far; \<open>None\<close> when the range
  is used up first.
\<close>

fun allocate_from :: "int list \<Rightarrow> int list \<Rightarrow> nat \<Rightarrow> int list \<Rightarrow> int list option" where
  "allocate_from [] occupied n available = None"
| "allocate_from (candidate # rest) occupied n available =
     (if candidate \<in> set occupied then allocate_from rest occupied n available
      else if length (available @ [candidate]) = n then Some (available @ [candidate])
      else allocate_from rest occupied n (available @ [candidate]))"

definition allocate_ids :: "int \<Rightarrow> int \<Rightarrow> int list \<Rightarrow> nat \<Rightarrow> int list option" where
  "allocate_ids first final occupied n = allocate_from [first..final] occupied n []"

definition reserved_id :: "int \<Rightarrow> bool" where
  "reserved_id i = (service_id_min \<le> i \<and> i \<le> service_id_max)"

fun mapping_loop :: "identity_allocation list \<Rightarrow> identity_allocation list \<Rightarrow> identity_allocation list option" where
  "mapping_loop seen [] = Some seen"
| "mapping_loop seen (item # items) =
     (if alloc_name item \<notin> set service_names \<or> alloc_name item \<in> alloc_name ` set seen
         \<or> \<not> reserved_id (alloc_uid item) \<or> \<not> reserved_id (alloc_gid item)
         \<or> alloc_uid item \<in> set container_runtime_ids \<or> alloc_gid item \<in> set container_runtime_ids
         \<or> alloc_uid item \<in> alloc_uid ` set seen \<or> alloc_gid item \<in> alloc_gid ` set seen
      then None else mapping_loop (seen @ [item]) items)"

definition mapping_issue :: "string \<Rightarrow> identity_issue" where
  "mapping_issue message = mk_identity_issue (lit ''identity.manifest.mapping'') ''conflict'' (lit message)"

definition by_name :: "identity_allocation list \<Rightarrow> pystr \<Rightarrow> identity_allocation option" where
  "by_name items name = find (\<lambda>i. alloc_name i = name) items"

definition manifest_mapping ::
  "identity_allocation list option \<Rightarrow> identity_allocation list option \<times> identity_issue option" where
  "manifest_mapping v =
     (case v of
        None \<Rightarrow> (None, None)
      | Some items \<Rightarrow>
          if length items \<noteq> length service_names
          then (None, Some (mapping_issue ''The authenticated manifest identity mapping is incomplete or malformed.''))
          else (case mapping_loop [] items of
             None \<Rightarrow> (None, Some (mapping_issue
               ''The authenticated manifest identity mapping violates the reserved project ID contract.''))
           | Some seen \<Rightarrow>
               if alloc_name ` set seen \<noteq> set service_names
               then (None, Some (mapping_issue
                 ''The authenticated manifest identity mapping does not cover the exact service set.''))
               else (Some (map (the \<circ> by_name seen) service_names), None)))"

subsection \<open>Issues\<close>

definition platform_issues :: "configuration \<Rightarrow> host_facts \<Rightarrow> identity_issue list" where
  "platform_issues config host =
     issue_if (host_os_id host \<noteq> Some (lit ''ubuntu'')
               \<or> host_architecture host \<notin> {Some (lit ''x86_64''), Some (lit ''amd64'')})
       (lit ''identity.platform'') ''unsupported'' ''Identity phase requires supported Ubuntu x86-64.''
     @ issue_if (host_os_version_id host \<noteq> Some (lit ''26.04'') \<or> lifecycle (deployment config) \<noteq> Production)
       (lit ''identity.lifecycle'') ''unsupported'' ''Identity apply is supported only on Ubuntu 26.04 production hosts.''
     @ issue_if (operator config = None)
       (lit ''identity.operator.configured'') ''unknown'' ''An explicit non-root operator must be configured.''"

definition prerequisite_list :: "identity_prerequisites \<Rightarrow> (string \<times> gate_state) list" where
  "prerequisite_list p =
     [(''host-key'', pre_host_key p), (''recovery'', pre_recovery p), (''second-session'', pre_second_session p),
      (''sudo-policy'', pre_sudo_policy p), (''operator-ssh-key'', pre_operator_ssh_key p),
      (''bootstrap'', pre_bootstrap p), (''journal'', pre_journal p)]"

definition prerequisite_issues :: "identity_prerequisites \<Rightarrow> identity_facts \<Rightarrow> identity_issue list" where
  "prerequisite_issues p f =
     concat (map (\<lambda>(name, v).
         issue_if (v \<noteq> Verified) (lit (''identity.prerequisite.'' @ name))
           (if v = Unresolved then ''unknown'' else ''conflict'') (''The '' @ name @ '' prerequisite is not verified.''))
       (prerequisite_list p))
     @ issue_if (lxd_non_use (facts_lxd f) \<noteq> Verified)
         (lit ''identity.prerequisite.lxd-non-use'') ''unknown''
         ''Normalized LXD absence or non-use evidence is incomplete.''"

text \<open>
  The first observation of each relevant name, and the names observed again.
\<close>

fun observe :: "('a \<Rightarrow> pystr) \<Rightarrow> pystr list \<Rightarrow> 'a list \<Rightarrow> 'a list \<times> pystr list \<Rightarrow> 'a list \<times> pystr list" where
  "observe name relevant [] (found, repeated) = (found, repeated)"
| "observe name relevant (item # items) (found, repeated) =
     observe name relevant items
       (if name item \<notin> set relevant then (found, repeated)
        else if name item \<in> name ` set found then (found, name item # repeated)
        else (found @ [item], repeated))"

definition get_named :: "('a \<Rightarrow> pystr) \<Rightarrow> 'a list \<Rightarrow> pystr \<Rightarrow> 'a option" where
  "get_named name found n = find (\<lambda>x. name x = n) found"

definition relevant_accounts :: "configuration \<Rightarrow> pystr list" where
  "relevant_accounts config =
     service_names @ (case operator config of None \<Rightarrow> [] | Some s \<Rightarrow> if s = [] then [] else [s])"

definition relevant_groups :: "pystr list" where
  "relevant_groups = service_names @ map lit [''kvm'', ''sudo'', ''lxd'']"

definition observed_accounts :: "configuration \<Rightarrow> identity_facts \<Rightarrow> account_fact list \<times> pystr list" where
  "observed_accounts config f = observe account_name (relevant_accounts config) (facts_accounts f) ([], [])"

definition observed_groups :: "identity_facts \<Rightarrow> group_fact list \<times> pystr list" where
  "observed_groups f = observe group_name relevant_groups (facts_groups f) ([], [])"

definition duplicate_issues :: "pystr list \<Rightarrow> identity_issue list" where
  "duplicate_issues repeated =
     map (\<lambda>name. mk_identity_issue (lit ''identity.discovery.duplicate.'' @ name) ''unknown''
             (lit ''Duplicate desired identity observations are invalid.''))
       (sort (remdups repeated))"

definition worker_name :: pystr where
  "worker_name = lit ''kitdev-worker''"

definition expected_gids :: "identity_allocation option \<Rightarrow> group_fact option \<Rightarrow> pystr \<Rightarrow> int set option" where
  "expected_gids mapping kvm service =
     (case (mapping, map_option group_gid kvm) of
        (Some m, Some (Some kvm_gid)) \<Rightarrow>
          Some ({alloc_gid m} \<union> (if service = worker_name then {kvm_gid} else {}))
      | _ \<Rightarrow> None)"

text \<open>The existing account and group are exactly the ones that the manifest says the project owns.\<close>

definition owned_exactly :: "identity_allocation option \<Rightarrow> group_fact option \<Rightarrow> pystr \<Rightarrow> account_fact \<Rightarrow> group_fact \<Rightarrow> bool" where
  "owned_exactly mapping kvm service a g =
     (case mapping of
        None \<Rightarrow> False
      | Some m \<Rightarrow>
          account_status a = FactOk \<and> group_status g = FactOk
          \<and> account_origin a = Local \<and> group_origin g = Local
          \<and> account_uid a = Some (alloc_uid m) \<and> account_gid a = Some (alloc_gid m)
          \<and> group_gid g = Some (alloc_gid m)
          \<and> account_home a = Some (lit ''/nonexistent'') \<and> account_shell a = Some (lit ''/usr/sbin/nologin'')
          \<and> (case expected_gids mapping kvm service of
               None \<Rightarrow> False | Some gids \<Rightarrow> set (supplementary_gids a) = gids))"

definition service_issues ::
  "identity_allocation list \<Rightarrow> account_fact list \<Rightarrow> group_fact list \<Rightarrow> pystr \<Rightarrow> identity_issue list" where
  "service_issues mapping accounts groups service =
     (case (get_named account_name accounts service, get_named group_name groups service) of
        (Some a, Some g) \<Rightarrow>
          if account_status a = FactUnknown \<or> group_status g = FactUnknown
          then [mk_identity_issue (lit ''identity.discovery.'' @ service) ''unknown''
                  (lit ''A desired identity observation is missing or malformed.'')]
          else if (account_status a = FactOk \<or> group_status g = FactOk)
               \<and> \<not> owned_exactly (by_name mapping service) (get_named group_name groups (lit ''kvm'')) service a g
          then [mk_identity_issue (lit ''identity.collision.'' @ service) ''conflict''
                  (lit ''The existing identity does not exactly match authenticated manifest ownership and group policy.'')]
          else []
      | _ \<Rightarrow> [mk_identity_issue (lit ''identity.discovery.'' @ service) ''unknown''
                (lit ''A desired identity observation is missing or malformed.'')])"

definition operator_account :: "configuration \<Rightarrow> account_fact list \<Rightarrow> account_fact option" where
  "operator_account config accounts =
     get_named account_name accounts (case operator config of None \<Rightarrow> [] | Some s \<Rightarrow> s)"

definition operator_local :: "account_fact option \<Rightarrow> bool" where
  "operator_local a =
     (case a of None \<Rightarrow> False | Some x \<Rightarrow> account_status x = FactOk \<and> account_origin x = Local \<and> account_uid x \<noteq> Some 0)"

definition sudo_proven :: "group_fact option \<Rightarrow> account_fact option \<Rightarrow> bool" where
  "sudo_proven sudo a =
     (case (sudo, a) of
        (Some g, Some x) \<Rightarrow>
          group_status g = FactOk \<and> (case group_gid g of None \<Rightarrow> False | Some gid \<Rightarrow> gid \<in> set (supplementary_gids x))
      | _ \<Rightarrow> False)"

definition operator_issues :: "configuration \<Rightarrow> account_fact list \<Rightarrow> group_fact list \<Rightarrow> identity_issue list" where
  "operator_issues config accounts groups =
     (if operator config = None then []
      else issue_if (\<not> operator_local (operator_account config accounts))
             (lit ''identity.operator.local'') ''conflict''
             ''The configured operator is not an exact local non-root account.''
           @ issue_if (\<not> sudo_proven (get_named group_name groups (lit ''sudo'')) (operator_account config accounts))
             (lit ''identity.operator.sudo'') ''conflict''
             (''The configured operator'' @ [CHR 0x27] @ ''s retained sudo membership is not proven.''))"

definition host_issues :: "identity_facts \<Rightarrow> group_fact list \<Rightarrow> identity_issue list" where
  "host_issues f groups =
     issue_if (case get_named group_name groups (lit ''kvm'') of
                 None \<Rightarrow> True | Some g \<Rightarrow> group_status g \<noteq> FactOk \<or> group_origin g \<noteq> Local)
       (lit ''identity.group.kvm'') ''conflict'' ''The existing local kvm group is not proven.''
     @ issue_if (path_status (facts_nologin f) \<noteq> FactOk \<or> path_kind (facts_nologin f) \<noteq> Some ''regular'')
       (lit ''identity.path.nologin'') ''conflict'' ''The nologin path is absent, unknown, or not a regular file.''
     @ issue_if (path_status (facts_nonexistent f) \<noteq> FactAbsent)
       (lit ''identity.path.nonexistent'') ''conflict'' ''The /nonexistent home path must be absent.''"

text \<open>An identifier of the manifest that someone else took while the project's entry is absent.\<close>

definition vacancy_issues ::
  "identity_facts \<Rightarrow> account_fact list \<Rightarrow> group_fact list \<Rightarrow> identity_allocation \<Rightarrow> identity_issue list" where
  "vacancy_issues f accounts groups item =
     (if (case get_named account_name accounts (alloc_name item) of None \<Rightarrow> False | Some a \<Rightarrow> account_status a = FactAbsent)
         \<and> alloc_uid item \<in> set (occupied_uids f)
      then [mk_identity_issue (lit ''identity.manifest.uid.'' @ alloc_name item) ''conflict''
              (lit ''The manifest UID is occupied while its owned account is absent.'')] else [])
     @ (if (case get_named group_name groups (alloc_name item) of None \<Rightarrow> False | Some g \<Rightarrow> group_status g = FactAbsent)
         \<and> alloc_gid item \<in> set (occupied_gids f)
      then [mk_identity_issue (lit ''identity.manifest.gid.'' @ alloc_name item) ''conflict''
              (lit ''The manifest GID is occupied while its owned group is absent.'')] else [])"

definition observed_range :: "allocation_range \<Rightarrow> int option list" where
  "observed_range r = [uid_min r, uid_max r, gid_min r, gid_max r]"

definition expected_range :: "int option list" where
  "expected_range = map Some [service_id_min, service_id_max, service_id_min, service_id_max]"

definition first_free :: "identity_facts \<Rightarrow> identity_issue list \<times> identity_allocation list" where
  "first_free f =
     (case (allocate_ids service_id_min service_id_max (occupied_uids f @ container_runtime_ids) (length service_names),
            allocate_ids service_id_min service_id_max (occupied_gids f @ container_runtime_ids) (length service_names)) of
        (Some uids, Some gids) \<Rightarrow>
          ([], map (\<lambda>(name, uid, gid). \<lparr>alloc_name = name, alloc_uid = uid, alloc_gid = gid\<rparr>)
                 (zip service_names (zip uids gids)))
      | _ \<Rightarrow> ([mk_identity_issue (lit ''identity.allocation.exhausted'') ''conflict''
                (lit ''The reserved project UID/GID band cannot satisfy the phase.'')], []))"

definition allocation_step ::
  "identity_facts \<Rightarrow> account_fact list \<Rightarrow> group_fact list \<Rightarrow> bool \<Rightarrow> identity_allocation list option
     \<Rightarrow> identity_issue list \<times> identity_allocation list" where
  "allocation_step f accounts groups manifest_supplied prior =
     (if range_status (facts_range f) \<noteq> FactOk \<or> None \<in> set (observed_range (facts_range f))
      then ([mk_identity_issue (lit ''identity.allocation.range'') ''unknown''
               (lit ''Complete UID/GID occupancy evidence for the reserved project band is unavailable.'')], [])
      else if observed_range (facts_range f) \<noteq> expected_range
      then ([mk_identity_issue (lit ''identity.allocation.range'') ''conflict''
               (lit ''The identity facts do not carry the exact reserved project UID/GID band.'')], [])
      else case prior of
        Some items \<Rightarrow> (concat (map (vacancy_issues f accounts groups) items), items)
      | None \<Rightarrow> if manifest_supplied then ([], []) else first_free f)"

subsection \<open>Actions\<close>

definition journal_rollback :: string where
  "journal_rollback = ''restore prior manifest state from write-ahead journal''"

definition mapping_text :: "identity_allocation \<Rightarrow> pystr" where
  "mapping_text a = alloc_name a @ [58] @ int_str (alloc_uid a) @ [58] @ int_str (alloc_gid a)"

definition allocation_actions :: "identity_allocation \<Rightarrow> identity_action list" where
  "allocation_actions a =
     [\<lparr>ia_id = lit ''identity.group.'' @ alloc_name a, ia_category = ''account_group'', ia_target = alloc_name a,
       ia_desired_state = lit ''system group gid='' @ int_str (alloc_gid a) @ lit ''; manifest-mapping='' @ mapping_text a,
       ia_privilege = ''root'', ia_rollback = journal_rollback\<rparr>,
      \<lparr>ia_id = lit ''identity.user.'' @ alloc_name a, ia_category = ''account'', ia_target = alloc_name a,
       ia_desired_state = lit ''locked nologin uid='' @ int_str (alloc_uid a) @ lit '' gid='' @ int_str (alloc_gid a)
         @ lit ''; supplementary='' @ (if alloc_name a = worker_name then lit ''kvm'' else lit ''none'')
         @ lit ''; manifest-mapping='' @ mapping_text a,
       ia_privilege = ''root'', ia_rollback = journal_rollback\<rparr>]"

definition lxd_action :: identity_action where
  "lxd_action =
     \<lparr>ia_id = lit ''identity.operator.lxd'', ia_category = ''group_membership'', ia_target = lit ''configured-operator'',
      ia_desired_state = lit ''absent from lxd; retained in sudo'', ia_privilege = ''root'',
      ia_rollback = ''restore prior membership from write-ahead journal''\<rparr>"

definition build_actions ::
  "configuration \<Rightarrow> account_fact list \<Rightarrow> group_fact list \<Rightarrow> identity_allocation list \<Rightarrow> identity_action list res" where
  "build_actions config accounts groups allocations =
     (case (operator config, operator_account config accounts, get_named group_name groups (lit ''lxd'')) of
        (Some _, Some a, Some lxd) \<Rightarrow>
          Inr (sort_key ia_id (concat (map allocation_actions allocations)
            @ (if group_status lxd = FactOk \<and> group_gid lxd \<in> Some ` set (supplementary_gids a)
               then [lxd_action] else [])))
      | _ \<Rightarrow> Inl AssertionError)"

subsection \<open>The plan\<close>

definition allocation_contract :: "bool \<Rightarrow> identity_allocation list option \<Rightarrow> json" where
  "allocation_contract manifest_supplied prior =
     JObj [(lit ''source'', JStr (lit (if prior \<noteq> None then ''authenticated-manifest''
                                       else if manifest_supplied then ''invalid-manifest'' else ''first-free''))),
           (lit ''uid_min'', JInt service_id_min), (lit ''uid_max'', JInt service_id_max),
           (lit ''gid_min'', JInt service_id_min), (lit ''gid_max'', JInt service_id_max),
           (lit ''excluded_container_ids'', JArr (map JInt container_runtime_ids))]"

definition plan_preconditions :: json where
  "plan_preconditions = JArr (map (JStr \<circ> lit)
     [''revalidate exact UID/GID vacancies immediately before mutation'',
      ''persist the exact name/UID/GID mapping in the authenticated manifest before mutation'',
      ''reuse an existing manifest mapping exactly or fail the complete phase'',
      ''acquire exclusive installation lock'',
      ''write and fsync prior state before each mutation'',
      ''refuse partial apply when plan hash or observed state changes''])"

definition plan_hash_of ::
  "configuration \<Rightarrow> bool \<Rightarrow> identity_allocation list option \<Rightarrow> identity_allocation list \<Rightarrow> identity_action list
     \<Rightarrow> identity_issue list \<Rightarrow> pystr res" where
  "plan_hash_of config manifest_supplied prior allocations actions issues =
     bindR (encode_utf8 (dumps (JObj
        [(lit ''phase'', JStr (lit ''identity-access'')),
         (lit ''lifecycle'', JStr (lit (lifecycle_value (lifecycle (deployment config))))),
         (lit ''operator'', option_json (operator config)),
         (lit ''allocation_contract'', allocation_contract manifest_supplied prior),
         (lit ''allocations'', dict_list allocation_as_dict allocations),
         (lit ''actions'', dict_list action_as_dict actions),
         (lit ''issues'', dict_list issue_as_dict issues),
         (lit ''preconditions'', plan_preconditions)]))) (\<lambda>raw.
       Inr (lit ''sha256:'' @ sha256_hex raw))"

definition all_issues ::
  "configuration \<Rightarrow> host_facts \<Rightarrow> identity_facts \<Rightarrow> identity_prerequisites \<Rightarrow> identity_allocation list option
     \<Rightarrow> identity_issue list \<times> identity_allocation list" where
  "all_issues config host f pre manifest =
     (let (prior, manifest_issue) = manifest_mapping manifest;
          (accounts, repeated_accounts) = observed_accounts config f;
          (groups, repeated_groups) = observed_groups f;
          (range_issues, allocations) = allocation_step f accounts groups (manifest \<noteq> None) prior
      in ((case manifest_issue of None \<Rightarrow> [] | Some i \<Rightarrow> [i])
          @ platform_issues config host
          @ prerequisite_issues pre f
          @ duplicate_issues (repeated_accounts @ repeated_groups)
          @ concat (map (service_issues (case prior of None \<Rightarrow> [] | Some items \<Rightarrow> items) accounts groups) service_names)
          @ operator_issues config accounts groups
          @ host_issues f groups
          @ range_issues, allocations))"

definition build_identity_plan ::
  "configuration \<Rightarrow> host_facts \<Rightarrow> identity_facts \<Rightarrow> identity_prerequisites \<Rightarrow> identity_allocation list option
     \<Rightarrow> identity_plan res" where
  "build_identity_plan config host f pre manifest =
     (if \<not> runtime_inputs_valid f then Inr (invalid_input_plan config)
      else let (issues, allocations) = all_issues config host f pre manifest;
               blocking = (issues \<noteq> []);
               sorted_issues = sort_key ii_id issues
           in bindR (if blocking then Inr []
                     else build_actions config (fst (observed_accounts config f)) (fst (observed_groups f)) allocations) (\<lambda>actions.
              bindR (plan_hash_of config (manifest \<noteq> None) (fst (manifest_mapping manifest)) allocations actions sorted_issues) (\<lambda>h.
                Inr \<lparr>ip_lifecycle = lifecycle (deployment config), ip_blocking = blocking, ip_allocations = allocations,
                     ip_actions = actions, ip_issues = sorted_issues, ip_hash = h\<rparr>)))"

definition issue_line :: "identity_issue \<Rightarrow> pystr" where
  "issue_line i = [91] @ lit (ii_code i) @ lit ''] '' @ ii_id i @ lit '': '' @ ii_explanation i"

definition render_identity_plan :: "identity_plan \<Rightarrow> pystr res" where
  "render_identity_plan p =
     (let lines =
        [lit ''kitdev install dry-run'', lit ''phase: identity-access'',
         lit ''lifecycle mode: '' @ lit (lifecycle_value (ip_lifecycle p)),
         lit ''blocking: '' @ lit (if ip_blocking p then ''yes'' else ''no''),
         lit ''plan hash: '' @ ip_hash p,
         lit ''actions: '' @ int_str (int (length (ip_actions p))),
         lit ''allocations: '' @ int_str (int (length (ip_allocations p))),
         lit ''issues: '' @ int_str (int (length (ip_issues p)))]
        @ map issue_line (ip_issues p) @ [lit ''No changes were made.''];
          rendered = join [10] lines
      in bindR (encode_utf8 rendered) (\<lambda>raw.
           thenR (raise_if (max_report_bytes < length raw) (ValueError ''identity plan text exceeds its global byte limit''))
             (Inr rendered)))"

end
