(* ===== verification/Identity_Spec.thy ===== *)
theory Identity_Spec
  imports Identity_Plan Planning_Spec
begin

text \<open>
  What an identity plan promises: the identifiers that it allocates, when it may contain actions,
  and that the facts which the program itself collects never allow any.
\<close>

subsection \<open>Allocation\<close>

lemma allocate_from_spec:
  assumes "allocate_from cs occupied n available = Some ids" "distinct (available @ cs)"
    "set available \<inter> set occupied = {}"
  shows "length ids = n \<and> distinct ids \<and> set ids \<subseteq> set available \<union> set cs \<and> set ids \<inter> set occupied = {}"
  using assms
proof (induction cs occupied n available rule: allocate_from.induct)
  case (2 c cs occupied n available)
  show ?case
  proof (cases "c \<in> set occupied")
    case True
    then show ?thesis using 2 by auto
  next
    case False
    show ?thesis
    proof (cases "length (available @ [c]) = n")
      case True
      then show ?thesis using "2.prems" False by auto
    next
      case ne: False
      then have "allocate_from cs occupied n (available @ [c]) = Some ids" using "2.prems"(1) False by auto
      then show ?thesis using "2.IH"(2) [OF False ne] "2.prems"(2,3) False by auto
    qed
  qed
qed simp

lemma allocate_ids_spec:
  assumes "allocate_ids lo hi occupied n = Some ids"
  shows "length ids = n \<and> distinct ids \<and> (\<forall>i \<in> set ids. lo \<le> i \<and> i \<le> hi \<and> i \<notin> set occupied)"
  using allocate_from_spec [of "[lo..hi]" occupied n "[]" ids] assms by (auto simp: allocate_ids_def)

text \<open>A complete mapping of the services onto distinct identifiers of the reserved band.\<close>

definition item_ok :: "identity_allocation \<Rightarrow> bool" where
  "item_ok i = (reserved_id (alloc_uid i) \<and> reserved_id (alloc_gid i)
     \<and> alloc_uid i \<notin> set container_runtime_ids \<and> alloc_gid i \<notin> set container_runtime_ids)"

definition complete_mapping :: "identity_allocation list \<Rightarrow> bool" where
  "complete_mapping items =
     (map alloc_name items = service_names \<and> distinct (map alloc_uid items) \<and> distinct (map alloc_gid items)
      \<and> list_all item_ok items)"

definition separate :: "identity_allocation list \<Rightarrow> bool" where
  "separate items = (distinct (map alloc_name items) \<and> distinct (map alloc_uid items) \<and> distinct (map alloc_gid items))"

lemma mapping_loop_spec:
  assumes "mapping_loop seen items = Some all" "separate seen" "list_all item_ok seen"
  shows "separate all \<and> list_all item_ok all \<and> all = seen @ items"
  using assms
proof (induction seen items rule: mapping_loop.induct)
  case (2 seen item items)
  have fresh: "\<not> (alloc_name item \<notin> set service_names \<or> alloc_name item \<in> alloc_name ` set seen
         \<or> \<not> reserved_id (alloc_uid item) \<or> \<not> reserved_id (alloc_gid item)
         \<or> alloc_uid item \<in> set container_runtime_ids \<or> alloc_gid item \<in> set container_runtime_ids
         \<or> alloc_uid item \<in> alloc_uid ` set seen \<or> alloc_gid item \<in> alloc_gid ` set seen)"
    using "2.prems"(1) by (metis mapping_loop.simps(2) option.distinct(1))
  then have tail: "mapping_loop (seen @ [item]) items = Some all" using "2.prems"(1) by simp
  have "separate (seen @ [item])" "item_ok item"
    using fresh "2.prems"(2) by (auto simp: separate_def item_ok_def)
  then show ?case using "2.IH" [OF fresh tail] "2.prems"(3) by auto
qed simp

lemma by_name_hit: "n \<in> alloc_name ` set items \<Longrightarrow> \<exists>x \<in> set items. by_name items n = Some x \<and> alloc_name x = n"
  by (induction items) (auto simp: by_name_def)

lemma by_name_unique:
  "distinct (map alloc_name items) \<Longrightarrow> i \<in> set items \<Longrightarrow> by_name items (alloc_name i) = Some i"
  by (induction items) (auto simp: by_name_def)

lemma manifest_mapping_complete:
  assumes "manifest_mapping v = (Some items, issue)"
  shows "complete_mapping items \<and> issue = None \<and> (\<exists>vs. v = Some vs \<and> set items = set vs)"
proof -
  obtain vs seen where v: "v = Some vs" "mapping_loop [] vs = Some seen" "alloc_name ` set seen = set service_names"
    "items = map (the \<circ> by_name seen) service_names" "issue = None"
    using assms by (auto simp: manifest_mapping_def split: option.splits if_splits)
  have s: "separate seen" "list_all item_ok seen" "seen = vs"
    using mapping_loop_spec [OF v(2)] by (auto simp: separate_def)
  define get where "get = the \<circ> by_name seen"
  have get: "get n \<in> set seen \<and> alloc_name (get n) = n" if "n \<in> set service_names" for n
    using by_name_hit [of n seen] that v(3) by (auto simp: get_def)
  have names: "map alloc_name items = service_names"
    unfolding v(4) get_def [symmetric] map_map by (rule map_idI) (use get in simp)
  moreover have "distinct service_names" by (simp add: service_names_def)
  ultimately have d: "distinct items" by (metis distinct_map)
  have sub: "set items \<subseteq> set seen" using get by (auto simp: v(4) simp flip: get_def)
  have "inj_on alloc_uid (set seen)" "inj_on alloc_gid (set seen)" using s(1) by (simp_all add: separate_def distinct_map)
  then have "distinct (map alloc_uid items)" "distinct (map alloc_gid items)"
    using d sub by (auto simp: distinct_map intro: inj_on_subset)
  moreover have "list_all item_ok items" using s(2) sub by (auto simp: list_all_iff)
  moreover have "x \<in> set items" if x: "x \<in> set seen" for x
  proof -
    have "get (alloc_name x) = x" using by_name_unique [of seen x] s(1) x by (simp add: get_def separate_def)
    moreover have "alloc_name x \<in> set service_names" using v(3) x by blast
    ultimately show ?thesis unfolding v(4) get_def [symmetric] by (metis image_eqI list.set_map)
  qed
  then have "set items = set vs" using sub s(3) by blast
  ultimately show ?thesis using names v(1,5) by (simp add: complete_mapping_def)
qed

lemma first_free_complete:
  assumes "first_free f = (issues, items)" "issues = []"
  shows "complete_mapping items \<and> (\<forall>i \<in> set items. alloc_uid i \<notin> set (occupied_uids f) \<and> alloc_gid i \<notin> set (occupied_gids f))"
proof -
  obtain uids gids where
    u: "allocate_ids service_id_min service_id_max (occupied_uids f @ container_runtime_ids) (length service_names) = Some uids"
    and g: "allocate_ids service_id_min service_id_max (occupied_gids f @ container_runtime_ids) (length service_names) = Some gids"
    and items: "items = map (\<lambda>(name, uid, gid). \<lparr>alloc_name = name, alloc_uid = uid, alloc_gid = gid\<rparr>)
                 (zip service_names (zip uids gids))"
    using assms by (auto simp: first_free_def split: option.splits)
  note us = allocate_ids_spec [OF u] and gs = allocate_ids_spec [OF g]
  have len: "length uids = length service_names" "length gids = length service_names" using us gs by simp_all
  have maps: "map alloc_name items = service_names" "map alloc_uid items = uids" "map alloc_gid items = gids"
    unfolding items using len by (auto simp: list_eq_iff_nth_eq)
  have mem: "alloc_uid i \<in> set uids" "alloc_gid i \<in> set gids" if "i \<in> set items" for i
    using that maps(2,3) by auto
  have "list_all item_ok items"
    using mem us gs by (auto simp: list_all_iff item_ok_def reserved_id_def)
  moreover have "\<forall>i \<in> set items. alloc_uid i \<notin> set (occupied_uids f) \<and> alloc_gid i \<notin> set (occupied_gids f)"
    using mem us gs by auto
  ultimately show ?thesis using maps us gs by (simp add: complete_mapping_def)
qed

subsection \<open>The plan\<close>

lemma build_plan_invalid:
  "\<not> runtime_inputs_valid f \<Longrightarrow> build_identity_plan config host f pre manifest = Inr (invalid_input_plan config)"
  by (simp add: build_identity_plan_def)

lemma build_plan_valid:
  assumes "build_identity_plan config host f pre manifest = Inr p" "runtime_inputs_valid f"
    "all_issues config host f pre manifest = (issues, allocations)"
  shows "ip_allocations p = allocations \<and> ip_issues p = sort_key ii_id issues \<and> (ip_blocking p \<longleftrightarrow> issues \<noteq> [])
    \<and> (issues \<noteq> [] \<longrightarrow> ip_actions p = [])
    \<and> (issues = [] \<longrightarrow> build_actions config (fst (observed_accounts config f)) (fst (observed_groups f)) allocations
         = Inr (ip_actions p))"
  using assms by (auto simp: build_identity_plan_def Let_def split: if_splits)

lemma sort_key_Nil_iff: "sort_key f xs = [] \<longleftrightarrow> xs = []"
  by (metis length_0_conv length_sort)

lemma issue_if_Nil [simp]: "issue_if c iid code message = [] \<longleftrightarrow> \<not> c"
  by (simp add: issue_if_def)

text \<open>What an empty list of issues proves.\<close>

lemma no_issues:
  assumes "all_issues config host f pre manifest = ([], allocations)"
  shows "platform_issues config host = [] \<and> prerequisite_issues pre f = []
    \<and> duplicate_issues (snd (observed_accounts config f) @ snd (observed_groups f)) = []
    \<and> (\<forall>s \<in> set service_names. service_issues (case fst (manifest_mapping manifest) of None \<Rightarrow> [] | Some items \<Rightarrow> items)
          (fst (observed_accounts config f)) (fst (observed_groups f)) s = [])
    \<and> operator_issues config (fst (observed_accounts config f)) (fst (observed_groups f)) = []
    \<and> host_issues f (fst (observed_groups f)) = []
    \<and> snd (manifest_mapping manifest) = None
    \<and> allocation_step f (fst (observed_accounts config f)) (fst (observed_groups f)) (manifest \<noteq> None)
        (fst (manifest_mapping manifest)) = ([], allocations)"
  using assms by (auto simp: all_issues_def Let_def split_beta prod_eq_iff split: option.splits)

lemma all_issues_allocations:
  assumes "all_issues config host f pre manifest = (issues, allocations)"
  shows "allocations = snd (allocation_step f (fst (observed_accounts config f)) (fst (observed_groups f)) (manifest \<noteq> None)
        (fst (manifest_mapping manifest)))"
  using assms by (auto simp: all_issues_def Let_def split_beta)

lemma allocation_step_complete:
  "snd (allocation_step f accounts groups (manifest \<noteq> None) (fst (manifest_mapping manifest))) = []
   \<or> complete_mapping (snd (allocation_step f accounts groups (manifest \<noteq> None) (fst (manifest_mapping manifest))))"
proof (cases "fst (manifest_mapping manifest)")
  case None
  show ?thesis
  proof (cases "fst (first_free f) = []")
    case True
    then have "complete_mapping (snd (first_free f))"
      using first_free_complete [of f "[]" "snd (first_free f)"] by (simp add: prod_eq_iff)
    then show ?thesis by (simp add: allocation_step_def None)
  next
    case False
    then have "snd (first_free f) = []" by (auto simp: first_free_def split: option.splits)
    then show ?thesis by (simp add: allocation_step_def None)
  qed
next
  case (Some items)
  then have "complete_mapping items"
    using manifest_mapping_complete [of manifest items "snd (manifest_mapping manifest)"] by (simp add: prod_eq_iff)
  then show ?thesis by (simp add: allocation_step_def Some)
qed

lemma manifest_supplied: "manifest_mapping manifest = (None, None) \<Longrightarrow> manifest = None"
  by (auto simp: manifest_mapping_def split: option.splits if_splits)

text \<open>An identifier that the plan hands out is free, or its owned account or group already has it.\<close>

definition uid_accounted :: "identity_facts \<Rightarrow> account_fact list \<Rightarrow> identity_allocation \<Rightarrow> bool" where
  "uid_accounted f accounts i =
     (alloc_uid i \<notin> set (occupied_uids f)
      \<or> (\<exists>a. get_named account_name accounts (alloc_name i) = Some a \<and> account_status a = FactOk
           \<and> account_origin a = Local \<and> account_uid a = Some (alloc_uid i)))"

definition gid_accounted :: "identity_facts \<Rightarrow> group_fact list \<Rightarrow> identity_allocation \<Rightarrow> bool" where
  "gid_accounted f groups i =
     (alloc_gid i \<notin> set (occupied_gids f)
      \<or> (\<exists>g. get_named group_name groups (alloc_name i) = Some g \<and> group_status g = FactOk
           \<and> group_origin g = Local \<and> group_gid g = Some (alloc_gid i)))"

lemma service_names_distinct: "distinct service_names"
  by (simp add: service_names_def)

lemma service_clear:
  assumes "service_issues mapping accounts groups s = []"
  obtains a g where "get_named account_name accounts s = Some a" "get_named group_name groups s = Some g"
    "account_status a = FactAbsent \<and> group_status g = FactAbsent
     \<or> owned_exactly (by_name mapping s) (get_named group_name groups (lit ''kvm'')) s a g"
  using assms
  by (cases "get_named account_name accounts s"; cases "get_named group_name groups s")
    (auto simp: service_issues_def split: if_splits intro: fact_status.exhaust)

lemma owned_ids:
  assumes "owned_exactly mapping kvm s a g"
  shows "\<exists>m. mapping = Some m \<and> account_status a = FactOk \<and> account_origin a = Local \<and> account_uid a = Some (alloc_uid m)
    \<and> group_status g = FactOk \<and> group_origin g = Local \<and> group_gid g = Some (alloc_gid m)"
  using assms by (auto simp: owned_exactly_def split: option.splits)

lemma allocations_accounted:
  assumes "all_issues config host f pre manifest = ([], allocations)" "i \<in> set allocations"
  shows "uid_accounted f (fst (observed_accounts config f)) i \<and> gid_accounted f (fst (observed_groups f)) i"
proof -
  let ?as = "fst (observed_accounts config f)" and ?gs = "fst (observed_groups f)"
  note clear = no_issues [OF assms(1)]
  show ?thesis
  proof (cases "fst (manifest_mapping manifest)")
    case None
    then have "manifest = None" using clear manifest_supplied [of manifest] by (simp add: prod_eq_iff)
    then have "first_free f = ([], allocations)" using clear None by (simp add: allocation_step_def split: if_splits)
    then show ?thesis
      using first_free_complete assms(2) by (fastforce simp: uid_accounted_def gid_accounted_def)
  next
    case (Some items)
    then have items: "complete_mapping items"
      using manifest_mapping_complete [of manifest items "snd (manifest_mapping manifest)"] by (simp add: prod_eq_iff)
    have al: "allocations = items" "\<forall>x \<in> set items. vacancy_issues f ?as ?gs x = []"
      using clear Some by (auto simp: allocation_step_def split: if_splits)
    have mem: "alloc_name i \<in> set service_names" and hit: "by_name items (alloc_name i) = Some i"
      using items assms(2) al(1) service_names_distinct by_name_unique [of items i]
      by (auto simp: complete_mapping_def) (metis image_eqI list.set_map)
    obtain a g where ag: "get_named account_name ?as (alloc_name i) = Some a" "get_named group_name ?gs (alloc_name i) = Some g"
      "account_status a = FactAbsent \<and> group_status g = FactAbsent
       \<or> owned_exactly (by_name items (alloc_name i)) (get_named group_name ?gs (lit ''kvm'')) (alloc_name i) a g"
      using clear mem Some service_clear [of items ?as ?gs "alloc_name i"] by auto
    have v: "vacancy_issues f ?as ?gs i = []" using al assms(2) by simp
    show ?thesis
    proof (cases "account_status a = FactAbsent \<and> group_status g = FactAbsent")
      case True
      then show ?thesis using v ag(1,2) by (auto simp: vacancy_issues_def uid_accounted_def gid_accounted_def split: if_splits)
    next
      case False
      then show ?thesis using ag owned_ids hit by (fastforce simp: uid_accounted_def gid_accounted_def)
    qed
  qed
qed

subsection \<open>When a plan acts\<close>

definition all_verified :: "identity_prerequisites \<Rightarrow> identity_facts \<Rightarrow> bool" where
  "all_verified pre f = (pre_host_key pre = Verified \<and> pre_recovery pre = Verified \<and> pre_second_session pre = Verified
     \<and> pre_sudo_policy pre = Verified \<and> pre_operator_ssh_key pre = Verified \<and> pre_bootstrap pre = Verified
     \<and> pre_journal pre = Verified \<and> lxd_non_use (facts_lxd f) = Verified)"

lemma prerequisites_clear: "prerequisite_issues pre f = [] \<longleftrightarrow> all_verified pre f"
  by (simp add: prerequisite_issues_def prerequisite_list_def all_verified_def)

lemma exit_zero: "plan_exit_code p = 0 \<Longrightarrow> \<not> ip_blocking p"
  by (auto simp: plan_exit_code_def split: if_splits)

lemma plan_gates:
  assumes "build_identity_plan config host f pre manifest = Inr p"
  shows "(if ip_blocking p then ip_actions p = [] \<and> plan_exit_code p \<in> {3, 4, 5}
    else plan_exit_code p = 0 \<and> ip_issues p = [] \<and> all_verified pre f
      \<and> host_os_id host = Some (lit ''ubuntu'') \<and> host_os_version_id host = Some (lit ''26.04'')
      \<and> lifecycle (deployment config) = Production
      \<and> (\<exists>name a. operator config = Some name \<and> get_named account_name (fst (observed_accounts config f)) name = Some a
           \<and> operator_local (Some a) \<and> sudo_proven (get_named group_name (fst (observed_groups f)) (lit ''sudo'')) (Some a)))"
proof (cases "runtime_inputs_valid f")
  case False
  then show ?thesis
    using assms by (auto simp: build_plan_invalid invalid_input_plan_def plan_exit_code_def mk_identity_issue_def)
next
  case True
  obtain issues allocations where all: "all_issues config host f pre manifest = (issues, allocations)" by fastforce
  note b = build_plan_valid [OF assms True all]
  show ?thesis
  proof (cases "issues = []")
    case False
    then show ?thesis using b by (simp add: plan_exit_code_def)
  next
    case True
    have none: "ip_issues p = []" using b True by (simp add: sort_key_Nil_iff)
    note clear = no_issues [OF all [unfolded True]]
    obtain name where name: "operator config = Some name" using clear by (auto simp: platform_issues_def)
    have op: "operator_local (operator_account config (fst (observed_accounts config f)))"
      "sudo_proven (get_named group_name (fst (observed_groups f)) (lit ''sudo''))
         (operator_account config (fst (observed_accounts config f)))"
      using clear by (auto simp: operator_issues_def name)
    then obtain a where "operator_account config (fst (observed_accounts config f)) = Some a"
      by (auto simp: operator_local_def split: option.splits)
    then have "\<exists>name a. operator config = Some name \<and> get_named account_name (fst (observed_accounts config f)) name = Some a
           \<and> operator_local (Some a) \<and> sudo_proven (get_named group_name (fst (observed_groups f)) (lit ''sudo'')) (Some a)"
      using op name by (auto simp: operator_account_def)
    moreover have "all_verified pre f" using clear prerequisites_clear by blast
    moreover have "host_os_id host = Some (lit ''ubuntu'') \<and> host_os_version_id host = Some (lit ''26.04'')
      \<and> lifecycle (deployment config) = Production"
      using clear by (auto simp: platform_issues_def)
    ultimately show ?thesis using b True none by (simp add: plan_exit_code_def)
  qed
qed

subsection \<open>Discovery\<close>

primrec no_float :: "json \<Rightarrow> bool" where
  "no_float JNull = True"
| "no_float (JBool b) = True"
| "no_float (JInt i) = True"
| "no_float (JFloat t) = False"
| "no_float (JStr s) = True"
| "no_float (JArr vs) = list_all id (map no_float vs)"
| "no_float (JObj kvs) = list_all snd (map (map_prod id no_float) kvs)"

text \<open>\<open>json.dumps\<close> escapes whatever is not ASCII.\<close>

lemma no_float_ascii: "no_float v \<Longrightarrow> is_ascii (dumps v)"
proof (induction v)
  case (JArr vs)
  then have "list_all is_ascii (map dumps vs)" by (auto simp: list_all_iff)
  then show ?case by (simp add: is_ascii_join)
next
  case (JObj kvs)
  have "list_all is_ascii (map member_text (map (map_prod id dumps) kvs))"
    using JObj by (fastforce simp: list_all_iff member_text_def is_ascii_quoted)
  then have "list_all is_ascii (map member_text (sort_key fst (map (map_prod id dumps) kvs)))"
    by (simp add: list_all_iff)
  then show ?case by (simp add: is_ascii_join)
qed (simp_all add: lit_words int_str_def is_ascii_nat_digits is_ascii_quoted)

lemma plan_hash_total: "\<exists>h. plan_hash_of config supplied prior allocations actions issues = Inr h"
proof -
  have l: "list_all (no_float \<circ> (JObj \<circ> f)) xs" if "\<And>x. no_float (JObj (f x))" for f :: "'a \<Rightarrow> json_dict" and xs
    using that by (simp add: list_all_iff comp_def)
  have d: "no_float (dict_list allocation_as_dict allocations)" "no_float (dict_list action_as_dict actions)"
    "no_float (dict_list issue_as_dict issues)"
    by (simp_all add: dict_list_def list_all_iff allocation_as_dict_def action_as_dict_def issue_as_dict_def)
  have "no_float (option_json (operator config))" by (simp add: option_json_def split: option.split)
  then show ?thesis
    unfolding plan_hash_of_def
    by (subst encode_utf8_ascii, intro no_float_ascii)
      (simp_all add: d allocation_contract_def plan_preconditions_def list_all_iff)
qed

lemma collected_lxd:
  assumes "collect_identity_facts decimal runner lstat config w = Inr (f, w')"
  shows "lxd_non_use (facts_lxd f) = Unresolved"
  using assms by (auto simp: collect_identity_facts_def lxd_from_def split: if_splits)

text \<open>Every command of the discovery satisfies the policy of the runner.\<close>

definition plain_argument :: "pystr \<Rightarrow> bool" where
  "plain_argument a = (is_ascii a \<and> 0 \<notin> set a \<and> length a \<le> 64)"

lemma plain_argument_size: "plain_argument a \<Longrightarrow> argument_size a = Inr (length a)"
  by (simp add: argument_size_def plain_argument_def encode_utf8_ascii)

lemma tool_command_checked:
  assumes "argv \<noteq> []" "hd argv \<noteq> []" "length argv \<le> 8" "list_all plain_argument argv"
  shows "check_command (tool_command argv) = Inr ()"
proof -
  have sizes: "mapR argument_size argv = Inr (map length argv)"
    using assms(4) by (intro mapR_Inr_map) (simp add: list_all_iff plain_argument_size)
  have "sum_list (map length argv) \<le> length argv * 64"
    using sum_list_mono [of argv length "\<lambda>_. 64"] assms(4)
    by (simp add: list_all_iff plain_argument_def sum_list_triv)
  then have "check_argv argv = Inr ()" using assms by (simp add: check_argv_def sizes)
  moreover have "check_cwd (parse_path (lit ''/'')) = Inr ()"
  proof -
    have root: "parse_path (lit ''/'') = \<lparr>anchor = [47], components = []\<rparr>"
      by (simp add: parse_path_def path_anchor_def lit_def)
    have "encode_utf8 [47] = Inr [47]" "decode_strict [47] = Inr [47]"
      by (rule encode_utf8_ascii decode_strict_ascii, simp add: is_ascii_def)+
    then show ?thesis
      by (simp add: root check_cwd_def is_absolute_def path_str_def terminal_control_def del: decode_strict.simps)
  qed
  ultimately show ?thesis
    by (simp add: check_command_def tool_command_def validate_duration_def validate_stream_limit_def
        max_stream_limit_def default_stream_limit_def)
qed

lemma run_tool_total:
  "argv \<noteq> [] \<Longrightarrow> hd argv \<noteq> [] \<Longrightarrow> length argv \<le> 8 \<Longrightarrow> list_all plain_argument argv \<Longrightarrow>
   run_tool runner argv w = Inr (runner (tool_command argv) w)"
  by (simp add: run_tool_def tool_command_checked)

lemma plain_lit:
  "list_all (\<lambda>c. of_char c \<noteq> (0 :: nat) \<and> of_char c < (128 :: nat)) s \<Longrightarrow> length s \<le> 64 \<Longrightarrow> plain_argument (lit s)"
  by (auto simp: plain_argument_def is_ascii_def lit_def list_all_iff)

lemma operator_plain: "operator_re s \<Longrightarrow> plain_argument s"
  by (auto simp: operator_re_def full_class_def plain_argument_def is_ascii_def list_all_iff char_class_defs split: list.splits)

lemma collect_account_total: "plain_argument name \<Longrightarrow> \<exists>x. collect_account decimal runner name w = Inr x"
  by (auto simp: collect_account_def collect_groups_of_def run_tool_total plain_lit split_beta
      simp del: bindR_eq_Inr split: option.split)

lemma collect_group_total: "plain_argument name \<Longrightarrow> \<exists>x. collect_group decimal runner name w = Inr x"
  by (auto simp: collect_group_def run_tool_total plain_lit split_beta simp del: bindR_eq_Inr)

lemma database_total: "plain_argument (lit database) \<Longrightarrow> \<exists>x. database_ids runner database parser w = Inr x"
  by (simp add: database_ids_def run_tool_total plain_lit split_beta del: bindR_eq_Inr)

lemma collect_all_total:
  "(\<And>x w. x \<in> set xs \<Longrightarrow> \<exists>y. f x w = Inr y) \<Longrightarrow> \<exists>y. collect_all f xs w = Inr y"
proof (induction xs arbitrary: w)
  case Nil
  show ?case by (rule exI, rule collect_all.simps(1))
next
  case (Cons x xs)
  obtain y w1 where "f x w = Inr (y, w1)" using Cons.prems [of x w] by auto
  moreover obtain ys w2 where "collect_all f xs w1 = Inr (ys, w2)" using Cons by fastforce
  ultimately show ?case by (simp del: bindR_eq_Inr)
qed

lemma discovery_total:
  assumes "opt_all operator_re (operator config)"
  shows "\<exists>f w'. collect_identity_facts decimal runner lstat config w = Inr (f, w')"
proof -
  have services: "\<forall>n \<in> set service_names. plain_argument n"
    by (simp add: service_names_def plain_lit)
  obtain accounts w1 where a: "collect_all (collect_account decimal runner)
      (service_names @ (case operator config of None \<Rightarrow> [] | Some name \<Rightarrow> [name])) w = Inr (accounts, w1)"
    using collect_all_total [of "service_names @ (case operator config of None \<Rightarrow> [] | Some name \<Rightarrow> [name])"
        "collect_account decimal runner" w] collect_account_total services assms operator_plain
    by (fastforce simp: opt_all_def split: option.splits)
  obtain groups w2 where g: "collect_all (collect_group decimal runner)
      (service_names @ map lit [''kvm'', ''sudo'', ''lxd'']) w1 = Inr (groups, w2)"
    using collect_all_total [of "service_names @ map lit [''kvm'', ''sudo'', ''lxd'']" "collect_group decimal runner" w1]
      collect_group_total services plain_lit [of "''kvm''"] plain_lit [of "''sudo''"] plain_lit [of "''lxd''"]
    by fastforce
  obtain us uids w3 where u: "database_ids runner ''passwd'' (passwd_uid decimal) w2 = Inr ((us, uids), w3)"
    using database_total [of "''passwd''" runner "passwd_uid decimal" w2] by (auto simp: plain_lit)
  obtain gs gids w4 where gg: "database_ids runner ''group'' (group_line_gid decimal) w3 = Inr ((gs, gids), w4)"
    using database_total [of "''group''" runner "group_line_gid decimal" w3] by (auto simp: plain_lit)
  show ?thesis
    unfolding collect_identity_facts_def a g u gg bindR_simps split
    by (simp add: run_tool_total plain_lit split_beta del: bindR_eq_Inr)
qed

subsection \<open>A sample plan\<close>

text \<open>A production host where everything is proven and one service exists already, as the manifest says.\<close>

definition identity_configuration :: configuration where
  "identity_configuration = sample_configuration\<lparr>operator := Some (lit ''alice'')\<rparr>"

definition identity_host :: host_facts where
  "identity_host =
     \<lparr>host_os_id = Some (lit ''ubuntu''), host_os_name = None, host_os_version_id = Some (lit ''26.04''),
      host_architecture = Some (lit ''x86_64''), pid1_comm = None, cgroup_v2 = None, cpu_virtualization = None,
      kvm_device_exists = True, kvm_device_is_character = True, kvm_device_accessible = True,
      nested_guest_support = None, host_evidence = []\<rparr>"

definition local_group :: "string \<Rightarrow> int \<Rightarrow> group_fact" where
  "local_group name gid =
     \<lparr>group_name = lit name, group_status = FactOk, group_origin = Local, group_gid = Some gid, group_members = []\<rparr>"

definition local_account :: "string \<Rightarrow> int \<Rightarrow> int \<Rightarrow> string \<Rightarrow> string \<Rightarrow> int list \<Rightarrow> account_fact" where
  "local_account name uid gid home shell gids =
     \<lparr>account_name = lit name, account_status = FactOk, account_origin = Local, account_uid = Some uid,
      account_gid = Some gid, account_home = Some (lit home), account_shell = Some (lit shell), supplementary_gids = gids\<rparr>"

definition identity_sample :: identity_facts where
  "identity_sample =
     \<lparr>facts_accounts =
        [local_account ''alice'' 1000 1000 ''/home/alice'' ''/bin/bash'' [27, 1000],
         local_account ''kitdev-e2b'' 61000 61000 ''/nonexistent'' ''/usr/sbin/nologin'' [61000],
         bare_account (lit ''kitdev-proxy'') FactAbsent NoOrigin, bare_account (lit ''kitdev-worker'') FactAbsent NoOrigin],
      facts_groups =
        [local_group ''kitdev-e2b'' 61000, bare_group (lit ''kitdev-proxy'') FactAbsent NoOrigin,
         bare_group (lit ''kitdev-worker'') FactAbsent NoOrigin, local_group ''kvm'' 108,
         bare_group (lit ''lxd'') FactAbsent NoOrigin, local_group ''sudo'' 27],
      occupied_uids = [0, 1000, 61000], occupied_gids = [0, 27, 108, 1000, 61000],
      facts_range = reserved_range True,
      facts_nologin = collect_path ''/usr/sbin/nologin'' (CollectedOk, Some KReg),
      facts_nonexistent = collect_path ''/nonexistent'' (CollectedAbsent, None),
      facts_lxd = \<lparr>lxd_non_use = Verified, lxd_reason = []\<rparr>\<rparr>"

definition identity_gates :: identity_prerequisites where
  "identity_gates =
     \<lparr>pre_host_key = Verified, pre_recovery = Verified, pre_second_session = Verified, pre_sudo_policy = Verified,
      pre_operator_ssh_key = Verified, pre_bootstrap = Verified, pre_journal = Verified\<rparr>"

definition identity_manifest :: "identity_allocation list" where
  "identity_manifest =
     [\<lparr>alloc_name = lit ''kitdev-worker'', alloc_uid = 61002, alloc_gid = 61002\<rparr>,
      \<lparr>alloc_name = lit ''kitdev-e2b'', alloc_uid = 61000, alloc_gid = 61000\<rparr>,
      \<lparr>alloc_name = lit ''kitdev-proxy'', alloc_uid = 61001, alloc_gid = 61001\<rparr>]"

lemma bounded_lit:
  "s \<noteq> [] \<Longrightarrow> length s \<le> n \<Longrightarrow> list_all (\<lambda>c. (32 :: nat) \<le> of_char c \<and> of_char c < (127 :: nat)) s \<Longrightarrow> bounded_text (lit s) n"
proof -
  assume a: "s \<noteq> []" "length s \<le> n" "list_all (\<lambda>c. (32 :: nat) \<le> of_char c \<and> of_char c < (127 :: nat)) s"
  then have "is_ascii (lit s)" by (auto simp: is_ascii_def lit_def list_all_iff)
  then have "encode_utf8 (lit s) = Inr (lit s)" by (rule encode_utf8_ascii)
  moreover have "list_all (\<lambda>c. \<not> (c < 32 \<or> c = 127)) (lit s)" using a(3) by (auto simp: lit_def list_all_iff)
  ultimately show "bounded_text (lit s) n" using a by (simp add: bounded_text_def)
qed

lemma identity_sample_valid: "runtime_inputs_valid identity_sample"
  by (simp add: runtime_inputs_valid_def identity_sample_def account_valid_def group_valid_def path_fact_valid_def
      local_account_def local_group_def bare_account_def bare_group_def bounded_lit id_range_def opt_all_def
      collect_path_def reserved_range_def range_valid_def service_id_min_def service_id_max_def)

lemma manifest_sample: "manifest_mapping (Some identity_manifest)
    = (Some [identity_manifest ! 1, identity_manifest ! 2, identity_manifest ! 0], None)"
  by (auto simp: manifest_mapping_def identity_manifest_def service_names_def reserved_id_def service_id_min_def
      service_id_max_def container_runtime_ids_def by_name_def)

lemma accounts_sample: "observed_accounts identity_configuration identity_sample = (facts_accounts identity_sample, [])"
  by (simp add: observed_accounts_def identity_sample_def relevant_accounts_def service_names_def identity_configuration_def
      local_account_def bare_account_def)

lemma groups_sample: "observed_groups identity_sample = (facts_groups identity_sample, [])"
  by (simp add: observed_groups_def identity_sample_def relevant_groups_def service_names_def local_group_def bare_group_def)

lemma identity_sample_clear:
  "all_issues identity_configuration identity_host identity_sample identity_gates (Some identity_manifest)
    = ([], [identity_manifest ! 1, identity_manifest ! 2, identity_manifest ! 0])"
proof -
  let ?as = "facts_accounts identity_sample" and ?gs = "facts_groups identity_sample"
  let ?al = "[identity_manifest ! 1, identity_manifest ! 2, identity_manifest ! 0]"
  have "platform_issues identity_configuration identity_host = []"
    by (simp add: platform_issues_def identity_configuration_def identity_host_def sample_configuration_def)
  moreover have "prerequisite_issues identity_gates identity_sample = []"
    by (simp add: prerequisites_clear all_verified_def identity_gates_def identity_sample_def)
  moreover have "concat (map (service_issues ?al ?as ?gs) service_names) = []"
    by (simp add: service_names_def service_issues_def get_named_def identity_sample_def local_account_def local_group_def
        bare_account_def bare_group_def owned_exactly_def by_name_def identity_manifest_def expected_gids_def worker_name_def)
  moreover have "operator_issues identity_configuration ?as ?gs = []"
    by (simp add: operator_issues_def identity_configuration_def operator_account_def get_named_def identity_sample_def
        local_account_def local_group_def bare_account_def bare_group_def operator_local_def sudo_proven_def)
  moreover have "host_issues identity_sample ?gs = []"
    by (simp add: host_issues_def get_named_def identity_sample_def local_group_def bare_group_def collect_path_def)
  moreover have "allocation_step identity_sample ?as ?gs True (Some ?al) = ([], ?al)"
    by (simp add: allocation_step_def identity_sample_def reserved_range_def observed_range_def expected_range_def
        vacancy_issues_def get_named_def local_account_def local_group_def bare_account_def bare_group_def identity_manifest_def)
  ultimately show ?thesis
    by (simp add: all_issues_def manifest_sample accounts_sample groups_sample Let_def duplicate_issues_def)
qed

lemma identity_sample_plan:
  "\<exists>p. build_identity_plan identity_configuration identity_host identity_sample identity_gates (Some identity_manifest) = Inr p
    \<and> \<not> ip_blocking p \<and> ip_allocations p \<noteq> [] \<and> ip_actions p \<noteq> []"
proof -
  let ?al = "[identity_manifest ! 1, identity_manifest ! 2, identity_manifest ! 0]"
  have "\<exists>acts. build_actions identity_configuration (facts_accounts identity_sample) (facts_groups identity_sample) ?al = Inr acts
      \<and> acts \<noteq> []"
    by (simp add: build_actions_def identity_configuration_def operator_account_def get_named_def identity_sample_def
        local_account_def local_group_def bare_account_def bare_group_def sort_key_Nil_iff allocation_actions_def)
  then obtain acts where acts: "build_actions identity_configuration (facts_accounts identity_sample)
      (facts_groups identity_sample) ?al = Inr acts" "acts \<noteq> []" by blast
  obtain h where "plan_hash_of identity_configuration True (Some ?al) ?al acts [] = Inr h"
    using plan_hash_total by blast
  then show ?thesis
    using acts by (simp add: build_identity_plan_def identity_sample_valid identity_sample_clear accounts_sample groups_sample
        manifest_sample Let_def del: bindR_eq_Inr)
qed

subsection \<open>Properties\<close>

text \<open>C27: What a plan allocates is the complete mapping of the three services, in order, onto pairwise distinct
  identifiers between 61000 and 61999 outside those of container images, or nothing; a supplied mapping is
  reused exactly; and in a plan that is not blocked every identifier is either free or already held by the
  local account or group of the same service.\<close>

theorem plan_allocations_safe:
  assumes "build_identity_plan config host f pre manifest = Inr p"
  shows "(ip_allocations p = [] \<or> complete_mapping (ip_allocations p))
    \<and> (\<forall>items. manifest = Some items \<and> ip_allocations p \<noteq> [] \<longrightarrow> set (ip_allocations p) = set items)
    \<and> (\<not> ip_blocking p \<longrightarrow> (\<forall>i \<in> set (ip_allocations p).
         uid_accounted f (fst (observed_accounts config f)) i \<and> gid_accounted f (fst (observed_groups f)) i))"
proof (cases "runtime_inputs_valid f")
  case False
  then show ?thesis using assms by (auto simp: build_plan_invalid invalid_input_plan_def)
next
  case True
  obtain issues allocations where all: "all_issues config host f pre manifest = (issues, allocations)" by fastforce
  note b = build_plan_valid [OF assms True all]
  have "ip_allocations p = [] \<or> complete_mapping (ip_allocations p)"
    using allocation_step_complete all_issues_allocations [OF all] b by metis
  moreover have "set (ip_allocations p) = set items" if m: "manifest = Some items" and ne: "ip_allocations p \<noteq> []" for items
  proof -
    have step: "ip_allocations p = snd (allocation_step f (fst (observed_accounts config f)) (fst (observed_groups f)) True
        (fst (manifest_mapping manifest)))"
      using b all_issues_allocations [OF all] m by simp
    then obtain its where "fst (manifest_mapping manifest) = Some its"
      using ne by (fastforce simp: allocation_step_def split: if_splits option.splits)
    moreover from this have "ip_allocations p = its"
      using step ne by (simp add: allocation_step_def split: if_splits)
    ultimately show ?thesis
      using manifest_mapping_complete [of manifest its "snd (manifest_mapping manifest)"] m
      by (auto simp: prod_eq_iff)
  qed
  ultimately show ?thesis using b all allocations_accounted by metis
qed

lemma plan_allocations_safe_witness:
  "\<exists>p. build_identity_plan identity_configuration identity_host identity_sample identity_gates (Some identity_manifest) = Inr p
    \<and> complete_mapping (ip_allocations p) \<and> set (ip_allocations p) = set identity_manifest
    \<and> (\<exists>i \<in> set (ip_allocations p). uid_accounted identity_sample
         (fst (observed_accounts identity_configuration identity_sample)) i)"
proof -
  obtain p where p: "build_identity_plan identity_configuration identity_host identity_sample identity_gates (Some identity_manifest) = Inr p"
    "\<not> ip_blocking p" "ip_allocations p \<noteq> []"
    using identity_sample_plan by blast
  moreover obtain i where "i \<in> set (ip_allocations p)" using p(3) by (cases "ip_allocations p") auto
  ultimately show ?thesis using plan_allocations_safe [OF p(1)] by blast
qed

text \<open>C28: A plan exits with 0 and contains actions only when it has no issue at all, and then every
  prerequisite and the absence of LXD is verified, the host is a production Ubuntu 26.04, and the
  configured operator is observed as a local account that is not root and stays in sudo; every other plan
  is blocked, has no action and exits with 3, 4 or 5.\<close>

theorem plan_acts_only_when_proven:
  assumes "build_identity_plan config host f pre manifest = Inr p"
  shows "(if ip_blocking p then ip_actions p = [] \<and> plan_exit_code p \<in> {3, 4, 5}
    else plan_exit_code p = 0 \<and> ip_issues p = [] \<and> all_verified pre f
      \<and> host_os_id host = Some (lit ''ubuntu'') \<and> host_os_version_id host = Some (lit ''26.04'')
      \<and> lifecycle (deployment config) = Production
      \<and> (\<exists>name a. operator config = Some name \<and> get_named account_name (fst (observed_accounts config f)) name = Some a
           \<and> operator_local (Some a) \<and> sudo_proven (get_named group_name (fst (observed_groups f)) (lit ''sudo'')) (Some a)))"
  by (rule plan_gates [OF assms])

lemma plan_acts_only_when_proven_witness:
  "\<exists>p. build_identity_plan identity_configuration identity_host identity_sample identity_gates (Some identity_manifest) = Inr p
    \<and> ip_actions p \<noteq> [] \<and> plan_exit_code p = 0"
proof -
  obtain p where p: "build_identity_plan identity_configuration identity_host identity_sample identity_gates (Some identity_manifest) = Inr p"
    "\<not> ip_blocking p" "ip_actions p \<noteq> []"
    using identity_sample_plan by blast
  then show ?thesis using plan_acts_only_when_proven [OF p(1)] by simp
qed

text \<open>C29: From facts that the program collects itself no plan ever acts: under every configuration that passed
  validation discovery completes whatever the host answers, and whatever prerequisites and mapping are then
  supplied, the plan is built, is blocked, proposes no action and exits with 3, 4 or 5, because discovery
  never proves that LXD is unused.\<close>

theorem discovered_plan_blocks:
  assumes "opt_all operator_re (operator config)"
  shows "\<exists>f w'. collect_identity_facts decimal runner lstat config w = Inr (f, w')
    \<and> (\<forall>host pre manifest. \<exists>p. build_identity_plan config host f pre manifest = Inr p
         \<and> ip_blocking p \<and> ip_actions p = [] \<and> plan_exit_code p \<in> {3, 4, 5})"
proof -
  obtain f w' where f: "collect_identity_facts decimal runner lstat config w = Inr (f, w')"
    using discovery_total [OF assms, of decimal runner lstat w] by blast
  note lxd = collected_lxd [OF f]
  have "\<exists>p. build_identity_plan config host f pre manifest = Inr p
      \<and> ip_blocking p \<and> ip_actions p = [] \<and> plan_exit_code p \<in> {3, 4, 5}" for host pre manifest
  proof -
    have "\<exists>p. build_identity_plan config host f pre manifest = Inr p"
    proof (cases "runtime_inputs_valid f")
      case False
      then show ?thesis by (simp add: build_plan_invalid)
    next
      case True
      obtain issues allocations where all: "all_issues config host f pre manifest = (issues, allocations)" by fastforce
      have "prerequisite_issues pre f \<noteq> []" using prerequisites_clear lxd by (simp add: all_verified_def)
      then have "issues \<noteq> []" using no_issues all by metis
      then show ?thesis
        using True plan_hash_total by (simp add: build_identity_plan_def all Let_def del: bindR_eq_Inr) force
    qed
    then obtain p where p: "build_identity_plan config host f pre manifest = Inr p" ..
    show ?thesis
      using plan_gates [OF p] p lxd by (auto simp: all_verified_def split: if_splits)
  qed
  then show ?thesis using f by blast
qed

definition failing_runner :: "unit runner" where
  "failing_runner c w = (spawn_failure (cmd_argv c) Missing True False False ''executable was not found'' 0 0, w)"

lemma discovered_plan_blocks_witness:
  "\<exists>f w p. collect_identity_facts (\<lambda>_. None) failing_runner (\<lambda>_. (CollectedAbsent, None)) identity_configuration () = Inr (f, w)
    \<and> build_identity_plan identity_configuration identity_host f identity_gates (Some identity_manifest) = Inr p \<and> ip_actions p = []"
proof -
  have "opt_all operator_re (operator identity_configuration)"
    by (simp add: opt_all_def identity_configuration_def operator_re_def full_class_def lit_def char_class_defs)
  from discovered_plan_blocks [OF this, of "\<lambda>_. None" failing_runner "\<lambda>_. (CollectedAbsent, None)" "()"]
  show ?thesis by blast
qed

end
