(* ===== verification/Composition.thy ===== *)
theory Composition
  imports Linux_Facts Preflight Planning
begin

text \<open>
  The composition of discovery, evaluation and planning, \<open>src/src/kitdev_sandboxes/composition.py\<close>:
  observing the configured directories, the checks over the Linux facts that replace the scope
  checks of the doctor, the platform gate, and the install plan report.  The collectors that the
  code takes as arguments thread the state of the world; \<open>upper\<close> and \<open>other\<close> are the Unicode
  tables of the preflight.
\<close>

subsection \<open>Directories\<close>

definition configured_paths :: "configuration \<Rightarrow> (string \<times> pystr) list" where
  "configured_paths config =
     [(''config'', config_path (paths config)), (''install'', install_path (paths config)),
      (''logs'', logs_path (paths config)), (''runtime'', runtime_path (paths config)),
      (''state'', state_path (paths config))]"

record authenticated_ownership =
  ao_installation_id :: pystr
  ao_manifest_path :: ppath
  ao_owned_targets :: "pystr list"

definition mk_authenticated_ownership :: "pystr \<Rightarrow> ppath \<Rightarrow> pystr list \<Rightarrow> authenticated_ownership res" where
  "mk_authenticated_ownership iid path targets =
     thenR (raise_if (\<not> install_id_re iid) (ValueError ''installation_id must be a bounded opaque identifier''))
     (thenR (raise_if (path \<notin> set (map (parse_path \<circ> lit)
                [''/etc/kitdev-sandboxes/install-manifest.json'', ''/var/lib/kitdev-sandboxes/install-manifest.json'']))
               (ValueError ''manifest_path must be a declared installation manifest''))
     (thenR (raise_if (list_ex (\<lambda>t. \<not> is_absolute (parse_path t)) targets)
               (ValueError ''owned_targets must contain absolute paths''))
       (Inr \<lparr>ao_installation_id = iid, ao_manifest_path = path, ao_owned_targets = targets\<rparr>)))"

text \<open>What one \<open>lstat\<close> says of a directory: its state, who owns it, and how sure that is.\<close>

definition observe_directory ::
  "authenticated_ownership option \<Rightarrow> pystr \<Rightarrow> fkind probe \<Rightarrow> observed_state \<times> ownership \<times> confidence" where
  "observe_directory auth target observed =
     (if probe_status observed = CollectedAbsent then (Absent, Unowned, ConfHigh)
      else case (probe_status observed, probe_value observed) of
        (CollectedOk, Some k) \<Rightarrow>
          if k = KDir
          then (Present,
                (case auth of None \<Rightarrow> OwnUnknown | Some a \<Rightarrow> if target \<in> set (ao_owned_targets a) then OwnProject else OwnUnknown),
                ConfHigh)
          else (StateUnsupported, OwnUnknown, ConfHigh)
      | _ \<Rightarrow> (StateUnknown, OwnUnknown, ConfUnknown))"

definition collect_directory_resource_facts ::
  "(pystr \<Rightarrow> fkind probe) \<Rightarrow> authenticated_ownership option \<Rightarrow> configuration \<Rightarrow> resource_fact list res" where
  "collect_directory_resource_facts lstat auth config =
     bindR (mapR (\<lambda>(name, target).
         case observe_directory auth target (lstat target) of
           (st, own, conf) \<Rightarrow> mk_resource_fact (lit (''directory.'' @ name)) target st own conf)
       (configured_paths config)) (\<lambda>facts. Inr (sort_key rf_resource_id facts))"

subsection \<open>Checks\<close>

definition known :: "'a probe \<Rightarrow> bool" where
  "known p = (probe_status p = CollectedOk \<and> probe_value p \<noteq> None)"

text \<open>The value of a probe that is known.\<close>

definition val :: "'a probe \<Rightarrow> 'a" where
  "val p = the (probe_value p)"

definition truthy :: "bool probe \<Rightarrow> bool" where
  "truthy p = (probe_value p = Some True)"

definition scope_result ::
  "string \<Rightarrow> check_status \<Rightarrow> string \<Rightarrow> string option \<Rightarrow> bool \<Rightarrow> failure_category option \<Rightarrow> check_result" where
  "scope_result cid st message remedy remediable category =
     \<lparr>check_id = cid, check_state = st,
      check_severity =
        (if st = Fail \<or> st = Unknown then BlockingSeverity else if st = Warn then severity.Warning else Info),
      check_explanation = lit message, check_remediation = remedy, installer_can_remediate = remediable,
      check_failure =
        (case category of
           Some k \<Rightarrow> Some k
         | None \<Rightarrow> if st = Unknown then Some UnknownFailure else if st = Fail then Some Platform else None),
      check_evidence = None\<rparr>"

definition kernel_known :: "device_facts \<Rightarrow> bool" where
  "kernel_known d =
     (known (kvm_modules d) \<and> known (nbd_module_loaded (nbd d)) \<and> known (nbd_max_devices (nbd d))
      \<and> known (nbd_max_partitions (nbd d)) \<and> known (hp_size_kib (huge_pages d)) \<and> known (hp_total (huge_pages d))
      \<and> known (hp_free (huge_pages d)) \<and> known (hp_reserved (huge_pages d)) \<and> known (hp_surplus (huge_pages d))
      \<and> known (hp_mounts (huge_pages d)) \<and> known (tun_exists d) \<and> known (tun_is_character_device d)
      \<and> known (nbd_devices (nbd d)) \<and> list_all (\<lambda>x. known (nbd_in_use x)) (val (nbd_devices (nbd d))))"

definition kernel_inconsistent :: "device_facts \<Rightarrow> bool" where
  "kernel_inconsistent d =
     (val (nbd_max_devices (nbd d)) < int (length (val (nbd_devices (nbd d))))
      \<or> val (nbd_max_partitions (nbd d)) < 0 \<or> val (hp_total (huge_pages d)) < 0
      \<or> \<not> (0 \<le> val (hp_free (huge_pages d)) \<and> val (hp_free (huge_pages d)) \<le> val (hp_total (huge_pages d)))
      \<or> \<not> (0 \<le> val (hp_reserved (huge_pages d)) \<and> val (hp_reserved (huge_pages d)) \<le> val (hp_total (huge_pages d))))"

definition kernel_check :: "linux_facts \<Rightarrow> check_result option" where
  "kernel_check f =
     (let d = lf_devices f;
          the_result = (\<lambda>st message remedy remediable.
            Some (scope_result ''scope.kernel_facilities'' st message remedy remediable None))
      in if \<not> kernel_known d then None
         else if kernel_inconsistent d
         then the_result Unknown ''Kernel facility facts were complete but internally invalid.'' None False
         else if lit ''kvm'' \<notin> set (val (kvm_modules d))
              \<or> {lit ''kvm_amd'', lit ''kvm_intel''} \<inter> set (val (kvm_modules d)) = {}
         then the_result Fail ''KVM base and vendor module state is incomplete.''
                (Some ''Prepare the supported KVM modules outside read-only doctor.'') False
         else if \<not> truthy (tun_exists d) \<or> \<not> truthy (tun_is_character_device d)
         then the_result Fail ''The TUN/TAP character device is unavailable.''
                (Some ''Prepare /dev/net/tun outside read-only doctor.'') False
         else if \<not> truthy (nbd_module_loaded (nbd d))
         then the_result Warn ''Kernel facilities were inventoried; NBD is not loaded.''
                (Some ''Prepare NBD only through an approved host-change plan.'') True
         else the_result Pass ''KVM, NBD, huge-page, and TUN/TAP facts were collected and are structurally valid.'' None False)"

definition filesystem_known :: "filesystem_facts \<Rightarrow> bool" where
  "filesystem_known x =
     (known (fs_total_bytes x) \<and> known (fs_available_bytes x) \<and> known (fs_total_inodes x)
      \<and> known (fs_available_inodes x) \<and> known (fs_filesystem_type x) \<and> known (fs_mount_options x))"

definition capacity_numbers :: "linux_facts \<Rightarrow> int list" where
  "capacity_numbers f =
     map val [mem_total_bytes (lf_memory f), mem_available_bytes (lf_memory f), swap_total_bytes (lf_memory f),
              swap_free_bytes (lf_memory f)]
     @ concat (map (\<lambda>x. map val [fs_total_bytes x, fs_available_bytes x, fs_total_inodes x, fs_available_inodes x])
         (lf_filesystems f))"

definition capacity_check :: "linux_facts \<Rightarrow> nat \<Rightarrow> check_result option" where
  "capacity_check f expected_paths =
     (let m = lf_memory f;
          invalid = Some (scope_result ''scope.capacity'' Unknown
            ''Capacity facts were complete but internally invalid.'' None False None)
      in if length (lf_filesystems f) \<noteq> expected_paths then None
         else if \<not> (known (mem_total_bytes m) \<and> known (mem_available_bytes m) \<and> known (swap_total_bytes m)
                     \<and> known (swap_free_bytes m) \<and> list_all filesystem_known (lf_filesystems f))
         then None
         else if list_ex (\<lambda>v. v < 0) (capacity_numbers f) then invalid
         else if val (mem_total_bytes m) < val (mem_available_bytes m) \<or> val (swap_total_bytes m) < val (swap_free_bytes m)
         then invalid
         else if list_ex (\<lambda>x. val (fs_total_bytes x) < val (fs_available_bytes x)
                            \<or> val (fs_total_inodes x) < val (fs_available_inodes x)) (lf_filesystems f)
         then invalid
         else Some (scope_result ''scope.capacity'' Warn
           ''Memory, swap, filesystem, and inode inventories are complete; profile admission thresholds remain unapproved.''
           (Some ''Approve versioned profile capacity thresholds before installation readiness.'') False None))"

definition tool_complete :: "tool_facts \<Rightarrow> bool" where
  "tool_complete t =
     (if \<not> known (tool_present t) then False
      else if truthy (tool_present t) then known (tool_version t) \<and> known (tool_active t)
      else probe_status (tool_version t) = CollectedAbsent
           \<and> probe_status (tool_active t) \<in> {CollectedOk, CollectedAbsent})"

definition services_incomplete :: "linux_facts \<Rightarrow> bool" where
  "services_incomplete f =
     (let inst = lf_installed f; has_markers = (probe_value (inst_markers inst) \<notin> {None, Some []}) in
      \<not> tool_complete (lf_docker f) \<or> \<not> tool_complete (lf_compose f)
      \<or> list_ex (\<lambda>s. \<not> known (service_active s) \<or> \<not> known (service_unit_file s)) (conflicting_services f @ owned_services inst)
      \<or> probe_status (inst_markers inst) \<noteq> CollectedOk
      \<or> probe_status (upstream_lock_present inst) \<noteq> CollectedOk
      \<or> list_ex (\<lambda>(name, p). \<not> known p) (inst_templates inst)
      \<or> (has_markers \<and> probe_status (installed_version inst) \<noteq> CollectedOk)
      \<or> (\<not> has_markers \<and> probe_status (installed_version inst) \<notin> {CollectedOk, CollectedAbsent}))"

definition services_check :: "linux_facts \<Rightarrow> check_result option" where
  "services_check f =
     (let inst = lf_installed f; has_markers = (probe_value (inst_markers inst) \<notin> {None, Some []});
          the_result = (\<lambda>st message remedy remediable category.
            Some (scope_result ''scope.services'' st message remedy remediable category))
      in if services_incomplete f then None
         else if \<not> truthy (upstream_lock_present inst)
         then the_result Fail ''The committed upstream version lock is missing or has the wrong type.'' None False None
         else if \<not> truthy (tool_present (lf_docker f)) \<or> \<not> truthy (tool_present (lf_compose f))
         then the_result Warn ''Service inventory is complete; Docker Engine or Compose is absent.''
                (Some ''Plan package installation only after the host-change gate is approved.'') True None
         else if \<not> truthy (tool_active (lf_docker f))
         then the_result Warn ''Docker Engine is installed but inactive.''
                (Some ''Review existing Docker ownership and service state before changes.'') False None
         else if has_markers \<and> probe_status (installed_version inst) \<noteq> CollectedOk
         then the_result Fail ''Project markers exist but the installed version is invalid or unreadable.'' None False (Some Unhealthy)
         else if has_markers \<and> list_ex (\<lambda>s. service_owner s = ServiceProject
                   \<and> probe_value (service_active s) \<noteq> Some UnitActive) (owned_services inst)
         then the_result Fail ''A manifest-owned project service is unhealthy.'' None False (Some Unhealthy)
         else the_result Pass ''Docker, Compose, service, installation-marker, lock, and template facts are complete.'' None False None)"

definition security_incomplete :: "linux_facts \<Rightarrow> bool" where
  "security_incomplete f =
     (let s = lf_security f; w = lf_firewall f in
      \<not> (known (apparmor_enabled s) \<and> known (apparmor_service_active s) \<and> known (time_synchronized s)
         \<and> known (tool_present (nftables w)) \<and> known (tool_present (ufw w)))
      \<or> \<not> tool_complete (nftables w) \<or> \<not> tool_complete (ufw w)
      \<or> (if truthy (tool_present (nftables w)) then probe_status (nftables_tables w) \<noteq> CollectedOk
         else probe_status (nftables_tables w) \<noteq> CollectedAbsent))"

definition security_check :: "linux_facts \<Rightarrow> check_result option" where
  "security_check f =
     (let the_result = (\<lambda>st message remedy.
            Some (scope_result ''scope.security_posture'' st message remedy False None))
      in if security_incomplete f then None
         else if \<not> truthy (apparmor_enabled (lf_security f))
         then the_result Warn ''Security inventory is complete; AppArmor is disabled.''
                (Some ''Review AppArmor policy before untrusted sandbox execution.'')
         else if \<not> truthy (time_synchronized (lf_security f))
         then the_result Warn ''Security inventory is complete; time synchronization is not confirmed.'' None
         else the_result Pass ''AppArmor, time synchronization, and host firewall facts are complete.'' None)"

subsection \<open>The composed doctor report\<close>

text \<open>A check that cannot be decided on the collected facts keeps the result of the preflight.\<close>

definition replacement :: "configuration \<Rightarrow> linux_facts \<Rightarrow> check_result \<Rightarrow> check_result option" where
  "replacement config f c =
     (if check_id c = ''scope.kernel_facilities'' then kernel_check f
      else if check_id c = ''scope.capacity'' then capacity_check f (length (configured_paths config))
      else if check_id c = ''scope.services'' then services_check f
      else if check_id c = ''scope.security_posture'' then security_check f else None)"

definition build_composed_doctor_report ::
  "(nat \<Rightarrow> pystr) \<Rightarrow> pystr \<Rightarrow> configuration \<Rightarrow> host_facts \<Rightarrow> linux_facts option \<Rightarrow> bool \<Rightarrow> doctor_report" where
  "build_composed_doctor_report upper timestamp config host linux dry_run =
     (let base = build_doctor_report upper timestamp host (lifecycle (deployment config)) dry_run in
      case linux of
        None \<Rightarrow> base
      | Some f \<Rightarrow> base\<lparr>report_checks := map (\<lambda>c. case replacement config f c of None \<Rightarrow> c | Some r \<Rightarrow> r) (report_checks base)\<rparr>)"

subsection \<open>The install plan\<close>

definition platform_gate_ids :: "string list" where
  "platform_gate_ids =
     [''platform.release_lifecycle'', ''platform.architecture'', ''platform.systemd'', ''platform.cgroups_v2'',
      ''virtualization.cpu'', ''virtualization.kvm_device'']"

definition platform_gate :: "doctor_report \<Rightarrow> check_result list" where
  "platform_gate r =
     filter (\<lambda>c. check_id c \<in> set platform_gate_ids \<and> (check_state c = Fail \<or> check_state c = Unknown)) (report_checks r)"

definition platform_blocked_plan :: "configuration \<Rightarrow> host_facts \<Rightarrow> check_result list \<Rightarrow> change_plan res" where
  "platform_blocked_plan config host failures =
     bindR (mk_issue (lit ''platform.preflight.blocked'')
              (if list_ex (\<lambda>c. check_state c = Fail) failures then CodeUnsupported else CodeUnknown) Blocking
              (lit ''platform.preflight'') (lit ''Platform or lifecycle preflight blocks install planning.'')
              (lit ''Resolve the platform preflight result before calculating host changes.'')) (\<lambda>issue.
     bindR (mk_planning_facts (host_os_id host) (host_os_version_id host) [] 1) (\<lambda>facts.
     bindR (build_change_plan config facts) (\<lambda>lifecycle_plan.
       mk_change_plan (lifecycle (deployment config)) []
         (sort_key issue_id (filter (\<lambda>i. \<not> issue_blocking i) (plan_issues lifecycle_plan) @ [issue])) 1)))"

definition port_policy_issue :: "plan_issue res" where
  "port_policy_issue =
     mk_issue (lit ''network.required_ports.policy'') CodeUnknown Blocking (lit ''network.required_ports'')
       (lit ''Pinned required-port ownership and bind policy is not yet approved.'')
       (lit ''Approve the versioned port policy before producing an actionable install plan.'')"

definition inventory_issue :: "check_result \<Rightarrow> plan_issue res" where
  "inventory_issue c =
     mk_issue (lit (''host.inventory.'' @ drop 6 (check_id c)))
       (if check_state c = Fail then CodeUnsupported else CodeUnknown) Blocking
       (lit (if check_failure c = Some Platform then ''platform.inventory''
             else if check_failure c = Some Unhealthy then ''installed.health'' else ''host.inventory''))
       (lit ''A required normalized host fact group is invalid or incomplete.'')
       (lit ''Resolve read-only host inventory failures before installation planning.'')"

definition inventory_ids :: "string list" where
  "inventory_ids = [''scope.kernel_facilities'', ''scope.capacity'', ''scope.services'', ''scope.security_posture'']"

definition inventory_issues :: "doctor_report \<Rightarrow> plan_issue list res" where
  "inventory_issues r =
     mapR inventory_issue
       (filter (\<lambda>c. check_id c \<in> set inventory_ids \<and> (check_state c = Fail \<or> check_state c = Unknown)) (report_checks r))"

definition issue_exit_code :: "plan_issue \<Rightarrow> nat" where
  "issue_exit_code i =
     (if starts_with (lit ''platform.'') (fact_id i) then (if pi_code i \<noteq> CodeUnknown then 3 else 5)
      else if fact_id i = lit ''installed.health'' then 6
      else if pi_code i \<in> {CodeConflict, CodeInvalidFact, CodeUnsupported} then 4 else 5)"

definition change_plan_exit_code :: "change_plan \<Rightarrow> nat" where
  "change_plan_exit_code p =
     (case map issue_exit_code (filter issue_blocking (plan_issues p)) of [] \<Rightarrow> 0 | c # cs \<Rightarrow> fold min cs c)"

record install_plan_report =
  report_plan :: change_plan
  plan_report_code :: nat

definition finish_report :: "change_plan \<Rightarrow> install_plan_report" where
  "finish_report p = \<lparr>report_plan = p, plan_report_code = change_plan_exit_code p\<rparr>"

text \<open>Nothing is collected before the platform gate lets the host through.\<close>

definition build_install_plan_report ::
  "(nat \<Rightarrow> pystr) \<Rightarrow> pystr \<Rightarrow> (configuration \<Rightarrow> 'w \<Rightarrow> (linux_facts \<times> 'w) res)
     \<Rightarrow> (configuration \<Rightarrow> 'w \<Rightarrow> (resource_fact list \<times> 'w) res)
     \<Rightarrow> configuration \<Rightarrow> host_facts \<Rightarrow> 'w \<Rightarrow> (install_plan_report \<times> 'w) res" where
  "build_install_plan_report upper timestamp linux_collector directory_collector config host w =
     (let failures = platform_gate (build_doctor_report upper timestamp host (lifecycle (deployment config)) False) in
      if failures \<noteq> []
      then bindR (platform_blocked_plan config host failures) (\<lambda>p. Inr (finish_report p, w))
      else bindR (linux_collector config w) (\<lambda>(linux, w1).
           bindR (directory_collector config w1) (\<lambda>(resources, w2).
           bindR (mk_planning_facts (host_os_id host) (host_os_version_id host) resources 1) (\<lambda>facts.
           bindR (build_change_plan config facts) (\<lambda>plan.
           bindR (inventory_issues (build_composed_doctor_report upper timestamp config host (Some linux) False)) (\<lambda>inventory.
           bindR port_policy_issue (\<lambda>port.
           bindR (mk_change_plan (lifecycle (deployment config)) []
                    (sort_key issue_id (plan_issues plan @ inventory @ [port])) 1) (\<lambda>final.
             Inr (finish_report final, w2)))))))))"

subsection \<open>Rendering\<close>

definition install_report_as_dict :: "(nat \<Rightarrow> bool) \<Rightarrow> install_plan_report \<Rightarrow> json" where
  "install_report_as_dict other r =
     (let plan = plan_as_dict (report_plan r) in
      redact_report other []
        (JObj [(lit ''schema_version'', JInt 1), (lit ''project_release'', JStr (lit project_release)),
               (lit ''lifecycle_mode'', json_field plan ''lifecycle_mode''),
               (lit ''command_mode'', JStr (lit ''install-dry-run'')), (lit ''dry_run'', JBool True),
               (lit ''blocking'', json_field plan ''blocking''), (lit ''summary'', json_field plan ''summary''),
               (lit ''actions'', json_field plan ''actions''), (lit ''issues'', json_field plan ''issues'')]))"

definition max_rendered_plan_bytes :: nat where "max_rendered_plan_bytes = 1048576"

definition install_report_to_json :: "(nat \<Rightarrow> bool) \<Rightarrow> install_plan_report \<Rightarrow> pystr res" where
  "install_report_to_json other r =
     (let rendered = dumps (install_report_as_dict other r) in
      bindR (encode_utf8 rendered) (\<lambda>raw.
        thenR (raise_if (max_rendered_plan_bytes < length raw)
                 (ValueError ''install plan output exceeds its global byte limit'')) (Inr rendered)))"

definition pad8 :: "string \<Rightarrow> pystr" where
  "pad8 s = lit s @ replicate (8 - length s) 32"

definition plan_issue_line :: "(nat \<Rightarrow> bool) \<Rightarrow> plan_issue \<Rightarrow> pystr" where
  "plan_issue_line other i =
     [91] @ pad8 (case pi_severity i of issue_severity.Warning \<Rightarrow> ''WARNING'' | issue_severity.Blocking \<Rightarrow> ''BLOCKING'') @ lit ''] ''
       @ safe_report_text other (issue_id i) @ lit '': '' @ safe_report_text other (explanation i)"

definition plan_action_line :: "(nat \<Rightarrow> bool) \<Rightarrow> planned_action \<Rightarrow> pystr" where
  "plan_action_line other a =
     lit ''[ACTION  ] '' @ safe_report_text other (action_id a) @ lit '': '' @ safe_report_text other (pa_target a)"

definition render_install_plan_text :: "(nat \<Rightarrow> bool) \<Rightarrow> install_plan_report \<Rightarrow> pystr res" where
  "render_install_plan_text other r =
     (let data = install_report_as_dict other r; summary = json_field data ''summary'' in
      bindR (encode_utf8 (join [10]
        ([lit ''kitdev install --dry-run (read-only)'',
          lit ''Lifecycle: '' @ shown other (field_text data ''lifecycle_mode''),
          lit ''Blocking: '' @ lit (if json_field data ''blocking'' = JBool True then ''yes'' else ''no''), []]
         @ map (plan_issue_line other) (plan_issues (report_plan r))
         @ map (plan_action_line other) (plan_actions (report_plan r))
         @ [[], lit ''Summary: '' @ count_text summary ''actions'' @ lit '' actions, '' @ count_text summary ''issues''
                @ lit '' issues, '' @ count_text summary ''blocking_issues'' @ lit '' blocking'',
            lit ''No changes were made.'']))) (\<lambda>raw.
        Inr (decode_ignore (take max_rendered_plan_bytes raw))))"

end
