(* ===== verification/Composition_Spec.thy ===== *)
theory Composition_Spec
  imports Composition Preflight_Spec Planning_Spec
begin

text \<open>
  What the composed commands promise: an install plan is always a blocked plan without actions,
  nothing is collected for a host that the platform gate refuses, and the doctor never reports
  success.
\<close>

subsection \<open>Issues of the composition\<close>







subsection \<open>Exit codes\<close>






lemma sort_issues_mem: "i \<in> set is \<Longrightarrow> i \<in> set (sort_key issue_id is)"
  by simp




subsection \<open>The install plan\<close>








subsection \<open>The observed directories\<close>

lemma rename_text: "require_text n v m st = Inr () \<Longrightarrow> require_text n' v m st = Inr ()"
  by (auto simp: require_text_def Let_def)

definition directory_fact ::
  "(pystr \<Rightarrow> fkind probe) \<Rightarrow> authenticated_ownership option \<Rightarrow> desired_directory \<Rightarrow> resource_fact" where
  "directory_fact lstat auth d =
     (case observe_directory auth (dd_path d) (lstat (dd_path d)) of (st, own, conf) \<Rightarrow>
        \<lparr>rf_resource_id = lit (dd_resource_id d), rf_target = dd_path d, rf_state = st, rf_ownership = own, rf_confidence = conf\<rparr>)"

lemma mapR_map: "mapR f (map g xs) = mapR (\<lambda>x. f (g x)) xs"
  by (induction xs) simp_all

lemma collected_directories:
  assumes "paths_owned config"
  shows "collect_directory_resource_facts lstat auth config = Inr (map (directory_fact lstat auth) (desired_list config))"
proof -
  have targets: "require_text ''target'' (dd_path d) max_target_bytes False = Inr ()" if "d \<in> set (desired_list config)" for d
    using assms that rename_text owned_path_text unfolding paths_owned_def by blast
  have ids: "require_text ''resource_id'' (lit (dd_resource_id d)) max_id_bytes True = Inr ()"
    if "d \<in> set (desired_list config)" for d
    using that by (auto simp: desired_list_def intro!: id_text_required) (simp_all add: text_evals length_limits)
  have configured: "configured_paths config = map (\<lambda>d. (drop 10 (dd_resource_id d), dd_path d)) (desired_list config)"
    "\<forall>d \<in> set (desired_list config). ''directory.'' @ drop 10 (dd_resource_id d) = dd_resource_id d"
    by (simp_all add: configured_paths_def desired_list_def)
  have "mapR (\<lambda>d. case observe_directory auth (dd_path d) (lstat (dd_path d)) of
         (st, own, conf) \<Rightarrow> mk_resource_fact (lit (''directory.'' @ drop 10 (dd_resource_id d))) (dd_path d) st own conf) ds
      = Inr (map (directory_fact lstat auth) ds)" if "set ds \<subseteq> set (desired_list config)" for ds
    using that
    by (induction ds) (use targets ids configured(2) in \<open>auto simp: mk_resource_fact_def directory_fact_def split: prod.splits\<close>)
  note each = this [OF subset_refl]
  have "mapR (\<lambda>(name, target). case observe_directory auth target (lstat target) of
         (st, own, conf) \<Rightarrow> mk_resource_fact (lit (''directory.'' @ name)) target st own conf) (configured_paths config)
      = Inr (map (directory_fact lstat auth) (desired_list config))"
    unfolding configured(1) mapR_map comp_def prod.case by (rule each)
  moreover have "sort_key rf_resource_id (map (directory_fact lstat auth) (desired_list config))
      = map (directory_fact lstat auth) (desired_list config)"
    by (rule sort_key_id_if_sorted)
      (simp add: desired_list_def directory_fact_def lit_def split: prod.splits)
  ultimately show ?thesis
    by (simp add: collect_directory_resource_facts_def)
qed

text \<open>What the disk and the manifest say of one path, as the planner understands it.\<close>

definition on_disk_absent :: "(pystr \<Rightarrow> fkind probe) \<Rightarrow> pystr \<Rightarrow> bool" where
  "on_disk_absent lstat path = (probe_status (lstat path) = CollectedAbsent)"

definition ours :: "(pystr \<Rightarrow> fkind probe) \<Rightarrow> authenticated_ownership option \<Rightarrow> pystr \<Rightarrow> bool" where
  "ours lstat auth path = (probe_status (lstat path) = CollectedOk \<and> probe_value (lstat path) = Some KDir
     \<and> (\<exists>a. auth = Some a \<and> path \<in> set (ao_owned_targets a)))"

lemma directory_fact_id: "rf_resource_id (directory_fact lstat auth d) = lit (dd_resource_id d)"
  by (simp add: directory_fact_def split: prod.split)

lemma observed_collected:
  assumes "pf_resources facts = map (directory_fact lstat auth) (desired_list config)" "d \<in> set (desired_list config)"
  shows "observed facts d = Some (directory_fact lstat auth d)"
  using assms
  by (auto simp: observed_def sole_observation_def desired_list_def directory_fact_id lit_eq_iff)

lemma directory_fact_meaning:
  "wants_create d (Some (directory_fact lstat auth d)) \<longleftrightarrow> on_disk_absent lstat (dd_path d)"
  "resolves d (Some (directory_fact lstat auth d)) \<longleftrightarrow> on_disk_absent lstat (dd_path d) \<or> ours lstat auth (dd_path d)"
  by (auto simp: wants_create_def resolves_def creates_directory_def keeps_directory_def directory_fact_def
      observe_directory_def on_disk_absent_def ours_def split: option.splits collection_status.splits)

text \<open>From what \<open>lstat\<close> answers to the plan.  For directories that pass the ownership rules, the observations that
  \<open>collect_directory_resource_facts\<close> makes are complete, and the plan built on them is blocking exactly when the
  release is unsupported or some configured path is neither proven absent nor a real directory that
  an authenticated manifest lists as the project's own; otherwise it creates exactly the absent paths.  In
  particular, without such a manifest every existing path blocks the plan.\<close>

lemma plan_from_disk:
  assumes "paths_owned config"
  shows "\<exists>rs. collect_directory_resource_facts lstat auth config = Inr rs
    \<and> (\<forall>facts :: planning_facts. pf_resources facts = rs \<longrightarrow>
        (\<exists>plan. build_change_plan config facts = Inr plan
          \<and> plan_blocking plan = (\<not> supported config facts
              \<or> (\<exists>path \<in> set (map snd (configured_paths config)). \<not> on_disk_absent lstat path \<and> \<not> ours lstat auth path))
          \<and> map pa_target (plan_actions plan)
            = (if plan_blocking plan then [] else filter (on_disk_absent lstat) (map snd (configured_paths config)))))"
proof (rule exI, rule conjI, rule collected_directories [OF assms], intro allI impI)
  fix facts :: planning_facts assume facts: "pf_resources facts = map (directory_fact lstat auth) (desired_list config)"
  note obs = observed_collected [OF facts]
  obtain issues where plan: "build_change_plan config facts
       = Inr \<lparr>plan_lifecycle = lifecycle (deployment config), plan_actions = expected_actions config facts,
              plan_issues = sort_key issue_id issues, plan_schema_version = 1\<rparr>"
    "list_ex issue_blocking issues \<longleftrightarrow> \<not> plan_safe config facts"
    using build_result [OF assms, of facts] by blast
  have paths: "map snd (configured_paths config) = map dd_path (desired_list config)"
    by (simp add: configured_paths_def desired_list_def)
  have safe: "plan_safe config facts \<longleftrightarrow> supported config facts
      \<and> (\<forall>path \<in> set (map snd (configured_paths config)). on_disk_absent lstat path \<or> ours lstat auth path)"
    unfolding paths plan_safe_def by (simp add: obs directory_fact_meaning)
  have "map pa_target (map directory_action (filter (\<lambda>d. wants_create d (observed facts d)) (desired_list config)))
      = filter (on_disk_absent lstat) (map snd (configured_paths config))"
    unfolding paths filter_map comp_def map_map
    by (intro arg_cong2 [where f = map] filter_cong refl ext) (simp_all add: obs directory_fact_meaning directory_action_def)
  then show "\<exists>plan. build_change_plan config facts = Inr plan
          \<and> plan_blocking plan = (\<not> supported config facts
              \<or> (\<exists>path \<in> set (map snd (configured_paths config)). \<not> on_disk_absent lstat path \<and> \<not> ours lstat auth path))
          \<and> map pa_target (plan_actions plan)
            = (if plan_blocking plan then [] else filter (on_disk_absent lstat) (map snd (configured_paths config)))"
    using plan safe by (auto simp: plan_blocking_def list_ex_iff expected_actions_def)
qed

subsection \<open>The composed doctor\<close>

lemma replacement_categories:
  assumes "replacement config f c = Some r"
  shows "(check_state r = Unknown \<longleftrightarrow> check_failure r = Some UnknownFailure)
    \<and> (check_state r = Fail \<longrightarrow> check_failure r = Some Platform \<or> check_failure r = Some Unhealthy)
    \<and> (check_state r \<noteq> Fail \<and> check_state r \<noteq> Unknown \<longrightarrow> check_failure r = None)"
  using assms
  by (auto simp: replacement_def kernel_check_def capacity_check_def services_check_def security_check_def scope_result_def
      Let_def split: if_splits)

text \<open>A fact that rules the host out: the kernel facilities or the version lock.\<close>

definition facts_rule_out :: "linux_facts \<Rightarrow> bool" where
  "facts_rule_out f = (\<exists>r. (kernel_check f = Some r \<or> services_check f = Some r) \<and> check_failure r = Some Platform)"

definition composed_check :: "configuration \<Rightarrow> linux_facts \<Rightarrow> check_result \<Rightarrow> check_result" where
  "composed_check config f c = (case replacement config f c of None \<Rightarrow> c | Some r \<Rightarrow> r)"

lemma other_checks_kept: "check_id c \<notin> set inventory_ids \<Longrightarrow> composed_check config f c = c"
  by (simp add: composed_check_def replacement_def inventory_ids_def)

lemma check_ids [simp]: "check_id (check cid st e r i v) = cid" "check_id (plain_check cid st e') = cid"
  by (simp_all add: check_def plain_check_def)

lemma host_check_ids:
  "check_id (release_check facts mode) = ''platform.release_lifecycle''"
  "check_id (architecture_check facts) = ''platform.architecture''"
  "check_id (systemd_check facts) = ''platform.systemd''"
  "check_id (cgroup_check facts) = ''platform.cgroups_v2''"
  "check_id (cpu_check upper facts) = ''virtualization.cpu''"
  "check_id (kvm_check facts) = ''virtualization.kvm_device''"
  "check_id (nested_check facts) = ''virtualization.nested_guest_support''"
  unfolding release_check_def architecture_check_def systemd_check_def
      cgroup_check_def cpu_check_def kvm_check_def nested_check_def Let_def
  by (simp_all split: option.split)

definition check_codes :: "check_result \<Rightarrow> nat set" where
  "check_codes c = (if check_failure c \<noteq> None \<and> (check_state c = Fail \<or> check_state c = Unknown)
     then {category_exit_code (the (check_failure c))} else {})"

lemma failure_codes_Union: "set (failure_codes cs) = (\<Union>c \<in> set cs. check_codes c)"
  by (induction cs) (auto simp: failure_codes_def check_codes_def)

lemma replaced_codes:
  assumes "replacement config f c = Some r"
  shows "check_codes r \<subseteq> {3, 5, 6}" "3 \<in> check_codes r \<longleftrightarrow> check_failure r = Some Platform"
  using replacement_categories [OF assms] by (auto simp: check_codes_def split: check_status.splits)

lemma classified_codes: "classified c \<Longrightarrow> check_codes c \<subseteq> {3, 5} \<and> (3 \<in> check_codes c \<longleftrightarrow> check_state c = Fail)"
  by (cases "check_state c") (auto simp: check_codes_def classified_def)

lemma composed_codes:
  assumes "classified c"
  shows "check_codes (composed_check config f c) \<subseteq> {3, 5, 6}"
    "3 \<in> check_codes (composed_check config f c)
      \<longleftrightarrow> (case replacement config f c of None \<Rightarrow> check_state c = Fail | Some r \<Rightarrow> check_failure r = Some Platform)"
  using classified_codes [OF assms] replaced_codes [of config f c] by (auto simp: composed_check_def split: option.splits)

lemma exit_code_Min: "set (failure_codes (report_checks r)) \<noteq> {} \<Longrightarrow> report_exit_code r = Min (set (failure_codes (report_checks r)))"
  by (cases "failure_codes (report_checks r)") (simp_all add: report_exit_code_def fold_min)

text \<open>Capacity and security facts never rule a host out.\<close>

lemma mild_checks:
  "capacity_check f n = Some r \<Longrightarrow> check_failure r \<noteq> Some Platform"
  "security_check f = Some r \<Longrightarrow> check_failure r \<noteq> Some Platform"
  by (auto simp: capacity_check_def security_check_def scope_result_def Let_def split: if_splits)

lemma scope_rules_out:
  "(\<exists>c \<in> set scope_checks. case replacement config f c of None \<Rightarrow> check_state c = Fail | Some r \<Rightarrow> check_failure r = Some Platform)
     \<longleftrightarrow> facts_rule_out f"
  using mild_checks
  by (auto simp: scope_checks_def replacement_def facts_rule_out_def split: option.splits)

lemma host_rules_out:
  "(\<exists>c \<in> set (take 7 (evaluate_host upper facts mode)). case replacement config f c of
      None \<Rightarrow> check_state c = Fail | Some r \<Rightarrow> check_failure r = Some Platform) \<longleftrightarrow> ruled_out facts mode"
  unfolding evaluate_host_def ruled_out_def
  by (simp add: replacement_def host_check_ids release_fails others_fail numeral_eq_Suc)

text \<open>C26: With the Linux facts collected the doctor still never reports success, and never reports an unhealthy
  installation: it exits with 3 exactly when a known fact rules the host out (the host facts, the kernel facilities
  or the version lock), and with 5 on every other host, because network conflicts stay unknown.\<close>

theorem composed_doctor_exit_code:
  "report_exit_code (build_composed_doctor_report upper ts config host (Some f) dry_run)
     = (if ruled_out host (lifecycle (deployment config)) \<or> facts_rule_out f then 3 else 5)"
proof -
  define cs where "cs = evaluate_host upper host (lifecycle (deployment config))"
  define r where "r = build_composed_doctor_report upper ts config host (Some f) dry_run"
  define S where "S = set (failure_codes (report_checks r))"
  have S: "S = (\<Union>c \<in> set cs. check_codes (composed_check config f c))"
    by (simp add: S_def r_def cs_def build_composed_doctor_report_def build_doctor_report_def failure_codes_Union
        composed_check_def Let_def)
  have kinds: "list_all classified cs" unfolding cs_def by (rule evaluate_classified)
  have split: "set cs = set (take 7 cs) \<union> set scope_checks"
    by (simp add: cs_def evaluate_host_def numeral_eq_Suc)
  have "3 \<in> S \<longleftrightarrow> (\<exists>c \<in> set cs. case replacement config f c of None \<Rightarrow> check_state c = Fail | Some r \<Rightarrow> check_failure r = Some Platform)"
    using kinds composed_codes(2) by (auto simp: S list_all_iff)
  then have three: "3 \<in> S \<longleftrightarrow> ruled_out host (lifecycle (deployment config)) \<or> facts_rule_out f"
    unfolding split bex_Un scope_rules_out unfolding cs_def host_rules_out .
  have "plain_check ''scope.network_conflicts'' Unknown
        ''Listener, route, subnet, DNS, and firewall conflict checks are not yet implemented.'' \<in> set cs"
    by (simp add: split scope_checks_def)
  moreover have "5 \<in> check_codes (composed_check config f (plain_check ''scope.network_conflicts'' Unknown
        ''Listener, route, subnet, DNS, and firewall conflict checks are not yet implemented.''))"
    by (simp add: other_checks_kept inventory_ids_def check_codes_def plain_check_def check_def)
  ultimately have five: "5 \<in> S" unfolding S by blast
  have range: "S \<subseteq> {3, 5, 6}"
    unfolding S by (rule UN_least, rule composed_codes(1)) (use kinds in \<open>simp add: list_all_iff\<close>)
  then have fin: "finite S" by (rule finite_subset) simp
  have "report_exit_code r = Min S" unfolding S_def by (rule exit_code_Min) (use five in \<open>auto simp: S_def\<close>)
  also have "\<dots> = (if 3 \<in> S then 3 else 5)"
    by (rule Min_eqI) (use fin range five in auto)
  finally show ?thesis unfolding three r_def .
qed

subsection \<open>A fresh host\<close>










end
