(* ===== verification/Collect_Base.thy ===== *)
theory Collect_Base
  imports Linux_Facts Runner Py_Int Posix
begin

text \<open>
  The collectors of \<open>src/src/kitdev_sandboxes/collectors.py\<close>, first part: running a command and
  reading a file, and what is parsed out of \<open>/proc\<close>, \<open>/sys\<close>, \<open>findmnt\<close> and \<open>systemctl\<close>.  A
  collector is a function on the state of the world that may raise; the readers and the runner that
  the code takes as arguments are arguments here.  \<open>lower\<close>, \<open>other\<close>, \<open>digit\<close> and \<open>decimal\<close> stand
  for the Unicode tables beyond ASCII.
\<close>

subsection \<open>Collectors\<close>

type_synonym ('w, 'a) collector = "'w \<Rightarrow> ('a \<times> 'w) res"

definition pureC :: "'a \<Rightarrow> ('w, 'a) collector" where
  "pureC x w = Inr (x, w)"

definition liftC :: "'a res \<Rightarrow> ('w, 'a) collector" where
  "liftC r w = bindR r (\<lambda>x. Inr (x, w))"

definition readC :: "('w \<Rightarrow> 'a \<times> 'w) \<Rightarrow> ('w, 'a) collector" where
  "readC f w = Inr (f w)"

definition bindC :: "('w, 'a) collector \<Rightarrow> ('a \<Rightarrow> ('w, 'b) collector) \<Rightarrow> ('w, 'b) collector" where
  "bindC m k w = bindR (m w) (\<lambda>(x, w1). k x w1)"

fun mapC :: "('a \<Rightarrow> ('w, 'b) collector) \<Rightarrow> 'a list \<Rightarrow> ('w, 'b list) collector" where
  "mapC f [] = pureC []"
| "mapC f (x # xs) = bindC (f x) (\<lambda>y. bindC (mapC f xs) (\<lambda>ys. pureC (y # ys)))"

subsection \<open>Probes\<close>

text \<open>\<open>Probe.ok\<close> and \<open>Probe.degraded\<close> without evidence, and a failed probe handed on.\<close>

definition ok_probe :: "'a \<Rightarrow> pystr \<Rightarrow> int option \<Rightarrow> 'a probe" where
  "ok_probe v src elapsed =
     \<lparr>probe_status = CollectedOk, probe_value = Some v, probe_raw = None, probe_source = src, probe_elapsed_ms = elapsed\<rparr>"

definition bad_probe :: "collection_status \<Rightarrow> pystr \<Rightarrow> int option \<Rightarrow> 'a probe" where
  "bad_probe st src elapsed =
     \<lparr>probe_status = st, probe_value = None, probe_raw = None, probe_source = src, probe_elapsed_ms = elapsed\<rparr>"

definition carry :: "'b probe \<Rightarrow> 'a probe" where
  "carry p =
     \<lparr>probe_status = probe_status p, probe_value = None, probe_raw = probe_raw p, probe_source = probe_source p,
      probe_elapsed_ms = probe_elapsed_ms p\<rparr>"

text \<open>The value of a probe whose status is ok.\<close>

definition usable :: "'a probe \<Rightarrow> 'a option" where
  "usable p = (if probe_status p = CollectedOk then probe_value p else None)"

text \<open>\<open>str.lower\<close>; final sigma is outside ASCII in both of its forms, so the table is by character.\<close>

definition lowered :: "(nat \<Rightarrow> pystr) \<Rightarrow> pystr \<Rightarrow> pystr" where
  "lowered lower s = concat (map (\<lambda>c. if 128 \<le> c then lower c else if is_upper_az c then [c + 32] else [c]) s)"

subsection \<open>Commands\<close>

definition default_command :: "pystr list \<Rightarrow> command" where
  "default_command argv =
     \<lparr>cmd_argv = argv, cmd_cwd = parse_path (lit ''/''), timeout_seconds = Finite 5,
      termination_grace_seconds = Finite (1 / 4), stdout_limit_bytes = default_stream_limit,
      stderr_limit_bytes = default_stream_limit\<rparr>"

definition run_default :: "'w runner \<Rightarrow> pystr list \<Rightarrow> ('w, command_result) collector" where
  "run_default runner argv w =
     thenR (check_command (default_command argv)) (Inr (runner (default_command argv) w))"

definition duration_ms :: "command_result \<Rightarrow> int" where
  "duration_ms r = max 0 \<lfloor>duration_seconds r * 1000\<rfloor>"

fun outcome_status :: "Runner.outcome \<Rightarrow> collection_status" where
  "outcome_status Success = CollectedOk"
| "outcome_status Missing = CollectedAbsent"
| "outcome_status PermissionDenied = CollectedDenied"
| "outcome_status Timeout = CollectedTimeout"
| "outcome_status _ = CollectedError"

definition command_probe :: "(nat \<Rightarrow> bool) \<Rightarrow> pystr \<Rightarrow> command_result \<Rightarrow> pystr probe res" where
  "command_probe other src r =
     (if output_truncated r then Inr (bad_probe CollectedTruncated src (Some (duration_ms r)))
      else if outcome_status (res_outcome r) = CollectedOk
      then probe_ok other (ev_text (res_stdout r)) (Some (ev_text (res_stdout r))) src (Some (duration_ms r))
      else Inr (bad_probe (outcome_status (res_outcome r)) src (Some (duration_ms r))))"

definition command_text ::
  "(nat \<Rightarrow> bool) \<Rightarrow> 'w runner \<Rightarrow> pystr list \<Rightarrow> pystr \<Rightarrow> ('w, pystr probe) collector" where
  "command_text other runner argv src =
     bindC (run_default runner argv) (\<lambda>r. liftC (command_probe other src r))"

subsection \<open>Numbers and switches\<close>

text \<open>\<open>int\<close> of a text of ASCII digits.\<close>

definition int_of_digits :: "pystr \<Rightarrow> int res" where
  "int_of_digits ds =
     thenR (raise_if (int_limit < length ds) (ValueError ''int digit limit'')) (Inr (int (digits_val 0 ds)))"

definition parse_int :: "(nat \<Rightarrow> bool) \<Rightarrow> int \<Rightarrow> pystr probe \<Rightarrow> int probe res" where
  "parse_int other multiplier t =
     (case usable t of
        None \<Rightarrow> Inr (carry t)
      | Some v \<Rightarrow>
          if strip v = [] \<or> \<not> list_all is_digit09 (strip v)
          then probe_degraded other CollectedError (probe_raw t) (probe_source t) None
          else bindR (int_of_digits (strip v)) (\<lambda>i.
            Inr \<lparr>probe_status = probe_status t, probe_value = Some (i * multiplier), probe_raw = probe_raw t,
                 probe_source = probe_source t, probe_elapsed_ms = probe_elapsed_ms t\<rparr>))"

definition parse_bool :: "(nat \<Rightarrow> pystr) \<Rightarrow> (nat \<Rightarrow> bool) \<Rightarrow> pystr probe \<Rightarrow> bool probe res" where
  "parse_bool lower other t =
     (case usable t of
        None \<Rightarrow> Inr (carry t)
      | Some v \<Rightarrow>
          (let word = lowered lower (strip v);
               mapped = (\<lambda>b. Inr \<lparr>probe_status = probe_status t, probe_value = Some b, probe_raw = probe_raw t,
                                   probe_source = probe_source t, probe_elapsed_ms = probe_elapsed_ms t\<rparr>)
           in if word \<in> set (map lit [''1'', ''y'', ''yes'', ''true'', ''active'', ''enabled'', ''running'']) then mapped True
              else if word \<in> set (map lit [''0'', ''n'', ''no'', ''false'', ''inactive'', ''disabled'', ''stopped'']) then mapped False
              else probe_degraded other CollectedError (probe_raw t) (probe_source t) None))"

subsection \<open>Kernel files\<close>

definition proc_path :: "string \<Rightarrow> ppath" where
  "proc_path s = parse_path (lit s)"

text \<open>\<open>[A-Za-z_()]+:\s+[0-9]+(\s+kB)?\<close>, the name and the digits.\<close>

definition meminfo_re :: "pystr \<Rightarrow> (pystr \<times> pystr) option" where
  "meminfo_re s =
     (let name_char = (\<lambda>c. is_upper_az c \<or> is_lower_az c \<or> c = 95 \<or> c = 40 \<or> c = 41);
          name = takeWhile name_char s; r1 = dropWhile name_char s
      in if name = [] \<or> \<not> starts_with [58] r1 \<or> \<not> (tl r1 \<noteq> [] \<and> is_space (hd (tl r1))) then None
         else (let r2 = dropWhile is_space (tl r1); ds = takeWhile is_digit09 r2; r3 = dropWhile is_digit09 r2
               in if ds = [] then None
                  else if r3 = [] then Some (name, ds)
                  else if is_space (hd r3) \<and> dropWhile is_space r3 = lit ''kB'' then Some (name, ds) else None))"

definition meminfo_line :: "pystr \<Rightarrow> (pystr \<times> int) option res" where
  "meminfo_line line =
     (case meminfo_re (strip line) of
        None \<Rightarrow> Inr None
      | Some (name, ds) \<Rightarrow> bindR (int_of_digits ds) (\<lambda>i. Inr (Some (name, i))))"

text \<open>The pairs in the order of the lines; a later pair replaces an earlier one.\<close>

definition meminfo_pairs :: "pystr probe \<Rightarrow> (pystr \<times> int) list res" where
  "meminfo_pairs p =
     (case usable p of
        None \<Rightarrow> Inr []
      | Some text \<Rightarrow> bindR (mapR meminfo_line (splitlines text)) (\<lambda>found. Inr (List.map_filter id found)))"

definition meminfo_item :: "pystr probe \<Rightarrow> (pystr \<times> int) list \<Rightarrow> bool \<Rightarrow> string \<Rightarrow> int probe" where
  "meminfo_item p parsed kib name =
     (if probe_status p \<noteq> CollectedOk then carry p
      else case map_of (rev parsed) (lit name) of
        None \<Rightarrow> bad_probe CollectedUnknown (probe_source p) None
      | Some i \<Rightarrow> ok_probe (i * (if kib then 1024 else 1)) (probe_source p) None)"

text \<open>\<open>s.replace("\\040", " ")\<close>\<close>

fun unescape_spaces :: "pystr \<Rightarrow> pystr" where
  "unescape_spaces (a # b # c # d # s) =
     (if a = 92 \<and> b = 48 \<and> c = 52 \<and> d = 48 then 32 # unescape_spaces s else a # unescape_spaces (b # c # d # s))"
| "unescape_spaces s = s"

definition hugetlbfs_mounts :: "pystr \<Rightarrow> pystr list" where
  "hugetlbfs_mounts text =
     sort (map (\<lambda>fields. unescape_spaces (fields ! 1))
       (filter (\<lambda>fields. 3 \<le> length fields \<and> fields ! 2 = lit ''hugetlbfs'') (map split_space (splitlines text))))"

type_synonym 'w reader = "ppath \<Rightarrow> nat \<Rightarrow> 'w \<Rightarrow> pystr probe \<times> 'w"
type_synonym 'w stat_reader = "ppath \<Rightarrow> 'w \<Rightarrow> fkind probe \<times> 'w"

definition collect_meminfo :: "'w reader \<Rightarrow> ('w, memory_facts \<times> huge_page_facts) collector" where
  "collect_meminfo read_text =
     bindC (readC (read_text (proc_path ''/proc/meminfo'') 131072)) (\<lambda>p.
     bindC (liftC (meminfo_pairs p)) (\<lambda>parsed.
     bindC (readC (read_text (proc_path ''/proc/self/mounts'') 1048576)) (\<lambda>mounts.
       let item = meminfo_item p parsed False; kib = meminfo_item p parsed True in
       pureC (\<lparr>mem_total_bytes = kib ''MemTotal'', mem_available_bytes = kib ''MemAvailable'',
               swap_total_bytes = kib ''SwapTotal'', swap_free_bytes = kib ''SwapFree''\<rparr>,
              \<lparr>hp_size_kib = item ''Hugepagesize'', hp_total = item ''HugePages_Total'',
               hp_free = item ''HugePages_Free'', hp_reserved = item ''HugePages_Rsvd'',
               hp_surplus = item ''HugePages_Surp'',
               hp_mounts = (case usable mounts of
                              None \<Rightarrow> carry mounts
                            | Some text \<Rightarrow> ok_probe (hugetlbfs_mounts text) (probe_source mounts) None)\<rparr>))))"

text \<open>The first field of every line that has one.\<close>

definition first_fields :: "pystr \<Rightarrow> pystr list" where
  "first_fields text = map hd (filter (\<lambda>fields. fields \<noteq> []) (map split_space (splitlines text)))"

definition module_names :: "'w reader \<Rightarrow> ('w, pystr list probe) collector" where
  "module_names read_text =
     bindC (readC (read_text (proc_path ''/proc/modules'') 2097152)) (\<lambda>p.
       pureC (case usable p of
          None \<Rightarrow> carry p
        | Some text \<Rightarrow>
            ok_probe (sort (filter (\<lambda>m. m \<in> set (map lit [''kvm'', ''kvm_amd'', ''kvm_intel''])) (first_fields text)))
              (probe_source p) None))"

definition path_name :: "ppath \<Rightarrow> pystr" where
  "path_name p = (if components p = [] then [] else last (components p))"

definition child :: "ppath \<Rightarrow> string \<Rightarrow> ppath" where
  "child p name = p\<lparr>components := components p @ [lit name]\<rparr>"

definition nbd_device_fact :: "'w reader \<Rightarrow> ppath \<Rightarrow> ('w, nbd_device) collector" where
  "nbd_device_fact read_text path =
     bindC (readC (read_text (child path ''pid'') 4096)) (\<lambda>pid.
       let src = lit ''nbd.'' @ path_name path @ lit ''.pid'' in
       pureC \<lparr>nbd_name = path_name path,
              nbd_in_use =
                (case usable pid of
                   Some v \<Rightarrow> ok_probe (strip v \<noteq> []) src None
                 | None \<Rightarrow> if probe_status pid = CollectedAbsent then ok_probe False src None
                           else bad_probe (probe_status pid) src None)\<rparr>)"

definition collect_nbd ::
  "(nat \<Rightarrow> bool) \<Rightarrow> 'w reader \<Rightarrow> (pystr \<Rightarrow> 'w \<Rightarrow> ppath list probe \<times> 'w) \<Rightarrow> ('w, nbd_facts) collector" where
  "collect_nbd other read_text glob_paths =
     bindC (readC (read_text (proc_path ''/proc/modules'') 2097152)) (\<lambda>modules.
     bindC (readC (read_text (proc_path ''/sys/module/nbd/parameters/nbds_max'') 4096)) (\<lambda>max_text.
     bindC (liftC (parse_int other 1 max_text)) (\<lambda>max_devices.
     bindC (readC (read_text (proc_path ''/sys/module/nbd/parameters/max_part'') 4096)) (\<lambda>part_text.
     bindC (liftC (parse_int other 1 part_text)) (\<lambda>max_parts.
     bindC (readC (glob_paths (lit ''/sys/block/nbd*''))) (\<lambda>found.
     bindC (case usable found of
              None \<Rightarrow> pureC (carry found)
            | Some found_paths \<Rightarrow>
                bindC (mapC (nbd_device_fact read_text) found_paths) (\<lambda>ds.
                  pureC (ok_probe ds (probe_source found) None))) (\<lambda>devices.
       pureC \<lparr>nbd_module_loaded =
                (case usable modules of
                   None \<Rightarrow> carry modules
                 | Some text \<Rightarrow> ok_probe (lit ''nbd'' \<in> set (first_fields text)) (probe_source modules) None),
              nbd_max_devices = max_devices, nbd_max_partitions = max_parts, nbd_devices = devices\<rparr>)))))))"

subsection \<open>File systems\<close>

record filesystem_stat =
  vfs_total_bytes :: int
  vfs_available_bytes :: int
  vfs_total_inodes :: int
  vfs_available_inodes :: int

text \<open>
  The nearest ancestor that exists; the components are taken from the end.  The loop stops at the
  path that is its own parent.
\<close>

fun nearest_from ::
  "'w stat_reader \<Rightarrow> pystr \<Rightarrow> pystr list \<Rightarrow> ('w, ppath option \<times> collection_status) collector" where
  "nearest_from stat_path base reversed =
     bindC (readC (stat_path \<lparr>anchor = base, components = rev reversed\<rparr>)) (\<lambda>result.
       if probe_status result = CollectedOk
       then (if probe_value result = Some KDir
             then pureC (Some \<lparr>anchor = base, components = rev reversed\<rparr>, CollectedOk)
             else pureC (None, CollectedError))
       else if probe_status result \<noteq> CollectedAbsent then pureC (None, probe_status result)
       else case reversed of
         [] \<Rightarrow> pureC (None, CollectedAbsent)
       | name # up \<Rightarrow> nearest_from stat_path base up)"

declare nearest_from.simps [simp del]

definition nearest_existing :: "'w stat_reader \<Rightarrow> ppath \<Rightarrow> ('w, ppath option \<times> collection_status) collector" where
  "nearest_existing stat_path path = nearest_from stat_path (anchor path) (rev (components path))"

text \<open>\<open>[A-Za-z0-9._+-]{1,64}\<close>\<close>

definition mount_char :: "nat \<Rightarrow> bool" where
  "mount_char c = (is_upper_az c \<or> is_lower_az c \<or> is_digit09 c \<or> c = 46 \<or> c = 95 \<or> c = 43 \<or> c = 45)"

definition mount_word :: "pystr \<Rightarrow> bool" where
  "mount_word s = (s \<noteq> [] \<and> length s \<le> 64 \<and> list_all mount_char s)"

definition safe_mount_value_keys :: "pystr list" where
  "safe_mount_value_keys = map lit [''barrier'', ''commit'', ''data'', ''discard'', ''errors'']"

definition normalize_mount_option :: "pystr \<Rightarrow> pystr res" where
  "normalize_mount_option item =
     bindR (encode_utf8 item) (\<lambda>raw.
     thenR (raise_if (256 < length raw) (ValueError ''mount option exceeds byte limit''))
       (let (key, v) = (case split_once 61 item of None \<Rightarrow> (item, None) | Some (k, v) \<Rightarrow> (k, Some v)) in
        thenR (raise_if (\<not> mount_word key) (ValueError ''invalid mount option key''))
          (Inr (case v of
             None \<Rightarrow> key
           | Some text \<Rightarrow>
               if key \<in> set safe_mount_value_keys \<and> mount_word text then key @ [61] @ text
               else key @ lit ''=[REDACTED]''))))"

definition normalize_mount_options :: "pystr \<Rightarrow> pystr list res" where
  "normalize_mount_options raw_options =
     (let items = filter (\<lambda>i. i \<noteq> []) (split_on 44 raw_options) in
      thenR (raise_if (256 < length items) (ValueError ''too many mount options''))
        (bindR (mapR normalize_mount_option items) (\<lambda>normalized. Inr (sort (remdups normalized)))))"

text \<open>Every exception inside the \<open>try\<close> of \<open>_findmnt\<close> is one that it catches.\<close>

definition findmnt_entry :: "pystr \<Rightarrow> (pystr \<times> pystr list) option" where
  "findmnt_entry text =
     (case loads text of
        Inr (JObj payload) \<Rightarrow>
          (case map_of payload (lit ''filesystems'') of
             Some (JArr (JObj entry # _)) \<Rightarrow>
               (case (map_of entry (lit ''fstype''), map_of entry (lit ''options'')) of
                  (Some (JStr fstype), Some (JStr raw_options)) \<Rightarrow>
                    if \<not> mount_word fstype then None
                    else (case normalize_mount_options raw_options of Inr options \<Rightarrow> Some (fstype, options) | Inl _ \<Rightarrow> None)
                | _ \<Rightarrow> None)
           | _ \<Rightarrow> None)
      | _ \<Rightarrow> None)"

definition findmnt ::
  "(nat \<Rightarrow> bool) \<Rightarrow> 'w runner \<Rightarrow> ppath \<Rightarrow> ('w, pystr probe \<times> pystr list probe) collector" where
  "findmnt other runner path =
     bindC (command_text other runner
        (map lit [''findmnt'', ''--json'', ''--target''] @ [path_str path] @ map lit [''--output'', ''FSTYPE,OPTIONS''])
        (lit ''findmnt.target'')) (\<lambda>r.
       pureC (case usable r of
          None \<Rightarrow> (carry r, carry r)
        | Some text \<Rightarrow>
            (case findmnt_entry text of
               None \<Rightarrow> (bad_probe CollectedError (probe_source r) None, bad_probe CollectedError (probe_source r) None)
             | Some (fstype, options) \<Rightarrow>
                 (ok_probe fstype (probe_source r) (probe_elapsed_ms r), ok_probe options (probe_source r) (probe_elapsed_ms r)))))"

definition filesystem_number :: "(filesystem_stat \<Rightarrow> int) \<Rightarrow> filesystem_stat probe \<Rightarrow> int probe" where
  "filesystem_number f p =
     (case usable p of
        Some v \<Rightarrow> ok_probe (f v) (probe_source p) None
      | None \<Rightarrow> bad_probe (probe_status p) (probe_source p) None)"

definition collect_filesystem ::
  "(nat \<Rightarrow> bool) \<Rightarrow> 'w runner \<Rightarrow> 'w stat_reader \<Rightarrow> (ppath \<Rightarrow> 'w \<Rightarrow> filesystem_stat probe \<times> 'w) \<Rightarrow> ppath
     \<Rightarrow> ('w, filesystem_facts) collector" where
  "collect_filesystem other runner stat_path stat_filesystem configured =
     bindC (nearest_existing stat_path configured) (\<lambda>(containing, st).
       case containing of
         None \<Rightarrow>
           (let missing = bad_probe st (lit ''path.ancestor'') None in
            pureC \<lparr>fs_configured_path = path_str configured, fs_containing_path = None,
                   fs_total_bytes = missing, fs_available_bytes = missing, fs_total_inodes = missing,
                   fs_available_inodes = missing, fs_filesystem_type = bad_probe st (lit ''path.ancestor'') None,
                   fs_mount_options = bad_probe st (lit ''path.ancestor'') None\<rparr>)
       | Some path \<Rightarrow>
           bindC (readC (stat_filesystem path)) (\<lambda>vfs.
           bindC (findmnt other runner path) (\<lambda>(fstype, options).
             pureC \<lparr>fs_configured_path = path_str configured, fs_containing_path = Some (path_str path),
                    fs_total_bytes = filesystem_number vfs_total_bytes vfs,
                    fs_available_bytes = filesystem_number vfs_available_bytes vfs,
                    fs_total_inodes = filesystem_number vfs_total_inodes vfs,
                    fs_available_inodes = filesystem_number vfs_available_inodes vfs,
                    fs_filesystem_type = fstype, fs_mount_options = options\<rparr>)))"

subsection \<open>Tools and units\<close>

definition version_tool ::
  "(nat \<Rightarrow> bool) \<Rightarrow> 'w runner \<Rightarrow> pystr list \<Rightarrow> string \<Rightarrow> bool probe option \<Rightarrow> ('w, tool_facts) collector" where
  "version_tool other runner argv source active =
     bindC (command_text other runner argv (lit source)) (\<lambda>r.
       let src = lit source in
       pureC (if probe_status r = CollectedAbsent
              then \<lparr>tool_present = ok_probe False src None, tool_version = bad_probe CollectedAbsent src None,
                    tool_active = (case active of Some p \<Rightarrow> p | None \<Rightarrow> ok_probe False src None)\<rparr>
              else \<lparr>tool_present =
                      (if probe_status r = CollectedOk then ok_probe True src None
                       else bad_probe (probe_status r) src (probe_elapsed_ms r)),
                    tool_version =
                      (case usable r of
                         Some text \<Rightarrow> ok_probe (take 160 (safe_report_text other (join [32] (split_space text)))) src None
                       | None \<Rightarrow> bad_probe (probe_status r) src (probe_elapsed_ms r)),
                    tool_active = (case active of Some p \<Rightarrow> p | None \<Rightarrow> bad_probe CollectedUnknown src None)\<rparr>))"

text \<open>\<open>systemctl\<close> reports a state with a nonzero exit code too.\<close>

definition systemd_output ::
  "(nat \<Rightarrow> pystr) \<Rightarrow> (nat \<Rightarrow> bool) \<Rightarrow> 'w runner \<Rightarrow> string \<Rightarrow> string \<Rightarrow> ('w, pystr probe \<times> pystr option) collector" where
  "systemd_output lower other runner unit verb =
     bindC (run_default runner [lit ''systemctl'', lit verb, lit unit]) (\<lambda>r.
       let src = lit (''systemd.'' @ verb @ ''.'' @ unit); ms = Some (duration_ms r) in
       if output_truncated r then pureC (bad_probe CollectedTruncated src ms, None)
       else if res_outcome r \<noteq> Success \<and> res_outcome r \<noteq> Nonzero
       then pureC (bad_probe (outcome_status (res_outcome r)) src ms, None)
       else bindC (liftC (probe_ok other (ev_text (res_stdout r)) (Some (ev_text (res_stdout r))) src ms)) (\<lambda>p.
         pureC (p, Some (lowered lower (strip (ev_text (res_stdout r)))))))"

definition active_states :: "(string \<times> active_state) list" where
  "active_states =
     [(''active'', UnitActive), (''inactive'', UnitInactive), (''failed'', UnitFailed), (''activating'', UnitActivating),
      (''deactivating'', UnitDeactivating), (''reloading'', UnitReloading), (''maintenance'', UnitMaintenance)]"

definition unit_file_states :: "(string \<times> unit_file_state) list" where
  "unit_file_states =
     [(''enabled'', UnitEnabled), (''enabled-runtime'', UnitEnabledRuntime), (''disabled'', UnitDisabled),
      (''static'', UnitStatic), (''indirect'', UnitIndirect), (''alias'', UnitAlias), (''masked'', UnitMasked),
      (''masked-runtime'', UnitMaskedRuntime), (''generated'', UnitGenerated), (''transient'', UnitTransient),
      (''bad'', UnitBad), (''not-found'', UnitNotFound)]"

definition systemd_state :: "(string \<times> 'a) list \<Rightarrow> pystr probe \<times> pystr option \<Rightarrow> 'a probe" where
  "systemd_state states output =
     (case (probe_status (fst output) = CollectedOk, snd output) of
        (True, Some word) \<Rightarrow>
          (case find (\<lambda>(name, st). lit name = word) states of
             None \<Rightarrow> bad_probe CollectedUnknown (probe_source (fst output)) None
           | Some (name, st) \<Rightarrow> ok_probe st (probe_source (fst output)) (probe_elapsed_ms (fst output)))
      | _ \<Rightarrow> carry (fst output))"

definition systemd_active_state ::
  "(nat \<Rightarrow> pystr) \<Rightarrow> (nat \<Rightarrow> bool) \<Rightarrow> 'w runner \<Rightarrow> string \<Rightarrow> ('w, active_state probe) collector" where
  "systemd_active_state lower other runner unit =
     bindC (systemd_output lower other runner unit ''is-active'') (\<lambda>out. pureC (systemd_state active_states out))"

definition systemd_unit_file_state ::
  "(nat \<Rightarrow> pystr) \<Rightarrow> (nat \<Rightarrow> bool) \<Rightarrow> 'w runner \<Rightarrow> string \<Rightarrow> ('w, unit_file_state probe) collector" where
  "systemd_unit_file_state lower other runner unit =
     bindC (systemd_output lower other runner unit ''is-enabled'') (\<lambda>out. pureC (systemd_state unit_file_states out))"

definition active_bool :: "active_state probe \<Rightarrow> bool probe" where
  "active_bool p =
     (case usable p of
        None \<Rightarrow> carry p
      | Some st \<Rightarrow>
          if st = UnitActive then ok_probe True (probe_source p) (probe_elapsed_ms p)
          else if st = UnitInactive \<or> st = UnitFailed then ok_probe False (probe_source p) (probe_elapsed_ms p)
          else bad_probe CollectedUnknown (probe_source p) None)"

definition collect_service ::
  "(nat \<Rightarrow> pystr) \<Rightarrow> (nat \<Rightarrow> bool) \<Rightarrow> 'w runner \<Rightarrow> (string \<Rightarrow> service_ownership) \<Rightarrow> string \<Rightarrow> ('w, service_fact) collector" where
  "collect_service lower other runner owner unit =
     bindC (systemd_active_state lower other runner unit) (\<lambda>active.
     bindC (systemd_unit_file_state lower other runner unit) (\<lambda>unit_file.
       pureC \<lparr>service_name = lit unit, service_active = active, service_unit_file = unit_file, service_owner = owner unit\<rparr>))"

end
