(* ===== verification/Collect_Network.thy ===== *)
theory Collect_Network
  imports Collect_Base Ip_Address Json_Value
begin

text \<open>
  The network collectors of \<open>src/src/kitdev_sandboxes/collectors.py\<close>: the listeners that \<open>ss\<close>
  prints, the interfaces and routes of \<open>ip -j\<close>, the resolver configuration, and the firewall
  tools.
\<close>

subsection \<open>Listeners\<close>

definition is_digit_char :: "(nat \<Rightarrow> bool) \<Rightarrow> nat \<Rightarrow> bool" where
  "is_digit_char digit c = (if c < 128 then is_digit09 c else digit c)"

text \<open>\<open>s.rsplit(sep, 1)\<close> for a separator that occurs in \<open>s\<close>.\<close>

fun rsplit_once :: "pystr \<Rightarrow> pystr \<Rightarrow> (pystr \<times> pystr) option" where
  "rsplit_once sep [] = None"
| "rsplit_once sep (c # s) =
     (case rsplit_once sep s of
        Some (a, b) \<Rightarrow> Some (c # a, b)
      | None \<Rightarrow> if starts_with sep (c # s) then Some ([], drop (length sep) (c # s)) else None)"

definition split_endpoint :: "pystr \<Rightarrow> (pystr \<times> pystr) option" where
  "split_endpoint e =
     (if starts_with [91] e \<and> is_substring [93, 58] e then rsplit_once [93, 58] (tl e) else rsplit_once [58] e)"

text \<open>
  \<open>isdigit\<close> holds for more characters than \<open>int\<close> accepts: then \<open>int\<close> raises, and nothing in
  the collectors catches it.
\<close>

definition parse_endpoint ::
  "(nat \<Rightarrow> bool) \<Rightarrow> (nat \<Rightarrow> nat option) \<Rightarrow> pystr \<Rightarrow> address_family \<Rightarrow> (address_family \<times> bind_scope \<times> int) option res" where
  "parse_endpoint digit decimal endpoint family_hint =
     (case split_endpoint (strip endpoint) of
        None \<Rightarrow> Inr None
      | Some (address, port_text) \<Rightarrow>
          if port_text = [] \<or> \<not> list_all (is_digit_char digit) port_text then Inr None
          else (case python_int decimal port_text of
             None \<Rightarrow> Inl (ValueError ''invalid literal for int()'')
           | Some port \<Rightarrow>
               if \<not> (0 \<le> port \<and> port \<le> 65535) then Inr None
               else (let normalized = takeWhile (\<lambda>c. c \<noteq> 37) address in
                 if normalized = lit ''*'' then Inr (Some (family_hint, Wildcard, port))
                 else if normalized = lit ''0.0.0.0'' then Inr (Some (FamilyV4, Wildcard, port))
                 else if normalized = lit ''::'' \<or> normalized = lit ''[::]'' then Inr (Some (FamilyV6, Wildcard, port))
                 else (case ip_address normalized of
                    Inl e \<Rightarrow> if is_value_error e then Inr None else Inl e
                  | Inr ip \<Rightarrow>
                      Inr (Some (if addr_version ip = 4 then FamilyV4 else FamilyV6,
                                 if address_is_loopback ip then Loopback else HostScope, port))))))"

text \<open>The name in \<open>users:(("name"\<close>, at its first occurrence.\<close>

definition owner_at :: "pystr \<Rightarrow> pystr option" where
  "owner_at s =
     (let mark = lit ''users:((\"''; name = takeWhile (\<lambda>c. c \<noteq> 34 \<and> c \<noteq> 92) (drop (length mark) s) in
      if starts_with mark s \<and> name \<noteq> [] \<and> length name \<le> 80 \<and> starts_with [34] (drop (length mark + length name) s)
      then Some name else None)"

fun owner_match :: "pystr \<Rightarrow> pystr option" where
  "owner_match [] = None"
| "owner_match (c # s) = (case owner_at (c # s) of Some name \<Rightarrow> Some name | None \<Rightarrow> owner_match s)"

datatype 'a line_result = BlankLine | Malformed | Parsed 'a

definition listener_line ::
  "(nat \<Rightarrow> pystr) \<Rightarrow> (nat \<Rightarrow> bool) \<Rightarrow> (nat \<Rightarrow> bool) \<Rightarrow> (nat \<Rightarrow> nat option) \<Rightarrow> address_family \<Rightarrow> pystr
     \<Rightarrow> listener line_result res" where
  "listener_line lower other digit decimal family_hint line =
     (let fields = split_space line in
      if strip line = [] then Inr BlankLine
      else if length fields < 5 then Inr Malformed
      else let protocol = lowered lower (fields ! 0) in
        if protocol \<noteq> lit ''tcp'' \<and> protocol \<noteq> lit ''udp'' then Inr Malformed
        else bindR (parse_endpoint digit decimal (fields ! 4) family_hint) (\<lambda>endpoint.
          Inr (case endpoint of
             None \<Rightarrow> Malformed
           | Some (family, scope, port) \<Rightarrow>
               Parsed \<lparr>listener_protocol = protocol, listener_family = family, listener_scope = scope, listener_port = port,
                       listener_owner = map_option (safe_report_text other) (owner_match line)\<rparr>)))"

fun family_value :: "address_family \<Rightarrow> string" where
  "family_value FamilyV4 = ''ipv4''"
| "family_value FamilyV6 = ''ipv6''"

fun scope_value :: "bind_scope \<Rightarrow> string" where
  "scope_value Loopback = ''loopback''"
| "scope_value Wildcard = ''wildcard''"
| "scope_value HostScope = ''host''"

text \<open>
  \<open>tuple(sorted(set(items), key=...))\<close>; \<open>order\<close> gives the elements of a list once each, in the order in which
  Python iterates over the set of them, which shows where two listeners differ only in their owner.
\<close>

definition listener_key :: "listener \<Rightarrow> pystr list" where
  "listener_key l =
     [listener_protocol l, lit (family_value (listener_family l)), [nat (listener_port l)], lit (scope_value (listener_scope l))]"

definition sort_listeners :: "(listener list \<Rightarrow> listener list) \<Rightarrow> listener list \<Rightarrow> listener list" where
  "sort_listeners order ls = sort_key listener_key (order ls)"

definition parsed_lines :: "'a line_result list \<Rightarrow> 'a list" where
  "parsed_lines rs = concat (map (\<lambda>r. case r of Parsed x \<Rightarrow> [x] | _ \<Rightarrow> []) rs)"

definition parse_listeners ::
  "(nat \<Rightarrow> pystr) \<Rightarrow> (nat \<Rightarrow> bool) \<Rightarrow> (nat \<Rightarrow> bool) \<Rightarrow> (nat \<Rightarrow> nat option) \<Rightarrow> (listener list \<Rightarrow> listener list)
     \<Rightarrow> pystr \<Rightarrow> address_family \<Rightarrow> listener list option res" where
  "parse_listeners lower other digit decimal order text family_hint =
     bindR (mapR (listener_line lower other digit decimal family_hint) (splitlines text)) (\<lambda>rs.
       Inr (if list_ex (\<lambda>r. r \<noteq> BlankLine) rs \<and> (parsed_lines rs = [] \<or> Malformed \<in> set rs) then None
            else Some (sort_listeners order (parsed_lines rs))))"

definition collect_listeners ::
  "(nat \<Rightarrow> pystr) \<Rightarrow> (nat \<Rightarrow> bool) \<Rightarrow> (nat \<Rightarrow> bool) \<Rightarrow> (nat \<Rightarrow> nat option) \<Rightarrow> (listener list \<Rightarrow> listener list)
     \<Rightarrow> 'w runner \<Rightarrow> ('w, listener list probe) collector" where
  "collect_listeners lower other digit decimal order runner =
     (let listing = (\<lambda>flag. command_text other runner (map lit [''ss'', ''-H'', ''-lntup'', ''-'' @ flag])
                       (lit (''socket.listeners.'' @ flag)));
          parsed = (\<lambda>r family next.
            case usable r of
              None \<Rightarrow> pureC (carry r)
            | Some text \<Rightarrow>
                bindC (liftC (parse_listeners lower other digit decimal order text family)) (\<lambda>found.
                  case found of
                    None \<Rightarrow> pureC (bad_probe CollectedError (probe_source r) None)
                  | Some ls \<Rightarrow> next ls))
      in bindC (listing ''4'') (\<lambda>r4. parsed r4 FamilyV4 (\<lambda>ls4.
         bindC (listing ''6'') (\<lambda>r6. parsed r6 FamilyV6 (\<lambda>ls6.
           pureC (ok_probe (sort_listeners order (ls4 @ ls6)) (lit ''socket.listeners'')
             (Some (case_option 0 id (probe_elapsed_ms r4) + case_option 0 id (probe_elapsed_ms r6)))))))))"

subsection \<open>Interfaces and routes\<close>

text \<open>\<open>ip_network(s, strict=False)\<close>: host bits are cleared, and with them the scope.\<close>

definition loose_network :: "pystr \<Rightarrow> ip_net res" where
  "loose_network s =
     (case v4_fields s of
        Some (a, p) \<Rightarrow> Inr \<lparr>net_version = 4, net_addr = masked 32 p a, net_plen = p, net_scope = None\<rparr>
      | None \<Rightarrow>
          (case v6_fields s of
             None \<Rightarrow> Inl (ValueError ''does not appear to be an IPv4 or IPv6 network'')
           | Some (a, p, scope) \<Rightarrow>
               Inr \<lparr>net_version = 6, net_addr = masked 128 p a, net_plen = p,
                    net_scope = (if masked 128 p a = a then scope else None)\<rparr>))"

definition json_item :: "json \<Rightarrow> string \<Rightarrow> json res" where
  "json_item v key = (case v of JObj d \<Rightarrow> dict_get d key | _ \<Rightarrow> Inl (TypeError ''indices''))"

definition get_default :: "json_dict \<Rightarrow> string \<Rightarrow> json \<Rightarrow> json" where
  "get_default d key v = (case map_of d (lit key) of None \<Rightarrow> v | Some x \<Rightarrow> x)"

text \<open>\<open>float(t) == 0\<close>: an exact zero, or too small for a double.\<close>

definition float_zero :: "pystr \<Rightarrow> bool" where
  "float_zero t =
     (let (neg, ds, fs, e) = float_fields t; m = int (digits_val 0 (ds @ fs)); x = e - int (length fs)
      in ds \<noteq> [] \<and> (m = 0 \<or> x < 0 \<and> m * 2 ^ 1075 \<le> 10 ^ nat (- x)))"

fun json_truthy :: "json \<Rightarrow> bool" where
  "json_truthy JNull = False"
| "json_truthy (JBool b) = b"
| "json_truthy (JInt i) = (i \<noteq> 0)"
| "json_truthy (JFloat t) = (\<not> float_zero t)"
| "json_truthy (JStr s) = (s \<noteq> [])"
| "json_truthy (JArr vs) = (vs \<noteq> [])"
| "json_truthy (JObj d) = (d \<noteq> [])"

definition interface_kind :: "json_dict \<Rightarrow> json" where
  "interface_kind entry =
     (let link_type = get_default entry ''link_type'' JNull;
          kind = (case get_default entry ''linkinfo'' (JObj []) of
                    JObj info \<Rightarrow> get_default info ''info_kind'' JNull
                  | _ \<Rightarrow> link_type)
      in if json_truthy kind then kind else link_type)"

definition address_network :: "json \<Rightarrow> pystr option" where
  "address_network v =
     (case v of
        JObj a \<Rightarrow>
          (case (get_default a ''local'' JNull, get_default a ''prefixlen'' JNull) of
             (JStr addr, JInt n) \<Rightarrow>
               (case loose_network (addr @ [47] @ int_str n) of Inr net \<Rightarrow> Some (net_str net) | Inl _ \<Rightarrow> None)
           | _ \<Rightarrow> None)
      | _ \<Rightarrow> None)"

type_synonym interface_table = "(pystr \<times> json \<times> bool \<times> pystr list) list"

text \<open>One entry: the first one of a name fixes its kind, the last one its state, all of them its networks.\<close>

definition add_interface :: "(nat \<Rightarrow> bool) \<Rightarrow> interface_table \<Rightarrow> json \<Rightarrow> interface_table option" where
  "add_interface other table v =
     (case v of
        JObj entry \<Rightarrow>
          (case (get_default entry ''ifname'' JNull, get_default entry ''flags'' (JArr []),
                 get_default entry ''addr_info'' (JArr [])) of
             (JStr raw, JArr flags, JArr addrs) \<Rightarrow>
               (case sequence_option (map address_network addrs) of
                  None \<Rightarrow> None
                | Some nets \<Rightarrow>
                    (let name = safe_report_text other raw;
                         (kind, known) = (case map_of table name of
                            None \<Rightarrow> (interface_kind entry, [])
                          | Some (k, up, ns) \<Rightarrow> (k, ns))
                     in Some (AList.update name (kind, JStr (lit ''UP'') \<in> set flags, known @ nets) table)))
           | _ \<Rightarrow> None)
      | _ \<Rightarrow> None)"

fun fold_option :: "('b \<Rightarrow> 'a \<Rightarrow> 'b option) \<Rightarrow> 'b \<Rightarrow> 'a list \<Rightarrow> 'b option" where
  "fold_option f acc [] = Some acc"
| "fold_option f acc (x # xs) = (case f acc x of None \<Rightarrow> None | Some acc' \<Rightarrow> fold_option f acc' xs)"

definition interfaces_of :: "interface_table \<Rightarrow> network_interface list" where
  "interfaces_of table =
     sort_key if_name (map (\<lambda>(name, kind, up, nets).
        \<lparr>if_name = name, if_kind = kind, if_up = Some up, if_networks = sort (remdups nets)\<rparr>) table)"

text \<open>An optional text field: \<open>None\<close> for any other type.\<close>

definition optional_text :: "json \<Rightarrow> pystr option option" where
  "optional_text v = (case v of JNull \<Rightarrow> Some None | JStr s \<Rightarrow> Some (Some s) | _ \<Rightarrow> None)"

definition route_fact :: "(nat \<Rightarrow> bool) \<Rightarrow> json \<Rightarrow> route option" where
  "route_fact other v =
     (case v of
        JObj entry \<Rightarrow>
          (case (get_default entry ''dst'' JNull, optional_text (get_default entry ''dev'' JNull),
                 optional_text (get_default entry ''type'' JNull)) of
             (JStr destination, Some dev, Some kind) \<Rightarrow>
               (let made = (\<lambda>dest.
                  Some \<lparr>route_family =
                          (if 58 \<in> set destination \<or> get_default entry ''family'' JNull = JStr (lit ''inet6'')
                           then FamilyV6 else FamilyV4),
                        route_destination = dest, route_interface = map_option (safe_report_text other) dev,
                        route_type = map_option (safe_report_text other) kind\<rparr>)
                in if destination = lit ''default'' then made destination
                   else (case loose_network destination of Inr net \<Rightarrow> made (net_str net) | Inl _ \<Rightarrow> None))
           | _ \<Rightarrow> None)
      | _ \<Rightarrow> None)"

definition route_key :: "route \<Rightarrow> pystr list" where
  "route_key r =
     [lit (family_value (route_family r)), route_destination r, case_option [] id (route_interface r)]"

definition ip_error :: "network_interface list probe \<times> route list probe" where
  "ip_error = (bad_probe CollectedError (lit ''ip.json'') None, bad_probe CollectedError (lit ''ip.json'') None)"

definition ip_missing :: "'c probe \<Rightarrow> 'a probe \<times> 'b probe" where
  "ip_missing p =
     (bad_probe (probe_status p) (probe_source p) (probe_elapsed_ms p),
      bad_probe (probe_status p) (probe_source p) (probe_elapsed_ms p))"

text \<open>The four collections of the two documents.\<close>

definition ip_collections :: "pystr \<Rightarrow> pystr \<Rightarrow> (json list \<times> json list) res" where
  "ip_collections text4 text6 =
     bindR (loads text4) (\<lambda>payload4.
     bindR (loads text6) (\<lambda>payload6.
     bindR (json_item payload4 ''addresses'') (\<lambda>a4.
     bindR (json_item payload6 ''addresses'') (\<lambda>a6.
     bindR (json_item payload4 ''routes'') (\<lambda>r4.
     bindR (json_item payload6 ''routes'') (\<lambda>r6.
       case (array_items a4, array_items a6, array_items r4, array_items r6) of
         (Some as4, Some as6, Some rs4, Some rs6) \<Rightarrow> Inr (as4 @ as6, rs4 @ rs6)
       | _ \<Rightarrow> Inl (TypeError ''ip JSON collections must be lists'')))))))"

definition ip_facts ::
  "(nat \<Rightarrow> bool) \<Rightarrow> json list \<Rightarrow> json list \<Rightarrow> network_interface list probe \<times> route list probe" where
  "ip_facts other addresses routes_payload =
     (case (fold_option (add_interface other) [] addresses, sequence_option (map (route_fact other) routes_payload)) of
        (Some table, Some rs) \<Rightarrow>
          (ok_probe (interfaces_of table) (lit ''ip.address'') None, ok_probe (sort_key route_key rs) (lit ''ip.route'') None)
      | _ \<Rightarrow> ip_error)"

definition parse_ip_json ::
  "(nat \<Rightarrow> bool) \<Rightarrow> pystr probe \<Rightarrow> pystr probe \<Rightarrow> (network_interface list probe \<times> route list probe) res" where
  "parse_ip_json other ipv4 ipv6 =
     (case (usable ipv4, usable ipv6) of
        (None, _) \<Rightarrow> Inr (ip_missing ipv4)
      | (_, None) \<Rightarrow> Inr (ip_missing ipv6)
      | (Some text4, Some text6) \<Rightarrow>
          try_except (\<lambda>e. e = KeyError \<or> is_type_error e \<or> e = JSONDecodeError)
            (bindR (ip_collections text4 text6) (\<lambda>(addresses, routes_payload). Inr (ip_facts other addresses routes_payload)))
            (\<lambda>_. Inr ip_error))"

text \<open>\<open>json.dumps\<close> with its default separators, keys in their order.\<close>

primrec dumps_plain :: "json \<Rightarrow> pystr" where
  "dumps_plain JNull = lit ''null''"
| "dumps_plain (JBool b) = (if b then lit ''true'' else lit ''false'')"
| "dumps_plain (JInt i) = int_str i"
| "dumps_plain (JFloat t) = t"
| "dumps_plain (JStr s) = quoted s"
| "dumps_plain (JArr vs) = 91 # join [44, 32] (map dumps_plain vs) @ [93]"
| "dumps_plain (JObj kvs) =
     123 # join [44, 32] (map (\<lambda>(k, t). quoted k @ [58, 32] @ t) (map (map_prod id dumps_plain) kvs)) @ [125]"

definition with_family :: "string \<Rightarrow> json \<Rightarrow> json" where
  "with_family family v =
     (case v of
        JObj d \<Rightarrow> JObj (if map_of d (lit ''family'') = None then d @ [(lit ''family'', JStr (lit family))] else d)
      | _ \<Rightarrow> v)"

definition json_list_or_empty :: "pystr probe \<Rightarrow> json list res" where
  "json_list_or_empty p =
     bindR (loads (case probe_value p of None \<Rightarrow> lit ''[]'' | Some s \<Rightarrow> if s = [] then lit ''[]'' else s)) (\<lambda>v.
       case v of JArr vs \<Rightarrow> Inr vs | _ \<Rightarrow> Inl (ValueError ''ip output must be JSON arrays''))"

definition ip_family ::
  "(nat \<Rightarrow> bool) \<Rightarrow> 'w runner \<Rightarrow> string \<Rightarrow> string
     \<Rightarrow> ('w, (network_interface list probe \<times> route list probe) + pystr probe) collector" where
  "ip_family other runner family flag =
     bindC (command_text other runner (map lit [''ip'', ''-details'', ''-j'', flag, ''address'', ''show''])
              (lit (''ip.address.'' @ family))) (\<lambda>addresses.
     bindC (command_text other runner (map lit [''ip'', ''-j'', flag, ''route'', ''show'', ''table'', ''all''])
              (lit (''ip.route.'' @ family))) (\<lambda>routes.
       if probe_status addresses \<noteq> CollectedOk then pureC (Inl (ip_missing addresses))
       else if probe_status routes \<noteq> CollectedOk then pureC (Inl (ip_missing routes))
       else liftC (try_except is_value_error
         (bindR (json_list_or_empty routes) (\<lambda>route_items.
          bindR (json_list_or_empty addresses) (\<lambda>address_items.
            Inr (Inr (ok_probe (dumps_plain (JObj [(lit ''addresses'', JArr address_items),
                   (lit ''routes'', JArr (map (with_family family) route_items))])) (lit ''ip.json'') None)))))
         (\<lambda>_. Inr (Inl ip_error)))))"

definition collect_ip ::
  "(nat \<Rightarrow> bool) \<Rightarrow> 'w runner \<Rightarrow> ('w, network_interface list probe \<times> route list probe) collector" where
  "collect_ip other runner =
     bindC (ip_family other runner ''inet'' ''-4'') (\<lambda>first. case first of
       Inl failed \<Rightarrow> pureC failed
     | Inr left \<Rightarrow>
         bindC (ip_family other runner ''inet6'' ''-6'') (\<lambda>second. case second of
           Inl failed \<Rightarrow> pureC failed
         | Inr right \<Rightarrow> liftC (parse_ip_json other left right)))"

subsection \<open>The resolver\<close>

definition addr_str :: "ip_addr \<Rightarrow> pystr" where
  "addr_str a =
     (if addr_version a = 4 then v4_str (addr_value a)
      else v6_str (addr_value a) @ (case addr_scope a of None \<Rightarrow> [] | Some scope \<Rightarrow> 37 # scope))"

text \<open>\<open>[a-z0-9_.-]{1,253}\<close>\<close>

definition resolver_domain :: "pystr \<Rightarrow> bool" where
  "resolver_domain s =
     (s \<noteq> [] \<and> length s \<le> 253 \<and> list_all (\<lambda>c. is_lower_az c \<or> is_digit09 c \<or> c = 95 \<or> c = 46 \<or> c = 45) s)"

definition domain_field :: "(nat \<Rightarrow> pystr) \<Rightarrow> pystr \<Rightarrow> pystr res" where
  "domain_field lower field =
     (let normalized = rstrip_char 46 (lowered lower field) in
      thenR (raise_if (\<not> resolver_domain normalized) (ValueError ''invalid resolver domain'')) (Inr normalized))"

text \<open>What a line adds: resolvers, domains, and whether it is recognised; \<open>BlankLine\<close> when only a comment.\<close>

definition resolver_line :: "(nat \<Rightarrow> pystr) \<Rightarrow> pystr \<Rightarrow> (pystr list \<times> pystr list) line_result res" where
  "resolver_line lower line =
     (case split_space (takeWhile (\<lambda>c. c \<noteq> 35 \<and> c \<noteq> 59) line) of
        [] \<Rightarrow> Inr BlankLine
      | keyword # args \<Rightarrow>
          if keyword = lit ''nameserver''
          then (case args of
                  [addr] \<Rightarrow> bindR (ip_address (takeWhile (\<lambda>c. c \<noteq> 37) addr)) (\<lambda>a. Inr (Parsed ([addr_str a], [])))
                | _ \<Rightarrow> Inl (ValueError ''invalid nameserver entry''))
          else if keyword = lit ''search'' \<or> keyword = lit ''domain''
          then thenR (raise_if (args = []) (ValueError ''empty resolver domain entry''))
                 (bindR (mapR (domain_field lower) args) (\<lambda>ds. Inr (Parsed ([], ds))))
          else if keyword = lit ''options'' \<or> keyword = lit ''sortlist'' then Inr (Parsed ([], []))
          else Inr Malformed)"

definition sorted_set :: "pystr list \<Rightarrow> pystr list" where
  "sorted_set xs = sort (remdups xs)"

definition dns_probe :: "(nat \<Rightarrow> pystr) \<Rightarrow> pystr probe \<Rightarrow> dns_facts probe res" where
  "dns_probe lower p =
     (case usable p of
        None \<Rightarrow> Inr (carry p)
      | Some text \<Rightarrow>
          try_except is_value_error
            (bindR (mapR (resolver_line lower) (splitlines text)) (\<lambda>rs.
              Inr (if list_ex (\<lambda>r. r \<noteq> BlankLine) rs \<and> parsed_lines rs = []
                   then bad_probe CollectedError (probe_source p) None
                   else ok_probe \<lparr>dns_servers = sorted_set (concat (map fst (parsed_lines rs))),
                                  dns_search_domains = sorted_set (concat (map snd (parsed_lines rs)))\<rparr>
                          (probe_source p) None)))
            (\<lambda>_. Inr (bad_probe CollectedError (probe_source p) None)))"

definition collect_dns :: "(nat \<Rightarrow> pystr) \<Rightarrow> 'w reader \<Rightarrow> ('w, dns_facts probe) collector" where
  "collect_dns lower read_text =
     bindC (readC (read_text (proc_path ''/etc/resolv.conf'') 65536)) (\<lambda>p. liftC (dns_probe lower p))"

subsection \<open>Firewall tools\<close>

definition nft_item :: "(nat \<Rightarrow> bool) \<Rightarrow> json \<Rightarrow> pystr list res" where
  "nft_item other v =
     (case v of
        JObj item \<Rightarrow>
          (case map_of item (lit ''metainfo'') of
             Some (JObj _) \<Rightarrow> Inr []
           | Some _ \<Rightarrow> Inl (TypeError ''invalid nftables metadata'')
           | None \<Rightarrow>
               (case get_default item ''table'' JNull of
                  JObj table \<Rightarrow>
                    (case (get_default table ''family'' JNull, get_default table ''name'' JNull) of
                       (JStr family, JStr name) \<Rightarrow> Inr [safe_report_text other (family @ [58] @ name)]
                     | _ \<Rightarrow> Inl (TypeError ''invalid nftables table''))
                | _ \<Rightarrow> Inl (TypeError ''unexpected nftables item'')))
      | _ \<Rightarrow> Inl (TypeError ''invalid nftables item''))"

definition nft_payload :: "(nat \<Rightarrow> bool) \<Rightarrow> json \<Rightarrow> pystr list res" where
  "nft_payload other v =
     (case v of
        JObj payload \<Rightarrow>
          (case get_default payload ''nftables'' JNull of
             JArr items \<Rightarrow> bindR (mapR (nft_item other) items) (\<lambda>names. Inr (sort (concat names)))
           | _ \<Rightarrow> Inl (TypeError ''invalid nftables result envelope''))
      | _ \<Rightarrow> Inl (TypeError ''invalid nftables result envelope''))"

text \<open>A plain \<open>ValueError\<close> of \<open>json.loads\<close>, the digit limit, is not caught.\<close>

definition nft_probe :: "(nat \<Rightarrow> bool) \<Rightarrow> pystr probe \<Rightarrow> pystr list probe res" where
  "nft_probe other r =
     (case usable r of
        None \<Rightarrow> Inr (carry r)
      | Some text \<Rightarrow>
          try_except (\<lambda>e. e = KeyError \<or> is_type_error e \<or> e = JSONDecodeError)
            (bindR (loads text) (\<lambda>payload. bindR (nft_payload other payload) (\<lambda>tables.
               Inr (ok_probe tables (probe_source r) None))))
            (\<lambda>_. Inr (bad_probe CollectedError (probe_source r) None)))"

definition nft_tables :: "(nat \<Rightarrow> bool) \<Rightarrow> 'w runner \<Rightarrow> ('w, pystr list probe) collector" where
  "nft_tables other runner =
     bindC (command_text other runner (map lit [''nft'', ''--json'', ''list'', ''tables'']) (lit ''nftables.tables''))
       (\<lambda>r. liftC (nft_probe other r))"

text \<open>\<open>status:\s*(active|inactive)\s*$\<close> at the start of a line, case ignored: the matched word.\<close>

definition ends_line :: "pystr \<Rightarrow> bool" where
  "ends_line r = (dropWhile is_space r = [] \<or> 10 \<in> set (takeWhile is_space r))"

definition ufw_status_at :: "pystr \<Rightarrow> pystr option" where
  "ufw_status_at s =
     (case ci_prefix (lit ''status:'') s of
        None \<Rightarrow> None
      | Some r \<Rightarrow>
          (let t = dropWhile is_space r in
           case find (\<lambda>w. case ci_prefix (lit w) t of Some u \<Rightarrow> ends_line u | None \<Rightarrow> False) [''active'', ''inactive''] of
             None \<Rightarrow> None
           | Some w \<Rightarrow> Some (take (length w) t)))"

fun ufw_search :: "bool \<Rightarrow> pystr \<Rightarrow> pystr option" where
  "ufw_search line_start [] = None"
| "ufw_search line_start (c # s) =
     (case (if line_start then ufw_status_at (c # s) else None) of
        Some w \<Rightarrow> Some w
      | None \<Rightarrow> ufw_search (c = 10) s)"

definition ufw_state :: "(nat \<Rightarrow> pystr) \<Rightarrow> (nat \<Rightarrow> bool) \<Rightarrow> 'w runner \<Rightarrow> ('w, bool probe) collector" where
  "ufw_state lower other runner =
     bindC (command_text other runner (map lit [''ufw'', ''status'']) (lit ''ufw.status'')) (\<lambda>r.
       pureC (case usable r of
          None \<Rightarrow> bad_probe (probe_status r) (probe_source r) (probe_elapsed_ms r)
        | Some text \<Rightarrow>
            (case ufw_search True text of
               None \<Rightarrow> bad_probe CollectedError (probe_source r) None
             | Some word \<Rightarrow>
                 ok_probe (lowered lower word = lit ''active'') (probe_source r) (probe_elapsed_ms r))))"

end
