(* ===== verification/Collect_Facts.thy ===== *)
theory Collect_Facts
  imports Collect_Network
begin

text \<open>
  \<open>collect_linux_facts\<close> of \<open>src/src/kitdev_sandboxes/collectors.py\<close>: the marks of an installation
  and the whole sequence of reads and commands, in the order in which the code makes them.
\<close>

subsection \<open>Marks of an installation\<close>

definition is_regular :: "fkind probe \<Rightarrow> bool" where
  "is_regular p = (probe_status p = CollectedOk \<and> probe_value p = Some KReg)"

text \<open>The markers that are there, and the last status that puts the list in doubt.\<close>

definition marker_doubt :: "fkind probe \<Rightarrow> collection_status option" where
  "marker_doubt p =
     (if is_regular p then None
      else if probe_status p = CollectedOk then Some CollectedError
      else if probe_status p \<noteq> CollectedAbsent then Some (probe_status p) else None)"

definition markers_probe :: "(string \<times> fkind probe) list \<Rightarrow> pystr list probe" where
  "markers_probe seen =
     (let doubts = List.map_filter (\<lambda>(path, p). marker_doubt p) seen in
      \<lparr>probe_status = (if doubts = [] then CollectedOk else last doubts),
       probe_value = Some (map (\<lambda>(path, p). lit path) (filter (\<lambda>(path, p). is_regular p) seen)),
       probe_raw = None, probe_source = lit ''project.markers'', probe_elapsed_ms = None\<rparr>)"

definition collect_markers :: "'w stat_reader \<Rightarrow> ('w, pystr list probe) collector" where
  "collect_markers stat_path =
     bindC (mapC (\<lambda>path. bindC (readC (stat_path (proc_path path))) (\<lambda>p. pureC (path, p))) project_markers) (\<lambda>seen.
       pureC (markers_probe seen))"

text \<open>\<open>[A-Za-z0-9][A-Za-z0-9.+_-]{0,127}\<close>\<close>

definition version_re :: "pystr \<Rightarrow> bool" where
  "version_re s =
     (let alnum = (\<lambda>c. is_upper_az c \<or> is_lower_az c \<or> is_digit09 c) in
      full_class alnum (\<lambda>c. alnum c \<or> c = 46 \<or> c = 43 \<or> c = 95 \<or> c = 45) 0 127 s)"

definition installed_version_of :: "pystr probe \<Rightarrow> pystr probe" where
  "installed_version_of p =
     (case usable p of
        None \<Rightarrow> carry p
      | Some v \<Rightarrow>
          if version_re (strip v) then ok_probe (strip v) (probe_source p) None
          else bad_probe CollectedError (probe_source p) None)"

definition collect_version :: "'w reader \<Rightarrow> ('w, pystr probe) collector" where
  "collect_version read_text =
     bindC (readC (read_text (proc_path ''/opt/kitdev-sandboxes/VERSION'') 4096)) (\<lambda>p. pureC (installed_version_of p))"

text \<open>Whether a path is a regular file: anything else that exists is an error.\<close>

definition presence :: "pystr \<Rightarrow> fkind probe \<Rightarrow> bool probe" where
  "presence src p =
     (if is_regular p then ok_probe True src None
      else if probe_status p = CollectedOk then bad_probe CollectedError src None
      else if probe_status p = CollectedAbsent then ok_probe False src None
      else bad_probe (probe_status p) src None)"

definition template_names :: "string list" where
  "template_names = [''base'', ''coding'', ''browser'', ''desktop'']"

definition template_facts :: "'w stat_reader \<Rightarrow> ('w, (pystr \<times> bool probe) list) collector" where
  "template_facts stat_path =
     mapC (\<lambda>name.
       bindC (readC (stat_path (proc_path (''/var/lib/kitdev-sandboxes/templates/'' @ name @ ''/manifest.json'')))) (\<lambda>p.
         pureC (lit name, presence (lit (''template.'' @ name)) p))) template_names"

subsection \<open>The collection\<close>

definition shared_units :: "string list" where
  "shared_units =
     [''docker.service'', ''display-manager.service'', ''gdm.service'', ''gnome-remote-desktop.service'',
      ''NetworkManager.service'', ''systemd-logind.service'', ''sleep.target'', ''suspend.target'', ''hibernate.target'',
      ''hybrid-sleep.target'', ''avahi-daemon.service'', ''cups.service'', ''ufw.service'']"

definition conflicting_units :: "string list" where
  "conflicting_units = shared_units
     @ [''kitdev-vllm.service'', ''kitdev-vllm-firewall.service'', ''kitdev-vllm-backup.service'',
        ''docker-lan-only-firewall.service'']"

text \<open>The arguments of \<open>collect_linux_facts\<close>, its defaults filled in.\<close>

record 'w host_access =
  ha_runner :: "'w runner"
  ha_read :: "'w reader"
  ha_stat :: "'w stat_reader"
  ha_statvfs :: "ppath \<Rightarrow> 'w \<Rightarrow> filesystem_stat probe \<times> 'w"
  ha_glob :: "pystr \<Rightarrow> 'w \<Rightarrow> ppath list probe \<times> 'w"
  ha_resolver_read :: "'w reader"
  ha_owned_read :: "'w reader"
  ha_owned_stat :: "'w stat_reader"

text \<open>The Unicode tables and the order of sets.\<close>

record python_tables =
  py_other :: "nat \<Rightarrow> bool"
  py_lower :: "nat \<Rightarrow> pystr"
  py_digit :: "nat \<Rightarrow> bool"
  py_decimal :: "nat \<Rightarrow> nat option"
  py_set_order :: "listener list \<Rightarrow> listener list"

definition tun_facts :: "fkind probe \<Rightarrow> bool probe \<times> bool probe" where
  "tun_facts p =
     (let src = lit ''/dev/net/tun'' in
      if probe_status p = CollectedOk
      then (ok_probe True src None, ok_probe (probe_value p = Some KChr) src None)
      else if probe_status p = CollectedAbsent
      then (ok_probe False src None, bad_probe CollectedAbsent src None)
      else (bad_probe (probe_status p) src None, bad_probe (probe_status p) src None))"

definition collect_devices :: "python_tables \<Rightarrow> 'w host_access \<Rightarrow> ('w, memory_facts \<times> device_facts) collector" where
  "collect_devices py host =
     bindC (collect_meminfo (ha_read host)) (\<lambda>(memory, pages).
     bindC (collect_nbd (py_other py) (ha_read host) (ha_glob host)) (\<lambda>block.
     bindC (module_names (ha_read host)) (\<lambda>modules.
     bindC (readC (ha_stat host (proc_path ''/dev/net/tun''))) (\<lambda>tun.
       pureC (memory, \<lparr>kvm_modules = modules, nbd = block, huge_pages = pages, tun_exists = fst (tun_facts tun),
                       tun_is_character_device = snd (tun_facts tun)\<rparr>)))))"

definition collect_docker :: "python_tables \<Rightarrow> 'w host_access \<Rightarrow> ('w, tool_facts \<times> tool_facts) collector" where
  "collect_docker py host =
     bindC (systemd_active_state (py_lower py) (py_other py) (ha_runner host) ''docker.service'') (\<lambda>unit.
     bindC (version_tool (py_other py) (ha_runner host)
              (map lit [''docker'', ''version'', ''--format'', ''{{.Server.Version}}'']) ''docker.version''
              (Some (active_bool unit))) (\<lambda>docker.
     bindC (version_tool (py_other py) (ha_runner host)
              (map lit [''docker'', ''compose'', ''version'', ''--short'']) ''docker.compose.version'' None) (\<lambda>compose.
       pureC (docker, compose\<lparr>tool_active := active_bool unit\<rparr>))))"

definition collect_network :: "python_tables \<Rightarrow> 'w host_access \<Rightarrow> ('w, network_facts) collector" where
  "collect_network py host =
     bindC (collect_listeners (py_lower py) (py_other py) (py_digit py) (py_decimal py) (py_set_order py) (ha_runner host)) (\<lambda>ls.
     bindC (collect_ip (py_other py) (ha_runner host)) (\<lambda>(interfaces, rs).
     bindC (collect_dns (py_lower py) (ha_resolver_read host)) (\<lambda>dns.
     bindC (readC (ha_read host (proc_path ''/proc/sys/net/ipv4/ip_forward'') 4096)) (\<lambda>text4.
     bindC (liftC (parse_bool (py_lower py) (py_other py) text4)) (\<lambda>forward4.
     bindC (readC (ha_read host (proc_path ''/proc/sys/net/ipv6/conf/all/forwarding'') 4096)) (\<lambda>text6.
     bindC (liftC (parse_bool (py_lower py) (py_other py) text6)) (\<lambda>forward6.
       pureC \<lparr>net_listeners = ls, net_interfaces = interfaces, net_routes = rs, net_dns = dns,
              ipv4_forwarding = forward4, ipv6_forwarding = forward6\<rparr>)))))))"

definition collect_firewall :: "python_tables \<Rightarrow> 'w host_access \<Rightarrow> ('w, firewall_facts) collector" where
  "collect_firewall py host =
     bindC (version_tool (py_other py) (ha_runner host) (map lit [''nft'', ''--version'']) ''nftables.version'' None) (\<lambda>nft.
     bindC (nft_tables (py_other py) (ha_runner host)) (\<lambda>tables.
     bindC (ufw_state (py_lower py) (py_other py) (ha_runner host)) (\<lambda>ufw_active.
     bindC (version_tool (py_other py) (ha_runner host) (map lit [''ufw'', ''--version'']) ''ufw.version'' (Some ufw_active)) (\<lambda>ufw_tool.
       pureC \<lparr>nftables = nft\<lparr>tool_active :=
                (case usable tables of
                   Some names \<Rightarrow> ok_probe (names \<noteq> []) (lit ''nftables.tables'') None
                 | None \<Rightarrow> bad_probe (probe_status tables) (lit ''nftables.tables'') None)\<rparr>,
              nftables_tables = tables, ufw = ufw_tool\<rparr>))))"

definition collect_security :: "python_tables \<Rightarrow> 'w host_access \<Rightarrow> ('w, security_facts) collector" where
  "collect_security py host =
     bindC (readC (ha_read host (proc_path ''/sys/module/apparmor/parameters/enabled'') 4096)) (\<lambda>text.
     bindC (liftC (parse_bool (py_lower py) (py_other py) text)) (\<lambda>enabled.
     bindC (systemd_active_state (py_lower py) (py_other py) (ha_runner host) ''apparmor.service'') (\<lambda>active.
     bindC (command_text (py_other py) (ha_runner host)
              (map lit [''timedatectl'', ''show'', ''--property=NTPSynchronized'', ''--value''])
              (lit ''time.ntp_synchronized'')) (\<lambda>ntp.
     bindC (liftC (parse_bool (py_lower py) (py_other py) ntp)) (\<lambda>synchronized.
       pureC \<lparr>apparmor_enabled = enabled, apparmor_service_active = active, time_synchronized = synchronized\<rparr>)))))"

definition conflicting_owner :: "string \<Rightarrow> service_ownership" where
  "conflicting_owner unit = (if unit \<in> set shared_units then ServiceShared else ServiceUnknown)"

definition owned_owner :: "verified_ownership option \<Rightarrow> string \<Rightarrow> service_ownership" where
  "owned_owner verified unit =
     (case verified of
        Some v \<Rightarrow> if lit unit \<in> set (vo_service_units v) then ServiceProject else ServiceUnknown
      | None \<Rightarrow> ServiceUnknown)"

definition collect_linux_facts ::
  "python_tables \<Rightarrow> 'w host_access \<Rightarrow> ppath list \<Rightarrow> ppath \<Rightarrow> verified_ownership option \<Rightarrow> ('w, linux_facts) collector" where
  "collect_linux_facts py host configured project_root verified =
     bindC (collect_devices py host) (\<lambda>(memory, devices).
     bindC (collect_docker py host) (\<lambda>(docker, compose).
     bindC (collect_network py host) (\<lambda>network.
     bindC (collect_firewall py host) (\<lambda>firewall.
     bindC (collect_security py host) (\<lambda>security.
     bindC (mapC (collect_service (py_lower py) (py_other py) (ha_runner host) conflicting_owner) conflicting_units) (\<lambda>conflicting.
     bindC (mapC (collect_service (py_lower py) (py_other py) (ha_runner host) (owned_owner verified)) owned_units) (\<lambda>owned.
     bindC (readC (ha_stat host (child project_root ''versions.lock.yaml''))) (\<lambda>lock.
     bindC (mapC (collect_filesystem (py_other py) (ha_runner host) (ha_stat host) (ha_statvfs host)) configured) (\<lambda>filesystems.
     bindC (collect_markers (ha_owned_stat host)) (\<lambda>markers.
     bindC (collect_version (ha_owned_read host)) (\<lambda>version.
     bindC (template_facts (ha_owned_stat host)) (\<lambda>templates.
       pureC \<lparr>lf_devices = devices, lf_memory = memory, lf_filesystems = filesystems, lf_docker = docker,
              lf_compose = compose, lf_network = network, lf_firewall = firewall, lf_security = security,
              conflicting_services = conflicting,
              lf_installed = \<lparr>inst_markers = markers, installed_version = version,
                upstream_lock_present = presence (lit ''upstream.version_lock'') lock, owned_services = owned,
                inst_templates = templates\<rparr>\<rparr>))))))))))))"

end
