(* ===== verification/Collect_Spec.thy ===== *)
theory Collect_Spec
  imports Collect_Facts Preflight_Spec
begin

text \<open>
  What the collectors promise: a socket listing is taken whole or not at all, mount options show
  no value but those of five harmless keys, the search for a containing directory ends at the
  nearest one, and no exception but \<open>ValueError\<close> leaves the collection.
\<close>

subsection \<open>Listeners\<close>

lemma endpoint_port:
  assumes "parse_endpoint digit decimal e hint = Inr (Some (family, scope, port))"
  shows "0 \<le> port \<and> port \<le> 65535"
  using assms
  by (auto simp: parse_endpoint_def Let_def split: option.splits if_splits sum.splits)

lemma listener_line_shape:
  assumes "listener_line lower other digit decimal hint line = Inr (Parsed l)"
  shows "listener_protocol l = lit ''tcp'' \<or> listener_protocol l = lit ''udp''"
    "\<exists>e. parse_endpoint digit decimal e hint = Inr (Some (listener_family l, listener_scope l, listener_port l))"
    "listener_owner l = map_option (safe_report_text other) (owner_match line)"
  using assms by (auto simp: listener_line_def Let_def split: if_splits option.splits) blast+

lemma listener_line_Parsed:
  assumes "listener_line lower other digit decimal hint line = Inr (Parsed l)"
  shows "listener_protocol l \<in> {lit ''tcp'', lit ''udp''} \<and> 0 \<le> listener_port l \<and> listener_port l \<le> 65535
    \<and> (\<forall>name. listener_owner l = Some name \<longrightarrow> printable name)"
  using listener_line_shape [OF assms] endpoint_port by auto

definition lawful_order :: "(listener list \<Rightarrow> listener list) \<Rightarrow> bool" where
  "lawful_order order = (\<forall>xs. set (order xs) = set xs \<and> distinct (order xs))"

lemma parsed_lines_set: "set (parsed_lines rs) = {x. Parsed x \<in> set rs}"
  by (auto simp: parsed_lines_def split: line_result.splits)

lemma sort_listeners_set:
  "lawful_order order \<Longrightarrow> set (sort_listeners order ls) = set ls \<and> distinct (sort_listeners order ls)
     \<and> sorted (map listener_key (sort_listeners order ls))"
  by (simp add: sort_listeners_def lawful_order_def)

lemma mapR_image: "mapR f xs = Inr ys \<Longrightarrow> x \<in> set xs \<Longrightarrow> \<exists>y \<in> set ys. f x = Inr y"
  by (force simp: mapR_eq_Inr list_all2_iff in_set_zip in_set_conv_nth)

text \<open>C24: A socket listing is taken whole or not at all.  When \<open>_parse_listeners\<close> accepts the output of \<open>ss\<close>,
  every line of it that is not blank names a TCP or UDP socket that the result contains, every listener of the
  result comes from a line, there are none twice, their ports are port numbers, their owners can be printed, and they
  are in order, for every order in which Python may iterate over a set.\<close>

theorem listeners_whole:
  assumes "lawful_order order"
    and "parse_listeners lower other digit decimal order text hint = Inr (Some ls)"
  shows "(\<forall>line \<in> set (splitlines text). strip line = []
            \<or> (\<exists>l \<in> set ls. listener_line lower other digit decimal hint line = Inr (Parsed l)))
    \<and> (\<forall>l \<in> set ls. (\<exists>line \<in> set (splitlines text). listener_line lower other digit decimal hint line = Inr (Parsed l))
          \<and> listener_protocol l \<in> {lit ''tcp'', lit ''udp''} \<and> 0 \<le> listener_port l \<and> listener_port l \<le> 65535
          \<and> (\<forall>name. listener_owner l = Some name \<longrightarrow> printable name))
    \<and> distinct ls \<and> sorted (map listener_key ls)"
proof -
  obtain rs where rs: "mapR (listener_line lower other digit decimal hint) (splitlines text) = Inr rs"
    "\<not> (list_ex (\<lambda>r. r \<noteq> BlankLine) rs \<and> (parsed_lines rs = [] \<or> Malformed \<in> set rs))"
    "ls = sort_listeners order (parsed_lines rs)"
    using assms(2) by (auto simp: parse_listeners_def split: if_splits)
  note sorted = sort_listeners_set [OF assms(1), of "parsed_lines rs", folded rs(3)]
  have members: "set ls = {x. Parsed x \<in> set rs}" using sorted parsed_lines_set [of rs] by simp
  have "strip line = [] \<or> (\<exists>l \<in> set ls. listener_line lower other digit decimal hint line = Inr (Parsed l))"
    if line: "line \<in> set (splitlines text)" for line
  proof -
    obtain r where r: "r \<in> set rs" "listener_line lower other digit decimal hint line = Inr r"
      using mapR_image [OF rs(1) line] by blast
    show ?thesis
    proof (cases r)
      case BlankLine
      then show ?thesis using r(2) by (auto simp: listener_line_def Let_def split: if_splits option.splits)
    next
      case Malformed
      then show ?thesis using r(1) rs(2) by (auto simp: list_ex_iff)
    next
      case (Parsed l)
      then show ?thesis using r members by auto
    qed
  qed
  moreover have "\<exists>line \<in> set (splitlines text). listener_line lower other digit decimal hint line = Inr (Parsed l)"
    if "l \<in> set ls" for l
    using mapR_mem [OF rs(1)] that members by auto
  ultimately show ?thesis using sorted listener_line_Parsed by blast
qed

definition sample_listing :: pystr where
  "sample_listing = lit ''tcp LISTEN 0 128 127.0.0.1:22 *:* users:((\"sshd\",pid=1))'' @ [10] @ lit ''udp UNCONN 0 0 *:53 *:*''"

definition sample_listeners :: "listener list" where
  "sample_listeners =
     [\<lparr>listener_protocol = lit ''tcp'', listener_family = FamilyV4, listener_scope = Loopback, listener_port = 22,
       listener_owner = Some (safe_report_text (\<lambda>_. False) (lit ''sshd''))\<rparr>,
      \<lparr>listener_protocol = lit ''udp'', listener_family = FamilyV4, listener_scope = Wildcard, listener_port = 53,
       listener_owner = None\<rparr>]"

lemma split_space_step:
  "split_space [] = []"
  "split_space (c # s) = (if is_space c then split_space s
     else takeWhile (\<lambda>x. \<not> is_space x) (c # s) # split_space (dropWhile (\<lambda>x. \<not> is_space x) (c # s)))"
  by (subst split_space.simps, simp) (subst split_space.simps, simp add: split_space.simps [of s] Let_def)

lemmas text_steps = split_space_step is_space_def in_range_def

lemma sample_lines:
  "splitlines sample_listing
     = [lit ''tcp LISTEN 0 128 127.0.0.1:22 *:* users:((\"sshd\",pid=1))'', lit ''udp UNCONN 0 0 *:53 *:*'']"
  by (simp add: splitlines_def sample_listing_def lit_def is_line_break_def in_range_def)

lemma sample_fields:
  "split_space (lit ''tcp LISTEN 0 128 127.0.0.1:22 *:* users:((\"sshd\",pid=1))'')
     = map lit [''tcp'', ''LISTEN'', ''0'', ''128'', ''127.0.0.1:22'', ''*:*'', ''users:((\"sshd\",pid=1))'']"
  "split_space (lit ''udp UNCONN 0 0 *:53 *:*'') = map lit [''udp'', ''UNCONN'', ''0'', ''0'', ''*:53'', ''*:*'']"
  by (simp_all add: lit_def text_steps)

lemma sample_endpoints:
  "parse_endpoint (\<lambda>_. False) (\<lambda>_. None) (lit ''127.0.0.1:22'') FamilyV4 = Inr (Some (FamilyV4, Loopback, 22))"
  "parse_endpoint (\<lambda>_. False) (\<lambda>_. None) (lit ''*:53'') FamilyV4 = Inr (Some (FamilyV4, Wildcard, 53))"
  by (simp_all add: parse_endpoint_def split_endpoint_def strip_def text_steps lit_def is_digit_char_def char_class_defs
      python_int_def ascii_form_def is_ascii_def ascii_strip_def ascii_space_def unsigned_int_def Let_def
      ip_address_def v4_int_def parse_octet_def all_digits_def address_is_loopback_def v4_loopback_def)

lemma sample_owners:
  "owner_match (lit ''tcp LISTEN 0 128 127.0.0.1:22 *:* users:((\"sshd\",pid=1))'') = Some (lit ''sshd'')"
  "owner_match (lit ''udp UNCONN 0 0 *:53 *:*'') = None"
  by (simp_all add: lit_def owner_at_def)

lemma sample_listing_parsed:
  "parse_listeners (\<lambda>c. [c]) (\<lambda>_. False) (\<lambda>_. False) (\<lambda>_. None) remdups sample_listing FamilyV4 = Inr (Some sample_listeners)"
proof -
  have nonblank: "strip (lit ''tcp LISTEN 0 128 127.0.0.1:22 *:* users:((\"sshd\",pid=1))'') \<noteq> []"
    "strip (lit ''udp UNCONN 0 0 *:53 *:*'') \<noteq> []"
    by (simp_all add: strip_def lit_def text_steps)
  have words: "lowered (\<lambda>c. [c]) (lit ''tcp'') = lit ''tcp''" "lowered (\<lambda>c. [c]) (lit ''udp'') = lit ''udp''"
    by (simp_all add: lowered_def lit_def char_class_defs)
  have lines: "listener_line (\<lambda>c. [c]) (\<lambda>_. False) (\<lambda>_. False) (\<lambda>_. None) FamilyV4
        (lit ''tcp LISTEN 0 128 127.0.0.1:22 *:* users:((\"sshd\",pid=1))'') = Inr (Parsed (sample_listeners ! 0))"
    "listener_line (\<lambda>c. [c]) (\<lambda>_. False) (\<lambda>_. False) (\<lambda>_. None) FamilyV4 (lit ''udp UNCONN 0 0 *:53 *:*'')
        = Inr (Parsed (sample_listeners ! 1))"
    using nonblank by (simp_all add: listener_line_def sample_fields words sample_endpoints sample_owners sample_listeners_def)
  show ?thesis
    by (simp add: parse_listeners_def sample_lines lines parsed_lines_def sort_listeners_def)
      (simp add: sample_listeners_def listener_key_def lit_def)
qed

lemma listeners_whole_witness:
  "lawful_order remdups \<and> distinct sample_listeners \<and> sorted (map listener_key sample_listeners)
   \<and> listener_protocol (hd sample_listeners) \<in> {lit ''tcp'', lit ''udp''}"
proof -
  have lawful: "lawful_order remdups" by (simp add: lawful_order_def)
  have "hd sample_listeners \<in> set sample_listeners" by (simp add: sample_listeners_def)
  then show ?thesis using listeners_whole [OF lawful sample_listing_parsed] lawful by blast
qed

text \<open>A superscript digit is a digit for \<open>isdigit\<close> and not for \<open>int\<close>: the exception leaves the parser.\<close>

lemma superscript_port_escapes:
  "parse_endpoint (\<lambda>c. c = 0xb2) (\<lambda>_. None) (lit ''127.0.0.1:'' @ [0xb2]) hint = Inl (ValueError ''invalid literal for int()'')"
  by (simp add: parse_endpoint_def split_endpoint_def strip_def text_steps lit_def is_digit_char_def char_class_defs
      python_int_def ascii_form_def is_ascii_def ascii_strip_def ascii_space_def unsigned_int_def)

subsection \<open>Mount options\<close>

definition shown_option :: "pystr \<Rightarrow> bool" where
  "shown_option o' = (mount_word o'
     \<or> (\<exists>key v. o' = key @ [61] @ v \<and> mount_word key
          \<and> (v = lit ''[REDACTED]'' \<or> key \<in> set safe_mount_value_keys \<and> mount_word v)))"

lemma normalized_option:
  assumes "normalize_mount_option item = Inr opt"
  shows "shown_option opt"
proof (cases "split_once 61 item")
  case None
  then show ?thesis using assms by (auto simp: normalize_mount_option_def shown_option_def)
next
  case (Some kv)
  obtain key v where kv: "kv = (key, v)" by (cases kv)
  have parts: "mount_word key" "opt = (if key \<in> set safe_mount_value_keys \<and> mount_word v then key @ [61] @ v
      else key @ [61] @ lit ''[REDACTED]'')"
    using assms Some by (auto simp: normalize_mount_option_def kv lit_def)
  show ?thesis
  proof (cases "key \<in> set safe_mount_value_keys \<and> mount_word v")
    case True
    then show ?thesis
      unfolding shown_option_def using parts by (intro disjI2 exI [of _ key] exI [of _ v]) auto
  next
    case False
    then show ?thesis
      unfolding shown_option_def using parts by (intro disjI2 exI [of _ key] exI [of _ "lit ''[REDACTED]''"]) auto
  qed
qed

lemma findmnt_entry_shape:
  assumes "findmnt_entry text = Some (fstype, options)"
  shows "mount_word fstype" "\<exists>raw. normalize_mount_options raw = Inr options"
  using assms by (auto simp: findmnt_entry_def split: sum.splits json.splits option.splits list.splits if_splits)

text \<open>Mount options show no secret.  Whatever \<open>findmnt\<close> prints, a file system type that is taken is one plain
  word of at most 64 characters, and every option taken is a plain word, or a plain word with
  the value \<open>[REDACTED]\<close>, or one of the five harmless keys with a plain value; the options are in strict order and at most 256.\<close>

theorem mount_options_redacted:
  assumes "findmnt_entry text = Some (fstype, options)"
  shows "mount_word fstype \<and> list_all shown_option options \<and> sorted_wrt (<) options \<and> length options \<le> 256"
proof -
  obtain raw where "normalize_mount_options raw = Inr options" using findmnt_entry_shape [OF assms] by blast
  then obtain items normalized where n: "length items \<le> 256" "mapR normalize_mount_option items = Inr normalized"
    "options = sort (remdups normalized)"
    by (auto simp: normalize_mount_options_def Let_def not_less)
  have "length options \<le> length normalized" using n(3) length_remdups_leq [of normalized] by simp
  moreover have "length normalized = length items" using mapR_length [OF n(2)] .
  moreover have "list_all shown_option options"
    using mapR_mem [OF n(2)] normalized_option by (fastforce simp: n(3) list_all_iff)
  moreover have "sorted_wrt (<) options" by (simp add: n(3) strict_sorted_iff)
  ultimately show ?thesis using n(1) findmnt_entry_shape [OF assms] by simp
qed

lemma mount_options_redacted_witness:
  "\<exists>fstype options. findmnt_entry (dumps (JObj [(lit ''filesystems'', JArr [JObj [(lit ''fstype'', JStr (lit ''ext4'')),
      (lit ''options'', JStr (lit ''rw,key=abc,errors=continue''))]])])) = Some (fstype, options)
    \<and> list_all shown_option options"
proof -
  let ?doc = "JObj [(lit ''filesystems'', JArr [JObj [(lit ''fstype'', JStr (lit ''ext4'')),
      (lit ''options'', JStr (lit ''rw,key=abc,errors=continue''))]])]"
  have options: "\<exists>options. normalize_mount_options (lit ''rw,key=abc,errors=continue'') = Inr options"
    by (simp add: normalize_mount_options_def normalize_mount_option_def lit_def split_once_def encode_utf8_ascii is_ascii_def Let_def
        mount_word_def mount_char_def char_class_defs safe_mount_value_keys_def)
  have "json_ok ?doc" by (simp add: lit_eq_iff)
  moreover have "canon ?doc = ?doc" by (simp add: lit_def)
  ultimately have "loads (dumps ?doc) = Inr ?doc" using loads_dumps [of ?doc] by (simp only:)
  then obtain fstype options where e: "findmnt_entry (dumps ?doc) = Some (fstype, options)"
    using options by (auto simp: findmnt_entry_def lit_eq_iff) (auto simp: mount_word_def mount_char_def lit_def char_class_defs)
  then show ?thesis using mount_options_redacted [OF e] by blast
qed

subsection \<open>The containing directory\<close>

text \<open>What one \<open>lstat\<close> ends the search with.\<close>

definition found_at :: "fkind probe \<Rightarrow> ppath \<Rightarrow> ppath option \<times> collection_status" where
  "found_at p path =
     (if probe_status p = CollectedOk then (if probe_value p = Some KDir then (Some path, CollectedOk) else (None, CollectedError))
      else (None, probe_status p))"

lemma nearest_from_ends:
  fixes st :: "ppath \<Rightarrow> fkind probe" and base :: pystr
  defines "path \<equiv> \<lambda>rs j. \<lparr>anchor = base, components = take j (rev rs)\<rparr>"
  shows "\<exists>k \<le> length rs.
     (\<forall>j. k < j \<and> j \<le> length rs \<longrightarrow> probe_status (st (path rs j)) = CollectedAbsent)
     \<and> (0 < k \<longrightarrow> probe_status (st (path rs k)) \<noteq> CollectedAbsent)
     \<and> nearest_from (\<lambda>p w. (st p, w @ [p])) base rs asked
       = Inr (found_at (st (path rs k)) (path rs k), asked @ map (path rs) (rev [k..<Suc (length rs)]))"
proof (induction rs arbitrary: asked)
  case Nil
  then show ?case
    by (simp add: nearest_from.simps [of _ _ "[]"] bindC_def readC_def pureC_def found_at_def path_def)
next
  case (Cons name up)
  have whole: "path (name # up) (Suc (length up)) = \<lparr>anchor = base, components = rev (name # up)\<rparr>"
    by (simp add: path_def)
  have same: "path (name # up) j = path up j" if "j \<le> length up" for j
    using that by (simp add: path_def)
  show ?case
  proof (cases "probe_status (st (path (name # up) (Suc (length up)))) = CollectedAbsent")
    case True
    obtain k where k: "k \<le> length up" "\<forall>j. k < j \<and> j \<le> length up \<longrightarrow> probe_status (st (path up j)) = CollectedAbsent"
      "0 < k \<longrightarrow> probe_status (st (path up k)) \<noteq> CollectedAbsent"
      "nearest_from (\<lambda>p w. (st p, w @ [p])) base up (asked @ [path (name # up) (Suc (length up))])
       = Inr (found_at (st (path up k)) (path up k),
              (asked @ [path (name # up) (Suc (length up))]) @ map (path up) (rev [k..<Suc (length up)]))"
      using Cons.IH by blast
    have run: "nearest_from (\<lambda>p w. (st p, w @ [p])) base (name # up) asked
      = nearest_from (\<lambda>p w. (st p, w @ [p])) base up (asked @ [path (name # up) (Suc (length up))])"
      using True unfolding whole by (subst nearest_from.simps) (simp add: bindC_def readC_def)
    have "map (path (name # up)) (rev [k..<Suc (length (name # up))])
      = path (name # up) (Suc (length up)) # map (path up) (rev [k..<Suc (length up)])"
      using k(1) same by simp
    then show ?thesis
      using k True same by (intro exI [of _ k]) (auto simp: run le_Suc_eq)
  next
    case False
    have "nearest_from (\<lambda>p w. (st p, w @ [p])) base (name # up) asked
      = Inr (found_at (st (path (name # up) (Suc (length up)))) (path (name # up) (Suc (length up))),
             asked @ [path (name # up) (Suc (length up))])"
      using False unfolding whole
      by (subst nearest_from.simps) (simp add: bindC_def readC_def pureC_def found_at_def)
    then show ?thesis using False by (intro exI [of _ "Suc (length up)"]) auto
  qed
qed

text \<open>The search for the directory that contains a configured path ends, for every file system and however deep the path is,
  at its nearest ancestor (or the path itself) whose \<open>lstat\<close> does not say absent, and yields that ancestor exactly when it is a
  directory; when all of them are absent down to the root it says absent.  It stops there: each of the nearer paths is asked once.\<close>

theorem nearest_existing_ends:
  "\<exists>k \<le> length (components path).
     (\<forall>j. k < j \<and> j \<le> length (components path) \<longrightarrow> probe_status (st (path\<lparr>components := take j (components path)\<rparr>)) = CollectedAbsent)
     \<and> (0 < k \<longrightarrow> probe_status (st (path\<lparr>components := take k (components path)\<rparr>)) \<noteq> CollectedAbsent)
     \<and> nearest_existing (\<lambda>p w. (st p, w @ [p])) path asked
       = Inr (found_at (st (path\<lparr>components := take k (components path)\<rparr>)) (path\<lparr>components := take k (components path)\<rparr>),
              asked @ map (\<lambda>j. path\<lparr>components := take j (components path)\<rparr>) (rev [k..<Suc (length (components path))]))"
proof -
  have eq: "path\<lparr>components := take j (components path)\<rparr> = \<lparr>anchor = anchor path, components = take j (components path)\<rparr>" for j
    by (cases path) simp
  show ?thesis
    using nearest_from_ends [of "rev (components path)" st "anchor path" asked]
    unfolding nearest_existing_def eq rev_rev_ident length_rev .
qed

lemma nearest_existing_ends_witness:
  "nearest_existing (\<lambda>p w. (bad_probe CollectedAbsent [] None :: fkind probe, w @ [p])) \<lparr>anchor = [47], components = [[97]]\<rparr> []
     = Inr (found_at (bad_probe CollectedAbsent [] None :: fkind probe) \<lparr>anchor = [47], components = []\<rparr>,
            [\<lparr>anchor = [47], components = [[97]]\<rparr>, \<lparr>anchor = [47], components = []\<rparr>])"
  using nearest_existing_ends [of "\<lparr>anchor = [47], components = [[97]]\<rparr>" "\<lambda>_. bad_probe CollectedAbsent [] None" "[]"]
  by (auto simp: bad_probe_def)

subsection \<open>Exceptions\<close>

text \<open>A collector from which only a \<open>ValueError\<close> can escape.\<close>

definition mild :: "('w, 'a) collector \<Rightarrow> bool" where
  "mild m = (\<forall>w e. m w = Inl e \<longrightarrow> is_value_error e)"

definition mildR :: "'a res \<Rightarrow> bool" where
  "mildR r = (\<forall>e. r = Inl e \<longrightarrow> is_value_error e)"

named_theorems mild_rules

lemma mild_core [mild_rules]:
  "mild (pureC x)" "mild (readC f)"
  "mildR r \<Longrightarrow> mild (liftC r)"
  "mild m \<Longrightarrow> (\<And>x. mild (k x)) \<Longrightarrow> mild (bindC m k)"
  by (auto simp: mild_def mildR_def pureC_def readC_def liftC_def bindC_def bindR_eq_Inl)

lemma mild_split [mild_rules]:
  "(b \<Longrightarrow> mild m) \<Longrightarrow> (\<not> b \<Longrightarrow> mild n) \<Longrightarrow> mild (if b then m else n)"
  "mild m \<Longrightarrow> (\<And>x. mild (f x)) \<Longrightarrow> mild (case v of None \<Rightarrow> m | Some x \<Rightarrow> f x)"
  "(\<And>a. mild (g a)) \<Longrightarrow> (\<And>b. mild (h b)) \<Longrightarrow> mild (case r of Inl a \<Rightarrow> g a | Inr b \<Rightarrow> h b)"
  "(\<And>a b. mild (p a b)) \<Longrightarrow> mild (case q of (a, b) \<Rightarrow> p a b)"
  by (simp_all split: option.split sum.split prod.split)

lemma mild_mapC [mild_rules]: "(\<And>x. mild (f x)) \<Longrightarrow> mild (mapC f xs)"
  by (induction xs) (auto intro!: mild_rules)

lemma mildR_core [mild_rules]:
  "mildR (Inr x)" "is_value_error e \<Longrightarrow> mildR (Inl e)"
  "mildR r \<Longrightarrow> (\<And>x. mildR (f x)) \<Longrightarrow> mildR (bindR r f)"
  "mildR c \<Longrightarrow> mildR r \<Longrightarrow> mildR (thenR c r)"
  "is_value_error e \<Longrightarrow> mildR (raise_if b e)"
  "mildR r \<Longrightarrow> (\<And>e. mildR (h e)) \<Longrightarrow> mildR (try_except p r h)"
  by (auto simp: mildR_def bindR_eq_Inl thenR_eq_Inl try_except_eq_Inl split: if_splits)

lemma mildR_split [mild_rules]:
  "(b \<Longrightarrow> mildR m) \<Longrightarrow> (\<not> b \<Longrightarrow> mildR n) \<Longrightarrow> mildR (if b then m else n)"
  "mildR m \<Longrightarrow> (\<And>x. mildR (f x)) \<Longrightarrow> mildR (case v of None \<Rightarrow> m | Some x \<Rightarrow> f x)"
  "(\<And>a b. mildR (p a b)) \<Longrightarrow> mildR (case q of (a, b) \<Rightarrow> p a b)"
  by (simp_all split: option.split prod.split)

lemma mildR_mapR [mild_rules]: "(\<And>x. mildR (f x)) \<Longrightarrow> mildR (mapR f xs)"
  using mapR_eq_InlD unfolding mildR_def by metis

lemma mildR_loads [mild_rules]: "mildR (loads s)"
  using loads_error unfolding mildR_def by blast

lemma mildR_encode [mild_rules]: "mildR (encode_utf8 s)"
  by (simp add: mildR_def encode_utf8_def)

lemma mildR_decode [mild_rules]: "mildR (decode_strict bs)"
  by (induction bs rule: decode_strict.induct) (auto simp: mildR_def bindR_eq_Inl split: option.splits prod.splits)

lemma mildR_probes [mild_rules]:
  "mildR (probe_ok other v raw src elapsed)"
  "st \<noteq> CollectedOk \<Longrightarrow> mildR (probe_degraded other st raw src elapsed)"
  unfolding probe_ok_def probe_degraded_def evidence_excerpt_def excerpt_def
  by (intro mild_rules; simp)+

lemma mild_run_default [mild_rules]: "mild (run_default runner argv)"
proof -
  have "mildR (check_argv argv)" for argv
    unfolding check_argv_def argument_size_def
    by (intro mild_rules) simp_all
  moreover have "mildR (check_cwd p)" for p
    unfolding check_cwd_def by (intro mild_rules) simp_all
  ultimately have "mildR (check_command (default_command argv))"
    unfolding check_command_def default_command_def validate_duration_def validate_stream_limit_def
    by (auto simp: mildR_def thenR_eq_Inl)
  then show ?thesis
    by (auto simp: mild_def mildR_def run_default_def thenR_eq_Inl)
qed

lemma mild_command_text [mild_rules]: "mild (command_text other runner argv src)"
  unfolding command_text_def command_probe_def by (intro mild_rules)

lemma mildR_numbers [mild_rules]:
  "mildR (int_of_digits ds)" "mildR (parse_int other m t)" "mildR (parse_bool lower other t)"
  unfolding int_of_digits_def parse_int_def parse_bool_def Let_def
  by (intro mild_rules; simp)+

lemma mildR_meminfo [mild_rules]: "mildR (meminfo_pairs p)"
  unfolding meminfo_pairs_def meminfo_line_def by (intro mild_rules)

lemma mild_base [mild_rules]:
  "mild (collect_meminfo rd)" "mild (module_names rd)" "mild (collect_nbd other rd gl)"
  "mild (findmnt other runner path)" "mild (version_tool other runner argv source active)"
  "mild (systemd_output lower other runner unit verb)"
  unfolding collect_meminfo_def module_names_def collect_nbd_def nbd_device_fact_def findmnt_def version_tool_def
    systemd_output_def Let_def
  by (intro mild_rules)+

lemma mild_nearest [mild_rules]: "mild (nearest_existing st path)"
proof -
  have "mild (nearest_from st base rs)" for base rs
  proof (induction rs)
    case Nil
    show ?case unfolding nearest_from.simps [of _ _ "[]"] Let_def list.case by (intro mild_rules)
  next
    case (Cons name up)
    show ?case unfolding nearest_from.simps [of _ _ "name # up"] Let_def list.case by (intro mild_rules Cons.IH)
  qed
  then show ?thesis by (simp add: nearest_existing_def)
qed

lemma mild_units [mild_rules]:
  "mild (collect_filesystem other runner st vfs path)"
  "mild (systemd_active_state lower other runner unit)" "mild (systemd_unit_file_state lower other runner unit)"
  "mild (collect_service lower other runner owner unit)"
  unfolding collect_filesystem_def systemd_active_state_def systemd_unit_file_state_def collect_service_def Let_def
  by (intro mild_rules)+

lemma mildR_listeners [mild_rules]: "mildR (parse_listeners lower other digit decimal order text hint)"
proof -
  have "mildR (parse_endpoint digit decimal e hint)" for e
    unfolding parse_endpoint_def Let_def
    by (intro mild_rules) (auto simp: mildR_def split: sum.splits dest: ip_address_error)
  then show ?thesis
    unfolding parse_listeners_def listener_line_def Let_def by (intro mild_rules)
qed

lemma mildR_resolver [mild_rules]: "mildR (dns_probe lower p)"
proof -
  have "mildR (ip_address s)" for s using ip_address_error unfolding mildR_def by blast
  then have "mildR (resolver_line lower line)" for line
    unfolding resolver_line_def domain_field_def Let_def
    by (auto split: list.split intro!: mild_rules)
  then show ?thesis unfolding dns_probe_def by (intro mild_rules)
qed

lemma mildR_caught:
  assumes "\<And>e. r = Inl e \<Longrightarrow> is_value_error e \<or> p e" "\<And>e. mildR (h e)"
  shows "mildR (try_except p r h)"
  using assms by (auto simp: mildR_def try_except_eq_Inl split: if_splits)

lemma mildR_nft [mild_rules]: "mildR (nft_probe other r)"
proof -
  have item: "nft_item other v = Inl e \<Longrightarrow> is_type_error e" for v e
    by (auto simp: nft_item_def split: json.splits option.splits)
  have payload: "nft_payload other v = Inl e \<Longrightarrow> is_type_error e" for v e
    by (auto simp: nft_payload_def bindR_eq_Inl split: json.splits dest!: mapR_eq_InlD dest: item)
  show ?thesis
    unfolding nft_probe_def
    by (intro mild_rules mildR_caught) (auto simp: bindR_eq_Inl dest: payload loads_error)
qed

lemma mildR_ip [mild_rules]: "mildR (parse_ip_json other p q)"
proof -
  have item: "json_item v k = Inl e \<Longrightarrow> e = KeyError \<or> is_type_error e" for v k e
    by (auto simp: json_item_def dict_get_def split: json.splits option.splits)
  have no_lists: "is_type_error e"
    if "(case (a :: json list option, b :: json list option, c :: json list option, d :: json list option) of
           (Some a', Some b', Some c', Some d') \<Rightarrow> Inr (a' @ b', c' @ d')
         | _ \<Rightarrow> Inl (TypeError ''ip JSON collections must be lists'')) = Inl e" for a b c d e
    using that by (cases a; cases b; cases c; cases d) auto
  have collections: "ip_collections s t = Inl e \<Longrightarrow> is_value_error e \<or> e = KeyError \<or> is_type_error e" for s t e
    unfolding ip_collections_def
    by (auto simp only: bindR_eq_Inl dest: item loads_error no_lists [unfolded prod.case])
  show ?thesis
    unfolding parse_ip_json_def
    by (auto split: option.split intro!: mild_rules mildR_caught simp: bindR_eq_Inl dest: collections)
qed

lemma mild_network [mild_rules]:
  "mild (collect_listeners lower other digit decimal order runner)" "mild (collect_ip other runner)"
  "mild (collect_dns lower rd)" "mild (nft_tables other runner)" "mild (ufw_state lower other runner)"
proof -
  have "mildR (json_list_or_empty p)" for p
    unfolding json_list_or_empty_def by (auto intro!: mild_rules split: json.split)
  then have "mild (ip_family other runner family flag)" for family flag
    unfolding ip_family_def by (intro mild_rules)
  then show "mild (collect_ip other runner)" unfolding collect_ip_def by (intro mild_rules)
qed (unfold collect_listeners_def collect_dns_def nft_tables_def ufw_state_def Let_def, (intro mild_rules)+)


end
