(* ===== verification/Owned_Files.thy ===== *)
theory Owned_Files
  imports Collect_Base Journal_Store
begin

text \<open>
  Files of the installation, \<open>_default_owned_read\<close> and \<open>lstat_owned_path\<close> of
  \<open>src/src/kitdev_sandboxes/collectors.py\<close>: an absolute path is opened component by component,
  and a symbolic link anywhere on the way is an error.  Descriptors need no closing in the model.
\<close>

definition open_error :: "exn \<Rightarrow> pystr \<Rightarrow> 'a probe" where
  "open_error e src =
     bad_probe (if e = OSError ENOENT then CollectedAbsent
                else if e = OSError EPERM \<or> e = OSError EACCES then CollectedDenied else CollectedError) src None"

text \<open>\<open>os.open\<close> of one directory after the other; \<open>OSError("unsafe path component")\<close> carries no errno.\<close>

fun descend :: "nat \<Rightarrow> pystr list \<Rightarrow> nat io" where
  "descend d [] = return d"
| "descend d (c # cs) =
     (if c \<in> {[], [46], [46, 46]} then raise (OSError EIO)
      else bindW (os_open_dir_at d c) (\<lambda>n. descend n cs))"

definition strict_parent_descriptor :: "ppath \<Rightarrow> (nat \<times> pystr) io" where
  "strict_parent_descriptor path =
     (if \<not> is_absolute path \<or> path_name path \<in> {[], [46], [46, 46]} then raise (OSError EIO)
      else bindW os_open_slash (\<lambda>slash.
           bindW (descend slash (butlast (components path))) (\<lambda>d. return (d, path_name path))))"

definition lstat_owned_path :: "ppath \<Rightarrow> fkind probe io" where
  "lstat_owned_path path =
     catchW (bindW (strict_parent_descriptor path) (\<lambda>(d, name).
             bindW (os_stat_at d name) (\<lambda>m. return (ok_probe (st_kind m) (path_str path) None))))
       (\<lambda>e. if is_os_error e then return (open_error e (path_str path)) else raise e)"

text \<open>\<open>stream.read(maximum + 1)\<close> of a regular file, and its text.\<close>

definition file_text :: "(nat \<Rightarrow> bool) \<Rightarrow> pystr \<Rightarrow> nat \<Rightarrow> bytes \<Rightarrow> pystr probe res" where
  "file_text other src maximum raw =
     (if maximum < length raw then Inr (bad_probe CollectedTruncated src None)
      else case decode_strict raw of
        Inl e \<Rightarrow> if e = UnicodeDecodeError then Inr (bad_probe CollectedError src None) else Inl e
      | Inr text \<Rightarrow> probe_ok other text (Some text) src None)"

definition read_open_descriptor :: "(nat \<Rightarrow> bool) \<Rightarrow> nat \<Rightarrow> pystr \<Rightarrow> nat \<Rightarrow> pystr probe io" where
  "read_open_descriptor other fd src maximum =
     bindW (catchW (bindW (os_fstat fd) (\<lambda>m.
              if st_kind m \<noteq> KReg then return None
              else bindW (read_chunks (maximum + 2) fd 0 (maximum + 1)) (\<lambda>raw. return (Some raw))))
            (\<lambda>e. if is_os_error e then return None else raise e)) (\<lambda>got.
       case got of
         None \<Rightarrow> return (bad_probe CollectedError src None)
       | Some raw \<Rightarrow> lift (file_text other src maximum raw))"

definition owned_read :: "(nat \<Rightarrow> bool) \<Rightarrow> ppath \<Rightarrow> nat \<Rightarrow> pystr probe io" where
  "owned_read other path maximum =
     bindW (catchW (bindW (strict_parent_descriptor path) (\<lambda>(d, name).
                    bindW (os_open_at d name) (\<lambda>fd. return (Inr fd))))
            (\<lambda>e. if is_os_error e then return (Inl e) else raise e)) (\<lambda>opened.
       case opened of
         Inl e \<Rightarrow> return (open_error e (path_str path))
       | Inr fd \<Rightarrow> read_open_descriptor other fd (path_str path) maximum)"

end
