(* ===== verification/Evidence.thy ===== *)
theory Evidence
  imports Linux_Facts Json_Value
begin

text \<open>
  Evidence can always be attached to a probe: what UTF-8 decoding, percent decoding and redaction
  make of a text without surrogates has no surrogates, so the excerpt can be encoded.
\<close>

definition whole_text :: "pystr \<Rightarrow> bool" where
  "whole_text s = list_all (\<lambda>c. \<not> is_surrogate c) s"

lemma whole_text_simps [simp]:
  "whole_text []" "whole_text (c # s) \<longleftrightarrow> \<not> is_surrogate c \<and> whole_text s"
  "whole_text (s @ t) \<longleftrightarrow> whole_text s \<and> whole_text t"
  by (simp_all add: whole_text_def)

lemma whole_text_subset: "whole_text s \<Longrightarrow> set t \<subseteq> set s \<Longrightarrow> whole_text t"
  by (auto simp: whole_text_def list_all_iff)

lemma whole_small [simp]: "c < 0xd800 \<Longrightarrow> \<not> is_surrogate c"
  by (simp add: is_surrogate_def in_range_def)

lemma whole_ascii: "is_ascii s \<Longrightarrow> whole_text s"
  by (auto simp: whole_text_def is_ascii_def list_all_iff)

lemma whole_lit [simp]: "whole_text (lit s)"
  using scalar_lit [of s] by (auto simp: whole_text_def scalar_text_def scalar_char_def list_all_iff)

lemma whole_encodes: "whole_text s \<Longrightarrow> encode_utf8 s = Inr (concat (map utf8_char s))"
  by (auto simp: encode_utf8_def whole_text_def list_all_iff list_ex_iff)

subsection \<open>Decoding\<close>

lemma tail_low: "utf8_tail acc ps bs = (Some c, r) \<Longrightarrow> acc * 64 ^ length ps \<le> c"
proof (induction acc ps bs rule: utf8_tail.induct)
  case (3 acc p ps b bs)
  then have "(acc * 64 + b mod 64) * 64 ^ length ps \<le> c" by (simp split: if_splits)
  moreover have "acc * 64 * 64 ^ length ps \<le> (acc * 64 + b mod 64) * 64 ^ length ps" by (intro mult_right_mono) auto
  ultimately have "acc * 64 * 64 ^ length ps \<le> c" by (rule le_trans [rotated])
  then show ?case by (simp add: mult.assoc)
qed auto

lemma tail_range:
  "utf8_tail acc ps bs = (Some c, r) \<Longrightarrow> acc * 64 ^ length ps \<le> c \<and> c < (acc + 1) * 64 ^ length ps"
  using tail_low utf8_tail_bound by blast

lemma next_whole:
  assumes "utf8_next b bs = (Some c, r)"
  shows "\<not> is_surrogate c"
proof -
  have ed: "c < 0xd800" if t: "utf8_tail 13 [in_range 0x80 0x9f, is_cont] bs = (Some c, r)"
  proof (cases bs)
    case (Cons x xs)
    have x: "in_range 0x80 0x9f x" using t unfolding Cons utf8_tail.simps by (metis prod.inject option.distinct(1))
    then have "utf8_tail (13 * 64 + x mod 64) [is_cont] xs = (Some c, r)" using t unfolding Cons utf8_tail.simps by (simp only: if_True)
    from tail_range [OF this] have "c < (13 * 64 + x mod 64 + 1) * 64" by simp
    moreover have "x mod 64 < 32"
    proof -
      obtain k where k: "x = k + 2 * 64" "k < 32" using x by (auto simp: in_range_def le_iff_add)
      have "x mod 64 = k mod 64" unfolding k(1) by (rule mod_mult_self1)
      then show ?thesis using k(2) by simp
    qed
    ultimately show ?thesis by simp
  qed (use t in simp)
  have f0: "0x10000 \<le> c" if t: "utf8_tail 0 [in_range 0x90 0xbf, is_cont, is_cont] bs = (Some c, r)"
  proof (cases bs)
    case (Cons x xs)
    have x: "in_range 0x90 0xbf x" using t unfolding Cons utf8_tail.simps by (metis prod.inject option.distinct(1))
    then have "utf8_tail (x mod 64) [is_cont, is_cont] xs = (Some c, r)" using t unfolding Cons utf8_tail.simps by simp
    from tail_range [OF this] have "x mod 64 * 4096 \<le> c" by simp
    moreover have "16 \<le> x mod 64"
    proof -
      obtain k where k: "x = k + 2 * 64" "16 \<le> k" "k < 64" using x by (auto simp: in_range_def le_iff_add)
      have "x mod 64 = k mod 64" unfolding k(1) by (rule mod_mult_self1)
      then show ?thesis using k(2,3) by simp
    qed
    ultimately show ?thesis by simp
  qed (use t in simp)
  have "b < 0x80 \<or> in_range 0xc2 0xdf b \<or> b = 0xe0 \<or> b = 0xed \<or> in_range 0xe1 0xec b \<or> in_range 0xee 0xef b
    \<or> b = 0xf0 \<or> in_range 0xf1 0xf3 b \<or> b = 0xf4
    \<or> \<not> (b < 0x80 \<or> in_range 0xc2 0xdf b \<or> b = 0xe0 \<or> b = 0xed \<or> in_range 0xe1 0xef b \<or> b = 0xf0
          \<or> in_range 0xf1 0xf3 b \<or> b = 0xf4)"
    by (simp add: in_range_def) arith
  then consider "b < 0x80" | "in_range 0xc2 0xdf b" | "b = 0xe0" | "b = 0xed" | "in_range 0xe1 0xec b" | "in_range 0xee 0xef b"
    | "b = 0xf0" | "in_range 0xf1 0xf3 b" | "b = 0xf4" | "utf8_next b bs = (None, bs)"
    by (elim disjE) (simp_all add: utf8_next_def)
  then show ?thesis
  proof cases
    case 1
    then show ?thesis using assms by (auto simp: utf8_next_def)
  next
    case 2
    then have "utf8_tail (b - 0xc0) [is_cont] bs = (Some c, r)" using assms by (auto simp: utf8_next_def in_range_def)
    from tail_range [OF this] show ?thesis using 2 by (intro whole_small) (auto simp: in_range_def)
  next
    case 3
    then have "utf8_tail 0 [in_range 0xa0 0xbf, is_cont] bs = (Some c, r)" using assms by (auto simp: utf8_next_def in_range_def)
    from tail_range [OF this] show ?thesis by (intro whole_small) auto
  next
    case 4
    then show ?thesis using assms ed by (auto simp: utf8_next_def in_range_def)
  next
    case 5
    then have "utf8_tail (b - 0xe0) [is_cont, is_cont] bs = (Some c, r)" using assms by (auto simp: utf8_next_def in_range_def)
    from tail_range [OF this] show ?thesis using 5 by (intro whole_small) (auto simp: in_range_def)
  next
    case 6
    then have "utf8_tail (b - 0xe0) [is_cont, is_cont] bs = (Some c, r)" using assms by (auto simp: utf8_next_def in_range_def)
    from tail_range [OF this] show ?thesis using 6 by (auto simp: in_range_def is_surrogate_def)
  next
    case 7
    then show ?thesis using assms f0 by (auto simp: utf8_next_def in_range_def is_surrogate_def)
  next
    case 8
    then have "utf8_tail (b - 0xf0) [is_cont, is_cont, is_cont] bs = (Some c, r)" using assms by (auto simp: utf8_next_def in_range_def)
    from tail_range [OF this] show ?thesis using 8 by (auto simp: in_range_def is_surrogate_def)
  next
    case 9
    then have "utf8_tail 4 [in_range 0x80 0x8f, is_cont, is_cont] bs = (Some c, r)" using assms by (auto simp: utf8_next_def in_range_def)
    from tail_range [OF this] show ?thesis by (auto simp: is_surrogate_def in_range_def)
  next
    case 10
    then show ?thesis using assms by simp
  qed
qed

lemma decode_strict_whole: "decode_strict bs = Inr s \<Longrightarrow> whole_text s"
  by (induction bs arbitrary: s rule: decode_strict.induct)
    (auto split: prod.splits option.splits dest: next_whole)

lemma decode_replace_whole [simp]: "whole_text (decode_replace bs)"
  by (induction bs rule: decode_replace.induct)
    (auto split: prod.splits option.splits dest: next_whole simp: is_surrogate_def in_range_def)

lemma unquote_whole: "whole_text s \<Longrightarrow> whole_text (unquote s)"
proof (induction s rule: unquote.induct)
  case (2 c s)
  have "whole_text (dropWhile (\<lambda>x. x < 128) (c # s))"
    by (rule whole_text_subset [OF "2.prems"]) (auto dest: set_dropWhileD)
  then show ?case using 2 by (auto simp del: dropWhile.simps takeWhile.simps)
qed simp

lemma unquote_loop_whole: "whole_text s \<Longrightarrow> whole_text (unquote_loop n s)"
  by (induction n arbitrary: s) (simp_all add: Let_def unquote_whole)

subsection \<open>Redaction\<close>

definition matcher_whole :: "matcher \<Rightarrow> bool" where
  "matcher_whole m = (\<forall>prev s r n. whole_text s \<longrightarrow> m prev s = Some (r, n) \<longrightarrow> whole_text r)"

lemma substitute_whole:
  assumes "matcher_whole m" "whole_text s"
  shows "whole_text (substitute m skip prev s)"
  using assms
proof (induction m skip prev s rule: substitute.induct)
  case (3 m prev c s)
  then show ?case unfolding matcher_whole_def
    by (auto split: option.splits prod.splits) (metis whole_text_simps(2))+
qed simp_all

lemma sub_all_whole: "matcher_whole m \<Longrightarrow> whole_text s \<Longrightarrow> whole_text (sub_all m s)"
  by (simp add: sub_all_def substitute_whole)

lemma whole_take: "whole_text s \<Longrightarrow> whole_text (take n s)"
  by (rule whole_text_subset) (auto dest: in_set_takeD)

lemma matchers_whole:
  "matcher_whole cookie_header" "matcher_whole private_path" "matcher_whole private_key" "matcher_whole (inline_secret other)"
  unfolding matcher_whole_def
  by (auto simp: cookie_header_def private_path_def private_key_def inline_secret_def Let_def whole_take
      split: option.splits if_splits)

lemma mask_whole: "whole_text s \<Longrightarrow> whole_text (mask_controls s)"
  by (auto simp: whole_text_def mask_controls_def list_all_iff)

lemma safe_report_whole: "whole_text s \<Longrightarrow> whole_text (safe_report_text other s)"
  unfolding safe_report_text_def
  by (intro sub_all_whole matchers_whole mask_whole unquote_loop_whole) simp

lemma evidence_total: "whole_text s \<Longrightarrow> \<exists>e. probe_ok other v (Some s) src elapsed
    = Inr \<lparr>probe_status = CollectedOk, probe_value = Some v, probe_raw = Some e, probe_source = src, probe_elapsed_ms = elapsed\<rparr>"
  using whole_encodes [OF safe_report_whole, of s other]
  by (simp add: probe_ok_def evidence_excerpt_def excerpt_def)

end
