(* ===== verification/Owned_Files_Spec.thy ===== *)
theory Owned_Files_Spec
  imports Owned_Files Evidence Journal_Progress
begin

text \<open>
  What reading a file of the installation means: in a calm world the answer is exact, and it is
  about the file that is reached through real directories only.
\<close>

subsection \<open>Real directories\<close>

fun real_dir :: "fs \<Rightarrow> nat \<Rightarrow> pystr list \<Rightarrow> nat option" where
  "real_dir s d [] = Some d"
| "real_dir s d (c # cs) =
     (case lookup s d c of
        None \<Rightarrow> None
      | Some n \<Rightarrow> if map_option ikind (fs_inodes s n) = Some KDir then real_dir s n cs else None)"

text \<open>Some component is missing in the real directory that should hold it.\<close>

definition gone :: "fs \<Rightarrow> pystr list \<Rightarrow> bool" where
  "gone s cs = (\<exists>pre c post d. cs = pre @ c # post \<and> real_dir s root_inode pre = Some d \<and> lookup s d c = None)"

definition there :: "fs \<Rightarrow> pystr list \<Rightarrow> inode \<Rightarrow> bool" where
  "there s cs i = (\<exists>d n. real_dir s root_inode (butlast cs) = Some d \<and> lookup s d (last cs) = Some n \<and> fs_inodes s n = Some i)"

definition plain_path :: "ppath \<Rightarrow> bool" where
  "plain_path p = (is_absolute p \<and> components p \<noteq> [] \<and> (\<forall>c \<in> set (components p). c \<notin> {[], [46], [46, 46]}))"

subsection \<open>Runs\<close>

text \<open>In a calm world a program that only reads ends with a result, and nothing changes.\<close>

definition runs :: "'a io \<Rightarrow> 'a outcome \<Rightarrow> world \<Rightarrow> bool" where
  "runs m r w = (\<exists>w'. m w = (r, w') \<and> calm w' \<and> w_fs w' = w_fs w)"

definition settled :: "'a res \<Rightarrow> 'a outcome" where
  "settled r = (case r of Inl e \<Rightarrow> Raise e | Inr x \<Rightarrow> Ret x)"

lemma runs_read:
  assumes "calm w" "\<And>v s. f v s = (g s, s)"
  shows "runs (syscall f) (settled (g (w_fs w))) w"
  using assms
  by (auto simp: runs_def settled_def syscall_def calm_def quiet_def Let_def split: sum.split)

lemma runs_simps: "calm w \<Longrightarrow> runs (return x) (Ret x) w" "calm w \<Longrightarrow> runs (raise e) (Raise e) w"
  by (simp_all add: runs_def return_def raise_def)

lemma runs_bind:
  assumes "runs m (settled r) w"
    "\<And>x w'. r = Inr x \<Longrightarrow> calm w' \<Longrightarrow> w_fs w' = w_fs w \<Longrightarrow> runs (f x) (settled (g x)) w'"
  shows "runs (bindW m f) (settled (bindR r g)) w"
  using assms by (cases r) (fastforce simp: runs_def bindW_def settled_def)+

lemma runs_catch:
  assumes "runs m (settled r) w"
    "\<And>e w'. r = Inl e \<Longrightarrow> calm w' \<Longrightarrow> w_fs w' = w_fs w \<Longrightarrow> runs (h e) (settled (g e)) w'"
  shows "runs (catchW m h) (settled (case r of Inl e \<Rightarrow> g e | Inr x \<Rightarrow> Inr x)) w"
  using assms by (cases r) (fastforce simp: runs_def catchW_def settled_def)+

fun dir_walk :: "fs \<Rightarrow> nat \<Rightarrow> pystr list \<Rightarrow> nat res" where
  "dir_walk s d [] = Inr d"
| "dir_walk s d (c # cs) = bindR (do_open_dir_at d c s) (\<lambda>n. dir_walk s n cs)"

lemma runs_descend:
  assumes "calm w" "\<forall>c \<in> set cs. c \<notin> {[], [46], [46, 46]}"
  shows "runs (descend d cs) (settled (dir_walk (w_fs w) d cs)) w"
  using assms
proof (induction cs arbitrary: d w)
  case Nil
  then show ?case by (simp add: runs_simps settled_def)
next
  case (Cons c cs)
  have "runs (os_open_dir_at d c) (settled (do_open_dir_at d c (w_fs w))) w"
    unfolding os_open_dir_at_def by (rule runs_read [OF Cons.prems(1)]) simp
  then have "runs (bindW (os_open_dir_at d c) (\<lambda>n. descend n cs)) (settled (bindR (do_open_dir_at d c (w_fs w)) (\<lambda>n. dir_walk (w_fs w) n cs))) w"
    by (rule runs_bind) (use Cons in \<open>metis list.set_intros(2)\<close>)
  then show ?case using Cons.prems(2) by simp
qed

lemma dir_walk_Inr: "dir_walk s d cs = Inr n \<longleftrightarrow> real_dir s d cs = Some n"
  by (induction cs arbitrary: d)
    (auto simp: do_open_dir_at_def do_open_at_def split: option.splits if_splits)

lemma dir_walk_ENOENT:
  "dir_walk s d cs = Inl (OSError ENOENT)
     \<longleftrightarrow> (\<exists>pre c post m. cs = pre @ c # post \<and> real_dir s d pre = Some m \<and> lookup s m c = None)"
proof (induction cs arbitrary: d)
  case (Cons c cs)
  show ?case
  proof (cases "lookup s d c")
    case None
    then show ?thesis
      by (auto simp: do_open_dir_at_def do_open_at_def intro: exI [of _ "[]"])
  next
    case (Some n)
    have "(\<exists>pre x post m. c # cs = pre @ x # post \<and> real_dir s d pre = Some m \<and> lookup s m x = None)
      \<longleftrightarrow> map_option ikind (fs_inodes s n) = Some KDir
        \<and> (\<exists>pre x post m. cs = pre @ x # post \<and> real_dir s n pre = Some m \<and> lookup s m x = None)"
      (is "?l \<longleftrightarrow> ?d \<and> ?r")
    proof
      assume ?l
      then obtain pre x post m where l: "c # cs = pre @ x # post" "real_dir s d pre = Some m" "lookup s m x = None" by blast
      then obtain pre' where "pre = c # pre'" using Some by (cases pre) auto
      then show "?d \<and> ?r" using l Some by (auto split: if_splits)
    next
      assume r: "?d \<and> ?r"
      then obtain pre x post m where "cs = pre @ x # post" "real_dir s n pre = Some m" "lookup s m x = None" by blast
      then show ?l using r Some by (intro exI [of _ "c # pre"]) auto
    qed
    moreover have "dir_walk s d (c # cs) = Inl (OSError ENOENT)
      \<longleftrightarrow> map_option ikind (fs_inodes s n) = Some KDir \<and> dir_walk s n cs = Inl (OSError ENOENT)"
      using Some by (auto simp: do_open_dir_at_def do_open_at_def split: option.splits)
    ultimately show ?thesis using Cons.IH [of n] by simp
  qed
qed simp

subsection \<open>One \<open>lstat\<close>\<close>

definition lstat_result :: "fs \<Rightarrow> ppath \<Rightarrow> stat_result res" where
  "lstat_result s path =
     bindR (dir_walk s root_inode (butlast (components path))) (\<lambda>d. do_stat_at d (last (components path)) s)"

lemma walk_os_error: "dir_walk s d cs = Inl e \<Longrightarrow> \<exists>n. e = OSError n"
  by (induction cs arbitrary: d)
    (auto simp: do_open_dir_at_def do_open_at_def bindR_eq_Inl split: option.splits if_splits)

lemma stat_os_error: "do_stat_at d name s = Inl e \<Longrightarrow> \<exists>n. e = OSError n"
  by (auto simp: do_stat_at_def do_fstat_def split: option.splits)

lemma lstat_os_error: "lstat_result s path = Inl e \<Longrightarrow> \<exists>n. e = OSError n"
  by (auto simp: lstat_result_def bindR_eq_Inl dest: walk_os_error stat_os_error)

lemma runs_parent:
  assumes "calm w" "plain_path path"
  shows "runs (strict_parent_descriptor path)
    (settled (bindR (dir_walk (w_fs w) root_inode (butlast (components path))) (\<lambda>d. Inr (d, last (components path))))) w"
proof -
  have name: "path_name path = last (components path)" "path_name path \<notin> {[], [46], [46, 46]}" "is_absolute path"
    and middle: "\<forall>c \<in> set (butlast (components path)). c \<notin> {[], [46], [46, 46]}"
    using assms(2) by (auto simp: plain_path_def path_name_def dest: in_set_butlastD)
  have slash: "runs os_open_slash (settled (Inr root_inode)) w"
    unfolding os_open_slash_def by (rule runs_read [OF assms(1)]) simp
  have "runs (bindW os_open_slash (\<lambda>slash. bindW (descend slash (butlast (components path))) (\<lambda>d. return (d, path_name path))))
     (settled (bindR (Inr root_inode) (\<lambda>slash. bindR (dir_walk (w_fs w) slash (butlast (components path))) (\<lambda>d. Inr (d, path_name path))))) w"
  proof (rule runs_bind [OF slash])
    fix d w' assume w': "calm w'" "w_fs w' = w_fs w"
    have "runs (descend d (butlast (components path))) (settled (dir_walk (w_fs w) d (butlast (components path)))) w'"
      using runs_descend [OF w'(1) middle] w'(2) by simp
    then show "runs (bindW (descend d (butlast (components path))) (\<lambda>d. return (d, path_name path)))
       (settled (bindR (dir_walk (w_fs w) d (butlast (components path))) (\<lambda>d. Inr (d, path_name path)))) w'"
      by (rule runs_bind) (simp add: runs_simps settled_def)
  qed
  then show ?thesis using name by (simp add: strict_parent_descriptor_def)
qed

lemma runs_lstat:
  assumes "calm w" "plain_path path"
  shows "runs (lstat_owned_path path)
    (Ret (case lstat_result (w_fs w) path of
        Inl e \<Rightarrow> open_error e (path_str path) | Inr m \<Rightarrow> ok_probe (st_kind m) (path_str path) None)) w"
proof -
  let ?walk = "dir_walk (w_fs w) root_inode (butlast (components path))"
  let ?r = "bindR (bindR ?walk (\<lambda>d. Inr (d, last (components path)))) (\<lambda>(d, name).
      bindR (do_stat_at d name (w_fs w)) (\<lambda>m. Inr (ok_probe (st_kind m) (path_str path) None)))"
  have "runs (bindW (strict_parent_descriptor path) (\<lambda>(d, name).
             bindW (os_stat_at d name) (\<lambda>m. return (ok_probe (st_kind m) (path_str path) None)))) (settled ?r) w"
  proof (rule runs_bind [OF runs_parent [OF assms]])
    fix x w' assume w': "calm w'" "w_fs w' = w_fs w"
    have "runs (os_stat_at d name) (settled (do_stat_at d name (w_fs w))) w'" for d name
      unfolding os_stat_at_def using runs_read [OF w'(1), of "\<lambda>v s. (do_stat_at d name s, s)" "do_stat_at d name"] w'(2) by simp
    then have "runs (bindW (os_stat_at d name) (\<lambda>m. return (ok_probe (st_kind m) (path_str path) None)))
       (settled (bindR (do_stat_at d name (w_fs w)) (\<lambda>m. Inr (ok_probe (st_kind m) (path_str path) None)))) w'" for d name
      by (rule runs_bind) (simp add: runs_simps settled_def)
    then show "runs (case x of (d, name) \<Rightarrow> bindW (os_stat_at d name) (\<lambda>m. return (ok_probe (st_kind m) (path_str path) None)))
       (settled (case x of (d, name) \<Rightarrow> bindR (do_stat_at d name (w_fs w)) (\<lambda>m. Inr (ok_probe (st_kind m) (path_str path) None)))) w'"
      by (cases x) simp
  qed
  then have "runs (lstat_owned_path path) (settled (case ?r of Inl e \<Rightarrow> Inr (open_error e (path_str path)) | Inr x \<Rightarrow> Inr x)) w"
    unfolding lstat_owned_path_def
  proof (rule runs_catch)
    fix e w' assume e: "?r = Inl e" "calm w'"
    have "\<exists>n. e = OSError n" using e(1) by (auto simp: bindR_eq_Inl dest: walk_os_error stat_os_error)
    then show "runs (if is_os_error e then return (open_error e (path_str path)) else raise e)
        (settled (Inr (open_error e (path_str path)))) w'"
      using e(2) by (auto simp: runs_simps settled_def)
  qed
  moreover have "settled (case ?r of Inl e \<Rightarrow> Inr (open_error e (path_str path)) | Inr x \<Rightarrow> Inr x)
    = Ret (case lstat_result (w_fs w) path of
        Inl e \<Rightarrow> open_error e (path_str path) | Inr m \<Rightarrow> ok_probe (st_kind m) (path_str path) None)"
    by (cases ?walk) (auto simp: lstat_result_def bindR_def settled_def split: sum.split)
  ultimately show ?thesis by simp
qed

lemma stat_at_Inr: "do_stat_at d name s = Inr m \<longleftrightarrow> (\<exists>n i. lookup s d name = Some n \<and> fs_inodes s n = Some i \<and> m = stat_of n i)"
  by (cases "lookup s d name") (auto simp: do_stat_at_def do_fstat_def split: option.splits)

lemma lstat_present: "lstat_result s path = Inr m \<longleftrightarrow> (\<exists>i n. there s (components path) i \<and> m = stat_of n i
    \<and> (\<exists>d. real_dir s root_inode (butlast (components path)) = Some d \<and> lookup s d (last (components path)) = Some n
         \<and> fs_inodes s n = Some i))"
  by (auto simp: lstat_result_def dir_walk_Inr stat_at_Inr there_def)

lemma lstat_gone:
  assumes "components path \<noteq> []"
  shows "lstat_result s path = Inl (OSError ENOENT) \<longleftrightarrow> gone s (components path)"
proof -
  let ?cs = "components path"
  have split: "?cs = butlast ?cs @ [last ?cs]" using assms by simp
  have "gone s ?cs \<longleftrightarrow> (\<exists>pre c post d. butlast ?cs = pre @ c # post \<and> real_dir s root_inode pre = Some d \<and> lookup s d c = None)
     \<or> (\<exists>d. real_dir s root_inode (butlast ?cs) = Some d \<and> lookup s d (last ?cs) = None)" (is "_ \<longleftrightarrow> ?a \<or> ?b")
  proof
    assume "gone s ?cs"
    then obtain pre c post d where g: "?cs = pre @ c # post" "real_dir s root_inode pre = Some d" "lookup s d c = None"
      unfolding gone_def by blast
    show "?a \<or> ?b"
    proof (cases "post = []")
      case True
      then show ?thesis using g by (auto simp: g(1))
    next
      case False
      then have "butlast ?cs = pre @ c # butlast post" using g(1) by (simp add: butlast_append)
      then show ?thesis using g by blast
    qed
  next
    assume "?a \<or> ?b"
    then show "gone s ?cs"
    proof
      assume ?a
      then obtain pre c post d where "butlast ?cs = pre @ c # post" "real_dir s root_inode pre = Some d" "lookup s d c = None"
        by blast
      then have "?cs = pre @ c # (post @ [last ?cs])" "real_dir s root_inode pre = Some d" "lookup s d c = None"
        using split by simp_all
      then show ?thesis unfolding gone_def by blast
    next
      assume ?b
      then show ?thesis using split unfolding gone_def by blast
    qed
  qed
  moreover have "lstat_result s path = Inl (OSError ENOENT) \<longleftrightarrow> ?a \<or> ?b"
    unfolding dir_walk_ENOENT [symmetric]
    by (cases "dir_walk s root_inode (butlast ?cs)")
      (auto simp: lstat_result_def do_stat_at_def do_fstat_def dir_walk_Inr [symmetric] split: option.splits)
  ultimately show ?thesis by blast
qed

text \<open>\<open>lstat_owned_path\<close> is exact.  In a calm world (nothing else changes the files, no call fails) and for a plain
  absolute path it returns without changing anything; it says ok with a kind exactly when a file of that kind is reached
  through real directories from \<open>/\<close>, and absent exactly when a component is missing in the real directory that should hold
  it: a symbolic link on the way is neither followed nor taken for a missing file.\<close>

theorem lstat_owned_exact:
  assumes "calm w" "plain_path path"
  shows "\<exists>p w'. lstat_owned_path path w = (Ret p, w') \<and> w_fs w' = w_fs w
    \<and> (\<forall>k. (probe_status p = CollectedOk \<and> probe_value p = Some k)
         \<longleftrightarrow> (\<exists>i. there (w_fs w) (components path) i \<and> ikind i = k))
    \<and> (probe_status p = CollectedAbsent \<longleftrightarrow> gone (w_fs w) (components path))"
proof -
  have ne: "components path \<noteq> []" using assms(2) by (simp add: plain_path_def)
  let ?r = "lstat_result (w_fs w) path"
  let ?p = "case ?r of Inl e \<Rightarrow> open_error e (path_str path) | Inr m \<Rightarrow> ok_probe (st_kind m) (path_str path) None"
  have "(probe_status ?p = CollectedOk \<and> probe_value ?p = Some k) \<longleftrightarrow> (\<exists>m. ?r = Inr m \<and> st_kind m = k)" for k
    by (cases ?r) (auto simp: open_error_def bad_probe_def ok_probe_def)
  moreover have "(\<exists>m. ?r = Inr m \<and> st_kind m = k) \<longleftrightarrow> (\<exists>i. there (w_fs w) (components path) i \<and> ikind i = k)" for k
    unfolding lstat_present there_def by (auto simp: stat_of_def)
  moreover have "probe_status ?p = CollectedAbsent \<longleftrightarrow> ?r = Inl (OSError ENOENT)"
    by (cases ?r) (auto simp: open_error_def bad_probe_def ok_probe_def)
  moreover obtain w' where "lstat_owned_path path w = (Ret ?p, w')" "w_fs w' = w_fs w"
    using runs_lstat [OF assms] unfolding runs_def by blast
  ultimately show ?thesis
    using lstat_gone [OF ne, of "w_fs w"] by (intro exI [of _ ?p] exI [of _ w'] conjI allI) (simp_all only:)
qed

subsection \<open>Reading one file\<close>

definition open_result :: "fs \<Rightarrow> ppath \<Rightarrow> nat res" where
  "open_result s path =
     bindR (dir_walk s root_inode (butlast (components path))) (\<lambda>d. do_open_at d (last (components path)) s)"

lemma open_at_error: "do_open_at d name s = Inl e \<Longrightarrow> \<exists>n. e = OSError n"
  by (auto simp: do_open_at_def split: option.splits if_splits)

lemma open_result_error: "open_result s path = Inl e \<Longrightarrow> \<exists>n. e = OSError n"
  by (auto simp: open_result_def bindR_eq_Inl dest: walk_os_error open_at_error)

lemma open_result_lstat:
  "open_result s path = Inl (OSError ENOENT) \<longleftrightarrow> lstat_result s path = Inl (OSError ENOENT)"
  by (cases "dir_walk s root_inode (butlast (components path))")
    (auto simp: open_result_def lstat_result_def do_open_at_def do_stat_at_def do_fstat_def split: option.splits)

lemma open_at_Inr: "do_open_at d name s = Inr n
   \<longleftrightarrow> lookup s d name = Some n \<and> (\<exists>i. fs_inodes s n = Some i \<and> ikind i \<noteq> KLnk)"
  by (cases "lookup s d name") (auto simp: do_open_at_def split: option.splits)

lemma open_result_Inr:
  "open_result s path = Inr n \<longleftrightarrow> (\<exists>i d. fs_inodes s n = Some i \<and> ikind i \<noteq> KLnk
     \<and> real_dir s root_inode (butlast (components path)) = Some d \<and> lookup s d (last (components path)) = Some n)"
  by (auto simp: open_result_def dir_walk_Inr open_at_Inr)

lemma there_open:
  assumes "there s (components path) i" "ikind i \<noteq> KLnk"
  shows "\<exists>n. open_result s path = Inr n \<and> fs_inodes s n = Some i"
  using assms by (auto simp: there_def open_result_Inr)

lemma runs_returns:
  assumes "calm w" "returns (calm_fs (w_euid w) (w_egid w) (\<lambda>s. s = w_fs w)) m
      (\<lambda>x. calm_fs (w_euid w) (w_egid w) (\<lambda>s. s = w_fs w \<and> x = r))"
  shows "runs m (settled (Inr r)) w"
  using assms unfolding returns_def runs_def calm_fs_def settled_def by auto

lemma runs_weaken: "runs m (settled r) w \<Longrightarrow> r = r' \<Longrightarrow> runs m (settled r') w"
  by simp

text \<open>What reading an open descriptor of the inode \<open>i\<close> answers.\<close>

definition content_probe :: "(nat \<Rightarrow> bool) \<Rightarrow> pystr \<Rightarrow> nat \<Rightarrow> inode \<Rightarrow> pystr probe res" where
  "content_probe other src maximum i =
     (if ikind i \<noteq> KReg then Inr (bad_probe CollectedError src None)
      else file_text other src maximum (take (maximum + 1) (idata i)))"

lemma runs_open_descriptor:
  assumes "calm w" "fs_inodes (w_fs w) fd = Some i"
  shows "runs (read_open_descriptor other fd src maximum) (settled (content_probe other src maximum i)) w"
proof -
  let ?got = "if ikind i \<noteq> KReg then None else Some (take (maximum + 1) (idata i))"
  have stat: "runs (os_fstat fd) (settled (Inr (stat_of fd i))) w"
    unfolding os_fstat_def using runs_read [OF assms(1), of "\<lambda>v s. (do_fstat fd s, s)" "do_fstat fd"] assms(2)
    by (simp add: do_fstat_def)
  have inner: "runs (bindW (os_fstat fd) (\<lambda>m. if st_kind m \<noteq> KReg then return None
        else bindW (read_chunks (maximum + 2) fd 0 (maximum + 1)) (\<lambda>raw. return (Some raw))))
      (settled (bindR (Inr (stat_of fd i)) (\<lambda>m. Inr ?got))) w"
  proof (rule runs_bind [OF stat])
    fix m w' assume m: "Inr (stat_of fd i) = (Inr m :: stat_result res)" and w': "calm w'" "w_fs w' = w_fs w"
    show "runs (if st_kind m \<noteq> KReg then return None
        else bindW (read_chunks (maximum + 2) fd 0 (maximum + 1)) (\<lambda>raw. return (Some raw))) (settled (Inr ?got)) w'"
    proof (cases "ikind i = KReg")
      case True
      have "runs (read_chunks (maximum + 2) fd 0 (maximum + 1)) (settled (Inr (take (maximum + 1) (drop 0 (idata i))))) w'"
        by (rule runs_returns [OF w'(1)], rule returns_at_read_chunks) (use assms(2) w'(2) in simp_all)
      then have "runs (bindW (read_chunks (maximum + 2) fd 0 (maximum + 1)) (\<lambda>raw. return (Some raw)))
          (settled (bindR (Inr (take (maximum + 1) (drop 0 (idata i)))) (\<lambda>raw. Inr (Some raw)))) w'"
        by (rule runs_bind) (simp add: runs_simps settled_def)
      moreover have "m = stat_of fd i" using m by simp
      ultimately show ?thesis using True by (simp add: stat_of_def del: read_chunks.simps)
    next
      case False
      then show ?thesis using m w'(1) by (auto simp: stat_of_def runs_simps settled_def)
    qed
  qed
  have "runs (catchW (bindW (os_fstat fd) (\<lambda>m. if st_kind m \<noteq> KReg then return None
        else bindW (read_chunks (maximum + 2) fd 0 (maximum + 1)) (\<lambda>raw. return (Some raw))))
        (\<lambda>e. if is_os_error e then return None else raise e))
      (settled (case (Inr ?got :: bytes option res) of Inl e \<Rightarrow> Inr None | Inr x \<Rightarrow> Inr x)) w"
    by (rule runs_catch [where g = "\<lambda>e. Inr None"]) (use inner in simp_all)
  then have "runs (read_open_descriptor other fd src maximum)
      (settled (bindR (Inr ?got) (\<lambda>got. case got of None \<Rightarrow> Inr (bad_probe CollectedError src None)
         | Some raw \<Rightarrow> file_text other src maximum raw))) w"
    unfolding read_open_descriptor_def
  proof (rule runs_bind [OF runs_weaken])
    fix got w' assume "calm w'"
    then show "runs (case got of None \<Rightarrow> return (bad_probe CollectedError src None)
         | Some raw \<Rightarrow> lift (file_text other src maximum raw))
        (settled (case got of None \<Rightarrow> Inr (bad_probe CollectedError src None) | Some raw \<Rightarrow> file_text other src maximum raw)) w'"
      by (auto simp: runs_simps settled_def lift_def split: option.split sum.split)
  qed simp
  then show ?thesis by (cases "ikind i = KReg") (simp_all add: content_probe_def)
qed

lemma runs_owned_read:
  assumes "calm w" "plain_path path"
  shows "runs (owned_read other path maximum) (settled (case open_result (w_fs w) path of
        Inl e \<Rightarrow> Inr (open_error e (path_str path))
      | Inr n \<Rightarrow> content_probe other (path_str path) maximum (the (fs_inodes (w_fs w) n)))) w"
proof -
  let ?walk = "dir_walk (w_fs w) root_inode (butlast (components path))"
  let ?r = "bindR (bindR ?walk (\<lambda>d. Inr (d, last (components path)))) (\<lambda>(d, name).
      bindR (do_open_at d name (w_fs w)) (\<lambda>fd. Inr (Inr fd)))"
  have r: "?r = bindR (open_result (w_fs w) path) (\<lambda>fd. Inr (Inr fd))"
    by (cases ?walk) (simp_all add: open_result_def)
  have "runs (bindW (strict_parent_descriptor path) (\<lambda>(d, name).
             bindW (os_open_at d name) (\<lambda>fd. return (Inr fd)))) (settled ?r) w"
  proof (rule runs_bind [OF runs_parent [OF assms]])
    fix x w' assume w': "calm w'" "w_fs w' = w_fs w"
    have "runs (os_open_at d name) (settled (do_open_at d name (w_fs w))) w'" for d name
      unfolding os_open_at_def using runs_read [OF w'(1), of "\<lambda>v s. (do_open_at d name s, s)" "do_open_at d name"] w'(2) by simp
    then have "runs (bindW (os_open_at d name) (\<lambda>fd. return (Inr fd)))
       (settled (bindR (do_open_at d name (w_fs w)) (\<lambda>fd. Inr (Inr fd)))) w'" for d name
      by (rule runs_bind) (simp add: runs_simps settled_def)
    then show "runs (case x of (d, name) \<Rightarrow> bindW (os_open_at d name) (\<lambda>fd. return (Inr fd)))
       (settled (case x of (d, name) \<Rightarrow> bindR (do_open_at d name (w_fs w)) (\<lambda>fd. Inr (Inr fd)))) w'"
      by (cases x) simp
  qed
  then have "runs (catchW (bindW (strict_parent_descriptor path) (\<lambda>(d, name).
             bindW (os_open_at d name) (\<lambda>fd. return (Inr fd))))
      (\<lambda>e. if is_os_error e then return (Inl e) else raise e))
      (settled (case ?r of Inl e \<Rightarrow> Inr (Inl e) | Inr x \<Rightarrow> Inr x)) w"
    unfolding r
  proof (rule runs_catch)
    fix e w' assume e: "bindR (open_result (w_fs w) path) (\<lambda>fd. Inr (Inr fd)) = Inl e" "calm w'"
    have "\<exists>n. e = OSError n" using e(1) by (auto simp: bindR_eq_Inl dest: open_result_error)
    then show "runs (if is_os_error e then return (Inl e) else raise e) (settled (Inr (Inl e))) w'"
      using e(2) by (auto simp: runs_simps settled_def)
  qed
  then have "runs (owned_read other path maximum) (settled (bindR (case ?r of Inl e \<Rightarrow> Inr (Inl e) | Inr x \<Rightarrow> Inr x)
      (\<lambda>opened. case opened of Inl e \<Rightarrow> Inr (open_error e (path_str path))
        | Inr n \<Rightarrow> content_probe other (path_str path) maximum (the (fs_inodes (w_fs w) n))))) w"
    unfolding owned_read_def
  proof (rule runs_bind)
    fix opened w' assume o: "(case ?r of Inl e \<Rightarrow> Inr (Inl e) | Inr x \<Rightarrow> Inr x) = Inr opened"
      and w': "calm w'" "w_fs w' = w_fs w"
    show "runs (case opened of Inl e \<Rightarrow> return (open_error e (path_str path))
         | Inr fd \<Rightarrow> read_open_descriptor other fd (path_str path) maximum)
      (settled (case opened of Inl e \<Rightarrow> Inr (open_error e (path_str path))
        | Inr n \<Rightarrow> content_probe other (path_str path) maximum (the (fs_inodes (w_fs w) n)))) w'"
    proof (cases "open_result (w_fs w) path")
      case (Inl e)
      then have "opened = Inl e" using o unfolding r by simp
      then show ?thesis using Inl w'(1) by (simp add: runs_simps settled_def)
    next
      case (Inr n)
      then obtain i where i: "fs_inodes (w_fs w) n = Some i" by (auto simp: open_result_Inr)
      have "opened = Inr n" using o Inr unfolding r by simp
      then show ?thesis using runs_open_descriptor [OF w'(1), of n i other "path_str path" maximum] i w'(2) by simp
    qed
  qed
  then show ?thesis unfolding r by (cases "open_result (w_fs w) path") simp_all
qed

lemma strict_error: "decode_strict bs = Inl e \<Longrightarrow> e = UnicodeDecodeError"
  by (induction bs arbitrary: e rule: decode_strict.induct)
    (auto split: prod.splits option.splits sum.splits simp: bindR_eq_Inl)

text \<open>The answer to one file: its text, when it is a regular file of at most \<open>maximum\<close> bytes of UTF-8.\<close>

lemma content_probe_value:
  "\<exists>p. content_probe other src maximum i = Inr p
     \<and> (\<forall>t. (probe_status p = CollectedOk \<and> probe_value p = Some t)
          \<longleftrightarrow> ikind i = KReg \<and> length (idata i) \<le> maximum \<and> decode_strict (idata i) = Inr t)
     \<and> probe_status p \<noteq> CollectedAbsent"
proof (cases "decode_strict (idata i)")
  case (Inl e)
  then show ?thesis
    by (auto simp: content_probe_def file_text_def bad_probe_def min_def dest: strict_error)
next
  case (Inr t)
  show ?thesis
    using evidence_total [OF decode_strict_whole [OF Inr], of other t src None] Inr
    by (auto simp: content_probe_def file_text_def bad_probe_def min_def)
qed

text \<open>C23: \<open>_default_owned_read\<close> is exact.  In a calm world and for a plain absolute path it returns, changes nothing, and
  answers ok with a text exactly when a regular file of at most \<open>maximum\<close> bytes is reached through real directories and
  its bytes are the UTF-8 of that text; it says absent exactly when a component is missing in the real directory that should
  hold it.  No longer file is cut silently, and attaching the redacted evidence never fails.\<close>

theorem owned_read_exact:
  assumes "calm w" "plain_path path"
  shows "\<exists>p w'. owned_read other path maximum w = (Ret p, w') \<and> w_fs w' = w_fs w
    \<and> (\<forall>t. (probe_status p = CollectedOk \<and> probe_value p = Some t)
         \<longleftrightarrow> (\<exists>i. there (w_fs w) (components path) i \<and> ikind i = KReg \<and> length (idata i) \<le> maximum
               \<and> decode_strict (idata i) = Inr t))
    \<and> (probe_status p = CollectedAbsent \<longleftrightarrow> gone (w_fs w) (components path))"
proof (cases "open_result (w_fs w) path")
  case (Inl e)
  have "\<not> (there (w_fs w) (components path) i \<and> ikind i = KReg)" for i
    using there_open [of "w_fs w" path i] Inl by auto
  moreover have "probe_status (open_error e (path_str path)) = CollectedAbsent \<longleftrightarrow> gone (w_fs w) (components path)"
    using open_result_lstat [of "w_fs w" path] lstat_gone [of path "w_fs w"] assms(2) Inl
    by (auto simp: open_error_def bad_probe_def plain_path_def)
  moreover have "probe_status (open_error e (path_str path)) \<noteq> CollectedOk" by (simp add: open_error_def bad_probe_def)
  ultimately show ?thesis
    using runs_owned_read [OF assms, of other maximum] Inl by (auto simp: runs_def settled_def)
next
  case (Inr n)
  then obtain i d where i: "fs_inodes (w_fs w) n = Some i"
      "real_dir (w_fs w) root_inode (butlast (components path)) = Some d" "lookup (w_fs w) d (last (components path)) = Some n"
    by (auto simp: open_result_Inr)
  have only: "there (w_fs w) (components path) j \<longleftrightarrow> j = i" for j
    using i by (auto simp: there_def)
  have here: "\<not> gone (w_fs w) (components path)"
    using open_result_lstat [of "w_fs w" path] lstat_gone [of path "w_fs w"] assms(2) Inr by (auto simp: plain_path_def)
  obtain p where p: "content_probe other (path_str path) maximum i = Inr p"
     "\<forall>t. (probe_status p = CollectedOk \<and> probe_value p = Some t)
          \<longleftrightarrow> ikind i = KReg \<and> length (idata i) \<le> maximum \<and> decode_strict (idata i) = Inr t"
     "probe_status p \<noteq> CollectedAbsent"
    using content_probe_value by blast
  have "runs (owned_read other path maximum) (Ret p) w"
    using runs_owned_read [OF assms, of other maximum] Inr i(1) p(1) by (simp add: settled_def)
  then show ?thesis using p(2,3) only here by (auto simp: runs_def)
qed

end
