(* ===== verification/Disk_Plan.thy ===== *)
theory Disk_Plan
  imports Owned_Files_Spec Composition_Spec
begin








subsection \<open>A sample host\<close>

text \<open>On the sample files, where the root holds the one directory \<open>j\<close>, all the configured paths are missing.\<close>

lemma calm_sample: "calm (sample_world None)" "w_fs (sample_world None) = sample_fs"
  by (simp_all add: calm_def quiet_def sample_world_def)





lemma lstat_owned_exact_witness:
  "fst (lstat_owned_path (parse_path (lit ''/j'')) (sample_world None)) = Ret (ok_probe KDir (lit ''/j'') None)
     \<and> (\<exists>p w'. lstat_owned_path (parse_path (lit ''/j'')) (sample_world None) = (Ret p, w') \<and> w_fs w' = sample_fs)"
proof -
  have p: "parse_path (lit ''/j'') = \<lparr>anchor = [47], components = [[106]]\<rparr>"
    by (simp add: parse_path_def path_anchor_def lit_def)
  have plain: "plain_path (parse_path (lit ''/j''))" unfolding p by (simp add: plain_path_def is_absolute_def)
  have "there sample_fs [[106]] (dir_inode 448 [])"
    by (simp add: there_def root_inode_def lookup_def entries_of_def sample_fs_def dir_inode_def lit_def)
  moreover have "ikind (dir_inode 448 []) = KDir" by (simp add: dir_inode_def)
  ultimately show ?thesis
    using lstat_owned_exact [OF calm_sample(1) plain] runs_lstat [OF calm_sample(1) plain] unfolding calm_sample(2) p
    by (auto simp: runs_def lstat_result_def do_stat_at_def do_fstat_def lookup_def entries_of_def sample_fs_def
        dir_inode_def root_inode_def stat_of_def path_str_def lit_def)
qed

text \<open>A root with a regular file \<open>v\<close> that holds \<open>1\<close>, and a symbolic link \<open>l\<close>.\<close>

definition file_world :: world where
  "file_world = (sample_world None)\<lparr>w_fs := sample_fs\<lparr>fs_inodes :=
     [0 \<mapsto> dir_inode 493 [(lit ''v'', 7), (lit ''l'', 8)], 7 \<mapsto> (dir_inode 420 [])\<lparr>ikind := KReg, idata := [49]\<rparr>,
      8 \<mapsto> (dir_inode 511 [])\<lparr>ikind := KLnk\<rparr>]\<rparr>\<rparr>"

lemma owned_read_exact_witness:
  "(\<exists>p w'. owned_read (\<lambda>_. False) (parse_path (lit ''/v'')) 64 file_world = (Ret p, w')
     \<and> probe_status p = CollectedOk \<and> probe_value p = Some (lit ''1''))
   \<and> (\<exists>p w'. owned_read (\<lambda>_. False) (parse_path (lit ''/l'')) 64 file_world = (Ret p, w')
     \<and> probe_status p \<noteq> CollectedAbsent \<and> \<not> (probe_status p = CollectedOk \<and> probe_value p = Some []))"
proof -
  have calm: "calm file_world" by (simp add: calm_def quiet_def file_world_def sample_world_def)
  have v: "parse_path (lit ''/v'') = \<lparr>anchor = [47], components = [[118]]\<rparr>"
    and l: "parse_path (lit ''/l'') = \<lparr>anchor = [47], components = [[108]]\<rparr>"
    by (simp_all add: parse_path_def path_anchor_def lit_def)
  have plain: "plain_path (parse_path (lit ''/v''))" "plain_path (parse_path (lit ''/l''))"
    unfolding v l by (simp_all add: plain_path_def is_absolute_def)
  have files: "there (w_fs file_world) [[118]] ((dir_inode 420 [])\<lparr>ikind := KReg, idata := [49]\<rparr>)"
    "there (w_fs file_world) [[108]] i \<longleftrightarrow> i = (dir_inode 511 [])\<lparr>ikind := KLnk\<rparr>"
    "\<not> gone (w_fs file_world) [[108]]" for i
    by (auto simp: there_def gone_def root_inode_def lookup_def entries_of_def file_world_def dir_inode_def lit_def
        Cons_eq_append_conv)
  have "decode_strict [49] = Inr (lit ''1'')" by (simp add: utf8_next_def lit_def)
  then have one: "\<exists>i. there (w_fs file_world) [[118]] i \<and> ikind i = KReg \<and> length (idata i) \<le> 64
      \<and> decode_strict (idata i) = Inr (lit ''1'')"
    using files(1) by (intro exI [of _ "(dir_inode 420 [])\<lparr>ikind := KReg, idata := [49]\<rparr>"]) simp
  have none: "\<not> (\<exists>i. there (w_fs file_world) [[108]] i \<and> ikind i = KReg \<and> P i)" for P
    unfolding files(2) by simp
  obtain p w' where p: "owned_read (\<lambda>_. False) (parse_path (lit ''/v'')) 64 file_world = (Ret p, w')"
      "probe_status p = CollectedOk \<and> probe_value p = Some (lit ''1'')"
    using owned_read_exact [OF calm plain(1), of "\<lambda>_. False" 64] one unfolding v ppath.simps by (elim exE conjE) blast
  obtain q w'' where q: "owned_read (\<lambda>_. False) (parse_path (lit ''/l'')) 64 file_world = (Ret q, w'')"
      "probe_status q \<noteq> CollectedAbsent" "\<not> (probe_status q = CollectedOk \<and> probe_value q = Some [])"
    using owned_read_exact [OF calm plain(2), of "\<lambda>_. False" 64] none files(3) unfolding l ppath.simps by (elim exE conjE) metis
  show ?thesis using p q by blast
qed

end
