(* ===== verification/Posix_Tree.thy ===== *)
theory Posix_Tree
  imports Posix
begin

text \<open>
  The system calls that make and remove directories, and the two attributes of an inode that the
  stages ask for: its extended attribute names and the id of its mount.
\<close>

definition do_mkdir :: "int \<Rightarrow> int \<Rightarrow> nat \<Rightarrow> pystr \<Rightarrow> nat \<Rightarrow> fs \<Rightarrow> unit res \<times> fs" where
  "do_mkdir uid gid d name mode s =
     (case lookup s d name of
        Some _ \<Rightarrow> (Inl (OSError EEXIST), s)
      | None \<Rightarrow>
          (case fs_inodes s d of
             None \<Rightarrow> (Inl (OSError ENOENT), s)
           | Some di \<Rightarrow>
               (let n = fs_next s;
                    fresh = \<lparr>ikind = KDir, imode = mode, iuid = uid, igid = gid, inlink = 2, idata = [],
                             ients = [], ixattrs = [], idev = idev di, imnt = imnt di,
                             imtime = fs_clock s, ictime = fs_clock s\<rparr>;
                    s1 = s\<lparr>fs_inodes := (fs_inodes s)(n \<mapsto> fresh), fs_next := Suc n\<rparr>
                in (Inr (), tick (set_entries d (\<lambda>es. (name, n) # es)
                      (upd_inode d (\<lambda>i. i\<lparr>inlink := Suc (inlink i)\<rparr>) s1))))))"

definition do_rmdir :: "nat \<Rightarrow> pystr \<Rightarrow> fs \<Rightarrow> unit res \<times> fs" where
  "do_rmdir d name s =
     (case lookup s d name of
        None \<Rightarrow> (Inl (OSError ENOENT), s)
      | Some n \<Rightarrow>
          (if map_option ikind (fs_inodes s n) \<noteq> Some KDir then (Inl (OSError ENOTDIR), s)
           else if entries_of s n \<noteq> [] then (Inl (OSError ENOTEMPTY), s)
           else (Inr (), tick (set_entries d (AList.delete name)
                   (upd_inode d (\<lambda>i. i\<lparr>inlink := inlink i - 1\<rparr>)
                     (upd_inode n (\<lambda>i. touch s (i\<lparr>inlink := 0\<rparr>)) s))))))"

definition os_mkdir :: "nat \<Rightarrow> pystr \<Rightarrow> nat \<Rightarrow> unit io" where
  "os_mkdir d name mode = syscall (\<lambda>w s. do_mkdir (w_euid w) (w_egid w) d name mode s)"

definition os_rmdir :: "nat \<Rightarrow> pystr \<Rightarrow> unit io" where
  "os_rmdir d name = syscall (\<lambda>w s. do_rmdir d name s)"

text \<open>\<open>os.listxattr\<close> and the \<open>stx_mnt_id\<close> of \<open>statx\<close>.\<close>

definition do_attribute :: "(inode \<Rightarrow> 'a) \<Rightarrow> nat \<Rightarrow> fs \<Rightarrow> 'a res" where
  "do_attribute f n s = (case fs_inodes s n of None \<Rightarrow> Inl (OSError EIO) | Some i \<Rightarrow> Inr (f i))"

definition os_listxattr :: "nat \<Rightarrow> pystr list io" where
  "os_listxattr n = syscall (\<lambda>w s. (do_attribute ixattrs n s, s))"

definition os_statx_mnt_id :: "nat \<Rightarrow> nat io" where
  "os_statx_mnt_id n = syscall (\<lambda>w s. (do_attribute imnt n s, s))"

end
