(* ===== verification/Stage05_Tree.thy ===== *)
theory Stage05_Tree
  imports Posix_Tree Journal_Store
begin

text \<open>
  The fixed paths and the class \<open>SecureTree\<close> of \<open>src/src/kitdev_sandboxes/stage05.py\<close>: every step
  opens its directory component by component from \<open>/\<close>, checks the owner, mode, attributes and
  mount on the way, and compares what it opened with what the name says.  \<open>fault\<close> is the hook of the
  tests and does nothing in the program; a descriptor needs no closing in the model.
\<close>

subsection \<open>Constants\<close>

definition fixed_path :: "string \<Rightarrow> ppath" where
  "fixed_path s = parse_path (lit s)"

definition the_install_id :: pystr where
  "the_install_id = lit ''ovh-lab-stage05-v1''"

definition the_plan_id :: pystr where
  "the_plan_id = lit ''ovh-lab-stage05-marker-workspace-v1''"

definition state_root :: ppath where
  "state_root = fixed_path ''/var/lib/kitdev-sandboxes''"

definition journal_root :: ppath where
  "journal_root = fixed_path ''/var/lib/kitdev-sandboxes/journal''"

definition config_root :: ppath where
  "config_root = fixed_path ''/etc/kitdev-sandboxes''"

definition marker_path :: ppath where
  "marker_path = fixed_path ''/etc/kitdev-sandboxes/disposable-ovh-lab''"

definition experiments_root :: ppath where
  "experiments_root = fixed_path ''/var/lib/kitdev-sandboxes/experiments''"

definition workspace_path :: ppath where
  "workspace_path = fixed_path ''/var/lib/kitdev-sandboxes/experiments/ovh-lab''"

definition journal_name :: pystr where
  "journal_name = the_install_id @ lit ''.journal.json''"

definition journal_path :: ppath where
  "journal_path = fixed_path ''/var/lib/kitdev-sandboxes/journal/ovh-lab-stage05-v1.journal.json''"

definition marker_temp_prefix :: pystr where
  "marker_temp_prefix = lit ''.disposable-ovh-lab.tmp.''"

definition max_entries :: nat where "max_entries = 4096"
definition max_entry_bytes :: nat where "max_entry_bytes = 1048576"
definition max_marker_bytes :: nat where "max_marker_bytes = 4096"
definition max_plan_bytes :: nat where "max_plan_bytes = 65536"
definition max_systemd_bytes :: nat where "max_systemd_bytes = 4096"

definition production_paths :: "ppath list" where
  "production_paths =
     map fixed_path [''/etc/kitdev-sandboxes/production'', ''/var/lib/kitdev-sandboxes/install-manifest.json'',
       ''/etc/kitdev-sandboxes/install-manifest.json'', ''/opt/kitdev-sandboxes'']"

definition unit_names :: "string list" where
  "unit_names = [''kitdev-e2b-api.service'', ''kitdev-e2b-client-proxy.service'', ''kitdev-e2b-orchestrator.service'']"

definition unit_roots :: "string list" where
  "unit_roots =
     [''/etc/systemd/system'', ''/usr/lib/systemd/system'', ''/etc/systemd/system/multi-user.target.wants'']"

definition dangerous_xattrs :: "pystr list" where
  "dangerous_xattrs = map lit [''system.posix_acl_access'', ''system.posix_acl_default'', ''security.capability'']"

subsection \<open>Paths\<close>

text \<open>\<open>path.name\<close> and \<open>path.parent\<close> of a path that is not a root.\<close>

definition last_name :: "ppath \<Rightarrow> pystr" where
  "last_name p = (if components p = [] then [] else last (components p))"

definition parent_path :: "ppath \<Rightarrow> ppath" where
  "parent_path p = p\<lparr>components := butlast (components p)\<rparr>"

record stage_paths =
  sp_prefix :: ppath
  sp_trusted :: "ppath option"

definition root_path :: ppath where
  "root_path = \<lparr>anchor = [47], components = []\<rparr>"

definition mk_stage_paths :: "ppath \<Rightarrow> ppath option \<Rightarrow> stage_paths res" where
  "mk_stage_paths prefix trusted =
     thenR (raise_if (\<not> is_absolute prefix \<or> starts_with (lit ''//'') (path_str prefix))
              (ValueError ''Stage 05 prefix must be an absolute path''))
     (thenR (raise_if (prefix \<noteq> root_path \<and> trusted = None)
               (ValueError ''a non-production prefix requires an explicit trust boundary''))
     (thenR (case trusted of
               None \<Rightarrow> Inr ()
             | Some t \<Rightarrow>
                 raise_if (\<not> is_absolute t \<or> t = root_path
                           \<or> \<not> (anchor t = anchor prefix \<and> starts_with (components t) (components prefix)))
                   (ValueError ''trusted prefix must contain the injected Stage 05 root''))
       (Inr \<lparr>sp_prefix = prefix, sp_trusted = trusted\<rparr>)))"

definition production_stage_paths :: stage_paths where
  "production_stage_paths = \<lparr>sp_prefix = root_path, sp_trusted = None\<rparr>"

definition actual_path :: "stage_paths \<Rightarrow> ppath \<Rightarrow> ppath res" where
  "actual_path ps canonical =
     thenR (raise_if (\<not> is_absolute canonical \<or> canonical = root_path)
              (ValueError ''Stage 05 canonical resource path is invalid''))
     (bindR (relative_parts canonical root_path) (\<lambda>rel.
        Inr ((sp_prefix ps)\<lparr>components := components (sp_prefix ps) @ rel\<rparr>)))"

subsection \<open>Opening\<close>

definition stage_error :: "string \<Rightarrow> 'a io" where
  "stage_error reason = raise (Stage05Error reason)"

definition stage_check :: "bool \<Rightarrow> string \<Rightarrow> unit io" where
  "stage_check bad reason = raise_when bad (Stage05Error reason)"

text \<open>\<open>except OSError as error: raise Stage05Error(reason)\<close>\<close>

definition os_errors_to :: "string \<Rightarrow> 'a io \<Rightarrow> 'a io" where
  "os_errors_to reason m = catchW m (\<lambda>e. if is_os_error e then stage_error reason else raise e)"

definition linux_mount_id :: "nat \<Rightarrow> nat io" where
  "linux_mount_id fd = catchW (os_statx_mnt_id fd) (\<lambda>e. stage_error ''mount_boundary'')"

definition stage_xattrs :: "nat \<Rightarrow> pystr list io" where
  "stage_xattrs fd = os_errors_to ''resource_desired_mismatch'' (bindW (os_listxattr fd) (\<lambda>names. return (sort names)))"

record secure_tree =
  tr_paths :: stage_paths
  tr_uid :: int
  tr_gid :: int

definition below_trust :: "secure_tree \<Rightarrow> pystr list \<Rightarrow> bool" where
  "below_trust t opened = below_boundary (map_option parts (sp_trusted (tr_paths t))) opened"

definition validate_ancestor :: "secure_tree \<Rightarrow> nat \<Rightarrow> pystr list \<Rightarrow> unit io" where
  "validate_ancestor t fd opened =
     bindW (os_fstat fd) (\<lambda>m.
     seqW (stage_check (st_kind m \<noteq> KDir) ''unsafe_ancestry'')
       (if map_option parts (sp_trusted (tr_paths t)) = Some opened then return ()
        else seqW (stage_check (st_uid m \<noteq> (if below_trust t opened then tr_uid t else 0)
                                \<or> st_gid m \<noteq> (if below_trust t opened then tr_gid t else 0)
                                \<or> group_other_write (st_perm m)) ''unsafe_ancestry'')
             (bindW (stage_xattrs fd) (\<lambda>names.
                stage_check (list_ex (\<lambda>x. x \<in> set names) dangerous_xattrs) ''unsafe_ancestry''))))"

text \<open>The loop over \<open>actual.parts[1:]\<close>.\<close>

fun descend_checked :: "secure_tree \<Rightarrow> nat \<Rightarrow> pystr list \<Rightarrow> pystr list \<Rightarrow> nat io" where
  "descend_checked t fd opened [] = return fd"
| "descend_checked t fd opened (c # cs) =
     bindW (os_open_dir_at fd c) (\<lambda>next_fd.
     seqW (validate_ancestor t next_fd (opened @ [c]))
       (descend_checked t next_fd (opened @ [c]) cs))"

definition open_directory :: "secure_tree \<Rightarrow> ppath \<Rightarrow> nat option \<Rightarrow> nat io" where
  "open_directory t canonical mode =
     bindW (lift (actual_path (tr_paths t) canonical)) (\<lambda>actual.
     bindW os_open_slash (\<lambda>slash.
       os_errors_to ''symlink_or_type_conflict''
         (seqW (validate_ancestor t slash [lit ''/''])
         (bindW (descend_checked t slash [lit ''/''] (drop 1 (parts actual))) (\<lambda>fd.
            case mode of
              None \<Rightarrow> return fd
            | Some md \<Rightarrow>
                bindW (os_fstat fd) (\<lambda>m.
                seqW (stage_check (st_uid m \<noteq> tr_uid t \<or> st_gid m \<noteq> tr_gid t \<or> st_perm m \<noteq> md)
                        ''resource_desired_mismatch'')
                (bindW (stage_xattrs fd) (\<lambda>names.
                 seqW (stage_check (names \<noteq> []) ''resource_desired_mismatch'') (return fd)))))))))"

definition open_parent :: "secure_tree \<Rightarrow> ppath \<Rightarrow> (nat \<times> pystr) io" where
  "open_parent t canonical =
     bindW (open_directory t (parent_path canonical) None) (\<lambda>fd. return (fd, last_name canonical))"

text \<open>\<open>path_state\<close>: whether the path is \<open>present\<close>; a missing component is \<open>absent\<close>.\<close>

fun descend_present :: "secure_tree \<Rightarrow> nat \<Rightarrow> pystr list \<Rightarrow> pystr list \<Rightarrow> nat option io" where
  "descend_present t fd opened [] = return (Some fd)"
| "descend_present t fd opened (c # cs) =
     bindW (catchW (bindW (os_open_dir_at fd c) (\<lambda>n. return (Some n)))
              (\<lambda>e. if e = OSError ENOENT then return None else raise e)) (\<lambda>found.
       case found of
         None \<Rightarrow> return None
       | Some n \<Rightarrow> seqW (validate_ancestor t n (opened @ [c])) (descend_present t n (opened @ [c]) cs))"

definition path_state :: "secure_tree \<Rightarrow> ppath \<Rightarrow> bool io" where
  "path_state t canonical =
     bindW (lift (actual_path (tr_paths t) canonical)) (\<lambda>actual.
     bindW os_open_slash (\<lambda>slash.
       os_errors_to ''unsafe_ancestry''
         (seqW (validate_ancestor t slash [lit ''/''])
         (bindW (descend_present t slash [lit ''/''] (butlast (drop 1 (parts actual)))) (\<lambda>parent.
            case parent of
              None \<Rightarrow> return False
            | Some d \<Rightarrow>
                bindW (catchW (bindW (os_stat_at d (last_name actual)) (\<lambda>m. return (Some m)))
                         (\<lambda>e. if e = OSError ENOENT then return None else raise e)) (\<lambda>found.
                  case found of
                    None \<Rightarrow> return False
                  | Some m \<Rightarrow> seqW (stage_check (st_kind m = KLnk) ''symlink_or_type_conflict'') (return True)))))))"

text \<open>The entries of a directory; every fault of an entry has the same reason.\<close>

definition entry_ok :: "pystr \<Rightarrow> bool" where
  "entry_ok c =
     (case encode_utf8 c of
        Inl _ \<Rightarrow> False
      | Inr encoded \<Rightarrow> c \<notin> {[], lit ''.'', lit ''..''} \<and> length encoded \<le> 255
                     \<and> \<not> list_ex (\<lambda>x. x < 32 \<or> x = 127) c \<and> \<not> list_ex is_cf c)"

definition entry_bytes :: "pystr list \<Rightarrow> nat" where
  "entry_bytes names = sum_list (map (\<lambda>c. case encode_utf8 c of Inl _ \<Rightarrow> 0 | Inr bs \<Rightarrow> length bs) names)"

definition tree_entries :: "nat \<Rightarrow> pystr list io" where
  "tree_entries fd =
     bindW (os_errors_to ''unexpected_entry'' (os_scandir fd)) (\<lambda>names.
     seqW (stage_check (\<not> (length names \<le> max_entries \<and> entry_bytes names \<le> max_entry_bytes \<and> list_all entry_ok names))
             ''unexpected_entry'')
       (return (sort names)))"

subsection \<open>Directories\<close>

definition same_file :: "stat_result \<Rightarrow> stat_result \<Rightarrow> bool" where
  "same_file a b = (st_dev a = st_dev b \<and> st_ino a = st_ino b)"

text \<open>\<open>self.mount_id(a) != self.mount_id(b)\<close> as a check.\<close>

definition check_mount :: "nat \<Rightarrow> nat \<Rightarrow> string \<Rightarrow> unit io" where
  "check_mount a b reason =
     bindW (linux_mount_id a) (\<lambda>x. bindW (linux_mount_id b) (\<lambda>y. stage_check (x \<noteq> y) reason))"

definition check_no_xattrs :: "nat \<Rightarrow> string \<Rightarrow> unit io" where
  "check_no_xattrs fd reason = bindW (stage_xattrs fd) (\<lambda>names. stage_check (names \<noteq> []) reason)"

definition check_entries :: "nat \<Rightarrow> pystr list option \<Rightarrow> string \<Rightarrow> unit io" where
  "check_entries fd allowed reason =
     (case allowed of
        None \<Rightarrow> return ()
      | Some names \<Rightarrow> bindW (tree_entries fd) (\<lambda>found. stage_check (found \<noteq> sort names) reason))"

definition validate_directory :: "secure_tree \<Rightarrow> ppath \<Rightarrow> nat \<Rightarrow> pystr list option \<Rightarrow> pystr list io" where
  "validate_directory t canonical mode allowed =
     bindW (open_parent t canonical) (\<lambda>(parent, name).
     bindW (open_directory t canonical (Some mode)) (\<lambda>fd.
     bindW (os_fstat fd) (\<lambda>opened.
     bindW (os_stat_at parent name) (\<lambda>published.
     seqW (stage_check (\<not> same_file opened published) ''mount_boundary'')
     (seqW (check_mount fd parent ''mount_boundary'')
     (bindW (tree_entries fd) (\<lambda>entries.
      seqW (stage_check (case allowed of None \<Rightarrow> False | Some names \<Rightarrow> entries \<noteq> sort names) ''unexpected_entry'')
      (seqW (check_no_xattrs fd ''resource_desired_mismatch'')
        (return entries)))))))))"

definition create_directory :: "secure_tree \<Rightarrow> ppath \<Rightarrow> nat \<Rightarrow> unit io" where
  "create_directory t canonical mode =
     bindW (open_parent t canonical) (\<lambda>(parent, name).
       catchW
         (seqW (os_mkdir parent name 448)
         (bindW (os_open_dir_at parent name) (\<lambda>fd.
          bindW (os_fstat fd) (\<lambda>m.
          seqW (stage_check (st_uid m \<noteq> tr_uid t \<or> st_gid m \<noteq> tr_gid t \<or> st_perm m \<noteq> 448) ''mount_boundary'')
          (seqW (check_no_xattrs fd ''mount_boundary'')
          (seqW (check_mount fd parent ''mount_boundary'')
          (seqW (if mode \<noteq> 448 then os_fchmod fd mode else return ())
          (seqW (os_fsync fd)
          (seqW (os_fsync parent)
            (bindW (validate_directory t canonical mode (Some [])) (\<lambda>_. return ()))))))))))
         ) (\<lambda>e. if e = OSError EEXIST then stage_error ''resource_prior_mismatch'' else raise e))"

text \<open>What the directory must still be after a synchronisation.\<close>

definition check_republished ::
  "secure_tree \<Rightarrow> nat \<Rightarrow> nat \<Rightarrow> pystr \<Rightarrow> stat_result \<Rightarrow> nat \<Rightarrow> unit io" where
  "check_republished t parent fd name earlier mode =
     bindW (os_fstat fd) (\<lambda>after.
     bindW (os_stat_at parent name) (\<lambda>republished.
     seqW (stage_check (\<not> same_file after earlier \<or> \<not> same_file republished earlier \<or> st_perm after \<noteq> mode
                        \<or> st_uid after \<noteq> tr_uid t \<or> st_gid after \<noteq> tr_gid t) ''illegal_recovery_state'')
       (check_no_xattrs fd ''illegal_recovery_state'')))"

definition sync_directory :: "secure_tree \<Rightarrow> ppath \<Rightarrow> nat \<Rightarrow> pystr list option \<Rightarrow> unit io" where
  "sync_directory t canonical mode allowed =
     bindW (open_parent t canonical) (\<lambda>(parent, name).
     bindW (open_directory t canonical (Some mode)) (\<lambda>fd.
     bindW (os_fstat fd) (\<lambda>earlier.
     bindW (os_stat_at parent name) (\<lambda>published.
     seqW (stage_check (\<not> same_file earlier published) ''illegal_recovery_state'')
     (seqW (check_mount fd parent ''illegal_recovery_state'')
     (seqW (check_entries fd allowed ''illegal_recovery_state'')
     (seqW (os_fsync fd)
     (seqW (os_fsync parent)
       (check_republished t parent fd name earlier mode)))))))))"

text \<open>A directory that a crash left between \<open>mkdir\<close> and \<open>fchmod\<close>.\<close>

definition check_provisional ::
  "secure_tree \<Rightarrow> nat \<Rightarrow> nat \<Rightarrow> stat_result \<Rightarrow> nat \<Rightarrow> pystr list \<Rightarrow> unit io" where
  "check_provisional t parent fd m mode allowed =
     seqW (stage_check (st_uid m \<noteq> tr_uid t \<or> st_gid m \<noteq> tr_gid t \<or> st_perm m \<noteq> mode \<or> st_nlink m \<noteq> 2)
             ''illegal_recovery_state'')
     (seqW (check_no_xattrs fd ''illegal_recovery_state'')
     (seqW (check_entries fd (Some allowed) ''illegal_recovery_state'')
       (check_mount fd parent ''illegal_recovery_state'')))"

definition open_provisional ::
  "secure_tree \<Rightarrow> ppath \<Rightarrow> pystr list \<Rightarrow> (nat \<times> pystr \<times> nat \<times> stat_result) io" where
  "open_provisional t canonical allowed =
     bindW (open_parent t canonical) (\<lambda>(parent, name).
     bindW (open_directory t canonical None) (\<lambda>fd.
     bindW (os_fstat fd) (\<lambda>earlier.
     bindW (os_stat_at parent name) (\<lambda>published.
     seqW (check_provisional t parent fd earlier 448 allowed)
     (seqW (stage_check (\<not> same_file earlier published) ''illegal_recovery_state'')
       (return (parent, name, fd, earlier)))))))"

definition validate_provisional_directory :: "secure_tree \<Rightarrow> ppath \<Rightarrow> pystr list \<Rightarrow> unit io" where
  "validate_provisional_directory t canonical allowed =
     bindW (open_provisional t canonical allowed) (\<lambda>_. return ())"

definition recover_provisional_directory :: "secure_tree \<Rightarrow> ppath \<Rightarrow> nat \<Rightarrow> pystr list \<Rightarrow> unit io" where
  "recover_provisional_directory t canonical final_mode allowed =
     bindW (open_provisional t canonical allowed) (\<lambda>(parent, name, fd, earlier).
     seqW (os_fchmod fd final_mode)
     (seqW (os_fsync fd)
     (seqW (os_fsync parent)
     (bindW (os_fstat fd) (\<lambda>after.
      bindW (os_stat_at parent name) (\<lambda>republished.
      seqW (check_provisional t parent fd after final_mode allowed)
        (stage_check (\<not> same_file after earlier \<or> \<not> same_file republished earlier) ''illegal_recovery_state'')))))))"

definition remove_directory :: "secure_tree \<Rightarrow> ppath \<Rightarrow> nat \<Rightarrow> unit io" where
  "remove_directory t canonical mode =
     bindW (open_parent t canonical) (\<lambda>(parent, name).
     bindW (open_directory t canonical (Some mode)) (\<lambda>fd.
     bindW (tree_entries fd) (\<lambda>entries.
     seqW (stage_check (entries \<noteq> []) ''rollback_foreign_state'')
     (bindW (os_fstat fd) (\<lambda>opened.
      bindW (os_stat_at parent name) (\<lambda>published.
      seqW (stage_check (\<not> same_file opened published) ''rollback_foreign_state'')
      (seqW (check_mount fd parent ''mount_boundary'')
      (seqW (os_rmdir parent name)
        (os_fsync parent)))))))))"

subsection \<open>The marker\<close>

text \<open>At most \<open>remaining\<close> bytes, in reads of at most 4096; each turn takes at least one byte.\<close>

fun read_marker_bytes :: "nat \<Rightarrow> nat \<Rightarrow> nat \<Rightarrow> nat \<Rightarrow> bytes io" where
  "read_marker_bytes 0 fd pos remaining = raise out_of_fuel"
| "read_marker_bytes (Suc fuel) fd pos remaining =
     (if remaining = 0 then return []
      else bindW (os_read fd pos (min 4096 remaining)) (\<lambda>chunk.
        if chunk = [] then return []
        else bindW (read_marker_bytes fuel fd (pos + length chunk) (remaining - length chunk))
               (\<lambda>rest. return (chunk @ rest))))"

definition marker_bytes_of :: "nat \<Rightarrow> bytes io" where
  "marker_bytes_of fd = read_marker_bytes (max_marker_bytes + 2) fd 0 (max_marker_bytes + 1)"

definition marker_unlike :: "secure_tree \<Rightarrow> stat_result \<Rightarrow> nat list \<Rightarrow> bool" where
  "marker_unlike t m links =
     (st_kind m \<noteq> KReg \<or> st_uid m \<noteq> tr_uid t \<or> st_gid m \<noteq> tr_gid t \<or> st_perm m \<noteq> 384 \<or> st_nlink m \<notin> set links)"

definition read_file_at :: "secure_tree \<Rightarrow> nat \<Rightarrow> pystr \<Rightarrow> bytes \<Rightarrow> unit io" where
  "read_file_at t parent name expected =
     bindW (os_open_at parent name) (\<lambda>fd.
     bindW (os_fstat fd) (\<lambda>earlier.
     bindW (stage_xattrs fd) (\<lambda>initial.
     seqW (stage_check (marker_unlike t earlier [1] \<or> initial \<noteq> []) ''marker_content_mismatch'')
     (seqW (check_mount fd parent ''marker_content_mismatch'')
     (bindW (marker_bytes_of fd) (\<lambda>content.
      bindW (os_fstat fd) (\<lambda>after.
      bindW (os_stat_at parent name) (\<lambda>published.
      seqW (stage_check (stable_metadata earlier \<noteq> stable_metadata after
                         \<or> stable_metadata after \<noteq> stable_metadata published) ''marker_content_mismatch'')
      (bindW (stage_xattrs fd) (\<lambda>now.
         stage_check (now \<noteq> initial \<or> content \<noteq> expected) ''marker_content_mismatch''))))))))))"

definition read_file :: "secure_tree \<Rightarrow> ppath \<Rightarrow> bytes \<Rightarrow> unit io" where
  "read_file t canonical expected =
     bindW (open_parent t canonical) (\<lambda>(parent, name).
       catchW (read_file_at t parent name expected)
         (\<lambda>e. if e = OSError ENOENT then stage_error ''resource_desired_mismatch''
              else if is_os_error e then stage_error ''symlink_or_type_conflict'' else raise e))"

definition read_named_marker :: "secure_tree \<Rightarrow> nat \<Rightarrow> pystr \<Rightarrow> bytes \<Rightarrow> nat list \<Rightarrow> unit io" where
  "read_named_marker t parent name expected links =
     bindW (os_open_at parent name) (\<lambda>fd.
     bindW (os_fstat fd) (\<lambda>earlier.
     bindW (stage_xattrs fd) (\<lambda>initial.
     seqW (stage_check (marker_unlike t earlier links \<or> max_marker_bytes < st_size earlier \<or> initial \<noteq> [])
             ''marker_content_mismatch'')
     (seqW (check_mount fd parent ''marker_content_mismatch'')
     (bindW (marker_bytes_of fd) (\<lambda>content.
      bindW (os_fstat fd) (\<lambda>after.
      seqW (stage_check (content \<noteq> expected \<or> stable_metadata earlier \<noteq> stable_metadata after)
              ''marker_content_mismatch'')
      (bindW (stage_xattrs fd) (\<lambda>now. stage_check (now \<noteq> initial) ''marker_content_mismatch'')))))))))"

definition marker_candidates :: "pystr list \<Rightarrow> pystr list" where
  "marker_candidates entries = filter (starts_with marker_temp_prefix) entries"

definition check_sole_candidate :: "pystr list \<Rightarrow> unit io" where
  "check_sole_candidate candidates =
     stage_check (length candidates \<noteq> 1 \<or> \<not> is_temp_name marker_temp_prefix (hd candidates)) ''unexpected_entry''"

text \<open>\<open>os.stat\<close> that turns a missing file into \<open>None\<close>.\<close>

definition stat_if_there :: "nat \<Rightarrow> pystr \<Rightarrow> stat_result option io" where
  "stat_if_there parent name =
     catchW (bindW (os_stat_at parent name) (\<lambda>m. return (Some m)))
       (\<lambda>e. if e = OSError ENOENT then return None else raise e)"

definition recover_marker_temp :: "secure_tree \<Rightarrow> nat \<Rightarrow> bytes \<Rightarrow> unit io" where
  "recover_marker_temp t parent expected =
     bindW (tree_entries parent) (\<lambda>entries.
       let candidates = marker_candidates entries; candidate = hd candidates in
       if candidates = [] then return ()
       else seqW (check_sole_candidate candidates)
         (bindW (stat_if_there parent (last_name marker_path)) (\<lambda>marker.
          seqW (read_named_marker t parent candidate expected (if marker = None then [1] else [2]))
          (bindW (os_stat_at parent candidate) (\<lambda>temp.
           seqW (stage_check (case marker of None \<Rightarrow> False | Some m \<Rightarrow> \<not> same_file m temp) ''marker_content_mismatch'')
           (seqW (os_unlink parent candidate) (os_fsync parent)))))))"

definition recover_marker_residue :: "secure_tree \<Rightarrow> bytes \<Rightarrow> unit io" where
  "recover_marker_residue t expected =
     bindW (path_state t config_root) (\<lambda>present.
       if \<not> present then return ()
       else bindW (open_directory t config_root None) (\<lambda>parent. recover_marker_temp t parent expected))"

definition validate_marker_residue :: "secure_tree \<Rightarrow> bytes \<Rightarrow> pystr option io" where
  "validate_marker_residue t expected =
     bindW (path_state t config_root) (\<lambda>present.
       if \<not> present then return None
       else bindW (open_directory t config_root None) (\<lambda>parent.
            bindW (tree_entries parent) (\<lambda>entries.
              let candidates = marker_candidates entries; candidate = hd candidates in
              if candidates = [] then return None
              else seqW (check_sole_candidate candidates)
                (seqW (read_named_marker t parent candidate expected [1, 2])
                (bindW (os_stat_at parent candidate) (\<lambda>temp.
                 bindW (stat_if_there parent (last_name marker_path)) (\<lambda>marker.
                 seqW (stage_check
                         (case marker of
                            None \<Rightarrow> st_nlink temp \<noteq> 1
                          | Some m \<Rightarrow> st_nlink temp \<noteq> 2 \<or> \<not> same_file m temp) ''marker_content_mismatch'')
                   (return (Some candidate)))))))))"

fun write_marker_bytes :: "nat \<Rightarrow> nat \<Rightarrow> bytes \<Rightarrow> unit io" where
  "write_marker_bytes 0 fd rest = raise out_of_fuel"
| "write_marker_bytes (Suc fuel) fd rest =
     (if rest = [] then return ()
      else bindW (os_write fd rest) (\<lambda>written.
        seqW (stage_check (written = 0) ''marker_content_mismatch'')
          (write_marker_bytes fuel fd (drop written rest))))"

definition publish_steps :: "secure_tree \<Rightarrow> nat \<Rightarrow> pystr \<Rightarrow> bytes \<Rightarrow> unit io" where
  "publish_steps t parent temp_name content =
     seqW (recover_marker_temp t parent content)
     (bindW (os_create parent temp_name 384) (\<lambda>fd.
      seqW (write_marker_bytes (Suc (length content)) fd content)
      (seqW (os_fsync fd)
      (bindW (os_fstat fd) (\<lambda>m.
       seqW (stage_check (marker_unlike t m [1]) ''marker_content_mismatch'')
       (seqW (check_no_xattrs fd ''marker_content_mismatch'')
       (seqW (os_link parent temp_name (last_name marker_path))
       (seqW (os_fsync parent)
       (seqW (os_unlink parent temp_name)
       (seqW (os_fsync parent)
         (read_file t marker_path content)))))))))))"

text \<open>A \<open>FileExistsError\<close> is reported as it is; any other exception first removes the temporary file.\<close>

definition publish_marker :: "secure_tree \<Rightarrow> bytes \<Rightarrow> unit io" where
  "publish_marker t content =
     bindW (open_directory t config_root (Some 493)) (\<lambda>parent.
     bindW token_hex (\<lambda>token.
       let temp_name = marker_temp_prefix @ token in
       catchW (publish_steps t parent temp_name content)
         (\<lambda>e. if e = OSError EEXIST then stage_error ''resource_prior_mismatch''
              else seqW (catchW (seqW (os_unlink parent temp_name) (os_fsync parent))
                           (\<lambda>e'. if is_os_error e' then return () else raise e'))
                     (raise e))))"

definition sync_marker :: "secure_tree \<Rightarrow> bytes \<Rightarrow> unit io" where
  "sync_marker t expected =
     seqW (read_file t marker_path expected)
     (bindW (open_parent t marker_path) (\<lambda>(parent, name).
      bindW (os_open_at parent name) (\<lambda>fd.
      bindW (os_fstat fd) (\<lambda>earlier.
      bindW (os_stat_at parent name) (\<lambda>published.
      seqW (stage_check (\<not> same_file earlier published) ''marker_content_mismatch'')
      (seqW (check_mount fd parent ''marker_content_mismatch'')
      (seqW (os_fsync fd)
      (seqW (os_fsync parent)
      (bindW (os_fstat fd) (\<lambda>after.
       bindW (os_stat_at parent name) (\<lambda>republished.
       seqW (stage_check (\<not> same_file after earlier \<or> \<not> same_file republished earlier) ''marker_content_mismatch'')
         (read_file t marker_path expected))))))))))))"

definition remove_marker :: "secure_tree \<Rightarrow> bytes \<Rightarrow> unit io" where
  "remove_marker t expected =
     bindW (open_parent t marker_path) (\<lambda>(parent, name).
     seqW (read_file t marker_path expected)
     (bindW (os_open_at parent name) (\<lambda>fd.
      bindW (os_fstat fd) (\<lambda>opened.
      bindW (os_stat_at parent name) (\<lambda>published.
      seqW (stage_check (\<not> same_file opened published) ''marker_content_mismatch'')
      (seqW (os_unlink parent name)
        (os_fsync parent)))))))"

end
