(* ===== verification/Stage05.thy ===== *)
theory Stage05
  imports Stage05_Tree Sha256
begin

text \<open>
  The plan and the class \<open>Stage05Reconciler\<close> of \<open>src/src/kitdev_sandboxes/stage05.py\<close>: the four
  resources are created in a fixed order under the journal of the stage, and removed in the
  opposite one; nothing starts where a production installation may exist.  \<open>systemctl\<close> is
  the parameter \<open>show\<close>: its answer for a unit at a call, or \<open>None\<close> for a \<open>SubprocessError\<close>.
\<close>

subsection \<open>The plan\<close>

record stage_plan =
  pl_bundle_hash :: pystr
  pl_marker_bytes :: bytes
  pl_marker_hash :: pystr
  pl_plan_bytes :: bytes
  pl_plan_hash :: pystr
  pl_resources :: "resource_record list"
  pl_record :: journal_record

definition stage_json :: "json \<Rightarrow> nat \<Rightarrow> bytes res" where
  "stage_json v limit =
     (let encoded = dumps v @ [10] in
      thenR (raise_if (limit < length encoded) (Stage05Error ''illegal_recovery_state'')) (Inr encoded))"

definition stage_marker :: "pystr \<Rightarrow> json" where
  "stage_marker bundle_hash = JObj
     [(lit ''authorization_scope'', JStr (lit ''disposable-ovh-lab'')), (lit ''bundle_sha256'', JStr bundle_hash),
      (lit ''install_id'', JStr the_install_id), (lit ''plan_id'', JStr the_plan_id), (lit ''schema_version'', JInt 1)]"

definition stage_resources :: "pystr \<Rightarrow> bytes \<Rightarrow> resource_record list res" where
  "stage_resources bundle_hash marker_raw =
     mapR (\<lambda>(rid, path, desired). mk_resource (JStr (lit rid)) (JStr (path_str path)) (JStr (lit ''absent'')) (JStr desired))
       [(''directory.config'', config_root, lit ''directory:uid=0:gid=0:mode=0755''),
        (''directory.experiments'', experiments_root, lit ''directory:uid=0:gid=0:mode=0700''),
        (''directory.workspace'', workspace_path, lit ''directory:uid=0:gid=0:mode=0700''),
        (''file.authorization'', marker_path,
         lit ''file:uid=0:gid=0:mode=0600:nlink=1:sha256:'' @ sha256_hex marker_raw @ lit '':bundle_sha256='' @ bundle_hash)]"

definition stage_document :: "pystr \<Rightarrow> resource_record list \<Rightarrow> json" where
  "stage_document bundle_hash rs = JObj
     [(lit ''bundle_sha256'', JStr bundle_hash), (lit ''install_id'', JStr the_install_id),
      (lit ''operations'', JArr (map (JStr \<circ> lit)
         [''create-directory.config'', ''create-directory.experiments'', ''create-directory.workspace'',
          ''publish-file.authorization''])),
      (lit ''plan_id'', JStr the_plan_id), (lit ''resources'', JArr (map resource_as_dict rs)),
      (lit ''schema_version'', JInt 1), (lit ''stage'', JStr (lit ''05''))]"

definition build_plan :: "pystr \<Rightarrow> stage_plan res" where
  "build_plan bundle_digest =
     thenR (raise_if (\<not> all_of_length is_lower_hex 64 bundle_digest) (Stage05Error ''bundle_digest_required''))
     (let bundle_hash = lit ''sha256:'' @ bundle_digest in
      bindR (stage_json (stage_marker bundle_hash) max_marker_bytes) (\<lambda>marker_raw.
      bindR (stage_resources bundle_hash marker_raw) (\<lambda>rs.
      bindR (stage_json (stage_document bundle_hash rs) max_plan_bytes) (\<lambda>plan_raw.
        let the_hash = lit ''sha256:'' @ sha256_hex plan_raw in
        bindR (mk_journal (JStr the_install_id) (JStr the_plan_id) (JStr the_hash) rs [PLANNED] (JInt 1)) (\<lambda>record.
          Inr \<lparr>pl_bundle_hash = bundle_hash, pl_marker_bytes = marker_raw,
               pl_marker_hash = lit ''sha256:'' @ sha256_hex marker_raw, pl_plan_bytes = plan_raw,
               pl_plan_hash = the_hash, pl_resources = rs, pl_record = record\<rparr>)))))"

record stage_result =
  rs_operation :: string
  rs_journal_root :: string
  rs_journal_state :: string
  rs_transition_count :: nat
  rs_plan_hash :: pystr
  rs_bundle_hash :: pystr
  rs_marker_hash :: pystr
  rs_resource_state :: string
  rs_workspace_empty :: bool
  rs_retained_provenance :: bool
  rs_next_action :: string

definition yes_no :: "bool \<Rightarrow> string" where
  "yes_no b = (if b then ''yes'' else ''no'')"

definition evidence_line :: "stage_result \<Rightarrow> pystr" where
  "evidence_line r =
     lit (''stage=05 operation='' @ rs_operation r @ '' status=pass journal_root='' @ rs_journal_root r
       @ '' journal_state='' @ rs_journal_state r @ '' transitions='') @ nat_digits (rs_transition_count r)
     @ lit ('' resource_state='' @ rs_resource_state r @ '' workspace_empty='' @ yes_no (rs_workspace_empty r)
       @ '' retained_provenance='' @ yes_no (rs_retained_provenance r) @ '' next_action='' @ rs_next_action r
       @ '' plan_sha256='') @ rs_plan_hash r @ lit '' bundle_sha256='' @ rs_bundle_hash r
     @ lit '' marker_sha256='' @ rs_marker_hash r"

subsection \<open>The reconciler\<close>

type_synonym show_answer = "(int \<times> bytes \<times> bytes) option"

record reconciler =
  rc_paths :: stage_paths
  rc_uid :: int
  rc_gid :: int
  rc_plan :: stage_plan
  rc_show :: "string \<Rightarrow> nat \<Rightarrow> show_answer"

definition rc_tree :: "reconciler \<Rightarrow> secure_tree" where
  "rc_tree r = \<lparr>tr_paths = rc_paths r, tr_uid = rc_uid r, tr_gid = rc_gid r\<rparr>"

definition mk_reconciler ::
  "pystr \<Rightarrow> stage_paths \<Rightarrow> int \<Rightarrow> int \<Rightarrow> (string \<Rightarrow> nat \<Rightarrow> show_answer) \<Rightarrow> reconciler res" where
  "mk_reconciler digest ps uid gid show =
     bindR (build_plan digest) (\<lambda>plan.
       Inr \<lparr>rc_paths = ps, rc_uid = uid, rc_gid = gid, rc_plan = plan, rc_show = show\<rparr>)"

text \<open>\<open>subprocess.run(...)\<close>; an \<open>OSError\<close> is a failing call of the world.\<close>

definition run_show :: "reconciler \<Rightarrow> string \<Rightarrow> show_answer io" where
  "run_show r unit = syscall (\<lambda>w s. (Inr (rc_show r unit (w_calls w)), s))"

definition load_state :: "show_answer \<Rightarrow> string res" where
  "load_state answer =
     (case answer of
        None \<Rightarrow> Inr ''unknown''
      | Some (code, out, err) \<Rightarrow>
          if code \<noteq> 0 \<or> err \<noteq> [] \<or> max_systemd_bytes < length out then Inr ''unknown''
          else if \<not> is_ascii out then Inl UnicodeDecodeError
          else if strip out = lit ''not-found'' then Inr ''absent''
          else if strip out \<in> set (map lit [''loaded'', ''masked'', ''merged'', ''stub'']) then Inr ''present''
          else Inr ''unknown'')"

definition service_state :: "reconciler \<Rightarrow> string \<Rightarrow> string io" where
  "service_state r unit =
     bindW (catchW (run_show r unit) (\<lambda>e. if is_os_error e then return None else raise e)) (\<lambda>answer.
       lift (load_state answer))"

definition production_candidates :: "ppath list" where
  "production_candidates =
     production_paths @ concat (map (\<lambda>root. map (\<lambda>unit. fixed_path (root @ ''/'' @ unit)) unit_names) unit_roots)"

fun is_stage_error :: "exn \<Rightarrow> bool" where
  "is_stage_error (Stage05Error _) = True"
| "is_stage_error _ = False"

text \<open>\<open>except Stage05Error as error: raise Stage05Error(reason)\<close>\<close>

definition stage_errors_to :: "string \<Rightarrow> 'a io \<Rightarrow> 'a io" where
  "stage_errors_to reason m = catchW m (\<lambda>e. if is_stage_error e then stage_error reason else raise e)"

definition check_no_path :: "reconciler \<Rightarrow> ppath \<Rightarrow> unit io" where
  "check_no_path r path =
     bindW (stage_errors_to ''production_state_unknown''
              (bindW (path_state (rc_tree r) path) (\<lambda>first.
               bindW (path_state (rc_tree r) path) (\<lambda>second. return (first, second))))) (\<lambda>(first, second).
       seqW (stage_check (first \<noteq> second) ''production_state_unknown'')
         (stage_check first ''production_state_present''))"

definition check_no_unit :: "reconciler \<Rightarrow> string \<Rightarrow> unit io" where
  "check_no_unit r unit =
     bindW (catchW (service_state r unit) (\<lambda>e. stage_error ''production_state_unknown'')) (\<lambda>st.
       seqW (stage_check (st = ''present'') ''production_state_present'')
         (stage_check (st \<noteq> ''absent'') ''production_state_unknown''))"

fun forW :: "'a list \<Rightarrow> ('a \<Rightarrow> unit io) \<Rightarrow> unit io" where
  "forW [] f = return ()"
| "forW (x # xs) f = seqW (f x) (forW xs f)"

definition refuse_production :: "reconciler \<Rightarrow> unit io" where
  "refuse_production r = seqW (forW production_candidates (check_no_path r)) (forW unit_names (check_no_unit r))"

definition journal_policy :: "reconciler \<Rightarrow> policy res" where
  "journal_policy r = mk_policy (rc_uid r) 448 384 None (sp_trusted (rc_paths r)) (rc_gid r)"

definition journal_entry_ok :: "pystr \<Rightarrow> bool" where
  "journal_entry_ok name = (name = journal_name \<or> is_temp_name (temp_prefix journal_name) name)"

definition state_entry_ok :: "pystr \<Rightarrow> bool" where
  "state_entry_ok name = (name = lit ''journal'' \<or> name = lit ''experiments'')"

text \<open>\<open>except OSError\<close> of one journal entry, or of the whole check of the journal file.\<close>

definition journal_entry_check :: "reconciler \<Rightarrow> nat \<Rightarrow> pystr \<Rightarrow> unit io" where
  "journal_entry_check r parent name =
     os_errors_to ''journal_root_conflict''
       (bindW (os_open_at parent name) (\<lambda>fd.
        bindW (os_fstat fd) (\<lambda>opened.
        bindW (os_stat_at parent name) (\<lambda>published.
        seqW (stage_check (marker_unlike (rc_tree r) opened [1, 2] \<or> \<not> same_file opened published) ''journal_root_conflict'')
        (seqW (check_no_xattrs fd ''journal_root_conflict'')
          (check_mount fd parent ''journal_root_conflict''))))))"

definition validate_journal_entries :: "reconciler \<Rightarrow> pystr list \<Rightarrow> unit io" where
  "validate_journal_entries r entries =
     bindW (open_directory (rc_tree r) journal_root (Some 448)) (\<lambda>parent.
       forW entries (journal_entry_check r parent))"

definition validate_existing_roots :: "reconciler \<Rightarrow> unit io" where
  "validate_existing_roots r =
     bindW (validate_directory (rc_tree r) state_root 493 None) (\<lambda>state_entries.
     seqW (stage_check (\<not> list_all state_entry_ok state_entries) ''journal_root_conflict'')
     (bindW (validate_directory (rc_tree r) journal_root 448 None) (\<lambda>journal_entries.
      seqW (stage_check (\<not> list_all journal_entry_ok journal_entries) ''journal_root_conflict'')
        (validate_journal_entries r journal_entries))))"

text \<open>The state root: created, found, or completed after a crash between \<open>mkdir\<close> and \<open>fchmod\<close>.\<close>

definition complete_state_root :: "reconciler \<Rightarrow> exn \<Rightarrow> (pystr list \<times> string) io" where
  "complete_state_root r original =
     bindW (open_directory (rc_tree r) state_root None) (\<lambda>fd.
     bindW (os_fstat fd) (\<lambda>m.
       if st_perm m \<noteq> 448 then raise original
       else seqW (recover_provisional_directory (rc_tree r) state_root 493 [])
              (return ([], ''bootstrap-residue''))))"

definition settle_state_root :: "reconciler \<Rightarrow> string io" where
  "settle_state_root r =
     bindW (path_state (rc_tree r) state_root) (\<lambda>present.
       if \<not> present
       then seqW (create_directory (rc_tree r) state_root 493) (return ''bootstrap-residue'')
       else bindW (catchW (bindW (validate_directory (rc_tree r) state_root 493 None) (\<lambda>entries. return (entries, ''exact'')))
                     (\<lambda>e. if is_stage_error e then complete_state_root r e else raise e)) (\<lambda>(entries, classification).
            seqW (stage_check (\<not> list_all state_entry_ok entries) ''journal_root_conflict'')
              (return classification)))"

definition allocate_roots :: "reconciler \<Rightarrow> string io" where
  "allocate_roots r =
     bindW (settle_state_root r) (\<lambda>classification.
     bindW (path_state (rc_tree r) journal_root) (\<lambda>present.
       if \<not> present
       then bindW (validate_directory (rc_tree r) state_root 493 None) (\<lambda>state_entries.
            seqW (stage_check (state_entries \<noteq> []) ''journal_root_conflict'')
            (seqW (sync_directory (rc_tree r) state_root 493 (Some []))
            (seqW (create_directory (rc_tree r) journal_root 448)
              (return ''bootstrap-residue''))))
       else bindW (validate_directory (rc_tree r) journal_root 448 None) (\<lambda>entries.
            seqW (stage_check (\<not> list_all journal_entry_ok entries) ''journal_root_conflict'')
              (return classification))))"

definition sync_bootstrap_roots :: "reconciler \<Rightarrow> unit io" where
  "sync_bootstrap_roots r =
     seqW (sync_directory (rc_tree r) journal_root 448 None)
       (sync_directory (rc_tree r) state_root 493 (Some [last_name journal_root]))"

definition config_entries :: "nat \<Rightarrow> pystr list" where
  "config_entries len = (if len = 4 then [last_name marker_path] else [])"

definition experiment_entries :: "nat \<Rightarrow> pystr list" where
  "experiment_entries len = (if 3 \<le> len then [last_name workspace_path] else [])"

definition onlyif :: "bool \<Rightarrow> unit io \<Rightarrow> unit io" where
  "onlyif c m = (if c then m else return ())"

definition sync_prefix :: "reconciler \<Rightarrow> nat \<Rightarrow> unit io" where
  "sync_prefix r len =
     seqW (onlyif (1 \<le> len) (sync_directory (rc_tree r) config_root 493 (Some (config_entries len))))
     (seqW (onlyif (2 \<le> len) (sync_directory (rc_tree r) experiments_root 448 (Some (experiment_entries len))))
     (seqW (onlyif (3 \<le> len) (sync_directory (rc_tree r) workspace_path 448 (Some [])))
       (onlyif (len = 4) (sync_marker (rc_tree r) (pl_marker_bytes (rc_plan r))))))"

text \<open>Which of the four resources are there, and how many of them when they are a prefix.\<close>

definition prefix_of :: "bool \<Rightarrow> bool \<Rightarrow> bool \<Rightarrow> bool \<Rightarrow> nat option" where
  "prefix_of a b c d =
     (if \<not> a \<and> \<not> b \<and> \<not> c \<and> \<not> d then Some 0
      else if a \<and> \<not> b \<and> \<not> c \<and> \<not> d then Some 1
      else if a \<and> b \<and> \<not> c \<and> \<not> d then Some 2
      else if a \<and> b \<and> c \<and> \<not> d then Some 3
      else if a \<and> b \<and> c \<and> d then Some 4 else None)"

definition raw_prefix_length :: "reconciler \<Rightarrow> nat io" where
  "raw_prefix_length r =
     bindW (path_state (rc_tree r) config_root) (\<lambda>a.
     bindW (path_state (rc_tree r) experiments_root) (\<lambda>b.
     bindW (path_state (rc_tree r) workspace_path) (\<lambda>c.
     bindW (path_state (rc_tree r) marker_path) (\<lambda>d.
       case prefix_of a b c d of None \<Rightarrow> stage_error ''illegal_recovery_state'' | Some n \<Rightarrow> return n))))"

text \<open>\<open>_prefix_length(strict_entries=True, ...)\<close>; every call of the code is strict.\<close>

definition prefix_length :: "reconciler \<Rightarrow> bool \<Rightarrow> bool \<Rightarrow> pystr option \<Rightarrow> nat io" where
  "prefix_length r allow_config_provisional repair_config_provisional marker_residue =
     bindW (raw_prefix_length r) (\<lambda>len.
     seqW (onlyif (1 \<le> len)
             (catchW (bindW (validate_directory (rc_tree r) config_root 493
                               (Some (config_entries len @ (case marker_residue of None \<Rightarrow> [] | Some name \<Rightarrow> [name]))))
                        (\<lambda>_. return ()))
                (\<lambda>e. if is_stage_error e \<and> allow_config_provisional \<and> len = 1
                     then if repair_config_provisional
                          then recover_provisional_directory (rc_tree r) config_root 493 []
                          else validate_provisional_directory (rc_tree r) config_root []
                     else raise e)))
     (seqW (onlyif (2 \<le> len)
              (bindW (validate_directory (rc_tree r) experiments_root 448 (Some (experiment_entries len))) (\<lambda>_. return ())))
     (seqW (onlyif (3 \<le> len)
              (bindW (validate_directory (rc_tree r) workspace_path 448 (Some [])) (\<lambda>_. return ())))
     (seqW (onlyif (len = 4 \<and> marker_residue = None)
              (read_file (rc_tree r) marker_path (pl_marker_bytes (rc_plan r))))
       (return len)))))"

subsection \<open>The journal of the stage\<close>

definition record_unlike :: "reconciler \<Rightarrow> journal_record \<Rightarrow> bool" where
  "record_unlike r record =
     (install_id record \<noteq> the_install_id \<or> plan_id record \<noteq> the_plan_id
      \<or> plan_hash record \<noteq> pl_plan_hash (rc_plan r) \<or> resources record \<noteq> pl_resources (rc_plan r))"

definition assert_record_exact :: "reconciler \<Rightarrow> journal_record \<Rightarrow> unit io" where
  "assert_record_exact r record = stage_check (record_unlike r record) ''journal_conflict''"

text \<open>The three journal exceptions turned into reasons.\<close>

definition journal_errors_to :: "string \<Rightarrow> string \<Rightarrow> string \<Rightarrow> 'a io \<Rightarrow> 'a io" where
  "journal_errors_to corrupt insecure conflict m =
     catchW m (\<lambda>e. case e of
        JournalCorrupt _ \<Rightarrow> stage_error corrupt
      | JournalSecurityError _ \<Rightarrow> stage_error insecure
      | JournalConflict _ \<Rightarrow> stage_error conflict
      | _ \<Rightarrow> raise e)"

definition validate_journal_metadata :: "reconciler \<Rightarrow> nat list \<Rightarrow> nat io" where
  "validate_journal_metadata r allowed =
     bindW (open_directory (rc_tree r) journal_root (Some 448)) (\<lambda>parent.
       os_errors_to ''journal_conflict''
         (bindW (os_open_at parent journal_name) (\<lambda>fd.
          bindW (os_fstat fd) (\<lambda>m.
          seqW (stage_check (marker_unlike (rc_tree r) m allowed) ''journal_conflict'')
          (seqW (check_no_xattrs fd ''journal_conflict'')
          (seqW (check_mount fd parent ''journal_conflict'')
            (return (st_nlink m))))))))"

definition load_exact :: "reconciler \<Rightarrow> policy \<Rightarrow> session \<Rightarrow> bool \<Rightarrow> journal_record io" where
  "load_exact r pol ses inflight =
     bindW (journal_errors_to ''journal_corrupt'' ''journal_conflict'' ''transaction_busy''
              (if inflight then session_load_inflight pol ses the_install_id
               else session_load pol ses the_install_id)) (\<lambda>record.
     seqW (assert_record_exact r record)
     (bindW (validate_journal_metadata r (if inflight then [1, 2] else [1])) (\<lambda>link_count.
      seqW (stage_check (inflight \<and> link_count = 2 \<and> record \<noteq> pl_record (rc_plan r)) ''journal_conflict'')
        (return record))))"

definition load_unpublished_exact :: "reconciler \<Rightarrow> policy \<Rightarrow> session \<Rightarrow> journal_record io" where
  "load_unpublished_exact r pol ses =
     bindW (journal_errors_to ''journal_corrupt'' ''journal_conflict'' ''journal_conflict''
              (session_load_unpublished pol ses the_install_id)) (\<lambda>record.
     seqW (assert_record_exact r record)
     (seqW (stage_check (record \<noteq> pl_record (rc_plan r)) ''journal_conflict'')
       (return record)))"

text \<open>A \<open>JournalConflict\<close> of the creation, or of nothing else, leads to loading.\<close>

definition create_or_load :: "reconciler \<Rightarrow> policy \<Rightarrow> session \<Rightarrow> journal_record io" where
  "create_or_load r pol ses =
     catchW (bindW (session_create pol ses (pl_record (rc_plan r))) (\<lambda>record.
             bindW (validate_journal_metadata r [1]) (\<lambda>_. return record)))
       (\<lambda>e. case e of
          JournalConflict _ \<Rightarrow> load_exact r pol ses False
        | JournalCorrupt _ \<Rightarrow> stage_error ''journal_corrupt''
        | JournalSecurityError _ \<Rightarrow> stage_error ''journal_conflict''
        | _ \<Rightarrow> raise e)"

fun next_states :: "journal_state \<Rightarrow> journal_state list" where
  "next_states PLANNED = [APPLYING, FAILED]"
| "next_states APPLYING = [APPLIED, ROLLING_BACK, FAILED]"
| "next_states APPLIED = [VALIDATED, ROLLING_BACK, FAILED]"
| "next_states VALIDATED = [ROLLING_BACK]"
| "next_states FAILED = [ROLLING_BACK]"
| "next_states ROLLING_BACK = [ROLLED_BACK, FAILED]"
| "next_states ROLLED_BACK = []"

definition prepare_existing_record :: "reconciler \<Rightarrow> policy \<Rightarrow> session \<Rightarrow> journal_record io" where
  "prepare_existing_record r pol ses =
     bindW (journal_errors_to ''journal_corrupt'' ''journal_conflict'' ''journal_conflict''
              (session_inspect_residue pol ses the_install_id)) (\<lambda>(record, link_count, residues).
     seqW (assert_record_exact r record)
     (bindW (validate_journal_metadata r [1, 2]) (\<lambda>_.
      bindW (lift (mapR (advanced record) (next_states (state_of record)))) (\<lambda>outbound.
        if link_count = 2
        then seqW (stage_check (record \<noteq> pl_record (rc_plan r)) ''journal_conflict'')
               (load_exact r pol ses False)
        else seqW (stage_check (list_ex (\<lambda>x. x \<notin> set outbound) residues) ''journal_conflict'')
               (if residues = [] then return record
                else seqW (journal_errors_to ''journal_conflict'' ''journal_conflict'' ''journal_conflict''
                             (session_cleanup_temps pol ses the_install_id (record # outbound)))
                       (load_exact r pol ses False))))))"

definition stage_transition :: "reconciler \<Rightarrow> policy \<Rightarrow> session \<Rightarrow> journal_state \<Rightarrow> journal_record io" where
  "stage_transition r pol ses st =
     journal_errors_to ''journal_conflict'' ''journal_conflict'' ''journal_conflict''
       (bindW (session_transition pol ses the_install_id the_plan_id (pl_plan_hash (rc_plan r))
                 (pl_resources (rc_plan r)) st) (\<lambda>record.
        bindW (validate_journal_metadata r [1]) (\<lambda>_. return record)))"

subsection \<open>The operations\<close>

definition mk_result :: "reconciler \<Rightarrow> string \<Rightarrow> string \<Rightarrow> journal_record \<Rightarrow> nat \<Rightarrow> stage_result io" where
  "mk_result r operation root record len =
     bindW (if len < 3 then return True
            else bindW (validate_directory (rc_tree r) workspace_path 448 None) (\<lambda>entries. return (entries = []))) (\<lambda>empty.
       return \<lparr>rs_operation = operation, rs_journal_root = root, rs_journal_state = state_value (state_of record),
               rs_transition_count = length (transitions record), rs_plan_hash = pl_plan_hash (rc_plan r),
               rs_bundle_hash = pl_bundle_hash (rc_plan r), rs_marker_hash = pl_marker_hash (rc_plan r),
               rs_resource_state = (if len = 0 \<or> len = 4 then ''exact'' else ''prefix''),
               rs_workspace_empty = empty, rs_retained_provenance = True,
               rs_next_action = (if state_of record = ROLLED_BACK then ''reinstall'' else ''stage-specific-approval'')\<rparr>)"

definition require_execution_identity :: "reconciler \<Rightarrow> unit io" where
  "require_execution_identity r =
     bindW os_effective_ids (\<lambda>(euid, egid).
       stage_check (rc_paths r = production_stage_paths \<and> (euid \<noteq> 0 \<or> egid \<noteq> 0)) ''unsafe_ancestry'')"

definition record_failed_if_stable :: "reconciler \<Rightarrow> policy \<Rightarrow> session \<Rightarrow> unit io" where
  "record_failed_if_stable r pol ses =
     catchW (bindW (load_exact r pol ses False) (\<lambda>current.
               if state_of current \<noteq> APPLYING then return ()
               else seqW (recover_marker_residue (rc_tree r) (pl_marker_bytes (rc_plan r)))
                    (bindW (prefix_length r True True None) (\<lambda>_.
                     bindW (stage_transition r pol ses FAILED) (\<lambda>_. return ())))))
       (\<lambda>e. return ())"

text \<open>\<open>_prefix_length(strict_entries=True) != 4\<close>\<close>

definition require_exact :: "reconciler \<Rightarrow> nat \<Rightarrow> string \<Rightarrow> unit io" where
  "require_exact r n reason = bindW (prefix_length r False True None) (\<lambda>len. stage_check (len \<noteq> n) reason)"

definition create_missing :: "reconciler \<Rightarrow> nat \<Rightarrow> unit io" where
  "create_missing r len =
     seqW (onlyif (len < 1) (create_directory (rc_tree r) config_root 493))
     (seqW (onlyif (len < 2) (create_directory (rc_tree r) experiments_root 448))
     (seqW (onlyif (len < 3) (create_directory (rc_tree r) workspace_path 448))
       (onlyif (len < 4) (publish_marker (rc_tree r) (pl_marker_bytes (rc_plan r))))))"

definition apply_resources :: "reconciler \<Rightarrow> policy \<Rightarrow> session \<Rightarrow> string \<Rightarrow> nat \<Rightarrow> stage_result io" where
  "apply_resources r pol ses root_class len =
     seqW (create_missing r len)
     (seqW (require_exact r 4 ''resource_desired_mismatch'')
     (bindW (stage_transition r pol ses APPLIED) (\<lambda>_.
      seqW (refuse_production r)
      (seqW (require_exact r 4 ''resource_desired_mismatch'')
      (bindW (stage_transition r pol ses VALIDATED) (\<lambda>record.
       seqW (require_exact r 4 ''resource_desired_mismatch'')
         (mk_result r ''execute'' root_class record 4)))))))"

definition apply_guarded :: "reconciler \<Rightarrow> policy \<Rightarrow> session \<Rightarrow> string \<Rightarrow> nat \<Rightarrow> stage_result io" where
  "apply_guarded r pol ses root_class len =
     catchW (apply_resources r pol ses root_class len)
       (\<lambda>e. seqW (record_failed_if_stable r pol ses) (raise e))"

definition execute_prologue :: "reconciler \<Rightarrow> policy \<Rightarrow> session \<Rightarrow> journal_record io" where
  "execute_prologue r pol ses =
     seqW (validate_existing_roots r)
     (seqW (refuse_production r)
     (bindW (path_state (rc_tree r) journal_path) (\<lambda>journal_present.
      bindW (raw_prefix_length r) (\<lambda>raw_length.
      seqW (stage_check (\<not> journal_present \<and> raw_length \<noteq> 0) ''resource_prior_mismatch'')
        (if journal_present then prepare_existing_record r pol ses
         else bindW (validate_directory (rc_tree r) journal_root 448 None) (\<lambda>journal_entries.
              seqW (onlyif (journal_entries \<noteq> []) (bindW (load_unpublished_exact r pol ses) (\<lambda>_. return ())))
              (seqW (sync_bootstrap_roots r)
                (create_or_load r pol ses))))))))"

definition execute_length :: "reconciler \<Rightarrow> journal_record \<Rightarrow> nat io" where
  "execute_length r record =
     (if state_of record = APPLYING
      then seqW (refuse_production r)
           (seqW (recover_marker_residue (rc_tree r) (pl_marker_bytes (rc_plan r)))
           (bindW (prefix_length r True True None) (\<lambda>len.
            seqW (sync_prefix r len) (return len))))
      else prefix_length r False True None)"

definition execute_from ::
  "reconciler \<Rightarrow> policy \<Rightarrow> session \<Rightarrow> string \<Rightarrow> journal_record \<Rightarrow> nat \<Rightarrow> stage_result io" where
  "execute_from r pol ses root_class record len =
     (case state_of record of
        VALIDATED \<Rightarrow>
          seqW (stage_check (len \<noteq> 4) ''resource_desired_mismatch'')
          (seqW (refuse_production r) (mk_result r ''execute'' root_class record len))
      | PLANNED \<Rightarrow>
          seqW (stage_check (len \<noteq> 0) ''resource_prior_mismatch'')
          (seqW (refuse_production r)
          (bindW (stage_transition r pol ses APPLYING) (\<lambda>_. apply_guarded r pol ses root_class len)))
      | APPLYING \<Rightarrow> seqW (refuse_production r) (apply_guarded r pol ses root_class len)
      | APPLIED \<Rightarrow>
          seqW (stage_check (len \<noteq> 4) ''resource_desired_mismatch'')
          (seqW (refuse_production r)
          (bindW (stage_transition r pol ses VALIDATED) (\<lambda>record'. mk_result r ''execute'' root_class record' len)))
      | _ \<Rightarrow> stage_error ''illegal_recovery_state'')"

definition execute_body :: "reconciler \<Rightarrow> policy \<Rightarrow> string \<Rightarrow> session \<Rightarrow> stage_result io" where
  "execute_body r pol root_class ses =
     bindW (execute_prologue r pol ses) (\<lambda>record.
     bindW (execute_length r record) (\<lambda>len.
       execute_from r pol ses root_class record len))"

text \<open>\<open>with store.locked(...) as session\<close> inside \<open>try: ... except JournalConflict\<close>.\<close>

definition under_lock :: "reconciler \<Rightarrow> bool \<Rightarrow> (policy \<Rightarrow> session \<Rightarrow> stage_result io) \<Rightarrow> stage_result io" where
  "under_lock r exclusive body =
     bindW (lift (actual_path (rc_paths r) journal_root)) (\<lambda>root.
     bindW (lift (journal_policy r)) (\<lambda>pol.
       catchW (bindW (locked pol root exclusive (body pol)) (\<lambda>(x, _). return x))
         (\<lambda>e. case e of JournalConflict _ \<Rightarrow> stage_error ''transaction_busy'' | _ \<Rightarrow> raise e)))"

definition stage_execute :: "reconciler \<Rightarrow> stage_result io" where
  "stage_execute r =
     seqW (require_execution_identity r)
     (seqW (refuse_production r)
     (bindW (allocate_roots r) (\<lambda>root_class.
        under_lock r True (\<lambda>pol ses. execute_body r pol root_class ses))))"

definition rollback_prologue :: "reconciler \<Rightarrow> policy \<Rightarrow> session \<Rightarrow> (journal_record \<times> nat) io" where
  "rollback_prologue r pol ses =
     seqW (refuse_production r)
     (seqW (stage_errors_to ''rollback_foreign_state'' (validate_existing_roots r))
     (bindW (prepare_existing_record r pol ses) (\<lambda>record.
      seqW (onlyif (state_of record = APPLYING \<or> state_of record = ROLLING_BACK)
              (seqW (refuse_production r) (recover_marker_residue (rc_tree r) (pl_marker_bytes (rc_plan r)))))
      (bindW (stage_errors_to ''rollback_foreign_state''
                (prefix_length r (state_of record = APPLYING) True None)) (\<lambda>len.
         return (record, len))))))"

definition begin_rollback :: "reconciler \<Rightarrow> policy \<Rightarrow> session \<Rightarrow> journal_record \<Rightarrow> nat \<Rightarrow> journal_record io" where
  "begin_rollback r pol ses record len =
     seqW (refuse_production r)
     (bindW (if state_of record = PLANNED
             then seqW (stage_check (len \<noteq> 0) ''rollback_foreign_state'') (stage_transition r pol ses FAILED)
             else return record) (\<lambda>rec1.
      bindW (if state_of rec1 \<in> {APPLYING, APPLIED, VALIDATED, FAILED}
             then seqW (refuse_production r) (stage_transition r pol ses ROLLING_BACK)
             else return rec1) (\<lambda>rec2.
      seqW (stage_check (state_of rec2 \<noteq> ROLLING_BACK) ''illegal_recovery_state'')
        (return rec2))))"

definition remove_resources :: "reconciler \<Rightarrow> nat \<Rightarrow> unit io" where
  "remove_resources r len =
     seqW (onlyif (len = 4) (remove_marker (rc_tree r) (pl_marker_bytes (rc_plan r))))
     (seqW (onlyif (3 \<le> len) (remove_directory (rc_tree r) workspace_path 448))
     (seqW (onlyif (2 \<le> len) (remove_directory (rc_tree r) experiments_root 448))
       (onlyif (1 \<le> len) (remove_directory (rc_tree r) config_root 493))))"

definition rollback_body :: "reconciler \<Rightarrow> policy \<Rightarrow> session \<Rightarrow> stage_result io" where
  "rollback_body r pol ses =
     bindW (rollback_prologue r pol ses) (\<lambda>(record, len).
       if state_of record = ROLLED_BACK
       then seqW (stage_check (len \<noteq> 0) ''rollback_foreign_state'') (mk_result r ''rollback'' ''exact'' record 0)
       else bindW (begin_rollback r pol ses record len) (\<lambda>_.
            seqW (remove_resources r len)
            (seqW (require_exact r 0 ''rollback_foreign_state'')
            (bindW (stage_transition r pol ses ROLLED_BACK) (\<lambda>record'.
               mk_result r ''rollback'' ''exact'' record' 0)))))"

definition stage_rollback :: "reconciler \<Rightarrow> stage_result io" where
  "stage_rollback r =
     seqW (require_execution_identity r)
     (seqW (refuse_production r)
     (bindW (path_state (rc_tree r) journal_root) (\<lambda>present.
      seqW (stage_check (\<not> present) ''journal_root_conflict'')
        (under_lock r True (rollback_body r)))))"

definition bare_result ::
  "reconciler \<Rightarrow> string \<Rightarrow> string \<Rightarrow> string \<Rightarrow> nat \<Rightarrow> string \<Rightarrow> bool \<Rightarrow> stage_result" where
  "bare_result r operation root journal_state_text n resource_state_text retained =
     \<lparr>rs_operation = operation, rs_journal_root = root, rs_journal_state = journal_state_text,
      rs_transition_count = n, rs_plan_hash = pl_plan_hash (rc_plan r),
      rs_bundle_hash = pl_bundle_hash (rc_plan r), rs_marker_hash = pl_marker_hash (rc_plan r),
      rs_resource_state = resource_state_text, rs_workspace_empty = True, rs_retained_provenance = retained,
      rs_next_action = ''execute''\<rparr>"

definition observe_absent :: "reconciler \<Rightarrow> string \<Rightarrow> bool \<Rightarrow> stage_result io" where
  "observe_absent r operation state_present =
     seqW (onlyif state_present
             (catchW (bindW (validate_directory (rc_tree r) state_root 493 (Some [])) (\<lambda>_. return ()))
                (\<lambda>e. if is_stage_error e
                     then stage_errors_to ''journal_root_conflict'' (validate_provisional_directory (rc_tree r) state_root [])
                     else raise e)))
       (return (bare_result r operation (if state_present then ''bootstrap-residue'' else ''absent'') ''absent'' 0
                  ''absent'' False))"

definition observe_unpublished :: "reconciler \<Rightarrow> string \<Rightarrow> policy \<Rightarrow> session \<Rightarrow> stage_result io" where
  "observe_unpublished r operation pol ses =
     bindW (validate_directory (rc_tree r) journal_root 448 None) (\<lambda>entries.
       if entries = []
       then return (bare_result r operation ''bootstrap-residue'' ''absent'' 0 ''absent'' True)
       else seqW (stage_check (length entries \<noteq> 1 \<or> \<not> is_temp_name (temp_prefix journal_name) (hd entries))
                    ''journal_root_conflict'')
            (bindW (raw_prefix_length r) (\<lambda>raw_length.
             seqW (stage_check (raw_length \<noteq> 0) ''journal_root_conflict'')
             (bindW (load_unpublished_exact r pol ses) (\<lambda>record.
                return (bare_result r operation ''bootstrap-residue'' ''in-flight'' (length (transitions record))
                          ''unknown'' True))))))"

definition observe_published :: "reconciler \<Rightarrow> string \<Rightarrow> policy \<Rightarrow> session \<Rightarrow> stage_result io" where
  "observe_published r operation pol ses =
     bindW (load_exact r pol ses True) (\<lambda>record.
     bindW (if state_of record = APPLYING \<or> state_of record = ROLLING_BACK
            then validate_marker_residue (rc_tree r) (pl_marker_bytes (rc_plan r)) else return None) (\<lambda>residue.
     bindW (prefix_length r (state_of record = APPLYING) False residue) (\<lambda>len.
     seqW (stage_check (state_of record = VALIDATED \<and> len \<noteq> 4) ''resource_desired_mismatch'')
     (seqW (stage_check (state_of record = ROLLED_BACK \<and> len \<noteq> 0) ''rollback_foreign_state'')
       (mk_result r operation ''exact'' record len)))))"

definition stage_observe :: "reconciler \<Rightarrow> string \<Rightarrow> stage_result io" where
  "stage_observe r operation =
     seqW (require_execution_identity r)
     (seqW (refuse_production r)
     (bindW (path_state (rc_tree r) state_root) (\<lambda>state_first.
      bindW (path_state (rc_tree r) journal_root) (\<lambda>first.
      bindW (path_state (rc_tree r) state_root) (\<lambda>state_second.
      bindW (path_state (rc_tree r) journal_root) (\<lambda>second.
      seqW (stage_check (first \<noteq> second \<or> state_first \<noteq> state_second) ''transaction_busy'')
        (if \<not> first then observe_absent r operation state_first
         else under_lock r False (\<lambda>pol ses.
           seqW (validate_existing_roots r)
           (bindW (path_state (rc_tree r) journal_path) (\<lambda>published.
              if \<not> published then observe_unpublished r operation pol ses
              else observe_published r operation pol ses))))))))))"

subsection \<open>The command line\<close>

text \<open>\<open>main\<close>: the exit status, and what is printed to the output and to the errors.\<close>

definition stage_modes :: "string list" where
  "stage_modes =
     [''production-check'', ''before'', ''execute'', ''after'', ''postconditions'', ''rollback'', ''rollback-postconditions'']"

type_synonym main_result = "nat \<times> pystr \<times> string"

definition run_mode :: "string \<Rightarrow> pystr \<Rightarrow> (string \<Rightarrow> nat \<Rightarrow> show_answer) \<Rightarrow> pystr io" where
  "run_mode mode digest show =
     bindW (lift (mk_reconciler digest production_stage_paths 0 0 show)) (\<lambda>r.
       if mode = ''production-check''
       then seqW (require_execution_identity r) (seqW (refuse_production r) (return []))
       else bindW (if mode = ''execute'' then stage_execute r
                   else if mode = ''rollback'' then stage_rollback r else stage_observe r mode) (\<lambda>result.
            return (evidence_line result @ [10])))"

definition stage05_main ::
  "bool \<Rightarrow> (string \<Rightarrow> nat \<Rightarrow> show_answer) \<Rightarrow> pystr list \<Rightarrow> main_result io" where
  "stage05_main supported_python show arguments =
     (case arguments of
        [mode, acknowledgement, digest] \<Rightarrow>
          (case find (\<lambda>m. lit m = mode) stage_modes of
             None \<Rightarrow> return (64, [], ''invalid_mode'')
           | Some m \<Rightarrow>
               if acknowledgement \<noteq> lit ''DISPOSABLE_OVH_LAB'' then return (64, [], ''acknowledgement_required'')
               else if \<not> supported_python then return (68, [], ''unsupported_python'')
               else catchW (bindW (run_mode m digest show) (\<lambda>out. return (0, out, [])))
                      (\<lambda>e. case e of
                         Stage05Error reason \<Rightarrow> return (65, [], reason)
                       | JournalConflict _ \<Rightarrow> return (65, [], ''journal_conflict'')
                       | JournalCorrupt _ \<Rightarrow> return (65, [], ''journal_conflict'')
                       | JournalSecurityError _ \<Rightarrow> return (65, [], ''journal_conflict'')
                       | _ \<Rightarrow> return (70, [], ''internal_error'')))
      | _ \<Rightarrow> return (64, [], ''invalid_mode''))"

end
