(* ===== verification/Stage05_Spec.thy ===== *)
theory Stage05_Spec
  imports Stage05 Owned_Files_Spec Journal_Progress
begin

text \<open>
  What the stage shows of the file system it finds: \<open>answers s m R\<close> says that from the file system
  \<open>s\<close> the program \<open>m\<close> leaves it as it is, whether it returns, raises or is killed, and that a
  returned value satisfies \<open>R\<close>.  No other process runs, and a failing system call reports
  anything but a missing file.
\<close>

subsection \<open>Programs that only read\<close>

definition honest :: "fs \<Rightarrow> world \<Rightarrow> bool" where
  "honest s w = (quiet w \<and> (\<forall>n. w_fail w n \<noteq> Some ENOENT) \<and> w_fs w = s)"

definition answers :: "fs \<Rightarrow> 'a io \<Rightarrow> ('a \<Rightarrow> bool) \<Rightarrow> bool" where
  "answers s m R = triple (honest s) m (\<lambda>x w. honest s w \<and> R x) (honest s)"

lemma answersD:
  "answers s m R \<Longrightarrow> honest s w \<Longrightarrow> m w = (out, w') \<Longrightarrow> honest s w' \<and> (\<forall>x. out = Ret x \<longrightarrow> R x)"
  unfolding answers_def by (drule (2) tripleD) (cases out; auto)

lemma answers_return: "R x \<Longrightarrow> answers s (return x) R"
  unfolding answers_def by (rule triple_return) simp

lemma answers_raise: "answers s (raise e) R"
  unfolding answers_def by (rule triple_raise)

lemma answers_bind: "answers s m R \<Longrightarrow> (\<And>x. R x \<Longrightarrow> answers s (f x) Q) \<Longrightarrow> answers s (bindW m f) Q"
  unfolding answers_def
  by (rule triple_bind, assumption) (auto intro: triple_pure)

lemma answers_seq: "answers s m (\<lambda>_. c) \<Longrightarrow> (c \<Longrightarrow> answers s k Q) \<Longrightarrow> answers s (seqW m k) Q"
  unfolding seqW_def by (rule answers_bind)

lemma answers_catch: "answers s m Q \<Longrightarrow> (\<And>e. answers s (h e) Q) \<Longrightarrow> answers s (catchW m h) Q"
  unfolding answers_def by (rule triple_catch) auto

lemma answers_lift: "answers s (lift r) (\<lambda>x. r = Inr x)"
  by (cases r) (auto intro: answers_return answers_raise)

lemma answers_weaken: "answers s m R \<Longrightarrow> (\<And>x. R x \<Longrightarrow> Q x) \<Longrightarrow> answers s m Q"
  unfolding answers_def by (erule triple_conseq) auto

lemma answers_syscall:
  assumes "\<And>w s. f w s = (g w s, s)"
  shows "answers s (syscall f) (\<lambda>x. \<exists>w. g w s = Inr x)"
  unfolding answers_def
proof (rule tripleI)
  fix w assume "honest s w"
  then show "case syscall f w of (Ret x, w') \<Rightarrow> honest s w' \<and> (\<exists>w. g w s = Inr x) | (Raise e, w') \<Rightarrow> honest s w'
      | (Killed, w') \<Rightarrow> honest s w'"
    using assms by (auto simp: syscall_def Let_def honest_def quiet_def split: option.splits sum.splits)
qed

lemma answers_check: "answers s (stage_check c reason) (\<lambda>_. \<not> c)"
  unfolding stage_check_def by (cases c) (auto intro: answers_return answers_raise)

lemma answers_stage_error: "answers s (stage_error reason) R"
  unfolding stage_error_def by (rule answers_raise)

text \<open>A handler for missing files learns that the file is missing: no failure pretends it.\<close>

lemma answers_missing:
  assumes "\<And>w s. f w s = (g s, s)"
    and "\<And>x. g s = Inr x \<Longrightarrow> R (Some x)" "g s = Inl (OSError ENOENT) \<Longrightarrow> R None"
  shows "answers s (catchW (bindW (syscall f) (\<lambda>n. return (Some n)))
             (\<lambda>e. if e = OSError ENOENT then return None else raise e)) R"
  unfolding answers_def
proof (rule tripleI)
  fix w assume "honest s w"
  then show "case catchW (bindW (syscall f) (\<lambda>n. return (Some n)))
      (\<lambda>e. if e = OSError ENOENT then return None else raise e) w of
      (Ret x, w') \<Rightarrow> honest s w' \<and> R x | (Raise e, w') \<Rightarrow> honest s w' | (Killed, w') \<Rightarrow> honest s w'"
    using assms
    by (cases "g s"; cases "w_fail w (w_calls w)")
      (auto simp: catchW_def bindW_def return_def raise_def syscall_def Let_def honest_def quiet_def)
qed

lemma answers_os_errors: "answers s m R \<Longrightarrow> answers s (os_errors_to reason m) R"
  unfolding os_errors_to_def by (rule answers_catch) (auto intro: answers_stage_error answers_raise)

lemma answers_stage_errors: "answers s m R \<Longrightarrow> answers s (stage_errors_to reason m) R"
  unfolding stage_errors_to_def by (rule answers_catch) (auto intro: answers_stage_error answers_raise)

text \<open>The system calls that only read.\<close>

lemma answers_fstat: "answers s (os_fstat n) (\<lambda>m. \<exists>i. fs_inodes s n = Some i \<and> m = stat_of n i)"
  unfolding os_fstat_def
  by (rule answers_weaken, rule answers_syscall, rule refl) (auto simp: do_fstat_def split: option.splits)

lemma answers_stat_at:
  "answers s (os_stat_at d name) (\<lambda>m. \<exists>n i. lookup s d name = Some n \<and> fs_inodes s n = Some i \<and> m = stat_of n i)"
  unfolding os_stat_at_def
  by (rule answers_weaken, rule answers_syscall, rule refl) (auto simp: stat_at_Inr)

lemma real_dir_step: "do_open_dir_at d c s = Inr n \<longleftrightarrow> real_dir s d [c] = Some n"
  using dir_walk_Inr [of s d "[c]" n] by simp

lemma real_dir_cons: "real_dir s d [c] = Some n \<Longrightarrow> real_dir s d (c # cs) = real_dir s n cs"
  by (auto split: option.splits if_splits)

lemma answers_open_dir: "answers s (os_open_dir_at d name) (\<lambda>n. real_dir s d [name] = Some n)"
  unfolding os_open_dir_at_def
  by (rule answers_weaken, rule answers_syscall, rule refl)
    (simp add: real_dir_step del: real_dir.simps)

lemma answers_open_at:
  "answers s (os_open_at d name) (\<lambda>n. lookup s d name = Some n \<and> (\<exists>i. fs_inodes s n = Some i \<and> ikind i \<noteq> KLnk))"
  unfolding os_open_at_def
  by (rule answers_weaken, rule answers_syscall, rule refl) (auto simp: open_at_Inr)

lemma answers_scandir: "answers s (os_scandir d) (\<lambda>ns. ns = map fst (entries_of s d))"
  unfolding os_scandir_def by (rule answers_weaken, rule answers_syscall, rule refl) auto

lemma answers_slash: "answers s os_open_slash (\<lambda>n. n = root_inode)"
  unfolding os_open_slash_def by (rule answers_weaken, rule answers_syscall, rule refl) auto

lemma answers_fsync: "answers s (os_fsync n) (\<lambda>_. True)"
  unfolding os_fsync_def by (rule answers_weaken, rule answers_syscall, rule refl) auto

lemma answers_ids: "answers s os_effective_ids (\<lambda>_. True)"
  unfolding answers_def by (rule tripleI) (simp add: os_effective_ids_def)

lemma answers_attribute:
  "answers s (os_listxattr n) (\<lambda>xs. \<exists>i. fs_inodes s n = Some i \<and> xs = ixattrs i)"
  "answers s (os_statx_mnt_id n) (\<lambda>_. True)"
  unfolding os_listxattr_def os_statx_mnt_id_def
  by (rule answers_weaken, rule answers_syscall, rule refl, auto simp: do_attribute_def split: option.splits)+

subsection \<open>The tree\<close>

lemma answers_xattrs: "answers s (stage_xattrs n) (\<lambda>xs. \<exists>i. fs_inodes s n = Some i \<and> xs = sort (ixattrs i))"
  unfolding stage_xattrs_def
  by (rule answers_os_errors, rule answers_bind, rule answers_attribute(1), rule answers_return) auto

lemma answers_ancestor: "answers s (validate_ancestor t fd opened) (\<lambda>_. True)"
  unfolding validate_ancestor_def
proof (intro answers_bind [OF answers_fstat] answers_seq [OF answers_check], goal_cases)
  case 1
  show ?case
    by (split if_split)
      (intro conjI impI answers_return answers_seq [OF answers_check] answers_bind [OF answers_xattrs]
         answers_weaken [OF answers_check] TrueI)
qed

lemma real_dir_append: "real_dir s d (xs @ ys) = Option.bind (real_dir s d xs) (\<lambda>n. real_dir s n ys)"
  by (induction xs arbitrary: d) (auto split: option.splits)

lemma answers_descend: "answers s (descend_checked t fd opened cs) (\<lambda>n. real_dir s fd cs = Some n)"
proof (induction cs arbitrary: fd opened)
  case (Cons c cs)
  show ?case
    by (simp only: descend_checked.simps)
      (intro answers_bind [OF answers_open_dir] answers_seq [OF answers_ancestor] answers_weaken [OF Cons.IH],
        simp add: real_dir_cons del: real_dir.simps)
qed (auto intro: answers_return)

lemma answers_present:
  "answers s (descend_present t fd opened cs)
     (\<lambda>r. case r of Some n \<Rightarrow> real_dir s fd cs = Some n
        | None \<Rightarrow> \<exists>pre c post d. cs = pre @ c # post \<and> real_dir s fd pre = Some d \<and> lookup s d c = None)"
proof (induction cs arbitrary: fd opened)
  case (Cons c cs)
  let ?R = "\<lambda>r. case r of Some n \<Rightarrow> real_dir s fd [c] = Some n | None \<Rightarrow> lookup s fd c = None"
  have first: "answers s (catchW (bindW (os_open_dir_at fd c) (\<lambda>n. return (Some n)))
      (\<lambda>e. if e = OSError ENOENT then return None else raise e)) ?R"
    unfolding os_open_dir_at_def
    by (rule answers_missing, rule refl)
      (auto simp: real_dir_step simp del: real_dir.simps,
        auto simp: do_open_dir_at_def do_open_at_def bindR_eq_Inl split: option.splits if_splits)
  show ?case
  proof (simp only: descend_present.simps, rule answers_bind [OF first], goal_cases)
    case (1 x)
    show ?case
    proof (cases x)
      case None
      then have "c # cs = [] @ c # cs \<and> real_dir s fd [] = Some fd \<and> lookup s fd c = None" using 1 by simp
      then have "\<exists>pre c' post d. c # cs = pre @ c' # post \<and> real_dir s fd pre = Some d \<and> lookup s d c' = None" by blast
      with None show ?thesis by (simp only: option.case) (rule answers_return, simp)
    next
      case (Some n)
      with 1 have n: "real_dir s fd [c] = Some n" by simp
      show ?thesis unfolding Some option.case
      proof (intro answers_seq [OF answers_ancestor] answers_weaken [OF Cons.IH], goal_cases)
        case (1 r)
        show ?case
        proof (cases r)
          case None
          with 1 obtain pre c' post d where "cs = pre @ c' # post" "real_dir s n pre = Some d" "lookup s d c' = None"
            by auto
          then have "c # cs = (c # pre) @ c' # post \<and> real_dir s fd (c # pre) = Some d \<and> lookup s d c' = None"
            using n real_dir_append [of s fd "[c]" pre] by simp
          then show ?thesis unfolding None option.case by blast
        next
          case (Some m)
          then show ?thesis using 1 n real_dir_append [of s fd "[c]" cs] by simp
        qed
      qed
    qed
  qed
qed (auto intro: answers_return)

text \<open>Where a path of the stage lies on the disk, and what the tree says of it.\<close>

definition located :: "stage_paths \<Rightarrow> ppath \<Rightarrow> pystr list" where
  "located ps p = components (sp_prefix ps) @ components p"

definition present :: "fs \<Rightarrow> pystr list \<Rightarrow> bool" where
  "present s cs = (\<exists>i. there s cs i \<and> ikind i \<noteq> KLnk)"

abbreviation tree_path :: "secure_tree \<Rightarrow> ppath \<Rightarrow> pystr list" where
  "tree_path t p \<equiv> located (tr_paths t) p"

lemma actual_path_parts:
  assumes "actual_path ps p = Inr a" "is_absolute (sp_prefix ps)"
  shows "drop 1 (parts a) = located ps p" "last_name a = last (located ps p)" "located ps p \<noteq> []"
    "last_name p = last (located ps p)" "components (parent_path p) = butlast (components p)" "components p \<noteq> []"
  using assms
  by (auto simp: actual_path_def relative_parts_Inr root_path_def parts_def is_absolute_def located_def last_name_def
      parent_path_def thenR_eq_Inr bindR_eq_Inr)

lemma gone_split:
  assumes "cs \<noteq> []" "real_dir s root_inode (butlast cs) = Some d" "lookup s d (last cs) = None"
  shows "gone s cs"
proof -
  have "cs = butlast cs @ last cs # []" using assms(1) by simp
  then show ?thesis using assms(2,3) unfolding gone_def by blast
qed

lemma gone_prefix:
  assumes "cs \<noteq> []" "butlast cs = pre @ c # post" "real_dir s root_inode pre = Some d" "lookup s d c = None"
  shows "gone s cs"
proof -
  have "cs = pre @ c # (post @ [last cs])" using assms(1,2) append_butlast_last_id [of cs] by simp
  then show ?thesis using assms(3,4) unfolding gone_def by blast
qed

lemma answers_path_state:
  assumes "is_absolute (sp_prefix (tr_paths t))"
  shows "answers s (path_state t p) (\<lambda>b. if b then present s (tree_path t p) else gone s (tree_path t p))"
  unfolding path_state_def
proof (rule answers_bind [OF answers_lift], rule answers_bind [OF answers_slash], rule answers_os_errors,
    rule answers_seq [OF answers_ancestor], rule answers_bind [OF answers_present], goal_cases)
  case (1 a slash r)
  note at = actual_path_parts [OF 1(1) assms]
  show ?case
  proof (cases r)
    case None
    with 1(4) obtain pre c post d where "butlast (tree_path t p) = pre @ c # post"
      "real_dir s root_inode pre = Some d" "lookup s d c = None"
      unfolding at 1(2) by auto
    then have "gone s (tree_path t p)" using gone_prefix at(3) by blast
    then show ?thesis unfolding None by (auto intro: answers_return)
  next
    case (Some d)
    have d: "real_dir s root_inode (butlast (tree_path t p)) = Some d" using 1 Some at by simp
    have found: "answers s (catchW (bindW (os_stat_at d (last_name a)) (\<lambda>m. return (Some m)))
        (\<lambda>e. if e = OSError ENOENT then return None else raise e))
       (\<lambda>m. case m of None \<Rightarrow> gone s (tree_path t p)
          | Some m \<Rightarrow> \<exists>i n. m = stat_of n i \<and> there s (tree_path t p) i)"
      unfolding os_stat_at_def
      by (rule answers_missing, rule refl)
        (use d at in \<open>auto simp: stat_at_Inr there_def do_stat_at_def do_fstat_def split: option.splits intro: gone_split\<close>)
    show ?thesis unfolding Some option.case
      by (rule answers_bind [OF found])
        (auto split: option.splits intro!: answers_return answers_seq [OF answers_check]
          simp: present_def stat_of_def)
  qed
qed

definition directory_at :: "secure_tree \<Rightarrow> fs \<Rightarrow> ppath \<Rightarrow> nat option \<Rightarrow> nat \<Rightarrow> bool" where
  "directory_at t s p mode fd =
     (real_dir s root_inode (tree_path t p) = Some fd
      \<and> (\<forall>md. mode = Some md \<longrightarrow> (\<exists>i. fs_inodes s fd = Some i \<and> iuid i = tr_uid t \<and> igid i = tr_gid t
            \<and> imode i = md \<and> ixattrs i = [])))"

lemma sort_empty [simp]: "sort xs = [] \<longleftrightarrow> xs = []" "[] = sort xs \<longleftrightarrow> xs = []"
  by (metis length_0_conv length_sort)+

lemma answers_open_directory:
  assumes "is_absolute (sp_prefix (tr_paths t))"
  shows "answers s (open_directory t p mode) (directory_at t s p mode)"
  unfolding open_directory_def
proof (rule answers_bind [OF answers_lift], rule answers_bind [OF answers_slash], rule answers_os_errors,
    rule answers_seq [OF answers_ancestor], rule answers_bind [OF answers_descend], goal_cases)
  case (1 a slash fd)
  note at = actual_path_parts [OF 1(1) assms]
  show ?case
  proof (cases mode)
    case None
    with 1 at show ?thesis by (auto intro: answers_return simp: directory_at_def)
  next
    case (Some md)
    show ?thesis unfolding Some option.case
      by (rule answers_bind [OF answers_fstat], rule answers_seq [OF answers_check],
          rule answers_bind [OF answers_xattrs], rule answers_seq [OF answers_check], rule answers_return)
        (use 1 at in \<open>auto simp: directory_at_def stat_of_def\<close>)
  qed
qed

subsection \<open>Production\<close>

definition no_unit :: "reconciler \<Rightarrow> bool" where
  "no_unit r = (\<forall>u \<in> set unit_names. \<exists>n. load_state (rc_show r u n) = Inr ''absent'')"

definition no_path :: "reconciler \<Rightarrow> fs \<Rightarrow> bool" where
  "no_path r s = (\<forall>p \<in> set production_candidates. gone s (located (rc_paths r) p))"

lemma answers_for: "(\<And>x. x \<in> set xs \<Longrightarrow> answers s (f x) (\<lambda>_. R x)) \<Longrightarrow> answers s (forW xs f) (\<lambda>_. \<forall>x \<in> set xs. R x)"
proof (induction xs)
  case (Cons x xs)
  have "answers s (seqW (f x) (forW xs f)) (\<lambda>_. R x \<and> (\<forall>y \<in> set xs. R y))"
    by (rule answers_seq, rule Cons.prems, simp) (rule answers_weaken, rule Cons.IH, auto intro: Cons.prems)
  then show ?case by simp
qed (auto intro: answers_return)

lemma answers_no_path:
  assumes "is_absolute (sp_prefix (rc_paths r))"
  shows "answers s (check_no_path r p) (\<lambda>_. gone s (located (rc_paths r) p))"
proof -
  have a: "is_absolute (sp_prefix (tr_paths (rc_tree r)))" using assms by (simp add: rc_tree_def)
  have t: "tr_paths (rc_tree r) = rc_paths r" by (simp add: rc_tree_def)
  have "answers s (stage_errors_to ''production_state_unknown''
              (bindW (path_state (rc_tree r) p) (\<lambda>first.
               bindW (path_state (rc_tree r) p) (\<lambda>second. return (first, second)))))
      (\<lambda>(first, second). \<not> first \<longrightarrow> gone s (located (rc_paths r) p))"
    by (rule answers_stage_errors, rule answers_bind [OF answers_path_state [OF a]],
        rule answers_bind [OF answers_path_state [OF a]], rule answers_return) (auto simp: t)
  then show ?thesis unfolding check_no_path_def
    by (rule answers_bind) (auto intro!: answers_seq [OF answers_check] intro: answers_weaken [OF answers_check])
qed

lemma answers_no_unit: "answers s (check_no_unit r u) (\<lambda>_. \<exists>n. load_state (rc_show r u n) = Inr ''absent'')"
proof -
  have "answers s (catchW (run_show r u) (\<lambda>e. if is_os_error e then return None else raise e))
      (\<lambda>a. a = None \<or> (\<exists>n. a = rc_show r u n))"
    unfolding run_show_def
    by (rule answers_catch, rule answers_weaken, rule answers_syscall, rule refl)
      (auto intro: answers_return answers_raise)
  then have "answers s (service_state r u) (\<lambda>st. st = ''unknown'' \<or> (\<exists>n. load_state (rc_show r u n) = Inr st))"
    unfolding service_state_def
    by (rule answers_bind) (rule answers_weaken, rule answers_lift, auto simp: load_state_def)
  then have "answers s (catchW (service_state r u) (\<lambda>e. stage_error ''production_state_unknown''))
      (\<lambda>st. st = ''unknown'' \<or> (\<exists>n. load_state (rc_show r u n) = Inr st))"
    by (rule answers_catch) (rule answers_stage_error)
  then show ?thesis unfolding check_no_unit_def
    by (rule answers_bind) (auto intro!: answers_seq [OF answers_check] intro: answers_weaken [OF answers_check])
qed

lemma answers_refuse:
  assumes "is_absolute (sp_prefix (rc_paths r))"
  shows "answers s (refuse_production r) (\<lambda>_. no_path r s \<and> no_unit r)"
  unfolding refuse_production_def
  by (rule answers_seq, rule answers_for, rule answers_no_path [OF assms],
      rule answers_weaken, rule answers_for, rule answers_no_unit) (auto simp: no_path_def no_unit_def)

lemma answers_identity: "answers s (require_execution_identity r) (\<lambda>_. True)"
  unfolding require_execution_identity_def
  by (rule answers_bind [OF answers_ids]) (auto intro: answers_weaken [OF answers_check])

text \<open>After the two first steps of every operation.\<close>

lemma answers_refused:
  assumes "is_absolute (sp_prefix (rc_paths r))" "\<not> (no_path r s \<and> no_unit r)"
  shows "answers s (seqW (require_execution_identity r) (seqW (refuse_production r) k)) (\<lambda>_. False)"
  by (rule answers_seq [OF answers_identity], rule answers_seq [OF answers_refuse [OF assms(1)]]) (use assms(2) in simp)

lemma answers_main:
  assumes "\<And>r. rc_paths r = production_stage_paths \<Longrightarrow> rc_show r = show \<Longrightarrow> \<not> (no_path r s \<and> no_unit r)"
  shows "answers s (stage05_main py show args) (\<lambda>res. fst res \<noteq> 0)"
proof -
  have mode: "answers s (run_mode m digest show) (\<lambda>_. False)" for m digest
    unfolding run_mode_def
  proof (rule answers_bind [OF answers_lift], goal_cases)
    case (1 r)
    then have r: "rc_paths r = production_stage_paths" "rc_show r = show"
      by (auto simp: mk_reconciler_def bindR_eq_Inr)
    have a: "is_absolute (sp_prefix (rc_paths r))"
      using r by (simp add: production_stage_paths_def root_path_def is_absolute_def)
    note no = answers_refused [OF a assms [OF r]]
    show ?case
      by (auto intro!: answers_bind [where R = "\<lambda>_. False"]
          simp: no stage_execute_def stage_rollback_def stage_observe_def)
  qed
  show ?thesis unfolding stage05_main_def
    by (auto split: list.splits option.splits intro!: answers_return answers_catch
        answers_bind [where R = "\<lambda>_. False"] mode split: exn.splits)
qed

subsection \<open>A production installation is left alone\<close>

lemma production_located:
  "rc_paths r = production_stage_paths \<Longrightarrow> located (rc_paths r) p = components p"
  by (simp add: located_def production_stage_paths_def root_path_def)

text \<open>
  C5: wherever one of the production paths is there (as any kind of entry), or one of the production units never answers
  that it is absent, no invocation of the stage, in any mode and with any arguments, changes
  anything on the disk, and none exits with 0; this holds wherever the process is killed and
  whichever calls fail, provided no failure pretends that a file is missing.
\<close>

theorem production_left_alone:
  assumes "quiet w" "\<And>n. w_fail w n \<noteq> Some ENOENT"
    and found: "(\<exists>p \<in> set production_candidates. \<not> gone (w_fs w) (components p))
      \<or> (\<exists>u \<in> set unit_names. \<forall>n. load_state (show u n) \<noteq> Inr ''absent'')"
    and run: "stage05_main py show arguments w = (out, w')"
  shows "w_fs w' = w_fs w \<and> (\<forall>status stdout reason. out = Ret (status, stdout, reason) \<longrightarrow> status \<noteq> 0)"
proof -
  have "\<not> (no_path r (w_fs w) \<and> no_unit r)" if "rc_paths r = production_stage_paths" "rc_show r = show" for r
    using found that(2) by (auto simp: no_path_def no_unit_def production_located [OF that(1)])
  from answersD [OF answers_main [OF this] _ run] show ?thesis
    using assms(1,2) by (fastforce simp: honest_def)
qed

definition loaded_units :: "string \<Rightarrow> nat \<Rightarrow> show_answer" where
  "loaded_units = (\<lambda>_ _. Some (0, lit ''loaded'', []))"

lemma production_left_alone_witness:
  "w_fs (snd (stage05_main True loaded_units [lit ''execute'', lit ''DISPOSABLE_OVH_LAB'', replicate 64 48] (sample_world None)))
   = sample_fs"
proof -
  obtain out w' where run: "stage05_main True loaded_units [lit ''execute'', lit ''DISPOSABLE_OVH_LAB'', replicate 64 48]
     (sample_world None) = (out, w')" by fastforce
  have "load_state (loaded_units u n) \<noteq> Inr ''absent''" for u n
    by (simp add: load_state_def loaded_units_def max_systemd_bytes_def lit_def is_ascii_def strip_def)
  then have "\<exists>u \<in> set unit_names. \<forall>n. load_state (loaded_units u n) \<noteq> Inr ''absent''"
    by (auto simp: unit_names_def)
  moreover have "w_fail (sample_world None) n \<noteq> Some ENOENT" for n by (simp add: sample_world_def)
  ultimately have "w_fs w' = w_fs (sample_world None)"
    using production_left_alone [OF sample_quiet _ _ run] by blast
  then show ?thesis unfolding run by (simp add: sample_world_def)
qed

subsection \<open>The other modes only read\<close>

text \<open>\<open>reading m\<close>: whatever holds of the inodes before \<open>m\<close> holds of them after it; locks come and go.\<close>

definition inodes_kept :: "(fs \<Rightarrow> bool) \<Rightarrow> bool" where
  "inodes_kept I = (\<forall>s locks. I (s\<lparr>fs_locks := locks\<rparr>) = I s)"

definition reading :: "'a io \<Rightarrow> bool" where
  "reading m = (\<forall>I. inodes_kept I \<longrightarrow> triple (has_fs I) m (\<lambda>_. has_fs I) (has_fs I))"

named_theorems reads

lemma readingI: "(\<And>I. triple (has_fs I) m (\<lambda>_. has_fs I) (has_fs I)) \<Longrightarrow> reading m"
  by (simp add: reading_def)

lemma reading_syscall: "(\<And>w s. snd (f w s) = s) \<Longrightarrow> reading (syscall f)"
proof (rule readingI, rule triple_syscall)
  fix I w s x s' assume "\<And>w s. snd (f w s) = s" "I s" "f w s = (Inr x, s')"
  then show "I s'" by (metis snd_conv)
next
  fix I w s e s' assume "\<And>w s. snd (f w s) = s" "I s" "f w s = (Inl e, s')"
  then show "I s'" by (metis snd_conv)
qed

lemma reading_basics [reads]:
  "reading (return x)" "reading (raise e)" "reading (lift r)" "reading (stage_error reason)"
  "reading (raise_when c e)" "reading (stage_check c reason)"
  by (auto intro!: readingI intro: triple_return triple_raise triple_lift triple_raise_when
      simp: stage_error_def stage_check_def)

lemma reading_bind [reads]: "reading m \<Longrightarrow> (\<And>x. reading (f x)) \<Longrightarrow> reading (bindW m f)"
  unfolding reading_def by (blast intro: triple_bind)

lemma reading_seq [reads]: "reading m \<Longrightarrow> reading k \<Longrightarrow> reading (seqW m k)"
  unfolding seqW_def by (intro reads)

lemma reading_catch [reads]: "reading m \<Longrightarrow> (\<And>e. reading (h e)) \<Longrightarrow> reading (catchW m h)"
  unfolding reading_def by (blast intro: triple_catch)

lemma reading_if [reads]: "(c \<Longrightarrow> reading m) \<Longrightarrow> (\<not> c \<Longrightarrow> reading k) \<Longrightarrow> reading (if c then m else k)"
  by simp

lemma reading_cases [reads]:
  "reading m \<Longrightarrow> (\<And>x. reading (f x)) \<Longrightarrow> reading (case a of None \<Rightarrow> m | Some x \<Rightarrow> f x)"
  "(\<And>x y. reading (g x y)) \<Longrightarrow> reading (case b of (x, y) \<Rightarrow> g x y)"
  by (auto split: option.split prod.split)

lemma reading_syscalls [reads]:
  "reading (os_fstat n)" "reading (os_stat_at d name)" "reading (os_open_at d name)" "reading (os_open_dir_at d name)"
  "reading (os_scandir d)" "reading os_open_slash" "reading (os_fsync n)" "reading (os_read n pos cnt)"
  "reading (os_listxattr n)" "reading (os_statx_mnt_id n)" "reading (run_show r u)"
  unfolding os_fstat_def os_stat_at_def os_open_at_def os_open_dir_at_def os_scandir_def os_open_slash_def os_fsync_def
    os_read_def os_listxattr_def os_statx_mnt_id_def run_show_def
  by (rule reading_syscall, simp)+

lemma reading_ids [reads]: "reading os_effective_ids"
  by (rule readingI, rule tripleI) (simp add: os_effective_ids_def)

lemma reading_handlers [reads]:
  "reading m \<Longrightarrow> reading (os_errors_to reason m)" "reading m \<Longrightarrow> reading (stage_errors_to reason m)"
  "reading m \<Longrightarrow> reading (os_errors_as msg m)" "reading m \<Longrightarrow> reading (journal_errors_to a b c m)"
  unfolding os_errors_to_def stage_errors_to_def os_errors_as_def journal_errors_to_def security_def
  by (intro reads; simp add: reads split: exn.split)+

lemma reading_onlyif [reads]: "reading m \<Longrightarrow> reading (onlyif c m)"
  unfolding onlyif_def by (intro reads)

lemma reading_for [reads]: "(\<And>x. reading (f x)) \<Longrightarrow> reading (forW xs f)"
  by (induction xs) (auto intro: reads)

text \<open>The tree.\<close>

lemma reading_ancestor [reads]: "reading (validate_ancestor t fd opened)"
  unfolding validate_ancestor_def stage_xattrs_def by (intro reads)

lemma reading_descend [reads]:
  "reading (descend_checked t fd opened cs)" "reading (descend_present t fd opened cs)"
  by (induction cs arbitrary: fd opened) (auto intro!: reads split: option.split)

lemma reading_open [reads]:
  "reading (open_directory t p mode)" "reading (open_parent t p)" "reading (path_state t p)"
  unfolding open_parent_def open_directory_def path_state_def stage_xattrs_def by (intro reads)+

lemma reading_checks [reads]:
  "reading (linux_mount_id n)" "reading (check_mount a b reason)" "reading (check_no_xattrs fd reason)"
  "reading (tree_entries fd)" "reading (check_entries fd allowed reason)" "reading (stage_xattrs fd)"
  "reading (stat_if_there d name)" "reading (check_sole_candidate names)"
  unfolding check_mount_def linux_mount_id_def check_no_xattrs_def tree_entries_def check_entries_def stage_xattrs_def
    stat_if_there_def check_sole_candidate_def
  by (intro reads)+

lemma reading_directories [reads]:
  "reading (validate_directory t p mode allowed)" "reading (sync_directory t p mode allowed)"
  "reading (validate_provisional_directory t p names)"
  unfolding validate_directory_def sync_directory_def check_republished_def validate_provisional_directory_def
    open_provisional_def check_provisional_def
  by (intro reads)+

lemma reading_marker_bytes [reads]: "reading (read_marker_bytes fuel fd pos remaining)"
  by (induction fuel arbitrary: pos remaining) (auto intro!: reads)

lemma reading_marker [reads]:
  "reading (read_file_at t d name expected)" "reading (read_file t p expected)"
  "reading (read_named_marker t d name expected links)" "reading (validate_marker_residue t expected)"
  unfolding read_file_def read_file_at_def read_named_marker_def validate_marker_residue_def marker_bytes_of_def Let_def
  by (intro reads)+


text \<open>The journal sessions that recover nothing.\<close>

lemma reading_read_chunks [reads]: "reading (read_chunks fuel fd pos remaining)"
  by (induction fuel arbitrary: pos remaining) (auto intro!: reads)

lemma reading_journal_parts [reads]:
  "reading (read_at pol d f allowed)" "reading (directory_entries d)" "reading (validate_linked_create pol d f e m)"
  "reading (inspect_residue_at pol d f)" "reading (load_unpublished_at pol d f)"
  by (rule readingI, rule read_at_same directory_entries_same validate_same inspect_residue_same load_unpublished_same)+

lemma reading_walk [reads]: "reading (walk pol trusted fd opened cs)"
  by (induction cs arbitrary: fd opened) (auto intro!: reads simp: Let_def)

lemma reading_sessions [reads]:
  "reading (session_load_inflight pol ses iid)" "reading (session_load_unpublished pol ses iid)"
  "reading (open_root pol path)"
  unfolding session_load_inflight_def session_load_unpublished_def load_inflight_at_def require_open_def
    open_root_def open_checked_def Let_def
  by (intro reads)+

lemma reading_flock: "reading (os_flock fd exclusive)" "reading (os_close_locked fd)"
  unfolding reading_def os_flock_def os_close_locked_def
  by (intro allI impI triple_syscall;
      auto simp: inodes_kept_def do_flock_def do_unlock_def split: lock_state.splits if_splits nat.splits)+

lemma reading_finally: "reading m \<Longrightarrow> reading c \<Longrightarrow> reading (finallyW m c)"
  unfolding reading_def by (blast intro: triple_finally)

lemma reading_locked: "(\<And>s. reading (body s)) \<Longrightarrow> reading (locked pol path exclusive body)"
  unfolding locked_def Let_def by (intro reads reading_flock reading_finally)

lemma reading_under_lock: "(\<And>pol ses. reading (body pol ses)) \<Longrightarrow> reading (under_lock r exclusive body)"
  unfolding under_lock_def by (intro reads reading_locked; simp add: reads split: exn.split)

lemma reading_stage_parts [reads]:
  "reading (require_execution_identity r)" "reading (refuse_production r)" "reading (validate_existing_roots r)"
  "reading (raw_prefix_length r)" "reading (validate_journal_metadata r links)" "reading (mk_result r op cls record len)"
  "reading (assert_record_exact r record)" "reading (load_unpublished_exact r pol ses)"
  unfolding require_execution_identity_def refuse_production_def check_no_path_def check_no_unit_def service_state_def
    validate_existing_roots_def validate_journal_entries_def journal_entry_check_def raw_prefix_length_def
    validate_journal_metadata_def mk_result_def load_unpublished_exact_def assert_record_exact_def
  by (intro reads; (simp add: reads; fail)?)+

lemma reading_load_inflight [reads]: "reading (load_exact r pol ses True)"
  unfolding load_exact_def if_True by (intro reads)

lemma reading_prefix_length [reads]: "reading (prefix_length r allowed False residue)"
  unfolding prefix_length_def if_False by (intro reads)

lemma reading_observe: "reading (stage_observe r operation)"
  unfolding stage_observe_def observe_absent_def observe_unpublished_def observe_published_def
  by (intro reads reading_under_lock)

lemma reading_main:
  assumes "\<And>m digest. lit m = hd (arguments @ [[]]) \<Longrightarrow> reading (run_mode m digest show)"
  shows "reading (stage05_main py show arguments)"
proof (cases "\<exists>mode ack digest. arguments = [mode, ack, digest]")
  case False
  then show ?thesis by (auto simp: stage05_main_def intro: reads split: list.splits)
next
  case True
  then obtain mode ack digest where args: "arguments = [mode, ack, digest]" by blast
  have handler: "reading (case e of Stage05Error reason \<Rightarrow> return (65, [], reason)
      | JournalConflict _ \<Rightarrow> return (65, [], ''journal_conflict'') | JournalCorrupt _ \<Rightarrow> return (65, [], ''journal_conflict'')
      | JournalSecurityError _ \<Rightarrow> return (65, [], ''journal_conflict'') | _ \<Rightarrow> return (70, [], ''internal_error''))"
    for e :: exn by (cases e) (simp_all add: reads)
  show ?thesis
  proof (cases "find (\<lambda>m. lit m = mode) stage_modes")
    case None
    then show ?thesis by (simp add: stage05_main_def args reads)
  next
    case (Some m)
    then have "lit m = mode" by (auto simp: find_Some_iff)
    then have "reading (run_mode m digest show)" using assms args by simp
    then show ?thesis unfolding stage05_main_def args list.case Some option.case
      by (intro reads handler)
  qed
qed

text \<open>
  C6: an invocation in a mode other than execute and rollback (the production check and the four
  observations) leaves every inode of the disk as it is: contents, names, owners, modes, times;
  only the advisory lock of the journal directory comes and goes.
\<close>

theorem other_modes_read_only:
  assumes "quiet w" "hd (arguments @ [[]]) \<notin> {lit ''execute'', lit ''rollback''}"
    and "stage05_main py show arguments w = (out, w')"
  shows "w_fs w' = (w_fs w)\<lparr>fs_locks := fs_locks (w_fs w')\<rparr>"
proof -
  have mode: "reading (run_mode m digest show)" if "m \<noteq> ''execute''" "m \<noteq> ''rollback''" for m digest
    unfolding run_mode_def using that by (intro reads reading_observe) simp_all
  have "m \<noteq> ''execute'' \<and> m \<noteq> ''rollback''" if "lit m = hd (arguments @ [[]])" for m
    using assms(2) that[symmetric] by (metis insertI1 insertI2)
  then have "reading (stage05_main py show arguments)" using mode by (blast intro: reading_main)
  then have "triple (has_fs (\<lambda>s. s\<lparr>fs_locks := fs_locks (w_fs w)\<rparr> = w_fs w)) (stage05_main py show arguments)
      (\<lambda>_. has_fs (\<lambda>s. s\<lparr>fs_locks := fs_locks (w_fs w)\<rparr> = w_fs w)) (has_fs (\<lambda>s. s\<lparr>fs_locks := fs_locks (w_fs w)\<rparr> = w_fs w))"
    by (auto simp: reading_def inodes_kept_def)
  from tripleD [OF this _ assms(3)] have same: "(w_fs w')\<lparr>fs_locks := fs_locks (w_fs w)\<rparr> = w_fs w"
    using assms(1) by (cases out) (auto simp: has_fs_def)
  show ?thesis by (subst same [symmetric]) simp
qed

lemma other_modes_read_only_witness:
  "fs_inodes (w_fs (snd (stage05_main True loaded_units [lit ''before'', lit ''DISPOSABLE_OVH_LAB'', replicate 64 48]
     (sample_world None)))) = fs_inodes sample_fs"
proof -
  obtain out w' where run: "stage05_main True loaded_units [lit ''before'', lit ''DISPOSABLE_OVH_LAB'', replicate 64 48]
     (sample_world None) = (out, w')" by fastforce
  have "hd ([lit ''before'', lit ''DISPOSABLE_OVH_LAB'', replicate 64 48] @ [[]]) \<notin> {lit ''execute'', lit ''rollback''}"
    by (simp add: lit_def)
  from other_modes_read_only [OF sample_quiet this run] show ?thesis
    unfolding run snd_conv by (metis fs.select_convs(1) fs.surjective fs.update_convs(4) sample_world_def world.select_convs(1))
qed

end
