(* ===== verification/Stage05_Done.thy ===== *)
theory Stage05_Done
  imports Stage05_Spec
begin

text \<open>
  What a finished execution and a finished rollback have established: the four resources are
  exactly there, or all gone, and since that check nothing was done but, at most, the last step of
  the journal.
\<close>

subsection \<open>Programs leave the other parts of the world alone\<close>

definition fair :: "world \<Rightarrow> bool" where
  "fair w = (quiet w \<and> (\<forall>n. w_fail w n \<noteq> Some ENOENT))"

definition steady :: "'a io \<Rightarrow> bool" where
  "steady m = triple fair m (\<lambda>_. fair) fair"

named_theorems steadily

lemma steady_syscall: "steady (syscall f)"
  unfolding steady_def
  by (rule tripleI) (simp add: fair_def quiet_def syscall_def Let_def split: option.split prod.split sum.split)

lemma steady_basics [steadily]:
  "steady (return x)" "steady (raise e)" "steady (lift r)" "steady (stage_error reason)"
  "steady (raise_when c e)" "steady (stage_check c reason)" "steady (security msg)" "steady os_effective_ids"
  unfolding steady_def
  unfolding stage_error_def stage_check_def security_def
  by (rule triple_return triple_raise triple_lift triple_raise_when; assumption)+
    (simp add: triple_def os_effective_ids_def)

lemma steady_token [steadily]: "steady token_hex"
  unfolding steady_def by (rule tripleI) (simp add: token_hex_def fair_def quiet_def)

lemma steady_bind [steadily]: "steady m \<Longrightarrow> (\<And>x. steady (f x)) \<Longrightarrow> steady (bindW m f)"
  unfolding steady_def by (rule triple_bind)

lemma steady_seq [steadily]: "steady m \<Longrightarrow> steady k \<Longrightarrow> steady (seqW m k)"
  unfolding seqW_def by (intro steadily)

lemma steady_catch [steadily]: "steady m \<Longrightarrow> (\<And>e. steady (h e)) \<Longrightarrow> steady (catchW m h)"
  unfolding steady_def by (rule triple_catch)

lemma steady_finally [steadily]: "steady m \<Longrightarrow> steady c \<Longrightarrow> steady (finallyW m c)"
  unfolding steady_def by (rule triple_finally)

lemma steady_if [steadily]: "steady m \<Longrightarrow> steady k \<Longrightarrow> steady (if c then m else k)"
  by simp

lemma steady_cases [steadily]:
  "steady m \<Longrightarrow> (\<And>x. steady (f x)) \<Longrightarrow> steady (case a of None \<Rightarrow> m | Some x \<Rightarrow> f x)"
  "(\<And>x y. steady (g x y)) \<Longrightarrow> steady (case b of (x, y) \<Rightarrow> g x y)"
  by (auto split: option.split prod.split)

lemma steady_syscalls [steadily]:
  "steady (os_fstat n)" "steady (os_stat_at d name)" "steady (os_open_at d name)" "steady (os_open_dir_at d name)"
  "steady (os_scandir d)" "steady os_open_slash" "steady (os_fsync n)" "steady (os_read n pos cnt)"
  "steady (os_listxattr n)" "steady (os_statx_mnt_id n)" "steady (run_show r u)" "steady (os_mkdir d name mode)"
  "steady (os_rmdir d name)" "steady (os_create d name mode)" "steady (os_write n bs)" "steady (os_link d a b)"
  "steady (os_unlink d a)" "steady (os_replace d a b)" "steady (os_fchmod n mode)" "steady (os_flock n ex)"
  "steady (os_close_locked n)"
  unfolding os_fstat_def os_stat_at_def os_open_at_def os_open_dir_at_def os_scandir_def os_open_slash_def os_fsync_def
    os_read_def os_listxattr_def os_statx_mnt_id_def run_show_def os_mkdir_def os_rmdir_def os_create_def os_write_def
    os_link_def os_unlink_def os_replace_def os_fchmod_def os_flock_def os_close_locked_def
  by (rule steady_syscall)+

lemma steady_handlers [steadily]:
  "steady m \<Longrightarrow> steady (os_errors_to reason m)" "steady m \<Longrightarrow> steady (stage_errors_to reason m)"
  "steady m \<Longrightarrow> steady (os_errors_as msg m)"
  unfolding os_errors_to_def stage_errors_to_def os_errors_as_def by (intro steadily; assumption)+

lemma steady_onlyif [steadily]: "steady m \<Longrightarrow> steady (onlyif cond m)"
  unfolding onlyif_def by (intro steadily)

lemma steady_journal_errors [steadily]: "steady m \<Longrightarrow> steady (journal_errors_to a b c m)"
  unfolding journal_errors_to_def by (rule steady_catch; simp add: steadily split: exn.split)

lemma steady_for [steadily]: "(\<And>x. steady (f x)) \<Longrightarrow> steady (forW xs f)"
  by (induction xs) (auto intro: steadily)

text \<open>The journal store.\<close>

lemma steady_loops [steadily]:
  "steady (read_chunks fuel fd pos remaining)" "steady (walk pol trusted fd opened cs)"
  "steady (alloc_temp tries d prefix mode)" "steady (write_all fuel fd rest)"
  "steady (read_marker_bytes fuel fd pos remaining)" "steady (write_marker_bytes fuel fd rest)"
  "steady (descend_checked t fd opened cs)" "steady (descend_present t fd opened cs)"
proof -
  show "steady (read_chunks fuel fd pos remaining)"
    by (induction fuel arbitrary: pos remaining) (auto intro!: steadily)
  show "steady (walk pol trusted fd opened cs)"
    by (induction cs arbitrary: fd opened) (auto intro!: steadily simp: Let_def)
  show "steady (alloc_temp tries d prefix mode)"
    by (induction tries) (auto intro!: steadily)
  show "steady (write_all fuel fd rest)"
    by (induction fuel arbitrary: rest) (auto intro!: steadily)
  show "steady (read_marker_bytes fuel fd pos remaining)"
    by (induction fuel arbitrary: pos remaining) (auto intro!: steadily)
  show "steady (write_marker_bytes fuel fd rest)"
    by (induction fuel arbitrary: rest) (auto intro!: steadily)
  show "steady (descend_checked t fd opened cs)"
    unfolding validate_ancestor_def stage_xattrs_def
    by (induction cs arbitrary: fd opened) (auto intro!: steadily simp: validate_ancestor_def stage_xattrs_def)
  show "steady (descend_present t fd opened cs)"
    by (induction cs arbitrary: fd opened) (auto intro!: steadily split: option.split simp: validate_ancestor_def stage_xattrs_def)
qed

lemma steady_journal_parts [steadily]:
  "steady (open_root pol path)" "steady (read_at pol d f allowed)" "steady (directory_entries d)"
  "steady (validate_linked_create pol d f e m)" "steady (recover_linked_create pol d f e m)"
  "steady (load_at pol d f recover)" "steady (inspect_residue_at pol d f)" "steady (load_unpublished_at pol d f)"
  unfolding open_root_def open_checked_def read_at_def directory_entries_def validate_linked_create_def
    recover_linked_create_def load_at_def inspect_residue_at_def load_unpublished_at_def require_absent_def Let_def
  by (intro steadily)+

lemma steady_cleanup [steadily]:
  "steady (cleanup_one pol d f es name)" "steady (cleanup_loop pol d f es names)" "steady (cleanup_stale_temps pol d f es)"
proof -
  show one: "steady (cleanup_one pol d f es name)" for name
    unfolding cleanup_one_def by (intro steadily)
  show "steady (cleanup_loop pol d f es names)" for names
    by (induction names) (auto intro!: steadily one)
  then show "steady (cleanup_stale_temps pol d f es)"
    unfolding cleanup_stale_temps_def Let_def by (intro steadily)
qed

lemma steady_sessions [steadily]:
  "steady (session_create pol ses record)" "steady (session_load pol ses iid)" "steady (session_load_inflight pol ses iid)"
  "steady (session_inspect_residue pol ses iid)" "steady (session_load_unpublished pol ses iid)"
  "steady (session_cleanup_temps pol ses iid es)" "steady (session_transition pol ses iid pid phash rs st)"
  unfolding session_create_def session_load_def session_load_inflight_def session_inspect_residue_def
    session_load_unpublished_def session_cleanup_temps_def session_transition_def require_exclusive_def require_open_def
    create_at_def load_inflight_at_def transition_at_def atomic_create_def atomic_replace_def new_temp_def fill_temp_def
    or_unlink_def unlink_quietly_def link_new_def require_absent_def
  by (intro steadily)+

text \<open>The tree and the reconciler.\<close>

lemma steady_tree [steadily]:
  "steady (open_directory t p mode)" "steady (open_parent t p)" "steady (path_state t p)"
  "steady (validate_directory t p md allowed)" "steady (create_directory t p md)" "steady (sync_directory t p md allowed)"
  "steady (recover_provisional_directory t p md names)" "steady (remove_directory t p md)"
  "steady (read_file t p expected)" "steady (recover_marker_residue t expected)" "steady (publish_marker t expected)"
  "steady (sync_marker t expected)" "steady (remove_marker t expected)"
  unfolding open_parent_def open_directory_def path_state_def stage_xattrs_def validate_ancestor_def check_mount_def
    linux_mount_id_def check_no_xattrs_def tree_entries_def check_entries_def stat_if_there_def check_sole_candidate_def
    validate_directory_def create_directory_def sync_directory_def check_republished_def open_provisional_def
    check_provisional_def recover_provisional_directory_def remove_directory_def read_file_def read_file_at_def
    read_named_marker_def marker_bytes_of_def recover_marker_temp_def recover_marker_residue_def publish_steps_def
    publish_marker_def sync_marker_def remove_marker_def Let_def
  by (intro steadily)+

lemma steady_stage [steadily]:
  "steady (require_execution_identity r)" "steady (refuse_production r)" "steady (validate_existing_roots r)"
  "steady (allocate_roots r)" "steady (sync_bootstrap_roots r)" "steady (sync_prefix r len)" "steady (raw_prefix_length r)"
  "steady (prefix_length r allow repair residue)" "steady (validate_journal_metadata r links)"
  "steady (mk_result r op cls record len)"
  unfolding require_execution_identity_def refuse_production_def check_no_path_def check_no_unit_def service_state_def
    validate_existing_roots_def validate_journal_entries_def journal_entry_check_def raw_prefix_length_def
    validate_journal_metadata_def mk_result_def allocate_roots_def settle_state_root_def complete_state_root_def
    sync_bootstrap_roots_def sync_prefix_def prefix_length_def validate_provisional_directory_def open_provisional_def
    check_provisional_def check_no_xattrs_def check_entries_def check_mount_def linux_mount_id_def stage_xattrs_def
    tree_entries_def
  by (intro steadily; (simp add: steadily split: option.split; fail)?)+

lemma steady_records [steadily]:
  "steady (load_exact r pol ses inflight)" "steady (load_unpublished_exact r pol ses)" "steady (create_or_load r pol ses)"
  "steady (prepare_existing_record r pol ses)" "steady (stage_transition r pol ses st)"
proof -
  show load: "steady (load_exact r pol ses inflight)" for inflight
    unfolding load_exact_def assert_record_exact_def by (intro steadily)
  show "steady (load_unpublished_exact r pol ses)"
    unfolding load_unpublished_exact_def assert_record_exact_def by (intro steadily)
  show "steady (create_or_load r pol ses)"
    unfolding create_or_load_def by (intro steadily; simp add: steadily load split: exn.split)
  show "steady (prepare_existing_record r pol ses)"
    unfolding prepare_existing_record_def assert_record_exact_def by (intro steadily load)
  show "steady (stage_transition r pol ses st)"
    unfolding stage_transition_def by (intro steadily)
qed

lemma steady_runs [steadily]:
  "steady (create_missing r len)" "steady (require_exact r n reason)" "steady (execute_prologue r pol ses)"
  "steady (execute_length r record)" "steady (rollback_prologue r pol ses)" "steady (begin_rollback r pol ses record len)"
  "steady (remove_resources r len)"
  unfolding create_missing_def require_exact_def execute_prologue_def execute_length_def rollback_prologue_def
    begin_rollback_def remove_resources_def
  by (intro steadily)+

subsection \<open>The resources\<close>

definition exact_directory :: "secure_tree \<Rightarrow> fs \<Rightarrow> ppath \<Rightarrow> nat \<Rightarrow> pystr list \<Rightarrow> bool" where
  "exact_directory t s p md names =
     (\<exists>fd i. real_dir s root_inode (tree_path t p) = Some fd \<and> fs_inodes s fd = Some i
        \<and> iuid i = tr_uid t \<and> igid i = tr_gid t \<and> imode i = md \<and> ixattrs i = [] \<and> sort (map fst (ients i)) = sort names)"

definition exact_file :: "secure_tree \<Rightarrow> fs \<Rightarrow> ppath \<Rightarrow> bytes \<Rightarrow> bool" where
  "exact_file t s p content =
     (\<exists>i. there s (tree_path t p) i \<and> ikind i = KReg \<and> iuid i = tr_uid t \<and> igid i = tr_gid t
        \<and> imode i = 384 \<and> inlink i = 1 \<and> ixattrs i = [] \<and> idata i = content)"

text \<open>Exactly the first \<open>len\<close> resources are there, and the others are gone.\<close>

definition first_exact :: "reconciler \<Rightarrow> nat \<Rightarrow> fs \<Rightarrow> bool" where
  "first_exact r len s =
     (len \<le> 4
      \<and> (if 1 \<le> len then exact_directory (rc_tree r) s config_root 493 (config_entries len)
         else gone s (located (rc_paths r) config_root))
      \<and> (if 2 \<le> len then exact_directory (rc_tree r) s experiments_root 448 (experiment_entries len)
         else gone s (located (rc_paths r) experiments_root))
      \<and> (if 3 \<le> len then exact_directory (rc_tree r) s workspace_path 448 []
         else gone s (located (rc_paths r) workspace_path))
      \<and> (if len = 4 then exact_file (rc_tree r) s marker_path (pl_marker_bytes (rc_plan r))
         else gone s (located (rc_paths r) marker_path)))"

lemma answers_entries: "answers s (tree_entries fd) (\<lambda>ns. ns = sort (map fst (entries_of s fd)))"
  unfolding tree_entries_def
  by (rule answers_bind [OF answers_os_errors [OF answers_scandir]], rule answers_seq [OF answers_check], rule answers_return)
    simp

lemma answers_mount: "answers s (check_mount a b reason) (\<lambda>_. True)"
  unfolding check_mount_def linux_mount_id_def
  by (intro answers_bind [OF answers_catch [OF answers_attribute(2)]] answers_stage_error
      answers_weaken [OF answers_check] TrueI)

lemma answers_open_parent:
  assumes "is_absolute (sp_prefix (tr_paths t))" "components p \<noteq> []"
  shows "answers s (open_parent t p) (\<lambda>(d, name). real_dir s root_inode (butlast (tree_path t p)) = Some d
     \<and> name = last (tree_path t p))"
  unfolding open_parent_def
  by (rule answers_bind [OF answers_open_directory [OF assms(1)]], rule answers_return)
    (use assms(2) in \<open>simp add: directory_at_def located_def parent_path_def last_name_def butlast_append\<close>)

lemma answers_validate_directory:
  assumes "is_absolute (sp_prefix (tr_paths t))" "components p \<noteq> []"
  shows "answers s (validate_directory t p md allowed)
    (\<lambda>es. exact_directory t s p md es \<and> (\<forall>names. allowed = Some names \<longrightarrow> exact_directory t s p md names))"
  unfolding validate_directory_def
proof (rule answers_bind [OF answers_open_parent [OF assms]], clarify,
    rule answers_bind [OF answers_open_directory [OF assms(1)]], rule answers_bind [OF answers_fstat],
    rule answers_bind [OF answers_stat_at], rule answers_seq [OF answers_check], rule answers_seq [OF answers_mount],
    rule answers_bind [OF answers_entries], rule answers_seq [OF answers_check], unfold check_no_xattrs_def,
    rule answers_seq [where c = True], rule answers_bind [OF answers_xattrs], rule answers_weaken [OF answers_check],
    rule TrueI, rule answers_return, goal_cases)
  case (1 d name fd m published es)
  then obtain i where "fs_inodes s fd = Some i" "iuid i = tr_uid t" "igid i = tr_gid t" "imode i = md" "ixattrs i = []"
    "real_dir s root_inode (tree_path t p) = Some fd"
    by (auto simp: directory_at_def)
  with 1 show ?case by (auto simp: exact_directory_def entries_of_def sorted_sort_id split: option.splits)
qed

lemma read_some: "\<exists>k>0. take (min cnt (max (Suc 0) c)) xs = take (min cnt k) xs"
  by (rule exI [of _ "max (Suc 0) c"]) simp

lemma answers_read: "answers s (os_read n pos cnt) (os_read_result n s pos cnt)"
  unfolding os_read_def
  by (rule answers_weaken, rule answers_syscall, rule refl)
    (auto simp: os_read_result_def split: option.splits intro: read_some)

lemma answers_marker_bytes:
  "answers s (read_marker_bytes fuel fd pos remaining)
     (\<lambda>bs. \<forall>i. fs_inodes s fd = Some i \<longrightarrow> bs = take remaining (drop pos (idata i)))"
proof (induction fuel arbitrary: pos remaining)
  case (Suc fuel)
  show ?case
  proof (cases "remaining = 0")
    case False
    show ?thesis unfolding read_marker_bytes.simps if_not_P [OF False]
    proof (rule answers_bind [OF answers_read], split if_split, intro conjI impI, goal_cases)
      case (1 chunk)
      then show ?case using False
        by (intro answers_return) (auto simp: os_read_result_def)
    next
      case (2 chunk)
      then obtain i k where i: "fs_inodes s fd = Some i" "0 < k"
          "chunk = take (min (min 4096 remaining) k) (drop pos (idata i))"
        by (auto simp: os_read_result_def)
      define n where "n = min (min 4096 remaining) k"
      have le: "n \<le> remaining" by (simp add: n_def)
      have chunk: "chunk = take n (drop pos (idata i))" using i(3) by (simp add: n_def)
      show ?case
      proof (rule answers_bind [OF Suc.IH], rule answers_return, intro allI impI, goal_cases)
        case (1 rest j)
        then have rest: "rest = take (remaining - length chunk) (drop (length chunk) (drop pos (idata i)))"
          and j: "j = i" using i(1) by (simp_all add: add.commute)
        have "take remaining (drop pos (idata i)) = take (length chunk + (remaining - length chunk)) (drop pos (idata i))"
          using le by (simp add: chunk)
        also have "\<dots> = chunk @ rest" unfolding take_add rest by (simp add: chunk min_def)
        finally show ?case using j by simp
      qed
    qed
  qed (auto intro: answers_return)
qed (auto intro: answers_raise)

lemma answers_read_file:
  assumes "is_absolute (sp_prefix (tr_paths t))" "components p \<noteq> []" "length expected \<le> max_marker_bytes"
  shows "answers s (read_file t p expected) (\<lambda>_. exact_file t s p expected)"
  unfolding read_file_def
proof (rule answers_bind [OF answers_open_parent [OF assms(1,2)]], clarify, rule answers_catch, unfold read_file_at_def,
    rule answers_bind [OF answers_open_at], rule answers_bind [OF answers_fstat], rule answers_bind [OF answers_xattrs],
    rule answers_seq [OF answers_check], rule answers_seq [OF answers_mount], unfold marker_bytes_of_def,
    rule answers_bind [OF answers_marker_bytes], rule answers_bind [OF answers_fstat], rule answers_bind [OF answers_stat_at],
    rule answers_seq [OF answers_check], rule answers_bind [OF answers_xattrs], rule answers_weaken [OF answers_check],
    goal_cases)
  case (1 d name fd m xs content m' published now u)
  then obtain i where i: "fs_inodes s fd = Some i" "lookup s d (last (tree_path t p)) = Some fd" by auto
  have "content = take (Suc max_marker_bytes) (idata i)" using 1 i by simp
  moreover have content: "content = expected" using 1 by simp
  ultimately have "length (take (Suc max_marker_bytes) (idata i)) \<le> max_marker_bytes" using assms(3) by simp
  then have "length (idata i) \<le> Suc max_marker_bytes" by (simp add: min_def split: if_splits)
  then have "idata i = expected" using content \<open>content = take _ _\<close> by simp
  moreover have "there s (tree_path t p) i" using 1 i by (auto simp: there_def)
  ultimately show ?case using 1 i by (auto simp: exact_file_def marker_unlike_def stat_of_def)
next
  case (2 d name e)
  then show ?case by (auto intro: answers_stage_error answers_raise)
qed

lemma answers_raw_prefix:
  assumes "is_absolute (sp_prefix (rc_paths r))"
  shows "answers s (raw_prefix_length r)
    (\<lambda>len. len \<le> 4 \<and> (len < 1 \<longrightarrow> gone s (located (rc_paths r) config_root))
       \<and> (len < 2 \<longrightarrow> gone s (located (rc_paths r) experiments_root))
       \<and> (len < 3 \<longrightarrow> gone s (located (rc_paths r) workspace_path))
       \<and> (len < 4 \<longrightarrow> gone s (located (rc_paths r) marker_path)))"
proof -
  have a: "is_absolute (sp_prefix (tr_paths (rc_tree r)))" "tr_paths (rc_tree r) = rc_paths r"
    using assms by (simp_all add: rc_tree_def)
  show ?thesis unfolding raw_prefix_length_def
    by (rule answers_bind [OF answers_path_state [OF a(1)]], rule answers_bind [OF answers_path_state [OF a(1)]],
        rule answers_bind [OF answers_path_state [OF a(1)]], rule answers_bind [OF answers_path_state [OF a(1)]])
      (auto split: option.split intro!: answers_stage_error answers_return simp: prefix_of_def a(2) split: if_splits)
qed

lemma fixed_components:
  "components config_root \<noteq> []" "components experiments_root \<noteq> []" "components workspace_path \<noteq> []"
  "components marker_path \<noteq> []"
  by code_simp+

lemma answers_onlyif: "(cond \<Longrightarrow> answers s m (\<lambda>_. R)) \<Longrightarrow> answers s (onlyif cond m) (\<lambda>_. cond \<longrightarrow> R)"
  unfolding onlyif_def by (auto intro: answers_return answers_weaken)

lemma answers_prefix_length:
  assumes "is_absolute (sp_prefix (rc_paths r))" "length (pl_marker_bytes (rc_plan r)) \<le> max_marker_bytes"
  shows "answers s (prefix_length r False repair None) (\<lambda>len. first_exact r len s)"
proof -
  have a: "is_absolute (sp_prefix (tr_paths (rc_tree r)))" "tr_paths (rc_tree r) = rc_paths r"
    using assms by (simp_all add: rc_tree_def)
  note dir = answers_validate_directory [OF a(1)]
  have checked: "answers s (bindW (validate_directory (rc_tree r) p md (Some names)) (\<lambda>_. return ()))
      (\<lambda>_. exact_directory (rc_tree r) s p md names)" if "components p \<noteq> []" for p md names
    by (rule answers_bind [OF dir [OF that]], rule answers_return) simp
  show ?thesis unfolding prefix_length_def
  proof (rule answers_bind [OF answers_raw_prefix [OF assms(1)]], rule answers_seq [OF answers_onlyif],
      rule answers_catch, unfold option.case append_Nil2, rule checked [OF fixed_components(1)],
      rule answers_weaken [where R = "\<lambda>_. False"], simp, rule answers_raise, simp,
      rule answers_seq [OF answers_onlyif], rule checked [OF fixed_components(2)],
      rule answers_seq [OF answers_onlyif], rule checked [OF fixed_components(3)],
      rule answers_seq [OF answers_onlyif], rule answers_read_file [OF a(1) fixed_components(4) assms(2)],
      rule answers_return, goal_cases)
    case (1 len)
    then show ?case by (auto simp: first_exact_def)
  qed
qed

lemma answers_require_exact:
  assumes "is_absolute (sp_prefix (rc_paths r))" "length (pl_marker_bytes (rc_plan r)) \<le> max_marker_bytes"
  shows "answers s (require_exact r n reason) (\<lambda>_. first_exact r n s)"
  unfolding require_exact_def
  by (rule answers_bind [OF answers_prefix_length [OF assms]]) (rule answers_weaken [OF answers_check], simp)

subsection \<open>Finished runs\<close>

text \<open>
  At some moment the first \<open>n\<close> resources were exact and the others gone, and the inodes are still
  those of that moment, or those that the journal's step to \<open>st\<close> made of them.
\<close>

definition reached :: "reconciler \<Rightarrow> nat \<Rightarrow> journal_state \<Rightarrow> world \<Rightarrow> bool" where
  "reached r n st w' =
     (\<exists>w. first_exact r n (w_fs w)
        \<and> (fs_inodes (w_fs w') = fs_inodes (w_fs w)
           \<or> (\<exists>pol ses. fs_inodes (w_fs w') = fs_inodes (w_fs (snd (stage_transition r pol ses st w))))))"

definition arrived :: "reconciler \<Rightarrow> nat \<Rightarrow> journal_state \<Rightarrow> world \<Rightarrow> bool" where
  "arrived r n st w = (fair w \<and> reached r n st w)"

abbreviation ends :: "(world \<Rightarrow> bool) \<Rightarrow> 'a io \<Rightarrow> ('a \<Rightarrow> world \<Rightarrow> bool) \<Rightarrow> bool" where
  "ends P m Q \<equiv> triple P m Q (\<lambda>_. True)"

lemma ends_any: "ends P m (\<lambda>_ _. True)"
  by (auto simp: triple_def split: prod.split Posix.outcome.split)

lemma ends_never: "ends P (stage_error reason) Q"
  unfolding stage_error_def by (rule triple_raise) simp

lemma ends_steady: "steady m \<Longrightarrow> ends fair m (\<lambda>_. fair)"
  unfolding steady_def by (erule triple_conseq) auto

lemma ends_answers:
  assumes "\<And>s. P s \<Longrightarrow> answers s m (\<lambda>x. R x s)"
  shows "ends (\<lambda>w. fair w \<and> P (w_fs w)) m (\<lambda>x w. fair w \<and> P (w_fs w) \<and> R x (w_fs w))"
proof (rule tripleI)
  fix w assume w: "fair w \<and> P (w_fs w)"
  obtain out w' where o: "m w = (out, w')" by fastforce
  have "honest (w_fs w) w" using w by (simp add: honest_def fair_def)
  from answersD [OF assms this o] w
  show "case m w of (Ret x, w') \<Rightarrow> fair w' \<and> P (w_fs w') \<and> R x (w_fs w') | (Raise e, w') \<Rightarrow> True | (Killed, w') \<Rightarrow> True"
    unfolding o by (cases out) (auto simp: honest_def fair_def)
qed

lemma ends_reading:
  "(\<And>s. answers s m (R s)) \<Longrightarrow> ends (\<lambda>w. fair w \<and> P (w_fs w)) m (\<lambda>_ w. fair w \<and> P (w_fs w))"
  by (rule triple_conseq, rule ends_answers [where P = P and R = "\<lambda>_ _. True"])
    (auto intro: answers_weaken)

lemma ends_check: "ends P (stage_check c reason) (\<lambda>_ w. P w \<and> \<not> c)"
  unfolding stage_check_def by (rule triple_raise_when) auto

lemma answers_result:
  assumes "is_absolute (sp_prefix (rc_paths r))"
  shows "answers s (mk_result r op cls record len) (\<lambda>_. True)"
proof -
  have a: "is_absolute (sp_prefix (tr_paths (rc_tree r)))" using assms by (simp add: rc_tree_def)
  show ?thesis unfolding mk_result_def
    by (rule answers_bind [where R = "\<lambda>_. True"], split if_split, intro conjI impI)
      (auto intro!: answers_return answers_bind [OF answers_validate_directory [OF a fixed_components(3)]])
qed

text \<open>The reconciler has an absolute root and its marker fits.\<close>

definition sound :: "reconciler \<Rightarrow> bool" where
  "sound r = (is_absolute (sp_prefix (rc_paths r)) \<and> length (pl_marker_bytes (rc_plan r)) \<le> max_marker_bytes)"

lemma soundD: "sound r \<Longrightarrow> is_absolute (sp_prefix (rc_paths r))"
  "sound r \<Longrightarrow> length (pl_marker_bytes (rc_plan r)) \<le> max_marker_bytes"
  by (simp_all add: sound_def)

lemma ends_now:
  assumes "\<And>s. answers s m (R s)"
  shows "ends (\<lambda>w. fair w \<and> first_exact r n (w_fs w)) m (\<lambda>_. arrived r n st)"
  by (rule triple_conseq, rule ends_reading [OF assms], assumption) (auto simp: arrived_def reached_def)

lemma reached_step:
  "first_exact r n (w_fs w) \<Longrightarrow> w_fs w' = w_fs (snd (stage_transition r pol ses st w)) \<Longrightarrow> reached r n st w'"
  unfolding reached_def by metis

lemma ends_after:
  assumes "\<And>x s. answers s (f x) (R s)"
  shows "ends (\<lambda>w. fair w \<and> first_exact r n (w_fs w)) (bindW (stage_transition r pol ses st) f) (\<lambda>_. arrived r n st)"
proof -
  let ?P = "\<lambda>s. \<exists>w. first_exact r n (w_fs w) \<and> s = w_fs (snd (stage_transition r pol ses st w))"
  have "ends (\<lambda>w. fair w \<and> first_exact r n (w_fs w)) (stage_transition r pol ses st) (\<lambda>_ w. fair w \<and> ?P (w_fs w))"
  proof (rule tripleI)
    fix w assume w: "fair w \<and> first_exact r n (w_fs w)"
    obtain out w' where o: "stage_transition r pol ses st w = (out, w')" by fastforce
    have "fair w'" using tripleD [OF steady_records(5) [of r pol ses st, unfolded steady_def] _ o] w
      by (cases out) auto
    then show "case stage_transition r pol ses st w of (Ret x, w') \<Rightarrow> fair w' \<and> ?P (w_fs w')
        | (Raise e, w') \<Rightarrow> True | (Killed, w') \<Rightarrow> True"
      using w o by (auto split: Posix.outcome.split intro!: exI [of _ w])
  qed
  then show ?thesis
    by (rule triple_bind) (rule triple_conseq, rule ends_reading [OF assms, where P = ?P], auto simp: arrived_def intro: reached_step)
qed

lemma ends_checked:
  assumes ok: "sound r" and "\<And>s. answers s k (R s)"
  shows "ends fair (seqW (require_exact r n reason) k) (\<lambda>_. arrived r n st)"
proof -
  have "ends (\<lambda>w. fair w \<and> True) (require_exact r n reason) (\<lambda>_ w. fair w \<and> True \<and> first_exact r n (w_fs w))"
    by (rule ends_answers) (rule answers_require_exact [OF soundD [OF ok]])
  then have "ends fair (require_exact r n reason) (\<lambda>_ w. fair w \<and> first_exact r n (w_fs w))" by simp
  then show ?thesis by (rule triple_seq) (rule ends_now [OF assms(2)])
qed

lemma ends_apply:
  assumes ok: "sound r"
  shows "ends fair (apply_guarded r pol ses cls len) (\<lambda>_. arrived r 4 VALIDATED)"
proof -
  have handler: "ends (\<lambda>_. True) (seqW (record_failed_if_stable r pol ses) (raise e)) Q" for e and Q :: "stage_result \<Rightarrow> world \<Rightarrow> bool"
    by (rule triple_seq [OF ends_any]) (rule triple_raise, simp)
  show ?thesis unfolding apply_guarded_def
  proof (rule triple_catch [OF _ handler])
    show "ends fair (apply_resources r pol ses cls len) (\<lambda>_. arrived r 4 VALIDATED)"
      unfolding apply_resources_def
      by (rule triple_seq [OF ends_steady], rule steadily, rule triple_seq [OF ends_steady], rule steadily,
          rule triple_bind [OF ends_steady], rule steadily, rule triple_seq [OF ends_steady], rule steadily,
          rule triple_seq [OF ends_steady], rule steadily, rule triple_bind [OF ends_steady], rule steadily,
          rule ends_checked [OF ok]) (rule answers_result [OF soundD(1) [OF ok]])
  qed simp
qed

lemma ends_execute_from:
  assumes ok: "sound r"
  shows "ends (\<lambda>w. fair w \<and> (state_of record \<noteq> APPLYING \<longrightarrow> first_exact r len (w_fs w)))
     (execute_from r pol ses cls record len) (\<lambda>_. arrived r 4 VALIDATED)"
proof (cases "state_of record = APPLYING")
  case True
  have "ends fair (seqW (refuse_production r) (apply_guarded r pol ses cls len)) (\<lambda>_. arrived r 4 VALIDATED)"
    by (rule triple_seq [OF ends_steady [OF steady_stage(2)] ends_apply [OF ok]])
  then show ?thesis by (simp add: execute_from_def True)
next
  case False
  have result: "answers s (seqW (refuse_production r) (mk_result r op cls record' len')) (\<lambda>_. True)" for s op cls record' len'
    by (rule answers_seq [OF answers_refuse [OF soundD(1) [OF ok]] answers_result [OF soundD(1) [OF ok]]])
  have final: "ends (\<lambda>w. fair w \<and> first_exact r 4 (w_fs w))
      (seqW (refuse_production r) (bindW (stage_transition r pol ses VALIDATED) (\<lambda>record'. mk_result r ''execute'' cls record' 4)))
      (\<lambda>_. arrived r 4 VALIDATED)"
    by (rule triple_seq [OF ends_reading [OF answers_refuse [OF soundD(1) [OF ok]]]]) (rule ends_after [OF answers_result [OF soundD(1) [OF ok]]])
  have apply_first: "ends fair (seqW (refuse_production r)
      (bindW (stage_transition r pol ses APPLYING) (\<lambda>_. apply_guarded r pol ses cls len))) (\<lambda>_. arrived r 4 VALIDATED)"
    by (rule triple_seq [OF ends_steady [OF steady_stage(2)]], rule triple_bind [OF ends_steady [OF steady_records(5)] ends_apply [OF ok]])
  have four: "ends (\<lambda>w. fair w \<and> first_exact r len (w_fs w)) (seqW (stage_check (len \<noteq> 4) reason) k) (\<lambda>_. arrived r 4 VALIDATED)"
    if "ends (\<lambda>w. fair w \<and> first_exact r 4 (w_fs w)) k (\<lambda>_. arrived r 4 VALIDATED)" for reason and k :: "stage_result io"
    by (rule triple_seq [OF ends_check]) (rule triple_conseq [OF that], auto)
  have "ends (\<lambda>w. fair w \<and> first_exact r len (w_fs w)) (execute_from r pol ses cls record len) (\<lambda>_. arrived r 4 VALIDATED)"
  proof (cases "state_of record")
    case PLANNED
    show ?thesis unfolding execute_from_def PLANNED journal_state.case
      by (rule triple_seq [OF ends_check]) (rule triple_conseq [OF apply_first], auto)
  next
    case VALIDATED
    have "ends (\<lambda>w. fair w \<and> first_exact r 4 (w_fs w))
        (seqW (refuse_production r) (mk_result r ''execute'' cls record len)) (\<lambda>_. arrived r 4 VALIDATED)"
      by (rule ends_now [OF result])
    then show ?thesis unfolding execute_from_def VALIDATED journal_state.case by (rule four)
  next
    case APPLIED
    show ?thesis
    proof (cases "len = 4")
      case True
      show ?thesis unfolding execute_from_def APPLIED journal_state.case using four [OF final] True by simp
    next
      case False
      then show ?thesis unfolding execute_from_def APPLIED journal_state.case
        by (simp add: stage_check_def seqW_def triple_raise)
    qed
  qed (simp_all add: execute_from_def ends_never False)
  then show ?thesis using False by simp
qed

lemma ends_execute_body:
  assumes ok: "sound r"
  shows "ends fair (execute_body r pol cls ses) (\<lambda>_. arrived r 4 VALIDATED)"
  unfolding execute_body_def
proof (rule triple_bind [OF ends_steady [OF steady_runs(3)]], rule triple_bind [OF _ ends_execute_from [OF ok]])
  fix rec
  show "ends fair (execute_length r rec) (\<lambda>len w. fair w \<and> (state_of rec \<noteq> APPLYING \<longrightarrow> first_exact r len (w_fs w)))"
  proof (cases "state_of rec = APPLYING")
    case True
    then show ?thesis by (simp add: ends_steady [OF steady_runs(4)])
  next
    case False
    have "ends (\<lambda>w. fair w \<and> True) (prefix_length r False True None) (\<lambda>len w. fair w \<and> True \<and> first_exact r len (w_fs w))"
      by (rule ends_answers) (rule answers_prefix_length [OF soundD [OF ok]])
    with False show ?thesis by (simp add: execute_length_def)
  qed
qed

lemma reached_inodes: "fs_inodes (w_fs w') = fs_inodes (w_fs w) \<Longrightarrow> reached r n st w' = reached r n st w"
  by (simp add: reached_def)

lemma ends_unlock: "ends (arrived r n st) (os_close_locked fd) (\<lambda>_. arrived r n st)"
proof (rule tripleI)
  fix w assume w: "arrived r n st w"
  obtain out w' where o: "os_close_locked fd w = (out, w')" by fastforce
  have "inodes_kept (\<lambda>s. fs_inodes s = fs_inodes (w_fs w))" by (simp add: inodes_kept_def)
  then have "triple (has_fs (\<lambda>s. fs_inodes s = fs_inodes (w_fs w))) (os_close_locked fd)
      (\<lambda>_. has_fs (\<lambda>s. fs_inodes s = fs_inodes (w_fs w))) (has_fs (\<lambda>s. fs_inodes s = fs_inodes (w_fs w)))"
    using reading_flock(2) [of fd] by (simp add: reading_def)
  from tripleD [OF this _ o] w have "fs_inodes (w_fs w') = fs_inodes (w_fs w)"
    by (cases out) (auto simp: has_fs_def arrived_def fair_def)
  moreover have "fair w'" using tripleD [OF steady_syscalls(21) [of fd, unfolded steady_def] _ o] w
    by (cases out) (auto simp: arrived_def)
  ultimately have "arrived r n st w'" using w reached_inodes [of w' w r n st] by (simp add: arrived_def)
  then show "case os_close_locked fd w of (Ret x, w') \<Rightarrow> arrived r n st w' | (Raise e, w') \<Rightarrow> True | (Killed, w') \<Rightarrow> True"
    by (simp add: o split: Posix.outcome.split)
qed

lemma ends_under_lock:
  assumes "\<And>pol ses. ends fair (body pol ses) (\<lambda>_. arrived r n st)"
  shows "ends fair (under_lock r exclusive body) (\<lambda>_. arrived r n st)"
proof -
  have flocked: "steady (catchW (os_flock fd exclusive)
      (\<lambda>e. if e = BlockingIOError then raise (JournalConflict ''journal directory is locked'') else raise e))" for fd
    by (intro steadily)
  have run: "ends fair (locked pol path exclusive (body pol)) (\<lambda>_. arrived r n st)" for pol path
    unfolding locked_def Let_def
    by (rule triple_bind [OF ends_steady], rule steadily, rule triple_seq [OF ends_steady [OF flocked]],
        rule triple_finally [OF _ ends_unlock ends_any], rule triple_bind [OF assms], rule triple_return, assumption, simp)
  have handler: "ends (\<lambda>_. True) (case e of JournalConflict _ \<Rightarrow> stage_error ''transaction_busy'' | _ \<Rightarrow> raise e) Q"
    for e and Q :: "stage_result \<Rightarrow> world \<Rightarrow> bool"
    by (auto split: exn.split intro: ends_never triple_raise)
  show ?thesis unfolding under_lock_def
    by (rule triple_bind [OF ends_steady], rule steadily, rule triple_bind [OF ends_steady], rule steadily,
        rule triple_catch [OF triple_bind [OF run] handler], auto intro: triple_return)
qed

lemma ends_execute:
  assumes "sound r"
  shows "ends fair (stage_execute r) (\<lambda>_. arrived r 4 VALIDATED)"
  unfolding stage_execute_def
  by (rule triple_seq [OF ends_steady], rule steadily, rule triple_seq [OF ends_steady], rule steadily,
      rule triple_bind [OF ends_steady], rule steadily, rule ends_under_lock, rule ends_execute_body [OF assms])

lemma ends_rollback_body:
  assumes ok: "sound r"
  shows "ends fair (rollback_body r pol ses) (\<lambda>_. arrived r 0 ROLLED_BACK)"
proof -
  have len: "ends fair (rollback_prologue r pol ses)
      (\<lambda>(rec, len) w. fair w \<and> (state_of rec \<noteq> APPLYING \<longrightarrow> first_exact r len (w_fs w)))"
    unfolding rollback_prologue_def
  proof (rule triple_seq [OF ends_steady], rule steadily, rule triple_seq [OF ends_steady], intro steadily,
      rule triple_bind [OF ends_steady], rule steadily, rule triple_seq [OF ends_steady], intro steadily, goal_cases)
    case (1 rec)
    show ?case
    proof (cases "state_of rec = APPLYING")
      case True
      have "steady (stage_errors_to ''rollback_foreign_state'' (prefix_length r (state_of rec = APPLYING) True None))"
        by (intro steadily)
      from ends_steady [OF this] show ?thesis by (rule triple_bind) (rule triple_return, simp add: True)
    next
      case False
      have "ends (\<lambda>w. fair w \<and> True) (stage_errors_to ''rollback_foreign_state'' (prefix_length r False True None))
          (\<lambda>len w. fair w \<and> True \<and> first_exact r len (w_fs w))"
        by (rule ends_answers) (rule answers_stage_errors [OF answers_prefix_length [OF soundD [OF ok]]])
      with False show ?thesis
        by (intro triple_bind [where R = "\<lambda>len w. fair w \<and> first_exact r len (w_fs w)"]) (auto intro: triple_return)
    qed
  qed
  have remove: "ends fair (bindW (begin_rollback r pol ses rec len) (\<lambda>_. seqW (remove_resources r len)
      (seqW (require_exact r 0 ''rollback_foreign_state'')
        (bindW (stage_transition r pol ses ROLLED_BACK) (\<lambda>record'. mk_result r ''rollback'' ''exact'' record' 0)))))
      (\<lambda>_. arrived r 0 ROLLED_BACK)" for rec len
  proof (rule triple_bind [OF ends_steady], rule steadily, rule triple_seq [OF ends_steady], rule steadily)
    have "ends (\<lambda>w. fair w \<and> True) (require_exact r 0 ''rollback_foreign_state'') (\<lambda>_ w. fair w \<and> True \<and> first_exact r 0 (w_fs w))"
      by (rule ends_answers) (rule answers_require_exact [OF soundD [OF ok]])
    then have "ends fair (require_exact r 0 ''rollback_foreign_state'') (\<lambda>_ w. fair w \<and> first_exact r 0 (w_fs w))" by simp
    then show "ends fair (seqW (require_exact r 0 ''rollback_foreign_state'')
        (bindW (stage_transition r pol ses ROLLED_BACK) (\<lambda>record'. mk_result r ''rollback'' ''exact'' record' 0)))
        (\<lambda>_. arrived r 0 ROLLED_BACK)"
      by (rule triple_seq) (rule ends_after [OF answers_result [OF soundD(1) [OF ok]]])
  qed
  show ?thesis unfolding rollback_body_def
  proof (rule triple_bind [OF len], clarify)
    fix rec len
    let ?P = "\<lambda>w. fair w \<and> (state_of rec \<noteq> APPLYING \<longrightarrow> first_exact r len (w_fs w))"
    show "ends ?P (if state_of rec = ROLLED_BACK
        then seqW (stage_check (len \<noteq> 0) ''rollback_foreign_state'') (mk_result r ''rollback'' ''exact'' rec 0)
        else bindW (begin_rollback r pol ses rec len) (\<lambda>_. seqW (remove_resources r len)
          (seqW (require_exact r 0 ''rollback_foreign_state'')
            (bindW (stage_transition r pol ses ROLLED_BACK) (\<lambda>record'. mk_result r ''rollback'' ''exact'' record' 0)))))
        (\<lambda>_. arrived r 0 ROLLED_BACK)"
    proof (cases "state_of rec = ROLLED_BACK")
      case False
      then show ?thesis using remove [of rec len] by (simp, elim triple_conseq) auto
    next
      case True
      have "ends (\<lambda>w. fair w \<and> first_exact r 0 (w_fs w)) (mk_result r ''rollback'' ''exact'' rec 0) (\<lambda>_. arrived r 0 ROLLED_BACK)"
        by (rule ends_now [OF answers_result [OF soundD(1) [OF ok]]])
      then show ?thesis unfolding if_P [OF True]
        by (rule_tac triple_seq [OF ends_check]) (erule triple_conseq, auto simp: True)
    qed
  qed
qed

lemma ends_rollback:
  assumes "sound r"
  shows "ends fair (stage_rollback r) (\<lambda>_. arrived r 0 ROLLED_BACK)"
  unfolding stage_rollback_def
  by (rule triple_seq [OF ends_steady], rule steadily, rule triple_seq [OF ends_steady], rule steadily,
      rule triple_bind [OF ends_steady], rule steadily, rule triple_seq [OF ends_steady], rule steadily,
      rule ends_under_lock, rule ends_rollback_body [OF assms])

end
