(* ===== verification/Stage05_Rerun.thy ===== *)
theory Stage05_Rerun
  imports Stage05_Done
begin

text \<open>
  Running the stage again where it is already validated: in a calm world whose tree is owned by
  root and where no production installation is, \<open>execute\<close> returns and changes nothing.  \<open>gives s m x\<close>
  says that a program run by root from the file system \<open>s\<close> returns \<open>x\<close> and leaves it as it was.
\<close>

definition gives :: "fs \<Rightarrow> 'a io \<Rightarrow> 'a \<Rightarrow> bool" where
  "gives s m x = returns (calm_fs 0 0 (\<lambda>s'. s' = s)) m (\<lambda>y. calm_fs 0 0 (\<lambda>s'. s' = s \<and> y = x))"

lemma gives_return: "gives s (return x) x"
  unfolding gives_def by (rule returns_return) (simp add: calm_fs_def)

lemma gives_bind: "gives s m x \<Longrightarrow> gives s (f x) y \<Longrightarrow> gives s (bindW m f) y"
  unfolding gives_def by (rule returns_at_bind, assumption) simp

lemma gives_seq: "gives s m () \<Longrightarrow> gives s k y \<Longrightarrow> gives s (seqW m k) y"
  unfolding seqW_def by (rule gives_bind)

lemma gives_check: "\<not> c \<Longrightarrow> gives s (stage_check c reason) ()"
  by (simp add: stage_check_def gives_return)

lemma gives_catch: "gives s m x \<Longrightarrow> gives s (catchW m h) x"
  unfolding gives_def by (rule returns_catch)

lemma gives_handlers:
  "gives s m x \<Longrightarrow> gives s (os_errors_to reason m) x" "gives s m x \<Longrightarrow> gives s (stage_errors_to reason m) x"
  "gives s m x \<Longrightarrow> gives s (os_errors_as msg m) x" "gives s m x \<Longrightarrow> gives s (journal_errors_to a b c m) x"
  unfolding os_errors_to_def stage_errors_to_def os_errors_as_def journal_errors_to_def by (rule gives_catch; assumption)+

lemma gives_onlyif: "(c \<Longrightarrow> gives s m ()) \<Longrightarrow> gives s (onlyif c m) ()"
  by (simp add: onlyif_def gives_return)

lemma gives_syscall:
  assumes "\<And>w. f w s = (Inr x, s)"
  shows "gives s (syscall f) x"
  unfolding gives_def by (rule returns_syscall) (use assms in auto)

lemma gives_missing:
  assumes "\<And>w s. f w s = (g s, s)" "g s = r"
    and "\<And>x. r = Inr x \<Longrightarrow> v = Some x" "\<And>e. r = Inl e \<Longrightarrow> e = OSError ENOENT \<and> v = None"
  shows "gives s (catchW (bindW (syscall f) (\<lambda>n. return (Some n)))
             (\<lambda>e. if e = OSError ENOENT then return None else raise e)) v"
  unfolding gives_def returns_def
proof (intro allI impI)
  fix w assume w: "calm_fs 0 0 (\<lambda>s'. s' = s) w"
  show "\<exists>x w'. catchW (bindW (syscall f) (\<lambda>n. return (Some n)))
      (\<lambda>e. if e = OSError ENOENT then return None else raise e) w = (Ret x, w') \<and> calm_fs 0 0 (\<lambda>s'. s' = s \<and> x = v) w'"
    using w assms
    by (cases r) (auto simp: catchW_def bindW_def return_def syscall_def Let_def calm_fs_def calm_def quiet_def)
qed

lemma gives_fstat: "fs_inodes s n = Some i \<Longrightarrow> gives s (os_fstat n) (stat_of n i)"
  unfolding gives_def by (rule returns_at_fstat)

lemma gives_stat_at: "lookup s d name = Some n \<Longrightarrow> fs_inodes s n = Some i \<Longrightarrow> gives s (os_stat_at d name) (stat_of n i)"
  unfolding gives_def by (rule returns_at_stat_at)

lemma gives_open_at:
  "lookup s d name = Some n \<Longrightarrow> fs_inodes s n = Some i \<Longrightarrow> ikind i \<noteq> KLnk \<Longrightarrow> gives s (os_open_at d name) n"
  unfolding gives_def by (rule returns_at_open)

lemma gives_open_dir: "real_dir s d [c] = Some n \<Longrightarrow> gives s (os_open_dir_at d c) n"
  unfolding os_open_dir_at_def by (rule gives_syscall) (simp add: real_dir_step [symmetric] del: real_dir.simps)

lemma gives_simple:
  "gives s os_open_slash root_inode" "gives s (os_scandir d) (map fst (entries_of s d))" "gives s (os_fsync n) ()"
  unfolding os_open_slash_def os_scandir_def os_fsync_def by (rule gives_syscall, simp)+

lemma gives_ids: "gives s os_effective_ids (0, 0)"
  by (simp add: gives_def returns_def os_effective_ids_def calm_fs_def)

lemma gives_attribute:
  "fs_inodes s n = Some i \<Longrightarrow> gives s (os_listxattr n) (ixattrs i)"
  "fs_inodes s n = Some i \<Longrightarrow> gives s (os_statx_mnt_id n) (imnt i)"
  unfolding os_listxattr_def os_statx_mnt_id_def by (rule gives_syscall, simp add: do_attribute_def)+

text \<open>A tree that root owns, on one mount, without attributes, links or open modes.\<close>

definition tame :: "fs \<Rightarrow> bool" where
  "tame s = (\<exists>m. (\<forall>n i. fs_inodes s n = Some i \<longrightarrow>
      iuid i = 0 \<and> igid i = 0 \<and> \<not> group_other_write (imode i) \<and> ixattrs i = [] \<and> ikind i \<noteq> KLnk \<and> imnt i = m)
    \<and> (\<exists>i. fs_inodes s root_inode = Some i \<and> ikind i = KDir)
    \<and> (\<forall>d name n. lookup s d name = Some n \<longrightarrow> fs_inodes s n \<noteq> None))"

lemma tameD:
  "tame s \<Longrightarrow> fs_inodes s n = Some i \<Longrightarrow> iuid i = 0 \<and> igid i = 0 \<and> \<not> group_other_write (imode i) \<and> ixattrs i = [] \<and> ikind i \<noteq> KLnk"
  "tame s \<Longrightarrow> fs_inodes s n = Some i \<Longrightarrow> fs_inodes s n' = Some i' \<Longrightarrow> imnt i = imnt i'"
  "tame s \<Longrightarrow> \<exists>i. fs_inodes s root_inode = Some i \<and> ikind i = KDir"
  "tame s \<Longrightarrow> lookup s d name = Some n \<Longrightarrow> \<exists>i. fs_inodes s n = Some i"
  unfolding tame_def by (metis | blast)+

definition root_tree :: secure_tree where
  "root_tree = \<lparr>tr_paths = production_stage_paths, tr_uid = 0, tr_gid = 0\<rparr>"

lemma root_tree_simps [simp]:
  "tr_paths root_tree = production_stage_paths" "tr_uid root_tree = 0" "tr_gid root_tree = 0"
  "sp_trusted production_stage_paths = None" "below_trust root_tree opened = False"
  "is_absolute (sp_prefix production_stage_paths)" "located production_stage_paths p = components p"
  by (simp_all add: root_tree_def production_stage_paths_def below_trust_def below_boundary_def root_path_def is_absolute_def
      located_def)

lemma gives_xattrs: "fs_inodes s n = Some i \<Longrightarrow> ixattrs i = [] \<Longrightarrow> gives s (stage_xattrs n) []"
  unfolding stage_xattrs_def
  by (rule gives_handlers(1), rule gives_bind, rule gives_attribute(1), assumption) (simp add: gives_return)

lemma gives_ancestor:
  assumes tame: "tame s" and "fs_inodes s fd = Some i" "ikind i = KDir"
  shows "gives s (validate_ancestor root_tree fd opened) ()"
  unfolding validate_ancestor_def
  by (rule gives_bind [OF gives_fstat [OF assms(2)]], rule gives_seq [OF gives_check], simp add: stat_of_def assms(3), simp,
      rule gives_seq [OF gives_check], use tameD(1) [OF tame assms(2)] in \<open>simp add: stat_of_def\<close>,
      rule gives_bind [OF gives_xattrs [OF assms(2)]], use tameD(1) [OF tame assms(2)] in simp)
    (rule gives_check, simp add: dangerous_xattrs_def)

lemma real_dir_kind: "real_dir s d [c] = Some n \<Longrightarrow> \<exists>i. fs_inodes s n = Some i \<and> ikind i = KDir"
  by (auto split: option.splits if_splits)

lemma real_dir_first: "real_dir s d (c # cs) = Some n \<Longrightarrow> \<exists>k. real_dir s d [c] = Some k \<and> real_dir s k cs = Some n"
  by (auto split: option.splits if_splits)

lemma gives_descend: "tame s \<Longrightarrow> real_dir s fd cs = Some n \<Longrightarrow> gives s (descend_checked root_tree fd opened cs) n"
proof (induction cs arbitrary: fd opened)
  case (Cons c cs)
  obtain k where k: "real_dir s fd [c] = Some k" "real_dir s k cs = Some n" using real_dir_first [OF Cons.prems(2)] by blast
  then obtain i where i: "fs_inodes s k = Some i" "ikind i = KDir" using real_dir_kind by blast
  show ?case unfolding descend_checked.simps
    by (rule gives_bind [OF gives_open_dir [OF k(1)]], rule gives_seq [OF gives_ancestor [OF Cons.prems(1) i]], rule Cons.IH [OF Cons.prems(1) k(2)])
qed (simp add: gives_return)

lemma gives_present:
  "tame s \<Longrightarrow> real_dir s fd cs = Some n \<Longrightarrow> gives s (descend_present root_tree fd opened cs) (Some n)"
proof (induction cs arbitrary: fd opened)
  case (Cons c cs)
  obtain k where k: "real_dir s fd [c] = Some k" "real_dir s k cs = Some n" using real_dir_first [OF Cons.prems(2)] by blast
  then obtain i where i: "fs_inodes s k = Some i" "ikind i = KDir" using real_dir_kind by blast
  have open_it: "gives s (catchW (bindW (os_open_dir_at fd c) (\<lambda>n. return (Some n)))
      (\<lambda>e. if e = OSError ENOENT then return None else raise e)) (Some k)"
    by (rule gives_catch, rule gives_bind [OF gives_open_dir [OF k(1)]], rule gives_return)
  show ?case unfolding descend_present.simps
    by (rule gives_bind [OF open_it], unfold option.case, rule gives_seq [OF gives_ancestor [OF Cons.prems(1) i]], rule Cons.IH [OF Cons.prems(1) k(2)])
qed (simp add: gives_return)

lemma gives_absent:
  "tame s \<Longrightarrow> cs = pre @ c # post \<Longrightarrow> real_dir s fd pre = Some d \<Longrightarrow> lookup s d c = None
    \<Longrightarrow> gives s (descend_present root_tree fd opened cs) None"
proof (induction pre arbitrary: fd opened cs)
  case Nil
  have "gives s (catchW (bindW (os_open_dir_at fd c) (\<lambda>n. return (Some n)))
      (\<lambda>e. if e = OSError ENOENT then return None else raise e)) None"
    unfolding os_open_dir_at_def
    by (rule gives_missing [where r = "Inl (OSError ENOENT)"], rule refl)
      (use Nil in \<open>auto simp: do_open_dir_at_def do_open_at_def\<close>)
  then have "gives s (descend_present root_tree fd opened (c # post)) None"
    unfolding descend_present.simps by (rule gives_bind) (simp add: gives_return)
  then show ?case using Nil(2) by simp
next
  case (Cons c' pre)
  obtain k where k: "real_dir s fd [c'] = Some k" "real_dir s k pre = Some d" using real_dir_first [OF Cons.prems(3)] by blast
  then obtain i where i: "fs_inodes s k = Some i" "ikind i = KDir" using real_dir_kind by blast
  have open_it: "gives s (catchW (bindW (os_open_dir_at fd c') (\<lambda>n. return (Some n)))
      (\<lambda>e. if e = OSError ENOENT then return None else raise e)) (Some k)"
    by (rule gives_catch, rule gives_bind [OF gives_open_dir [OF k(1)]], rule gives_return)
  have "gives s (descend_present root_tree k (opened @ [c']) (pre @ c # post)) None"
    by (rule Cons.IH [OF Cons.prems(1) refl k(2) Cons.prems(4)])
  then have "gives s (descend_present root_tree fd opened (c' # pre @ c # post)) None"
    unfolding descend_present.simps
    by (rule_tac gives_bind [OF open_it]) (unfold option.case, rule gives_seq [OF gives_ancestor [OF Cons.prems(1) i]])
  then show ?case using Cons.prems(2) by simp
qed

lemma canonical_path:
  assumes "anchor p = [47]" "components p \<noteq> []"
  shows "actual_path production_stage_paths p = Inr p" "drop 1 (parts p) = components p"
    "last_name p = last (components p)" "components (parent_path p) = butlast (components p)" "anchor (parent_path p) = [47]"
  using assms
  by (auto simp: actual_path_def production_stage_paths_def is_absolute_def root_path_def parts_def last_name_def
      parent_path_def relative_parts_def starts_with_iff)

lemma gives_path_state:
  assumes tame: "tame s" and p: "anchor p = [47]" "components p \<noteq> []"
    and v: "if v then \<exists>i. there s (components p) i else gone s (components p)"
  shows "gives s (path_state root_tree p) v"
proof -
  obtain ri where ri: "fs_inodes s root_inode = Some ri" "ikind ri = KDir" using tameD(3) [OF tame] by blast
  note start = gives_ancestor [OF tame ri]
  have cs: "components p = butlast (components p) @ [last (components p)]" using p(2) by simp
  have final: "gives s (case real_dir s root_inode (butlast (components p)) of None \<Rightarrow> return False
      | Some d \<Rightarrow> bindW (catchW (bindW (os_stat_at d (last_name p)) (\<lambda>m. return (Some m)))
            (\<lambda>e. if e = OSError ENOENT then return None else raise e)) (\<lambda>found.
          case found of None \<Rightarrow> return False
          | Some m \<Rightarrow> seqW (stage_check (st_kind m = KLnk) ''symlink_or_type_conflict'') (return True))) v"
    if "real_dir s root_inode (butlast (components p)) = None \<Longrightarrow> \<not> v"
  proof (cases "real_dir s root_inode (butlast (components p))")
    case None
    then show ?thesis using that by (simp add: gives_return)
  next
    case (Some d)
    note d = this
    show ?thesis
    proof (cases "lookup s d (last (components p))")
      case None
      then have "\<not> v" using v d by (auto simp: there_def split: if_splits)
      have "gives s (catchW (bindW (os_stat_at d (last_name p)) (\<lambda>m. return (Some m)))
            (\<lambda>e. if e = OSError ENOENT then return None else raise e)) None"
        unfolding os_stat_at_def
        by (rule gives_missing [where r = "Inl (OSError ENOENT)"], rule refl)
          (use None p in \<open>auto simp: do_stat_at_def canonical_path\<close>)
      then show ?thesis using \<open>\<not> v\<close> unfolding d option.case by (rule_tac gives_bind) (auto simp: gives_return)
    next
      case (Some n)
      then obtain i where i: "fs_inodes s n = Some i" using tameD(4) [OF tame] by blast
      have v: "v"
      proof (rule ccontr)
        assume "\<not> v"
        then obtain pre c post d' where g: "components p = pre @ c # post" "real_dir s root_inode pre = Some d'" "lookup s d' c = None"
          using v by (auto simp: gone_def)
        show False
        proof (cases "post = []")
          case True
          then have "butlast (components p) = pre" "last (components p) = c" unfolding g(1) by simp_all
          then show False using g(2,3) Some d by simp
        next
          case False
          then have "butlast (components p) = pre @ c # butlast post" using g by (simp add: butlast_append)
          then have "real_dir s d' (c # butlast post) = Some d" using d g(2) by (simp add: real_dir_append del: real_dir.simps)
          then show False using g(3) by simp
        qed
      qed
      have k: "ikind i \<noteq> KLnk" using tameD(1) [OF tame i] by simp
      have "gives s (catchW (bindW (os_stat_at d (last_name p)) (\<lambda>m. return (Some m)))
            (\<lambda>e. if e = OSError ENOENT then return None else raise e)) (Some (stat_of n i))"
        by (rule gives_catch, rule gives_bind [OF gives_stat_at gives_return]) (use Some i p in \<open>simp_all add: canonical_path\<close>)
      then show ?thesis unfolding d option.case
        by (rule gives_bind) (simp, rule gives_seq [OF gives_check], use k v in \<open>auto simp: stat_of_def gives_return\<close>)
    qed
  qed
  have parent: "gives s (descend_present root_tree root_inode [lit ''/''] (butlast (components p)))
      (real_dir s root_inode (butlast (components p)))
    \<and> (real_dir s root_inode (butlast (components p)) = None \<longrightarrow> \<not> v)"
  proof (cases "real_dir s root_inode (butlast (components p))")
    case (Some d)
    then show ?thesis using gives_present [OF tame Some] by simp
  next
    case None
    then have "\<not> v" using v by (auto simp: there_def)
    then obtain pre c post d where g: "components p = pre @ c # post" "real_dir s root_inode pre = Some d" "lookup s d c = None"
      using v by (auto simp: gone_def)
    have "post \<noteq> []" using g None by (metis butlast_snoc option.distinct(1))
    then have "butlast (components p) = pre @ c # butlast post" using g by (simp add: butlast_append)
    from gives_absent [OF tame this g(2,3)] None \<open>\<not> v\<close> show ?thesis by simp
  qed
  show ?thesis
    unfolding path_state_def root_tree_simps canonical_path(1) [OF p] lift_simps bindW_return canonical_path(2) [OF p]
    by (rule gives_bind [OF gives_simple(1)], rule gives_handlers(1), rule gives_seq [OF start],
        rule gives_bind [OF parent [THEN conjunct1]], rule final) (use parent in blast)
qed

subsection \<open>Directories and the marker\<close>

lemma gives_open_directory:
  assumes tame: "tame s" and p: "anchor p = [47]" "components p \<noteq> []"
    and d: "real_dir s root_inode (components p) = Some fd"
    and md: "\<And>md. mode = Some md \<Longrightarrow> \<exists>i. fs_inodes s fd = Some i \<and> imode i = md"
  shows "gives s (open_directory root_tree p mode) fd"
proof -
  obtain ri where ri: "fs_inodes s root_inode = Some ri" "ikind ri = KDir" using tameD(3) [OF tame] by blast
  have tail: "gives s (case mode of None \<Rightarrow> return fd
      | Some md \<Rightarrow> bindW (os_fstat fd) (\<lambda>m.
          seqW (stage_check (st_uid m \<noteq> tr_uid root_tree \<or> st_gid m \<noteq> tr_gid root_tree \<or> st_perm m \<noteq> md)
                  ''resource_desired_mismatch'')
          (bindW (stage_xattrs fd) (\<lambda>names. seqW (stage_check (names \<noteq> []) ''resource_desired_mismatch'') (return fd))))) fd"
  proof (cases mode)
    case (Some m)
    then obtain i where i: "fs_inodes s fd = Some i" "imode i = m" using md by blast
    note t = tameD(1) [OF tame i(1)]
    show ?thesis unfolding Some option.case
      by (rule gives_bind [OF gives_fstat [OF i(1)]], rule gives_seq [OF gives_check], use t i in \<open>simp add: stat_of_def\<close>,
          rule gives_bind [OF gives_xattrs [OF i(1)]], use t in simp, rule gives_seq [OF gives_check gives_return]) simp
  qed (simp add: gives_return)
  show ?thesis
    unfolding open_directory_def root_tree_simps(1) canonical_path(1) [OF p] lift_simps bindW_return canonical_path(2) [OF p]
    by (rule gives_bind [OF gives_simple(1)], rule gives_handlers(1), rule gives_seq [OF gives_ancestor [OF tame ri]],
        rule gives_bind [OF gives_descend [OF tame d]], rule tail)
qed

lemma gives_open_parent:
  assumes tame: "tame s" and p: "anchor p = [47]" "components p \<noteq> []" "butlast (components p) \<noteq> []"
    and d: "real_dir s root_inode (butlast (components p)) = Some fd"
  shows "gives s (open_parent root_tree p) (fd, last (components p))"
proof -
  have "gives s (open_directory root_tree (parent_path p) None) fd"
    by (rule gives_open_directory [OF tame]) (use p d in \<open>simp_all add: canonical_path\<close>)
  then show ?thesis unfolding open_parent_def canonical_path(3) [OF p(1,2)] by (rule gives_bind) (rule gives_return)
qed

text \<open>The two names of an existing entry.\<close>

lemma real_dir_last:
  assumes "real_dir s root_inode cs = Some fd" "cs \<noteq> []"
  obtains d i where "real_dir s root_inode (butlast cs) = Some d" "lookup s d (last cs) = Some fd"
    "fs_inodes s fd = Some i" "ikind i = KDir"
proof -
  have "real_dir s root_inode (butlast cs @ [last cs]) = Some fd" using assms by simp
  then show thesis using that by (auto simp: real_dir_append split: option.splits bind_splits if_splits)
qed

definition listable :: "pystr list \<Rightarrow> bool" where
  "listable names = (length names \<le> max_entries \<and> entry_bytes names \<le> max_entry_bytes \<and> list_all entry_ok names)"

lemma listable_sort: "sort xs = sort ys \<Longrightarrow> listable xs = listable ys"
proof -
  assume "sort xs = sort ys"
  then have m: "mset xs = mset ys" by (metis mset_sort)
  then have "length xs = length ys" "set xs = set ys" by (metis size_mset, metis set_mset_mset)
  moreover have "entry_bytes xs = entry_bytes ys"
    unfolding entry_bytes_def using m by (metis mset_map sum_mset_sum_list)
  ultimately show ?thesis by (simp add: listable_def list_all_iff)
qed

lemma gives_entries:
  "listable (map fst (entries_of s fd)) \<Longrightarrow> gives s (tree_entries fd) (sort (map fst (entries_of s fd)))"
  unfolding tree_entries_def
  by (rule gives_bind [OF gives_handlers(1) [OF gives_simple(2)]], rule gives_seq [OF gives_check gives_return])
    (simp add: listable_def)

lemma gives_mount:
  assumes tame: "tame s" and "fs_inodes s a = Some i" "fs_inodes s b = Some j"
  shows "gives s (check_mount a b reason) ()"
  unfolding check_mount_def linux_mount_id_def
  by (rule gives_bind [OF gives_catch [OF gives_attribute(2) [OF assms(2)]]],
      rule gives_bind [OF gives_catch [OF gives_attribute(2) [OF assms(3)]]], rule gives_check)
    (use tameD(2) [OF assms] in simp)

lemma gives_validate_directory:
  assumes tame: "tame s" and p: "anchor p = [47]" "components p \<noteq> []" "butlast (components p) \<noteq> []"
    and ex: "exact_directory root_tree s p md names" and names: "listable names"
    and ok: "\<And>ns. allowed = Some ns \<Longrightarrow> sort ns = sort names"
  shows "gives s (validate_directory root_tree p md allowed) (sort names)"
proof -
  obtain fd i where fd: "real_dir s root_inode (components p) = Some fd" "fs_inodes s fd = Some i" "imode i = md"
    "sort (map fst (ients i)) = sort names"
    using ex by (auto simp: exact_directory_def)
  obtain d where d: "real_dir s root_inode (butlast (components p)) = Some d" "lookup s d (last (components p)) = Some fd"
    using real_dir_last [OF fd(1) p(2)] by blast
  have di: "\<exists>j. fs_inodes s d = Some j"
    using d(2) by (auto simp: lookup_def entries_of_def split: option.splits)
  have e: "entries_of s fd = ients i" using fd(2) by (simp add: entries_of_def)
  have "listable (map fst (entries_of s fd))" using listable_sort [OF fd(4)] names e by simp
  from gives_entries [OF this] have entries: "gives s (tree_entries fd) (sort names)" using fd(4) e by simp
  have x: "gives s (check_no_xattrs fd reason) ()" for reason
    unfolding check_no_xattrs_def
    by (rule gives_bind [OF gives_xattrs [OF fd(2)] gives_check]) (use tameD(1) [OF tame fd(2)] in simp_all)
  from di obtain j where j: "fs_inodes s d = Some j" by blast
  have "gives s (open_directory root_tree p (Some md)) fd"
    by (rule gives_open_directory [OF tame p(1,2) fd(1)]) (use fd in simp)
  then show ?thesis unfolding validate_directory_def
    by (rule_tac gives_bind [OF gives_open_parent [OF tame p d(1)]], unfold prod.case, rule_tac gives_bind, assumption,
        rule_tac gives_bind [OF gives_fstat [OF fd(2)]], rule_tac gives_bind [OF gives_stat_at [OF d(2) fd(2)]],
        rule_tac gives_seq [OF gives_check], simp add: same_file_def, rule_tac gives_seq [OF gives_mount [OF tame fd(2) j]],
        rule_tac gives_bind [OF entries], rule_tac gives_seq [OF gives_check],
        use ok in \<open>simp split: option.split\<close>, rule_tac gives_seq [OF x gives_return])
qed

lemma gives_marker_bytes:
  "fs_inodes s fd = Some i \<Longrightarrow> remaining < fuel \<Longrightarrow>
     gives s (read_marker_bytes fuel fd pos remaining) (take remaining (drop pos (idata i)))"
proof (induction fuel arbitrary: pos remaining)
  case (Suc fuel)
  show ?case
  proof (cases "remaining = 0")
    case True
    then show ?thesis by (simp add: gives_return)
  next
    case False
    have rd: "returns (calm_fs 0 0 (\<lambda>s'. s' = s)) (os_read fd pos cnt)
        (\<lambda>bs. calm_fs 0 0 (\<lambda>s'. s' = s \<and> (\<exists>k > 0. bs = take (min cnt k) (drop pos (idata i)))))" for cnt
      unfolding os_read_def by (rule returns_syscall) (use Suc.prems(1) in \<open>auto intro: read_some\<close>)
    show ?thesis unfolding read_marker_bytes.simps if_not_P [OF False] gives_def
    proof (rule returns_at_bind [OF rd], fold gives_def)
      fix chunk assume "\<exists>k > 0. chunk = take (min (min 4096 remaining) k) (drop pos (idata i))"
      then obtain k where k: "0 < k" "chunk = take (min (min 4096 remaining) k) (drop pos (idata i))" by blast
      define n where "n = min (min 4096 remaining) k"
      have n: "0 < n" "n \<le> remaining" "chunk = take n (drop pos (idata i))" using k False by (auto simp: n_def)
      show "gives s (if chunk = [] then return []
          else bindW (read_marker_bytes fuel fd (pos + length chunk) (remaining - length chunk)) (\<lambda>rest. return (chunk @ rest)))
         (take remaining (drop pos (idata i)))"
      proof (cases "chunk = []")
        case True
        then have "drop pos (idata i) = []" using n by simp
        then show ?thesis using True by (simp add: gives_return)
      next
        case ne: False
        then have "0 < length chunk" "length chunk \<le> remaining" using n by auto
        moreover from this have "remaining - length chunk < fuel" using Suc.prems(2) by linarith
        ultimately have "gives s (read_marker_bytes fuel fd (pos + length chunk) (remaining - length chunk))
            (take (remaining - length chunk) (drop (pos + length chunk) (idata i)))"
          using Suc.prems(1) by (intro Suc.IH)
        from gives_bind [OF this gives_return]
        have "gives s (bindW (read_marker_bytes fuel fd (pos + length chunk) (remaining - length chunk)) (\<lambda>rest. return (chunk @ rest)))
            (chunk @ take (remaining - length chunk) (drop (pos + length chunk) (idata i)))" .
        moreover have "chunk @ take (remaining - length chunk) (drop (pos + length chunk) (idata i)) = take remaining (drop pos (idata i))"
        proof -
          have "take remaining (drop pos (idata i)) = take (length chunk + (remaining - length chunk)) (drop pos (idata i))"
            using n by simp
          also have "\<dots> = take (length chunk) (drop pos (idata i)) @ take (remaining - length chunk) (drop (pos + length chunk) (idata i))"
            unfolding take_add by (simp add: add.commute)
          also have "take (length chunk) (drop pos (idata i)) = chunk" using n(3) by (simp add: min_def)
          finally show ?thesis by simp
        qed
        ultimately show ?thesis using ne by simp
      qed
    qed
  qed
qed simp

lemma gives_read_file:
  assumes tame: "tame s" and p: "anchor p = [47]" "components p \<noteq> []" "butlast (components p) \<noteq> []"
    and ex: "exact_file root_tree s p content" and len: "length content \<le> max_marker_bytes"
  shows "gives s (read_file root_tree p content) ()"
proof -
  obtain d n i where i: "real_dir s root_inode (butlast (components p)) = Some d" "lookup s d (last (components p)) = Some n"
    "fs_inodes s n = Some i" "ikind i = KReg" "imode i = 384" "inlink i = 1" "idata i = content"
    using ex by (auto simp: exact_file_def there_def)
  note t = tameD(1) [OF tame i(3)]
  obtain j where j: "fs_inodes s d = Some j"
    using i(2) by (auto simp: lookup_def entries_of_def split: option.splits)
  have bytes: "gives s (marker_bytes_of n) content"
    unfolding marker_bytes_of_def
    using gives_marker_bytes [OF i(3), of "max_marker_bytes + 1" "max_marker_bytes + 2" 0] i(7) len by simp
  have x: "gives s (stage_xattrs n) []" by (rule gives_xattrs [OF i(3)]) (use t in simp)
  show ?thesis unfolding read_file_def read_file_at_def
    by (rule gives_bind [OF gives_open_parent [OF tame p i(1)]], unfold prod.case, rule gives_catch,
        rule gives_bind [OF gives_open_at [OF i(2,3)]], use i(4) in simp, rule gives_bind [OF gives_fstat [OF i(3)]],
        rule gives_bind [OF x], rule gives_seq [OF gives_check], use t i in \<open>simp add: marker_unlike_def stat_of_def\<close>,
        rule gives_seq [OF gives_mount [OF tame i(3) j]], rule gives_bind [OF bytes], rule gives_bind [OF gives_fstat [OF i(3)]],
        rule gives_bind [OF gives_stat_at [OF i(2,3)]], rule gives_seq [OF gives_check], simp,
        rule gives_bind [OF x gives_check]) simp
qed

subsection \<open>The installed state\<close>

definition root_reconciler :: "reconciler \<Rightarrow> bool" where
  "root_reconciler r = (rc_paths r = production_stage_paths \<and> rc_uid r = 0 \<and> rc_gid r = 0)"

lemma root_reconcilerD:
  "root_reconciler r \<Longrightarrow> rc_tree r = root_tree" "root_reconciler r \<Longrightarrow> rc_paths r = production_stage_paths"
  "root_reconciler r \<Longrightarrow> journal_policy r = Inr \<lparr>expected_owner_uid = 0, directory_mode = 448, file_mode = 384,
      stat_validator = None, trusted_prefix = None, expected_owner_gid = 0\<rparr>"
  by (simp_all add: root_reconciler_def rc_tree_def root_tree_def journal_policy_def mk_policy_def check_prefix_def)

definition state_names :: "pystr list" where
  "state_names = [last_name experiments_root, last_name journal_root]"

text \<open>No production; the four resources exact; the roots exact, with the validated journal of the plan.\<close>

definition installed :: "reconciler \<Rightarrow> journal_record \<Rightarrow> fs \<Rightarrow> bool" where
  "installed r record s =
     (tame s \<and> no_path r s \<and> first_exact r 4 s
      \<and> exact_directory root_tree s state_root 493 state_names
      \<and> exact_directory root_tree s journal_root 448 [journal_name]
      \<and> (\<exists>raw. exact_file root_tree s journal_path raw \<and> decode raw = Inr record))"

definition absent_units :: "reconciler \<Rightarrow> bool" where
  "absent_units r = (\<forall>u \<in> set unit_names. \<forall>n. load_state (rc_show r u n) = Inr ''absent'')"

lemma fixed_paths:
  "anchor state_root = [47]" "anchor journal_root = [47]" "anchor config_root = [47]" "anchor experiments_root = [47]"
  "anchor workspace_path = [47]" "anchor marker_path = [47]" "anchor journal_path = [47]"
  "components state_root \<noteq> []" "components journal_root \<noteq> []" "components journal_path \<noteq> []"
  "butlast (components state_root) \<noteq> []" "butlast (components journal_root) \<noteq> []" "butlast (components config_root) \<noteq> []"
  "butlast (components experiments_root) \<noteq> []" "butlast (components workspace_path) \<noteq> []"
  "butlast (components marker_path) \<noteq> []" "butlast (components journal_path) \<noteq> []"
  "butlast (components journal_path) = components journal_root" "last (components journal_path) = journal_name"
  by code_simp+

lemma production_anchors: "\<forall>p \<in> set production_candidates. anchor p = [47] \<and> components p \<noteq> []"
  by code_simp

lemma small_listable:
  assumes "length names \<le> 10" "list_all entry_ok names"
  shows "listable names"
proof -
  have "entry_bytes names \<le> 255 * length names"
    using assms(2) unfolding entry_bytes_def
    by (induction names) (auto simp: entry_ok_def split: sum.splits)
  with assms show ?thesis by (simp add: listable_def max_entries_def max_entry_bytes_def)
qed

lemma ascii_entry:
  "is_ascii c \<Longrightarrow> list_all (\<lambda>x. 32 \<le> x \<and> x < 127) c \<Longrightarrow> c \<notin> {[], lit ''.'', lit ''..''} \<Longrightarrow> length c \<le> 255 \<Longrightarrow> entry_ok c"
  by (auto simp: entry_ok_def encode_utf8_ascii list_ex_iff list_all_iff is_cf_def in_range_def)

lemma fixed_names:
  "last_name marker_path = lit ''disposable-ovh-lab''" "last_name workspace_path = lit ''ovh-lab''"
  "last_name experiments_root = lit ''experiments''" "last_name journal_root = lit ''journal''"
  by code_simp+

lemma fixed_listable:
  "listable []" "listable [last_name marker_path]" "listable [last_name workspace_path]" "listable state_names"
  "listable [journal_name]"
  unfolding state_names_def fixed_names
  by (rule small_listable, simp, simp add: journal_name_def the_install_id_def, (intro conjI)?,
      (rule ascii_entry; simp add: lit_def is_ascii_def)?, (rule ascii_entry; simp add: lit_def is_ascii_def)?)+

lemma gives_for: "(\<And>x. x \<in> set xs \<Longrightarrow> gives s (f x) ()) \<Longrightarrow> gives s (forW xs f) ()"
  by (induction xs) (auto intro: gives_return gives_seq)

lemma gives_refuse:
  assumes r: "root_reconciler r" and tame: "tame s" and no: "no_path r s" "absent_units r"
  shows "gives s (refuse_production r) ()"
  unfolding refuse_production_def
proof (rule gives_seq; rule gives_for)
  fix p assume p: "p \<in> set production_candidates"
  then have "gone s (components p)" using no(1) root_reconcilerD(2) [OF r] by (simp add: no_path_def)
  then have "gives s (path_state root_tree p) False"
    using gives_path_state [OF tame, of p False] production_anchors p by auto
  then show "gives s (check_no_path r p) ()"
    unfolding check_no_path_def root_reconcilerD(1) [OF r]
    by (rule_tac gives_bind [where x = "(False, False)"], rule_tac gives_handlers(2), rule_tac gives_bind, assumption,
        rule_tac gives_bind, assumption, rule_tac gives_return)
      (simp, rule gives_seq; rule gives_check; simp)
next
  fix u assume u: "u \<in> set unit_names"
  have "returns (calm_fs 0 0 (\<lambda>s'. s' = s)) (run_show r u) (\<lambda>a. calm_fs 0 0 (\<lambda>s'. s' = s \<and> load_state a = Inr ''absent''))"
    unfolding run_show_def by (rule returns_syscall) (use no(2) u in \<open>auto simp: absent_units_def\<close>)
  then have "gives s (service_state r u) ''absent''"
    unfolding service_state_def gives_def
    by (rule returns_at_bind [OF returns_catch]) (fold gives_def, simp add: gives_return)
  then show "gives s (check_no_unit r u) ()"
    unfolding check_no_unit_def
    by (rule_tac gives_bind [OF gives_catch], assumption) (rule gives_seq; rule gives_check; simp)
qed

text \<open>Locks do not matter.\<close>

lemma locks_simps [simp]:
  "entries_of (s\<lparr>fs_locks := l\<rparr>) = entries_of s" "lookup (s\<lparr>fs_locks := l\<rparr>) = lookup s"
  "tame (s\<lparr>fs_locks := l\<rparr>) = tame s"
  by (auto simp: entries_of_def lookup_def tame_def fun_eq_iff)

lemma locks_real_dir [simp]: "real_dir (s\<lparr>fs_locks := l\<rparr>) d cs = real_dir s d cs"
  by (induction cs arbitrary: d) (auto split: option.split)

lemma locks_tree [simp]:
  "gone (s\<lparr>fs_locks := l\<rparr>) cs = gone s cs" "there (s\<lparr>fs_locks := l\<rparr>) cs i = there s cs i"
  "exact_directory t (s\<lparr>fs_locks := l\<rparr>) p md names = exact_directory t s p md names"
  "exact_file t (s\<lparr>fs_locks := l\<rparr>) p content = exact_file t s p content"
  by (simp_all add: gone_def there_def exact_directory_def exact_file_def)

lemma locks_installed [simp]: "installed r record (s\<lparr>fs_locks := l\<rparr>) = installed r record s"
  by (simp add: installed_def first_exact_def no_path_def)

lemma exact_there: "exact_directory root_tree s p md names \<Longrightarrow> components p \<noteq> [] \<Longrightarrow> \<exists>i. there s (components p) i"
  unfolding exact_directory_def root_tree_simps there_def
  by (elim exE conjE, erule real_dir_last, assumption) blast

lemma gives_raw_prefix:
  assumes r: "root_reconciler r" and tame: "tame s" and ex: "first_exact r 4 s"
  shows "gives s (raw_prefix_length r) 4"
proof -
  note e = ex [unfolded first_exact_def root_reconcilerD(1) [OF r], simplified]
  have there: "\<exists>i. there s (components config_root) i" "\<exists>i. there s (components experiments_root) i"
    "\<exists>i. there s (components workspace_path) i" "\<exists>i. there s (components marker_path) i"
    using e exact_there [OF _ fixed_components(1)] exact_there [OF _ fixed_components(2)] exact_there [OF _ fixed_components(3)]
    by (blast, blast, blast, auto simp: exact_file_def)
  have state: "gives s (path_state root_tree p) True" if "anchor p = [47]" "components p \<noteq> []" "\<exists>i. there s (components p) i" for p
    using gives_path_state [OF tame that(1,2), of True] that(3) by simp
  show ?thesis unfolding raw_prefix_length_def root_reconcilerD(1) [OF r]
    by (rule gives_bind, rule state [OF fixed_paths(3) fixed_components(1) there(1)],
        rule gives_bind, rule state [OF fixed_paths(4) fixed_components(2) there(2)],
        rule gives_bind, rule state [OF fixed_paths(5) fixed_components(3) there(3)],
        rule gives_bind, rule state [OF fixed_paths(6) fixed_components(4) there(4)])
      (simp add: prefix_of_def gives_return)
qed

lemma gives_prefix_length:
  assumes r: "root_reconciler r" and tame: "tame s" and ex: "first_exact r 4 s"
    and len: "length (pl_marker_bytes (rc_plan r)) \<le> max_marker_bytes"
  shows "gives s (prefix_length r allow repair None) 4"
proof -
  note e = ex [unfolded first_exact_def root_reconcilerD(1) [OF r], simplified]
  have dir: "gives s (bindW (validate_directory root_tree p md (Some names)) (\<lambda>_. return ())) ()"
    if "anchor p = [47]" "components p \<noteq> []" "butlast (components p) \<noteq> []" "exact_directory root_tree s p md names" "listable names"
    for p md names
    by (rule gives_bind [OF gives_validate_directory [OF tame that(1-5)] gives_return]) simp
  show ?thesis unfolding prefix_length_def root_reconcilerD(1) [OF r]
    by (rule gives_bind [OF gives_raw_prefix [OF r tame ex]], rule gives_seq [OF gives_onlyif], rule gives_catch, rule dir,
        (rule fixed_paths fixed_components)+, use e in simp, simp add: config_entries_def fixed_listable,
        rule gives_seq [OF gives_onlyif], rule dir,
        (rule fixed_paths fixed_components)+, use e in simp, simp add: experiment_entries_def fixed_listable,
        rule gives_seq [OF gives_onlyif], rule dir,
        (rule fixed_paths fixed_components)+, use e in simp, rule fixed_listable,
        rule gives_seq [OF gives_onlyif], rule gives_read_file [OF tame fixed_paths(6) fixed_components(4) fixed_paths(16) _ len],
        use e in simp, rule gives_return)
qed

subsection \<open>The journal\<close>

abbreviation root_policy :: policy where
  "root_policy \<equiv> \<lparr>expected_owner_uid = 0, directory_mode = 448, file_mode = 384,
      stat_validator = None, trusted_prefix = None, expected_owner_gid = 0\<rparr>"

lemma gives_raise_when: "\<not> c \<Longrightarrow> gives s (raise_when c e) ()"
  by (simp add: gives_return)

lemma gives_walk:
  "tame s \<Longrightarrow> real_dir s fd cs = Some n \<Longrightarrow> gives s (walk root_policy None fd opened cs) n"
proof (induction cs arbitrary: fd opened)
  case (Cons c cs)
  obtain k where k: "real_dir s fd [c] = Some k" "real_dir s k cs = Some n" using real_dir_first [OF Cons.prems(2)] by blast
  then obtain i where i: "fs_inodes s k = Some i" "ikind i = KDir" using real_dir_kind by blast
  show ?case unfolding walk.simps Let_def
    by (rule gives_bind [OF gives_open_dir [OF k(1)]], simp, rule gives_bind [OF gives_fstat [OF i(1)]],
        rule gives_seq [OF gives_raise_when Cons.IH [OF Cons.prems(1) k(2)]])
      (use tameD(1) [OF Cons.prems(1) i(1)] i in \<open>simp add: accepts_ancestor_def stat_of_def below_boundary_def\<close>)
qed (simp add: gives_return)

lemma root_path_safe:
  "is_absolute journal_root" "starts_with (lit ''/'') (path_str journal_root)" "path_str journal_root \<noteq> lit ''/''"
  "\<not> starts_with (lit ''//'') (path_str journal_root)" "drop 1 (parts journal_root) = components journal_root"
  by code_simp+

lemma journal_components:
  "components journal_root = [lit ''var'', lit ''lib'', lit ''kitdev-sandboxes'', lit ''journal'']"
  by code_simp

lemma root_path_parts: "safe_parts (parts journal_root)"
  unfolding safe_parts_def root_path_safe(5) journal_components
  by (simp add: safe_path_component_def lit_def encode_utf8_ascii is_ascii_def is_c0_c1_def is_cf_def in_range_def)

lemma gives_open_root:
  assumes tame: "tame s" and ex: "exact_directory root_tree s journal_root 448 names"
    and d: "real_dir s root_inode (components journal_root) = Some d"
  shows "gives s (open_root root_policy journal_root) d"
proof -
  obtain ri where ri: "fs_inodes s root_inode = Some ri" "ikind ri = KDir" using tameD(3) [OF tame] by blast
  obtain i where i: "fs_inodes s d = Some i" "imode i = 448" using ex d by (auto simp: exact_directory_def)
  have k: "ikind i = KDir" using real_dir_last [OF d fixed_paths(9)] i(1) by (metis option.inject)
  show ?thesis unfolding open_root_def
    by (rule gives_seq [OF gives_raise_when], simp add: root_path_safe, rule gives_seq [OF gives_raise_when],
        simp add: root_path_safe root_path_parts, rule gives_bind [OF gives_simple(1)], rule gives_handlers(3),
        unfold open_checked_def Let_def, rule gives_seq [OF gives_raise_when], simp, rule gives_bind [OF gives_fstat [OF ri(1)]],
        rule gives_seq [OF gives_raise_when], use tameD(1) [OF tame ri(1)] ri in \<open>simp add: accepts_ancestor_def stat_of_def\<close>,
        simp, unfold root_path_safe(5) [simplified], rule gives_bind [OF gives_walk [OF tame d]], rule gives_bind [OF gives_fstat [OF i(1)]],
        rule gives_seq [OF gives_raise_when gives_return])
      (use tameD(1) [OF tame i(1)] i k in \<open>simp add: accepts_def stat_of_def\<close>)
qed

lemma gives_locked:
  assumes "gives s (open_root pol path) d" "fs_locks s d = Unlocked"
    and body: "gives (s\<lparr>fs_locks := (fs_locks s)(d := Exclusive)\<rparr>)
      (body \<lparr>ses_root_fd = d, ses_exclusive = True, ses_closed = False\<rparr>) x"
  shows "gives s (bindW (locked pol path True body) (\<lambda>(x, _). return x)) x"
proof -
  let ?s = "s\<lparr>fs_locks := (fs_locks s)(d := Exclusive)\<rparr>"
  let ?ses = "\<lparr>ses_root_fd = d, ses_exclusive = True, ses_closed = False\<rparr>"
  have lock: "returns (calm_fs 0 0 (\<lambda>s'. s' = s)) (catchW (os_flock d True)
      (\<lambda>e. if e = BlockingIOError then raise (JournalConflict ''journal directory is locked'') else raise e))
      (\<lambda>_. calm_fs 0 0 (\<lambda>s'. s' = ?s))"
    unfolding os_flock_def
    by (rule returns_catch, rule returns_syscall) (simp add: do_flock_def assms(2))
  have same: "do_unlock d ?s = s" by (simp add: do_unlock_def assms(2) [symmetric])
  have unlock: "returns (calm_fs 0 0 (\<lambda>s'. s' = ?s)) (bindW (os_close_locked d) (\<lambda>_. return y))
      (\<lambda>z. calm_fs 0 0 (\<lambda>s'. s' = s \<and> z = y))" for y
    unfolding os_close_locked_def
    by (rule returns_bind [OF returns_syscall [where Q = "\<lambda>_ s'. s' = s"]], simp add: same, rule returns_return)
      (simp add: calm_fs_def)
  have final: "returns (calm_fs 0 0 (\<lambda>s'. s' = ?s))
      (finallyW (bindW (body ?ses) (\<lambda>x. return (x, session_close ?ses))) (os_close_locked d))
      (\<lambda>z. calm_fs 0 0 (\<lambda>s'. s' = s \<and> z = (x, session_close ?ses)))"
    unfolding returns_def
  proof (intro allI impI)
    fix w assume w: "calm_fs 0 0 (\<lambda>s'. s' = ?s) w"
    have "gives ?s (bindW (body ?ses) (\<lambda>x. return (x, session_close ?ses))) (x, session_close ?ses)"
      by (rule gives_bind [OF body gives_return])
    then obtain w1 where w1: "bindW (body ?ses) (\<lambda>x. return (x, session_close ?ses)) w = (Ret (x, session_close ?ses), w1)"
        "calm_fs 0 0 (\<lambda>s'. s' = ?s) w1"
      using w unfolding gives_def returns_def calm_fs_def by blast
    have "\<exists>z w'. bindW (os_close_locked d) (\<lambda>_. return (x, session_close ?ses)) w1 = (Ret z, w')
        \<and> calm_fs 0 0 (\<lambda>s'. s' = s \<and> z = (x, session_close ?ses)) w'"
      using unlock [of "(x, session_close ?ses)"] w1(2) unfolding returns_def by blast
    then show "\<exists>z w'. finallyW (bindW (body ?ses) (\<lambda>x. return (x, session_close ?ses))) (os_close_locked d) w = (Ret z, w')
        \<and> calm_fs 0 0 (\<lambda>s'. s' = s \<and> z = (x, session_close ?ses)) w'"
      unfolding finallyW_def w1(1) by simp
  qed
  have run: "gives s (locked pol path True body) (x, session_close ?ses)"
    unfolding locked_def Let_def
  proof (rule gives_bind [OF assms(1)])
    show "gives s (seqW (catchW (os_flock d True)
        (\<lambda>e. if e = BlockingIOError then raise (JournalConflict ''journal directory is locked'') else raise e))
      (finallyW (bindW (body ?ses) (\<lambda>x. return (x, session_close ?ses))) (os_close_locked d))) (x, session_close ?ses)"
      unfolding gives_def by (rule returns_seq [OF lock final])
  qed
  show ?thesis by (rule gives_bind [OF run]) (simp add: gives_return)
qed

definition validated_record :: "reconciler \<Rightarrow> journal_record \<Rightarrow> bool" where
  "validated_record r record =
     (\<not> record_unlike r record \<and> transitions record = [PLANNED, APPLYING, APPLIED, VALIDATED])"

lemma advanced_validated:
  assumes "decode raw = Inr record" "transitions record = [PLANNED, APPLYING, APPLIED, VALIDATED]"
  shows "\<exists>next_record. advanced record ROLLING_BACK = Inr next_record"
proof -
  have "valid_journal record" using decode_canonical [OF assms(1)] by blast
  then show ?thesis using assms(2)
    unfolding valid_journal_def mk_journal_def advanced_def
    by (auto simp: thenR_eq_Inr bindR_eq_Inr raise_if_def max_transitions_def state_of_def split: if_splits)
qed

lemma journal_scan: "scan_entries 0 0 [journal_name] = Inr ()"
  by (simp add: journal_name_def the_install_id_def safe_path_component_def lit_def encode_utf8_ascii is_ascii_def
      is_c0_c1_def is_cf_def in_range_def max_directory_entries_def max_journal_bytes_def)

lemma journal_no_temp: "temp_candidates journal_name [journal_name] = []"
proof -
  have "\<not> starts_with (temp_prefix journal_name) journal_name" using temp_not_published by blast
  then show ?thesis by (simp add: temp_candidates_def)
qed

lemma stage_ids:
  "plain_text the_install_id \<and> is_stable_id the_install_id" "plain_text the_plan_id \<and> is_stable_id the_plan_id"
  by (simp_all add: the_install_id_def the_plan_id_def lit_def plain_text_def plain_char_def is_stable_id_def full_class_def
      id_char_def char_class_defs)

lemma journal_filename_stage: "journal_filename the_install_id = Inr journal_name"
  using stage_ids(1) by (simp add: journal_filename_def plain_text_checked journal_name_def del: bindR_eq_Inr)

lemma gives_metadata:
  assumes tame: "tame s" and ex: "exact_directory root_tree s journal_root 448 names"
    and d: "real_dir s root_inode (components journal_root) = Some d" and jf: "exact_file root_tree s journal_path raw"
    and r: "root_reconciler r" and one: "1 \<in> set links"
  shows "gives s (validate_journal_metadata r links) 1"
proof -
  obtain n i where i: "lookup s d journal_name = Some n"
    "fs_inodes s n = Some i" "ikind i = KReg" "imode i = 384" "inlink i = 1"
    using jf d by (auto simp: exact_file_def there_def fixed_paths)
  note t = tameD(1) [OF tame i(2)]
  obtain j where j: "fs_inodes s d = Some j" "imode j = 448" using ex d by (auto simp: exact_directory_def)
  have x: "gives s (check_no_xattrs n reason) ()" for reason
    unfolding check_no_xattrs_def by (rule gives_bind [OF gives_xattrs [OF i(2)] gives_check]) (use t in simp_all)
  show ?thesis unfolding validate_journal_metadata_def root_reconcilerD(1) [OF r]
    by (rule gives_bind [OF gives_open_directory [OF tame fixed_paths(2,9) d]], use j in simp, rule gives_handlers(1),
        rule gives_bind [OF gives_open_at [OF i(1,2)]], use i in simp, rule gives_bind [OF gives_fstat [OF i(2)]],
        rule gives_seq [OF gives_check], use t i one in \<open>simp add: marker_unlike_def stat_of_def\<close>,
        rule gives_seq [OF x], rule gives_seq [OF gives_mount [OF tame i(2) j(1)]])
      (use gives_return [of s "1::nat"] i in \<open>simp add: stat_of_def\<close>)
qed

lemma gives_prepare:
  assumes inst: "installed r record s" and rec: "validated_record r record" and r: "root_reconciler r"
    and d: "real_dir s root_inode (components journal_root) = Some d"
  shows "gives s (prepare_existing_record r root_policy \<lparr>ses_root_fd = d, ses_exclusive = ex, ses_closed = False\<rparr>) record"
proof -
  obtain raw where tame: "tame s" and dir: "exact_directory root_tree s journal_root 448 [journal_name]"
    and jf: "exact_file root_tree s journal_path raw" and raw: "decode raw = Inr record"
    using inst by (auto simp: installed_def)
  obtain n i where i: "lookup s d journal_name = Some n"
    "fs_inodes s n = Some i" "ikind i = KReg" "imode i = 384" "inlink i = 1" "idata i = raw"
    using jf d by (auto simp: exact_file_def there_def fixed_paths)
  note t = tameD(1) [OF tame i(2)]
  obtain j where j: "fs_inodes s d = Some j" "sort (map fst (ients j)) = sort [journal_name]"
    using dir d by (auto simp: exact_directory_def)
  have "length (map fst (ients j)) = 1" "set (map fst (ients j)) = {journal_name}"
    using arg_cong [OF j(2), of length] arg_cong [OF j(2), of set] by simp_all
  then have ents: "map fst (entries_of s d) = [journal_name]"
    using j(1) by (cases "ients j") (auto simp: entries_of_def)
  have dec: "decode (idata i) = Inr record" using raw i by simp
  have acc: "accepts root_policy (stat_of n i) False [1, 2]" using t i by (simp add: accepts_def stat_of_def)
  have read: "gives s (read_at root_policy d journal_name [1, 2]) (record, stat_of n i)"
    unfolding gives_def by (rule returns_read_at [OF i(1,2) dec acc])
  have entries: "gives s (directory_entries d) [journal_name]"
    unfolding directory_entries_def
    by (rule gives_handlers(3), rule gives_bind [OF gives_simple(2)])
      (unfold ents journal_scan lift_simps bindW_return, rule gives_return)
  have residue: "gives s (inspect_residue_at root_policy d journal_name) (record, 1, [])"
    unfolding inspect_residue_at_def
    by (rule gives_bind [OF read], unfold prod.case, rule gives_bind [OF entries])
      (use gives_return [of s "(record, 1 :: nat, [])"] i in \<open>simp add: journal_no_temp Let_def stat_of_def\<close>)
  have session: "gives s (session_inspect_residue root_policy \<lparr>ses_root_fd = d, ses_exclusive = ex, ses_closed = False\<rparr> the_install_id)
      (record, 1, [])"
    unfolding session_inspect_residue_def require_open_def journal_filename_stage lift_simps bindW_return
    by (rule gives_seq [OF gives_raise_when], simp, unfold session.simps, rule residue)
  obtain next_record where adv: "advanced record ROLLING_BACK = Inr next_record"
    using advanced_validated [OF raw] rec by (auto simp: validated_record_def)
  have st: "state_of record = VALIDATED" using rec by (simp add: validated_record_def state_of_def)
  show ?thesis unfolding prepare_existing_record_def
    by (rule gives_bind [OF gives_handlers(4) [OF session]], unfold prod.case assert_record_exact_def,
        rule gives_seq [OF gives_check], use rec in \<open>simp add: validated_record_def\<close>,
        rule gives_bind [OF gives_metadata [OF tame dir d jf r]], simp)
      (use st adv in \<open>simp add: gives_return seqW_def stage_check_def\<close>)
qed

definition rerun_result :: "reconciler \<Rightarrow> stage_result" where
  "rerun_result r =
     \<lparr>rs_operation = ''execute'', rs_journal_root = ''exact'', rs_journal_state = ''validated'', rs_transition_count = 4,
      rs_plan_hash = pl_plan_hash (rc_plan r), rs_bundle_hash = pl_bundle_hash (rc_plan r),
      rs_marker_hash = pl_marker_hash (rc_plan r), rs_resource_state = ''exact'', rs_workspace_empty = True,
      rs_retained_provenance = True, rs_next_action = ''stage-specific-approval''\<rparr>"

lemma gives_result:
  assumes r: "root_reconciler r" and tame: "tame s" and ex: "first_exact r 4 s" and rec: "validated_record r record"
  shows "gives s (mk_result r ''execute'' ''exact'' record 4) (rerun_result r)"
proof -
  have "exact_directory root_tree s workspace_path 448 []"
    using ex root_reconcilerD(1) [OF r] by (simp add: first_exact_def)
  from gives_validate_directory [OF tame fixed_paths(5) fixed_components(3) fixed_paths(15) this fixed_listable(1), of None]
  have "gives s (validate_directory root_tree workspace_path 448 None) []" by simp
  then have checked: "gives s (if (4::nat) < 3 then return True
      else bindW (validate_directory (rc_tree r) workspace_path 448 None) (\<lambda>entries. return (entries = []))) True"
    unfolding root_reconcilerD(1) [OF r] by (simp, rule_tac gives_bind) (auto intro: gives_return)
  have "length (transitions record) = 4" "state_of record = VALIDATED"
    using rec by (simp_all add: validated_record_def state_of_def)
  then show ?thesis unfolding mk_result_def
    by (rule_tac gives_bind [OF checked]) (use gives_return [of s "rerun_result r"] in \<open>simp add: rerun_result_def\<close>)
qed

lemma gives_state:
  "tame s \<Longrightarrow> anchor p = [47] \<Longrightarrow> components p \<noteq> [] \<Longrightarrow> exact_directory root_tree s p md names \<Longrightarrow> gives s (path_state root_tree p) True"
  using gives_path_state [of s p True] exact_there by auto

lemma entry_checks:
  "list_all state_entry_ok state_names" "list_all journal_entry_ok [journal_name]"
  by (simp_all add: state_names_def fixed_names state_entry_ok_def journal_entry_ok_def)

lemma list_all_sorted: "list_all P (sort xs) = list_all P xs"
  by (simp add: list_all_iff)

lemma gives_allocate:
  assumes inst: "installed r record s" and r: "root_reconciler r"
  shows "gives s (allocate_roots r) ''exact''"
proof -
  have tame: "tame s" and st: "exact_directory root_tree s state_root 493 state_names"
    and jr: "exact_directory root_tree s journal_root 448 [journal_name]"
    using inst by (auto simp: installed_def)
  note state = gives_validate_directory [OF tame fixed_paths(1,8,11) st fixed_listable(4), of None]
  note jour = gives_validate_directory [OF tame fixed_paths(2,9,12) jr fixed_listable(5), of None]
  have settle: "gives s (settle_state_root r) ''exact''"
    unfolding settle_state_root_def root_reconcilerD(1) [OF r]
    by (rule gives_bind [OF gives_state [OF tame fixed_paths(1,8) st]], simp, rule gives_bind [OF gives_catch],
        rule gives_bind [OF state gives_return], simp, unfold prod.case, rule gives_seq [OF gives_check gives_return])
      (simp add: list_all_sorted entry_checks)
  show ?thesis unfolding allocate_roots_def root_reconcilerD(1) [OF r]
    by (rule gives_bind [OF settle], rule gives_bind [OF gives_state [OF tame fixed_paths(2,9) jr]], simp,
        rule gives_bind [OF jour], simp, rule gives_seq [OF gives_check gives_return])
      (use entry_checks in simp)
qed

lemma gives_existing_roots:
  assumes inst: "installed r record s" and r: "root_reconciler r"
  shows "gives s (validate_existing_roots r) ()"
proof -
  obtain raw where tame: "tame s" and st: "exact_directory root_tree s state_root 493 state_names"
    and jr: "exact_directory root_tree s journal_root 448 [journal_name]" and jf: "exact_file root_tree s journal_path raw"
    using inst by (auto simp: installed_def)
  note state = gives_validate_directory [OF tame fixed_paths(1,8,11) st fixed_listable(4), of None]
  note jour = gives_validate_directory [OF tame fixed_paths(2,9,12) jr fixed_listable(5), of None]
  obtain d j where d: "real_dir s root_inode (components journal_root) = Some d" "fs_inodes s d = Some j" "imode j = 448"
    using jr by (auto simp: exact_directory_def)
  obtain n i where i: "lookup s d journal_name = Some n"
    "fs_inodes s n = Some i" "ikind i = KReg" "imode i = 384" "inlink i = 1"
    using jf d by (auto simp: exact_file_def there_def fixed_paths)
  note t = tameD(1) [OF tame i(2)]
  have x: "gives s (check_no_xattrs n reason) ()" for reason
    unfolding check_no_xattrs_def by (rule gives_bind [OF gives_xattrs [OF i(2)] gives_check]) (use t in simp_all)
  have entry: "gives s (journal_entry_check r d journal_name) ()"
    unfolding journal_entry_check_def root_reconcilerD(1) [OF r]
    by (rule gives_handlers(1), rule gives_bind [OF gives_open_at [OF i(1,2)]], use i in simp,
        rule gives_bind [OF gives_fstat [OF i(2)]], rule gives_bind [OF gives_stat_at [OF i(1,2)]],
        rule gives_seq [OF gives_check], use t i in \<open>simp add: marker_unlike_def stat_of_def same_file_def\<close>,
        rule gives_seq [OF x gives_mount [OF tame i(2) d(2)]])
  have entries: "gives s (validate_journal_entries r [journal_name]) ()"
    unfolding validate_journal_entries_def root_reconcilerD(1) [OF r]
    by (rule gives_bind [OF gives_open_directory [OF tame fixed_paths(2,9) d(1)]], use d in simp,
        rule gives_for) (use entry in simp)
  show ?thesis unfolding validate_existing_roots_def root_reconcilerD(1) [OF r]
    by (rule gives_bind [OF state], simp, rule gives_seq [OF gives_check], simp add: list_all_sorted entry_checks,
        rule gives_bind [OF jour], simp, rule gives_seq [OF gives_check])
      (use entry_checks entries in simp_all)
qed

lemma gives_execute_body:
  assumes inst: "installed r record s" and rec: "validated_record r record" and r: "root_reconciler r"
    and units: "absent_units r" and len: "length (pl_marker_bytes (rc_plan r)) \<le> max_marker_bytes"
    and d: "real_dir s root_inode (components journal_root) = Some d"
  shows "gives s (execute_body r root_policy ''exact'' \<lparr>ses_root_fd = d, ses_exclusive = True, ses_closed = False\<rparr>)
    (rerun_result r)"
proof -
  obtain raw where tame: "tame s" and no: "no_path r s" and ex: "first_exact r 4 s" and jf: "exact_file root_tree s journal_path raw"
    using inst by (auto simp: installed_def)
  have jp: "gives s (path_state root_tree journal_path) True"
    by (rule gives_path_state [OF tame fixed_paths(7,10)]) (use jf in \<open>auto simp: exact_file_def\<close>)
  note refuse = gives_refuse [OF r tame no units]
  have prologue: "gives s (execute_prologue r root_policy \<lparr>ses_root_fd = d, ses_exclusive = True, ses_closed = False\<rparr>) record"
    unfolding execute_prologue_def root_reconcilerD(1) [OF r]
    by (rule gives_seq [OF gives_existing_roots [OF inst r]], rule gives_seq [OF refuse], rule gives_bind [OF jp],
        rule gives_bind [OF gives_raw_prefix [OF r tame ex]], rule gives_seq [OF gives_check], simp, simp,
        rule gives_prepare [OF inst rec r d])
  have st: "state_of record = VALIDATED" using rec by (simp add: validated_record_def state_of_def)
  have "gives s (execute_length r record) 4"
    using gives_prefix_length [OF r tame ex len] by (simp add: execute_length_def st)
  moreover have "gives s (execute_from r root_policy \<lparr>ses_root_fd = d, ses_exclusive = True, ses_closed = False\<rparr> ''exact'' record 4)
      (rerun_result r)"
    unfolding execute_from_def st journal_state.case
    by (rule gives_seq [OF gives_check], simp, rule gives_seq [OF refuse gives_result [OF r tame ex rec]])
  ultimately show ?thesis unfolding execute_body_def by (intro gives_bind [OF prologue] gives_bind) 
qed

lemma execute_finds_installed:
  assumes "calm w" "w_euid w = 0" "w_egid w = 0"
    and "root_reconciler r" "absent_units r" "length (pl_marker_bytes (rc_plan r)) \<le> max_marker_bytes"
    and "installed r record (w_fs w)" "validated_record r record" "\<And>n. fs_locks (w_fs w) n = Unlocked"
  shows "\<exists>w'. stage_execute r w = (Ret (rerun_result r), w') \<and> w_fs w' = w_fs w"
proof -
  let ?s = "w_fs w"
  note r = assms(4)
  have tame: "tame ?s" and jr: "exact_directory root_tree ?s journal_root 448 [journal_name]" and no: "no_path r ?s"
    using assms(7) by (auto simp: installed_def)
  obtain d where d: "real_dir ?s root_inode (components journal_root) = Some d"
    using jr by (auto simp: exact_directory_def)
  have actual: "actual_path production_stage_paths journal_root = Inr journal_root"
    by (rule canonical_path [OF fixed_paths(2,9)])
  have body: "gives (?s\<lparr>fs_locks := (fs_locks ?s)(d := Exclusive)\<rparr>)
      (execute_body r root_policy ''exact'' \<lparr>ses_root_fd = d, ses_exclusive = True, ses_closed = False\<rparr>) (rerun_result r)"
    by (rule gives_execute_body [OF _ assms(8) r assms(5,6)]) (use assms(7) d in simp_all)
  have "gives ?s (under_lock r True (\<lambda>pol ses. execute_body r pol ''exact'' ses)) (rerun_result r)"
    unfolding under_lock_def root_reconcilerD(2) [OF r] root_reconcilerD(3) [OF r] actual lift_simps bindW_return
    by (rule gives_catch, rule gives_locked, rule gives_open_root [OF tame jr d], rule assms(9), rule body)
  then have "gives ?s (stage_execute r) (rerun_result r)"
    unfolding stage_execute_def require_execution_identity_def
    by (rule_tac gives_seq [OF gives_bind [OF gives_ids]], simp add: gives_check, rule_tac gives_seq [OF gives_refuse [OF r tame no assms(5)]],
        rule_tac gives_bind [OF gives_allocate [OF assms(7) r]])
  then show ?thesis using assms(1-3) unfolding gives_def returns_def calm_fs_def by blast
qed

end
