(* ===== verification/Stage05_Sample.thy ===== *)
theory Stage05_Sample
  imports Stage05_Rerun
begin























subsection \<open>Properties\<close>





end
